(* ===== verification/Flash_Prelude.thy ===== *)
theory Flash_Prelude
  imports
    Main
    "HOL-Library.Multiset"
    "HOL-Library.Sublist"
    "HOL-Library.Char_ord"
    "HOL-Library.List_Lexorder"
    "HOL-Library.Option_ord"
    "HOL-Library.Product_Lexorder"
begin

text \<open>
  What every component theory shares: the Rust result type as a sum with its sequencing
  combinators, the machine integers with their saturating and checked operations, byte strings
  with the parts of the standard library's \<open>str\<close> API the sources call, decimal printing and
  parsing, ordered maps as sorted association lists, and the generic lemmas on lists that the
  component proofs use.

  Orders: a Rust \<open>String\<close> is compared byte by byte, an \<open>Option\<close> has \<open>None\<close> first, a tuple is
  compared lexicographically. These are the instances of \<open>List_Lexorder\<close> over \<open>Char_ord\<close>,
  \<open>Option_ord\<close> and \<open>Product_Lexorder\<close>, so \<open>sort_key\<close> with a tuple key is \<open>sort_by\<close> with
  \<open>cmp(..).then_with(..)\<close> (both are stable).
\<close>

section \<open>Machine integers\<close>

text \<open>
  Unsigned integers are naturals and signed integers are integers; every operation of the
  source that can leave the range is written with its saturation or its check. The well-formedness
  predicates of the components state the ranges.
\<close>

type_synonym u16 = nat
type_synonym u32 = nat
type_synonym u64 = nat
type_synonym i32 = int
type_synonym i64 = int

definition u32_max :: nat where "u32_max = 2 ^ 32 - 1"
definition u64_max :: nat where "u64_max = 2 ^ 64 - 1"
definition u128_max :: nat where "u128_max = 2 ^ 128 - 1"
definition i32_min :: int where "i32_min = - (2 ^ 31)"
definition i32_max :: int where "i32_max = 2 ^ 31 - 1"
definition i64_min :: int where "i64_min = - (2 ^ 63)"
definition i64_max :: int where "i64_max = 2 ^ 63 - 1"

definition u64_saturating_add :: "u64 \<Rightarrow> u64 \<Rightarrow> u64" where
  "u64_saturating_add a b = min (a + b) u64_max"

definition u64_saturating_mul :: "u64 \<Rightarrow> u64 \<Rightarrow> u64" where
  "u64_saturating_mul a b = min (a * b) u64_max"

definition u64_saturating_sub :: "u64 \<Rightarrow> u64 \<Rightarrow> u64" where
  "u64_saturating_sub a b = a - b"

definition u32_saturating_add :: "u32 \<Rightarrow> u32 \<Rightarrow> u32" where
  "u32_saturating_add a b = min (a + b) u32_max"

definition i64_saturating_add :: "i64 \<Rightarrow> i64 \<Rightarrow> i64" where
  "i64_saturating_add a b = max i64_min (min i64_max (a + b))"

definition i64_saturating_sub :: "i64 \<Rightarrow> i64 \<Rightarrow> i64" where
  "i64_saturating_sub a b = max i64_min (min i64_max (a - b))"

definition i64_checked_sub :: "i64 \<Rightarrow> i64 \<Rightarrow> i64 option" where
  "i64_checked_sub a b = (if i64_min \<le> a - b \<and> a - b \<le> i64_max then Some (a - b) else None)"

definition u64_checked_add :: "u64 \<Rightarrow> u64 \<Rightarrow> u64 option" where
  "u64_checked_add a b = (if a + b \<le> u64_max then Some (a + b) else None)"

definition u64_checked_mul :: "u64 \<Rightarrow> u64 \<Rightarrow> u64 option" where
  "u64_checked_mul a b = (if a * b \<le> u64_max then Some (a * b) else None)"

definition u64_checked_sub :: "u64 \<Rightarrow> u64 \<Rightarrow> u64 option" where
  "u64_checked_sub a b = (if b \<le> a then Some (a - b) else None)"

definition u128_checked_mul :: "nat \<Rightarrow> nat \<Rightarrow> nat option" where
  "u128_checked_mul a b = (if a * b \<le> u128_max then Some (a * b) else None)"

definition u128_checked_pow :: "nat \<Rightarrow> nat \<Rightarrow> nat option" where
  "u128_checked_pow a n = (if a ^ n \<le> u128_max then Some (a ^ n) else None)"

text \<open>\<open>u64::try_from\<close> of a signed value, and \<open>div_ceil\<close> of an unsigned one.\<close>

definition u64_try_from_i64 :: "i64 \<Rightarrow> u64 option" where
  "u64_try_from_i64 x = (if 0 \<le> x then Some (nat x) else None)"

definition div_ceil :: "nat \<Rightarrow> nat \<Rightarrow> nat" where
  "div_ceil a b = (if a mod b = 0 then a div b else a div b + 1)"

named_theorems int_defs "definitions of the machine integer operations"

lemmas [int_defs] =
  u64_saturating_add_def u64_saturating_mul_def u64_saturating_sub_def u32_saturating_add_def
  i64_saturating_add_def i64_saturating_sub_def i64_checked_sub_def u64_checked_add_def
  u64_checked_mul_def u64_checked_sub_def u128_checked_mul_def u128_checked_pow_def
  u64_try_from_i64_def

named_theorems int_bounds "the limits of the machine integers"

lemmas [int_bounds] =
  u32_max_def u64_max_def u128_max_def i32_min_def i32_max_def i64_min_def i64_max_def

lemma u64_saturating_add_le [simp]: "u64_saturating_add a b \<le> u64_max"
  by (simp add: int_defs)

lemma u64_saturating_add_mono: "a \<le> u64_max \<Longrightarrow> a \<le> u64_saturating_add a b"
  by (simp add: int_defs)

lemma u64_saturating_add_0 [simp]: "a \<le> u64_max \<Longrightarrow> u64_saturating_add a 0 = a"
  by (simp add: int_defs)

text \<open>Two saturating additions in a row saturate the sum of all three.\<close>

lemma u64_saturating_add_assoc:
  "u64_saturating_add (u64_saturating_add a b) c = u64_saturating_add a (b + c)"
  by (simp add: int_defs)

lemma u64_saturating_add_mul:
  "u64_saturating_add a (u64_saturating_mul b c) = u64_saturating_add a (b * c)"
  by (simp add: int_defs)

text \<open>Folding a saturating addition over a list is the sum cut off at the maximum.\<close>

lemma fold_saturating_add:
  assumes "a \<le> u64_max"
  shows "fold (\<lambda>x t. u64_saturating_add t (f x)) xs a = min (a + sum_list (map f xs)) u64_max"
  using assms
proof (induction xs arbitrary: a)
  case Nil
  then show ?case by simp
next
  case (Cons x xs)
  have "fold (\<lambda>x t. u64_saturating_add t (f x)) xs (u64_saturating_add a (f x))
      = min (u64_saturating_add a (f x) + sum_list (map f xs)) u64_max"
    by (rule Cons.IH) simp
  then show ?case by (simp add: int_defs min_def)
qed

lemma div_ceil_ge: "0 < b \<Longrightarrow> a \<le> div_ceil a b * b"
proof -
  assume b: "0 < b"
  have e: "a = a div b * b + a mod b" by simp
  have "a mod b < b" using b by simp
  with e have "a \<le> a div b * b + b" by linarith
  moreover have "a mod b = 0 \<Longrightarrow> a \<le> a div b * b" using e by linarith
  ultimately show ?thesis by (simp add: div_ceil_def)
qed

lemma div_ceil_less: "0 < b \<Longrightarrow> div_ceil a b * b < a + b"
proof -
  assume b: "0 < b"
  have e: "a = a div b * b + a mod b" by simp
  show ?thesis
  proof (cases "a mod b = 0")
    case True
    then have "a div b * b = a" using e by linarith
    with True b show ?thesis by (simp add: div_ceil_def)
  next
    case False
    then have "a div b * b < a" using e by linarith
    with False show ?thesis by (simp add: div_ceil_def)
  qed
qed

lemma div_ceil_one [simp]: "div_ceil a (Suc 0) = a"
  by (simp add: div_ceil_def)

lemma div_ceil_dvd: "0 < b \<Longrightarrow> b dvd a \<Longrightarrow> div_ceil a b * b = a"
  by (simp add: div_ceil_def)

section \<open>Results and their sequencing\<close>

text \<open>
  A fallible function returns \<open>Inl e\<close> for \<open>Err(e)\<close> and \<open>Inr v\<close> for \<open>Ok(v)\<close>. The \<open>?\<close>
  operator is \<open>bindR\<close>; a guard with an early error return is \<open>ensure\<close>.
\<close>

fun bindR :: "'e + 'a \<Rightarrow> ('a \<Rightarrow> 'e + 'b) \<Rightarrow> 'e + 'b" where
  "bindR (Inl e) f = Inl e"
| "bindR (Inr x) f = f x"

definition ensure :: "bool \<Rightarrow> 'e \<Rightarrow> 'e + unit" where
  "ensure b e = (if b then Inr () else Inl e)"

fun for_each :: "('a \<Rightarrow> 'e + unit) \<Rightarrow> 'a list \<Rightarrow> 'e + unit" where
  "for_each f [] = Inr ()"
| "for_each f (x # xs) = bindR (f x) (\<lambda>_. for_each f xs)"

fun try_fold :: "('a \<Rightarrow> 's \<Rightarrow> 'e + 's) \<Rightarrow> 'a list \<Rightarrow> 's \<Rightarrow> 'e + 's" where
  "try_fold f [] s = Inr s"
| "try_fold f (x # xs) s = bindR (f x s) (try_fold f xs)"

fun map_result :: "('a \<Rightarrow> 'e + 'b) \<Rightarrow> 'a list \<Rightarrow> 'e + 'b list" where
  "map_result f [] = Inr []"
| "map_result f (x # xs) = bindR (f x) (\<lambda>y. bindR (map_result f xs) (\<lambda>ys. Inr (y # ys)))"

definition ok_or :: "'a option \<Rightarrow> 'e \<Rightarrow> 'e + 'a" where
  "ok_or r e = (case r of None \<Rightarrow> Inl e | Some x \<Rightarrow> Inr x)"

fun is_ok :: "'e + 'a \<Rightarrow> bool" where
  "is_ok (Inl e) = False"
| "is_ok (Inr x) = True"

fun map_err :: "('e \<Rightarrow> 'f) \<Rightarrow> 'e + 'a \<Rightarrow> 'f + 'a" where
  "map_err f (Inl e) = Inl (f e)"
| "map_err f (Inr x) = Inr x"

named_theorems result_simps "success of a sequenced computation"

lemma bindR_Inr [result_simps]: "bindR r f = Inr y \<longleftrightarrow> (\<exists>x. r = Inr x \<and> f x = Inr y)"
  by (cases r) auto

lemma bindR_Inl [result_simps]:
  "bindR r f = Inl e \<longleftrightarrow> r = Inl e \<or> (\<exists>x. r = Inr x \<and> f x = Inl e)"
  by (cases r) auto

lemma ensure_Inr [result_simps]: "ensure b e = Inr u \<longleftrightarrow> b"
  by (simp add: ensure_def)

lemma ensure_Inl [result_simps]: "ensure b e = Inl e' \<longleftrightarrow> \<not> b \<and> e' = e"
  by (auto simp: ensure_def)

lemma for_each_Inr [result_simps]: "for_each f xs = Inr u \<longleftrightarrow> (\<forall>x\<in>set xs. f x = Inr ())"
  by (induction xs) (auto simp: result_simps)

lemma ok_or_Inr [result_simps]: "ok_or r e = Inr x \<longleftrightarrow> r = Some x"
  by (simp add: ok_or_def split: option.splits)

lemma ok_or_Inl [result_simps]: "ok_or r e = Inl e' \<longleftrightarrow> r = None \<and> e' = e"
  by (auto simp: ok_or_def split: option.splits)

lemma map_err_Inr [result_simps]: "map_err f r = Inr x \<longleftrightarrow> r = Inr x"
  by (cases r) auto

lemma is_ok_iff: "is_ok r \<longleftrightarrow> (\<exists>x. r = Inr x)"
  by (cases r) auto

lemma bindR_assoc: "bindR (bindR r f) g = bindR r (\<lambda>x. bindR (f x) g)"
  by (cases r) auto

lemma try_fold_invariant:
  assumes "try_fold f xs m = Inr m'" and "P m"
    and "\<And>x a b. x \<in> set xs \<Longrightarrow> P a \<Longrightarrow> f x a = Inr b \<Longrightarrow> P b"
  shows "P m'"
  using assms by (induction xs arbitrary: m) (auto simp: result_simps)

lemma map_result_Inr [result_simps]:
  "map_result f xs = Inr ys \<longleftrightarrow> list_all2 (\<lambda>x y. f x = Inr y) xs ys"
proof (induction xs arbitrary: ys)
  case Nil
  then show ?case by auto
next
  case (Cons x xs)
  show ?case by (cases ys) (auto simp: result_simps Cons.IH)
qed

section \<open>Sorting\<close>

lemma sort_key_Nil_iff [simp]: "sort_key f xs = [] \<longleftrightarrow> xs = []"
  by (metis length_0_conv length_sort)

text \<open>The first element of a sorted list is an element with the least key.\<close>

lemma sort_key_head:
  assumes "sort_key f xs = y # ys"
  shows "y \<in> set xs" and "\<And>x. x \<in> set xs \<Longrightarrow> f y \<le> f x"
proof -
  have set_eq: "insert y (set ys) = set xs" using set_sort [of f xs] assms by simp
  then show "y \<in> set xs" by auto
  have "sorted (map f (y # ys))" using sorted_sort_key [of f xs] assms by simp
  then have "\<forall>x\<in>set ys. f y \<le> f x" by simp
  with set_eq show "\<And>x. x \<in> set xs \<Longrightarrow> f y \<le> f x" by auto
qed

section \<open>Searching\<close>

text \<open>\<open>find_map\<close>: the first value that the function finds.\<close>

fun find_map :: "('a \<Rightarrow> 'b option) \<Rightarrow> 'a list \<Rightarrow> 'b option" where
  "find_map f [] = None"
| "find_map f (x # xs) = (case f x of None \<Rightarrow> find_map f xs | Some y \<Rightarrow> Some y)"

lemma find_map_Some: "find_map f xs = Some y \<Longrightarrow> \<exists>x\<in>set xs. f x = Some y"
  by (induction xs) (auto split: option.splits)

end
