(* ===== verification/Ip_Net.thy ===== *)
theory Ip_Net
  imports Rust_Strings "HOL-Library.Word"
begin

text \<open>
  IP addresses and the interface of the \<open>ipnet\<close> crate. \<open>std::net::IpAddr\<close> is a datatype with
  its textual parser. The crate's type \<open>IpNet\<close> is a type variable \<open>'n\<close> with a linear order
  (the crate derives \<open>Ord\<close>), and the functions of the crate the sources call are the fields of
  \<open>ipnet_ops\<close>, an argument of every definition that uses them. The locale \<open>ip_network\<close> states
  what the crate documents about them. \<open>cidr\<close> is a complete implementation of the interface,
  on which the locale is interpreted.
\<close>

section \<open>Addresses\<close>

datatype ip_addr = V4 "32 word" | V6 "128 word"

text \<open>
  The parser of \<open>std::net\<close>. An IPv4 address is four decimal numbers of at most three digits
  without a superfluous leading zero, each at most 255. An IPv6 address is eight groups of one to
  four hexadecimal digits, where one run of groups may be written \<open>::\<close> and the last two groups
  may be written as an IPv4 address.
\<close>

definition parse_octet :: "string \<Rightarrow> nat option" where
  "parse_octet s =
     (if length s \<le> 3 \<and> (length s > 1 \<longrightarrow> hd s \<noteq> CHR ''0'')
      then (case parse_digits s of Some n \<Rightarrow> if n \<le> 255 then Some n else None | None \<Rightarrow> None)
      else None)"

definition parse_ipv4 :: "string \<Rightarrow> nat option" where
  "parse_ipv4 s =
     (case map parse_octet (split_on CHR ''.'' s) of
        [Some a, Some b, Some c, Some d] \<Rightarrow> Some (((a * 256 + b) * 256 + c) * 256 + d)
      | _ \<Rightarrow> None)"

definition hex_value :: "char \<Rightarrow> nat" where
  "hex_value c =
     (if is_ascii_digit c then byte c - 48
      else if is_ascii_lowercase c then byte c - 87 else byte c - 55)"

definition parse_group :: "string \<Rightarrow> nat option" where
  "parse_group s =
     (if s \<noteq> [] \<and> length s \<le> 4 \<and> list_all is_ascii_hexdigit s
      then Some (foldl (\<lambda>a c. 16 * a + hex_value c) 0 s) else None)"

text \<open>A run of groups separated by single colons; the last may be an IPv4 address.\<close>

fun parse_groups :: "string list \<Rightarrow> nat list option" where
  "parse_groups [] = Some []"
| "parse_groups [g] =
     (case parse_group g of
        Some n \<Rightarrow> Some [n]
      | None \<Rightarrow> map_option (\<lambda>a. [a div 65536, a mod 65536]) (parse_ipv4 g))"
| "parse_groups (g # h # gs) =
     (case parse_group g of
        None \<Rightarrow> None
      | Some n \<Rightarrow> map_option ((#) n) (parse_groups (h # gs)))"

definition parse_run :: "string \<Rightarrow> nat list option" where
  "parse_run s = (if s = [] then Some [] else parse_groups (split_on CHR '':'' s))"

fun split_double_colon :: "string \<Rightarrow> (string \<times> string) option" where
  "split_double_colon (c # d # cs) =
     (if c = CHR '':'' \<and> d = CHR '':'' then Some ([], cs)
      else map_option (\<lambda>(a, b). (c # a, b)) (split_double_colon (d # cs)))"
| "split_double_colon cs = None"

definition groups_value :: "nat list \<Rightarrow> nat" where
  "groups_value gs = foldl (\<lambda>a g. 65536 * a + g) 0 gs"

definition parse_ipv6 :: "string \<Rightarrow> nat option" where
  "parse_ipv6 s =
     (case split_double_colon s of
        None \<Rightarrow>
          (case parse_run s of
             Some gs \<Rightarrow> if length gs = 8 then Some (groups_value gs) else None
           | None \<Rightarrow> None)
      | Some (l, r) \<Rightarrow>
          (case (parse_run l, parse_run r) of
             (Some gs, Some hs) \<Rightarrow>
               if length gs + length hs \<le> 7 \<and> CHR ''.'' \<notin> set l
               then Some (groups_value (gs @ replicate (8 - length gs - length hs) 0 @ hs))
               else None
           | _ \<Rightarrow> None))"

definition parse_ip_addr :: "string \<Rightarrow> ip_addr option" where
  "parse_ip_addr s =
     (case parse_ipv4 s of
        Some n \<Rightarrow> Some (V4 (of_nat n))
      | None \<Rightarrow> map_option (\<lambda>n. V6 (of_nat n)) (parse_ipv6 s))"

section \<open>The interface of the network type\<close>

record 'n ipnet_ops =
  net_parse :: "string \<Rightarrow> 'n option"
  net_show :: "'n \<Rightarrow> string"
  net_of_addr :: "ip_addr \<Rightarrow> 'n"
  net_trunc :: "'n \<Rightarrow> 'n"
  net_contains :: "'n \<Rightarrow> 'n \<Rightarrow> bool"
  net_contains_addr :: "'n \<Rightarrow> ip_addr \<Rightarrow> bool"
  net_prefix_len :: "'n \<Rightarrow> nat"
  net_subnets :: "'n \<Rightarrow> nat \<Rightarrow> 'n list option"
  net_aggregate :: "'n list \<Rightarrow> 'n list"

text \<open>The addresses of a network and of a list of networks.\<close>

definition net_addrs :: "'n ipnet_ops \<Rightarrow> 'n \<Rightarrow> ip_addr set" where
  "net_addrs ops n = {a. net_contains_addr ops n a}"

definition cover :: "'n ipnet_ops \<Rightarrow> 'n list \<Rightarrow> ip_addr set" where
  "cover ops ns = (\<Union>n\<in>set ns. net_addrs ops n)"

lemma cover_simps [simp]:
  "cover ops [] = {}"
  "cover ops (n # ns) = net_addrs ops n \<union> cover ops ns"
  "cover ops (ns @ ms) = cover ops ns \<union> cover ops ms"
  by (auto simp: cover_def)

lemma cover_mono: "set ns \<subseteq> set ms \<Longrightarrow> cover ops ns \<subseteq> cover ops ms"
  by (auto simp: cover_def)

locale ip_network =
  fixes ops :: "('n::linorder) ipnet_ops"
    and max_len :: "'n \<Rightarrow> nat"
  assumes addrs_nonempty: "net_addrs ops n \<noteq> {}"
    and contains_iff: "net_contains ops n m \<longleftrightarrow> net_addrs ops m \<subseteq> net_addrs ops n"
    and nested_or_disjoint:
      "net_addrs ops n \<inter> net_addrs ops m = {} \<or> net_addrs ops n \<subseteq> net_addrs ops m \<or>
       net_addrs ops m \<subseteq> net_addrs ops n"
    and prefix_len_le: "net_prefix_len ops n \<le> max_len n"
    and max_len_le: "max_len n \<le> 128"
    and contains_max_len: "net_addrs ops m \<subseteq> net_addrs ops n \<Longrightarrow> max_len m = max_len n"
    and strict_prefix_len:
      "net_addrs ops m \<subset> net_addrs ops n \<Longrightarrow> net_prefix_len ops n < net_prefix_len ops m"
    and subnets_partition:
      "net_prefix_len ops n < p \<Longrightarrow> p \<le> max_len n \<Longrightarrow>
       \<exists>cs. net_subnets ops n p = Some cs \<and> cover ops cs = net_addrs ops n \<and>
            (\<forall>c\<in>set cs. net_prefix_len ops c = p)"
    and aggregate_cover: "cover ops (net_aggregate ops ns) = cover ops ns"
    and trunc_addrs: "net_addrs ops (net_trunc ops n) = net_addrs ops n"
    and of_addr_addrs: "net_addrs ops (net_of_addr ops a) = {a}"
begin

text \<open>Two networks that neither contain each other have no address in common.\<close>

lemma not_contains_disjoint:
  assumes "\<not> net_contains ops n m" and "\<not> net_contains ops m n"
  shows "net_addrs ops n \<inter> net_addrs ops m = {}"
  using assms nested_or_disjoint [of n m] by (auto simp: contains_iff)

lemma contains_refl [simp]: "net_contains ops n n"
  by (simp add: contains_iff)

lemma child_of:
  assumes "net_subnets ops n (Suc (net_prefix_len ops n)) = Some cs"
    and "net_addrs ops m \<subset> net_addrs ops n" and "c \<in> set cs"
  shows "net_prefix_len ops c = Suc (net_prefix_len ops n) \<and> net_addrs ops c \<subseteq> net_addrs ops n
    \<and> cover ops cs = net_addrs ops n"
proof -
  have "Suc (net_prefix_len ops n) \<le> max_len n"
    using strict_prefix_len [OF assms(2)] prefix_len_le [of m] contains_max_len [of m n] assms(2)
    by auto
  then obtain ds where "net_subnets ops n (Suc (net_prefix_len ops n)) = Some ds"
    and "cover ops ds = net_addrs ops n"
    and "\<forall>d\<in>set ds. net_prefix_len ops d = Suc (net_prefix_len ops n)"
    using subnets_partition [of n "Suc (net_prefix_len ops n)"] by auto
  with assms(1,3) show ?thesis by (auto simp: cover_def)
qed

lemma child_exists:
  assumes "net_addrs ops m \<subset> net_addrs ops n"
  shows "\<exists>cs. net_subnets ops n (Suc (net_prefix_len ops n)) = Some cs"
proof -
  have "Suc (net_prefix_len ops n) \<le> max_len n"
    using strict_prefix_len [OF assms] prefix_len_le [of m] contains_max_len [of m n] assms by auto
  then show ?thesis using subnets_partition [of n "Suc (net_prefix_len ops n)"] by auto
qed

end

section \<open>A CIDR implementation\<close>

text \<open>
  A network is its address family, the bits of its prefix (most significant first) and the host
  bits that were written after the prefix. Bits beyond the width of the family do not count.
\<close>

datatype cidr = Cidr (cidr_v6: bool) (cidr_bits: "bool list") (cidr_host: "bool list")

instantiation cidr :: linorder
begin

definition less_eq_cidr :: "cidr \<Rightarrow> cidr \<Rightarrow> bool" where
  "less_eq_cidr a b \<longleftrightarrow>
     (cidr_v6 a, cidr_bits a, cidr_host a) \<le> (cidr_v6 b, cidr_bits b, cidr_host b)"

definition less_cidr :: "cidr \<Rightarrow> cidr \<Rightarrow> bool" where
  "less_cidr a b \<longleftrightarrow>
     (cidr_v6 a, cidr_bits a, cidr_host a) < (cidr_v6 b, cidr_bits b, cidr_host b)"

instance
proof
  fix x y z :: cidr
  show "(x < y) = (x \<le> y \<and> \<not> y \<le> x)"
    unfolding less_eq_cidr_def less_cidr_def by (rule less_le_not_le)
  show "x \<le> x" unfolding less_eq_cidr_def by (rule order_refl)
  show "x \<le> y \<Longrightarrow> y \<le> z \<Longrightarrow> x \<le> z" unfolding less_eq_cidr_def by (rule order_trans)
  show "x \<le> y \<Longrightarrow> y \<le> x \<Longrightarrow> x = y"
    unfolding less_eq_cidr_def by (drule (1) order_antisym) (simp add: cidr.expand)
  show "x \<le> y \<or> y \<le> x" unfolding less_eq_cidr_def by (rule linear)
qed

end

definition cidr_width :: "bool \<Rightarrow> nat" where
  "cidr_width v6 = (if v6 then 128 else 32)"

text \<open>The bits of an address, most significant first.\<close>

fun addr_v6 :: "ip_addr \<Rightarrow> bool" where
  "addr_v6 (V4 w) = False"
| "addr_v6 (V6 w) = True"

fun addr_bits :: "ip_addr \<Rightarrow> bool list" where
  "addr_bits (V4 w) = rev (map (bit w) [0..<32])"
| "addr_bits (V6 w) = rev (map (bit w) [0..<128])"

definition cidr_prefix :: "cidr \<Rightarrow> bool list" where
  "cidr_prefix n = take (cidr_width (cidr_v6 n)) (cidr_bits n)"

definition cidr_contains_addr :: "cidr \<Rightarrow> ip_addr \<Rightarrow> bool" where
  "cidr_contains_addr n a \<longleftrightarrow> cidr_v6 n = addr_v6 a \<and> prefix (cidr_prefix n) (addr_bits a)"

definition cidr_contains :: "cidr \<Rightarrow> cidr \<Rightarrow> bool" where
  "cidr_contains n m \<longleftrightarrow> cidr_v6 n = cidr_v6 m \<and> prefix (cidr_prefix n) (cidr_prefix m)"

fun bit_lists :: "nat \<Rightarrow> bool list list" where
  "bit_lists 0 = [[]]"
| "bit_lists (Suc k) = map ((#) False) (bit_lists k) @ map ((#) True) (bit_lists k)"

definition cidr_subnets :: "cidr \<Rightarrow> nat \<Rightarrow> cidr list option" where
  "cidr_subnets n p =
     (let l = length (cidr_prefix n)
      in if p < l \<or> cidr_width (cidr_v6 n) < p then None
         else Some (map (\<lambda>bs. Cidr (cidr_v6 n) (cidr_prefix n @ bs) []) (bit_lists (p - l))))"

text \<open>
  Aggregation by insertion: a network inside another is dropped, and a network whose sibling is
  already present is replaced, with the sibling, by their parent.
\<close>

definition cidr_sibling :: "cidr \<Rightarrow> cidr \<Rightarrow> bool" where
  "cidr_sibling n m \<longleftrightarrow>
     cidr_v6 n = cidr_v6 m \<and> cidr_prefix n \<noteq> [] \<and> cidr_prefix m \<noteq> [] \<and>
     butlast (cidr_prefix n) = butlast (cidr_prefix m) \<and>
     last (cidr_prefix n) \<noteq> last (cidr_prefix m)"

definition cidr_parent :: "cidr \<Rightarrow> cidr" where
  "cidr_parent n = Cidr (cidr_v6 n) (butlast (cidr_prefix n)) []"

lemma cidr_prefix_Cidr [simp]: "cidr_prefix (Cidr v6 bs hs) = take (cidr_width v6) bs"
  by (simp add: cidr_prefix_def)

lemma cidr_parent_shorter:
  assumes "cidr_prefix n \<noteq> []"
  shows "length (cidr_prefix (cidr_parent n)) < length (cidr_prefix n)"
proof -
  have "length (cidr_prefix (cidr_parent n)) \<le> length (butlast (cidr_prefix n))"
    by (simp add: cidr_parent_def)
  also have "\<dots> < length (cidr_prefix n)" using assms by simp
  finally show ?thesis .
qed

function cidr_insert :: "cidr \<Rightarrow> cidr list \<Rightarrow> cidr list" where
  "cidr_insert n ns =
     (if list_ex (\<lambda>m. cidr_contains m n) ns then ns
      else case find (cidr_sibling n) ns of
             Some m \<Rightarrow> cidr_insert (cidr_parent n) ns
           | None \<Rightarrow> n # filter (\<lambda>m. \<not> cidr_contains n m) ns)"
  by pat_completeness auto
termination
proof (relation "measure (\<lambda>(n, ns). length (cidr_prefix n))", goal_cases)
  case 1
  show ?case by simp
next
  case (2 n ns m)
  then have "cidr_sibling n m" by (auto simp: find_Some_iff)
  then have "cidr_prefix n \<noteq> []" by (simp add: cidr_sibling_def)
  then show ?case by (simp add: cidr_parent_shorter)
qed

declare cidr_insert.simps [simp del]

definition cidr_aggregate :: "cidr list \<Rightarrow> cidr list" where
  "cidr_aggregate ns = fold cidr_insert (sort ns) []"

definition parse_cidr :: "string \<Rightarrow> cidr option" where
  "parse_cidr s =
     (case split_once CHR ''/'' s of
        None \<Rightarrow> None
      | Some (a, l) \<Rightarrow>
          (case (parse_ip_addr a, parse_digits l) of
             (Some ip, Some p) \<Rightarrow>
               if p \<le> cidr_width (addr_v6 ip)
               then Some (Cidr (addr_v6 ip) (take p (addr_bits ip)) (drop p (addr_bits ip)))
               else None
           | _ \<Rightarrow> None))"

text \<open>
  Printing keeps the family, the length and all the bits, so that distinct networks print
  differently; the dotted notation itself is the crate's.
\<close>

definition show_cidr :: "cidr \<Rightarrow> string" where
  "show_cidr n =
     (let sb = map (\<lambda>b. if b then CHR ''1'' else CHR ''0'')
      in (if cidr_v6 n then ''v6:'' else ''v4:'') @ sb (cidr_bits n) @ ''/'' @ sb (cidr_host n))"

definition cidr_ops :: "cidr ipnet_ops" where
  "cidr_ops =
     \<lparr>net_parse = parse_cidr,
      net_show = show_cidr,
      net_of_addr = (\<lambda>a. Cidr (addr_v6 a) (addr_bits a) []),
      net_trunc = (\<lambda>n. Cidr (cidr_v6 n) (cidr_bits n) []),
      net_contains = cidr_contains,
      net_contains_addr = cidr_contains_addr,
      net_prefix_len = (\<lambda>n. length (cidr_prefix n)),
      net_subnets = cidr_subnets,
      net_aggregate = cidr_aggregate\<rparr>"

lemma length_addr_bits [simp]: "length (addr_bits a) = cidr_width (addr_v6 a)"
  by (cases a) (simp_all add: cidr_width_def)

lemma length_cidr_prefix: "length (cidr_prefix n) \<le> cidr_width (cidr_v6 n)"
  by (simp add: cidr_prefix_def)

text \<open>Every bit list of the right length is the bits of an address.\<close>

lemma addr_of_bits:
  assumes "length bs = cidr_width v6"
  shows "\<exists>a. addr_v6 a = v6 \<and> addr_bits a = bs"
proof (cases v6)
  case True
  let ?w = "horner_sum of_bool 2 (rev bs) :: 128 word"
  have "addr_bits (V6 ?w) = bs"
    using assms True
    by (intro nth_equalityI)
       (auto simp: cidr_width_def rev_nth bit_horner_sum_bit_word_iff)
  with True show ?thesis by (intro exI [of _ "V6 ?w"]) simp
next
  case False
  let ?w = "horner_sum of_bool 2 (rev bs) :: 32 word"
  have "addr_bits (V4 ?w) = bs"
    using assms False
    by (intro nth_equalityI)
       (auto simp: cidr_width_def rev_nth bit_horner_sum_bit_word_iff)
  with False show ?thesis by (intro exI [of _ "V4 ?w"]) simp
qed

lemma word_bits_inj:
  "map (bit u) [0..<LENGTH('a)] = map (bit w) [0..<LENGTH('a)] \<Longrightarrow> u = w"
  for u w :: "'a::len word"
  by (intro bit_word_eqI) simp

lemma addr_bits_inj: "addr_v6 a = addr_v6 b \<Longrightarrow> addr_bits a = addr_bits b \<Longrightarrow> a = b"
  using word_bits_inj [where ?'a = 32] word_bits_inj [where ?'a = 128]
  by (cases a; cases b) simp_all

text \<open>An address that extends a given prefix.\<close>

lemma addr_extending:
  assumes "length p \<le> cidr_width v6"
  shows "\<exists>a. addr_v6 a = v6 \<and> prefix p (addr_bits a)"
proof -
  have "length (p @ replicate (cidr_width v6 - length p) b) = cidr_width v6" for b
    using assms by simp
  from addr_of_bits [OF this] show ?thesis by (metis prefixI)
qed

lemma net_addrs_cidr: "net_addrs cidr_ops n = {a. cidr_contains_addr n a}"
  by (simp add: net_addrs_def cidr_ops_def)

lemma cidr_addrs_subset: "net_addrs cidr_ops m \<subseteq> net_addrs cidr_ops n \<longleftrightarrow> cidr_contains n m"
proof
  assume sub: "net_addrs cidr_ops m \<subseteq> net_addrs cidr_ops n"
  let ?p = "cidr_prefix m" and ?w = "cidr_width (cidr_v6 m)"
  have ext: "cidr_v6 n = cidr_v6 m \<and> prefix (cidr_prefix n) (?p @ replicate (?w - length ?p) b)" for b
  proof -
    have "length (?p @ replicate (?w - length ?p) b) = ?w"
      using length_cidr_prefix [of m] by simp
    then obtain a where "addr_v6 a = cidr_v6 m" "addr_bits a = ?p @ replicate (?w - length ?p) b"
      using addr_of_bits by blast
    with sub show ?thesis by (auto simp: net_addrs_cidr cidr_contains_addr_def)
  qed
  show "cidr_contains n m"
  proof (cases "length (cidr_prefix n) \<le> length ?p")
    case True
    with ext [of True] show ?thesis
      by (auto simp: cidr_contains_def intro: prefix_length_prefix)
  next
    case False
    have "cidr_prefix n ! length ?p = b" for b
    proof -
      from ext [of b] obtain zs where zs: "?p @ replicate (?w - length ?p) b = cidr_prefix n @ zs"
        by (auto simp: prefix_def)
      have "length ?p < ?w"
        using False length_cidr_prefix [of n] ext [of b] by simp
      then have "(?p @ replicate (?w - length ?p) b) ! length ?p = b"
        by (simp add: nth_append)
      moreover have "(cidr_prefix n @ zs) ! length ?p = cidr_prefix n ! length ?p"
        using False by (simp add: nth_append)
      ultimately show ?thesis using zs by simp
    qed
    from this [of True] this [of False] show ?thesis by simp
  qed
next
  assume "cidr_contains n m"
  then show "net_addrs cidr_ops m \<subseteq> net_addrs cidr_ops n"
    by (auto simp: net_addrs_cidr cidr_contains_addr_def cidr_contains_def)
qed

lemma cidr_contains_addr_iff:
  "cidr_contains_addr n a \<longleftrightarrow> cidr_v6 n = addr_v6 a \<and> take (length (cidr_prefix n)) (addr_bits a) = cidr_prefix n"
proof -
  have "prefix p xs \<longleftrightarrow> take (length p) xs = p" for p xs :: "bool list"
    by (metis append_eq_conv_conj prefix_def take_is_prefix)
  then show ?thesis by (simp add: cidr_contains_addr_def)
qed

lemma set_bit_lists: "set (bit_lists k) = {bs. length bs = k}"
proof (induction k)
  case 0
  then show ?case by simp
next
  case (Suc k)
  have "bs \<in> set (bit_lists (Suc k)) \<longleftrightarrow> length bs = Suc k" for bs
    using Suc by (cases bs) auto
  then show ?case by blast
qed

lemma cidr_subnets_cover:
  assumes "length (cidr_prefix n) \<le> p" and "p \<le> cidr_width (cidr_v6 n)"
  shows "\<exists>cs. cidr_subnets n p = Some cs \<and> cover cidr_ops cs = net_addrs cidr_ops n \<and>
    (\<forall>c\<in>set cs. length (cidr_prefix c) = p)"
proof -
  let ?l = "length (cidr_prefix n)"
  let ?cs = "map (\<lambda>bs. Cidr (cidr_v6 n) (cidr_prefix n @ bs) []) (bit_lists (p - ?l))"
  have pre: "cidr_prefix c = cidr_prefix n @ bs"
    if "c = Cidr (cidr_v6 n) (cidr_prefix n @ bs) []" "length bs = p - ?l" for c bs
    using that assms by simp
  have "a \<in> cover cidr_ops ?cs \<longleftrightarrow> a \<in> net_addrs cidr_ops n" for a
  proof
    assume "a \<in> cover cidr_ops ?cs"
    then obtain bs where "length bs = p - ?l"
      and "cidr_contains_addr (Cidr (cidr_v6 n) (cidr_prefix n @ bs) []) a"
      by (auto simp: cover_def net_addrs_cidr set_bit_lists)
    then have "cidr_v6 n = addr_v6 a" and "prefix (cidr_prefix n @ bs) (addr_bits a)"
      using assms by (simp_all add: cidr_contains_addr_def)
    then show "a \<in> net_addrs cidr_ops n"
      by (auto simp: net_addrs_cidr cidr_contains_addr_def dest: append_prefixD)
  next
    assume "a \<in> net_addrs cidr_ops n"
    then have fam: "cidr_v6 n = addr_v6 a" and "prefix (cidr_prefix n) (addr_bits a)"
      by (auto simp: net_addrs_cidr cidr_contains_addr_def)
    then obtain zs where zs: "addr_bits a = cidr_prefix n @ zs" by (auto simp: prefix_def)
    let ?bs = "take (p - ?l) zs"
    have "length zs = cidr_width (cidr_v6 n) - ?l"
      using arg_cong [OF zs, of length] fam by simp
    then have len: "length ?bs = p - ?l" using assms by simp
    have "cidr_contains_addr (Cidr (cidr_v6 n) (cidr_prefix n @ ?bs) []) a"
      unfolding cidr_contains_addr_def pre [OF refl len]
      using fam zs take_is_prefix [of "p - ?l" zs] by simp
    moreover have "Cidr (cidr_v6 n) (cidr_prefix n @ ?bs) [] \<in> set ?cs"
      unfolding set_map set_bit_lists using len by blast
    ultimately show "a \<in> cover cidr_ops ?cs"
      unfolding cover_def net_addrs_cidr by blast
  qed
  then have cov: "cover cidr_ops ?cs = net_addrs cidr_ops n" by blast
  have some: "cidr_subnets n p = Some ?cs"
    using assms by (auto simp: cidr_subnets_def Let_def)
  have lens: "\<forall>c\<in>set ?cs. length (cidr_prefix c) = p"
    using assms by (auto simp: set_bit_lists)
  from some cov lens show ?thesis by blast
qed

lemma cidr_parent_addrs:
  assumes "cidr_sibling n m"
  shows "net_addrs cidr_ops (cidr_parent n) = net_addrs cidr_ops n \<union> net_addrs cidr_ops m"
proof -
  from assms have fam: "cidr_v6 n = cidr_v6 m" and ne: "cidr_prefix n \<noteq> []" "cidr_prefix m \<noteq> []"
    and bl: "butlast (cidr_prefix n) = butlast (cidr_prefix m)"
    and la: "last (cidr_prefix n) = (\<not> last (cidr_prefix m))"
    by (auto simp: cidr_sibling_def)
  define p where "p = butlast (cidr_prefix n)"
  define b where "b = last (cidr_prefix n)"
  have pn: "cidr_prefix n = p @ [b]" and pm: "cidr_prefix m = p @ [\<not> b]"
    using append_butlast_last_id [OF ne(1)] append_butlast_last_id [OF ne(2)] bl la
    by (simp_all add: p_def b_def)
  have w: "length p < cidr_width (cidr_v6 n)"
    using length_cidr_prefix [of n] pn by simp
  have ext: "prefix p xs \<longleftrightarrow> prefix (p @ [b]) xs \<or> prefix (p @ [\<not> b]) xs"
    if "length xs = cidr_width (cidr_v6 n)" for xs
  proof
    assume "prefix p xs"
    then obtain zs where zs: "xs = p @ zs" by (auto simp: prefix_def)
    with that w have "zs \<noteq> []" by auto
    then obtain z zs' where "zs = z # zs'" by (cases zs) auto
    with zs show "prefix (p @ [b]) xs \<or> prefix (p @ [\<not> b]) xs" by (cases "z = b") auto
  qed (auto dest: append_prefixD)
  have "cidr_prefix (cidr_parent n) = p" using w by (simp add: cidr_parent_def p_def [symmetric])
  then show ?thesis
    using ext pn pm fam
    by (auto simp: net_addrs_cidr cidr_contains_addr_def cidr_parent_def)
qed

lemma cidr_insert_cover: "cover cidr_ops (cidr_insert n ns) = net_addrs cidr_ops n \<union> cover cidr_ops ns"
proof (induction n ns rule: cidr_insert.induct)
  case (1 n ns)
  show ?case
  proof (cases "list_ex (\<lambda>m. cidr_contains m n) ns")
    case True
    then have "net_addrs cidr_ops n \<subseteq> cover cidr_ops ns"
      by (auto simp: list_ex_iff cover_def cidr_addrs_subset [symmetric])
    with True show ?thesis by (subst cidr_insert.simps) auto
  next
    case notin: False
    show ?thesis
    proof (cases "find (cidr_sibling n) ns")
      case None
      have "cover cidr_ops ns
          \<subseteq> net_addrs cidr_ops n \<union> cover cidr_ops (filter (\<lambda>m. \<not> cidr_contains n m) ns)"
        using cidr_addrs_subset by (force simp: cover_def)
      moreover have "cover cidr_ops (filter (\<lambda>m. \<not> cidr_contains n m) ns) \<subseteq> cover cidr_ops ns"
        by (rule cover_mono) auto
      ultimately show ?thesis using notin None by (subst cidr_insert.simps) auto
    next
      case (Some m)
      then have sib: "cidr_sibling n m" and "m \<in> set ns" by (auto simp: find_Some_iff)
      then have "net_addrs cidr_ops m \<subseteq> cover cidr_ops ns" by (auto simp: cover_def)
      moreover have "cover cidr_ops (cidr_insert (cidr_parent n) ns)
          = net_addrs cidr_ops (cidr_parent n) \<union> cover cidr_ops ns"
        using 1 notin Some by simp
      ultimately show ?thesis
        using notin Some cidr_parent_addrs [OF sib] by (subst cidr_insert.simps) auto
    qed
  qed
qed

lemma cidr_aggregate_cover: "cover cidr_ops (cidr_aggregate ns) = cover cidr_ops ns"
proof -
  have "cover cidr_ops (fold cidr_insert ms acc) = cover cidr_ops ms \<union> cover cidr_ops acc" for ms acc
    by (induction ms arbitrary: acc) (auto simp: cidr_insert_cover)
  then show ?thesis by (simp add: cidr_aggregate_def) (simp add: cover_def)
qed

interpretation cidr_net: ip_network cidr_ops "\<lambda>n. cidr_width (cidr_v6 n)"
proof
  fix n m :: cidr and p :: nat and ns :: "cidr list" and a :: ip_addr
  show "net_addrs cidr_ops n \<noteq> {}"
    using addr_extending [OF length_cidr_prefix [of n]]
    by (auto simp: net_addrs_cidr cidr_contains_addr_def)
  show "net_contains cidr_ops n m \<longleftrightarrow> net_addrs cidr_ops m \<subseteq> net_addrs cidr_ops n"
    by (simp add: cidr_addrs_subset) (simp add: cidr_ops_def)
  show "net_addrs cidr_ops n \<inter> net_addrs cidr_ops m = {} \<or>
      net_addrs cidr_ops n \<subseteq> net_addrs cidr_ops m \<or> net_addrs cidr_ops m \<subseteq> net_addrs cidr_ops n"
    unfolding cidr_addrs_subset
    by (auto simp: net_addrs_cidr cidr_contains_addr_def cidr_contains_def dest: prefix_same_cases)
  show "net_prefix_len cidr_ops n \<le> cidr_width (cidr_v6 n)"
    by (simp add: cidr_ops_def length_cidr_prefix)
  show "cidr_width (cidr_v6 n) \<le> 128" by (simp add: cidr_width_def)
  show "cidr_width (cidr_v6 m) = cidr_width (cidr_v6 n)"
    if "net_addrs cidr_ops m \<subseteq> net_addrs cidr_ops n"
    using that by (simp add: cidr_addrs_subset cidr_contains_def)
  show "net_prefix_len cidr_ops n < net_prefix_len cidr_ops m"
    if "net_addrs cidr_ops m \<subset> net_addrs cidr_ops n"
  proof -
    from that have "cidr_contains n m" "\<not> cidr_contains m n"
      by (auto simp: psubset_eq cidr_addrs_subset [symmetric])
    then have "strict_prefix (cidr_prefix n) (cidr_prefix m)"
      by (auto simp: cidr_contains_def)
    then show ?thesis by (simp add: cidr_ops_def prefix_length_less)
  qed
  show "\<exists>cs. net_subnets cidr_ops n p = Some cs \<and> cover cidr_ops cs = net_addrs cidr_ops n \<and>
      (\<forall>c\<in>set cs. net_prefix_len cidr_ops c = p)"
    if "net_prefix_len cidr_ops n < p" and "p \<le> cidr_width (cidr_v6 n)"
  proof -
    have "length (cidr_prefix n) \<le> p" using that(1) by (simp add: cidr_ops_def)
    from cidr_subnets_cover [OF this that(2)] show ?thesis by (simp add: cidr_ops_def)
  qed
  show "cover cidr_ops (net_aggregate cidr_ops ns) = cover cidr_ops ns"
    using cidr_aggregate_cover [of ns] by (simp add: cidr_ops_def)
  show "net_addrs cidr_ops (net_trunc cidr_ops n) = net_addrs cidr_ops n"
    by (simp add: net_addrs_cidr cidr_contains_addr_def)
       (simp add: cidr_ops_def cidr_prefix_def)
  show "net_addrs cidr_ops (net_of_addr cidr_ops a) = {a}"
  proof -
    have "cidr_contains_addr (Cidr (addr_v6 a) (addr_bits a) []) b \<longleftrightarrow> b = a" for b
      using addr_bits_inj [of b a] by (auto simp: cidr_contains_addr_iff)
    moreover have "net_of_addr cidr_ops a = Cidr (addr_v6 a) (addr_bits a) []"
      by (simp add: cidr_ops_def)
    ultimately show ?thesis by (simp add: net_addrs_cidr)
  qed
qed

end
