(* ===== verification/Validation.thy ===== *)
theory Validation
  imports Ip_Net
begin

text \<open>
  The validation vocabulary of \<open>src/src/domain.rs\<close> and the two small specification modules that
  use it: \<open>src/src/deployment.rs\<close> and \<open>src/src/vpc.rs\<close>. A \<open>ValidationError::Field\<close> message is
  kept as its format string and the list of the interpolated arguments. \<open>Diverges\<close> is the model's
  mark for a recursion that ran out of fuel; the totality lemmas show that it does not occur.
\<close>

datatype validation_error = Field string "string list" | Diverges

type_synonym uuid = "128 word"

definition is_nil :: "uuid \<Rightarrow> bool" where
  "is_nil u \<longleftrightarrow> u = 0"

text \<open>JSON values, as \<open>serde_json::Value\<close> (integer numbers only).\<close>

datatype json =
    JNull | JBool bool | JNum int | JStr string | JArr "json list" | JObj "(string \<times> json) list"

section \<open>Text checks of domain.rs\<close>

definition validate_text :: "string \<Rightarrow> string \<Rightarrow> nat \<Rightarrow> validation_error + unit" where
  "validate_text name v maximum =
     ensure (is_trimmed v \<and> v \<noteq> [] \<and> length v \<le> maximum)
       (Field ''{name} must contain between 1 and {maximum} trimmed characters''
          [name, show_nat maximum])"

definition dns_byte :: "char \<Rightarrow> bool" where
  "dns_byte c \<longleftrightarrow> is_ascii_lowercase c \<or> is_ascii_digit c \<or> c = CHR ''-''"

definition validate_dns_label :: "string \<Rightarrow> string \<Rightarrow> validation_error + unit" where
  "validate_dns_label name v =
     ensure (v \<noteq> [] \<and> length v \<le> 63 \<and> list_all dns_byte v \<and>
             first_is is_ascii_alphanumeric v \<and> last_is is_ascii_alphanumeric v)
       (Field ''{name} must be a lowercase DNS label'' [name])"

definition validate_env_name :: "string \<Rightarrow> validation_error + unit" where
  "validate_env_name v =
     ensure (first_is (\<lambda>c. is_ascii_alphabetic c \<or> c = CHR ''_'') v \<and> length v \<le> 253 \<and>
             list_all (\<lambda>c. is_ascii_alphanumeric c \<or> c = CHR ''_'') (tl v))
       (Field ''environment variable name {value:?} is invalid'' [v])"

definition validate_string_list :: "string \<Rightarrow> string list \<Rightarrow> nat \<Rightarrow> validation_error + unit" where
  "validate_string_list name vs maximum =
     ensure (\<not> (maximum < length vs \<or> list_ex (\<lambda>v. v = [] \<or> 32768 < length v) vs))
       (Field ''{name} must contain at most {maximum} non-empty entries'' [name, show_nat maximum])"

definition validate_gpu_type :: "string \<Rightarrow> validation_error + unit" where
  "validate_gpu_type v =
     ensure (\<not> (v = [] \<or> 63 < length v \<or> \<not> is_trimmed v \<or>
                \<not> first_is (\<lambda>b. is_ascii_lowercase b \<or> is_ascii_digit b) v \<or>
                \<not> last_is (\<lambda>b. is_ascii_lowercase b \<or> is_ascii_digit b) v \<or>
                \<not> list_all dns_byte v))
       (Field ''gpu_type must be a 1-63 character lowercase DNS label'' [])"

text \<open>
  A GPU type is accepted exactly when it is a DNS label: the trim check and the separate end
  checks of \<open>validate_gpu_type\<close> add nothing over \<open>validate_dns_label\<close>.
\<close>

lemma dns_byte_ws:
  assumes "c \<in> set s" and "list_all dns_byte s" and "w \<in> set ws_codes" and "c \<in> set w"
  shows False
proof -
  from assms(1,2) have "dns_byte c" by (auto simp: list_all_iff)
  then have b: "byte c \<notin> {9, 10, 11, 12, 13, 32}" "byte c < 128"
    by (auto simp: dns_byte_def char_defs)
  have "\<forall>w\<in>set ws_codes. \<forall>c\<in>set w. byte c \<in> {9, 10, 11, 12, 13, 32} \<or> 128 \<le> byte c"
    by (simp add: ws_codes_def byte_def)
  with assms(3,4) b show False by fastforce
qed

lemma ws_codes_nonempty: "w \<in> set ws_codes \<Longrightarrow> w \<noteq> []"
  by (auto simp: ws_codes_def)

lemma dns_bytes_trimmed: "list_all dns_byte s \<Longrightarrow> is_trimmed s"
proof -
  assume dns: "list_all dns_byte s"
  have "\<not> prefix w s \<and> \<not> suffix w s" if w: "w \<in> set ws_codes" for w
  proof -
    have "hd w \<in> set w" using ws_codes_nonempty [OF w] by simp
    then have "hd w \<notin> set s" using dns_byte_ws [OF _ dns w] by blast
    with \<open>hd w \<in> set w\<close> show ?thesis by (auto dest: set_mono_prefix set_mono_suffix)
  qed
  then show ?thesis by (auto simp: is_trimmed_def starts_ws_def ends_ws_def list_ex_iff)
qed

lemma validate_gpu_type_iff:
  "validate_gpu_type v = Inr () \<longleftrightarrow> validate_dns_label name v = Inr ()"
proof -
  have "dns_byte c \<Longrightarrow> is_ascii_alphanumeric c \<longleftrightarrow> is_ascii_lowercase c \<or> is_ascii_digit c" for c
    by (auto simp: dns_byte_def char_defs)
  moreover have "list_all dns_byte v \<Longrightarrow> v \<noteq> [] \<Longrightarrow> dns_byte (hd v) \<and> dns_byte (last v)"
    by (auto simp: list_all_iff)
  ultimately show ?thesis
    by (auto simp: validate_gpu_type_def validate_dns_label_def result_simps first_is_def last_is_def
        dns_bytes_trimmed)
qed

section \<open>deployment.rs\<close>

record health_check =
  hc_port :: u16
  hc_path :: "string option"

record deployment_policy =
  dp_strategy :: string
  dp_stateless :: bool
  dp_deadline_seconds :: u32
  dp_auto_rollback :: bool
  dp_health_check :: "health_check option"

definition default_deployment_policy :: deployment_policy where
  "default_deployment_policy =
     \<lparr>dp_strategy = ''auto'', dp_stateless = False, dp_deadline_seconds = 600,
      dp_auto_rollback = True, dp_health_check = None\<rparr>"

definition health_check_invalid :: "health_check \<Rightarrow> bool" where
  "health_check_invalid c \<longleftrightarrow>
     hc_port c = 0 \<or>
     (case hc_path c of
        None \<Rightarrow> False
      | Some p \<Rightarrow> \<not> prefix ''/'' p \<or> 1024 < length p \<or> any_control p)"

definition validate_deployment_policy :: "deployment_policy \<Rightarrow> string + unit" where
  "validate_deployment_policy p =
     bindR (ensure (dp_strategy p \<in> {''auto'', ''rolling'', ''recreate''})
              ''deployment strategy must be auto, rolling, or recreate'') (\<lambda>_.
     bindR (ensure (\<not> (dp_strategy p = ''rolling'' \<and> \<not> dp_stateless p))
              ''rolling deployments require stateless=true; persistent homes are retained without being mounted'') (\<lambda>_.
     bindR (ensure (60 \<le> dp_deadline_seconds p \<and> dp_deadline_seconds p \<le> 3600)
              ''deployment deadline must be between 60 and 3600 seconds'') (\<lambda>_.
     ensure (\<not> (\<exists>c\<in>set_option (dp_health_check p). health_check_invalid c))
       ''health check requires a nonzero port and an absolute HTTP path'')))"

section \<open>vpc.rs\<close>

datatype transport_protocol = Tcp | Udp

record vpc_nat =
  nat_enabled :: bool

datatype vpc_peer = SecurityGroup string | Service uuid | All

record vpc_rule =
  rule_description :: string
  rule_source :: vpc_peer
  rule_destination :: vpc_peer
  rule_protocol :: transport_protocol
  rule_port :: u16
  rule_end_port :: "u16 option"

record vpc_spec =
  vpc_region :: string
  vpc_description :: string
  vpc_nat_of :: vpc_nat
  vpc_security_groups :: "string list"
  vpc_rules :: "vpc_rule list"

record flash_vpc_attachment =
  att_vpc_id :: uuid
  att_security_groups :: "string list"
  att_private_name :: "string option"

definition max_vpc_security_groups :: nat where "max_vpc_security_groups = 32"
definition max_vpc_rules :: nat where "max_vpc_rules = 128"
definition max_flash_security_groups :: nat where "max_flash_security_groups = 8"

definition default_security_groups :: "string list" where
  "default_security_groups = [''default'']"

definition valid_private_name :: "string \<Rightarrow> bool" where
  "valid_private_name v \<longleftrightarrow>
     v \<noteq> [] \<and> length v \<le> 63 \<and> first_is is_ascii_lowercase v \<and>
     last_is is_ascii_alphanumeric v \<and> list_all dns_byte v"

text \<open>
  The loop of \<open>validate_groups\<close>: the first invalid name, or the first name inserted twice, stops it.
\<close>

fun any_bad_group :: "string list \<Rightarrow> string list \<Rightarrow> bool" where
  "any_bad_group [] seen = False"
| "any_bad_group (g # gs) seen =
     (\<not> valid_private_name g \<or> g \<in> set seen \<or> any_bad_group gs (g # seen))"

definition validate_groups :: "string list \<Rightarrow> nat \<Rightarrow> validation_error + unit" where
  "validate_groups groups maximum =
     bindR (ensure (\<not> (groups = [] \<or> maximum < length groups))
              (Field ''security_groups must contain 1..{maximum} names'' [show_nat maximum])) (\<lambda>_.
     ensure (\<not> any_bad_group groups [])
       (Field ''security group names must be unique lowercase DNS labels'' []))"

definition validate_peer :: "vpc_spec \<Rightarrow> vpc_peer \<Rightarrow> validation_error + unit" where
  "validate_peer s peer =
     (case peer of
        SecurityGroup name \<Rightarrow>
          ensure (name \<in> set (vpc_security_groups s))
            (Field ''rule references an unknown security group'' [])
      | Service sid \<Rightarrow>
          ensure (\<not> is_nil sid) (Field ''rule service_id must be a non-nil UUID'' [])
      | All \<Rightarrow> Inr ())"

definition validate_rule :: "vpc_spec \<Rightarrow> vpc_rule \<Rightarrow> validation_error + unit" where
  "validate_rule s r =
     bindR (ensure (length (rule_description r) \<le> 256)
              (Field ''rule description must be at most 256 bytes'' [])) (\<lambda>_.
     bindR (ensure (\<not> (rule_port r = 0 \<or> (\<exists>e\<in>set_option (rule_end_port r). e < rule_port r)))
              (Field ''rule ports must be within 1..65535 in ascending order'' [])) (\<lambda>_.
     for_each (validate_peer s) [rule_source r, rule_destination r]))"

definition validate_vpc_spec :: "vpc_spec \<Rightarrow> validation_error + unit" where
  "validate_vpc_spec s =
     bindR (ensure (\<not> (vpc_region s = [] \<or> 128 < length (vpc_region s)))
              (Field ''region is required and must be at most 128 bytes'' [])) (\<lambda>_.
     bindR (ensure (length (vpc_description s) \<le> 2048)
              (Field ''description must be at most 2048 bytes'' [])) (\<lambda>_.
     bindR (validate_groups (vpc_security_groups s) max_vpc_security_groups) (\<lambda>_.
     bindR (ensure (length (vpc_rules s) \<le> max_vpc_rules)
              (Field ''a VPC may have at most 128 connection rules'' [])) (\<lambda>_.
     for_each (validate_rule s) (vpc_rules s)))))"

definition validate_attachment :: "flash_vpc_attachment \<Rightarrow> validation_error + unit" where
  "validate_attachment a =
     bindR (ensure (\<not> is_nil (att_vpc_id a)) (Field ''vpc_id must be a non-nil UUID'' [])) (\<lambda>_.
     bindR (validate_groups (att_security_groups a) max_flash_security_groups) (\<lambda>_.
     ensure (\<not> (\<exists>n\<in>set_option (att_private_name a). \<not> valid_private_name n))
       (Field ''private_name must be a lowercase DNS label starting with a letter'' [])))"

lemma any_bad_group_iff:
  "any_bad_group gs seen \<longleftrightarrow>
     \<not> (list_all valid_private_name gs \<and> distinct gs \<and> set gs \<inter> set seen = {})"
  by (induction gs arbitrary: seen) auto

lemma validate_groups_iff:
  "validate_groups gs m = Inr () \<longleftrightarrow>
     gs \<noteq> [] \<and> length gs \<le> m \<and> distinct gs \<and> (\<forall>g\<in>set gs. valid_private_name g)"
  by (auto simp: validate_groups_def result_simps any_bad_group_iff list_all_iff)

text \<open>
  What an accepted VPC specification guarantees: the port ranges of its rules are ascending and
  start above zero, and every security group a rule names is declared in the specification.
\<close>

lemma validate_vpc_spec_rules:
  assumes "validate_vpc_spec s = Inr ()" and "r \<in> set (vpc_rules s)"
  shows "0 < rule_port r" and "\<And>e. rule_end_port r = Some e \<Longrightarrow> rule_port r \<le> e"
    and "\<And>g. rule_source r = SecurityGroup g \<or> rule_destination r = SecurityGroup g \<Longrightarrow>
      g \<in> set (vpc_security_groups s) \<and> valid_private_name g"
proof -
  from assms have r: "validate_rule s r = Inr ()"
    and g: "validate_groups (vpc_security_groups s) max_vpc_security_groups = Inr ()"
    by (auto simp: validate_vpc_spec_def result_simps)
  from r show "0 < rule_port r" and "\<And>e. rule_end_port r = Some e \<Longrightarrow> rule_port r \<le> e"
    by (auto simp: validate_rule_def result_simps)
  from r have "validate_peer s (rule_source r) = Inr ()" "validate_peer s (rule_destination r) = Inr ()"
    by (simp_all add: validate_rule_def result_simps)
  with g show "\<And>g. rule_source r = SecurityGroup g \<or> rule_destination r = SecurityGroup g \<Longrightarrow>
      g \<in> set (vpc_security_groups s) \<and> valid_private_name g"
    by (auto simp: validate_peer_def validate_groups_iff result_simps)
qed

end
