(* ===== verification/Domain.thy ===== *)
theory Domain
  imports Validation
begin

text \<open>
  \<open>src/src/domain.rs\<close>: the specification of a Flash service, its validation, and the two network
  policies it carries (the sources that may reach a public service, the destinations a workload
  may reach). The functions of the \<open>ipnet\<close> and \<open>url\<close> crates are arguments: \<open>ops\<close> and
  \<open>url_parse\<close>.
\<close>

section \<open>Limits and data\<close>

definition MAX_REPLICAS :: u32 where "MAX_REPLICAS = 100000"
definition MAX_PORTS :: nat where "MAX_PORTS = 16"
definition MAX_ENVIRONMENT_VARIABLES :: nat where "MAX_ENVIRONMENT_VARIABLES = 128"
definition MAX_SECRET_ENV :: nat where "MAX_SECRET_ENV = 32"
definition MAX_SOURCE_CIDRS :: nat where "MAX_SOURCE_CIDRS = 64"
definition MAX_EFFECTIVE_SOURCE_CIDRS :: nat where "MAX_EFFECTIVE_SOURCE_CIDRS = 4096"
definition MAX_CPU_MILLIS :: u32 where "MAX_CPU_MILLIS = 100000000"
definition MAX_MEMORY_MIB :: u32 where "MAX_MEMORY_MIB = 1048576"
definition MIN_EPHEMERAL_STORAGE_GIB :: u32 where "MIN_EPHEMERAL_STORAGE_GIB = 1"
definition MAX_EPHEMERAL_STORAGE_GIB :: u32 where "MAX_EPHEMERAL_STORAGE_GIB = 1000000"
definition MAX_GPUS_PER_VM :: u32 where "MAX_GPUS_PER_VM = 1"
definition MIN_IDLE_TIMEOUT_SECONDS :: u32 where "MIN_IDLE_TIMEOUT_SECONDS = 60"
definition MAX_IDLE_TIMEOUT_SECONDS :: u32 where "MAX_IDLE_TIMEOUT_SECONDS = 86400"

named_theorems limit_defs "the provider limits"

lemmas [limit_defs] =
  MAX_REPLICAS_def MAX_PORTS_def MAX_ENVIRONMENT_VARIABLES_def MAX_SECRET_ENV_def
  MAX_SOURCE_CIDRS_def MAX_EFFECTIVE_SOURCE_CIDRS_def MAX_CPU_MILLIS_def MAX_MEMORY_MIB_def
  MIN_EPHEMERAL_STORAGE_GIB_def MAX_EPHEMERAL_STORAGE_GIB_def MAX_GPUS_PER_VM_def
  MIN_IDLE_TIMEOUT_SECONDS_def MAX_IDLE_TIMEOUT_SECONDS_def

definition PUBLIC_EGRESS_ROOTS :: "string list" where
  "PUBLIC_EGRESS_ROOTS = [''0.0.0.0/0'', ''2000::/3'']"

definition PROTECTED_EGRESS_CIDRS :: "string list" where
  "PROTECTED_EGRESS_CIDRS =
     [''::/128'', ''::1/128'', ''0.0.0.0/8'', ''10.0.0.0/8'', ''100.64.0.0/10'', ''127.0.0.0/8'',
      ''169.254.0.0/16'', ''172.16.0.0/12'', ''192.0.0.0/24'', ''192.88.99.0/24'',
      ''192.168.0.0/16'', ''198.18.0.0/15'', ''224.0.0.0/3'', ''fc00::/7'', ''fe80::/10'',
      ''ff00::/8'']"

datatype endpoint_mode = Ip | LoadBalancer | Web
datatype flash_egress_mode = Disabled | Restricted | Internet
datatype exposure_type = Internal | Public
datatype traffic_mode = Forwarded | Direct

record flash_autoscaling =
  as_min_replicas :: u32
  as_max_replicas :: u32
  as_target_cpu :: "u32 option"
  as_target_memory :: "u32 option"
  as_idle_timeout_seconds :: u32

record flash_egress =
  eg_mode :: flash_egress_mode
  eg_allow_same_organization :: bool
  eg_allowed_destination_cidrs :: "string list"
  eg_denied_destination_cidrs :: "string list"

record 'n destination_ip_block =
  blk_cidr :: 'n
  blk_except :: "'n list"

record flash_port =
  port_name :: string
  port_protocol :: transport_protocol
  port_container :: u16
  port_service :: u16

record flash_oidc_authentication =
  oidc_issuer_url :: string
  oidc_client_id :: string
  oidc_client_secret_ref :: string
  oidc_scopes :: "string list"

record flash_exposure =
  ex_endpoint_mode :: endpoint_mode
  ex_kind :: exposure_type
  ex_traffic_mode :: traffic_mode
  ex_allowed_source_cidrs :: "string list"
  ex_denied_source_cidrs :: "string list"
  ex_authentication :: "flash_oidc_authentication option"

record flash_spec =
  fs_region :: string
  fs_image :: string
  fs_deployment :: "deployment_policy option"
  fs_task_role :: "uuid option"
  fs_replicas :: u32
  fs_stopped :: bool
  fs_autoscaling :: "flash_autoscaling option"
  fs_cpu_millis :: u32
  fs_memory_mib :: u32
  fs_gpu_type :: "string option"
  fs_gpu_count :: u32
  fs_ephemeral_storage_gib :: u32
  fs_rootfs_storage_gib :: "u32 option"
  fs_persistent_storage_gib :: "u32 option"
  fs_restore_from_backup_id :: "uuid option"
  fs_ports :: "flash_port list"
  fs_exposure :: flash_exposure
  fs_egress :: flash_egress
  fs_network :: "flash_vpc_attachment option"
  fs_env :: "(string, string) btree_map"
  fs_secret_env :: "(string, string) btree_map"
  fs_secret_files :: "(string, string) btree_map"
  fs_command :: "string list"
  fs_args :: "string list"
  fs_metadata :: "(string, json) btree_map"

text \<open>What \<open>url::Url\<close> reports of a parsed URL.\<close>

record parsed_url =
  url_scheme :: string
  url_host_str :: "string option"
  url_username :: string
  url_password :: "string option"
  url_path :: string
  url_query :: "string option"
  url_fragment :: "string option"

definition as_kubernetes :: "transport_protocol \<Rightarrow> string" where
  "as_kubernetes p = (case p of Tcp \<Rightarrow> ''TCP'' | Udp \<Rightarrow> ''UDP'')"

definition default_flash_egress :: flash_egress where
  "default_flash_egress =
     \<lparr>eg_mode = Internet, eg_allow_same_organization = False,
      eg_allowed_destination_cidrs = [], eg_denied_destination_cidrs = []\<rparr>"

section \<open>Source and destination networks\<close>

definition parse_network :: "'n ipnet_ops \<Rightarrow> string \<Rightarrow> string \<Rightarrow> validation_error + 'n" where
  "parse_network ops v name =
     bindR (ok_or (net_parse ops v) (Field ''invalid {name} {value}'' [name, v]))
       (\<lambda>n. Inr (net_trunc ops n))"

definition protected_egress_networks :: "'n ipnet_ops \<Rightarrow> validation_error + 'n list" where
  "protected_egress_networks ops =
     map_result (\<lambda>v. parse_network ops v ''protected egress network'') PROTECTED_EGRESS_CIDRS"

definition networks_overlap :: "'n ipnet_ops \<Rightarrow> 'n \<Rightarrow> 'n \<Rightarrow> bool" where
  "networks_overlap ops l r \<longleftrightarrow> net_contains ops l r \<or> net_contains ops r l"

text \<open>One entry of a CIDR list: a network, or a single address, cut to its prefix.\<close>

definition parse_source_entry :: "'n ipnet_ops \<Rightarrow> string \<Rightarrow> string \<Rightarrow> validation_error + 'n" where
  "parse_source_entry ops field v =
     bindR (ensure (\<not> (v = [] \<or> \<not> is_trimmed v))
              (Field ''{field} entries must be trimmed IP addresses or CIDRs'' [field])) (\<lambda>_.
     bindR (ok_or (case net_parse ops v of
                     Some n \<Rightarrow> Some n
                   | None \<Rightarrow> map_option (net_of_addr ops) (parse_ip_addr v))
              (Field ''{field} entry {value:?} must be an IPv4/IPv6 address or CIDR'' [field, v]))
       (\<lambda>n. Inr (net_trunc ops n)))"

definition parse_source_networks ::
  "('n::linorder) ipnet_ops \<Rightarrow> string \<Rightarrow> string list \<Rightarrow> validation_error + 'n list" where
  "parse_source_networks ops field vs =
     bindR (ensure (length vs \<le> MAX_SOURCE_CIDRS)
              (Field ''{field} must contain at most {MAX_SOURCE_CIDRS} entries''
                 [field, show_nat MAX_SOURCE_CIDRS])) (\<lambda>_.
     bindR (try_fold (\<lambda>v networks.
              bindR (parse_source_entry ops field v) (\<lambda>n.
              bindR (ensure (n \<notin> set networks)
                       (Field ''{field} must not contain duplicate networks'' [field])) (\<lambda>_.
              Inr (n # networks)))) vs [])
       (\<lambda>networks. Inr (bt_set networks)))"

definition ip_blocks :: "'n ipnet_ops \<Rightarrow> 'n list \<Rightarrow> 'n list \<Rightarrow> 'n destination_ip_block list" where
  "ip_blocks ops roots denied0 =
     (let denied = net_aggregate ops denied0
      in map (\<lambda>c. \<lparr>blk_cidr = c, blk_except = filter (net_contains ops c) denied\<rparr>)
           (filter (\<lambda>c. \<not> list_ex (\<lambda>n. net_contains ops n c) denied) (net_aggregate ops roots)))"

definition validate_egress :: "('n::linorder) ipnet_ops \<Rightarrow> flash_egress \<Rightarrow> validation_error + unit" where
  "validate_egress ops e =
     bindR (parse_source_networks ops ''allowed_destination_cidrs''
              (eg_allowed_destination_cidrs e)) (\<lambda>allowed.
     bindR (parse_source_networks ops ''denied_destination_cidrs''
              (eg_denied_destination_cidrs e)) (\<lambda>_.
     bindR (ensure (\<not> (eg_mode e \<noteq> Restricted \<and> allowed \<noteq> []))
              (Field ''allowed_destination_cidrs requires restricted egress mode'' [])) (\<lambda>_.
     bindR (protected_egress_networks ops) (\<lambda>protected_nets.
     (case find (\<lambda>n. list_ex (networks_overlap ops n) protected_nets) allowed of
        Some n \<Rightarrow>
          Inl (Field ''allowed destination {network} overlaps a protected private or infrastructure network''
                 [net_show ops n])
      | None \<Rightarrow> Inr ())))))"

definition destination_ip_blocks ::
  "('n::linorder) ipnet_ops \<Rightarrow> flash_egress \<Rightarrow> 'n list \<Rightarrow>
   validation_error + 'n destination_ip_block list" where
  "destination_ip_blocks ops e additional_protected =
     bindR (validate_egress ops e) (\<lambda>_.
     bindR (case eg_mode e of
              Disabled \<Rightarrow> Inr []
            | Restricted \<Rightarrow>
                parse_source_networks ops ''allowed_destination_cidrs'' (eg_allowed_destination_cidrs e)
            | Internet \<Rightarrow>
                map_result (\<lambda>v. parse_network ops v ''public egress root'') PUBLIC_EGRESS_ROOTS)
       (\<lambda>roots.
     bindR (protected_egress_networks ops) (\<lambda>protected_nets.
     bindR (parse_source_networks ops ''denied_destination_cidrs'' (eg_denied_destination_cidrs e))
       (\<lambda>denied.
     Inr (ip_blocks ops roots (protected_nets @ additional_protected @ denied))))))"

text \<open>
  \<open>subtract_network\<close> splits a network until no part meets the denied one. The recursion follows
  the prefix length; the model counts its depth with fuel.
\<close>

definition u8_checked_add :: "nat \<Rightarrow> nat \<Rightarrow> nat option" where
  "u8_checked_add a b = (if a + b \<le> 255 then Some (a + b) else None)"

fun subtract_network ::
  "'n ipnet_ops \<Rightarrow> nat \<Rightarrow> 'n \<Rightarrow> 'n \<Rightarrow> 'n list \<Rightarrow> validation_error + 'n list" where
  "subtract_network ops 0 allowed denied out = Inl Diverges"
| "subtract_network ops (Suc fuel) allowed denied out =
     (if net_contains ops denied allowed then Inr out
      else if \<not> net_contains ops allowed denied then Inr (out @ [allowed])
      else
        bindR (ok_or (u8_checked_add (net_prefix_len ops allowed) 1)
                 (Field ''source access policy prefix cannot be subdivided'' [])) (\<lambda>child_prefix.
        bindR (ok_or (net_subnets ops allowed child_prefix)
                 (Field ''source access policy prefix cannot be subdivided'' [])) (\<lambda>children.
        try_fold (\<lambda>child out. subtract_network ops fuel child denied out) children out)))"

definition subtract_fuel :: nat where "subtract_fuel = 129"

definition source_networks ::
  "('n::linorder) ipnet_ops \<Rightarrow> flash_exposure \<Rightarrow> validation_error + ('n list \<times> 'n list)" where
  "source_networks ops x =
     bindR (parse_source_networks ops ''allowed_source_cidrs'' (ex_allowed_source_cidrs x)) (\<lambda>allowed.
     bindR (parse_source_networks ops ''denied_source_cidrs'' (ex_denied_source_cidrs x)) (\<lambda>denied.
     Inr (allowed, denied)))"

text \<open>One round of the loop over the denied networks.\<close>

definition subtract_from_all ::
  "'n ipnet_ops \<Rightarrow> 'n \<Rightarrow> 'n list \<Rightarrow> validation_error + 'n list" where
  "subtract_from_all ops denied effective =
     bindR (try_fold (\<lambda>allowed next.
              bindR (subtract_network ops subtract_fuel allowed denied next) (\<lambda>next'.
              bindR (ensure (length next' \<le> MAX_EFFECTIVE_SOURCE_CIDRS)
                       (Field ''source access policy expands beyond {MAX_EFFECTIVE_SOURCE_CIDRS} CIDRs''
                          [show_nat MAX_EFFECTIVE_SOURCE_CIDRS])) (\<lambda>_.
              Inr next'))) effective [])
       (\<lambda>next. Inr (net_aggregate ops next))"

definition effective_source_networks ::
  "('n::linorder) ipnet_ops \<Rightarrow> flash_exposure \<Rightarrow> validation_error + 'n list" where
  "effective_source_networks ops x =
     bindR (source_networks ops x) (\<lambda>(allowed, denied).
     bindR (if allowed = []
            then bindR (ok_or (net_parse ops ''0.0.0.0/0'') (Field ''invalid IPv4 root network'' [])) (\<lambda>v4.
                 bindR (ok_or (net_parse ops ''::/0'') (Field ''invalid IPv6 root network'' [])) (\<lambda>v6.
                 Inr [v4, v6]))
            else Inr (net_aggregate ops allowed))
       (\<lambda>effective. try_fold (subtract_from_all ops) denied effective))"

definition public_source_ip_blocks ::
  "('n::linorder) ipnet_ops \<Rightarrow> flash_exposure \<Rightarrow> validation_error + 'n destination_ip_block list" where
  "public_source_ip_blocks ops x =
     bindR (source_networks ops x) (\<lambda>(allowed, denied).
     bindR (if allowed = []
            then map_result (\<lambda>v. parse_network ops v ''public ingress root'') PUBLIC_EGRESS_ROOTS
            else Inr allowed) (\<lambda>roots.
     bindR (protected_egress_networks ops) (\<lambda>protected_nets.
     Inr (ip_blocks ops roots (denied @ protected_nets)))))"

definition has_source_policy :: "flash_exposure \<Rightarrow> bool" where
  "has_source_policy x \<longleftrightarrow> ex_allowed_source_cidrs x \<noteq> [] \<or> ex_denied_source_cidrs x \<noteq> []"

section \<open>Validation of a specification\<close>

definition validate_autoscaling :: "flash_autoscaling \<Rightarrow> u32 \<Rightarrow> validation_error + unit" where
  "validate_autoscaling s replicas =
     bindR (ensure (\<not> (as_max_replicas s > MAX_REPLICAS \<or> as_max_replicas s < as_min_replicas s \<or>
                      \<not> (max (as_min_replicas s) 1 \<le> replicas \<and> replicas \<le> as_max_replicas s)))
              (Field ''autoscaling requires 0 <= min_replicas <= replicas <= max_replicas <= 100000'' [])) (\<lambda>_.
     bindR (ensure (MIN_IDLE_TIMEOUT_SECONDS \<le> as_idle_timeout_seconds s \<and>
                    as_idle_timeout_seconds s \<le> MAX_IDLE_TIMEOUT_SECONDS)
              (Field ''idle_timeout_seconds must be between {MIN_IDLE_TIMEOUT_SECONDS} and {MAX_IDLE_TIMEOUT_SECONDS}''
                 [show_nat MIN_IDLE_TIMEOUT_SECONDS, show_nat MAX_IDLE_TIMEOUT_SECONDS])) (\<lambda>_.
     let targets = [as_target_cpu s, as_target_memory s]
     in ensure (\<not> (list_all (\<lambda>t. t = None) targets \<or>
                   list_ex (\<lambda>t. \<exists>v\<in>set_option t. \<not> (1 \<le> v \<and> v \<le> 100)) targets))
          (Field ''autoscaling requires at least one CPU or memory target, each between 1 and 100 percent'' [])))"

definition validate_oidc ::
  "(string \<Rightarrow> parsed_url option) \<Rightarrow> flash_oidc_authentication \<Rightarrow> validation_error + unit" where
  "validate_oidc url_parse a =
     bindR (ok_or (url_parse (oidc_issuer_url a))
              (Field ''issuer_url must be an absolute HTTPS issuer URL'' [])) (\<lambda>issuer.
     bindR (ensure (\<not> (2048 < length (oidc_issuer_url a) \<or> url_scheme issuer \<noteq> ''https'' \<or>
                      url_host_str issuer = None \<or> url_username issuer \<noteq> [] \<or>
                      url_password issuer \<noteq> None \<or> url_query issuer \<noteq> None \<or>
                      url_fragment issuer \<noteq> None \<or> any_whitespace (oidc_issuer_url a) \<or>
                      any_control (oidc_issuer_url a)))
              (Field ''issuer_url must be HTTPS without credentials, query or fragment'' [])) (\<lambda>_.
     bindR (ensure (\<not> (oidc_client_id a = [] \<or> 256 < length (oidc_client_id a) \<or>
                      any_control (oidc_client_id a)))
              (Field ''OIDC client_id must contain 1 to 256 characters without controls'' [])) (\<lambda>_.
     bindR (ensure (\<not> (oidc_client_secret_ref a = [] \<or> 63 < length (oidc_client_secret_ref a) \<or>
                      \<not> is_ascii_alphanumeric (hd (oidc_client_secret_ref a)) \<or>
                      \<not> is_ascii_alphanumeric (last (oidc_client_secret_ref a)) \<or>
                      list_ex (\<lambda>b. \<not> is_ascii_lowercase b \<and> \<not> is_ascii_digit b \<and> b \<noteq> CHR ''-'')
                        (oidc_client_secret_ref a)))
              (Field ''client_secret_ref must be a lowercase DNS label of at most 63 characters'' [])) (\<lambda>_.
     ensure (\<not> (16 < length (oidc_scopes a) \<or>
               list_ex (\<lambda>s. s = [] \<or> 128 < length s \<or>
                 list_ex (\<lambda>b. \<not> (33 \<le> byte b \<and> byte b \<le> 126) \<or> byte b = 34 \<or> byte b = 92) s)
                 (oidc_scopes a) \<or>
               length (bt_set (oidc_scopes a)) \<noteq> length (oidc_scopes a)))
       (Field ''OIDC scopes must be at most 16 unique nonempty scope tokens'' [])))))"

definition effective_gpu_count :: "flash_spec \<Rightarrow> u32" where
  "effective_gpu_count s = (if fs_gpu_type s \<noteq> None then 1 else fs_gpu_count s)"

definition effective_secret_env :: "flash_spec \<Rightarrow> validation_error + (string, string) btree_map" where
  "effective_secret_env s =
     try_fold (\<lambda>(file_name, secret_name) effective.
       let env_name = replace_char (CHR ''-'') (CHR ''_'') (to_ascii_uppercase file_name)
       in if bt_contains effective env_name
          then Inl (Field ''secret environment variable {env_name:?} is configured more than once'' [env_name])
          else Inr (bt_insert env_name secret_name effective))
       (fs_secret_files s) (fs_secret_env s)"

text \<open>The first part of \<open>FlashSpec::validate\<close>: deployment, image, replicas, exposure, resources.\<close>

definition validate_shape ::
  "(string \<Rightarrow> parsed_url option) \<Rightarrow> flash_spec \<Rightarrow> validation_error + unit" where
  "validate_shape url_parse s =
     bindR (case fs_deployment s of
              None \<Rightarrow> Inr ()
            | Some p \<Rightarrow> map_err (\<lambda>e. Field e []) (validate_deployment_policy p)) (\<lambda>_.
     bindR (validate_text ''region'' (fs_region s) 64) (\<lambda>_.
     bindR (ensure (\<not> (512 < length (fs_image s) \<or> \<not> is_trimmed (fs_image s) \<or> fs_image s = [] \<or>
                      any_whitespace (fs_image s)))
              (Field ''image must be a non-empty container reference of at most 512 characters'' [])) (\<lambda>_.
     bindR (ensure (1 \<le> fs_replicas s \<and> fs_replicas s \<le> MAX_REPLICAS)
              (Field ''replicas must be between 1 and {MAX_REPLICAS}'' [show_nat MAX_REPLICAS])) (\<lambda>_.
     bindR (case fs_autoscaling s of
              None \<Rightarrow> Inr ()
            | Some a \<Rightarrow>
                bindR (validate_autoscaling a (fs_replicas s)) (\<lambda>_.
                ensure (\<not> (as_min_replicas a = 0 \<and> ex_endpoint_mode (fs_exposure s) \<noteq> Web))
                  (Field ''min_replicas=0 requires the HTTP/HTTPS web endpoint mode'' []))) (\<lambda>_.
     bindR (ensure (\<not> (ex_endpoint_mode (fs_exposure s) \<in> {LoadBalancer, Web} \<and>
                      (ex_kind (fs_exposure s) \<noteq> Public \<or> ex_traffic_mode (fs_exposure s) \<noteq> Forwarded)))
              (Field ''load_balancer and web endpoint modes require public exposure and forwarded traffic_mode'' [])) (\<lambda>_.
     bindR (if ex_endpoint_mode (fs_exposure s) = Web
            then bindR (ensure (\<not> (length (fs_ports s) \<noteq> 1 \<or> port_protocol (hd (fs_ports s)) \<noteq> Tcp))
                          (Field ''web endpoint_mode requires exactly one TCP port'' [])) (\<lambda>_.
                 ensure (\<not> has_source_policy (fs_exposure s))
                   (Field ''web endpoint_mode does not yet support allowed_source_cidrs or denied_source_cidrs'' []))
            else Inr ()) (\<lambda>_.
     bindR (case ex_authentication (fs_exposure s) of
              None \<Rightarrow> Inr ()
            | Some auth \<Rightarrow>
                bindR (ensure (ex_endpoint_mode (fs_exposure s) = Web)
                         (Field ''OIDC authentication requires the HTTP/HTTPS web endpoint mode'' [])) (\<lambda>_.
                validate_oidc url_parse auth)) (\<lambda>_.
     bindR (ensure (10 \<le> fs_cpu_millis s \<and> fs_cpu_millis s \<le> MAX_CPU_MILLIS)
              (Field ''cpu_millis must be between 10 and {MAX_CPU_MILLIS}'' [show_nat MAX_CPU_MILLIS])) (\<lambda>_.
     bindR (ensure (16 \<le> fs_memory_mib s \<and> fs_memory_mib s \<le> MAX_MEMORY_MIB)
              (Field ''memory_mib must be between 16 and {MAX_MEMORY_MIB}'' [show_nat MAX_MEMORY_MIB])) (\<lambda>_.
     bindR (ensure (fs_gpu_count s \<le> MAX_GPUS_PER_VM)
              (Field ''gpu_count must be between 0 and {MAX_GPUS_PER_VM}'' [show_nat MAX_GPUS_PER_VM])) (\<lambda>_.
     bindR (case fs_gpu_type s of None \<Rightarrow> Inr () | Some t \<Rightarrow> validate_gpu_type t) (\<lambda>_.
     ensure (\<not> (0 < effective_gpu_count s \<and>
               (fs_replicas s \<noteq> 1 \<or> (\<exists>a\<in>set_option (fs_autoscaling s). as_max_replicas a \<noteq> 1))))
       (Field ''GPU Flash VMs require replicas=1 and autoscaling max_replicas=1'' [])))))))))))))"

text \<open>
  The disk split: the sums are computed in 64 bits from 32-bit values, so they do not wrap.
\<close>

definition validate_disk :: "flash_spec \<Rightarrow> validation_error + unit" where
  "validate_disk s =
     bindR (ensure (MIN_EPHEMERAL_STORAGE_GIB \<le> fs_ephemeral_storage_gib s \<and>
                    fs_ephemeral_storage_gib s \<le> MAX_EPHEMERAL_STORAGE_GIB)
              (Field ''ephemeral_storage_gib must be between {MIN_EPHEMERAL_STORAGE_GIB} and {MAX_EPHEMERAL_STORAGE_GIB}''
                 [show_nat MIN_EPHEMERAL_STORAGE_GIB, show_nat MAX_EPHEMERAL_STORAGE_GIB])) (\<lambda>_.
     bindR (ensure (\<not> (\<exists>r\<in>set_option (fs_rootfs_storage_gib s).
                        r = 0 \<or> fs_ephemeral_storage_gib s \<le> r))
              (Field ''rootfs_storage_gib must be at least 1 and less than ephemeral_storage_gib'' [])) (\<lambda>_.
     bindR (ensure (\<not> (\<exists>p\<in>set_option (fs_persistent_storage_gib s).
                        p = 0 \<or> fs_ephemeral_storage_gib s
                                \<le> p + (case fs_rootfs_storage_gib s of None \<Rightarrow> 1 | Some r \<Rightarrow> r)))
              (Field ''persistent_storage_gib must be at least 1 and leave room for the image and container filesystem within ephemeral_storage_gib'' [])) (\<lambda>_.
     ensure (length (fs_ports s) \<le> MAX_PORTS)
       (Field ''ports must contain at most {MAX_PORTS} entries'' [show_nat MAX_PORTS]))))"

fun validate_ports ::
  "flash_port list \<Rightarrow> string list \<Rightarrow> (transport_protocol \<times> u16) list \<Rightarrow> validation_error + unit" where
  "validate_ports [] names published = Inr ()"
| "validate_ports (p # ps) names published =
     bindR (validate_dns_label ''port name'' (port_name p)) (\<lambda>_.
     bindR (ensure (\<not> (port_container p = 0 \<or> port_service p = 0))
              (Field ''container_port and service_port must be between 1 and 65535'' [])) (\<lambda>_.
     bindR (ensure (port_name p \<notin> set names)
              (Field ''port name {:?} is duplicated'' [port_name p])) (\<lambda>_.
     bindR (ensure ((port_protocol p, port_service p) \<notin> set published)
              (Field ''{} service port {} is duplicated''
                 [as_kubernetes (port_protocol p), show_nat (port_service p)])) (\<lambda>_.
     validate_ports ps (port_name p # names) ((port_protocol p, port_service p) # published)))))"

definition validate_networks :: "('n::linorder) ipnet_ops \<Rightarrow> flash_spec \<Rightarrow> validation_error + unit" where
  "validate_networks ops s =
     bindR (ensure (\<not> (ex_kind (fs_exposure s) = Internal \<and> ex_traffic_mode (fs_exposure s) \<noteq> Forwarded))
              (Field ''internal exposure requires forwarded traffic_mode'' [])) (\<lambda>_.
     bindR (effective_source_networks ops (fs_exposure s)) (\<lambda>_.
     bindR (validate_egress ops (fs_egress s)) (\<lambda>_.
     (case fs_network s of
        None \<Rightarrow> Inr ()
      | Some n \<Rightarrow>
          bindR (validate_attachment n) (\<lambda>_.
          ensure (\<not> eg_allow_same_organization (fs_egress s))
            (Field ''VPC attachments require allow_same_organization=false'' []))))))"

definition RESERVED_IDENTITY_ENV :: "string list" where
  "RESERVED_IDENTITY_ENV =
     [''HETEROCLOUD_ENDPOINT'', ''HETEROCLOUD_ORGANIZATION_ID'', ''HETEROCLOUD_WORKLOAD_TOKEN_FILE'']"

definition validate_environment :: "flash_spec \<Rightarrow> validation_error + unit" where
  "validate_environment s =
     bindR (ensure (length (fs_env s) \<le> MAX_ENVIRONMENT_VARIABLES)
              (Field ''env must not contain more than {MAX_ENVIRONMENT_VARIABLES} entries''
                 [show_nat MAX_ENVIRONMENT_VARIABLES])) (\<lambda>_.
     bindR (for_each (\<lambda>(name, v).
              bindR (validate_env_name name) (\<lambda>_.
              ensure (length v \<le> 32768)
                (Field ''environment variable {name:?} exceeds 32768 characters'' [name]))) (fs_env s)) (\<lambda>_.
     bindR (effective_secret_env s) (\<lambda>secret_env.
     bindR (ensure (length secret_env \<le> MAX_SECRET_ENV)
              (Field ''secret_env must contain at most {MAX_SECRET_ENV} entries'' [show_nat MAX_SECRET_ENV])) (\<lambda>_.
     bindR (for_each (\<lambda>(file_name, secret_name).
              bindR (validate_dns_label ''secret file name'' file_name) (\<lambda>_.
              validate_dns_label ''secret name'' secret_name)) (fs_secret_files s)) (\<lambda>_.
     bindR (ensure (\<not> (fs_task_role s \<noteq> None \<and>
                      list_ex (\<lambda>key. bt_contains (fs_env s) key \<or> bt_contains secret_env key)
                        RESERVED_IDENTITY_ENV))
              (Field ''task_role reserves the HeteroCloud workload identity environment settings'' [])) (\<lambda>_.
     for_each (\<lambda>(env_name, secret_name).
       bindR (validate_env_name env_name) (\<lambda>_.
       bindR (validate_dns_label ''secret name'' secret_name) (\<lambda>_.
       ensure (\<not> bt_contains (fs_env s) env_name)
         (Field ''environment variable {env_name:?} is configured as both plain text and a secret''
            [env_name])))) secret_env))))))"

definition validate_flash_spec ::
  "('n::linorder) ipnet_ops \<Rightarrow> (string \<Rightarrow> parsed_url option) \<Rightarrow> flash_spec \<Rightarrow> validation_error + unit" where
  "validate_flash_spec ops url_parse s =
     bindR (validate_shape url_parse s) (\<lambda>_.
     bindR (validate_disk s) (\<lambda>_.
     bindR (validate_ports (fs_ports s) [] []) (\<lambda>_.
     bindR (validate_networks ops s) (\<lambda>_.
     bindR (validate_environment s) (\<lambda>_.
     bindR (validate_string_list ''command'' (fs_command s) 128) (\<lambda>_.
     validate_string_list ''args'' (fs_args s) 256))))))"

end
