(* ===== verification/Network_Sets.thy ===== *)
theory Network_Sets
  imports Domain
begin

text \<open>
  What the network policies of \<open>domain.rs\<close> mean as sets of addresses. The lemmas are proved once
  in the locale \<open>ip_network\<close> (any network type that keeps the documented laws of the crate) and in
  \<open>ip_network_text\<close>, which adds that the CIDR literals of the source parse to the networks they
  denote; the properties state the results over the definitions of \<open>Domain\<close>.
\<close>

section \<open>The literals of the source\<close>

text \<open>The addresses a CIDR literal denotes.\<close>

definition literal_addrs :: "string \<Rightarrow> ip_addr set" where
  "literal_addrs s = (case parse_cidr s of None \<Rightarrow> {} | Some c \<Rightarrow> {a. cidr_contains_addr c a})"

definition ROOT_LITERALS :: "string list" where
  "ROOT_LITERALS = [''0.0.0.0/0'', ''::/0'']"

locale ip_network_text = ip_network +
  assumes parse_literal:
    "s \<in> set (ROOT_LITERALS @ PUBLIC_EGRESS_ROOTS @ PROTECTED_EGRESS_CIDRS) \<Longrightarrow>
     \<exists>n. net_parse ops s = Some n \<and> net_addrs ops n = literal_addrs s"

section \<open>Lemmas on the operations\<close>

context ip_network
begin

lemma subtract_children:
  assumes child: "\<And>c out. c \<in> set cs \<Longrightarrow>
      \<exists>r. f c out = Inr r \<and> cover ops r = cover ops out \<union> (net_addrs ops c - D)"
  shows "\<exists>r. try_fold f cs out = Inr r \<and> cover ops r = cover ops out \<union> (cover ops cs - D)"
  using child
proof (induction cs arbitrary: out)
  case Nil
  then show ?case by auto
next
  case (Cons c cs)
  from Cons.prems [of c out] obtain r where
    r: "f c out = Inr r" "cover ops r = cover ops out \<union> (net_addrs ops c - D)" by auto
  from Cons.IH [of r] Cons.prems obtain r' where
    "try_fold f cs r = Inr r'" "cover ops r' = cover ops r \<union> (cover ops cs - D)" by auto
  with r show ?case by (auto simp: Un_Diff)
qed

text \<open>
  With fuel for the remaining prefix bits, the subtraction returns, and what it adds to the output
  covers exactly the addresses of the network that are not denied.
\<close>

lemma subtract_network_cover:
  "128 < fuel + net_prefix_len ops allowed \<Longrightarrow>
   \<exists>r. subtract_network ops fuel allowed denied out = Inr r \<and>
       cover ops r = cover ops out \<union> (net_addrs ops allowed - net_addrs ops denied)"
proof (induction fuel arbitrary: allowed out)
  case 0
  then show ?case using prefix_len_le [of allowed] max_len_le [of allowed] by simp
next
  case (Suc fuel)
  consider (inside) "net_contains ops denied allowed"
    | (disjoint) "\<not> net_contains ops denied allowed" "\<not> net_contains ops allowed denied"
    | (split) "\<not> net_contains ops denied allowed" "net_contains ops allowed denied" by blast
  then show ?case
  proof cases
    case inside
    then show ?thesis by (auto simp: contains_iff)
  next
    case disjoint
    then show ?thesis using not_contains_disjoint [OF disjoint] by auto
  next
    case split
    then have strict: "net_addrs ops denied \<subset> net_addrs ops allowed" by (auto simp: contains_iff)
    have "net_prefix_len ops allowed < 128"
      using strict_prefix_len [OF strict] prefix_len_le [of denied] max_len_le [of denied] by simp
    then have pre: "u8_checked_add (net_prefix_len ops allowed) 1 = Some (Suc (net_prefix_len ops allowed))"
      by (simp add: u8_checked_add_def)
    from child_exists [OF strict] obtain cs where
      cs: "net_subnets ops allowed (Suc (net_prefix_len ops allowed)) = Some cs" by blast
    have child: "\<exists>r. subtract_network ops fuel c denied out' = Inr r \<and>
        cover ops r = cover ops out' \<union> (net_addrs ops c - net_addrs ops denied)"
      if "c \<in> set cs" for c out'
      using child_of [OF cs strict that] Suc.prems by (intro Suc.IH) simp
    have "cs \<noteq> [] \<Longrightarrow> cover ops cs = net_addrs ops allowed"
      using child_of [OF cs strict, of "hd cs"] by simp
    moreover have "cs \<noteq> []"
      using subnets_partition [of allowed "Suc (net_prefix_len ops allowed)"] cs addrs_nonempty [of allowed]
        strict_prefix_len [OF strict] prefix_len_le [of denied] contains_max_len [of denied allowed] strict
      by auto
    ultimately have "cover ops cs = net_addrs ops allowed" by simp
    moreover have "\<exists>r. try_fold (\<lambda>c. subtract_network ops fuel c denied) cs out = Inr r \<and>
        cover ops r = cover ops out \<union> (cover ops cs - net_addrs ops denied)"
      by (rule subtract_children) (rule child)
    ultimately show ?thesis using split pre cs by (simp add: ok_or_def)
  qed
qed

lemma subtract_round:
  assumes "try_fold (\<lambda>allowed next.
              bindR (subtract_network ops subtract_fuel allowed denied next) (\<lambda>next'.
              bindR (ensure (length next' \<le> MAX_EFFECTIVE_SOURCE_CIDRS) e) (\<lambda>_. Inr next')))
            effective out = Inr r"
  shows "cover ops r = cover ops out \<union> (cover ops effective - net_addrs ops denied)"
  using assms
proof (induction effective arbitrary: out)
  case Nil
  then show ?case by simp
next
  case (Cons a effective)
  obtain r' where r': "subtract_network ops subtract_fuel a denied out = Inr r'"
    and cov: "cover ops r' = cover ops out \<union> (net_addrs ops a - net_addrs ops denied)"
    using subtract_network_cover [of subtract_fuel a denied out] by (auto simp: subtract_fuel_def)
  with Cons.prems have "try_fold (\<lambda>allowed next.
              bindR (subtract_network ops subtract_fuel allowed denied next) (\<lambda>next'.
              bindR (ensure (length next' \<le> MAX_EFFECTIVE_SOURCE_CIDRS) e) (\<lambda>_. Inr next')))
            effective r' = Inr r"
    by (auto simp: result_simps)
  from Cons.IH [OF this] cov show ?case by (auto simp: Un_Diff)
qed

lemma subtract_from_all_cover:
  "subtract_from_all ops denied effective = Inr r \<Longrightarrow>
   cover ops r = cover ops effective - net_addrs ops denied"
  unfolding subtract_from_all_def by (auto simp: result_simps aggregate_cover dest!: subtract_round)

lemma subtract_all_cover:
  "try_fold (subtract_from_all ops) denied effective = Inr r \<Longrightarrow>
   cover ops r = cover ops effective - cover ops denied"
proof (induction denied arbitrary: effective)
  case Nil
  then show ?case by simp
next
  case (Cons d denied)
  from Cons.prems obtain r' where r': "subtract_from_all ops d effective = Inr r'"
    and "try_fold (subtract_from_all ops) denied r' = Inr r" by (auto simp: result_simps)
  with Cons.IH [of r'] subtract_from_all_cover [OF r'] show ?case by auto
qed

text \<open>The only error of the subtraction is the limit on the number of networks.\<close>

lemma subtract_round_error:
  assumes "try_fold (\<lambda>allowed next.
              bindR (subtract_network ops subtract_fuel allowed denied next) (\<lambda>next'.
              bindR (ensure (length next' \<le> MAX_EFFECTIVE_SOURCE_CIDRS) e) (\<lambda>_. Inr next')))
            effective out = Inl err"
  shows "err = e"
  using assms
proof (induction effective arbitrary: out)
  case Nil
  then show ?case by simp
next
  case (Cons a effective)
  obtain r' where "subtract_network ops subtract_fuel a denied out = Inr r'"
    using subtract_network_cover [of subtract_fuel a denied out] by (auto simp: subtract_fuel_def)
  with Cons show ?case by (auto simp: result_simps)
qed

lemma subtract_all_error:
  "try_fold (subtract_from_all ops) denied effective = Inl err \<Longrightarrow>
   err = Field ''source access policy expands beyond {MAX_EFFECTIVE_SOURCE_CIDRS} CIDRs''
           [show_nat MAX_EFFECTIVE_SOURCE_CIDRS]"
proof (induction denied arbitrary: effective)
  case Nil
  then show ?case by simp
next
  case (Cons d denied)
  then show ?case
    by (auto simp: result_simps subtract_from_all_def dest!: subtract_round_error)
qed

text \<open>What a list of blocks lets through.\<close>

lemma ip_blocks_cover:
  "{a. \<exists>b\<in>set (ip_blocks ops roots denied).
      a \<in> net_addrs ops (blk_cidr b) \<and> a \<notin> cover ops (blk_except b)}
   = cover ops roots - cover ops denied"
proof -
  let ?D = "net_aggregate ops denied" and ?R = "net_aggregate ops roots"
  have cut: "net_addrs ops c - cover ops (filter (net_contains ops c) ?D) = net_addrs ops c - cover ops ?D"
    if "\<not> list_ex (\<lambda>n. net_contains ops n c) ?D" for c
  proof -
    have "net_contains ops c d \<or> net_addrs ops c \<inter> net_addrs ops d = {}" if "d \<in> set ?D" for d
      using that \<open>\<not> list_ex (\<lambda>n. net_contains ops n c) ?D\<close> not_contains_disjoint [of d c]
      by (auto simp: list_ex_iff)
    then show ?thesis by (auto simp: cover_def)
  qed
  have gone: "net_addrs ops c - cover ops ?D = {}" if "list_ex (\<lambda>n. net_contains ops n c) ?D" for c
    using that by (auto simp: list_ex_iff contains_iff cover_def)
  have "{a. \<exists>b\<in>set (ip_blocks ops roots denied).
      a \<in> net_addrs ops (blk_cidr b) \<and> a \<notin> cover ops (blk_except b)}
    = (\<Union>c\<in>set (filter (\<lambda>c. \<not> list_ex (\<lambda>n. net_contains ops n c) ?D) ?R).
         net_addrs ops c - cover ops (filter (net_contains ops c) ?D))"
    by (auto simp: ip_blocks_def Let_def)
  also have "\<dots> = (\<Union>c\<in>set (filter (\<lambda>c. \<not> list_ex (\<lambda>n. net_contains ops n c) ?D) ?R).
         net_addrs ops c - cover ops ?D)"
    using cut by simp
  also have "\<dots> = cover ops ?R - cover ops ?D"
    using gone by (auto simp: cover_def)
  finally show ?thesis by (simp add: aggregate_cover)
qed

end

text \<open>The addresses that a list of IP blocks lets through.\<close>

definition permitted :: "'n ipnet_ops \<Rightarrow> 'n destination_ip_block list \<Rightarrow> ip_addr set" where
  "permitted ops bs =
     {a. \<exists>b\<in>set bs. a \<in> net_addrs ops (blk_cidr b) \<and> a \<notin> cover ops (blk_except b)}"

section \<open>Entries of a CIDR list\<close>

text \<open>
  The addresses of a list of entries: every entry read as a network or as a single address.
\<close>

definition entry_net :: "'n ipnet_ops \<Rightarrow> string \<Rightarrow> 'n option" where
  "entry_net ops v =
     (case net_parse ops v of
        Some n \<Rightarrow> Some n | None \<Rightarrow> map_option (net_of_addr ops) (parse_ip_addr v))"

definition entries_addrs :: "'n ipnet_ops \<Rightarrow> string list \<Rightarrow> ip_addr set" where
  "entries_addrs ops vs = {a. \<exists>v\<in>set vs. \<exists>n. entry_net ops v = Some n \<and> a \<in> net_addrs ops n}"

lemma parse_source_entry_Inr:
  "parse_source_entry ops field v = Inr n \<longleftrightarrow>
     v \<noteq> [] \<and> is_trimmed v \<and> (\<exists>m. entry_net ops v = Some m \<and> n = net_trunc ops m)"
  by (auto simp: parse_source_entry_def entry_net_def result_simps)

lemma parse_source_loop:
  assumes "try_fold (\<lambda>v networks.
      bindR (parse_source_entry ops field v) (\<lambda>n.
      bindR (ensure (n \<notin> set networks) e) (\<lambda>_. Inr (n # networks)))) vs acc = Inr r"
  shows "\<exists>ns. list_all2 (\<lambda>v n. parse_source_entry ops field v = Inr n) vs ns \<and> set r = set ns \<union> set acc"
  using assms
proof (induction vs arbitrary: acc)
  case Nil
  then show ?case by auto
next
  case (Cons v vs)
  from Cons.prems obtain n where n: "parse_source_entry ops field v = Inr n"
    and "try_fold (\<lambda>v networks.
      bindR (parse_source_entry ops field v) (\<lambda>n.
      bindR (ensure (n \<notin> set networks) e) (\<lambda>_. Inr (n # networks)))) vs (n # acc) = Inr r"
    by (auto simp: result_simps)
  from Cons.IH [OF this(2)] obtain ns where
    "list_all2 (\<lambda>v n. parse_source_entry ops field v = Inr n) vs ns" "set r = set ns \<union> set (n # acc)"
    by auto
  with n show ?case by (intro exI [of _ "n # ns"]) auto
qed

lemma parse_source_networks_Inr:
  assumes "parse_source_networks ops field vs = Inr ns"
  obtains ms where "list_all2 (\<lambda>v n. parse_source_entry ops field v = Inr n) vs ms" and "set ns = set ms"
    and "distinct ns" and "length vs \<le> MAX_SOURCE_CIDRS"
  using assms by (auto simp: parse_source_networks_def result_simps dest!: parse_source_loop)

context ip_network
begin

lemma parse_source_networks_cover:
  assumes "parse_source_networks ops field vs = Inr ns"
  shows "cover ops ns = entries_addrs ops vs"
proof -
  from assms obtain ms where
    ms: "list_all2 (\<lambda>v n. parse_source_entry ops field v = Inr n) vs ms" and "set ns = set ms"
    by (rule parse_source_networks_Inr)
  then have "cover ops ns = cover ops ms" by (simp add: cover_def)
  also from ms have "\<dots> = entries_addrs ops vs"
  proof (induction rule: list_all2_induct)
    case Nil
    then show ?case by (simp add: entries_addrs_def)
  next
    case (Cons v vs n ms)
    then have "net_addrs ops n = {a. \<exists>m. entry_net ops v = Some m \<and> a \<in> net_addrs ops m}"
      by (auto simp: parse_source_entry_Inr trunc_addrs)
    with Cons show ?case by (auto simp: entries_addrs_def)
  qed
  finally show ?thesis .
qed

lemma parse_source_networks_empty:
  "parse_source_networks ops field vs = Inr ns \<Longrightarrow> ns = [] \<longleftrightarrow> vs = []"
  by (erule parse_source_networks_Inr) (metis list_all2_Nil list_all2_Nil2 set_empty)

end

section \<open>Roots and protected networks\<close>

context ip_network_text
begin

lemma parse_network_literals:
  assumes "set vs \<subseteq> set (ROOT_LITERALS @ PUBLIC_EGRESS_ROOTS @ PROTECTED_EGRESS_CIDRS)"
  shows "\<exists>ns. map_result (\<lambda>v. parse_network ops v name) vs = Inr ns \<and>
    cover ops ns = (\<Union>v\<in>set vs. literal_addrs v)"
  using assms
proof (induction vs)
  case Nil
  then show ?case by simp
next
  case (Cons v vs)
  then obtain ns where "map_result (\<lambda>v. parse_network ops v name) vs = Inr ns"
    "cover ops ns = (\<Union>v\<in>set vs. literal_addrs v)" by auto
  moreover obtain n where "net_parse ops v = Some n" "net_addrs ops n = literal_addrs v"
    using parse_literal [of v] Cons.prems by auto
  ultimately show ?case
    by (auto simp: parse_network_def ok_or_def trunc_addrs)
qed

lemma protected_cover:
  "\<exists>ns. protected_egress_networks ops = Inr ns \<and>
    cover ops ns = (\<Union>v\<in>set PROTECTED_EGRESS_CIDRS. literal_addrs v)"
  unfolding protected_egress_networks_def by (rule parse_network_literals) auto

lemma destination_ip_blocks_permitted:
  assumes "destination_ip_blocks ops e extra = Inr bs"
  shows "permitted ops bs =
    (case eg_mode e of
       Disabled \<Rightarrow> {}
     | Restricted \<Rightarrow> entries_addrs ops (eg_allowed_destination_cidrs e)
     | Internet \<Rightarrow> (\<Union>v\<in>set PUBLIC_EGRESS_ROOTS. literal_addrs v))
    - ((\<Union>v\<in>set PROTECTED_EGRESS_CIDRS. literal_addrs v) \<union> cover ops extra
       \<union> entries_addrs ops (eg_denied_destination_cidrs e))"
proof -
  from assms obtain roots protected_nets denied where
    roots: "(case eg_mode e of
              Disabled \<Rightarrow> Inr []
            | Restricted \<Rightarrow>
                parse_source_networks ops ''allowed_destination_cidrs'' (eg_allowed_destination_cidrs e)
            | Internet \<Rightarrow>
                map_result (\<lambda>v. parse_network ops v ''public egress root'') PUBLIC_EGRESS_ROOTS) = Inr roots"
    and prot: "protected_egress_networks ops = Inr protected_nets"
    and denied: "parse_source_networks ops ''denied_destination_cidrs'' (eg_denied_destination_cidrs e) = Inr denied"
    and bs: "bs = ip_blocks ops roots (protected_nets @ extra @ denied)"
    by (auto simp: destination_ip_blocks_def result_simps)
  have "cover ops roots =
      (case eg_mode e of
         Disabled \<Rightarrow> {}
       | Restricted \<Rightarrow> entries_addrs ops (eg_allowed_destination_cidrs e)
       | Internet \<Rightarrow> (\<Union>v\<in>set PUBLIC_EGRESS_ROOTS. literal_addrs v))"
    using roots parse_network_literals [of PUBLIC_EGRESS_ROOTS "''public egress root''"]
    by (auto split: flash_egress_mode.splits dest: parse_source_networks_cover)
  moreover have "cover ops protected_nets = (\<Union>v\<in>set PROTECTED_EGRESS_CIDRS. literal_addrs v)"
    using prot protected_cover by auto
  moreover have "cover ops denied = entries_addrs ops (eg_denied_destination_cidrs e)"
    by (rule parse_source_networks_cover [OF denied])
  ultimately show ?thesis
    unfolding permitted_def bs ip_blocks_cover by auto
qed

lemma effective_source_networks_cover:
  assumes "effective_source_networks ops x = Inr ns"
  shows "cover ops ns =
    (if ex_allowed_source_cidrs x = [] then literal_addrs ''0.0.0.0/0'' \<union> literal_addrs ''::/0''
     else entries_addrs ops (ex_allowed_source_cidrs x))
    - entries_addrs ops (ex_denied_source_cidrs x)"
proof -
  from assms obtain allowed denied effective where
    al: "parse_source_networks ops ''allowed_source_cidrs'' (ex_allowed_source_cidrs x) = Inr allowed"
    and de: "parse_source_networks ops ''denied_source_cidrs'' (ex_denied_source_cidrs x) = Inr denied"
    and eff: "(if allowed = []
            then bindR (ok_or (net_parse ops ''0.0.0.0/0'') (Field ''invalid IPv4 root network'' [])) (\<lambda>v4.
                 bindR (ok_or (net_parse ops ''::/0'') (Field ''invalid IPv6 root network'' [])) (\<lambda>v6.
                 Inr [v4, v6]))
            else Inr (net_aggregate ops allowed)) = Inr effective"
    and fold: "try_fold (subtract_from_all ops) denied effective = Inr ns"
    by (auto simp: effective_source_networks_def source_networks_def result_simps)
  obtain v4 v6 where "net_parse ops ''0.0.0.0/0'' = Some v4" "net_addrs ops v4 = literal_addrs ''0.0.0.0/0''"
    "net_parse ops ''::/0'' = Some v6" "net_addrs ops v6 = literal_addrs ''::/0''"
    using parse_literal [of "''0.0.0.0/0''"] parse_literal [of "''::/0''"] by (auto simp: ROOT_LITERALS_def)
  with eff parse_source_networks_empty [OF al] parse_source_networks_cover [OF al]
  have "cover ops effective =
      (if ex_allowed_source_cidrs x = [] then literal_addrs ''0.0.0.0/0'' \<union> literal_addrs ''::/0''
       else entries_addrs ops (ex_allowed_source_cidrs x))"
    by (auto simp: ok_or_def aggregate_cover split: if_splits)
  with subtract_all_cover [OF fold] parse_source_networks_cover [OF de] show ?thesis by simp
qed

end

context ip_network_text
begin

lemma public_source_ip_blocks_permitted:
  assumes "public_source_ip_blocks ops x = Inr bs"
  shows "permitted ops bs =
    (if ex_allowed_source_cidrs x = [] then \<Union>v\<in>set PUBLIC_EGRESS_ROOTS. literal_addrs v
     else entries_addrs ops (ex_allowed_source_cidrs x))
    - (entries_addrs ops (ex_denied_source_cidrs x)
       \<union> (\<Union>v\<in>set PROTECTED_EGRESS_CIDRS. literal_addrs v))"
proof -
  from assms obtain allowed denied roots protected_nets where
    al: "parse_source_networks ops ''allowed_source_cidrs'' (ex_allowed_source_cidrs x) = Inr allowed"
    and de: "parse_source_networks ops ''denied_source_cidrs'' (ex_denied_source_cidrs x) = Inr denied"
    and roots: "(if allowed = []
            then map_result (\<lambda>v. parse_network ops v ''public ingress root'') PUBLIC_EGRESS_ROOTS
            else Inr allowed) = Inr roots"
    and prot: "protected_egress_networks ops = Inr protected_nets"
    and bs: "bs = ip_blocks ops roots (denied @ protected_nets)"
    by (auto simp: public_source_ip_blocks_def source_networks_def result_simps)
  have "cover ops roots =
      (if ex_allowed_source_cidrs x = [] then \<Union>v\<in>set PUBLIC_EGRESS_ROOTS. literal_addrs v
       else entries_addrs ops (ex_allowed_source_cidrs x))"
    using roots parse_network_literals [of PUBLIC_EGRESS_ROOTS "''public ingress root''"]
      parse_source_networks_cover [OF al] parse_source_networks_empty [OF al]
    by (auto split: if_splits)
  moreover have "cover ops protected_nets = (\<Union>v\<in>set PROTECTED_EGRESS_CIDRS. literal_addrs v)"
    using prot protected_cover by auto
  moreover have "cover ops denied = entries_addrs ops (ex_denied_source_cidrs x)"
    by (rule parse_source_networks_cover [OF de])
  ultimately show ?thesis
    unfolding permitted_def bs ip_blocks_cover by auto
qed

text \<open>Once the entries parse, the subtraction has one way to fail: the limit on networks.\<close>

lemma effective_source_networks_total:
  assumes "source_networks ops x = Inr nets"
  shows "effective_source_networks ops x =
      Inl (Field ''source access policy expands beyond {MAX_EFFECTIVE_SOURCE_CIDRS} CIDRs''
             [show_nat MAX_EFFECTIVE_SOURCE_CIDRS])
    \<or> is_ok (effective_source_networks ops x)"
proof -
  obtain v4 v6 where "net_parse ops ''0.0.0.0/0'' = Some v4" "net_parse ops ''::/0'' = Some v6"
    using parse_literal [of "''0.0.0.0/0''"] parse_literal [of "''::/0''"] by (auto simp: ROOT_LITERALS_def)
  then have run: "effective_source_networks ops x = try_fold (subtract_from_all ops) (snd nets)
      (if fst nets = [] then [v4, v6] else net_aggregate ops (fst nets))"
    using assms by (simp add: effective_source_networks_def ok_or_def split: prod.splits)
  show ?thesis
  proof (cases "effective_source_networks ops x")
    case (Inl err)
    then show ?thesis using subtract_all_error [OF trans [OF run [symmetric] Inl]] by simp
  qed simp
qed

end

section \<open>The reference networks satisfy the interface\<close>

lemma parse_cidr_literal:
  "parse_cidr s \<noteq> None" if
     "case split_once CHR ''/'' s of
        None \<Rightarrow> False
      | Some (a, l) \<Rightarrow>
          (case (parse_ip_addr a, parse_digits l) of
             (Some ip, Some p) \<Rightarrow> p \<le> cidr_width (addr_v6 ip) | _ \<Rightarrow> False)"
  using that by (auto simp: parse_cidr_def split: option.splits)

lemmas net_eval =
  parse_ip_addr_def parse_ipv4_def parse_octet_def parse_ipv6_def parse_run_def parse_group_def
  parse_digits_def digits_value_def groups_value_def hex_value_def char_defs cidr_width_def

lemma literals_parse:
  "list_all (\<lambda>s. parse_cidr s \<noteq> None) (ROOT_LITERALS @ PUBLIC_EGRESS_ROOTS @ PROTECTED_EGRESS_CIDRS)"
  unfolding ROOT_LITERALS_def PUBLIC_EGRESS_ROOTS_def PROTECTED_EGRESS_CIDRS_def append.simps list.pred_inject
  by (intro conjI TrueI parse_cidr_literal; simp add: net_eval)

interpretation cidr_text: ip_network_text cidr_ops "\<lambda>n. cidr_width (cidr_v6 n)"
proof
  fix s
  assume "s \<in> set (ROOT_LITERALS @ PUBLIC_EGRESS_ROOTS @ PROTECTED_EGRESS_CIDRS)"
  then obtain n where "parse_cidr s = Some n"
    using literals_parse by (auto simp: list_all_iff)
  then show "\<exists>n. net_parse cidr_ops s = Some n \<and> net_addrs cidr_ops n = literal_addrs s"
    by (simp add: cidr_ops_def literal_addrs_def net_addrs_def)
qed

section \<open>Properties\<close>

text \<open>Concrete policies on which the properties are instantiated.\<close>

definition sample_exposure :: flash_exposure where
  "sample_exposure =
     \<lparr>ex_endpoint_mode = Ip, ex_kind = Public, ex_traffic_mode = Direct,
      ex_allowed_source_cidrs = [''10.0.0.0/6''], ex_denied_source_cidrs = [''10.0.0.0/8''],
      ex_authentication = None\<rparr>"

definition sample_egress :: flash_egress where
  "sample_egress =
     \<lparr>eg_mode = Internet, eg_allow_same_organization = False,
      eg_allowed_destination_cidrs = [], eg_denied_destination_cidrs = [''8.8.8.8'']\<rparr>"

lemmas subtract_network_numeral =
  subtract_network.simps(2) [of _ "pred_numeral k" for k, folded numeral_eq_Suc]

lemmas network_eval = subtract_network_numeral
  net_eval parse_cidr_def is_trimmed_def starts_ws_def ends_ws_def ws_codes_def suffix_to_prefix char_of_def bt_set_def less_eq_cidr_def limit_defs ensure_def ok_or_def upt_rec
  source_networks_def effective_source_networks_def public_source_ip_blocks_def
  destination_ip_blocks_def protected_egress_networks_def parse_network_def ip_blocks_def
  parse_source_networks_def parse_source_entry_def subtract_from_all_def subtract_fuel_def
  u8_checked_add_def cidr_ops_def cidr_contains_def cidr_subnets_def cidr_aggregate_def
  cidr_insert.simps cidr_sibling_def cidr_parent_def PUBLIC_EGRESS_ROOTS_def PROTECTED_EGRESS_CIDRS_def
  sample_exposure_def sample_egress_def

lemma sample_effective:
  "effective_source_networks cidr_ops sample_exposure =
     Inr [Cidr False [False, False, False, False, True, False, True, True] [],
          Cidr False [False, False, False, False, True, False, False] []]"
  by (simp add: network_eval)

lemma sample_sources:
  "source_networks cidr_ops sample_exposure =
     Inr ([Cidr False [False, False, False, False, True, False] []],
          [Cidr False [False, False, False, False, True, False, True, False] []])"
  by (simp add: network_eval)

lemma sample_public_blocks: "\<exists>bs. public_source_ip_blocks cidr_ops sample_exposure = Inr bs"
  using cidr_text.protected_cover by (auto simp: public_source_ip_blocks_def sample_sources)

lemma sample_denied:
  "\<exists>n. parse_source_networks cidr_ops ''denied_destination_cidrs'' [''8.8.8.8''] = Inr [n]"
  by (simp add: network_eval)

lemma parse_no_entries [simp]: "parse_source_networks ops field [] = Inr []"
  by (simp add: parse_source_networks_def ensure_def bt_set_def)

lemma sample_destination_blocks: "\<exists>bs. destination_ip_blocks cidr_ops sample_egress [] = Inr bs"
proof -
  obtain roots where
    "map_result (\<lambda>v. parse_network cidr_ops v ''public egress root'') PUBLIC_EGRESS_ROOTS = Inr roots"
    using cidr_text.parse_network_literals [of PUBLIC_EGRESS_ROOTS "''public egress root''"] by force
  then show ?thesis
    using cidr_text.protected_cover sample_denied
    by (auto simp: destination_ip_blocks_def validate_egress_def sample_egress_def ensure_def)
qed

text \<open>
  C1. The effective sources of an endpoint are exact: whatever networks the subtraction returns,
  together they contain an address if and only if an allowed entry contains it (any address when
  no entry is given) and no denied entry does.
\<close>

theorem effective_source_networks_exact:
  assumes "ip_network_text ops max_len"
    and "effective_source_networks ops x = Inr ns"
  shows "cover ops ns =
    (if ex_allowed_source_cidrs x = [] then literal_addrs ''0.0.0.0/0'' \<union> literal_addrs ''::/0''
     else entries_addrs ops (ex_allowed_source_cidrs x))
    - entries_addrs ops (ex_denied_source_cidrs x)"
  using assms by (rule ip_network_text.effective_source_networks_cover)

theorem effective_source_networks_exact_witness:
  "cover cidr_ops [Cidr False [False, False, False, False, True, False, True, True] [],
                   Cidr False [False, False, False, False, True, False, False] []]
   = entries_addrs cidr_ops [''10.0.0.0/6''] - entries_addrs cidr_ops [''10.0.0.0/8'']"
  using effective_source_networks_exact [OF cidr_text.ip_network_text_axioms sample_effective]
  by (simp add: sample_exposure_def)

text \<open>
  Once the entries of an exposure parse, the computation of its effective sources ends with a
  result or with the error that the policy expands beyond the limit; it never runs out of prefix
  bits or recursion depth.
\<close>

theorem effective_source_networks_returns:
  assumes "ip_network_text ops max_len"
    and "source_networks ops x = Inr nets"
  shows "effective_source_networks ops x =
      Inl (Field ''source access policy expands beyond {MAX_EFFECTIVE_SOURCE_CIDRS} CIDRs''
             [show_nat MAX_EFFECTIVE_SOURCE_CIDRS])
    \<or> is_ok (effective_source_networks ops x)"
  using assms by (rule ip_network_text.effective_source_networks_total)

theorem effective_source_networks_returns_witness:
  "is_ok (effective_source_networks cidr_ops sample_exposure)"
  using effective_source_networks_returns [OF cidr_text.ip_network_text_axioms sample_sources]
  by (simp add: sample_effective)

text \<open>
  The IP blocks of an egress policy let through exactly the addresses of the roots of its mode
  that are in no protected network, in no extra protected network of the cluster and in no denied
  entry. In particular no mode reaches a protected address.
\<close>

theorem destination_ip_blocks_exact:
  assumes "ip_network_text ops max_len"
    and "destination_ip_blocks ops e extra = Inr bs"
  shows "permitted ops bs =
    (case eg_mode e of
       Disabled \<Rightarrow> {}
     | Restricted \<Rightarrow> entries_addrs ops (eg_allowed_destination_cidrs e)
     | Internet \<Rightarrow> (\<Union>v\<in>set PUBLIC_EGRESS_ROOTS. literal_addrs v))
    - ((\<Union>v\<in>set PROTECTED_EGRESS_CIDRS. literal_addrs v) \<union> cover ops extra
       \<union> entries_addrs ops (eg_denied_destination_cidrs e))"
  using assms by (rule ip_network_text.destination_ip_blocks_permitted)

theorem destination_ip_blocks_exact_witness:
  "\<exists>bs. destination_ip_blocks cidr_ops sample_egress [] = Inr bs \<and>
     permitted cidr_ops bs = (\<Union>v\<in>set PUBLIC_EGRESS_ROOTS. literal_addrs v)
       - ((\<Union>v\<in>set PROTECTED_EGRESS_CIDRS. literal_addrs v) \<union> entries_addrs cidr_ops [''8.8.8.8''])"
  using sample_destination_blocks
    destination_ip_blocks_exact [OF cidr_text.ip_network_text_axioms, of sample_egress "[]"]
  by (auto simp: sample_egress_def)

text \<open>
  The blocks from which a public endpoint takes traffic let through exactly the allowed
  entries (the public roots when there is none) without the denied entries and without any
  protected network.
\<close>

theorem public_source_ip_blocks_exact:
  assumes "ip_network_text ops max_len"
    and "public_source_ip_blocks ops x = Inr bs"
  shows "permitted ops bs =
    (if ex_allowed_source_cidrs x = [] then \<Union>v\<in>set PUBLIC_EGRESS_ROOTS. literal_addrs v
     else entries_addrs ops (ex_allowed_source_cidrs x))
    - (entries_addrs ops (ex_denied_source_cidrs x)
       \<union> (\<Union>v\<in>set PROTECTED_EGRESS_CIDRS. literal_addrs v))"
  using assms by (rule ip_network_text.public_source_ip_blocks_permitted)

theorem public_source_ip_blocks_exact_witness:
  "\<exists>bs. public_source_ip_blocks cidr_ops sample_exposure = Inr bs \<and>
     permitted cidr_ops bs = entries_addrs cidr_ops [''10.0.0.0/6'']
       - (entries_addrs cidr_ops [''10.0.0.0/8''] \<union> (\<Union>v\<in>set PROTECTED_EGRESS_CIDRS. literal_addrs v))"
  using sample_public_blocks
    public_source_ip_blocks_exact [OF cidr_text.ip_network_text_axioms, of sample_exposure]
  by (auto simp: sample_exposure_def)

end
