(* ===== verification/Spec_Properties.thy ===== *)
theory Spec_Properties
  imports Network_Sets
begin

text \<open>
  What a specification that \<open>FlashSpec::validate\<close> accepts looks like: its ports, its scaling, its
  disk split, its endpoint and its environment, and the effective secret environment that the
  controller builds from it.
\<close>

section \<open>Ports\<close>

definition port_ok :: "flash_port \<Rightarrow> bool" where
  "port_ok p \<longleftrightarrow>
     is_ok (validate_dns_label ''port name'' (port_name p)) \<and> 0 < port_container p \<and> 0 < port_service p"

abbreviation published_key :: "flash_port \<Rightarrow> transport_protocol \<times> u16" where
  "published_key p \<equiv> (port_protocol p, port_service p)"

lemma validate_ports_iff:
  "validate_ports ps names published = Inr () \<longleftrightarrow>
     list_all port_ok ps \<and> distinct (map port_name ps) \<and> distinct (map published_key ps) \<and>
     set (map port_name ps) \<inter> set names = {} \<and> set (map published_key ps) \<inter> set published = {}"
  by (induction ps names published rule: validate_ports.induct)
     (auto simp: result_simps port_ok_def is_ok_iff)

section \<open>The secret environment\<close>

definition secret_file_env :: "string \<Rightarrow> string" where
  "secret_file_env f = replace_char (CHR ''-'') (CHR ''_'') (to_ascii_uppercase f)"

definition secret_file_vars :: "flash_spec \<Rightarrow> (string \<times> string) list" where
  "secret_file_vars s = map (\<lambda>(f, v). (secret_file_env f, v)) (fs_secret_files s)"

abbreviation secret_env_step ::
  "string \<times> string \<Rightarrow> (string, string) btree_map \<Rightarrow> validation_error + (string, string) btree_map" where
  "secret_env_step \<equiv> \<lambda>(f, v) m.
     if bt_contains m (secret_file_env f)
     then Inl (Field ''secret environment variable {env_name:?} is configured more than once'' [secret_file_env f])
     else Inr (bt_insert (secret_file_env f) v m)"

lemma effective_secret_env_fold:
  "effective_secret_env s = try_fold secret_env_step (fs_secret_files s) (fs_secret_env s)"
  unfolding effective_secret_env_def secret_file_env_def Let_def ..

lemma secret_env_fold_Inr:
  "try_fold secret_env_step fs m = Inr r \<Longrightarrow>
     distinct (map (\<lambda>(f, v). secret_file_env f) fs) \<and>
     (\<forall>(f, v)\<in>set fs. \<not> bt_contains m (secret_file_env f)) \<and>
     (bt_wf m \<longrightarrow> bt_wf r \<and> length r = length m + length fs) \<and>
     map_of r = map_of m ++ map_of (map (\<lambda>(f, v). (secret_file_env f, v)) fs)"
proof (induction fs arbitrary: m)
  case Nil
  then show ?case by simp
next
  case (Cons e fs)
  obtain f v where e: "e = (f, v)" by (cases e)
  let ?k = "secret_file_env f"
  from Cons.prems e have fresh: "\<not> bt_contains m ?k"
    and rest: "try_fold secret_env_step fs (bt_insert ?k v m) = Inr r"
    by (auto split: if_splits)
  note IH = Cons.IH [OF rest]
  have "?k \<notin> dom (map_of (map (\<lambda>(f, v). (secret_file_env f, v)) fs))"
    using IH by (auto simp: dom_map_of_conv_image_fst)
  from map_add_upd_left [OF this, of "map_of m" v]
  have lookup: "map_of r = map_of m ++ map_of (map (\<lambda>(f, v). (secret_file_env f, v)) (e # fs))"
    using IH unfolding e bt_insert_lookup by (simp only: list.map prod.case map_of.simps fst_conv snd_conv map_add_upd)
  have "bt_wf m \<longrightarrow> bt_wf r \<and> length r = length m + length (e # fs)"
    using IH fresh by (simp add: bt_insert_wf bt_insert_length)
  moreover have "distinct (map (\<lambda>(f, v). secret_file_env f) (e # fs))"
    and "\<forall>(f, v)\<in>set (e # fs). \<not> bt_contains m (secret_file_env f)"
    using IH e fresh by auto
  ultimately show ?case using lookup by blast
qed

lemma secret_env_fold_total:
  assumes "distinct (map (\<lambda>(f, v). secret_file_env f) fs)"
    and "\<forall>(f, v)\<in>set fs. \<not> bt_contains m (secret_file_env f)"
  shows "\<exists>r. try_fold secret_env_step fs m = Inr r"
  using assms
proof (induction fs arbitrary: m)
  case Nil
  then show ?case by simp
next
  case (Cons e fs)
  obtain f v where e: "e = (f, v)" by (cases e)
  from Cons.prems e have "\<exists>r. try_fold secret_env_step fs (bt_insert (secret_file_env f) v m) = Inr r"
    by (intro Cons.IH) force+
  with Cons.prems e show ?case by auto
qed

section \<open>Accepted specifications\<close>

lemma validate_flash_spec_parts:
  assumes "validate_flash_spec ops url_parse s = Inr ()"
  shows "validate_shape url_parse s = Inr ()" and "validate_disk s = Inr ()"
    and "validate_ports (fs_ports s) [] [] = Inr ()" and "validate_networks ops s = Inr ()"
    and "validate_environment s = Inr ()"
  using assms by (auto simp: validate_flash_spec_def result_simps)

lemma validate_shape_accepts:
  assumes "validate_shape url_parse s = Inr ()"
  shows "1 \<le> fs_replicas s" and "fs_replicas s \<le> MAX_REPLICAS"
    and "\<And>a. fs_autoscaling s = Some a \<Longrightarrow>
           validate_autoscaling a (fs_replicas s) = Inr () \<and>
           (as_min_replicas a = 0 \<longrightarrow> ex_endpoint_mode (fs_exposure s) = Web)"
    and "ex_endpoint_mode (fs_exposure s) \<noteq> Ip \<Longrightarrow>
           ex_kind (fs_exposure s) = Public \<and> ex_traffic_mode (fs_exposure s) = Forwarded"
    and "ex_endpoint_mode (fs_exposure s) = Web \<Longrightarrow>
           (\<exists>p. fs_ports s = [p] \<and> port_protocol p = Tcp) \<and> \<not> has_source_policy (fs_exposure s)"
    and "ex_authentication (fs_exposure s) \<noteq> None \<Longrightarrow> ex_endpoint_mode (fs_exposure s) = Web"
    and "0 < effective_gpu_count s \<Longrightarrow>
           fs_replicas s = 1 \<and> (\<forall>a. fs_autoscaling s = Some a \<longrightarrow> as_max_replicas a = 1)"
    and "effective_gpu_count s \<le> 1"
proof -
  from assms show "1 \<le> fs_replicas s" and "fs_replicas s \<le> MAX_REPLICAS"
    by (simp_all add: validate_shape_def result_simps)
  from assms show "validate_autoscaling a (fs_replicas s) = Inr () \<and>
      (as_min_replicas a = 0 \<longrightarrow> ex_endpoint_mode (fs_exposure s) = Web)"
    if "fs_autoscaling s = Some a" for a
    using that by (auto simp: validate_shape_def result_simps)
  from assms show "ex_kind (fs_exposure s) = Public \<and> ex_traffic_mode (fs_exposure s) = Forwarded"
    if "ex_endpoint_mode (fs_exposure s) \<noteq> Ip"
    using that by (cases "ex_endpoint_mode (fs_exposure s)") (simp_all add: validate_shape_def result_simps)
  from assms show "(\<exists>p. fs_ports s = [p] \<and> port_protocol p = Tcp) \<and> \<not> has_source_policy (fs_exposure s)"
    if "ex_endpoint_mode (fs_exposure s) = Web"
    using that by (cases "fs_ports s") (auto simp: validate_shape_def result_simps)
  from assms show "ex_endpoint_mode (fs_exposure s) = Web" if "ex_authentication (fs_exposure s) \<noteq> None"
    using that by (auto simp: validate_shape_def result_simps)
  from assms show "fs_replicas s = 1 \<and> (\<forall>a. fs_autoscaling s = Some a \<longrightarrow> as_max_replicas a = 1)"
    if "0 < effective_gpu_count s"
    using that by (simp add: validate_shape_def result_simps)
  from assms show "effective_gpu_count s \<le> 1"
    by (simp add: validate_shape_def result_simps effective_gpu_count_def MAX_GPUS_PER_VM_def)
qed

text \<open>The number of copies an accepted specification can run.\<close>

definition replica_ceiling :: "flash_spec \<Rightarrow> nat" where
  "replica_ceiling s = (case fs_autoscaling s of None \<Rightarrow> fs_replicas s | Some a \<Rightarrow> as_max_replicas a)"

lemma validate_autoscaling_accepts:
  assumes "validate_autoscaling a replicas = Inr ()"
  shows "as_min_replicas a \<le> replicas" and "1 \<le> replicas" and "replicas \<le> as_max_replicas a"
    and "as_max_replicas a \<le> MAX_REPLICAS" and "60 \<le> as_idle_timeout_seconds a"
    and "as_target_cpu a \<noteq> None \<or> as_target_memory a \<noteq> None"
  using assms by (auto simp: validate_autoscaling_def result_simps limit_defs Let_def)

lemma validate_environment_accepts:
  assumes "validate_environment s = Inr ()"
  obtains m where "effective_secret_env s = Inr m" and "length m \<le> MAX_SECRET_ENV"
    and "length (fs_env s) \<le> MAX_ENVIRONMENT_VARIABLES"
    and "\<And>k v. (k, v) \<in> set (fs_env s) \<Longrightarrow> validate_env_name k = Inr () \<and> length v \<le> 32768"
    and "\<And>k v. (k, v) \<in> set m \<Longrightarrow>
           validate_env_name k = Inr () \<and> validate_dns_label ''secret name'' v = Inr () \<and>
           \<not> bt_contains (fs_env s) k"
    and "\<And>k. fs_task_role s \<noteq> None \<Longrightarrow> k \<in> set RESERVED_IDENTITY_ENV \<Longrightarrow>
           \<not> bt_contains (fs_env s) k \<and> \<not> bt_contains m k"
proof -
  from assms obtain m where m: "effective_secret_env s = Inr m" and "length m \<le> MAX_SECRET_ENV"
    and "length (fs_env s) \<le> MAX_ENVIRONMENT_VARIABLES"
    and env: "for_each (\<lambda>(name, v).
              bindR (validate_env_name name) (\<lambda>_.
              ensure (length v \<le> 32768)
                (Field ''environment variable {name:?} exceeds 32768 characters'' [name]))) (fs_env s) = Inr ()"
    and sec: "for_each (\<lambda>(env_name, secret_name).
       bindR (validate_env_name env_name) (\<lambda>_.
       bindR (validate_dns_label ''secret name'' secret_name) (\<lambda>_.
       ensure (\<not> bt_contains (fs_env s) env_name)
         (Field ''environment variable {env_name:?} is configured as both plain text and a secret''
            [env_name])))) m = Inr ()"
    and role: "\<not> (fs_task_role s \<noteq> None \<and>
                      list_ex (\<lambda>key. bt_contains (fs_env s) key \<or> bt_contains m key)
                        RESERVED_IDENTITY_ENV)"
    unfolding validate_environment_def by (auto simp: bindR_Inr ensure_Inr)
  moreover have "validate_env_name k = Inr () \<and> length v \<le> 32768" if "(k, v) \<in> set (fs_env s)" for k v
    using env that by (auto simp: result_simps)
  moreover have "validate_env_name k = Inr () \<and> validate_dns_label ''secret name'' v = Inr () \<and>
           \<not> bt_contains (fs_env s) k" if "(k, v) \<in> set m" for k v
    using sec that by (auto simp: result_simps)
  moreover have "\<not> bt_contains (fs_env s) k \<and> \<not> bt_contains m k"
    if "fs_task_role s \<noteq> None" "k \<in> set RESERVED_IDENTITY_ENV" for k
    using role that by (auto simp: list_ex_iff)
  ultimately show thesis by (intro that [of m]) blast+
qed

section \<open>Properties\<close>

definition sample_port :: flash_port where
  "sample_port = \<lparr>port_name = ''http'', port_protocol = Tcp, port_container = 8080, port_service = 80\<rparr>"

definition sample_spec :: flash_spec where
  "sample_spec =
     \<lparr>fs_region = ''jp'', fs_image = ''nginx'', fs_deployment = None, fs_task_role = Some 1,
      fs_replicas = 2, fs_stopped = False,
      fs_autoscaling = Some \<lparr>as_min_replicas = 0, as_max_replicas = 3, as_target_cpu = Some 70,
        as_target_memory = None, as_idle_timeout_seconds = 300\<rparr>,
      fs_cpu_millis = 500, fs_memory_mib = 256, fs_gpu_type = None, fs_gpu_count = 0,
      fs_ephemeral_storage_gib = 10, fs_rootfs_storage_gib = Some 4, fs_persistent_storage_gib = Some 5,
      fs_restore_from_backup_id = None, fs_ports = [sample_port],
      fs_exposure = \<lparr>ex_endpoint_mode = Web, ex_kind = Public, ex_traffic_mode = Forwarded,
        ex_allowed_source_cidrs = [], ex_denied_source_cidrs = [], ex_authentication = None\<rparr>,
      fs_egress = default_flash_egress, fs_network = None,
      fs_env = [(''MODE'', ''a'')], fs_secret_env = [(''TOKEN'', ''token'')],
      fs_secret_files = [(''db-url'', ''db'')], fs_command = [], fs_args = [], fs_metadata = []\<rparr>"

lemmas sample_spec_eval =
  sample_spec_def sample_port_def validate_shape_def validate_text_def validate_autoscaling_def
  validate_disk_def validate_environment_def validate_env_name_def validate_dns_label_def
  validate_string_list_def effective_secret_env_def effective_gpu_count_def has_source_policy_def
  RESERVED_IDENTITY_ENV_def bt_contains_def to_ascii_uppercase_def replace_char_def dns_byte_def
  first_is_def last_is_def char_defs ensure_def limit_defs is_trimmed_def starts_ws_def ends_ws_def
  ws_codes_def suffix_to_prefix char_of_def bit_Suc_0_iff

lemma sample_networks: "validate_networks cidr_ops sample_spec = Inr ()"
proof -
  obtain v4 v6 where "net_parse cidr_ops ''0.0.0.0/0'' = Some v4" "net_parse cidr_ops ''::/0'' = Some v6"
    using cidr_text.parse_literal [of "''0.0.0.0/0''"] cidr_text.parse_literal [of "''::/0''"]
    by (auto simp: ROOT_LITERALS_def)
  then show ?thesis
    using cidr_text.protected_cover
    by (auto simp: validate_networks_def sample_spec_def effective_source_networks_def source_networks_def
        validate_egress_def default_flash_egress_def ensure_def ok_or_def)
qed

lemma sample_shape: "validate_shape (\<lambda>_. None) sample_spec = Inr ()"
  by (simp add: sample_spec_eval)

lemma sample_secret_env:
  "effective_secret_env sample_spec = Inr [(''DB_URL'', ''db''), (''TOKEN'', ''token'')]"
  by (simp add: sample_spec_eval)

lemma sample_environment: "validate_environment sample_spec = Inr ()"
  unfolding validate_environment_def sample_secret_env by (simp add: sample_spec_eval)

lemma sample_accepted: "validate_flash_spec cidr_ops (\<lambda>_. None) sample_spec = Inr ()"
  by (simp add: validate_flash_spec_def sample_networks sample_shape sample_environment)
     (simp add: sample_spec_eval)

text \<open>
  The loop over the ports accepts a list exactly when every port has a DNS label as its name
  and two nonzero port numbers, no name occurs twice, and no pair of protocol and service port
  occurs twice.
\<close>

theorem validate_ports_accepts_iff:
  "validate_ports ps [] [] = Inr () \<longleftrightarrow>
     list_all port_ok ps \<and> distinct (map port_name ps) \<and> distinct (map published_key ps)"
  by (simp add: validate_ports_iff)

text \<open>
  A service of an accepted specification runs at least one and at most \<open>MAX_REPLICAS\<close> copies;
  a GPU service can never run more than one copy and asks for at most one GPU; and a service that
  can scale to zero is a web service with exactly one TCP port and no source policy.
\<close>

theorem accepted_spec_scaling:
  assumes "validate_flash_spec ops url_parse s = Inr ()"
  shows "1 \<le> fs_replicas s \<and> fs_replicas s \<le> replica_ceiling s \<and> replica_ceiling s \<le> MAX_REPLICAS \<and>
    effective_gpu_count s \<le> 1 \<and> (effective_gpu_count s = 0 \<or> replica_ceiling s = 1) \<and>
    (case fs_autoscaling s of
       None \<Rightarrow> True
     | Some a \<Rightarrow>
         0 < as_min_replicas a \<or>
         ex_endpoint_mode (fs_exposure s) = Web \<and> \<not> has_source_policy (fs_exposure s) \<and>
         (\<exists>p. fs_ports s = [p] \<and> port_protocol p = Tcp))"
proof -
  note shape = validate_shape_accepts [OF validate_flash_spec_parts(1) [OF assms]]
  show ?thesis
  proof (cases "fs_autoscaling s")
    case None
    with shape show ?thesis by (auto simp: replica_ceiling_def)
  next
    case (Some a)
    with shape(3) have a: "validate_autoscaling a (fs_replicas s) = Inr ()"
      and web: "as_min_replicas a = 0 \<Longrightarrow> ex_endpoint_mode (fs_exposure s) = Web" by auto
    from validate_autoscaling_accepts [OF a] shape Some web show ?thesis
      by (auto simp: replica_ceiling_def)
  qed
qed

theorem accepted_spec_scaling_witness:
  "1 \<le> fs_replicas sample_spec \<and> fs_replicas sample_spec \<le> replica_ceiling sample_spec \<and>
   replica_ceiling sample_spec \<le> MAX_REPLICAS \<and> ex_endpoint_mode (fs_exposure sample_spec) = Web"
  using accepted_spec_scaling [OF sample_accepted] by (simp add: sample_spec_def)

text \<open>
  The disk of an accepted specification has room for all its parts: the container filesystem
  (one GiB when it is not given) and the persistent volume are each at least one GiB, and together
  they leave at least one GiB of the ephemeral storage for the image.
\<close>

theorem accepted_spec_disk:
  assumes "validate_flash_spec ops url_parse s = Inr ()"
    and "fs_persistent_storage_gib s = Some p"
  shows "1 \<le> p \<and>
    (case fs_rootfs_storage_gib s of
       None \<Rightarrow> p + 1 < fs_ephemeral_storage_gib s
     | Some r \<Rightarrow> 1 \<le> r \<and> p + r < fs_ephemeral_storage_gib s) \<and>
    fs_ephemeral_storage_gib s \<le> MAX_EPHEMERAL_STORAGE_GIB"
  using validate_flash_spec_parts(2) [OF assms(1)] assms(2)
  by (auto simp: validate_disk_def result_simps split: option.splits)

theorem accepted_spec_disk_witness:
  "fs_persistent_storage_gib sample_spec = Some 5 \<and> fs_rootfs_storage_gib sample_spec = Some 4 \<and>
   5 + 4 < fs_ephemeral_storage_gib sample_spec"
  using accepted_spec_disk [OF sample_accepted, of 5] by (simp add: sample_spec_def)

text \<open>
  The effective secret environment is the union of the configured variables and of one variable
  per secret file, and it exists exactly when no variable is defined twice: the file variables are
  pairwise distinct and none of them is configured. Nothing is overwritten, and as many entries
  result as were given.
\<close>

theorem effective_secret_env_correct:
  assumes "bt_wf (fs_secret_env s)"
  shows "(is_ok (effective_secret_env s) \<longleftrightarrow>
      distinct (map fst (secret_file_vars s)) \<and>
      fst ` set (secret_file_vars s) \<inter> fst ` set (fs_secret_env s) = {}) \<and>
    (\<forall>m. effective_secret_env s = Inr m \<longrightarrow>
      bt_wf m \<and> length m = length (fs_secret_env s) + length (fs_secret_files s) \<and>
      map_of m = map_of (fs_secret_env s) ++ map_of (secret_file_vars s))"
proof -
  have names: "map fst (secret_file_vars s) = map (\<lambda>(f, v). secret_file_env f) (fs_secret_files s)"
    by (auto simp: secret_file_vars_def)
  have disj: "fst ` set (secret_file_vars s) \<inter> fst ` set (fs_secret_env s) = {} \<longleftrightarrow>
      (\<forall>(f, v)\<in>set (fs_secret_files s). \<not> bt_contains (fs_secret_env s) (secret_file_env f))"
    by (force simp: secret_file_vars_def bt_contains_iff)
  show ?thesis
    unfolding effective_secret_env_fold names disj is_ok_iff
    using secret_env_fold_Inr [of "fs_secret_files s" "fs_secret_env s"]
      secret_env_fold_total [of "fs_secret_files s" "fs_secret_env s"] assms
    unfolding secret_file_vars_def by blast
qed

theorem effective_secret_env_correct_witness:
  "bt_wf (fs_secret_env sample_spec) \<and> is_ok (effective_secret_env sample_spec) \<and>
   secret_file_vars sample_spec = [(''DB_URL'', ''db'')]"
proof -
  have wf: "bt_wf (fs_secret_env sample_spec)" by (simp add: sample_spec_def bt_wf_def)
  have vars: "secret_file_vars sample_spec = [(''DB_URL'', ''db'')]"
    by (simp add: secret_file_vars_def secret_file_env_def sample_spec_eval)
  show ?thesis
    using effective_secret_env_correct [OF wf] wf vars by (simp add: sample_spec_def)
qed

text \<open>
  In an accepted specification no variable is both plain text and a secret, every variable name
  that reaches the container is valid, and a workload with a task role sets none of the variables
  that carry its identity.
\<close>

theorem accepted_spec_environment:
  assumes "validate_flash_spec ops url_parse s = Inr ()"
    and "bt_wf (fs_env s)" and "bt_wf (fs_secret_env s)"
  shows "\<exists>m. effective_secret_env s = Inr m \<and> bt_wf m \<and>
    dom (map_of (fs_env s)) \<inter> dom (map_of m) = {} \<and>
    (\<forall>k\<in>dom (map_of (fs_env s)) \<union> dom (map_of m). validate_env_name k = Inr ()) \<and>
    (fs_task_role s = None \<or>
     (dom (map_of (fs_env s)) \<union> dom (map_of m)) \<inter> set RESERVED_IDENTITY_ENV = {})"
  using validate_flash_spec_parts(5) [OF assms(1)]
proof (rule validate_environment_accepts)
  fix m
  assume m: "effective_secret_env s = Inr m"
    and env: "\<And>k v. (k, v) \<in> set (fs_env s) \<Longrightarrow> validate_env_name k = Inr () \<and> length v \<le> 32768"
    and sec: "\<And>k v. (k, v) \<in> set m \<Longrightarrow>
           validate_env_name k = Inr () \<and> validate_dns_label ''secret name'' v = Inr () \<and>
           \<not> bt_contains (fs_env s) k"
    and role: "\<And>k. fs_task_role s \<noteq> None \<Longrightarrow> k \<in> set RESERVED_IDENTITY_ENV \<Longrightarrow>
           \<not> bt_contains (fs_env s) k \<and> \<not> bt_contains m k"
  have "bt_wf m"
    using secret_env_fold_Inr m assms(3) unfolding effective_secret_env_fold by blast
  moreover have "dom (map_of (fs_env s)) \<inter> dom (map_of m) = {}"
    using sec by (auto simp: bt_contains_def dest: map_of_SomeD)
  moreover have "\<forall>k\<in>dom (map_of (fs_env s)) \<union> dom (map_of m). validate_env_name k = Inr ()"
    using env sec by (auto dest!: map_of_SomeD)
  moreover have "fs_task_role s = None \<or>
     (dom (map_of (fs_env s)) \<union> dom (map_of m)) \<inter> set RESERVED_IDENTITY_ENV = {}"
    using role by (auto simp: bt_contains_def)
  ultimately show ?thesis using m by blast
qed

theorem accepted_spec_environment_witness:
  "dom (map_of (fs_env sample_spec)) \<inter> dom (map_of [(''DB_URL'', ''db''), (''TOKEN'', ''token'')]) = {}"
proof -
  have "bt_wf (fs_env sample_spec)" and "bt_wf (fs_secret_env sample_spec)"
    by (simp_all add: sample_spec_def bt_wf_def)
  from accepted_spec_environment [OF sample_accepted this] show ?thesis
    by (simp only: sample_secret_env sum.inject) blast
qed

end
