(* ===== verification/Kube_Objects.thy ===== *)
theory Kube_Objects
  imports Rust_Strings
begin

text \<open>
  The Kubernetes objects the controller reads, with the fields it looks at, and the combinators of
  the effectful code. The API server is not part of the sources: every call to it is a function
  argument of the definitions that make it. A call takes the state of the world, of an arbitrary
  type \<open>'w\<close>, and returns an error or a value together with the next state.
\<close>

section \<open>Objects\<close>

text \<open>
  Fields that the sources read through \<open>Option\<close> keep their option. Objects read from the API
  server have a name, so \<open>name_any\<close> is the field \<open>name\<close>.
\<close>

record container_terminated =
  ct_reason :: "string option"
  ct_finished_at :: "int option"
  ct_exit_code :: int
  ct_message :: "string option"

record container_state =
  cst_waiting_reason :: "string option option"
  cst_waiting_message :: "string option"
  cst_terminated :: "container_terminated option"
  cst_running :: bool

record container_status =
  cs_name :: string
  cs_state :: "container_state option"
  cs_last_state :: "container_state option"
  cs_restart_count :: int

record pod_condition =
  pc_type :: string
  pc_status :: string
  pc_reason :: "string option"
  pc_message :: "string option"

record pod_status =
  ps_phase :: "string option"
  ps_conditions :: "pod_condition list option"
  ps_container_statuses :: "container_status list option"
  ps_init_container_statuses :: "container_status list option"

text \<open>A container of a pod with its resource requests.\<close>

record pod_container =
  pcn_name :: string
  pcn_requests :: "(string, string) btree_map option"

record pod =
  pod_name :: string
  pod_labels :: "(string, string) btree_map option"
  pod_node_name :: "string option"
  pod_deletion_timestamp :: "int option"
  pod_containers :: "pod_container list option"
  pod_status_of :: "pod_status option"

record node_status =
  ns_conditions :: "(string \<times> string) list option"
  ns_allocatable :: "(string, string) btree_map option"

record node =
  node_name_of :: string
  node_labels :: "(string, string) btree_map option"
  node_status_of :: "node_status option"

text \<open>A deployment, as far as its progress is read.\<close>

record deployment_status =
  ds_observed_generation :: "int option"
  ds_available_replicas :: "int option"
  ds_conditions :: "pod_condition list option"

record deployment =
  dep_name :: string
  dep_generation :: "int option"
  dep_status :: "deployment_status option"

section \<open>Effectful code\<close>

text \<open>What a controller asks of its runtime when it is done with an object.\<close>

datatype action = Await_Change | Requeue u64

text \<open>The errors of the client: a response of the server with its status code, or another failure.\<close>

datatype kube_error = Api_Error u16 | Client_Error string

type_synonym ('w, 'e, 'a) effect = "'w \<Rightarrow> ('e + 'a) \<times> 'w"

definition eret :: "'a \<Rightarrow> ('w, 'e, 'a) effect" where
  "eret x = (\<lambda>w. (Inr x, w))"

definition efail :: "'e \<Rightarrow> ('w, 'e, 'a) effect" where
  "efail e = (\<lambda>w. (Inl e, w))"

definition ebind :: "('w, 'e, 'a) effect \<Rightarrow> ('a \<Rightarrow> ('w, 'e, 'b) effect) \<Rightarrow> ('w, 'e, 'b) effect" where
  "ebind m f = (\<lambda>w. case m w of (Inl e, w') \<Rightarrow> (Inl e, w') | (Inr x, w') \<Rightarrow> f x w')"

text \<open>A \<open>match\<close> on the result of a call, error included.\<close>

definition ematch ::
  "('w, 'd, 'a) effect \<Rightarrow> ('d + 'a \<Rightarrow> ('w, 'e, 'b) effect) \<Rightarrow> ('w, 'e, 'b) effect" where
  "ematch m f = (\<lambda>w. case m w of (r, w') \<Rightarrow> f r w')"

fun efor :: "('a \<Rightarrow> ('w, 'e, unit) effect) \<Rightarrow> 'a list \<Rightarrow> ('w, 'e, unit) effect" where
  "efor f [] = eret ()"
| "efor f (x # xs) = ebind (f x) (\<lambda>_. efor f xs)"

lemma ebind_eret [simp]: "ebind (eret x) f = f x"
  by (simp add: ebind_def eret_def)

text \<open>
  A precondition, a postcondition on the value and the state of a computation that succeeds, and
  a condition on the state that it leaves when it fails.
\<close>

definition gives ::
  "('w \<Rightarrow> bool) \<Rightarrow> ('w, 'e, 'a) effect \<Rightarrow> ('a \<Rightarrow> 'w \<Rightarrow> bool) \<Rightarrow> ('w \<Rightarrow> bool) \<Rightarrow> bool" where
  "gives P m Q E \<longleftrightarrow>
     (\<forall>w. P w \<longrightarrow> (\<forall>e w'. m w = (Inl e, w') \<longrightarrow> E w') \<and> (\<forall>x w'. m w = (Inr x, w') \<longrightarrow> Q x w'))"

named_theorems effect_rules "rules for gives"

lemma gives_ret [effect_rules]: "(\<And>w. P w \<Longrightarrow> Q x w) \<Longrightarrow> gives P (eret x) Q E"
  by (simp add: gives_def eret_def)

lemma gives_fail [effect_rules]: "(\<And>w. P w \<Longrightarrow> E w) \<Longrightarrow> gives P (efail e) Q E"
  by (simp add: gives_def efail_def)

lemma gives_bind [effect_rules]:
  "gives P m R E \<Longrightarrow> (\<And>x. gives (R x) (f x) Q E) \<Longrightarrow> gives P (ebind m f) Q E"
  by (simp add: gives_def ebind_def split: prod.splits sum.splits) blast

lemma gives_match [effect_rules]:
  "gives P m R F \<Longrightarrow> (\<And>x. gives (R x) (f (Inr x)) Q E) \<Longrightarrow> (\<And>e. gives F (f (Inl e)) Q E) \<Longrightarrow>
   gives P (ematch m f) Q E"
  by (simp add: gives_def ematch_def split: prod.splits) (metis sum.exhaust)

lemma gives_for:
  assumes "\<And>x. x \<in> set xs \<Longrightarrow> gives P (f x) (\<lambda>_. P) E"
  shows "gives P (efor f xs) (\<lambda>_. P) E"
  using assms by (induction xs) (auto intro: effect_rules)

lemma gives_if [effect_rules]:
  "(b \<Longrightarrow> gives P m Q E) \<Longrightarrow> (\<not> b \<Longrightarrow> gives P m' Q E) \<Longrightarrow> gives P (if b then m else m') Q E"
  by simp

lemma gives_conseq:
  assumes "gives P' m Q' E'" and "\<And>w. P w \<Longrightarrow> P' w"
    and "\<And>x w. Q' x w \<Longrightarrow> Q x w" and "\<And>w. E' w \<Longrightarrow> E w"
  shows "gives P m Q E"
  using assms by (simp add: gives_def) blast

lemma gives_pre: "gives P' m Q E \<Longrightarrow> (\<And>w. P w \<Longrightarrow> P' w) \<Longrightarrow> gives P m Q E"
  by (erule gives_conseq) auto

lemma gives_conj:
  "gives P m Q E \<Longrightarrow> gives P' m Q' E' \<Longrightarrow>
   gives (\<lambda>w. P w \<and> P' w) m (\<lambda>x w. Q x w \<and> Q' x w) (\<lambda>w. E w \<and> E' w)"
  unfolding gives_def by blast

lemma gives_pure: "(B \<Longrightarrow> gives P m Q E) \<Longrightarrow> gives (\<lambda>w. B \<and> P w) m Q E"
  by (auto simp: gives_def)

lemma gives_Inr: "gives P m Q E \<Longrightarrow> P w \<Longrightarrow> m w = (Inr x, w') \<Longrightarrow> Q x w'"
  by (auto simp: gives_def)

lemma gives_Inl: "gives P m Q E \<Longrightarrow> P w \<Longrightarrow> m w = (Inl e, w') \<Longrightarrow> E w'"
  by (auto simp: gives_def)

end
