(* ===== verification/Diagnostics.thy ===== *)
theory Diagnostics
  imports Kube_Objects
begin

text \<open>
  \<open>diagnostics.rs\<close>: the bounded list of user-facing reasons of a service, from the states of its
  containers, the disk usage and the status message.
\<close>

record diagnostic =
  dg_code :: string
  dg_severity :: string
  dg_message :: string
  dg_resource :: "string option"

record disk_usage =
  du_capacity_bytes :: u64
  du_used_bytes :: u64
  du_available_bytes :: u64
  du_measured_at :: string

definition reason_text :: "string \<Rightarrow> string \<times> string" where
  "reason_text code =
     (if code = ''insufficient_disk_capacity''
      then (''error'', ''Host disk capacity is insufficient for the image and writable storage.'')
      else if code = ''insufficient_replicated_storage''
      then (''error'', ''There is insufficient free storage for every persistent disk replica.'')
      else if code = ''insufficient_compute_capacity''
      then (''warning'', ''No eligible host has enough CPU or memory available.'')
      else if code = ''insufficient_inodes''
      then (''error'', ''The host filesystem has insufficient free inodes.'')
      else if code = ''capacity_metrics_unavailable'' \<or> code = ''image_capacity_unknown''
      then (''warning'', ''Capacity could not be verified; the workload will be retried.'')
      else if code = ''vpc_pending''
      then (''warning'', ''Waiting for private network policies and DNS.'')
      else if code = ''oom_killed''
      then (''error'', ''The container exceeded its memory limit and was terminated.'')
      else if code = ''oom_recovered''
      then (''warning'', ''The container restarted after exceeding its memory limit.'')
      else if code = ''image_pull_failed''
      then (''error'', ''The container image could not be downloaded. Check the image and registry access.'')
      else if code = ''container_start_failed''
      then (''error'', ''The container process could not start or is repeatedly failing.'')
      else if code = ''disk_full''
      then (''error'', ''Persistent disk usage is at least 95%. Free space or expand the disk.'')
      else if code = ''disk_usage_high''
      then (''warning'', ''Persistent disk usage is at least 80%.'')
      else if code = ''disk_usage_critical''
      then (''error'', ''Persistent disk usage is at least 90%.'')
      else if code = ''deployment_failed''
      then (''error'', ''The deployment could not complete. The previous revision may still be serving.'')
      else (''warning'', ''Waiting for an eligible host or workload readiness.''))"

definition reason :: "string \<Rightarrow> diagnostic" where
  "reason code =
     (let (severity, message) = reason_text code
      in \<lparr>dg_code = code, dg_severity = severity, dg_message = message, dg_resource = None\<rparr>)"

section \<open>Containers\<close>

text \<open>The pods that count: not being deleted, and neither failed nor succeeded.\<close>

definition pod_counts :: "pod \<Rightarrow> bool" where
  "pod_counts p \<longleftrightarrow>
     pod_deletion_timestamp p = None \<and>
     Option.bind (pod_status_of p) ps_phase \<notin> {Some ''Failed'', Some ''Succeeded''}"

text \<open>The reason of one container; \<open>now\<close> is the clock reading of the call.\<close>

definition container_code :: "bool \<Rightarrow> i64 \<Rightarrow> container_status \<Rightarrow> string option" where
  "container_code ready now c =
     (let terminated = Option.bind (cs_state c) cst_terminated;
          last_oom = (case Option.bind (cs_last_state c) cst_terminated of
                        None \<Rightarrow> None
                      | Some t \<Rightarrow> if ct_reason t = Some ''OOMKilled'' then Some t else None);
          waiting = (case Option.bind (cs_state c) cst_waiting_reason of
                       None \<Rightarrow> None | Some r \<Rightarrow> r)
      in if (\<exists>t\<in>set_option terminated. ct_reason t = Some ''OOMKilled'') \<or> (\<not> ready \<and> last_oom \<noteq> None)
         then Some ''oom_killed''
         else if ready \<and>
                 (\<exists>t\<in>set_option last_oom. \<exists>f\<in>set_option (ct_finished_at t).
                    0 \<le> i64_saturating_sub now f \<and> i64_saturating_sub now f < 86400)
         then Some ''oom_recovered''
         else if waiting \<in> {Some ''ErrImagePull'', Some ''ImagePullBackOff'', Some ''InvalidImageName''}
         then Some ''image_pull_failed''
         else if \<not> ready \<and>
                 (terminated \<noteq> None \<or>
                  waiting \<in> {Some ''CrashLoopBackOff'', Some ''CreateContainerConfigError'', Some ''RunContainerError''})
         then Some ''container_start_failed''
         else None)"

definition option_list :: "'a list option \<Rightarrow> 'a list" where
  "option_list x = (case x of None \<Rightarrow> [] | Some l \<Rightarrow> l)"

definition pod_reasons :: "bool \<Rightarrow> i64 \<Rightarrow> pod \<Rightarrow> diagnostic list" where
  "pod_reasons ready now p =
     (case pod_status_of p of
        None \<Rightarrow> []
      | Some status \<Rightarrow>
          List.map_filter
            (\<lambda>c. map_option (\<lambda>code. (reason code)\<lparr>dg_resource := Some (pod_name p)\<rparr>)
                   (container_code ready now c))
            (option_list (ps_init_container_statuses status) @ option_list (ps_container_statuses status)))"

definition disk_reasons :: "disk_usage option \<Rightarrow> diagnostic list" where
  "disk_reasons disk =
     (case disk of
        None \<Rightarrow> []
      | Some d \<Rightarrow>
          if 0 < du_capacity_bytes d
          then let used = du_used_bytes d * 100 div du_capacity_bytes d
               in if 80 \<le> used
                  then [reason (if 95 \<le> used then ''disk_full''
                                else if 90 \<le> used then ''disk_usage_critical''
                                else ''disk_usage_high'')]
                  else []
          else [])"

definition capacity_codes :: "string list" where
  "capacity_codes =
     [''insufficient_disk_capacity'', ''insufficient_replicated_storage'', ''insufficient_compute_capacity'',
      ''insufficient_inodes'', ''capacity_metrics_unavailable'', ''image_capacity_unknown'']"

definition message_reasons :: "string option \<Rightarrow> diagnostic list" where
  "message_reasons message =
     (let m = (case message of None \<Rightarrow> [] | Some m \<Rightarrow> m)
      in case find (\<lambda>code. contains_str code m) capacity_codes of
           Some code \<Rightarrow> [reason code]
         | None \<Rightarrow>
             if contains_str ''VPC'' m then [reason ''vpc_pending'']
             else if contains_str ''cannot complete'' m then [reason ''deployment_failed'']
             else [])"

definition collect ::
  "pod list \<Rightarrow> bool \<Rightarrow> i64 \<Rightarrow> string option \<Rightarrow> disk_usage option \<Rightarrow> diagnostic list" where
  "collect pods ready now message disk =
     (let output = concat (map (pod_reasons ready now) (filter pod_counts pods)) @ disk_reasons disk
      in take 16 (if \<not> ready \<and> output = [] then message_reasons message else output))"

section \<open>Lemmas\<close>

lemma container_code_ready:
  "container_code True now c = Some code \<Longrightarrow>
     code \<in> {''oom_killed'', ''oom_recovered'', ''image_pull_failed''}"
  by (auto simp: container_code_def Let_def split: if_splits)

lemma container_code_unready_dead:
  "Option.bind (cs_state c) cst_terminated \<noteq> None \<Longrightarrow> container_code False now c \<noteq> None"
  by (auto simp: container_code_def Let_def)

end
