(* ===== verification/Crd.thy ===== *)
theory Crd
  imports Domain Diagnostics
begin

text \<open>
  \<open>crd.rs\<close>: the custom resources. A resource is a record of its metadata, its specification and
  its optional status. The metadata fields are those the sources use: the name, the namespace, the
  resource version, the deletion timestamp and the finalizers.
\<close>

record object_meta =
  meta_name :: string
  meta_namespace :: "string option"
  meta_resource_version :: "string option"
  meta_deletion_timestamp :: "int option"
  meta_finalizers :: "string list"
  meta_annotations :: "(string, string) btree_map"
  meta_uid :: "string option"
  meta_generation :: "int option"

section \<open>Quotas and policies\<close>

definition MAX_WEEKLY_GPU_SECONDS :: u64 where "MAX_WEEKLY_GPU_SECONDS = 31536000"
definition MAX_WEEKLY_CPU_MILLICORE_SECONDS :: u64 where
  "MAX_WEEKLY_CPU_MILLICORE_SECONDS = 3153600000000000"
definition MAX_WEEKLY_MEMORY_MIB_SECONDS :: u64 where "MAX_WEEKLY_MEMORY_MIB_SECONDS = 33067892736000"
definition MAX_PRIVATE_GPU_ASSIGNMENTS :: u64 where "MAX_PRIVATE_GPU_ASSIGNMENTS = 256"

record flash_member_weekly_limits =
  ml_cpu_millicore_seconds :: u64
  ml_memory_mib_seconds :: u64
  ml_gpu_seconds :: u64

record flash_cloud_organization_weekly_limits =
  cl_account_ids :: "string list"
  cl_cpu_millicore_seconds :: u64
  cl_memory_mib_seconds :: u64
  cl_gpu_seconds :: u64

record flash_service_policy =
  pol_cpu_millicore_seconds :: u64
  pol_memory_mib_seconds :: u64
  pol_gpu_seconds :: u64
  pol_member :: "flash_member_weekly_limits option"
  pol_cloud_organization :: "flash_cloud_organization_weekly_limits option"

definition default_flash_service_policy :: flash_service_policy where
  "default_flash_service_policy =
     \<lparr>pol_cpu_millicore_seconds = MAX_WEEKLY_CPU_MILLICORE_SECONDS,
      pol_memory_mib_seconds = MAX_WEEKLY_MEMORY_MIB_SECONDS,
      pol_gpu_seconds = MAX_WEEKLY_GPU_SECONDS,
      pol_member = None, pol_cloud_organization = None\<rparr>"

record flash_gpu_weekly_usage =
  gw_week_started_at :: i64
  gw_used_seconds :: u64
  gw_last_metered_at :: i64
  gw_limit_seconds :: u64

record flash_weekly_usage =
  wu_week_started_at :: i64
  wu_cpu_millicore_seconds :: u64
  wu_memory_mib_seconds :: u64
  wu_gpu_seconds :: u64
  wu_last_metered_at :: i64
  wu_max_cpu_millicore_seconds :: u64
  wu_max_memory_mib_seconds :: u64
  wu_max_gpu_seconds :: u64

record flash_usage_record_spec =
  ur_service_instance_id :: string
  ur_organization_id :: string
  ur_project_id :: string
  ur_quota_user_id :: "string option"
  ur_display_name :: string
  ur_cpu_millis :: u32
  ur_memory_mib :: u32
  ur_gpu_count :: u32
  ur_usage :: flash_weekly_usage

record flash_usage_record =
  ur_meta :: object_meta
  ur_spec :: flash_usage_record_spec

section \<open>GPU inventory and jobs\<close>

datatype flash_gpu_visibility = Open | Private
datatype flash_gpu_health = Unknown | Healthy | Unhealthy
datatype flash_gpu_job_phase = Queued | Reserved | Running | Retry | Cancelled | Released | Rejected

record flash_gpu_reservation =
  rs_job_namespace :: string
  rs_job_name :: string
  rs_subject_id :: string
  rs_service_instance_id :: string
  rs_reserved_at :: i64
  rs_lease_expires_at :: i64

record flash_gpu_device_spec =
  gd_node_name :: string
  gd_physical_id :: string
  gd_gpu_type :: string
  gd_model :: string
  gd_memory_mib :: u64
  gd_visibility :: flash_gpu_visibility
  gd_private_assignments :: "string list"

record flash_gpu_device_status =
  gs_health :: flash_gpu_health
  gs_reservation :: "flash_gpu_reservation option"
  gs_last_allocated_at :: "i64 option"
  gs_last_organization_id :: "string option"
  gs_last_subject_id :: "string option"

definition default_gpu_device_status :: flash_gpu_device_status where
  "default_gpu_device_status =
     \<lparr>gs_health = Unknown, gs_reservation = None, gs_last_allocated_at = None,
      gs_last_organization_id = None, gs_last_subject_id = None\<rparr>"

record flash_gpu_device =
  dev_meta :: object_meta
  dev_spec :: flash_gpu_device_spec
  dev_status :: "flash_gpu_device_status option"

abbreviation dev_name :: "flash_gpu_device \<Rightarrow> string" where
  "dev_name d \<equiv> meta_name (dev_meta d)"

record flash_gpu_assignment =
  ga_inventory_name :: string
  ga_node_name :: string
  ga_gpu_type :: string
  ga_model :: string
  ga_lease_expires_at :: i64

record flash_gpu_job_spec =
  gj_service_instance_id :: string
  gj_service_generation :: i64
  gj_subject_id :: string
  gj_organization_id :: string
  gj_project_id :: string
  gj_gpu_type :: "string option"
  gj_count :: u32
  gj_quota_remaining_seconds :: u64
  gj_queued_at :: i64

record flash_gpu_job_status =
  js_phase :: flash_gpu_job_phase
  js_attempts :: u32
  js_assignment :: "flash_gpu_assignment option"
  js_message :: "string option"
  js_updated_at :: i64

definition default_gpu_job_status :: flash_gpu_job_status where
  "default_gpu_job_status =
     \<lparr>js_phase = Queued, js_attempts = 0, js_assignment = None, js_message = None, js_updated_at = 0\<rparr>"

record flash_gpu_job =
  job_meta :: object_meta
  job_spec :: flash_gpu_job_spec
  job_status :: "flash_gpu_job_status option"

abbreviation job_name :: "flash_gpu_job \<Rightarrow> string" where
  "job_name j \<equiv> meta_name (job_meta j)"

text \<open>\<open>job.namespace().unwrap_or_default()\<close>\<close>

definition job_namespace :: "flash_gpu_job \<Rightarrow> string" where
  "job_namespace j = (case meta_namespace (job_meta j) of None \<Rightarrow> [] | Some n \<Rightarrow> n)"

section \<open>Services\<close>

datatype flash_service_phase = Provisioning | Ready | Error

record flash_endpoint =
  ep_name :: string
  ep_protocol :: transport_protocol
  ep_host :: string
  ep_port :: u16

record flash_gpu_scheduling_status =
  sch_phase :: flash_gpu_job_phase
  sch_gpu_type :: "string option"
  sch_display_name :: "string option"

record flash_service_spec =
  svc_desired_generation :: i64
  svc_display_name :: string
  svc_organization_id :: string
  svc_project_id :: string
  svc_service_instance_id :: string
  svc_subject_id :: "string option"
  svc_quota_user_id :: "string option"
  svc_policy :: flash_service_policy
  svc_workload :: flash_spec

record flash_service_status =
  st_serving_replicas :: "u32 option"
  st_allocated_cpu_millis :: "u64 option"
  st_allocated_memory_mib :: "u64 option"
  st_allocated_gpu_count :: "u64 option"
  st_diagnostics :: "diagnostic list"
  st_disk_usage :: "disk_usage option"
  st_phase :: flash_service_phase
  st_observed_generation :: i64
  st_ready_replicas :: i32
  st_desired_replicas :: i32
  st_runtime_class :: string
  st_endpoints :: "flash_endpoint list"
  st_private_endpoints :: "flash_endpoint list"
  st_message :: "string option"
  st_oidc_callback_url :: "string option"
  st_resolved_image :: "string option"
  st_image_size_bytes :: "u64 option"
  st_writable_storage_bytes :: "u64 option"
  st_rootfs_storage_bytes :: "u64 option"
  st_persistent_storage_bytes :: "u64 option"
  st_persistent_storage_capacity_bytes :: "u64 option"
  st_storage_resize_pending :: bool
  st_image_entrypoint :: "string list option"
  st_image_cmd :: "string list option"
  st_image_architecture :: "string option"
  st_gpu_weekly_usage :: "flash_gpu_weekly_usage option"
  st_gpu_quota_exhausted :: bool
  st_weekly_usage :: "flash_weekly_usage option"
  st_cpu_quota_exhausted :: bool
  st_memory_quota_exhausted :: bool
  st_cold :: bool
  st_stopped :: bool
  st_gpu_scheduling :: "flash_gpu_scheduling_status option"

definition default_flash_service_status :: flash_service_status where
  "default_flash_service_status =
     \<lparr>st_serving_replicas = None, st_allocated_cpu_millis = None, st_allocated_memory_mib = None,
      st_allocated_gpu_count = None, st_diagnostics = [], st_disk_usage = None, st_phase = Provisioning,
      st_observed_generation = 0, st_ready_replicas = 0, st_desired_replicas = 0, st_runtime_class = [],
      st_endpoints = [], st_private_endpoints = [], st_message = None, st_oidc_callback_url = None,
      st_resolved_image = None, st_image_size_bytes = None, st_writable_storage_bytes = None,
      st_rootfs_storage_bytes = None, st_persistent_storage_bytes = None,
      st_persistent_storage_capacity_bytes = None, st_storage_resize_pending = False,
      st_image_entrypoint = None, st_image_cmd = None, st_image_architecture = None,
      st_gpu_weekly_usage = None, st_gpu_quota_exhausted = False, st_weekly_usage = None,
      st_cpu_quota_exhausted = False, st_memory_quota_exhausted = False, st_cold = False,
      st_stopped = False, st_gpu_scheduling = None\<rparr>"

definition quota_exhausted :: "flash_service_status \<Rightarrow> bool" where
  "quota_exhausted s \<longleftrightarrow>
     st_cpu_quota_exhausted s \<or> st_memory_quota_exhausted s \<or> st_gpu_quota_exhausted s"

record flash_service =
  fsv_meta :: object_meta
  fsv_spec :: flash_service_spec
  fsv_status :: "flash_service_status option"

section \<open>Constants of lib.rs\<close>

definition RUNTIME_CLASS_NAME :: string where "RUNTIME_CLASS_NAME = ''gvisor''"
definition GPU_RUNTIME_CLASS_NAME :: string where "GPU_RUNTIME_CLASS_NAME = ''nvidia''"
definition GPU_RESOURCE_NAME :: string where "GPU_RESOURCE_NAME = ''nvidia.com/gpu''"
definition GPU_READY_LABEL :: string where "GPU_READY_LABEL = ''flash.heterocloud.io/gpu-ready''"
definition GPU_TYPE_LABEL :: string where "GPU_TYPE_LABEL = ''flash.heterocloud.io/gpu-type''"

definition workload_runtime_class :: "u32 \<Rightarrow> string" where
  "workload_runtime_class gpu_count =
     (if gpu_count = 0 then RUNTIME_CLASS_NAME else GPU_RUNTIME_CLASS_NAME)"

end
