(* ===== verification/Gpu_Inventory.thy ===== *)
theory Gpu_Inventory
  imports Crd
begin

text \<open>
  The pure part of \<open>gpu_scheduler.rs\<close>: the catalog of GPU types a user sees, the devices a job may
  use, and the choice of the next job of the queue.
\<close>

section \<open>Visibility and availability\<close>

definition device_visible_to :: "flash_gpu_device \<Rightarrow> string \<Rightarrow> bool" where
  "device_visible_to d subject_id \<longleftrightarrow>
     gd_visibility (dev_spec d) = Open \<or>
     list_ex (\<lambda>assigned. assigned = subject_id) (gd_private_assignments (dev_spec d))"

definition gpu_device_available :: "flash_gpu_device \<Rightarrow> i64 \<Rightarrow> bool" where
  "gpu_device_available d now =
     (case dev_status d of
        None \<Rightarrow> False
      | Some status \<Rightarrow>
          gs_health status = Healthy \<and>
          (case gs_reservation status of None \<Rightarrow> True | Some r \<Rightarrow> rs_lease_expires_at r \<le> now))"

section \<open>The catalog\<close>

datatype gpu_catalog_error = ModelMismatch string

record gpu_type_catalog_entry =
  ce_gpu_type :: string
  ce_display_name :: string
  ce_access :: flash_gpu_visibility
  ce_total :: u32
  ce_available :: u32

text \<open>The state of the loop: the last model seen of each type, and the types found inconsistent.\<close>

fun inconsistent_loop ::
  "flash_gpu_device list \<Rightarrow> (string, string) btree_map \<Rightarrow> string list \<Rightarrow> string list" where
  "inconsistent_loop [] models inconsistent = inconsistent"
| "inconsistent_loop (d # ds) models inconsistent =
     (let t = gd_gpu_type (dev_spec d); m = gd_model (dev_spec d)
      in inconsistent_loop ds (bt_insert t m models)
           (case bt_get models t of
              Some existing \<Rightarrow> if existing \<noteq> m then t # inconsistent else inconsistent
            | None \<Rightarrow> inconsistent))"

definition inconsistent_gpu_types :: "flash_gpu_device list \<Rightarrow> string list" where
  "inconsistent_gpu_types ds = bt_set (inconsistent_loop ds [] [])"

definition validate_gpu_inventory_models :: "flash_gpu_device list \<Rightarrow> gpu_catalog_error + unit" where
  "validate_gpu_inventory_models ds =
     (case inconsistent_gpu_types ds of [] \<Rightarrow> Inr () | t # _ \<Rightarrow> Inl (ModelMismatch t))"

definition catalog_entry ::
  "i64 \<Rightarrow> flash_gpu_device \<Rightarrow> gpu_type_catalog_entry option \<Rightarrow> gpu_type_catalog_entry" where
  "catalog_entry now d old =
     (let e = (case old of
                 Some e \<Rightarrow> e
               | None \<Rightarrow> \<lparr>ce_gpu_type = gd_gpu_type (dev_spec d), ce_display_name = gd_model (dev_spec d),
                          ce_access = gd_visibility (dev_spec d), ce_total = 0, ce_available = 0\<rparr>);
          e = (if gd_visibility (dev_spec d) = Open then e\<lparr>ce_access := Open\<rparr> else e);
          e = e\<lparr>ce_total := u32_saturating_add (ce_total e) 1\<rparr>
      in if gpu_device_available d now
         then e\<lparr>ce_available := u32_saturating_add (ce_available e) 1\<rparr> else e)"

definition catalog_step ::
  "i64 \<Rightarrow> flash_gpu_device \<Rightarrow> (string, gpu_type_catalog_entry) btree_map \<Rightarrow>
   (string, gpu_type_catalog_entry) btree_map" where
  "catalog_step now d catalog =
     bt_insert (gd_gpu_type (dev_spec d))
       (catalog_entry now d (bt_get catalog (gd_gpu_type (dev_spec d)))) catalog"

definition visible_gpu_catalog ::
  "flash_gpu_device list \<Rightarrow> string \<Rightarrow> i64 \<Rightarrow> gpu_catalog_error + gpu_type_catalog_entry list" where
  "visible_gpu_catalog ds subject_id now =
     bindR (validate_gpu_inventory_models ds) (\<lambda>_.
     Inr (map snd (fold (catalog_step now) (filter (\<lambda>d. device_visible_to d subject_id) ds) [])))"

section \<open>Candidates and the queue\<close>

definition last_allocated :: "flash_gpu_device \<Rightarrow> i64 option" where
  "last_allocated d = Option.bind (dev_status d) gs_last_allocated_at"

definition usable_by :: "flash_gpu_job \<Rightarrow> i64 \<Rightarrow> flash_gpu_device \<Rightarrow> bool" where
  "usable_by j now d \<longleftrightarrow>
     device_visible_to d (gj_subject_id (job_spec j)) \<and>
     (case gj_gpu_type (job_spec j) of None \<Rightarrow> True | Some t \<Rightarrow> t = gd_gpu_type (dev_spec d)) \<and>
     gpu_device_available d now"

definition candidate_devices ::
  "flash_gpu_device list \<Rightarrow> flash_gpu_job \<Rightarrow> i64 \<Rightarrow> flash_gpu_device list" where
  "candidate_devices ds j now =
     sort_key (\<lambda>d. (last_allocated d, dev_name d)) (filter (usable_by j now) ds)"

definition pending_job :: "flash_gpu_job \<Rightarrow> bool" where
  "pending_job j \<longleftrightarrow>
     meta_deletion_timestamp (job_meta j) = None \<and> gj_count (job_spec j) = 1 \<and>
     0 < gj_quota_remaining_seconds (job_spec j) \<and>
     (case job_status j of
        None \<Rightarrow> True
      | Some s \<Rightarrow> js_phase s \<in> {Queued, Retry} \<or> js_assignment s = None)"

definition job_order_key :: "flash_gpu_job \<Rightarrow> i64 \<times> string" where
  "job_order_key j = (gj_queued_at (job_spec j), job_name j)"

definition max_opt :: "int list \<Rightarrow> int option" where
  "max_opt xs = (case xs of [] \<Rightarrow> None | y # ys \<Rightarrow> Some (fold max ys y))"

definition principal :: "flash_gpu_job \<Rightarrow> string \<times> string" where
  "principal j = (gj_organization_id (job_spec j), gj_subject_id (job_spec j))"

definition principal_last_served :: "flash_gpu_device list \<Rightarrow> flash_gpu_job \<Rightarrow> i64 option \<times> i64 option" where
  "principal_last_served ds j =
     (let statuses = List.map_filter dev_status ds;
          org = (\<lambda>s. gs_last_organization_id s = Some (gj_organization_id (job_spec j)));
          subj = (\<lambda>s. gs_last_subject_id s = Some (gj_subject_id (job_spec j)))
      in (max_opt (List.map_filter gs_last_allocated_at (filter org statuses)),
          max_opt (List.map_filter gs_last_allocated_at (filter (\<lambda>s. org s \<and> subj s) statuses))))"

text \<open>\<open>retain\<close> with a set of the principals seen so far.\<close>

fun retain_first :: "('a \<Rightarrow> 'k) \<Rightarrow> 'k list \<Rightarrow> 'a list \<Rightarrow> 'a list" where
  "retain_first key seen [] = []"
| "retain_first key seen (x # xs) =
     (if key x \<in> set seen then retain_first key seen xs
      else x # retain_first key (key x # seen) xs)"

definition schedulable :: "flash_gpu_device list \<Rightarrow> i64 \<Rightarrow> flash_gpu_job \<Rightarrow> bool" where
  "schedulable ds now j \<longleftrightarrow> pending_job j \<and> candidate_devices ds j now \<noteq> []"

definition next_schedulable_job ::
  "flash_gpu_job list \<Rightarrow> flash_gpu_device list \<Rightarrow> i64 \<Rightarrow> flash_gpu_job option" where
  "next_schedulable_job jobs ds now =
     (let pending = filter (schedulable ds now) jobs;
          pending = sort_key job_order_key pending;
          pending = retain_first principal [] pending;
          pending = sort_key (\<lambda>j. (principal_last_served ds j, job_order_key j)) pending
      in case pending of [] \<Rightarrow> None | j # _ \<Rightarrow> Some j)"

section \<open>Lemmas\<close>

lemma candidate_devices_set: "set (candidate_devices ds j now) = {d \<in> set ds. usable_by j now d}"
  by (auto simp: candidate_devices_def)

lemma candidate_devices_head:
  assumes "candidate_devices ds j now = d # rest"
  shows "d \<in> set ds" and "usable_by j now d"
    and "\<And>d'. d' \<in> set ds \<Longrightarrow> usable_by j now d' \<Longrightarrow>
           (last_allocated d, dev_name d) \<le> (last_allocated d', dev_name d')"
  using sort_key_head [OF assms [unfolded candidate_devices_def]] by auto

lemma retain_first_subset: "set (retain_first key seen xs) \<subseteq> set xs"
  by (induction key seen xs rule: retain_first.induct) auto

text \<open>In a list sorted by \<open>ord\<close>, every element has a retained one of its class that is not larger.\<close>

lemma retain_first_represents:
  assumes "sorted (map ord xs)" and "x \<in> set xs" and "key x \<notin> set seen"
  shows "\<exists>y\<in>set (retain_first key seen xs). key y = key x \<and> ord y \<le> ord x"
  using assms
proof (induction key seen xs rule: retain_first.induct)
  case (1 key seen)
  then show ?case by simp
next
  case (2 key seen a xs)
  show ?case
  proof (cases "key x = key a")
    case True
    with "2.prems" show ?thesis by (auto intro!: bexI [of _ a])
  next
    case False
    with "2.prems" have "x \<in> set xs" and "sorted (map ord xs)" by auto
    with "2.IH" "2.prems"(3) False show ?thesis by (cases "key a \<in> set seen") auto
  qed
qed

lemma principal_last_served_cong:
  "principal j = principal k \<Longrightarrow> principal_last_served ds j = principal_last_served ds k"
  by (simp add: principal_def principal_last_served_def)

text \<open>The order in which the queue is served.\<close>

abbreviation service_key ::
  "flash_gpu_device list \<Rightarrow> flash_gpu_job \<Rightarrow> (i64 option \<times> i64 option) \<times> i64 \<times> string" where
  "service_key ds j \<equiv> (principal_last_served ds j, job_order_key j)"

lemma next_schedulable_job_min:
  assumes "next_schedulable_job jobs ds now = Some j"
  shows "j \<in> set jobs" and "schedulable ds now j"
    and "\<And>k. k \<in> set jobs \<Longrightarrow> schedulable ds now k \<Longrightarrow> service_key ds j \<le> service_key ds k"
proof -
  let ?P = "sort_key job_order_key (filter (schedulable ds now) jobs)"
  let ?R = "retain_first principal [] ?P"
  let ?S = "sort_key (service_key ds) ?R"
  from assms obtain rest where S: "?S = j # rest"
    by (auto simp: next_schedulable_job_def Let_def split: list.splits)
  then have "j \<in> set ?S" by simp
  then have "j \<in> set ?P" using retain_first_subset [of principal "[]" ?P] by auto
  then show "j \<in> set jobs" and "schedulable ds now j" by auto
  note least = sort_key_head(2) [OF S]
  show "service_key ds j \<le> service_key ds k" if "k \<in> set jobs" "schedulable ds now k" for k
  proof -
    from that have "k \<in> set ?P" by simp
    then obtain r where r: "r \<in> set ?R" "principal r = principal k" "job_order_key r \<le> job_order_key k"
      using retain_first_represents [of job_order_key ?P k principal "[]"] by auto
    then have "service_key ds r \<le> service_key ds k"
      using principal_last_served_cong [of r k ds] by simp
    with least [OF r(1)] show ?thesis by (rule order_trans)
  qed
qed

lemma next_schedulable_job_None:
  "next_schedulable_job jobs ds now = None \<longleftrightarrow> (\<forall>j\<in>set jobs. \<not> schedulable ds now j)"
proof -
  let ?P = "sort_key job_order_key (filter (schedulable ds now) jobs)"
  have "retain_first principal [] ?P = [] \<longleftrightarrow> ?P = []"
    by (cases ?P) auto
  moreover have "?P = [] \<longleftrightarrow> (\<forall>j\<in>set jobs. \<not> schedulable ds now j)"
    by (simp add: filter_empty_conv)
  moreover have "next_schedulable_job jobs ds now = None \<longleftrightarrow> retain_first principal [] ?P = []"
    unfolding next_schedulable_job_def Let_def
    by (metis (no_types, lifting) list.case_eq_if option.distinct(1) sort_key_Nil_iff)
  ultimately show ?thesis by simp
qed

subsection \<open>Models and types\<close>

abbreviation gpu_type_of :: "flash_gpu_device \<Rightarrow> string" where
  "gpu_type_of d \<equiv> gd_gpu_type (dev_spec d)"

abbreviation model_of :: "flash_gpu_device \<Rightarrow> string" where
  "model_of d \<equiv> gd_model (dev_spec d)"

definition models_of :: "string \<Rightarrow> flash_gpu_device list \<Rightarrow> string set" where
  "models_of t ds = model_of ` {d \<in> set ds. gpu_type_of d = t}"

lemma models_of_Cons: "models_of t (d # ds) = (if gpu_type_of d = t then {model_of d} else {}) \<union> models_of t ds"
  by (auto simp: models_of_def)

lemma inconsistent_loop_iff:
  "t \<in> set (inconsistent_loop ds models inc) \<longleftrightarrow>
     t \<in> set inc \<or> (\<exists>a\<in>models_of t ds \<union> set_option (map_of models t).
                      \<exists>b\<in>models_of t ds \<union> set_option (map_of models t). a \<noteq> b)"
proof (induction ds arbitrary: t models inc)
  case Nil
  then show ?case by (auto simp: models_of_def)
next
  case (Cons d ds)
  show ?case
  proof (cases "t = gpu_type_of d")
    case True
    then show ?thesis
      by (cases "map_of models (gpu_type_of d)") (auto simp: Cons.IH Let_def models_of_Cons)
  next
    case False
    then show ?thesis
      by (cases "map_of models (gpu_type_of d)") (auto simp: Cons.IH Let_def models_of_Cons)
  qed
qed

lemma inconsistent_gpu_types_iff:
  "t \<in> set (inconsistent_gpu_types ds) \<longleftrightarrow>
     (\<exists>d\<in>set ds. \<exists>d'\<in>set ds. gpu_type_of d = t \<and> gpu_type_of d' = t \<and> model_of d \<noteq> model_of d')"
  by (auto simp: inconsistent_gpu_types_def inconsistent_loop_iff models_of_def)

definition consistent_models :: "flash_gpu_device list \<Rightarrow> bool" where
  "consistent_models ds \<longleftrightarrow>
     list_all (\<lambda>d. list_all (\<lambda>d'. gpu_type_of d \<noteq> gpu_type_of d' \<or> model_of d = model_of d') ds) ds"

lemma consistent_modelsD:
  "consistent_models ds \<Longrightarrow> d \<in> set ds \<Longrightarrow> d' \<in> set ds \<Longrightarrow> gpu_type_of d = gpu_type_of d' \<Longrightarrow>
   model_of d = model_of d'"
  unfolding consistent_models_def list_all_iff by blast

lemma validate_gpu_inventory_models_iff:
  "validate_gpu_inventory_models ds = Inr () \<longleftrightarrow> consistent_models ds"
proof -
  have "validate_gpu_inventory_models ds = Inr () \<longleftrightarrow> \<not> (\<exists>t. t \<in> set (inconsistent_gpu_types ds))"
    by (auto simp: validate_gpu_inventory_models_def split: list.splits)
  also have "\<dots> \<longleftrightarrow> consistent_models ds"
    unfolding inconsistent_gpu_types_iff consistent_models_def list_all_iff by metis
  finally show ?thesis .
qed

subsection \<open>The catalog\<close>

definition type_devices :: "string \<Rightarrow> flash_gpu_device list \<Rightarrow> flash_gpu_device list" where
  "type_devices t ds = filter (\<lambda>d. gpu_type_of d = t) ds"

text \<open>The entry of a type, from the list of its devices.\<close>

definition entry_of :: "string \<Rightarrow> i64 \<Rightarrow> flash_gpu_device list \<Rightarrow> gpu_type_catalog_entry option" where
  "entry_of t now ds =
     (case type_devices t ds of
        [] \<Rightarrow> None
      | d # _ \<Rightarrow>
          Some \<lparr>ce_gpu_type = t, ce_display_name = model_of d,
                ce_access = (if list_ex (\<lambda>d. gd_visibility (dev_spec d) = Open) (type_devices t ds)
                             then Open else Private),
                ce_total = min (length (type_devices t ds)) u32_max,
                ce_available =
                  min (length (filter (\<lambda>d. gpu_device_available d now) (type_devices t ds))) u32_max\<rparr>)"

lemma saturating_count:
  "u32_saturating_add (min n u32_max) (Suc 0) = min (Suc n) u32_max"
  "u32_saturating_add 0 (Suc 0) = min (Suc 0) u32_max"
  by (auto simp: u32_saturating_add_def u32_max_def)

lemma catalog_entry_entry_of:
  "Some (catalog_entry now d (entry_of (gpu_type_of d) now ds)) = entry_of (gpu_type_of d) now (ds @ [d])"
proof -
  have snoc: "type_devices (gpu_type_of d) (ds @ [d]) = type_devices (gpu_type_of d) ds @ [d]"
    by (simp add: type_devices_def)
  show ?thesis
  proof (cases "type_devices (gpu_type_of d) ds")
    case Nil
    then show ?thesis
      unfolding entry_of_def snoc catalog_entry_def Let_def
      by (cases "gd_visibility (dev_spec d)"; cases "gpu_device_available d now")
         (simp_all add: saturating_count)
  next
    case (Cons a as)
    then show ?thesis
      unfolding entry_of_def snoc catalog_entry_def Let_def
      by (cases "gd_visibility (dev_spec d)"; cases "gpu_device_available d now")
         (simp_all add: saturating_count)
  qed
qed

lemma catalog_fold:
  "bt_wf (fold (catalog_step now) ds []) \<and>
   map_of (fold (catalog_step now) ds []) = (\<lambda>t. entry_of t now ds)"
proof (induction ds rule: rev_induct)
  case Nil
  then show ?case by (simp add: bt_wf_def entry_of_def type_devices_def fun_eq_iff)
next
  case (snoc d ds)
  have other: "entry_of t now (ds @ [d]) = entry_of t now ds" if "t \<noteq> gpu_type_of d" for t
  proof -
    have "type_devices t (ds @ [d]) = type_devices t ds" using that by (simp add: type_devices_def)
    then show ?thesis unfolding entry_of_def by (simp only:)
  qed
  from snoc show ?case
    by (auto simp: catalog_step_def bt_insert_wf fun_eq_iff catalog_entry_entry_of other)
qed

lemma catalog_entries:
  assumes "visible_gpu_catalog ds subject now = Inr es"
  shows "sorted_wrt (<) (map ce_gpu_type es)"
    and "e \<in> set es \<longleftrightarrow> entry_of (ce_gpu_type e) now (filter (\<lambda>d. device_visible_to d subject) ds) = Some e"
proof -
  let ?m = "fold (catalog_step now) (filter (\<lambda>d. device_visible_to d subject) ds) []"
  have es: "es = map snd ?m" using assms by (auto simp: visible_gpu_catalog_def result_simps)
  note m = catalog_fold [of now "filter (\<lambda>d. device_visible_to d subject) ds"]
  have keyed: "ce_gpu_type e = t" if "(t, e) \<in> set ?m" for t e
  proof -
    have "map_of ?m t = Some e" using m that by (simp add: bt_wf_unique)
    then have "entry_of t now (filter (\<lambda>d. device_visible_to d subject) ds) = Some e" using m by simp
    then show ?thesis by (auto simp: entry_of_def split: list.splits)
  qed
  then have "map ce_gpu_type es = map fst ?m"
    unfolding es map_map by (intro map_cong refl) (metis comp_apply prod.collapse)
  with m show "sorted_wrt (<) (map ce_gpu_type es)" by (simp add: bt_wf_def)
  have "e \<in> set es \<longleftrightarrow> (\<exists>t. (t, e) \<in> set ?m)" by (force simp: es)
  also have "\<dots> \<longleftrightarrow> (ce_gpu_type e, e) \<in> set ?m" using keyed by blast
  finally have "e \<in> set es \<longleftrightarrow> (ce_gpu_type e, e) \<in> set ?m" .
  with m show "e \<in> set es \<longleftrightarrow>
      entry_of (ce_gpu_type e) now (filter (\<lambda>d. device_visible_to d subject) ds) = Some e"
    by (simp add: bt_wf_unique)
qed

lemma entry_of_Some:
  assumes "entry_of t now ds = Some e"
  shows "type_devices t ds \<noteq> []" and "ce_total e = min (length (type_devices t ds)) u32_max"
    and "ce_available e = min (length (filter (\<lambda>d. gpu_device_available d now) (type_devices t ds))) u32_max"
    and "ce_access e = Open \<longleftrightarrow> (\<exists>d\<in>set (type_devices t ds). gd_visibility (dev_spec d) = Open)"
    and "\<exists>d\<in>set (type_devices t ds). ce_display_name e = model_of d"
  using assms by (auto simp: entry_of_def list_ex_iff split: list.splits if_splits)

section \<open>Properties\<close>

definition sample_meta :: "string \<Rightarrow> object_meta" where
  "sample_meta n =
     \<lparr>meta_name = n, meta_namespace = Some ''flash'', meta_resource_version = Some ''1'',
      meta_deletion_timestamp = None, meta_finalizers = [''flash.heterocloud.io/gpu-reservation''],
      meta_annotations = [], meta_uid = None, meta_generation = None\<rparr>"

definition sample_device :: "string \<Rightarrow> flash_gpu_visibility \<Rightarrow> flash_gpu_device_status \<Rightarrow> flash_gpu_device" where
  "sample_device n v s =
     \<lparr>dev_meta = sample_meta n,
      dev_spec = \<lparr>gd_node_name = ''node'', gd_physical_id = n, gd_gpu_type = ''a100'', gd_model = ''A100'',
        gd_memory_mib = 40960, gd_visibility = v, gd_private_assignments = [''alice'']\<rparr>,
      dev_status = Some s\<rparr>"

definition sample_job :: "string \<Rightarrow> string \<Rightarrow> string \<Rightarrow> i64 \<Rightarrow> flash_gpu_job" where
  "sample_job n org subject queued =
     \<lparr>job_meta = sample_meta n,
      job_spec = \<lparr>gj_service_instance_id = n, gj_service_generation = 1, gj_subject_id = subject,
        gj_organization_id = org, gj_project_id = ''p'', gj_gpu_type = None, gj_count = 1,
        gj_quota_remaining_seconds = 100, gj_queued_at = queued\<rparr>,
      job_status = None\<rparr>"

definition sample_inventory :: "flash_gpu_device list" where
  "sample_inventory =
     [sample_device ''g1'' Open
        \<lparr>gs_health = Healthy, gs_reservation = None, gs_last_allocated_at = Some 50,
         gs_last_organization_id = Some ''acme'', gs_last_subject_id = Some ''alice''\<rparr>,
      sample_device ''g2'' Private \<lparr>gs_health = Healthy, gs_reservation = None, gs_last_allocated_at = None,
         gs_last_organization_id = None, gs_last_subject_id = None\<rparr>]"

lemmas inventory_eval =
  sample_inventory_def sample_device_def sample_job_def sample_meta_def next_schedulable_job_def
  schedulable_def pending_job_def candidate_devices_def usable_by_def device_visible_to_def
  gpu_device_available_def last_allocated_def job_order_key_def principal_def principal_last_served_def
  max_opt_def List.map_filter_def visible_gpu_catalog_def validate_gpu_inventory_models_def
  inconsistent_gpu_types_def catalog_step_def catalog_entry_def u32_saturating_add_def u32_max_def bt_set_def

text \<open>
  C31. The queue serves the job with the least service key: of all pending jobs with a usable
  device, one of the organization that was served least recently, then of its subject served least
  recently, then the longest queued, then the first by name; the earlier step that keeps one job per
  organization and subject never changes the choice. There is no choice only when no pending job has
  a usable device.
\<close>

theorem next_schedulable_job_fair:
  "case next_schedulable_job jobs ds now of
     None \<Rightarrow> list_all (\<lambda>j. \<not> schedulable ds now j) jobs
   | Some j \<Rightarrow>
       j \<in> set jobs \<and> schedulable ds now j \<and>
       list_all (\<lambda>k. service_key ds j \<le> service_key ds k) (filter (schedulable ds now) jobs)"
proof (cases "next_schedulable_job jobs ds now")
  case None
  with next_schedulable_job_None [of jobs ds now] show ?thesis by (simp add: list_all_iff)
next
  case (Some j)
  with next_schedulable_job_min [OF Some] show ?thesis by (simp add: list_all_iff)
qed

text \<open>
  A job gets only a device that it may use: the first candidate is in the inventory, is open or
  assigned to the subject of the job, has the requested type, is healthy and has no live lease, and
  no usable device was allocated less recently. If any device is usable there is a candidate.
\<close>

theorem first_candidate_usable:
  "case candidate_devices ds j now of
     [] \<Rightarrow> list_all (\<lambda>d. \<not> usable_by j now d) ds
   | d # _ \<Rightarrow>
       d \<in> set ds \<and> device_visible_to d (gj_subject_id (job_spec j)) \<and> gpu_device_available d now \<and>
       gj_gpu_type (job_spec j) \<in> {None, Some (gpu_type_of d)} \<and>
       list_all (\<lambda>d'. (last_allocated d, dev_name d) \<le> (last_allocated d', dev_name d'))
         (filter (usable_by j now) ds)"
proof (cases "candidate_devices ds j now")
  case Nil
  then show ?thesis using candidate_devices_set [of ds j now] by (auto simp: list_all_iff)
next
  case (Cons d rest)
  from candidate_devices_head [OF Cons] show ?thesis
    by (auto simp: Cons list_all_iff usable_by_def split: option.splits)
qed

text \<open>
  The catalog of a user is accurate: its types are listed once each in increasing order, an
  entry exists exactly for the types of the devices the user may see, it counts those devices and
  the available ones among them (up to the largest 32-bit number), it is open when one of them is,
  and it shows the model name that all of them have.
\<close>

theorem visible_gpu_catalog_correct:
  assumes "visible_gpu_catalog ds subject now = Inr es"
  shows "sorted_wrt (<) (map ce_gpu_type es) \<and>
    ce_gpu_type ` set es = gpu_type_of ` set (filter (\<lambda>d. device_visible_to d subject) ds) \<and>
    (\<forall>e\<in>set es.
       let vs = type_devices (ce_gpu_type e) (filter (\<lambda>d. device_visible_to d subject) ds)
       in ce_total e = min (length vs) u32_max \<and>
          ce_available e = min (length (filter (\<lambda>d. gpu_device_available d now) vs)) u32_max \<and>
          (ce_access e = Open \<longleftrightarrow> list_ex (\<lambda>d. gd_visibility (dev_spec d) = Open) vs) \<and>
          list_all (\<lambda>d. model_of d = ce_display_name e) vs)"
proof -
  let ?vs = "filter (\<lambda>d. device_visible_to d subject) ds"
  note entries = catalog_entries [OF assms]
  have consistent: "consistent_models ds"
    using assms by (auto simp: visible_gpu_catalog_def result_simps validate_gpu_inventory_models_iff)
  have "ce_gpu_type ` set es = gpu_type_of ` set ?vs"
  proof (intro set_eqI iffI)
    fix t assume "t \<in> ce_gpu_type ` set es"
    then obtain e where "e \<in> set es" "t = ce_gpu_type e" by auto
    then have "type_devices t ?vs \<noteq> []" using entries(2) entry_of_Some(1) by blast
    then show "t \<in> gpu_type_of ` set ?vs" by (auto simp: type_devices_def filter_empty_conv)
  next
    fix t assume "t \<in> gpu_type_of ` set ?vs"
    then have "type_devices t ?vs \<noteq> []" by (auto simp: type_devices_def filter_empty_conv)
    then obtain e where "entry_of t now ?vs = Some e" "ce_gpu_type e = t"
      by (auto simp: entry_of_def neq_Nil_conv)
    then show "t \<in> ce_gpu_type ` set es" using entries(2) [of e] by auto
  qed
  moreover have "list_all (\<lambda>d. model_of d = ce_display_name e) (type_devices (ce_gpu_type e) ?vs)"
    if "e \<in> set es" for e
    using entry_of_Some(5) [OF iffD1 [OF entries(2) that]] consistent_modelsD [OF consistent]
    by (fastforce simp: list_all_iff type_devices_def)
  ultimately show ?thesis
    using entries entry_of_Some(2-4) [OF iffD1 [OF entries(2)]] by (auto simp: Let_def list_ex_iff)
qed

lemma sample_catalog:
  "visible_gpu_catalog sample_inventory ''bob'' 100 =
     Inr [\<lparr>ce_gpu_type = ''a100'', ce_display_name = ''A100'', ce_access = Open, ce_total = 1, ce_available = 1\<rparr>]"
  by (simp add: inventory_eval)

theorem visible_gpu_catalog_correct_witness:
  "type_devices ''a100'' (filter (\<lambda>d. device_visible_to d ''bob'') sample_inventory) =
     [sample_inventory ! 0] \<and> length [sample_inventory ! 0] = 1"
  using visible_gpu_catalog_correct [OF sample_catalog]
  by (simp add: type_devices_def inventory_eval)

text \<open>
  The catalog is refused exactly when two devices of the inventory, visible or not, have the
  same type and different model names, and the error names such a type.
\<close>

theorem visible_gpu_catalog_refused:
  "case visible_gpu_catalog ds subject now of
     Inl (ModelMismatch t) \<Rightarrow>
       \<exists>d\<in>set ds. \<exists>d'\<in>set ds. gpu_type_of d = t \<and> gpu_type_of d' = t \<and> model_of d \<noteq> model_of d'
   | Inr es \<Rightarrow> consistent_models ds"
proof (cases "inconsistent_gpu_types ds")
  case Nil
  then have "validate_gpu_inventory_models ds = Inr ()" by (simp add: validate_gpu_inventory_models_def)
  moreover from this have "consistent_models ds" by (simp only: validate_gpu_inventory_models_iff)
  ultimately show ?thesis by (simp add: visible_gpu_catalog_def)
next
  case (Cons t ts)
  have "t \<in> set (inconsistent_gpu_types ds)" by (simp add: Cons)
  then have "\<exists>d\<in>set ds. \<exists>d'\<in>set ds. gpu_type_of d = t \<and> gpu_type_of d' = t \<and> model_of d \<noteq> model_of d'"
    by (rule iffD1 [OF inconsistent_gpu_types_iff])
  with Cons show ?thesis
    by (simp add: visible_gpu_catalog_def validate_gpu_inventory_models_def)
qed

text \<open>
  The scheduler does not serve the oldest pending job first, although a comment says so: of two
  pending jobs that can use the same device it serves the one of the organization that was never
  served, even when the other one was queued earlier.
\<close>

lemma next_schedulable_job_not_oldest:
  "let old = sample_job ''j1'' ''acme'' ''alice'' 10; new = sample_job ''j2'' ''beta'' ''bob'' 20
   in schedulable sample_inventory 100 old \<and> schedulable sample_inventory 100 new \<and>
      job_order_key old < job_order_key new \<and>
      next_schedulable_job [old, new] sample_inventory 100 = Some new"
  by (simp add: inventory_eval Let_def)

end
