(* ===== verification/Gpu_Scheduler.thy ===== *)
theory Gpu_Scheduler
  imports Gpu_Inventory
begin

text \<open>
  The effectful part of \<open>gpu_scheduler.rs\<close>: leases on devices, their renewal, release and
  reclamation, the health of the inventory and the reconciliation of one job. The API server is the
  argument \<open>api\<close>; the clock reading at the start of a reconciliation is the argument \<open>now\<close>.
\<close>

section \<open>The API the scheduler uses\<close>

text \<open>
  A merge patch of the status of a job. The outer option of \<open>pt_assignment\<close> and \<open>pt_message\<close> says
  whether the field is in the patch, the inner one is its value (\<open>None\<close> is \<open>null\<close>, which removes it).
\<close>

record job_patch =
  pt_phase :: flash_gpu_job_phase
  pt_attempts :: u32
  pt_assignment :: "flash_gpu_assignment option option"
  pt_message :: "string option option"
  pt_updated_at :: i64
  pt_resource_version :: "string option"

record 'w gpu_api =
  api_devices_list :: "('w, kube_error, flash_gpu_device list) effect"
  api_device_get_opt :: "string \<Rightarrow> ('w, kube_error, flash_gpu_device option) effect"
  api_device_get :: "string \<Rightarrow> ('w, kube_error, flash_gpu_device) effect"
  api_device_replace_status :: "string \<Rightarrow> flash_gpu_device \<Rightarrow> ('w, kube_error, flash_gpu_device) effect"
  api_jobs_list :: "('w, kube_error, flash_gpu_job list) effect"
  api_job_patch_status :: "string \<Rightarrow> job_patch \<Rightarrow> ('w, kube_error, unit) effect"
  api_job_patch_finalizers :: "string \<Rightarrow> string list \<Rightarrow> ('w, kube_error, unit) effect"
  api_nodes_list :: "('w, kube_error, node list) effect"
  api_service_get_opt :: "string \<Rightarrow> ('w, kube_error, flash_service option) effect"

definition GPU_JOB_FINALIZER :: string where
  "GPU_JOB_FINALIZER = ''flash.heterocloud.io/gpu-reservation''"
definition GPU_LEASE_SECONDS :: i64 where "GPU_LEASE_SECONDS = 90"
definition GPU_LEASE_RENEW_SECONDS :: i64 where "GPU_LEASE_RENEW_SECONDS = 30"
definition SCHEDULER_REQUEUE_SECONDS :: u64 where "SCHEDULER_REQUEUE_SECONDS = 5"

section \<open>Job status and finalizer\<close>

definition job_status_patch :: "flash_gpu_job \<Rightarrow> flash_gpu_job_status \<Rightarrow> job_patch" where
  "job_status_patch j s =
     (let patch = \<lparr>pt_phase = js_phase s, pt_attempts = js_attempts s,
                   pt_assignment = map_option Some (js_assignment s),
                   pt_message = map_option Some (js_message s),
                   pt_updated_at = js_updated_at s, pt_resource_version = None\<rparr>;
          patch = patch\<lparr>pt_assignment := Some (js_assignment s)\<rparr>;
          patch = patch\<lparr>pt_message := Some (js_message s)\<rparr>
      in case meta_resource_version (job_meta j) of
           Some v \<Rightarrow> patch\<lparr>pt_resource_version := Some v\<rparr>
         | None \<Rightarrow> patch)"

definition patch_job_status ::
  "'w gpu_api \<Rightarrow> flash_gpu_job \<Rightarrow> flash_gpu_job_status \<Rightarrow> ('w, kube_error, unit) effect" where
  "patch_job_status api j s =
     (if job_status j \<noteq> Some s
      then ebind (api_job_patch_status api (job_name j) (job_status_patch j s)) (\<lambda>_. eret ())
      else eret ())"

definition job_attempts :: "u32 \<Rightarrow> (u32 \<Rightarrow> u32) \<Rightarrow> flash_gpu_job \<Rightarrow> u32" where
  "job_attempts d f j = (case job_status j of None \<Rightarrow> d | Some s \<Rightarrow> f (js_attempts s))"

definition patch_queued ::
  "'w gpu_api \<Rightarrow> flash_gpu_job \<Rightarrow> i64 \<Rightarrow> string \<Rightarrow> ('w, kube_error, unit) effect" where
  "patch_queued api j now message =
     patch_job_status api j
       (default_gpu_job_status\<lparr>js_phase := Queued, js_attempts := job_attempts 0 id j,
          js_message := Some message, js_updated_at := now\<rparr>)"

definition ensure_finalizer :: "'w gpu_api \<Rightarrow> flash_gpu_job \<Rightarrow> ('w, kube_error, bool) effect" where
  "ensure_finalizer api j =
     (if \<not> list_ex (\<lambda>v. v = GPU_JOB_FINALIZER) (meta_finalizers (job_meta j))
      then ebind (api_job_patch_finalizers api (job_name j)
                    (meta_finalizers (job_meta j) @ [GPU_JOB_FINALIZER])) (\<lambda>_. eret True)
      else eret False)"

definition remove_finalizer :: "'w gpu_api \<Rightarrow> flash_gpu_job \<Rightarrow> ('w, kube_error, unit) effect" where
  "remove_finalizer api j =
     ebind (api_job_patch_finalizers api (job_name j)
              (filter (\<lambda>v. v \<noteq> GPU_JOB_FINALIZER) (meta_finalizers (job_meta j)))) (\<lambda>_. eret ())"

section \<open>Leases\<close>

definition job_reservation :: "flash_gpu_job \<Rightarrow> i64 \<Rightarrow> flash_gpu_reservation" where
  "job_reservation j now =
     \<lparr>rs_job_namespace = job_namespace j, rs_job_name = job_name j,
      rs_subject_id = gj_subject_id (job_spec j),
      rs_service_instance_id = gj_service_instance_id (job_spec j),
      rs_reserved_at = now, rs_lease_expires_at = i64_saturating_add now GPU_LEASE_SECONDS\<rparr>"

definition reserve_device ::
  "'w gpu_api \<Rightarrow> flash_gpu_device \<Rightarrow> flash_gpu_job \<Rightarrow> i64 \<Rightarrow> ('w, kube_error, flash_gpu_assignment) effect" where
  "reserve_device api d j now =
     (let replacement = d\<lparr>dev_status := Some
            \<lparr>gs_health = (case dev_status d of None \<Rightarrow> Unknown | Some s \<Rightarrow> gs_health s),
             gs_reservation = Some (job_reservation j now),
             gs_last_allocated_at = Some now,
             gs_last_organization_id = Some (gj_organization_id (job_spec j)),
             gs_last_subject_id = Some (gj_subject_id (job_spec j))\<rparr>\<rparr>
      in ebind (api_device_replace_status api (dev_name d) replacement) (\<lambda>_.
         eret \<lparr>ga_inventory_name = dev_name d, ga_node_name = gd_node_name (dev_spec d),
               ga_gpu_type = gd_gpu_type (dev_spec d), ga_model = gd_model (dev_spec d),
               ga_lease_expires_at = i64_saturating_add now GPU_LEASE_SECONDS\<rparr>))"

text \<open>The reservation names the job.\<close>

definition reserved_for :: "flash_gpu_job \<Rightarrow> flash_gpu_reservation \<Rightarrow> bool" where
  "reserved_for j r \<longleftrightarrow> rs_job_namespace r = job_namespace j \<and> rs_job_name r = job_name j"

definition assignment_is_valid ::
  "'w gpu_api \<Rightarrow> flash_gpu_job \<Rightarrow> flash_gpu_assignment \<Rightarrow> i64 \<Rightarrow> ('w, kube_error, bool) effect" where
  "assignment_is_valid api j a now =
     ebind (api_device_get_opt api (ga_inventory_name a)) (\<lambda>found.
     case found of
       None \<Rightarrow> eret False
     | Some d \<Rightarrow>
         eret (device_visible_to d (gj_subject_id (job_spec j)) \<and>
               gd_node_name (dev_spec d) = ga_node_name a \<and>
               (case gj_gpu_type (job_spec j) of None \<Rightarrow> True | Some t \<Rightarrow> t = gd_gpu_type (dev_spec d)) \<and>
               (case dev_status d of
                  None \<Rightarrow> False
                | Some s \<Rightarrow>
                    gs_health s = Healthy \<and>
                    (case gs_reservation s of
                       None \<Rightarrow> False
                     | Some r \<Rightarrow> reserved_for j r \<and> now < rs_lease_expires_at r))))"

definition renew_assignment ::
  "'w gpu_api \<Rightarrow> flash_gpu_job \<Rightarrow> flash_gpu_assignment \<Rightarrow> i64 \<Rightarrow>
   ('w, kube_error, flash_gpu_assignment) effect" where
  "renew_assignment api j a now =
     (if GPU_LEASE_RENEW_SECONDS < i64_saturating_sub (ga_lease_expires_at a) now then eret a
      else ebind (api_device_get api (ga_inventory_name a)) (\<lambda>d. reserve_device api d j now))"

definition release_device_assignment ::
  "'w gpu_api \<Rightarrow> flash_gpu_job \<Rightarrow> flash_gpu_assignment \<Rightarrow> i64 \<Rightarrow> ('w, kube_error, unit) effect" where
  "release_device_assignment api j a now =
     ebind (api_device_get_opt api (ga_inventory_name a)) (\<lambda>found.
     case found of
       None \<Rightarrow> eret ()
     | Some d \<Rightarrow>
         (case Option.bind (dev_status d) gs_reservation of
            None \<Rightarrow> eret ()
          | Some r \<Rightarrow>
              if reserved_for j r
              then let s = (case dev_status d of None \<Rightarrow> default_gpu_device_status | Some s \<Rightarrow> s);
                       s = s\<lparr>gs_reservation := None, gs_last_allocated_at := Some now\<rparr>
                   in ematch (api_device_replace_status api (dev_name d) (d\<lparr>dev_status := Some s\<rparr>)) (\<lambda>r.
                      case r of
                        Inr _ \<Rightarrow> eret ()
                      | Inl e \<Rightarrow> if e = Api_Error 404 then eret () else efail e)
              else eret ()))"

definition release_assignment ::
  "'w gpu_api \<Rightarrow> flash_gpu_job \<Rightarrow> i64 \<Rightarrow> ('w, kube_error, unit) effect" where
  "release_assignment api j now =
     (case Option.bind (job_status j) js_assignment of
        None \<Rightarrow> eret ()
      | Some a \<Rightarrow> release_device_assignment api j a now)"

text \<open>A write whose conflict (409) or missing object (404) is ignored.\<close>

definition replace_status_lenient ::
  "'w gpu_api \<Rightarrow> flash_gpu_device \<Rightarrow> ('w, kube_error, unit) effect" where
  "replace_status_lenient api d =
     ematch (api_device_replace_status api (dev_name d) d) (\<lambda>r.
     case r of
       Inr _ \<Rightarrow> eret ()
     | Inl e \<Rightarrow> if e = Api_Error 409 \<or> e = Api_Error 404 then eret () else efail e)"

definition reclaim_device ::
  "'w gpu_api \<Rightarrow> i64 \<Rightarrow> flash_gpu_device \<Rightarrow> ('w, kube_error, unit) effect" where
  "reclaim_device api now d =
     (if (\<exists>r\<in>set_option (Option.bind (dev_status d) gs_reservation). rs_lease_expires_at r \<le> now)
      then let s = (case dev_status d of None \<Rightarrow> default_gpu_device_status | Some s \<Rightarrow> s)
           in replace_status_lenient api (d\<lparr>dev_status := Some (s\<lparr>gs_reservation := None\<rparr>)\<rparr>)
      else eret ())"

definition reclaim_stale_leases :: "'w gpu_api \<Rightarrow> i64 \<Rightarrow> ('w, kube_error, unit) effect" where
  "reclaim_stale_leases api now = ebind (api_devices_list api) (\<lambda>ds. efor (reclaim_device api now) ds)"

section \<open>Inventory health\<close>

definition node_is_gpu_ready :: "node \<Rightarrow> string \<Rightarrow> u64 \<Rightarrow> bool" where
  "node_is_gpu_ready n gpu_type expected_capacity \<longleftrightarrow>
     (let labeled = (case node_labels n of
                       None \<Rightarrow> False
                     | Some labels \<Rightarrow>
                         bt_get labels GPU_READY_LABEL = Some ''true'' \<and>
                         bt_get labels GPU_TYPE_LABEL = Some gpu_type);
          ready = (case Option.bind (node_status_of n) ns_conditions of
                     None \<Rightarrow> False
                   | Some conditions \<Rightarrow> list_ex (\<lambda>(t, s). t = ''Ready'' \<and> s = ''True'') conditions);
          capacity = Option.bind (Option.bind (Option.bind (node_status_of n) ns_allocatable)
                       (\<lambda>m. bt_get m GPU_RESOURCE_NAME)) (parse_uint u64_max);
          allocatable = (case capacity of None \<Rightarrow> False | Some c \<Rightarrow> expected_capacity \<le> c)
      in labeled \<and> ready \<and> allocatable)"

definition count_inventory :: "flash_gpu_device list \<Rightarrow> (string \<times> string, u64) btree_map" where
  "count_inventory ds =
     fold (\<lambda>d counts.
       let key = (gd_node_name (dev_spec d), gd_gpu_type (dev_spec d))
       in bt_insert key ((case bt_get counts key of None \<Rightarrow> 0 | Some n \<Rightarrow> n) + 1) counts) ds []"

definition desired_health ::
  "(string, node) btree_map \<Rightarrow> string list \<Rightarrow> (string \<times> string, u64) btree_map \<Rightarrow>
   flash_gpu_device \<Rightarrow> flash_gpu_health" where
  "desired_health node_map inconsistent counts d =
     (let expected = (case bt_get counts (gd_node_name (dev_spec d), gd_gpu_type (dev_spec d)) of
                        None \<Rightarrow> 1 | Some n \<Rightarrow> n)
      in case bt_get node_map (gd_node_name (dev_spec d)) of
           None \<Rightarrow> Unhealthy
         | Some n \<Rightarrow>
             if gd_gpu_type (dev_spec d) \<notin> set inconsistent \<and>
                node_is_gpu_ready n (gd_gpu_type (dev_spec d)) expected
             then Healthy else Unhealthy)"

definition refresh_device ::
  "'w gpu_api \<Rightarrow> (flash_gpu_device \<Rightarrow> flash_gpu_health) \<Rightarrow> flash_gpu_device \<Rightarrow> ('w, kube_error, unit) effect" where
  "refresh_device api desired d =
     (if (case dev_status d of None \<Rightarrow> Unknown | Some s \<Rightarrow> gs_health s) \<noteq> desired d
      then let s = (case dev_status d of None \<Rightarrow> default_gpu_device_status | Some s \<Rightarrow> s)
           in replace_status_lenient api (d\<lparr>dev_status := Some (s\<lparr>gs_health := desired d\<rparr>)\<rparr>)
      else eret ())"

definition refresh_inventory_health :: "'w gpu_api \<Rightarrow> ('w, kube_error, unit) effect" where
  "refresh_inventory_health api =
     ebind (api_nodes_list api) (\<lambda>nodes.
     let node_map = fold (\<lambda>n m. bt_insert (node_name_of n) n m) nodes []
     in ebind (api_devices_list api) (\<lambda>inventory.
        efor (refresh_device api
                (desired_health node_map (inconsistent_gpu_types inventory) (count_inventory inventory)))
          inventory))"

section \<open>Reconciliation of a job\<close>

definition service_is_running :: "'w gpu_api \<Rightarrow> flash_gpu_job \<Rightarrow> ('w, kube_error, bool) effect" where
  "service_is_running api j =
     ebind (api_service_get_opt api (job_name j)) (\<lambda>found.
     eret (\<exists>svc\<in>set_option found. \<exists>s\<in>set_option (fsv_status svc).
             st_observed_generation s = gj_service_generation (job_spec j) \<and> 0 < st_ready_replicas s))"

text \<open>The branch of a job that has an assignment.\<close>

definition reconcile_assigned ::
  "'w gpu_api \<Rightarrow> flash_gpu_job \<Rightarrow> flash_gpu_assignment \<Rightarrow> i64 \<Rightarrow> ('w, kube_error, action) effect" where
  "reconcile_assigned api j a now =
     ebind (assignment_is_valid api j a now) (\<lambda>valid.
     if valid
     then ebind (renew_assignment api j a now) (\<lambda>renewed.
          ebind (service_is_running api j) (\<lambda>running.
          let s = (case job_status j of None \<Rightarrow> default_gpu_job_status | Some s \<Rightarrow> s);
              s = s\<lparr>js_phase := (if running then Running else Reserved), js_assignment := Some renewed,
                    js_message := None, js_updated_at := now\<rparr>
          in ebind (patch_job_status api j s) (\<lambda>_.
             eret (Requeue (case u64_try_from_i64 GPU_LEASE_RENEW_SECONDS of None \<Rightarrow> 30 | Some n \<Rightarrow> n)))))
     else ebind (release_assignment api j now) (\<lambda>_.
          ebind (patch_job_status api j
                   (default_gpu_job_status\<lparr>js_phase := Retry,
                      js_attempts := job_attempts 1 (\<lambda>n. u32_saturating_add n 1) j,
                      js_message := Some ''GPU lease was lost; request returned to the queue'',
                      js_updated_at := now\<rparr>)) (\<lambda>_.
          eret (Requeue SCHEDULER_REQUEUE_SECONDS))))"

text \<open>
  Placing a job on a device: reserve it and publish the assignment; a reservation that cannot be
  published is released, and a lost race for the device is not an error.
\<close>

definition place_job ::
  "'w gpu_api \<Rightarrow> flash_gpu_job \<Rightarrow> flash_gpu_device \<Rightarrow> i64 \<Rightarrow> ('w, kube_error, action) effect" where
  "place_job api j d now =
     ematch (reserve_device api d j now) (\<lambda>r.
     case r of
       Inr a \<Rightarrow>
         ematch (patch_job_status api j
                   (default_gpu_job_status\<lparr>js_phase := Reserved,
                      js_attempts := job_attempts 1 (\<lambda>n. u32_saturating_add n 1) j,
                      js_assignment := Some a, js_updated_at := now\<rparr>)) (\<lambda>r.
         case r of
           Inl e \<Rightarrow> ebind (release_device_assignment api j a now) (\<lambda>_. efail e)
         | Inr _ \<Rightarrow> eret (Requeue SCHEDULER_REQUEUE_SECONDS))
     | Inl e \<Rightarrow>
         if e = Api_Error 409 then eret (Requeue SCHEDULER_REQUEUE_SECONDS) else efail e)"

text \<open>The branch of a job that waits for a device.\<close>

definition reconcile_waiting ::
  "'w gpu_api \<Rightarrow> flash_gpu_job \<Rightarrow> i64 \<Rightarrow> ('w, kube_error, action) effect" where
  "reconcile_waiting api j now =
     ebind (api_devices_list api) (\<lambda>inventory.
     ebind (api_jobs_list api) (\<lambda>all_jobs.
     let is_next = (case next_schedulable_job all_jobs inventory now of
                      None \<Rightarrow> False | Some next \<Rightarrow> job_name next = job_name j);
         wait = ebind (patch_queued api j now ''waiting for a visible healthy GPU'') (\<lambda>_.
                eret (Requeue SCHEDULER_REQUEUE_SECONDS))
     in if \<not> is_next then wait
        else case candidate_devices inventory j now of
               [] \<Rightarrow> wait
             | d # _ \<Rightarrow> place_job api j d now))"

definition reconcile_job ::
  "'w gpu_api \<Rightarrow> flash_gpu_job \<Rightarrow> i64 \<Rightarrow> ('w, kube_error, action) effect" where
  "reconcile_job api j now =
     (if meta_deletion_timestamp (job_meta j) \<noteq> None
      then ebind (release_assignment api j now) (\<lambda>_.
           ebind (patch_job_status api j
                    (default_gpu_job_status\<lparr>js_phase := Cancelled, js_attempts := job_attempts 0 id j,
                       js_message := Some ''GPU request cancelled and reservation released'',
                       js_updated_at := now\<rparr>)) (\<lambda>_.
           ebind (remove_finalizer api j) (\<lambda>_. eret Await_Change)))
      else ebind (ensure_finalizer api j) (\<lambda>added.
           if added then eret Await_Change
           else ebind (refresh_inventory_health api) (\<lambda>_.
                ebind (reclaim_stale_leases api now) (\<lambda>_.
                if gj_count (job_spec j) \<noteq> 1
                then ebind (patch_job_status api j
                              (default_gpu_job_status\<lparr>js_phase := Rejected,
                                 js_message := Some ''a Flash VM must request exactly one GPU'',
                                 js_updated_at := now\<rparr>)) (\<lambda>_. eret Await_Change)
                else if gj_quota_remaining_seconds (job_spec j) = 0
                then ebind (release_assignment api j now) (\<lambda>_.
                     ebind (patch_job_status api j
                              (default_gpu_job_status\<lparr>js_phase := Rejected,
                                 js_message := Some ''weekly GPU runtime limit reached'',
                                 js_updated_at := now\<rparr>)) (\<lambda>_.
                     eret (Requeue SCHEDULER_REQUEUE_SECONDS)))
                else case Option.bind (job_status j) js_assignment of
                       Some a \<Rightarrow> reconcile_assigned api j a now
                     | None \<Rightarrow> reconcile_waiting api j now))))"

text \<open>One round of the maintenance loop; errors are logged and the loop goes on.\<close>

definition maintenance_round :: "'w gpu_api \<Rightarrow> i64 \<Rightarrow> ('w, kube_error, unit) effect" where
  "maintenance_round api now =
     ematch (refresh_inventory_health api) (\<lambda>_.
     ematch (reclaim_stale_leases api now) (\<lambda>_. eret ()))"

end
