(* ===== verification/Metering.thy ===== *)
theory Metering
  imports Crd
begin

text \<open>
  The weekly allocation meter of \<open>reconcile.rs\<close>: the projection of the usage of one service, the
  totals of an organization, of a cloud organization and of a member, the durable usage record, and
  the quota decisions. Usage is in 64-bit unsigned counters with saturating arithmetic; times are
  seconds since the epoch.
\<close>

section \<open>Errors of the controller\<close>

text \<open>\<open>ReconcileError\<close>; the errors of the backup module are carried as their text.\<close>

datatype reconcile_error =
    Backup string
  | MissingOwnerReference
  | InvalidServiceId
  | MissingSecretManagerNetwork
  | MissingWorkloadCommand
  | MissingHelperImage
  | MissingImageArchitecture
  | InvalidReplicaCount
  | StorageBudgetOverflow
  | PersistentStorageUnavailable
  | PersistentStorageCannotShrink
  | InsufficientWritableStorage
  | PersistentStorageExceedsBudget
  | InvalidStorageQuantity
  | Kubernetes kube_error
  | Resource string
  | Validation validation_error

section \<open>The week\<close>

definition WEEK_SECONDS :: i64 where "WEEK_SECONDS = 7 * 24 * 60 * 60"
definition FIRST_MONDAY_AFTER_UNIX_EPOCH :: i64 where "FIRST_MONDAY_AFTER_UNIX_EPOCH = 4 * 24 * 60 * 60"

text \<open>\<open>div_euclid\<close> by a positive number is the floor division of HOL.\<close>

definition utc_week_start :: "i64 \<Rightarrow> i64" where
  "utc_week_start timestamp =
     (timestamp - FIRST_MONDAY_AFTER_UNIX_EPOCH) div WEEK_SECONDS * WEEK_SECONDS
       + FIRST_MONDAY_AFTER_UNIX_EPOCH"

section \<open>The meter of a service\<close>

definition filter_opt :: "('a \<Rightarrow> bool) \<Rightarrow> 'a option \<Rightarrow> 'a option" where
  "filter_opt P x = (case x of None \<Rightarrow> None | Some a \<Rightarrow> if P a then Some a else None)"

definition or_else :: "'a option \<Rightarrow> 'a option \<Rightarrow> 'a option" where
  "or_else x y = (case x of None \<Rightarrow> y | Some a \<Rightarrow> Some a)"

definition unwrap_or :: "'a option \<Rightarrow> 'a \<Rightarrow> 'a" where
  "unwrap_or x d = (case x of None \<Rightarrow> d | Some a \<Rightarrow> a)"

definition u64_of_i64 :: "i64 \<Rightarrow> u64" where
  "u64_of_i64 n = unwrap_or (u64_try_from_i64 n) 0"

definition ready_replicas_of :: "flash_service \<Rightarrow> u64" where
  "ready_replicas_of flash =
     (case fsv_status flash of None \<Rightarrow> 0 | Some s \<Rightarrow> u64_of_i64 (max (st_ready_replicas s) 0))"

text \<open>The allocation that is charged per second: recorded in the status, or from the specification.\<close>

definition charged_cpu :: "flash_service \<Rightarrow> u64" where
  "charged_cpu flash =
     unwrap_or (Option.bind (fsv_status flash) st_allocated_cpu_millis)
       (u64_saturating_mul (ready_replicas_of flash) (fs_cpu_millis (svc_workload (fsv_spec flash))))"

definition charged_memory :: "flash_service \<Rightarrow> u64" where
  "charged_memory flash =
     unwrap_or (Option.bind (fsv_status flash) st_allocated_memory_mib)
       (u64_saturating_mul (ready_replicas_of flash) (fs_memory_mib (svc_workload (fsv_spec flash))))"

definition charged_gpu :: "flash_service \<Rightarrow> u64" where
  "charged_gpu flash =
     unwrap_or (Option.bind (fsv_status flash) st_allocated_gpu_count)
       (u64_saturating_mul (ready_replicas_of flash) (effective_gpu_count (svc_workload (fsv_spec flash))))"

definition projected_weekly_usage :: "flash_service \<Rightarrow> i64 \<Rightarrow> flash_weekly_usage" where
  "projected_weekly_usage flash now =
     (let week_started_at = utc_week_start now;
          previous = filter_opt (\<lambda>u. wu_week_started_at u = week_started_at)
                       (Option.bind (fsv_status flash) st_weekly_usage);
          legacy_gpu = filter_opt (\<lambda>u. gw_week_started_at u = week_started_at)
                         (Option.bind (fsv_status flash) st_gpu_weekly_usage);
          last_metered_at =
            min (max (unwrap_or (or_else (map_option wu_last_metered_at previous)
                                         (map_option gw_last_metered_at legacy_gpu)) now)
                     week_started_at) now;
          elapsed = u64_of_i64 (i64_saturating_sub now last_metered_at);
          policy = svc_policy (fsv_spec flash)
      in \<lparr>wu_week_started_at = week_started_at,
          wu_cpu_millicore_seconds =
            u64_saturating_add (unwrap_or (map_option wu_cpu_millicore_seconds previous) 0)
              (u64_saturating_mul elapsed (charged_cpu flash)),
          wu_memory_mib_seconds =
            u64_saturating_add (unwrap_or (map_option wu_memory_mib_seconds previous) 0)
              (u64_saturating_mul elapsed (charged_memory flash)),
          wu_gpu_seconds =
            u64_saturating_add
              (unwrap_or (or_else (map_option wu_gpu_seconds previous) (map_option gw_used_seconds legacy_gpu)) 0)
              (u64_saturating_mul elapsed (charged_gpu flash)),
          wu_last_metered_at = now,
          wu_max_cpu_millicore_seconds = pol_cpu_millicore_seconds policy,
          wu_max_memory_mib_seconds = pol_memory_mib_seconds policy,
          wu_max_gpu_seconds = pol_gpu_seconds policy\<rparr>)"

section \<open>Totals\<close>

record weekly_totals =
  organization_cpu :: u64
  organization_memory :: u64
  organization_gpu :: u64
  cloud_organization_cpu :: u64
  cloud_organization_memory :: u64
  cloud_organization_gpu :: u64
  member_cpu :: u64
  member_memory :: u64
  member_gpu :: u64

definition default_weekly_totals :: weekly_totals where
  "default_weekly_totals =
     \<lparr>organization_cpu = 0, organization_memory = 0, organization_gpu = 0,
      cloud_organization_cpu = 0, cloud_organization_memory = 0, cloud_organization_gpu = 0,
      member_cpu = 0, member_memory = 0, member_gpu = 0\<rparr>"

definition add_organization :: "flash_weekly_usage \<Rightarrow> weekly_totals \<Rightarrow> weekly_totals" where
  "add_organization u t =
     t\<lparr>organization_cpu := u64_saturating_add (organization_cpu t) (wu_cpu_millicore_seconds u),
       organization_memory := u64_saturating_add (organization_memory t) (wu_memory_mib_seconds u),
       organization_gpu := u64_saturating_add (organization_gpu t) (wu_gpu_seconds u)\<rparr>"

definition add_cloud :: "flash_weekly_usage \<Rightarrow> weekly_totals \<Rightarrow> weekly_totals" where
  "add_cloud u t =
     t\<lparr>cloud_organization_cpu := u64_saturating_add (cloud_organization_cpu t) (wu_cpu_millicore_seconds u),
       cloud_organization_memory := u64_saturating_add (cloud_organization_memory t) (wu_memory_mib_seconds u),
       cloud_organization_gpu := u64_saturating_add (cloud_organization_gpu t) (wu_gpu_seconds u)\<rparr>"

definition add_member :: "flash_weekly_usage \<Rightarrow> weekly_totals \<Rightarrow> weekly_totals" where
  "add_member u t =
     t\<lparr>member_cpu := u64_saturating_add (member_cpu t) (wu_cpu_millicore_seconds u),
       member_memory := u64_saturating_add (member_memory t) (wu_memory_mib_seconds u),
       member_gpu := u64_saturating_add (member_gpu t) (wu_gpu_seconds u)\<rparr>"

definition account_match :: "flash_service \<Rightarrow> string \<Rightarrow> bool" where
  "account_match flash org \<longleftrightarrow> org = svc_organization_id (fsv_spec flash)"

definition cloud_match :: "flash_service \<Rightarrow> string \<Rightarrow> bool" where
  "cloud_match flash org =
     (case pol_cloud_organization (svc_policy (fsv_spec flash)) of
        None \<Rightarrow> False | Some cloud \<Rightarrow> org \<in> set (bt_set (cl_account_ids cloud)))"

definition service_owners :: "flash_service list \<Rightarrow> (string, string option) btree_map" where
  "service_owners peers =
     fold (\<lambda>p m. bt_insert (svc_service_instance_id (fsv_spec p)) (svc_quota_user_id (fsv_spec p)) m) peers []"

text \<open>The member a usage record belongs to: named in the record, or the owner of its service.\<close>

definition record_owner :: "(string, string option) btree_map \<Rightarrow> flash_usage_record_spec \<Rightarrow> string option" where
  "record_owner owners r =
     or_else (ur_quota_user_id r) (case bt_get owners (ur_service_instance_id r) of None \<Rightarrow> None | Some o' \<Rightarrow> o')"

definition member_record ::
  "flash_service \<Rightarrow> (string, string option) btree_map \<Rightarrow> flash_usage_record_spec \<Rightarrow> bool" where
  "member_record flash owners r =
     (case svc_quota_user_id (fsv_spec flash) of None \<Rightarrow> False | Some user \<Rightarrow> record_owner owners r = Some user)"

definition record_step ::
  "flash_service \<Rightarrow> i64 \<Rightarrow> (string, string option) btree_map \<Rightarrow> flash_usage_record \<Rightarrow>
   weekly_totals \<times> string list \<Rightarrow> weekly_totals \<times> string list" where
  "record_step flash week owners rec st =
     (let r = ur_spec rec; (t, recorded) = st
      in if wu_week_started_at (ur_usage r) \<noteq> week then st
         else if \<not> account_match flash (ur_organization_id r) \<and> \<not> cloud_match flash (ur_organization_id r) then st
         else let recorded = ur_service_instance_id r # recorded;
                  t = (if cloud_match flash (ur_organization_id r) then add_cloud (ur_usage r) t else t)
              in if \<not> account_match flash (ur_organization_id r) then (t, recorded)
                 else let t = add_organization (ur_usage r) t
                      in ((if member_record flash owners r then add_member (ur_usage r) t else t), recorded))"

definition member_peer :: "flash_service \<Rightarrow> flash_service \<Rightarrow> bool" where
  "member_peer flash peer \<longleftrightarrow>
     svc_quota_user_id (fsv_spec flash) \<noteq> None \<and>
     svc_quota_user_id (fsv_spec peer) = svc_quota_user_id (fsv_spec flash)"

definition peer_step ::
  "flash_service \<Rightarrow> i64 \<Rightarrow> string list \<Rightarrow> flash_service \<Rightarrow> weekly_totals \<Rightarrow> weekly_totals" where
  "peer_step flash now recorded peer t =
     (let org = svc_organization_id (fsv_spec peer)
      in if svc_service_instance_id (fsv_spec peer) \<in> set recorded then t
         else if \<not> account_match flash org \<and> \<not> cloud_match flash org then t
         else let usage = projected_weekly_usage peer now;
                  t = (if cloud_match flash org then add_cloud usage t else t)
              in if \<not> account_match flash org then t
                 else let t = add_organization usage t
                      in if member_peer flash peer then add_member usage t else t)"

definition weekly_totals_of ::
  "flash_service \<Rightarrow> i64 \<Rightarrow> i64 \<Rightarrow> flash_service list \<Rightarrow> flash_usage_record list \<Rightarrow> weekly_totals" where
  "weekly_totals_of flash now week peers records =
     (let (t, recorded) = fold (record_step flash week (service_owners peers)) records (default_weekly_totals, [])
      in fold (peer_step flash now recorded) peers t)"

section \<open>Metering and quotas\<close>

record weekly_meter =
  wm_usage :: flash_weekly_usage
  wm_gpu_usage :: "flash_gpu_weekly_usage option"
  wm_cpu_exhausted :: bool
  wm_memory_exhausted :: bool
  wm_gpu_exhausted :: bool
  wm_gpu_remaining_seconds :: u64

record 'w meter_api =
  api_services_list :: "('w, kube_error, flash_service list) effect"
  api_record_get_opt :: "string \<Rightarrow> ('w, kube_error, flash_usage_record option) effect"
  api_record_apply :: "string \<Rightarrow> flash_usage_record_spec \<Rightarrow> ('w, kube_error, unit) effect"
  api_records_list :: "('w, kube_error, flash_usage_record list) effect"

text \<open>An error of the client becomes an error of the controller.\<close>

definition ekube :: "('w, kube_error, 'a) effect \<Rightarrow> ('w, reconcile_error, 'a) effect" where
  "ekube m = ematch m (\<lambda>r. case r of Inl e \<Rightarrow> efail (Kubernetes e) | Inr x \<Rightarrow> eret x)"

text \<open>The counters never fall below those of the durable record of the same week.\<close>

definition raise_to_record :: "flash_usage_record_spec \<Rightarrow> flash_weekly_usage \<Rightarrow> flash_weekly_usage" where
  "raise_to_record r usage =
     (if wu_week_started_at (ur_usage r) = wu_week_started_at usage
      then usage\<lparr>wu_cpu_millicore_seconds :=
                   max (wu_cpu_millicore_seconds usage) (wu_cpu_millicore_seconds (ur_usage r)),
                 wu_memory_mib_seconds :=
                   max (wu_memory_mib_seconds usage) (wu_memory_mib_seconds (ur_usage r)),
                 wu_gpu_seconds := max (wu_gpu_seconds usage) (wu_gpu_seconds (ur_usage r))\<rparr>
      else usage)"

definition usage_record_of :: "flash_service \<Rightarrow> flash_weekly_usage \<Rightarrow> flash_usage_record_spec" where
  "usage_record_of flash usage =
     (let s = fsv_spec flash
      in \<lparr>ur_service_instance_id = svc_service_instance_id s, ur_organization_id = svc_organization_id s,
          ur_project_id = svc_project_id s, ur_quota_user_id = svc_quota_user_id s,
          ur_display_name = svc_display_name s, ur_cpu_millis = fs_cpu_millis (svc_workload s),
          ur_memory_mib = fs_memory_mib (svc_workload s),
          ur_gpu_count = effective_gpu_count (svc_workload s), ur_usage = usage\<rparr>)"

text \<open>The decision from the totals.\<close>

definition weekly_meter_of :: "flash_service \<Rightarrow> i64 \<Rightarrow> flash_weekly_usage \<Rightarrow> weekly_totals \<Rightarrow> weekly_meter" where
  "weekly_meter_of flash now usage totals =
     (let policy = svc_policy (fsv_spec flash);
          gpu_limit = pol_gpu_seconds policy;
          gpus = effective_gpu_count (svc_workload (fsv_spec flash));
          member = pol_member policy;
          cloud = pol_cloud_organization policy;
          member_gpu_remaining =
            (case member of None \<Rightarrow> u64_max | Some l \<Rightarrow> u64_saturating_sub (ml_gpu_seconds l) (member_gpu totals))
      in \<lparr>wm_usage = usage,
          wm_gpu_usage =
            (if 0 < gpus
             then Some \<lparr>gw_week_started_at = wu_week_started_at usage, gw_used_seconds = wu_gpu_seconds usage,
                        gw_last_metered_at = now, gw_limit_seconds = gpu_limit\<rparr>
             else None),
          wm_cpu_exhausted =
            (pol_cpu_millicore_seconds policy \<le> organization_cpu totals \<or>
             (\<exists>l\<in>set_option cloud. cl_cpu_millicore_seconds l \<le> cloud_organization_cpu totals) \<or>
             (\<exists>l\<in>set_option member. ml_cpu_millicore_seconds l \<le> member_cpu totals)),
          wm_memory_exhausted =
            (pol_memory_mib_seconds policy \<le> organization_memory totals \<or>
             (\<exists>l\<in>set_option cloud. cl_memory_mib_seconds l \<le> cloud_organization_memory totals) \<or>
             (\<exists>l\<in>set_option member. ml_memory_mib_seconds l \<le> member_memory totals)),
          wm_gpu_exhausted =
            ((0 < gpus \<or>
              0 < unwrap_or (Option.bind (fsv_status flash) st_allocated_gpu_count) 0) \<and>
             (gpu_limit \<le> organization_gpu totals \<or>
              (\<exists>l\<in>set_option cloud. cl_gpu_seconds l \<le> cloud_organization_gpu totals) \<or>
              (\<exists>l\<in>set_option member. ml_gpu_seconds l \<le> member_gpu totals))),
          wm_gpu_remaining_seconds =
            min (min (u64_saturating_sub gpu_limit (organization_gpu totals))
                     (case cloud of
                        None \<Rightarrow> u64_max
                      | Some l \<Rightarrow> u64_saturating_sub (cl_gpu_seconds l) (cloud_organization_gpu totals)))
                member_gpu_remaining\<rparr>)"

definition meter_weekly_usage ::
  "'w meter_api \<Rightarrow> flash_service \<Rightarrow> i64 \<Rightarrow> ('w, reconcile_error, weekly_meter) effect" where
  "meter_weekly_usage api flash now =
     (let usage = projected_weekly_usage flash now; name = meta_name (fsv_meta flash)
      in ebind (ekube (api_record_get_opt api name)) (\<lambda>found.
         ebind (case found of
                  None \<Rightarrow> eret usage
                | Some rec \<Rightarrow>
                    if ur_service_instance_id (ur_spec rec) \<noteq> svc_service_instance_id (fsv_spec flash) \<or>
                       ur_organization_id (ur_spec rec) \<noteq> svc_organization_id (fsv_spec flash)
                    then efail (Resource ''usage record identity does not match FlashService'')
                    else eret (raise_to_record (ur_spec rec) usage)) (\<lambda>usage.
         let usage = usage\<lparr>wu_last_metered_at := now\<rparr>
         in ebind (ekube (api_record_apply api name (usage_record_of flash usage))) (\<lambda>_.
            ebind (ekube (api_services_list api)) (\<lambda>peers.
            ebind (ekube (api_records_list api)) (\<lambda>records.
            eret (weekly_meter_of flash now usage
                    (weekly_totals_of flash now (wu_week_started_at usage) peers records))))))))"

definition apply_weekly_meter :: "weekly_meter \<Rightarrow> flash_service_status \<Rightarrow> flash_service_status" where
  "apply_weekly_meter m s =
     s\<lparr>st_weekly_usage := Some (wm_usage m), st_cpu_quota_exhausted := wm_cpu_exhausted m,
       st_memory_quota_exhausted := wm_memory_exhausted m, st_gpu_weekly_usage := wm_gpu_usage m,
       st_gpu_quota_exhausted := wm_gpu_exhausted m\<rparr>"

fun join :: "string \<Rightarrow> string list \<Rightarrow> string" where
  "join sep [] = []"
| "join sep [s] = s"
| "join sep (s # t # ss) = s @ sep @ join sep (t # ss)"

definition exhausted_quota_message :: "weekly_meter \<Rightarrow> string option" where
  "exhausted_quota_message m =
     (let resources = (if wm_cpu_exhausted m then [''CPU''] else []) @
                      (if wm_memory_exhausted m then [''memory''] else []) @
                      (if wm_gpu_exhausted m then [''GPU''] else [])
      in if resources = [] then None
         else Some (''weekly '' @ join '', '' resources @
                    '' runtime limit reached; service resumes at the next UTC week or after the owner raises the limit''))"

end
