(* ===== verification/Storage.thy ===== *)
theory Storage
  imports Metering
begin

text \<open>
  The disk of a service: the size of its image (\<open>image.rs\<close>), the split of the writable rest into
  container filesystem and persistent home, quantities of Kubernetes, and the persistent volume
  claim (\<open>reconcile.rs\<close>).
\<close>

section \<open>image.rs\<close>

definition GIB_BYTES :: u64 where "GIB_BYTES = 1024 * 1024 * 1024"

text \<open>What the client reports of a descriptor and of a manifest.\<close>

record oci_descriptor =
  oci_digest :: string
  oci_size :: i64

record oci_image_manifest =
  oci_config :: oci_descriptor
  oci_layers :: "oci_descriptor list"

datatype image_inspection_error =
    InvalidReference string string
  | Registry string string bool
  | NoLinuxManifest string
  | NestedImageIndex string
  | InvalidDescriptorSize string i64
  | InvalidImageConfig
  | UnsupportedPlatform
  | ImageSizeOverflow
  | DiskLimitExceeded u64 u64

definition add_descriptor :: "oci_descriptor \<Rightarrow> u64 \<Rightarrow> image_inspection_error + u64" where
  "add_descriptor d acc =
     bindR (ok_or (u64_try_from_i64 (oci_size d)) (InvalidDescriptorSize (oci_digest d) (oci_size d))) (\<lambda>size.
     ok_or (u64_checked_add acc size) ImageSizeOverflow)"

definition manifest_size_bytes :: "oci_image_manifest \<Rightarrow> image_inspection_error + u64" where
  "manifest_size_bytes manifest = try_fold add_descriptor (oci_config manifest # oci_layers manifest) 0"

definition writable_storage_bytes :: "u64 \<Rightarrow> u64 \<Rightarrow> image_inspection_error + u64" where
  "writable_storage_bytes image_size disk_budget =
     (if disk_budget \<le> image_size then Inl (DiskLimitExceeded image_size disk_budget)
      else Inr (disk_budget - image_size))"

definition allows_verified_cache :: "image_inspection_error \<Rightarrow> bool" where
  "allows_verified_cache e = (case e of Registry _ _ allow \<Rightarrow> allow | _ \<Rightarrow> False)"

definition retryable :: "image_inspection_error \<Rightarrow> bool" where
  "retryable e = (case e of Registry _ _ _ \<Rightarrow> True | _ \<Rightarrow> False)"

section \<open>The split of the disk\<close>

definition MIB_BYTES :: u64 where "MIB_BYTES = 1024 * 1024"
definition MIN_PERSISTENT_STORAGE_BYTES :: u64 where "MIN_PERSISTENT_STORAGE_BYTES = 64 * MIB_BYTES"
definition MIN_ROOTFS_STORAGE_BYTES :: u64 where "MIN_ROOTFS_STORAGE_BYTES = 64 * MIB_BYTES"
definition MAX_ROOTFS_STORAGE_BYTES :: u64 where "MAX_ROOTFS_STORAGE_BYTES = GIB_BYTES"

record storage_allocation =
  rootfs_bytes :: u64
  persistent_bytes :: u64

definition requested_bytes :: "u32 option \<Rightarrow> reconcile_error + u64 option" where
  "requested_bytes gib =
     (case gib of
        None \<Rightarrow> Inr None
      | Some g \<Rightarrow> bindR (ok_or (u64_checked_mul g GIB_BYTES) StorageBudgetOverflow) (\<lambda>b. Inr (Some b)))"

definition clamp :: "nat \<Rightarrow> nat \<Rightarrow> nat \<Rightarrow> nat" where
  "clamp x lo hi = (if x < lo then lo else if hi < x then hi else x)"

text \<open>The size of the container filesystem when none is requested, and the final check.\<close>

definition default_rootfs_bytes :: "u64 \<Rightarrow> u64 option \<Rightarrow> u64" where
  "default_rootfs_bytes writable requested_persistent =
     min (clamp (writable div 10) MIN_ROOTFS_STORAGE_BYTES MAX_ROOTFS_STORAGE_BYTES)
       (u64_saturating_sub writable (unwrap_or requested_persistent MIN_PERSISTENT_STORAGE_BYTES))"

definition check_split :: "u64 \<Rightarrow> u64 \<Rightarrow> u64 \<Rightarrow> reconcile_error + storage_allocation" where
  "check_split writable rootfs home =
     (if rootfs < MIN_ROOTFS_STORAGE_BYTES \<or> home < MIN_PERSISTENT_STORAGE_BYTES \<or>
         (case u64_checked_add rootfs home of None \<Rightarrow> True | Some b \<Rightarrow> writable < b)
      then Inl InsufficientWritableStorage
      else Inr \<lparr>rootfs_bytes = rootfs, persistent_bytes = home\<rparr>)"

definition storage_allocation_of ::
  "u64 \<Rightarrow> bool \<Rightarrow> u32 option \<Rightarrow> u32 option \<Rightarrow> reconcile_error + storage_allocation" where
  "storage_allocation_of writable persistent requested_rootfs_gib requested_persistent_gib =
     bindR (requested_bytes requested_rootfs_gib) (\<lambda>requested_rootfs.
     bindR (requested_bytes requested_persistent_gib) (\<lambda>requested_persistent.
     if \<not> persistent
     then if requested_persistent \<noteq> None then Inl PersistentStorageUnavailable
          else let rootfs = unwrap_or requested_rootfs writable
               in if writable < rootfs then Inl InsufficientWritableStorage
                  else Inr \<lparr>rootfs_bytes = rootfs, persistent_bytes = 0\<rparr>
     else bindR (ok_or (u64_checked_add MIN_ROOTFS_STORAGE_BYTES MIN_PERSISTENT_STORAGE_BYTES)
                   StorageBudgetOverflow) (\<lambda>minimum.
          if writable < minimum then Inl InsufficientWritableStorage
          else let rootfs = unwrap_or requested_rootfs (default_rootfs_bytes writable requested_persistent);
                   home = unwrap_or requested_persistent (u64_saturating_sub writable rootfs)
               in check_split writable rootfs home)))"

definition storage_allocation_retaining ::
  "u64 \<Rightarrow> bool \<Rightarrow> u32 option \<Rightarrow> u32 option \<Rightarrow> u64 \<Rightarrow> reconcile_error + storage_allocation" where
  "storage_allocation_retaining writable persistent requested_rootfs_gib requested_persistent_gib existing =
     bindR (storage_allocation_of writable persistent requested_rootfs_gib requested_persistent_gib) (\<lambda>a.
     let a = (if persistent \<and> requested_persistent_gib = None \<and> existing < persistent_bytes a
              then a\<lparr>persistent_bytes := max (persistent_bytes a div MIB_BYTES * MIB_BYTES) existing\<rparr> else a)
     in if persistent \<and> persistent_bytes a < existing
        then if requested_persistent_gib \<noteq> None then Inl PersistentStorageCannotShrink
             else let available = u64_checked_sub writable existing
                  in if requested_rootfs_gib \<noteq> None \<or>
                        (case available of None \<Rightarrow> True | Some b \<Rightarrow> b < MIN_ROOTFS_STORAGE_BYTES)
                     then Inl PersistentStorageExceedsBudget
                     else Inr (a\<lparr>persistent_bytes := existing, rootfs_bytes := writable - existing\<rparr>)
        else Inr a)"

section \<open>Quantities\<close>

definition binary_suffix :: "string \<Rightarrow> nat option" where
  "binary_suffix s =
     (if s = ''Ki'' then Some 1 else if s = ''Mi'' then Some 2 else if s = ''Gi'' then Some 3
      else if s = ''Ti'' then Some 4 else if s = ''Pi'' then Some 5 else if s = ''Ei'' then Some 6
      else None)"

definition decimal_suffix :: "string \<Rightarrow> i32 option" where
  "decimal_suffix s =
     (if s = ''n'' then Some (- 9) else if s = ''u'' then Some (- 6) else if s = ''m'' then Some (- 3)
      else if s = [] then Some 0 else if s = ''k'' then Some 3 else if s = ''M'' then Some 6
      else if s = ''G'' then Some 9 else if s = ''T'' then Some 12 else if s = ''P'' then Some 15
      else if s = ''E'' then Some 18
      else if first_is (\<lambda>c. c = CHR ''e'' \<or> c = CHR ''E'') s then parse_sint i32_min i32_max (tl s)
      else None)"

definition storage_quantity_bytes :: "string \<Rightarrow> reconcile_error + u64" where
  "storage_quantity_bytes text =
     (let v = (case strip_prefix ''+'' text of None \<Rightarrow> text | Some t \<Rightarrow> t);
          in_number = (\<lambda>c. is_ascii_digit c \<or> c = CHR ''.'');
          number = takeWhile in_number v;
          suffix = dropWhile in_number v;
          (whole, fraction) = (case split_once CHR ''.'' number of None \<Rightarrow> (number, []) | Some p \<Rightarrow> p)
      in bindR (ensure (\<not> (whole = [] \<and> fraction = [] \<or> \<not> list_all is_ascii_digit (whole @ fraction)))
                  InvalidStorageQuantity) (\<lambda>_.
         bindR (ok_or (parse_uint u128_max (whole @ fraction)) InvalidStorageQuantity) (\<lambda>mantissa.
         bindR (ok_or (if length fraction \<le> u32_max then Some (length fraction) else None)
                  InvalidStorageQuantity) (\<lambda>digits.
         bindR (ok_or (u128_checked_pow 10 digits) InvalidStorageQuantity) (\<lambda>denominator.
         bindR (case binary_suffix suffix of
                  Some k \<Rightarrow>
                    bindR (ok_or (u128_checked_mul mantissa (1024 ^ k)) InvalidStorageQuantity) (\<lambda>n.
                    Inr (n, 0))
                | None \<Rightarrow>
                    bindR (ok_or (decimal_suffix suffix) InvalidStorageQuantity) (\<lambda>e. Inr (mantissa, e)))
           (\<lambda>(numerator, exponent).
         bindR (ok_or (u128_checked_pow 10 (nat \<bar>exponent\<bar>)) InvalidStorageQuantity) (\<lambda>scale.
         bindR (if exponent < 0
                then bindR (ok_or (u128_checked_mul denominator scale) InvalidStorageQuantity) (\<lambda>d.
                     Inr (numerator, d))
                else bindR (ok_or (u128_checked_mul numerator scale) InvalidStorageQuantity) (\<lambda>n.
                     Inr (n, denominator)))
           (\<lambda>(numerator, denominator).
         let bytes = div_ceil numerator denominator
         in if nat i64_max < bytes then Inl InvalidStorageQuantity
            else if bytes \<le> u64_max then Inr bytes else Inl InvalidStorageQuantity))))))))"

section \<open>The persistent volume claim\<close>

record persistent_volume_claim =
  pvc_requests :: "(string, string) btree_map option"
  pvc_capacity :: "(string, string) btree_map option"
  pvc_conditions :: "(string \<times> string) list option"

definition claim_storage :: "persistent_volume_claim \<Rightarrow> reconcile_error + (u64 \<times> u64)" where
  "claim_storage claim =
     bindR (ok_or (Option.bind (pvc_requests claim) (\<lambda>m. bt_get m ''storage'')) InvalidStorageQuantity) (\<lambda>requested.
     bindR (case Option.bind (pvc_capacity claim) (\<lambda>m. bt_get m ''storage'') of
              None \<Rightarrow> Inr 0
            | Some q \<Rightarrow> storage_quantity_bytes q) (\<lambda>capacity.
     bindR (storage_quantity_bytes requested) (\<lambda>r. Inr (r, capacity))))"

definition claim_needs_storage_update :: "(u64 \<times> u64) option \<Rightarrow> u64 \<Rightarrow> bool" where
  "claim_needs_storage_update existing desired =
     (case existing of None \<Rightarrow> True | Some (requested, capacity) \<Rightarrow> max requested capacity < desired)"

definition persistent_resize_pending ::
  "persistent_volume_claim option \<Rightarrow> (u64 \<times> u64) option \<Rightarrow> u64 \<Rightarrow> bool" where
  "persistent_resize_pending claim existing desired \<longleftrightarrow>
     (case existing of None \<Rightarrow> True | Some (_, capacity) \<Rightarrow> capacity < desired) \<or>
     (case Option.bind claim pvc_conditions of
        None \<Rightarrow> False
      | Some conditions \<Rightarrow>
          list_ex (\<lambda>(t, s). s = ''True'' \<and> t \<in> {''Resizing'', ''FileSystemResizePending''}) conditions)"

end
