(* ===== verification/Service_Objects.thy ===== *)
theory Service_Objects
  imports Storage
begin

text \<open>
  The Kubernetes objects the controller derives from a service (\<open>reconcile.rs\<close>, \<open>web.rs\<close>): labels,
  the public host name, the \<open>Service\<close>, the route of a web endpoint, the autoscaler, the persistent
  volume claim, and the endpoints that are reported back. An object that the sources build from a
  JSON literal is a record of the fields of the literal; the conversion of such a literal into the
  typed object cannot fail.

  The functions of the \<open>uuid\<close> crate are the fields of \<open>uuid_ops\<close>.
\<close>

record uuid_ops =
  uuid_parse :: "string \<Rightarrow> uuid option"
  uuid_show :: "uuid \<Rightarrow> string"
  uuid_simple :: "uuid \<Rightarrow> string"

record owner_reference =
  owner_kind :: string
  owner_name :: string
  owner_uid :: string

definition FIELD_MANAGER :: string where "FIELD_MANAGER = ''heterocloud-flash-controller''"
definition DNS_HOSTNAME :: string where "DNS_HOSTNAME = ''external-dns.alpha.kubernetes.io/hostname''"
definition DNS_PUBLISH_LABEL :: string where "DNS_PUBLISH_LABEL = ''dns.heterocloud.io/publish''"
definition LOAD_BALANCER_CLASS :: string where "LOAD_BALANCER_CLASS = ''heteronetwork.io/public''"
definition TRAFFIC_MODE_ANNOTATION :: string where
  "TRAFFIC_MODE_ANNOTATION = ''networking.heteronetwork.io/traffic-mode''"
definition INSTANCE_LABEL :: string where "INSTANCE_LABEL = ''flash.heterocloud.io/instance''"
definition ORGANIZATION_LABEL :: string where "ORGANIZATION_LABEL = ''flash.heterocloud.io/organization''"

abbreviation flash_name :: "flash_service \<Rightarrow> string" where
  "flash_name flash \<equiv> meta_name (fsv_meta flash)"

abbreviation workload :: "flash_service \<Rightarrow> flash_spec" where
  "workload flash \<equiv> svc_workload (fsv_spec flash)"

section \<open>Labels and names\<close>

definition base_labels :: "uuid_ops \<Rightarrow> flash_service \<Rightarrow> (string, string) btree_map" where
  "base_labels uuids flash =
     (let labels = fold (\<lambda>(k, v). bt_insert k v)
            [(''app.kubernetes.io/name'', ''heterocloud-flash''),
             (''app.kubernetes.io/managed-by'', FIELD_MANAGER),
             (INSTANCE_LABEL, svc_service_instance_id (fsv_spec flash)),
             (ORGANIZATION_LABEL, svc_organization_id (fsv_spec flash))] []
      in case fs_network (workload flash) of
           None \<Rightarrow> labels
         | Some network \<Rightarrow> bt_insert ''vpc.heterocloud.io/network'' (uuid_show uuids (att_vpc_id network)) labels)"

definition valid_dns_label_of :: "string \<Rightarrow> bool" where
  "valid_dns_label_of label \<longleftrightarrow>
     label \<noteq> [] \<and> length label \<le> 63 \<and> first_is is_ascii_alphanumeric label \<and>
     last_is is_ascii_alphanumeric label \<and>
     list_all (\<lambda>c. is_ascii_lowercase c \<or> is_ascii_digit c \<or> c = CHR ''-'') label"

definition valid_dns_subdomain :: "string \<Rightarrow> nat \<Rightarrow> bool" where
  "valid_dns_subdomain v maximum \<longleftrightarrow>
     v \<noteq> [] \<and> length v \<le> maximum \<and> list_all valid_dns_label_of (split_on CHR ''.'' v)"

definition validate_public_domain :: "string \<Rightarrow> reconcile_error + unit" where
  "validate_public_domain domain =
     ensure (\<not> (\<not> valid_dns_subdomain domain 214 \<or> parse_ip_addr domain \<noteq> None))
       (Resource ''publicDomain must be a lowercase DNS suffix, without scheme, port, wildcard or trailing dot (maximum 214 characters)'')"

definition public_hostname ::
  "uuid_ops \<Rightarrow> flash_service \<Rightarrow> string option \<Rightarrow> reconcile_error + string option" where
  "public_hostname uuids flash domain =
     (if ex_endpoint_mode (fs_exposure (workload flash)) = Ip then Inr None
      else bindR (ok_or domain (Resource ''domain endpoints require provider publicDomain'')) (\<lambda>domain.
           bindR (validate_public_domain domain) (\<lambda>_.
           bindR (ok_or (uuid_parse uuids (svc_service_instance_id (fsv_spec flash)))
                    (Resource ''invalid service instance UUID'')) (\<lambda>uuid.
           Inr (Some (''f-'' @ uuid_show uuids uuid @ ''.'' @ domain))))))"

section \<open>Volumes that the operator mounts\<close>

definition PERSISTENT_HOME_VOLUME :: string where "PERSISTENT_HOME_VOLUME = ''persistent-home''"
definition MAX_ADMIN_VOLUME_MOUNTS_PER_SERVICE :: nat where "MAX_ADMIN_VOLUME_MOUNTS_PER_SERVICE = 8"

record admin_volume_mount =
  avm_name :: string
  avm_claim_name :: string
  avm_mount_path :: string
  avm_read_only :: bool

definition valid_admin_mount_path :: "string \<Rightarrow> bool" where
  "valid_admin_mount_path v \<longleftrightarrow>
     (prefix ''/root/'' v \<or> prefix ''/mnt/'' v) \<and> length v \<le> 4096 \<and> \<not> contains_str ''//'' v \<and>
     list_all (\<lambda>component. component \<noteq> [] \<and> component \<noteq> ''.'' \<and> component \<noteq> ''..'') (drop 1 (split_on CHR ''/'' v))"

fun validate_service_mounts ::
  "string \<Rightarrow> admin_volume_mount list \<Rightarrow> string list \<Rightarrow> string list \<Rightarrow> string + unit" where
  "validate_service_mounts sid [] names paths = Inr ()"
| "validate_service_mounts sid (m # ms) names paths =
     bindR (ensure (\<not> (avm_name m = PERSISTENT_HOME_VOLUME \<or> \<not> valid_dns_subdomain (avm_name m) 63))
              (''invalid admin volume name for service '' @ sid)) (\<lambda>_.
     bindR (ensure (valid_dns_subdomain (avm_claim_name m) 253)
              (''invalid admin volume claim for service '' @ sid)) (\<lambda>_.
     bindR (ensure (valid_admin_mount_path (avm_mount_path m))
              (''invalid admin volume path for service '' @ sid)) (\<lambda>_.
     bindR (ensure (avm_name m \<notin> set names \<and> avm_mount_path m \<notin> set paths)
              (''duplicate admin volume name or path for service '' @ sid)) (\<lambda>_.
     validate_service_mounts sid ms (avm_name m # names) (avm_mount_path m # paths)))))"

definition validate_admin_volume_mounts ::
  "uuid_ops \<Rightarrow> (string, admin_volume_mount list) btree_map \<Rightarrow> string + unit" where
  "validate_admin_volume_mounts uuids mounts =
     bindR (ensure (length mounts \<le> 256) ''admin volume mounts must target at most 256 services'') (\<lambda>_.
     for_each (\<lambda>(sid, service_mounts).
       bindR (ensure (uuid_parse uuids sid \<noteq> None) (''invalid admin volume service ID '' @ sid)) (\<lambda>_.
       bindR (ensure (\<not> (service_mounts = [] \<or> MAX_ADMIN_VOLUME_MOUNTS_PER_SERVICE < length service_mounts))
                (''admin volume service '' @ sid @ '' must contain between one and '' @
                 show_nat MAX_ADMIN_VOLUME_MOUNTS_PER_SERVICE @ '' mounts'')) (\<lambda>_.
       validate_service_mounts sid service_mounts [] []))) mounts)"

section \<open>The Service\<close>

record service_port =
  sp_name :: string
  sp_port :: u16
  sp_protocol :: string
  sp_target_port :: u16

record kube_service =
  ks_name :: string
  ks_labels :: "(string, string) btree_map"
  ks_annotations :: "(string, string) btree_map"
  ks_owner :: owner_reference
  ks_type :: string
  ks_selector :: "(string, string) btree_map"
  ks_ports :: "service_port list"
  ks_allocate_node_ports :: "bool option"
  ks_load_balancer_class :: "string option"
  ks_external_traffic_policy :: "string option"
  ks_source_ranges :: "string list option"

definition as_annotation :: "traffic_mode \<Rightarrow> string" where
  "as_annotation mode = (case mode of Forwarded \<Rightarrow> ''forwarded'' | Direct \<Rightarrow> ''direct'')"

text \<open>A public endpoint that is not served through the web gateway has a load balancer of its own.\<close>

definition has_load_balancer :: "flash_exposure \<Rightarrow> bool" where
  "has_load_balancer x \<longleftrightarrow> ex_kind x = Public \<and> ex_endpoint_mode x \<noteq> Web"

definition source_ranges ::
  "('n::linorder) ipnet_ops \<Rightarrow> flash_exposure \<Rightarrow> reconcile_error + string list option" where
  "source_ranges ops x =
     (if has_load_balancer x \<and> has_source_policy x
      then bindR (map_err Validation (effective_source_networks ops x)) (\<lambda>networks.
           let ranges = map (net_show ops) networks
           in Inr (Some (if ranges = [] then [''0.0.0.0/32'', ''::/128''] else ranges)))
      else Inr None)"

definition desired_service_with_hostname ::
  "('n::linorder) ipnet_ops \<Rightarrow> uuid_ops \<Rightarrow> flash_service \<Rightarrow> owner_reference \<Rightarrow> string option \<Rightarrow>
   reconcile_error + kube_service option" where
  "desired_service_with_hostname ops uuids flash owner hostname =
     (let w = workload flash; x = fs_exposure w
      in if fs_ports w = [] then Inr None
         else
         bindR (if ex_endpoint_mode x = LoadBalancer
                then bindR (ok_or hostname (Resource ''load_balancer requires provider publicDomain'')) (\<lambda>hostname.
                     Inr (fold (\<lambda>(k, v). bt_insert k v)
                            [(DNS_HOSTNAME, hostname), (''external-dns.alpha.kubernetes.io/ttl'', ''60''),
                             (''external-dns.alpha.kubernetes.io/cloudflare-proxied'', ''false'')] [],
                          bt_insert DNS_PUBLISH_LABEL ''true'' (base_labels uuids flash)))
                else Inr ([], base_labels uuids flash)) (\<lambda>(annotations, labels).
         bindR (source_ranges ops x) (\<lambda>ranges.
         Inr (Some
           \<lparr>ks_name = flash_name flash, ks_labels = labels,
            ks_annotations =
              (if has_load_balancer x
               then bt_insert TRAFFIC_MODE_ANNOTATION (as_annotation (ex_traffic_mode x)) annotations
               else annotations),
            ks_owner = owner,
            ks_type = (if has_load_balancer x then ''LoadBalancer'' else ''ClusterIP''),
            ks_selector = [(INSTANCE_LABEL, svc_service_instance_id (fsv_spec flash))],
            ks_ports = map (\<lambda>p. \<lparr>sp_name = port_name p, sp_port = port_service p,
                                sp_protocol = as_kubernetes (port_protocol p),
                                sp_target_port = port_container p\<rparr>) (fs_ports w),
            ks_allocate_node_ports = (if has_load_balancer x then Some False else None),
            ks_load_balancer_class = (if has_load_balancer x then Some LOAD_BALANCER_CLASS else None),
            ks_external_traffic_policy =
              (if has_load_balancer x
               then Some (case ex_traffic_mode x of Forwarded \<Rightarrow> ''Cluster'' | Direct \<Rightarrow> ''Local'') else None),
            ks_source_ranges = ranges\<rparr>))))"

text \<open>What the endpoints read of a \<open>Service\<close> of the cluster: its address and its load balancer.\<close>

record observed_service =
  os_cluster_ip :: "string option"
  os_load_balancer_ingress :: "(string option \<times> string option) list option"

definition endpoints_on :: "string \<Rightarrow> flash_port list \<Rightarrow> flash_endpoint list" where
  "endpoints_on host ports =
     map (\<lambda>p. \<lparr>ep_name = port_name p, ep_protocol = port_protocol p, ep_host = host, ep_port = port_service p\<rparr>) ports"

definition has_cluster_ip :: "observed_service \<Rightarrow> bool" where
  "has_cluster_ip s = (case os_cluster_ip s of None \<Rightarrow> False | Some ip \<Rightarrow> ip \<noteq> [] \<and> ip \<noteq> ''None'')"

definition service_hosts :: "flash_service \<Rightarrow> observed_service \<Rightarrow> string list" where
  "service_hosts flash s =
     (case ex_kind (fs_exposure (workload flash)) of
        Internal \<Rightarrow>
          if has_cluster_ip s
          then [flash_name flash @ ''.'' @ unwrap_or (meta_namespace (fsv_meta flash)) ''default'' @
                ''.svc.cluster.local'']
          else []
      | Public \<Rightarrow>
          (case os_load_balancer_ingress s of
             None \<Rightarrow> []
           | Some entries \<Rightarrow> List.map_filter (\<lambda>(ip, hostname). or_else ip hostname) entries))"

definition service_endpoints ::
  "flash_service \<Rightarrow> observed_service \<Rightarrow> string option \<Rightarrow> flash_endpoint list" where
  "service_endpoints flash s hostname =
     (let x = fs_exposure (workload flash); hosts = service_hosts flash s
      in if ex_endpoint_mode x = Web then []
         else let hosts = (if ex_endpoint_mode x = LoadBalancer
                           then if hosts = [] then [] else (case hostname of None \<Rightarrow> [] | Some h \<Rightarrow> [h])
                           else hosts)
              in concat (map (\<lambda>host. endpoints_on host (fs_ports (workload flash))) hosts))"

definition private_endpoints :: "flash_service \<Rightarrow> flash_endpoint list" where
  "private_endpoints flash =
     (if fs_network (workload flash) = None then []
      else case bt_get (meta_annotations (fsv_meta flash)) ''vpc.heterocloud.io/private-dns'' of
             None \<Rightarrow> []
           | Some host \<Rightarrow>
               map (\<lambda>p. \<lparr>ep_name = port_name p, ep_protocol = port_protocol p, ep_host = host,
                         ep_port = port_container p\<rparr>) (fs_ports (workload flash)))"

section \<open>The persistent volume claim and the autoscaler\<close>

definition backup_name :: "uuid_ops \<Rightarrow> uuid \<Rightarrow> string" where
  "backup_name uuids uuid = ''flash-backup-'' @ uuid_simple uuids uuid"

record desired_claim = persistent_volume_claim +
  dc_name :: string
  dc_labels :: "(string, string) btree_map"
  dc_owner :: owner_reference
  dc_access_modes :: "string list"
  dc_storage_class :: string
  dc_volume_mode :: string
  dc_data_source :: "string option"

text \<open>The data source is a \<open>VolumeSnapshot\<close> of \<open>snapshot.storage.k8s.io\<close> with the given name.\<close>

definition desired_persistent_volume_claim ::
  "uuid_ops \<Rightarrow> flash_service \<Rightarrow> owner_reference \<Rightarrow> string \<Rightarrow> u64 \<Rightarrow> desired_claim" where
  "desired_persistent_volume_claim uuids flash owner storage_class storage_bytes =
     \<lparr>pvc_requests = Some [(''storage'', show_nat storage_bytes)], pvc_capacity = None, pvc_conditions = None,
      dc_name = flash_name flash @ ''-home'', dc_labels = base_labels uuids flash, dc_owner = owner,
      dc_access_modes = [''ReadWriteMany''], dc_storage_class = storage_class, dc_volume_mode = ''Filesystem'',
      dc_data_source = map_option (backup_name uuids) (fs_restore_from_backup_id (workload flash))\<rparr>"

record autoscaler =
  hpa_name :: string
  hpa_labels :: "(string, string) btree_map"
  hpa_owner :: owner_reference
  hpa_target :: string
  hpa_min_replicas :: u32
  hpa_max_replicas :: u32
  hpa_metrics :: "(string \<times> u32) list"
  hpa_scale_down_window :: nat

definition desired_autoscaler ::
  "uuid_ops \<Rightarrow> flash_service \<Rightarrow> owner_reference \<Rightarrow> bool \<Rightarrow> autoscaler option" where
  "desired_autoscaler uuids flash owner suspended =
     (if suspended then None
      else map_option (\<lambda>scaling.
        \<lparr>hpa_name = flash_name flash, hpa_labels = base_labels uuids flash, hpa_owner = owner,
         hpa_target = flash_name flash, hpa_min_replicas = max (as_min_replicas scaling) 1,
         hpa_max_replicas = as_max_replicas scaling,
         hpa_metrics =
           List.map_filter (\<lambda>(name, target). map_option (Pair name) target)
             [(''cpu'', as_target_cpu scaling), (''memory'', as_target_memory scaling)],
         hpa_scale_down_window = 300\<rparr>) (fs_autoscaling (workload flash)))"

section \<open>The route of a web endpoint\<close>

definition GATEWAY_NAME :: string where "GATEWAY_NAME = ''heterocloud-edge''"
definition GATEWAY_NAMESPACE :: string where "GATEWAY_NAMESPACE = ''heterocloud-edge''"
definition GATEWAY_SECTION :: string where "GATEWAY_SECTION = ''http''"
definition PROXY_NAMESPACE :: string where "PROXY_NAMESPACE = ''envoy-gateway-system''"
definition GATEWAY_CONTROLLER :: string where
  "GATEWAY_CONTROLLER = ''gateway.envoyproxy.io/gatewayclass-controller''"

record parent_reference =
  pr_name :: string
  pr_namespace :: "string option"
  pr_section_name :: "string option"
  pr_group :: "string option"
  pr_kind :: "string option"

record backend_reference =
  br_group :: string
  br_kind :: string
  br_name :: string
  br_namespace :: "string option"
  br_port :: "u16 option"

record route_condition =
  rc_type :: string
  rc_status :: string
  rc_observed_generation :: "int option"

record route_parent_status =
  rp_parent_ref :: parent_reference
  rp_controller_name :: string
  rp_conditions :: "route_condition list"

record http_route =
  hr_name :: string
  hr_labels :: "(string, string) btree_map"
  hr_owner :: "owner_reference option"
  hr_generation :: "int option"
  hr_deletion_timestamp :: "int option"
  hr_parent_refs :: "parent_reference list"
  hr_hostnames :: "string list"
  hr_backend_refs :: "backend_reference list"
  hr_set_headers :: "(string \<times> string) list"
  hr_status :: "route_parent_status list option"

definition is_scale_to_zero :: "flash_service \<Rightarrow> bool" where
  "is_scale_to_zero flash =
     (case fs_autoscaling (workload flash) of None \<Rightarrow> False | Some s \<Rightarrow> as_min_replicas s = 0)"

text \<open>A validated web service has exactly one port, so the first one exists.\<close>

definition desired_http_route ::
  "('n::linorder) ipnet_ops \<Rightarrow> (string \<Rightarrow> parsed_url option) \<Rightarrow> uuid_ops \<Rightarrow> flash_service \<Rightarrow> owner_reference \<Rightarrow>
   string option \<Rightarrow> string \<Rightarrow> string \<Rightarrow> u16 \<Rightarrow> reconcile_error + http_route option" where
  "desired_http_route ops url_parse uuids flash owner hostname activator_namespace activator_service activator_port =
     (if ex_endpoint_mode (fs_exposure (workload flash)) \<noteq> Web then Inr None
      else bindR (map_err Validation (validate_flash_spec ops url_parse (workload flash))) (\<lambda>_.
           bindR (ok_or hostname (Resource ''web requires provider publicDomain'')) (\<lambda>hostname.
           Inr (Some
             \<lparr>hr_name = flash_name flash, hr_labels = base_labels uuids flash, hr_owner = Some owner,
              hr_generation = None, hr_deletion_timestamp = None,
              hr_parent_refs =
                [\<lparr>pr_name = GATEWAY_NAME, pr_namespace = Some GATEWAY_NAMESPACE,
                  pr_section_name = Some GATEWAY_SECTION, pr_group = Some ''gateway.networking.k8s.io'',
                  pr_kind = Some ''Gateway''\<rparr>],
              hr_hostnames = [hostname],
              hr_backend_refs =
                [if is_scale_to_zero flash
                 then \<lparr>br_group = [], br_kind = ''Service'', br_name = activator_service,
                       br_namespace = Some activator_namespace, br_port = Some activator_port\<rparr>
                 else \<lparr>br_group = [], br_kind = ''Service'', br_name = flash_name flash, br_namespace = None,
                       br_port = Some (port_service (hd (fs_ports (workload flash))))\<rparr>],
              hr_set_headers = [(''X-Forwarded-Proto'', ''https''), (''X-Forwarded-Port'', ''443'')],
              hr_status = None\<rparr>))))"

definition parent_is_ready :: "int \<Rightarrow> route_parent_status \<Rightarrow> bool" where
  "parent_is_ready generation parent \<longleftrightarrow>
     (let reference = rp_parent_ref parent
      in rp_controller_name parent = GATEWAY_CONTROLLER \<and> pr_name reference = GATEWAY_NAME \<and>
         pr_namespace reference = Some GATEWAY_NAMESPACE \<and> pr_section_name reference = Some GATEWAY_SECTION \<and>
         unwrap_or (pr_group reference) ''gateway.networking.k8s.io'' = ''gateway.networking.k8s.io'' \<and>
         unwrap_or (pr_kind reference) ''Gateway'' = ''Gateway'' \<and>
         list_all (\<lambda>kind. list_ex (\<lambda>c. rc_type c = kind \<and> rc_status c = ''True'' \<and>
                                      rc_observed_generation c = Some generation) (rp_conditions parent))
           [''Accepted'', ''ResolvedRefs''])"

definition route_is_ready :: "http_route \<Rightarrow> bool" where
  "route_is_ready route =
     (case hr_generation route of
        None \<Rightarrow> False
      | Some generation \<Rightarrow>
          hr_deletion_timestamp route = None \<and>
          (case hr_status route of None \<Rightarrow> False | Some parents \<Rightarrow> list_ex (parent_is_ready generation) parents))"

definition web_endpoints ::
  "flash_service \<Rightarrow> observed_service \<Rightarrow> http_route option \<Rightarrow> string option \<Rightarrow> flash_endpoint list" where
  "web_endpoints flash s route hostname =
     (if \<not> (case route of None \<Rightarrow> False | Some r \<Rightarrow> route_is_ready r) \<or> \<not> has_cluster_ip s then []
      else case hostname of
             None \<Rightarrow> []
           | Some host \<Rightarrow>
               map (\<lambda>p. \<lparr>ep_name = port_name p, ep_protocol = Tcp, ep_host = host, ep_port = 443\<rparr>)
                 (fs_ports (workload flash)))"

end
