(* ===== verification/Provider_Auth.thy ===== *)
theory Provider_Auth
  imports Metering
begin

text \<open>
  \<open>auth.rs\<close>: the authentication of a command of the provider. Three libraries are parameters, the
  fields of \<open>auth_lib\<close>: \<open>serde_json\<close> for the key file, the PEM reader and the \<open>jsonwebtoken\<close> crate,
  and the view of a header value as text. \<open>decode\<close> takes the clock, which the crate reads itself,
  and the validation the code configures; what the code relies on of it is the predicate
  \<open>decode_validates\<close> of the lemmas.
\<close>

definition MAX_TOKEN_TTL_SECONDS :: i64 where "MAX_TOKEN_TTL_SECONDS = 60"
definition NOT_BEFORE_OFFSET_SECONDS :: i64 where "NOT_BEFORE_OFFSET_SECONDS = 5"

datatype auth_error = MissingCredentials | InvalidCredentials | InvalidCommand | InvalidConfiguration

record provider_claims =
  tk_issuer :: string
  tk_audience :: string
  tk_subject :: uuid
  tk_user_id :: "uuid option"
  tk_organization_id :: uuid
  tk_project_id :: uuid
  tk_service_instance_id :: uuid
  tk_action :: string
  tk_generation :: i64
  tk_jwt_id :: uuid
  tk_issued_at :: i64
  tk_not_before :: i64
  tk_expires_at :: i64

text \<open>The algorithms of the \<open>jsonwebtoken\<close> crate, as far as the code tells them apart.\<close>

datatype jwt_algorithm = EdDSA | Other_Algorithm string

record jwt_header =
  jwt_alg :: jwt_algorithm
  jwt_kid :: "string option"

record jwt_validation =
  val_algorithm :: jwt_algorithm
  val_issuer :: "string list"
  val_audience :: "string list"
  val_required :: "string list"
  val_leeway :: u64

record 'k auth_lib =
  lib_string_map :: "string \<Rightarrow> (string, string) btree_map option"
  lib_ed_pem :: "string \<Rightarrow> 'k option"
  lib_header_str :: "string \<Rightarrow> string option"
  lib_decode_header :: "string \<Rightarrow> jwt_header option"
  lib_decode :: "i64 \<Rightarrow> string \<Rightarrow> 'k \<Rightarrow> jwt_validation \<Rightarrow> provider_claims option"

record 'k provider_authenticator =
  au_issuer :: string
  au_audience :: string
  au_keys :: "(string, 'k) btree_map"
  au_clock_skew_seconds :: u64

definition valid_key_id :: "string \<Rightarrow> bool" where
  "valid_key_id v \<longleftrightarrow>
     v \<noteq> [] \<and> length v \<le> 128 \<and>
     list_all (\<lambda>c. is_ascii_alphanumeric c \<or> c = CHR ''-'' \<or> c = CHR ''_'' \<or> c = CHR ''.'') v"

definition add_key ::
  "'k auth_lib \<Rightarrow> string \<times> string \<Rightarrow> (string, 'k) btree_map \<Rightarrow> auth_error + (string, 'k) btree_map" where
  "add_key lib = (\<lambda>(key_id, pem) keys.
     bindR (ensure (valid_key_id key_id) InvalidConfiguration) (\<lambda>_.
     bindR (ok_or (lib_ed_pem lib pem) InvalidConfiguration) (\<lambda>key.
     Inr (bt_insert key_id key keys))))"

definition from_public_keys_json ::
  "'k auth_lib \<Rightarrow> string \<Rightarrow> string \<Rightarrow> string \<Rightarrow> auth_error + 'k provider_authenticator" where
  "from_public_keys_json lib issuer audience public_keys_json =
     bindR (ensure (\<not> (issuer = [] \<or> audience = [])) InvalidConfiguration) (\<lambda>_.
     bindR (ok_or (lib_string_map lib public_keys_json) InvalidConfiguration) (\<lambda>encoded.
     bindR (ensure (encoded \<noteq> []) InvalidConfiguration) (\<lambda>_.
     bindR (try_fold (add_key lib) encoded []) (\<lambda>keys.
     Inr \<lparr>au_issuer = issuer, au_audience = audience, au_keys = keys, au_clock_skew_seconds = 5\<rparr>))))"

definition validation_of :: "'k provider_authenticator \<Rightarrow> jwt_validation" where
  "validation_of au =
     \<lparr>val_algorithm = EdDSA, val_issuer = [au_issuer au], val_audience = [au_audience au],
      val_required = [''exp'', ''iat'', ''nbf'', ''iss'', ''aud'', ''sub'', ''jti''],
      val_leeway = au_clock_skew_seconds au\<rparr>"

text \<open>The checks of \<open>verify\<close> on decoded claims.\<close>

definition check_claims :: "u64 \<Rightarrow> i64 \<Rightarrow> string \<Rightarrow> provider_claims \<Rightarrow> auth_error + provider_claims" where
  "check_claims clock_skew_seconds now expected_action claims =
     bindR (ensure (\<not> (tk_action claims \<noteq> expected_action \<or> tk_generation claims \<le> 0)) InvalidCommand) (\<lambda>_.
     bindR (ensure (\<not> (tk_expires_at claims \<le> tk_issued_at claims \<or>
                        MAX_TOKEN_TTL_SECONDS < i64_saturating_sub (tk_expires_at claims) (tk_issued_at claims) \<or>
                        i64_checked_sub (tk_issued_at claims) NOT_BEFORE_OFFSET_SECONDS \<noteq>
                          Some (tk_not_before claims)))
              InvalidCredentials) (\<lambda>_.
     bindR (ok_or (if int clock_skew_seconds \<le> i64_max then Some (int clock_skew_seconds) else None)
              InvalidConfiguration) (\<lambda>skew.
     bindR (ensure (\<not> i64_saturating_add now skew < tk_issued_at claims) InvalidCredentials) (\<lambda>_.
     Inr claims))))"

definition verify ::
  "'k auth_lib \<Rightarrow> 'k provider_authenticator \<Rightarrow> i64 \<Rightarrow> string \<Rightarrow> string \<Rightarrow> auth_error + provider_claims" where
  "verify lib au now token expected_action =
     bindR (ok_or (lib_decode_header lib token) InvalidCredentials) (\<lambda>header.
     bindR (ensure (jwt_alg header = EdDSA) InvalidCredentials) (\<lambda>_.
     bindR (ok_or (jwt_kid header) InvalidCredentials) (\<lambda>key_id.
     bindR (ok_or (bt_get (au_keys au) key_id) InvalidCredentials) (\<lambda>key.
     bindR (ok_or (lib_decode lib now token key (validation_of au)) InvalidCredentials) (\<lambda>claims.
     check_claims (au_clock_skew_seconds au) now expected_action claims)))))"

text \<open>\<open>authorization\<close> is the first value of the authorization header.\<close>

definition authenticate ::
  "'k auth_lib \<Rightarrow> 'k provider_authenticator \<Rightarrow> i64 \<Rightarrow> string option \<Rightarrow> string \<Rightarrow>
   auth_error + provider_claims" where
  "authenticate lib au now authorization expected_action =
     bindR (ok_or authorization MissingCredentials) (\<lambda>raw.
     bindR (ok_or (lib_header_str lib raw) InvalidCredentials) (\<lambda>v.
     bindR (ok_or (filter_opt (\<lambda>t. t \<noteq> []) (strip_prefix ''Bearer '' v)) InvalidCredentials) (\<lambda>token.
     verify lib au now token expected_action)))"

section \<open>What an accepted token guarantees\<close>

text \<open>
  The documented behaviour of \<open>decode\<close> that the code relies on: claims are only returned for the
  configured issuer and audience, and not later than the leeway after the expiry.
\<close>

definition decode_validates :: "'k auth_lib \<Rightarrow> bool" where
  "decode_validates lib \<longleftrightarrow>
     (\<forall>now token key v claims.
        lib_decode lib now token key v = Some claims \<longrightarrow>
        tk_issuer claims \<in> set (val_issuer v) \<and> tk_audience claims \<in> set (val_audience v) \<and>
        now - int (val_leeway v) \<le> tk_expires_at claims)"

lemma check_claims_Inr:
  assumes "check_claims skew now action claims = Inr c"
  shows "c = claims \<and> tk_action c = action \<and> 0 < tk_generation c \<and>
    tk_issued_at c < tk_expires_at c \<and>
    i64_saturating_sub (tk_expires_at c) (tk_issued_at c) \<le> MAX_TOKEN_TTL_SECONDS \<and>
    i64_checked_sub (tk_issued_at c) NOT_BEFORE_OFFSET_SECONDS = Some (tk_not_before c) \<and>
    tk_issued_at c \<le> i64_saturating_add now (int skew)"
  using assms
  by (auto simp: check_claims_def ensure_def ok_or_def split: if_splits)

lemma saturating_sub_le:
  assumes "0 \<le> d" and "d < i64_max" and "i64_saturating_sub a b \<le> d" and "b < a"
  shows "a - b \<le> d"
  using assms by (auto simp: i64_saturating_sub_def i64_max_def i64_min_def split: if_splits)

lemma saturating_add_ge:
  assumes "c \<le> i64_saturating_add a b" and "0 \<le> b" and "i64_min \<le> a"
  shows "c \<le> a + b"
  using assms by (auto simp: i64_saturating_add_def i64_max_def i64_min_def split: if_splits)

lemma try_fold_add_key:
  assumes "try_fold (add_key lib) encoded keys = Inr out" and "\<forall>k. bt_contains keys k \<longrightarrow> valid_key_id k"
    and "bt_wf keys"
  shows "(\<forall>k. bt_contains out k \<longrightarrow> valid_key_id k) \<and> bt_wf out"
  using assms
proof (induction encoded arbitrary: keys)
  case (Cons p encoded)
  obtain k where k: "add_key lib p keys = Inr k" and rest: "try_fold (add_key lib) encoded k = Inr out"
    using Cons.prems(1) by (cases "add_key lib p keys") auto
  have "(\<forall>x. bt_contains k x \<longrightarrow> valid_key_id x) \<and> bt_wf k"
    using k Cons.prems(2,3) by (auto simp: add_key_def ensure_def ok_or_def bt_insert_wf
      split: if_splits option.splits prod.splits)
  then show ?case using Cons.IH rest by blast
qed simp

lemma verify_Inr:
  assumes "verify lib au now token action = Inr c"
  obtains header key_id key where "lib_decode_header lib token = Some header" and "jwt_alg header = EdDSA"
    and "jwt_kid header = Some key_id" and "bt_get (au_keys au) key_id = Some key"
    and "lib_decode lib now token key (validation_of au) = Some c"
    and "check_claims (au_clock_skew_seconds au) now action c = Inr c"
  using assms
  by (auto simp: verify_def ensure_def ok_or_def split: if_splits option.splits
      dest: check_claims_Inr [THEN conjunct1])

text \<open>
  C29. A token that \<open>verify\<close> accepts names the expected action and a positive generation, was issued by the
  configured issuer for the configured audience and verified with one of the configured keys, which
  all have well-formed names. It lives at most 60 seconds, its validity starts 5 seconds before its
  issue, and it is accepted only from 5 seconds before its issue to 65 seconds after it. Hypotheses:
  the documented validation of \<open>decode\<close>, and a clock in the range of a timestamp.
\<close>

theorem verify_window:
  assumes "from_public_keys_json lib issuer audience keys_json = Inr au"
    and "decode_validates lib" and "i64_min \<le> now"
    and "verify lib au now token action = Inr c"
  shows "tk_action c = action \<and> 0 < tk_generation c \<and> tk_issuer c = issuer \<and> tk_audience c = audience \<and>
    (\<exists>header key_id key. lib_decode_header lib token = Some header \<and> jwt_alg header = EdDSA \<and>
       jwt_kid header = Some key_id \<and> valid_key_id key_id \<and> bt_get (au_keys au) key_id = Some key \<and>
       lib_decode lib now token key (validation_of au) = Some c) \<and>
    tk_not_before c = tk_issued_at c - 5 \<and>
    tk_issued_at c < tk_expires_at c \<and> tk_expires_at c \<le> tk_issued_at c + 60 \<and>
    tk_issued_at c - 5 \<le> now \<and> now \<le> tk_issued_at c + 65"
proof -
  obtain header key_id key where header: "lib_decode_header lib token = Some header" "jwt_alg header = EdDSA"
      "jwt_kid header = Some key_id" and key: "bt_get (au_keys au) key_id = Some key"
    and decoded: "lib_decode lib now token key (validation_of au) = Some c"
    and checked: "check_claims (au_clock_skew_seconds au) now action c = Inr c"
    using assms(4) by (rule verify_Inr)
  obtain encoded keys where au: "au = \<lparr>au_issuer = issuer, au_audience = audience, au_keys = keys,
      au_clock_skew_seconds = 5\<rparr>" and keys: "try_fold (add_key lib) encoded [] = Inr keys"
    using assms(1) by (auto simp: from_public_keys_json_def result_simps)
  have valid: "valid_key_id key_id"
    using try_fold_add_key [OF keys] key au by (auto simp: bt_contains_def bt_wf_def)
  have "tk_issuer c \<in> set (val_issuer (validation_of au)) \<and>
      tk_audience c \<in> set (val_audience (validation_of au)) \<and>
      now - int (val_leeway (validation_of au)) \<le> tk_expires_at c"
    using assms(2) decoded unfolding decode_validates_def by blast
  then have lib: "tk_issuer c = issuer" "tk_audience c = audience" "now - 5 \<le> tk_expires_at c"
    by (simp_all add: au validation_of_def)
  note checks = check_claims_Inr [OF checked]
  have ttl: "tk_expires_at c - tk_issued_at c \<le> 60"
    using checks saturating_sub_le [of 60 "tk_expires_at c" "tk_issued_at c"]
    by (simp add: MAX_TOKEN_TTL_SECONDS_def i64_max_def)
  have issued: "tk_issued_at c \<le> now + 5"
    using checks au assms(3) saturating_add_ge [of "tk_issued_at c" now 5] by simp
  have nbf: "tk_not_before c = tk_issued_at c - 5"
    using checks by (auto simp: i64_checked_sub_def NOT_BEFORE_OFFSET_SECONDS_def split: if_splits)
  show ?thesis
    using checks header key decoded valid lib ttl issued nbf by auto
qed

section \<open>A library for witnesses\<close>

definition sample_claims :: provider_claims where
  "sample_claims =
     \<lparr>tk_issuer = ''heterocloud'', tk_audience = ''flash'', tk_subject = 4, tk_user_id = None,
      tk_organization_id = 1, tk_project_id = 2, tk_service_instance_id = 3, tk_action = ''services.get'',
      tk_generation = 1, tk_jwt_id = 5, tk_issued_at = 1000, tk_not_before = 995, tk_expires_at = 1060\<rparr>"

text \<open>One key and one token; \<open>decode\<close> validates it the way the crate documents.\<close>

definition sample_auth_lib :: "unit auth_lib" where
  "sample_auth_lib =
     \<lparr>lib_string_map = (\<lambda>_. Some [(''k1'', ''pem'')]), lib_ed_pem = (\<lambda>_. Some ()), lib_header_str = Some,
      lib_decode_header = (\<lambda>_. Some \<lparr>jwt_alg = EdDSA, jwt_kid = Some ''k1''\<rparr>),
      lib_decode = (\<lambda>now token key v.
        if token = ''token'' \<and> tk_issuer sample_claims \<in> set (val_issuer v) \<and>
           tk_audience sample_claims \<in> set (val_audience v) \<and>
           now - int (val_leeway v) \<le> tk_expires_at sample_claims
        then Some sample_claims else None)\<rparr>"

definition sample_authenticator :: "unit provider_authenticator" where
  "sample_authenticator =
     \<lparr>au_issuer = ''heterocloud'', au_audience = ''flash'', au_keys = [(''k1'', ())],
      au_clock_skew_seconds = 5\<rparr>"

lemma sample_authenticator_made:
  "from_public_keys_json sample_auth_lib ''heterocloud'' ''flash'' ''{}'' = Inr sample_authenticator"
  by code_simp

lemma sample_decode_validates: "decode_validates sample_auth_lib"
  by (auto simp: decode_validates_def sample_auth_lib_def split: if_splits)

lemma sample_token_verified:
  "verify sample_auth_lib sample_authenticator 1010 ''token'' ''services.get'' = Inr sample_claims"
  by (simp add: verify_def sample_auth_lib_def sample_authenticator_def check_claims_def validation_of_def
      sample_claims_def ensure_def ok_or_def i64_saturating_sub_def i64_saturating_add_def i64_checked_sub_def
      i64_max_def i64_min_def MAX_TOKEN_TTL_SECONDS_def NOT_BEFORE_OFFSET_SECONDS_def)

theorem verify_window_witness:
  "verify sample_auth_lib sample_authenticator 1010 ''token'' ''services.get'' = Inr sample_claims \<and>
   tk_issued_at sample_claims - 5 \<le> 1010 \<and> 1010 \<le> tk_issued_at sample_claims + 65"
  using verify_window [OF sample_authenticator_made sample_decode_validates _ sample_token_verified]
    sample_token_verified by (simp add: i64_min_def)

end
