(* ===== verification/Json_Objects.thy ===== *)
theory Json_Objects
  imports Service_Objects Provider_Auth
begin

text \<open>
  What the sources use of \<open>serde_json::Value\<close> and of dynamically typed Kubernetes objects, and of the
  text form of addresses in the standard library.
\<close>

section \<open>JSON values\<close>

text \<open>\<open>value[key]\<close> of a shared value: a missing key, or a value that is no object, gives null.\<close>

definition jget :: "json \<Rightarrow> string \<Rightarrow> json" where
  "jget v k = (case v of JObj m \<Rightarrow> (case map_of m k of None \<Rightarrow> JNull | Some x \<Rightarrow> x) | _ \<Rightarrow> JNull)"

text \<open>\<open>value.get(key)\<close>\<close>

definition jget_opt :: "json \<Rightarrow> string \<Rightarrow> json option" where
  "jget_opt v k = (case v of JObj m \<Rightarrow> map_of m k | _ \<Rightarrow> None)"

definition jstr :: "json \<Rightarrow> string option" where
  "jstr v = (case v of JStr s \<Rightarrow> Some s | _ \<Rightarrow> None)"

definition jobject :: "json \<Rightarrow> (string, json) btree_map option" where
  "jobject v = (case v of JObj m \<Rightarrow> Some m | _ \<Rightarrow> None)"

text \<open>An object from its entries; its map is ordered by key.\<close>

definition jobj :: "(string \<times> json) list \<Rightarrow> json" where
  "jobj entries = JObj (fold (\<lambda>(k, v). bt_insert k v) entries [])"

text \<open>\<open>value[key] = x\<close> on an object\<close>

definition jset :: "string \<Rightarrow> json \<Rightarrow> json \<Rightarrow> json" where
  "jset k x v = (case v of JObj m \<Rightarrow> JObj (bt_insert k x m) | _ \<Rightarrow> v)"

lemma map_of_fold_bt_insert:
  "map_of (fold (\<lambda>(k, v). bt_insert k v) entries m) k =
     (case map_of (rev entries) k of None \<Rightarrow> map_of m k | Some v \<Rightarrow> Some v)"
  by (induction entries arbitrary: m) (auto simp: map_add_def split: option.splits)

lemma jget_jobj: "jget (jobj entries) k = unwrap_or (map_of (rev entries) k) JNull"
  by (simp add: jget_def jobj_def unwrap_or_def map_of_fold_bt_insert split: option.splits)

section \<open>Objects\<close>

record dynamic_object =
  dyn_name :: string
  dyn_resource_version :: "string option"
  dyn_labels :: "(string, string) btree_map option"
  dyn_annotations :: "(string, string) btree_map"
  dyn_data :: json

text \<open>\<open>data[a][b]\<close>\<close>

abbreviation dyn_at :: "dynamic_object \<Rightarrow> string \<Rightarrow> string \<Rightarrow> json" where
  "dyn_at x a b \<equiv> jget (jget (dyn_data x) a) b"

text \<open>An error of a call, mapped into the error type of the caller.\<close>

definition emap_err :: "('d \<Rightarrow> 'e) \<Rightarrow> ('w, 'd, 'a) effect \<Rightarrow> ('w, 'e, 'a) effect" where
  "emap_err f m = ematch m (\<lambda>r. case r of Inl e \<Rightarrow> efail (f e) | Inr x \<Rightarrow> eret x)"

text \<open>The \<open>?\<close> operator on a computation without effects.\<close>

definition etry :: "'e + 'a \<Rightarrow> ('w, 'e, 'a) effect" where
  "etry r = (case r of Inl e \<Rightarrow> efail e | Inr x \<Rightarrow> eret x)"

text \<open>A value read from the world, such as the clock.\<close>

definition eread :: "('w \<Rightarrow> 'a) \<Rightarrow> ('w, 'e, 'a) effect" where
  "eread f = (\<lambda>w. (Inr (f w), w))"

lemma ebind_apply:
  "ebind m f w = (case m w of (Inl e, w') \<Rightarrow> (Inl e, w') | (Inr x, w') \<Rightarrow> f x w')"
  by (simp add: ebind_def)

lemma ebind_Inr:
  assumes "ebind m f w = (Inr y, w'')"
  obtains x w' where "m w = (Inr x, w')" and "f x w' = (Inr y, w'')"
  using assms by (auto simp: ebind_def split: prod.splits sum.splits)

lemma ebind_Inl:
  assumes "ebind m f w = (Inl e, w'')"
  obtains "m w = (Inl e, w'')" | x w' where "m w = (Inr x, w')" and "f x w' = (Inl e, w'')"
  using assms by (auto simp: ebind_def split: prod.splits sum.splits)

lemma ebind_cong_at:
  assumes "m w = m' w" and "\<And>x w'. m w = (Inr x, w') \<Longrightarrow> f x w' = f' x w'"
  shows "ebind m f w = ebind m' f' w"
  using assms by (auto simp: ebind_def split: prod.splits sum.splits)

lemma ebind_Inl_cong:
  assumes "ebind m f w = (Inl e, w'')" and "m w = m' w"
    and "\<And>x w'. m w = (Inr x, w') \<Longrightarrow> f x w' = (Inl e, w'') \<Longrightarrow> f' x w' = (Inl e, w'')"
  shows "ebind m' f' w = (Inl e, w'')"
  using assms by (auto simp: ebind_def split: prod.splits sum.splits)

lemma emap_err_Inr [simp]: "emap_err f m w = (Inr x, w') \<longleftrightarrow> m w = (Inr x, w')"
  by (cases "m w") (auto simp: emap_err_def ematch_def efail_def eret_def split: sum.splits)

lemma emap_err_Inl:
  "emap_err f m w = (Inl e, w') \<longleftrightarrow> (\<exists>d. e = f d \<and> m w = (Inl d, w'))"
  by (cases "m w") (auto simp: emap_err_def ematch_def efail_def eret_def split: sum.splits)

lemma etry_run [simp]: "etry r w = (r, w)"
  by (simp add: etry_def efail_def eret_def split: sum.splits)

lemma eread_run [simp]: "eread f w = (Inr (f w), w)"
  by (simp add: eread_def)

lemma eret_run [simp]: "eret x w = (Inr x, w)"
  by (simp add: eret_def)

lemma efail_run [simp]: "efail e w = (Inl e, w)"
  by (simp add: efail_def)

lemma ematch_run [simp]: "ematch m f w = (case m w of (r, w') \<Rightarrow> f r w')"
  by (simp add: ematch_def)

section \<open>The text form of an address\<close>

definition hex_char :: "nat \<Rightarrow> char" where
  "hex_char n = (if n < 10 then char_of (48 + n) else char_of (87 + n))"

text \<open>\<open>{:x}\<close> and \<open>{:02x}\<close>\<close>

fun show_hex :: "nat \<Rightarrow> string" where
  "show_hex n = (if n < 16 then [hex_char n] else show_hex (n div 16) @ [hex_char (n mod 16)])"

declare show_hex.simps [simp del]

definition show_hex2 :: "nat \<Rightarrow> string" where
  "show_hex2 n = (if n < 16 then ''0'' @ show_hex n else show_hex n)"

definition show_ipv4 :: "32 word \<Rightarrow> string" where
  "show_ipv4 a =
     (let n = unat a
      in join ''.'' (map show_nat [n div 2 ^ 24, n div 2 ^ 16 mod 256, n div 2 ^ 8 mod 256, n mod 256]))"

definition segments :: "128 word \<Rightarrow> nat list" where
  "segments a = map (\<lambda>i. unat a div 2 ^ (16 * i) mod 65536) [7, 6, 5, 4, 3, 2, 1, 0]"

text \<open>The first longest run of zero segments: its start and its length.\<close>

fun zero_run :: "nat list \<Rightarrow> nat \<Rightarrow> nat \<times> nat \<Rightarrow> nat \<times> nat \<Rightarrow> nat \<times> nat" where
  "zero_run [] i current longest = longest"
| "zero_run (s # ss) i current longest =
     (if s = 0
      then let current = (if snd current = 0 then (i, 1) else (fst current, snd current + 1))
           in zero_run ss (i + 1) current (if snd longest < snd current then current else longest)
      else zero_run ss (i + 1) (0, 0) longest)"

definition show_ipv6 :: "128 word \<Rightarrow> string" where
  "show_ipv6 a =
     (let ss = segments a; shown = (\<lambda>ss. join '':'' (map show_hex ss))
      in if take 6 ss = [0, 0, 0, 0, 0, 65535]
         then ''::ffff:'' @ show_ipv4 (of_nat (unat a mod 2 ^ 32))
         else let (start, len) = zero_run ss 0 (0, 0) (0, 0)
              in if 1 < len then shown (take start ss) @ ''::'' @ shown (drop (start + len) ss)
                 else shown ss)"

definition trim_end_matches :: "char \<Rightarrow> string \<Rightarrow> string" where
  "trim_end_matches c s = rev (dropWhile (\<lambda>d. d = c) (rev s))"

section \<open>Blank text\<close>

text \<open>\<open>value.trim().is_empty()\<close>: the text is a sequence of white space characters.\<close>

function blank :: "string \<Rightarrow> bool" where
  "blank s =
     (if s = [] then True
      else case find (\<lambda>w. prefix w s) ws_codes of
             None \<Rightarrow> False
           | Some w \<Rightarrow> blank (drop (length w) s))"
  by pat_completeness auto

termination blank
proof (relation "measure length", goal_cases)
  case (2 s w)
  then have "w \<noteq> []"
    using ws_codes_nonempty by (auto simp: find_Some_iff)
  then show ?case using 2 by (cases s) auto
qed simp

declare blank.simps [simp del]

end
