(* ===== verification/Version_Codes.thy ===== *)
theory Version_Codes
  imports Rust_Strings
begin

text \<open>
  Prefix-free codes of strings, numbers and options. The reference servers of the development use them as resource versions,
  so that a version determines the object that it names.
\<close>

definition prefix_free :: "('a \<Rightarrow> string) \<Rightarrow> bool" where
  "prefix_free f \<longleftrightarrow> (\<forall>x y r s. f x @ r = f y @ s \<longrightarrow> x = y \<and> r = s)"

lemma prefix_freeD: "prefix_free f \<Longrightarrow> f x @ r = f y @ s \<longleftrightarrow> x = y \<and> r = s"
  unfolding prefix_free_def by blast

definition code_string :: "string \<Rightarrow> string" where
  "code_string s = concat (map (\<lambda>x. [CHR ''x'', x]) s) @ ''y''"

definition code_int :: "int \<Rightarrow> string" where
  "code_int i = (if i < 0 then CHR ''-'' else CHR ''+'') # code_string (show_nat (nat \<bar>i\<bar>))"

definition code_option :: "('a \<Rightarrow> string) \<Rightarrow> 'a option \<Rightarrow> string" where
  "code_option f v = (case v of None \<Rightarrow> ''n'' | Some x \<Rightarrow> CHR ''s'' # f x)"

lemma prefix_free_string: "prefix_free code_string"
proof -
  have "x = y \<and> r = s" if "code_string x @ r = code_string y @ s" for x y r s
    using that
  proof (induction x arbitrary: y)
    case Nil
    then show ?case by (cases y) (auto simp: code_string_def)
  next
    case (Cons c x)
    then show ?case by (cases y) (auto simp: code_string_def)
  qed
  then show ?thesis unfolding prefix_free_def by blast
qed

lemma prefix_free_int: "prefix_free code_int"
proof -
  have "x = y \<and> r = s" if "code_int x @ r = code_int y @ s" for x y r s
  proof -
    have sign: "x < 0 \<longleftrightarrow> y < 0" using that by (auto simp: code_int_def split: if_splits)
    have "code_string (show_nat (nat \<bar>x\<bar>)) @ r = code_string (show_nat (nat \<bar>y\<bar>)) @ s"
      using that by (simp add: code_int_def)
    then have "show_nat (nat \<bar>x\<bar>) = show_nat (nat \<bar>y\<bar>)" and rest: "r = s"
      by (simp_all add: prefix_freeD [OF prefix_free_string])
    then have "\<bar>x\<bar> = \<bar>y\<bar>" using show_nat_inj by fastforce
    then show ?thesis using sign rest by auto
  qed
  then show ?thesis unfolding prefix_free_def by blast
qed

lemma prefix_free_option:
  assumes "prefix_free f"
  shows "prefix_free (code_option f)"
proof -
  have "x = y \<and> r = s" if "code_option f x @ r = code_option f y @ s" for x y r s
    using that by (cases x; cases y) (simp_all add: code_option_def prefix_freeD [OF assms])
  then show ?thesis unfolding prefix_free_def by blast
qed

lemmas code_eqs = prefix_freeD [OF prefix_free_string] prefix_freeD [OF prefix_free_int]
  prefix_freeD [OF prefix_free_option [OF prefix_free_string]] prefix_freeD [OF prefix_free_option [OF prefix_free_int]]

end
