(* ===== verification/Gpu_Leases.thy ===== *)
theory Gpu_Leases
  imports Gpu_Scheduler Json_Objects Version_Codes
begin

text \<open>
  What the scheduler does to the leases while other clients, among them other replicas of the scheduler, change devices between its
  calls. The locale \<open>gpu_store\<close> states the contract of the API server for devices: when a call reaches the server, the writes of
  others have been applied; an update is fenced by the resource version; a failed call and a call on another kind change no device.
  \<open>mem_api\<close> is a server with such other writers that keeps it.
\<close>

section \<open>Legal lease transitions\<close>

abbreviation device_lease :: "flash_gpu_device \<Rightarrow> flash_gpu_reservation option" where
  "device_lease d \<equiv> Option.bind (dev_status d) gs_reservation"

definition lease_of :: "flash_gpu_device option \<Rightarrow> flash_gpu_reservation option" where
  "lease_of d = Option.bind d device_lease"

definition own_lease :: "flash_gpu_job \<Rightarrow> flash_gpu_reservation \<Rightarrow> bool" where
  "own_lease j r \<longleftrightarrow> rs_job_namespace r = unwrap_or (meta_namespace (job_meta j)) [] \<and> rs_job_name r = meta_name (job_meta j)"

text \<open>A lease that a pass for the job may take away: its own, or one that has expired. The lease it may set lasts 90 seconds.\<close>

definition takeable :: "flash_gpu_job \<Rightarrow> i64 \<Rightarrow> flash_gpu_reservation option \<Rightarrow> bool" where
  "takeable j now r = (case r of None \<Rightarrow> True | Some x \<Rightarrow> own_lease j x \<or> rs_lease_expires_at x \<le> now)"

definition fresh_lease :: "flash_gpu_job \<Rightarrow> i64 \<Rightarrow> flash_gpu_reservation option \<Rightarrow> bool" where
  "fresh_lease j now r =
     (case r of
        None \<Rightarrow> False
      | Some x \<Rightarrow> own_lease j x \<and> rs_subject_id x = gj_subject_id (job_spec j) \<and> rs_reserved_at x = now \<and>
          rs_lease_expires_at x = i64_saturating_add now 90)"

definition lease_step ::
  "flash_gpu_job \<Rightarrow> i64 \<Rightarrow> flash_gpu_reservation option \<Rightarrow> flash_gpu_reservation option \<Rightarrow> bool" where
  "lease_step j now r r' \<longleftrightarrow> r' = r \<or> takeable j now r \<and> (r' = None \<or> fresh_lease j now r')"

text \<open>
  A renewal: the assignment of the job names the device and ends within 30 seconds, and the pass has read a live lease of the job
  on the device.
\<close>

definition renewal :: "'w gpu_api \<Rightarrow> flash_gpu_job \<Rightarrow> i64 \<Rightarrow> string \<Rightarrow> bool" where
  "renewal api j now n \<longleftrightarrow>
     (\<exists>a. Option.bind (job_status j) js_assignment = Some a \<and> ga_inventory_name a = n \<and>
        i64_saturating_sub (ga_lease_expires_at a) now \<le> 30) \<and>
     (\<exists>w w' d r. api_device_get_opt api n w = (Inr (Some d), w') \<and> device_lease d = Some r \<and> own_lease j r \<and>
        now < rs_lease_expires_at r)"

lemma reserved_for_own_lease: "reserved_for j = own_lease j"
  by (simp add: fun_eq_iff reserved_for_def own_lease_def job_namespace_def unwrap_or_def split: option.splits)

lemma fresh_job_reservation [simp]: "fresh_lease j now (Some (job_reservation j now))"
  by (simp add: fresh_lease_def own_lease_def job_reservation_def job_namespace_def unwrap_or_def GPU_LEASE_SECONDS_def
      split: option.splits)

lemma available_takeable: "gpu_device_available d now \<Longrightarrow> takeable j now (device_lease d)"
  by (auto simp: gpu_device_available_def takeable_def split: option.splits)

section \<open>The contract of the API server\<close>

text \<open>A device as the server hands it out: it has a version, and the version determines it.\<close>

definition served :: "('w \<Rightarrow> string \<Rightarrow> flash_gpu_device option) \<Rightarrow> flash_gpu_device \<Rightarrow> bool" where
  "served cur d \<longleftrightarrow>
     meta_resource_version (dev_meta d) \<noteq> None \<and>
     (\<forall>w d'. cur w (dev_name d) = Some d' \<and> meta_resource_version (dev_meta d') = meta_resource_version (dev_meta d) \<longrightarrow> d' = d)"

text \<open>A write that, if it succeeds, is a legal step on the device that the server has at that moment, or a renewal.\<close>

definition write_is_step ::
  "'w gpu_api \<Rightarrow> ('w \<Rightarrow> string \<Rightarrow> flash_gpu_device option) \<Rightarrow> ('w \<Rightarrow> 'w) \<Rightarrow> flash_gpu_job \<Rightarrow> i64 \<Rightarrow> string \<Rightarrow>
   flash_gpu_device \<Rightarrow> 'w \<Rightarrow> bool" where
  "write_is_step api cur land j now n d w \<longleftrightarrow>
     (\<forall>d' w'. api_device_replace_status api n d w = (Inr d', w') \<longrightarrow>
        lease_step j now (lease_of (cur (land w) n)) (lease_of (cur w' n)) \<or>
        renewal api j now n \<and> fresh_lease j now (lease_of (cur w' n)))"

abbreviation only_lease_steps ::
  "'w gpu_api \<Rightarrow> ('w \<Rightarrow> string \<Rightarrow> flash_gpu_device option) \<Rightarrow> ('w \<Rightarrow> 'w) \<Rightarrow> flash_gpu_job \<Rightarrow> i64 \<Rightarrow>
   (string \<Rightarrow> flash_gpu_device \<Rightarrow> ('w, kube_error, flash_gpu_device) effect) \<Rightarrow> 'w gpu_api" where
  "only_lease_steps api cur land j now other \<equiv>
     api\<lparr>api_device_replace_status := (\<lambda>n d w.
        if write_is_step api cur land j now n d w then api_device_replace_status api n d w else other n d w)\<rparr>"

text \<open>Calls on jobs, nodes and services are the same on both servers.\<close>

lemma job_calls_unchanged:
  "patch_job_status (api\<lparr>api_device_replace_status := f\<rparr>) = patch_job_status api"
  "patch_queued (api\<lparr>api_device_replace_status := f\<rparr>) = patch_queued api"
  "ensure_finalizer (api\<lparr>api_device_replace_status := f\<rparr>) = ensure_finalizer api"
  "remove_finalizer (api\<lparr>api_device_replace_status := f\<rparr>) = remove_finalizer api"
  "service_is_running (api\<lparr>api_device_replace_status := f\<rparr>) = service_is_running api"
  "assignment_is_valid (api\<lparr>api_device_replace_status := f\<rparr>) = assignment_is_valid api"
  by (simp_all add: fun_eq_iff patch_job_status_def patch_queued_def ensure_finalizer_def remove_finalizer_def
      service_is_running_def assignment_is_valid_def cong: if_cong)

lemma efor_cong: "(\<And>x. x \<in> set xs \<Longrightarrow> f x = g x) \<Longrightarrow> efor f xs = efor g xs"
  by (induction xs) auto

lemma ematch_cong_at: "m w = m' w \<Longrightarrow> (\<And>r w'. m' w = (r, w') \<Longrightarrow> f r w' = f' r w') \<Longrightarrow> ematch m f w = ematch m' f' w"
  by (cases "m' w") simp

text \<open>
  \<open>cur w\<close> are the devices of a world, and \<open>land w\<close> is the world that a call made in \<open>w\<close> finds when it reaches the server: other
  clients may have written anything in between.
\<close>

locale gpu_store =
  fixes api :: "'w gpu_api"
    and cur :: "'w \<Rightarrow> string \<Rightarrow> flash_gpu_device option"
    and land :: "'w \<Rightarrow> 'w"
  assumes get_opt_frame: "cur (snd (api_device_get_opt api n w)) = cur (land w)"
    and get_opt_reads: "api_device_get_opt api n w = (Inr r, w') \<Longrightarrow>
      r = cur (land w) n \<and> pred_option (\<lambda>d. dev_name d = n \<and> served cur d) r"
    and get_frame: "cur (snd (api_device_get api n w)) = cur (land w)"
    and get_reads: "api_device_get api n w = (Inr d, w') \<Longrightarrow> cur (land w) n = Some d \<and> dev_name d = n \<and> served cur d"
    and list_reads: "api_devices_list api w = (Inr ds, w') \<Longrightarrow> list_all (served cur) ds"
    and replace_swaps: "api_device_replace_status api n d w = (Inr d', w') \<Longrightarrow>
      \<exists>old new. cur (land w) n = Some old \<and> cur w' = (cur (land w))(n \<mapsto> new) \<and> dev_status new = dev_status d \<and>
        (meta_resource_version (dev_meta d) \<noteq> None \<longrightarrow>
         meta_resource_version (dev_meta old) = meta_resource_version (dev_meta d))"
    and replace_missing: "api_device_replace_status api n d w = (Inl (Api_Error 404), w') \<Longrightarrow>
      cur (land w) n = None \<and> cur w' = cur (land w)"
    and job_patch_frame: "cur (snd (api_job_patch_status api n p w)) = cur (land w)"
    and finalizer_frame: "cur (snd (api_job_patch_finalizers api n fs w)) = cur (land w)"
begin

lemma write_legal:
  assumes "served cur d" and "dev_meta d' = dev_meta d" and "lease_step j now (device_lease d) (device_lease d')"
  shows "write_is_step api cur land j now (dev_name d) d' w"
  unfolding write_is_step_def
proof (intro allI impI disjI1)
  fix x w'
  assume "api_device_replace_status api (dev_name d) d' w = (Inr x, w')"
  from replace_swaps [OF this] assms(1,2) obtain old new where "cur (land w) (dev_name d) = Some old"
    and "cur w' (dev_name d) = Some new" and "dev_status new = dev_status d'"
    and "meta_resource_version (dev_meta old) = meta_resource_version (dev_meta d)"
    by (auto simp: served_def)
  moreover have "old = d" using assms(1) calculation by (auto simp: served_def)
  ultimately show "lease_step j now (lease_of (cur (land w) (dev_name d))) (lease_of (cur w' (dev_name d)))"
    using assms(3) by (simp add: lease_of_def)
qed

lemma replace_status_lenient_steps:
  assumes "served cur d" and "dev_meta d' = dev_meta d" and "lease_step j now (device_lease d) (device_lease d')"
  shows "replace_status_lenient (only_lease_steps api cur land j now other) d' = replace_status_lenient api d'"
  using write_legal [OF assms] assms(2) by (simp add: replace_status_lenient_def)

lemma refresh_inventory_health_steps:
  "refresh_inventory_health (only_lease_steps api cur land j now other) = refresh_inventory_health api"
proof -
  have "refresh_device (only_lease_steps api cur land j now other) h d = refresh_device api h d" if "served cur d" for h d
    unfolding refresh_device_def Let_def
    by (subst replace_status_lenient_steps [OF that])
       (auto simp: lease_step_def default_gpu_device_status_def split: option.splits)
  then have "efor (refresh_device (only_lease_steps api cur land j now other) h) ds = efor (refresh_device api h) ds"
    if "list_all (served cur) ds" for h ds
    using that by (intro efor_cong) (simp add: list_all_iff)
  then show ?thesis
    unfolding refresh_inventory_health_def Let_def
    by (intro ext ebind_cong_at) (auto dest!: list_reads intro!: ebind_cong_at)
qed

lemma reclaim_stale_leases_steps:
  "reclaim_stale_leases (only_lease_steps api cur land j now other) now = reclaim_stale_leases api now"
proof -
  have "reclaim_device (only_lease_steps api cur land j now other) now d = reclaim_device api now d" if "served cur d" for d
    unfolding reclaim_device_def Let_def
    by (auto intro!: replace_status_lenient_steps [OF that] simp: lease_step_def takeable_def split: option.splits)
  then have "efor (reclaim_device (only_lease_steps api cur land j now other) now) ds = efor (reclaim_device api now) ds"
    if "list_all (served cur) ds" for ds
    using that by (intro efor_cong) (simp add: list_all_iff)
  then show ?thesis
    unfolding reclaim_stale_leases_def by (intro ext ebind_cong_at) (auto dest!: list_reads)
qed

lemma reserve_device_steps:
  assumes "served cur d" and "takeable j now (device_lease d)"
  shows "reserve_device (only_lease_steps api cur land j now other) d j now = reserve_device api d j now"
  unfolding reserve_device_def Let_def
  by (rule ext, rule ebind_cong_at) (use assms in \<open>simp_all add: write_legal lease_step_def\<close>)

lemma release_device_assignment_steps:
  "release_device_assignment (only_lease_steps api cur land j now other) j a now = release_device_assignment api j a now"
proof -
  have "write_is_step api cur land j now (dev_name d) (d\<lparr>dev_status := Some s\<rparr>) w'"
    if "api_device_get_opt api (ga_inventory_name a) w = (Inr (Some d), w'')" and "device_lease d = Some r" and "own_lease j r"
      and "gs_reservation s = None" for w w' w'' d r s
    using get_opt_reads [OF that(1)] that by (intro write_legal) (auto simp: lease_step_def takeable_def)
  then show ?thesis
    unfolding release_device_assignment_def Let_def reserved_for_own_lease
    by (intro ext ebind_cong_at) (auto split: option.splits)
qed

lemma release_assignment_steps:
  "release_assignment (only_lease_steps api cur land j now other) j now = release_assignment api j now"
  by (simp add: release_assignment_def release_device_assignment_steps split: option.splits)

text \<open>The write of a renewal: the lease afterwards is that of the job, whatever it was before.\<close>

lemma renew_assignment_steps:
  assumes "Option.bind (job_status j) js_assignment = Some a" and "assignment_is_valid api j a now w0 = (Inr True, w1)"
  shows "renew_assignment (only_lease_steps api cur land j now other) j a now = renew_assignment api j a now"
proof -
  obtain d r where "api_device_get_opt api (ga_inventory_name a) w0 = (Inr (Some d), w1)" and "device_lease d = Some r"
    and "own_lease j r" and "now < rs_lease_expires_at r"
    using assms(2) by (auto simp: assignment_is_valid_def reserved_for_own_lease elim!: ebind_Inr split: option.splits)
  then have due: "renewal api j now (ga_inventory_name a)"
    if "\<not> GPU_LEASE_RENEW_SECONDS < i64_saturating_sub (ga_lease_expires_at a) now"
    using that assms(1) unfolding renewal_def GPU_LEASE_RENEW_SECONDS_def by fastforce
  have legal: "write_is_step api cur land j now (dev_name d) d' w"
    if "renewal api j now (dev_name d)" and "device_lease d' = Some (job_reservation j now)" for d d' w
    unfolding write_is_step_def
    using that by (auto dest!: replace_swaps simp: lease_of_def)
  have "reserve_device (only_lease_steps api cur land j now other) d j now = reserve_device api d j now"
    if "renewal api j now (dev_name d)" for d
    unfolding reserve_device_def Let_def by (rule ext, rule ebind_cong_at) (use that in \<open>simp_all add: legal\<close>)
  with due show ?thesis
    unfolding renew_assignment_def by (intro ext) (auto intro!: ebind_cong_at dest!: get_reads)
qed

lemma reconcile_assigned_steps:
  assumes "Option.bind (job_status j) js_assignment = Some a"
  shows "reconcile_assigned (only_lease_steps api cur land j now other) j a now = reconcile_assigned api j a now"
  unfolding reconcile_assigned_def Let_def job_calls_unchanged release_assignment_steps
  by (intro ext ebind_cong_at) (auto simp: renew_assignment_steps [OF assms])

lemma reconcile_waiting_steps:
  "reconcile_waiting (only_lease_steps api cur land j now other) j now = reconcile_waiting api j now"
proof -
  have "place_job (only_lease_steps api cur land j now other) j d now = place_job api j d now"
    if "candidate_devices ds j now = d # rest" and "list_all (served cur) ds" for d ds rest
  proof -
    have "d \<in> set ds" and "gpu_device_available d now"
      using candidate_devices_head(1,2) [OF that(1)] by (auto simp: usable_by_def)
    with that(2) have "reserve_device (only_lease_steps api cur land j now other) d j now = reserve_device api d j now"
      by (intro reserve_device_steps) (auto simp: list_all_iff available_takeable)
    then show ?thesis by (simp only: place_job_def job_calls_unchanged release_device_assignment_steps)
  qed
  then show ?thesis
    unfolding reconcile_waiting_def Let_def job_calls_unchanged
    by (intro ext ebind_cong_at) (auto dest!: list_reads intro!: ebind_cong_at split: list.splits)
qed

lemma reconcile_job_steps:
  "reconcile_job (only_lease_steps api cur land j now other) j now = reconcile_job api j now"
  unfolding reconcile_job_def job_calls_unchanged release_assignment_steps refresh_inventory_health_steps
    reclaim_stale_leases_steps reconcile_waiting_steps
  by (simp add: reconcile_assigned_steps split: option.splits cong: if_cong)

end

section \<open>Release\<close>

definition unheld :: "flash_gpu_job \<Rightarrow> string \<Rightarrow> (string \<Rightarrow> flash_gpu_device option) \<Rightarrow> bool" where
  "unheld j n v \<longleftrightarrow> (\<forall>r. lease_of (v n) = Some r \<longrightarrow> \<not> own_lease j r)"

context gpu_store
begin

lemma release_device_assignment_unheld:
  assumes "release_device_assignment api j a now w = (Inr u, w')"
  shows "unheld j (ga_inventory_name a) (cur w')"
proof -
  let ?n = "ga_inventory_name a"
  from assms obtain found w1 where read: "api_device_get_opt api ?n w = (Inr found, w1)"
    and rest: "(case found of None \<Rightarrow> eret () | Some d \<Rightarrow>
      (case device_lease d of None \<Rightarrow> eret () | Some r \<Rightarrow>
         if own_lease j r
         then ematch (api_device_replace_status api (dev_name d) (d\<lparr>dev_status := Some
                ((case dev_status d of None \<Rightarrow> default_gpu_device_status | Some s \<Rightarrow> s)
                  \<lparr>gs_reservation := None, gs_last_allocated_at := Some now\<rparr>)\<rparr>)) (\<lambda>r.
                case r of Inr _ \<Rightarrow> eret () | Inl e \<Rightarrow> if e = Api_Error 404 then eret () else efail e)
         else eret ())) w1 = (Inr u, w')"
    unfolding release_device_assignment_def reserved_for_own_lease Let_def by (rule ebind_Inr)
  have here: "cur w1 ?n = found" using get_opt_frame [of ?n w] get_opt_reads [OF read] read by simp
  show ?thesis
  proof (cases "\<exists>d r. found = Some d \<and> device_lease d = Some r \<and> own_lease j r")
    case False
    then have "w' = w1" using rest by (auto split: option.splits if_splits)
    then show ?thesis using False here by (auto simp: unheld_def lease_of_def bind_eq_Some_conv)
  next
    case True
    then obtain d where d: "found = Some d" "dev_name d = ?n" using get_opt_reads [OF read] by auto
    show ?thesis
      using rest True d
      by (auto simp: unheld_def lease_of_def split: prod.splits sum.splits if_splits
          dest!: replace_swaps replace_missing)
  qed
qed

lemma patch_job_status_unheld:
  assumes "\<forall>w. unheld j n (cur w) \<longrightarrow> unheld j n (cur (land w))" and "unheld j n (cur w)"
    and "patch_job_status api k s w = (Inr u, w')"
  shows "unheld j n (cur w')"
  using assms job_patch_frame [of "job_name k" "job_status_patch k s" w]
  by (auto simp: patch_job_status_def elim!: ebind_Inr split: if_splits)

lemma remove_finalizer_unheld:
  assumes "\<forall>w. unheld j n (cur w) \<longrightarrow> unheld j n (cur (land w))" and "unheld j n (cur w)"
    and "remove_finalizer api k w = (Inr u, w')"
  shows "unheld j n (cur w')"
  using assms finalizer_frame [of "job_name k" "filter (\<lambda>v. v \<noteq> GPU_JOB_FINALIZER) (meta_finalizers (job_meta k))" w]
  by (auto simp: remove_finalizer_def elim!: ebind_Inr)

lemma reconcile_job_unheld:
  assumes rely: "\<forall>w. unheld j (ga_inventory_name a) (cur w) \<longrightarrow> unheld j (ga_inventory_name a) (cur (land w))"
    and assigned: "Option.bind (job_status j) js_assignment = Some a"
    and "meta_deletion_timestamp (job_meta j) \<noteq> None \<or>
      GPU_JOB_FINALIZER \<in> set (meta_finalizers (job_meta j)) \<and> gj_count (job_spec j) = 1 \<and>
      gj_quota_remaining_seconds (job_spec j) = 0"
    and run: "reconcile_job api j now w = (Inr act, w')"
  shows "unheld j (ga_inventory_name a) (cur w')"
proof -
  have released: "unheld j (ga_inventory_name a) (cur w2)" if "release_assignment api j now w1 = (Inr u, w2)" for w1 u w2
    using that assigned release_device_assignment_unheld by (simp add: release_assignment_def)
  show ?thesis
  proof (cases "meta_deletion_timestamp (job_meta j) = None")
    case True
    with assms(3) have quota: "GPU_JOB_FINALIZER \<in> set (meta_finalizers (job_meta j))"
      "gj_count (job_spec j) = 1" "gj_quota_remaining_seconds (job_spec j) = 0" by auto
    have "ensure_finalizer api j = eret False"
      using quota(1) by (auto simp: ensure_finalizer_def list_ex_iff)
    then show ?thesis
      using run True quota(2,3) unfolding reconcile_job_def
      by (auto elim!: ebind_Inr dest!: released dest: patch_job_status_unheld [OF rely])
  next
    case False
    then show ?thesis
      using run unfolding reconcile_job_def
      by (auto elim!: ebind_Inr dest!: released intro: patch_job_status_unheld [OF rely] remove_finalizer_unheld [OF rely])
  qed
qed

end

section \<open>A server with other writers\<close>

text \<open>
  A server that keeps the contract, whatever the other clients (\<open>land\<close>) do to its world. The version of a device is a code of its status;
  its specification does not change. For \<open>mem_land\<close>, \<open>mem_others\<close> are the writes of other clients, of which the first lands when the
  next call arrives (\<open>None\<close>: nobody has written).
\<close>

definition reservation_code :: "flash_gpu_reservation \<Rightarrow> string" where
  "reservation_code r =
     code_string (rs_job_namespace r) @ code_string (rs_job_name r) @ code_string (rs_subject_id r) @
     code_string (rs_service_instance_id r) @ code_int (rs_reserved_at r) @ code_int (rs_lease_expires_at r)"

definition device_status_code :: "flash_gpu_device_status \<Rightarrow> string" where
  "device_status_code s =
     (case gs_health s of Unknown \<Rightarrow> ''k'' | Healthy \<Rightarrow> ''h'' | Unhealthy \<Rightarrow> ''u'') @ code_option reservation_code (gs_reservation s) @
     code_option code_int (gs_last_allocated_at s) @ code_option code_string (gs_last_organization_id s) @
     code_option code_string (gs_last_subject_id s)"

lemma prefix_free_reservation: "prefix_free reservation_code"
  unfolding prefix_free_def
  by (auto simp: reservation_code_def code_eqs intro: flash_gpu_reservation.equality)

lemma device_status_code_inj:
  assumes "device_status_code s = device_status_code t"
  shows "s = t"
proof -
  note reservation = prefix_freeD [OF prefix_free_option [OF prefix_free_reservation]]
  have last: "code_option code_string x = code_option code_string y \<longleftrightarrow> x = y" for x y
    using code_eqs(3) [of x "[]" y "[]"] by simp
  have "gs_health s = gs_health t"
    using assms by (cases "gs_health s"; cases "gs_health t") (simp_all add: device_status_code_def)
  then show ?thesis
    using assms by (cases "gs_health s")
      (auto simp: device_status_code_def reservation code_eqs last intro: flash_gpu_device_status.equality)
qed

definition stored_device :: "string \<Rightarrow> flash_gpu_device_status \<Rightarrow> flash_gpu_device" where
  "stored_device n s =
     (sample_device n Open s)\<lparr>dev_meta := (sample_meta n)\<lparr>meta_resource_version := Some (device_status_code s)\<rparr>\<rparr>"

record mem =
  mem_devices :: "(string \<times> flash_gpu_device_status) list"
  mem_others :: "(string \<times> flash_gpu_device_status) option list"
  mem_jobs :: "(string \<times> flash_gpu_job) list"
  mem_nodes :: "node list"
  mem_services :: "(string \<times> flash_service) list"
  mem_version :: nat

definition mem_view :: "mem \<Rightarrow> string \<Rightarrow> flash_gpu_device option" where
  "mem_view w n = map_option (stored_device n) (map_of (mem_devices w) n)"

definition mem_land :: "mem \<Rightarrow> mem" where
  "mem_land w =
     (case mem_others w of
        [] \<Rightarrow> w
      | None # os \<Rightarrow> w\<lparr>mem_others := os\<rparr>
      | Some e # os \<Rightarrow> w\<lparr>mem_devices := e # mem_devices w, mem_others := os\<rparr>)"

definition mem_replace_status :: "string \<Rightarrow> flash_gpu_device \<Rightarrow> (mem, kube_error, flash_gpu_device) effect" where
  "mem_replace_status n d w =
     (case (mem_view w n, dev_status d) of
        (None, _) \<Rightarrow> (Inl (Api_Error 404), w)
      | (Some old, None) \<Rightarrow> (Inl (Api_Error 422), w)
      | (Some old, Some s) \<Rightarrow>
          if meta_resource_version (dev_meta d) = None \<or>
             meta_resource_version (dev_meta d) = meta_resource_version (dev_meta old)
          then (Inr (stored_device n s), w\<lparr>mem_devices := (n, s) # mem_devices w\<rparr>)
          else (Inl (Api_Error 409), w))"

text \<open>A JSON merge patch: a field that is absent keeps its value, \<open>null\<close> removes it.\<close>

definition merge_field :: "'a option option \<Rightarrow> 'a option \<Rightarrow> 'a option" where
  "merge_field p old = (case p of None \<Rightarrow> old | Some v \<Rightarrow> v)"

definition apply_job_patch :: "job_patch \<Rightarrow> flash_gpu_job_status option \<Rightarrow> flash_gpu_job_status" where
  "apply_job_patch p old =
     (let s = (case old of None \<Rightarrow> default_gpu_job_status | Some s \<Rightarrow> s)
      in \<lparr>js_phase = pt_phase p, js_attempts = pt_attempts p,
          js_assignment = merge_field (pt_assignment p) (js_assignment s),
          js_message = merge_field (pt_message p) (js_message s),
          js_updated_at = pt_updated_at p\<rparr>)"

definition mem_update_job :: "string \<Rightarrow> (flash_gpu_job \<Rightarrow> flash_gpu_job) \<Rightarrow> mem \<Rightarrow> mem" where
  "mem_update_job n f w =
     (case map_of (mem_jobs w) n of
        None \<Rightarrow> w
      | Some j \<Rightarrow>
          w\<lparr>mem_jobs := (n, (f j)\<lparr>job_meta := (job_meta (f j))\<lparr>meta_resource_version := Some (show_nat (mem_version w))\<rparr>\<rparr>)
                # mem_jobs w,
            mem_version := Suc (mem_version w)\<rparr>)"

definition mem_patch_status :: "string \<Rightarrow> job_patch \<Rightarrow> (mem, kube_error, unit) effect" where
  "mem_patch_status n p w =
     (case map_of (mem_jobs w) n of
        None \<Rightarrow> (Inl (Api_Error 404), w)
      | Some j \<Rightarrow>
          if pt_resource_version p = None \<or> pt_resource_version p = meta_resource_version (job_meta j)
          then (Inr (), mem_update_job n (\<lambda>j. j\<lparr>job_status := Some (apply_job_patch p (job_status j))\<rparr>) w)
          else (Inl (Api_Error 409), w))"

definition mem_api :: "(mem \<Rightarrow> mem) \<Rightarrow> mem gpu_api" where
  "mem_api land =
     \<lparr>api_devices_list = (\<lambda>w. (Inr (List.map_filter (mem_view (land w)) (remdups (map fst (mem_devices (land w))))), land w)),
      api_device_get_opt = (\<lambda>n w. (Inr (mem_view (land w) n), land w)),
      api_device_get = (\<lambda>n w. (case mem_view (land w) n of None \<Rightarrow> Inl (Api_Error 404) | Some d \<Rightarrow> Inr d, land w)),
      api_device_replace_status = (\<lambda>n d w. mem_replace_status n d (land w)),
      api_jobs_list =
        (\<lambda>w. (Inr (List.map_filter (map_of (mem_jobs w)) (remdups (map fst (mem_jobs w)))), land w)),
      api_job_patch_status = (\<lambda>n p w. mem_patch_status n p (land w)),
      api_job_patch_finalizers =
        (\<lambda>n fs w. (Inr (), mem_update_job n (\<lambda>j. j\<lparr>job_meta := (job_meta j)\<lparr>meta_finalizers := fs\<rparr>\<rparr>) (land w))),
      api_nodes_list = (\<lambda>w. (Inr (mem_nodes w), land w)),
      api_service_get_opt = (\<lambda>n w. (Inr (map_of (mem_services w) n), land w))\<rparr>"

lemma mem_view_update_job [simp]: "mem_view (mem_update_job n f w) = mem_view w"
  by (simp add: mem_update_job_def mem_view_def fun_eq_iff split: option.splits)

lemma mem_view_patch_status [simp]: "mem_view (snd (mem_patch_status n p w)) = mem_view w"
  by (simp add: mem_patch_status_def split: option.splits)

lemma stored_device_simps [simp]:
  "dev_name (stored_device n s) = n" "dev_status (stored_device n s) = Some s"
  "meta_resource_version (dev_meta (stored_device n s)) = Some (device_status_code s)"
  by (simp_all add: stored_device_def sample_device_def sample_meta_def)

lemma stored_device_served: "served mem_view (stored_device n s)"
  by (auto simp: served_def mem_view_def dest: device_status_code_inj)

lemma mem_view_served: "mem_view w n = Some d \<Longrightarrow> dev_name d = n \<and> served mem_view d"
  by (auto simp: mem_view_def stored_device_served)

lemma mem_replace_cases:
  "mem_replace_status n d w = (r, w') \<Longrightarrow>
     mem_view w n = None \<and> r = Inl (Api_Error 404) \<and> w' = w \<or> r = Inl (Api_Error 409) \<and> w' = w \<or> r = Inl (Api_Error 422) \<and> w' = w \<or>
     (\<exists>old new. r = Inr new \<and> mem_view w n = Some old \<and> mem_view w' = (mem_view w)(n \<mapsto> new) \<and> dev_status new = dev_status d \<and>
        (meta_resource_version (dev_meta d) \<noteq> None \<longrightarrow>
         meta_resource_version (dev_meta old) = meta_resource_version (dev_meta d)))"
  by (auto simp: mem_replace_status_def mem_view_def fun_eq_iff split: option.splits if_splits)

lemma mem_api_replace: "api_device_replace_status (mem_api land) = (\<lambda>n d w. mem_replace_status n d (land w))"
  by (simp add: mem_api_def)

interpretation mem_store: gpu_store "mem_api land" mem_view land for land
proof
  show "api_devices_list (mem_api land) w = (Inr ds, w') \<Longrightarrow> list_all (served mem_view) ds" for w ds w'
    by (auto simp: mem_api_def list_all_iff List.map_filter_def) (metis mem_view_served)
  show "api_device_replace_status (mem_api land) n d w = (Inr d', w') \<Longrightarrow>
      \<exists>old new. mem_view (land w) n = Some old \<and> mem_view w' = (mem_view (land w))(n \<mapsto> new) \<and>
        dev_status new = dev_status d \<and> (meta_resource_version (dev_meta d) \<noteq> None \<longrightarrow>
         meta_resource_version (dev_meta old) = meta_resource_version (dev_meta d))" for n d w d' w'
    by (auto simp: mem_api_def dest!: mem_replace_cases)
  show "api_device_replace_status (mem_api land) n d w = (Inl (Api_Error 404), w') \<Longrightarrow>
      mem_view (land w) n = None \<and> mem_view w' = mem_view (land w)" for n d w w'
    by (auto simp: mem_api_def dest!: mem_replace_cases)
  show "api_device_get_opt (mem_api land) n w = (Inr r, w') \<Longrightarrow>
      r = mem_view (land w) n \<and> pred_option (\<lambda>d. dev_name d = n \<and> served mem_view d) r" for n w r w'
    using mem_view_served [of "land w" n] by (auto simp: mem_api_def pred_option_def)
qed (auto simp: mem_api_def dest: mem_view_served split: option.splits)

section \<open>Properties\<close>

text \<open>Jobs \<open>a\<close> and \<open>b\<close>, and one device that is healthy and leased to a job since a time.\<close>

definition job_a :: flash_gpu_job where
  "job_a = (sample_job ''a'' ''acme'' ''alice'' 10)
     \<lparr>job_status := Some \<lparr>js_phase = Reserved, js_attempts = 1,
        js_assignment = Some \<lparr>ga_inventory_name = ''g1'', ga_node_name = ''node'', ga_gpu_type = ''a100'',
          ga_model = ''A100'', ga_lease_expires_at = 110\<rparr>, js_message = None, js_updated_at = 20\<rparr>\<rparr>"

definition job_b :: flash_gpu_job where
  "job_b = sample_job ''b'' ''beta'' ''bob'' 20"

definition held_by :: "flash_gpu_job \<Rightarrow> i64 \<Rightarrow> flash_gpu_device_status" where
  "held_by j at =
     \<lparr>gs_health = Healthy, gs_reservation = Some (job_reservation j at), gs_last_allocated_at = Some at,
      gs_last_organization_id = Some (gj_organization_id (job_spec j)),
      gs_last_subject_id = Some (gj_subject_id (job_spec j))\<rparr>"

definition mem_with :: "flash_gpu_device_status \<Rightarrow> (string \<times> flash_gpu_device_status) option list \<Rightarrow> mem" where
  "mem_with s others =
     \<lparr>mem_devices = [(''g1'', s)], mem_others = others, mem_jobs = [(''a'', job_a), (''b'', job_b)], mem_nodes = [],
      mem_services = [], mem_version = 2\<rparr>"

lemmas mem_eval =
  job_a_def job_b_def held_by_def mem_with_def sample_job_def sample_meta_def own_lease_def unwrap_or_def
  mem_api_def mem_view_def mem_land_def mem_replace_status_def lease_of_def job_reservation_def
  job_namespace_def reserved_for_def GPU_LEASE_SECONDS_def GPU_LEASE_RENEW_SECONDS_def
  i64_saturating_add_def i64_saturating_sub_def i64_max_def i64_min_def Let_def

text \<open>
  C5. A pass of the scheduler makes only legal writes to the leases, whatever other clients write between its calls and whatever
  fails: at the moment a write succeeds, the lease of the device stays as it is, or it was free, expired or the lease of the
  job itself, and then it is removed or becomes a lease of the job that starts now and lasts 90 seconds. The one other write is the
  renewal of a lease: it is made only on the device of the assignment of the job, when the assignment ends within 30 seconds and the pass has
  read a live lease of the job on the device, and it sets a lease of the job. The pass is the same run on a server that does something
  else with any other write. Hypothesis: the documented optimistic concurrency of the server.
\<close>

theorem reconcile_job_leases:
  assumes "gpu_store api cur land"
  shows "reconcile_job
      (api\<lparr>api_device_replace_status := (\<lambda>n d w.
        if write_is_step api cur land j now n d w then api_device_replace_status api n d w else other n d w)\<rparr>) j now =
    reconcile_job api j now"
  using assms by (rule gpu_store.reconcile_job_steps)

theorem reconcile_job_leases_witness:
  "\<forall>land w. reconcile_job
      (mem_api land\<lparr>api_device_replace_status := (\<lambda>n d w.
        if write_is_step (mem_api land) mem_view land job_b 100 n d w then mem_replace_status n d (land w)
        else (Inl (Client_Error ''refused''), w))\<rparr>) job_b 100 w =
    reconcile_job (mem_api land) job_b 100 w"
proof (intro allI)
  fix land w
  show "reconcile_job
      (mem_api land\<lparr>api_device_replace_status := (\<lambda>n d w.
        if write_is_step (mem_api land) mem_view land job_b 100 n d w then mem_replace_status n d (land w)
        else (Inl (Client_Error ''refused''), w))\<rparr>) job_b 100 w =
    reconcile_job (mem_api land) job_b 100 w"
    using reconcile_job_leases [where j = job_b and now = 100 and other = "\<lambda>_ _ w. (Inl (Client_Error ''refused''), w)",
        OF mem_store.gpu_store_axioms, of land]
    by (simp add: mem_api_replace cong: if_cong)
qed

text \<open>
  C32. A job gives its device back when it is being deleted, or when it carries the finalizer of the scheduler, asks for exactly one GPU and has
  no weekly GPU time left: when its pass succeeds, the device of its assignment has no lease of the job, whatever else other clients
  write meanwhile. Hypotheses: the documented optimistic concurrency of the server, and that no other client leases this device to this job.
\<close>

theorem reconcile_job_releases:
  assumes "gpu_store api cur land"
    and "\<forall>w. unheld j (ga_inventory_name a) (cur w) \<longrightarrow> unheld j (ga_inventory_name a) (cur (land w))"
    and "Option.bind (job_status j) js_assignment = Some a"
    and "meta_deletion_timestamp (job_meta j) \<noteq> None \<or>
      GPU_JOB_FINALIZER \<in> set (meta_finalizers (job_meta j)) \<and> gj_count (job_spec j) = 1 \<and>
      gj_quota_remaining_seconds (job_spec j) = 0"
    and "reconcile_job api j now w = (Inr act, w')"
  shows "unheld j (ga_inventory_name a) (cur w')"
  using gpu_store.reconcile_job_unheld [OF assms] .


definition cancelled_a :: flash_gpu_job where
  "cancelled_a = job_a\<lparr>job_meta := (job_meta job_a)\<lparr>meta_deletion_timestamp := Some 99\<rparr>\<rparr>"

text \<open>Here another client sets the health of the device before every call.\<close>

definition health_writer :: "mem \<Rightarrow> mem" where
  "health_writer w = w\<lparr>mem_devices := map (\<lambda>(n, s). (n, s\<lparr>gs_health := Unhealthy\<rparr>)) (mem_devices w)\<rparr>"

lemma health_writer_leases: "lease_of (mem_view (health_writer w) n) = lease_of (mem_view w n)"
proof -
  have "map_of (map (\<lambda>(n, s). (n, s\<lparr>gs_health := Unhealthy\<rparr>)) xs) n = map_option (\<lambda>s. s\<lparr>gs_health := Unhealthy\<rparr>) (map_of xs n)"
    for xs :: "(string \<times> flash_gpu_device_status) list"
    by (induction xs) auto
  then show ?thesis by (cases "map_of (mem_devices w) n") (simp_all add: health_writer_def mem_view_def lease_of_def)
qed

lemma cancelled_run:
  "\<exists>w'. reconcile_job (mem_api health_writer) cancelled_a 100 (mem_with (held_by job_a 20) []) = (Inr Await_Change, w')"
  by (simp add: cancelled_a_def reconcile_job_def release_assignment_def release_device_assignment_def
      patch_job_status_def remove_finalizer_def ebind_def mem_eval health_writer_def
      mem_patch_status_def mem_update_job_def job_status_patch_def default_gpu_job_status_def job_attempts_def)

theorem reconcile_job_releases_witness:
  "\<exists>w'. reconcile_job (mem_api health_writer) cancelled_a 100 (mem_with (held_by job_a 20) []) = (Inr Await_Change, w') \<and>
     unheld cancelled_a ''g1'' (mem_view w')"
proof -
  obtain w' where run: "reconcile_job (mem_api health_writer) cancelled_a 100 (mem_with (held_by job_a 20) []) = (Inr Await_Change, w')"
    using cancelled_run by blast
  have rely: "\<forall>w. unheld cancelled_a n (mem_view w) \<longrightarrow> unheld cancelled_a n (mem_view (health_writer w))" for n
    by (simp add: unheld_def health_writer_leases)
  show ?thesis
    using reconcile_job_releases [OF mem_store.gpu_store_axioms rely _ _ run] run
    by (simp add: cancelled_a_def job_a_def)
qed

text \<open>
  C39. The renewal does not check whose lease it replaces. On every server: when the pass has found the assignment valid, the assignment
  ends within 30 seconds, and the device is leased to another job until after the time of the pass when the renewal reads it again, then a renewal
  that succeeds has overwritten that lease with one of its own job, which is not a legal step.
\<close>

theorem renew_assignment_unchecked:
  assumes "gpu_store api cur land"
    and "assignment_is_valid api j a now w = (Inr True, w1)"
    and "i64_saturating_sub (ga_lease_expires_at a) now \<le> 30"
    and "lease_of (cur (land w1) (ga_inventory_name a)) = Some r" and "\<not> own_lease j r" and "now < rs_lease_expires_at r"
    and "renew_assignment api j a now w1 = (Inr a', w')"
  shows "fresh_lease j now (lease_of (cur w' (ga_inventory_name a))) \<and>
    \<not> lease_step j now (Some r) (lease_of (cur w' (ga_inventory_name a)))"
proof -
  have "fresh_lease j now (lease_of (cur w' (ga_inventory_name a)))"
    using assms(3,7) gpu_store.get_reads [OF assms(1)] gpu_store.replace_swaps [OF assms(1)]
    by (fastforce simp: renew_assignment_def reserve_device_def GPU_LEASE_RENEW_SECONDS_def Let_def lease_of_def elim!: ebind_Inr)
  then show ?thesis
    using assms(5,6) by (auto simp: lease_step_def takeable_def fresh_lease_def)
qed

lemma overtaken_run:
  "\<exists>a' w1 w'. assignment_is_valid (mem_api mem_land) job_a (the (Option.bind (job_status job_a) js_assignment)) 100
       (mem_with (held_by job_a 20) [None, Some (''g1'', held_by job_b 120)]) = (Inr True, w1) \<and>
     mem_view (mem_land w1) ''g1'' = Some (stored_device ''g1'' (held_by job_b 120)) \<and>
     renew_assignment (mem_api mem_land) job_a (the (Option.bind (job_status job_a) js_assignment)) 100 w1 = (Inr a', w')"
  by (simp add: assignment_is_valid_def renew_assignment_def reserve_device_def ebind_def mem_eval stored_device_def sample_device_def
      device_visible_to_def)

theorem renew_assignment_unchecked_witness:
  "\<exists>a' w1 w'. renew_assignment (mem_api mem_land) job_a (the (Option.bind (job_status job_a) js_assignment)) 100 w1 = (Inr a', w') \<and>
     lease_of (mem_view (mem_land w1) ''g1'') = Some (job_reservation job_b 120) \<and>
     fresh_lease job_a 100 (lease_of (mem_view w' ''g1''))"
proof -
  obtain a' w1 w' where valid: "assignment_is_valid (mem_api mem_land) job_a (the (Option.bind (job_status job_a) js_assignment)) 100
       (mem_with (held_by job_a 20) [None, Some (''g1'', held_by job_b 120)]) = (Inr True, w1)"
    and found: "mem_view (mem_land w1) ''g1'' = Some (stored_device ''g1'' (held_by job_b 120))"
    and run: "renew_assignment (mem_api mem_land) job_a (the (Option.bind (job_status job_a) js_assignment)) 100 w1 = (Inr a', w')"
    using overtaken_run by blast
  have lease: "lease_of (mem_view (mem_land w1) ''g1'') = Some (job_reservation job_b 120)"
    using found by (simp add: lease_of_def held_by_def)
  have "ga_inventory_name (the (Option.bind (job_status job_a) js_assignment)) = ''g1''" by (simp add: job_a_def)
  then show ?thesis
    using renew_assignment_unchecked [OF mem_store.gpu_store_axioms valid _ _ _ _ run, of "job_reservation job_b 120"] run lease
    by (auto simp: job_a_def job_b_def job_reservation_def own_lease_def sample_job_def sample_meta_def unwrap_or_def job_namespace_def
        GPU_LEASE_SECONDS_def i64_saturating_add_def i64_saturating_sub_def i64_max_def i64_min_def)
qed

text \<open>
  A renewal keeps the lease alive until the next pass: the assignment that it returns expires
  more than 30 seconds from now, and the next pass is queued in 30 seconds.
\<close>

lemma renew_assignment_outlives:
  assumes "renew_assignment api j a now w = (Inr a', w')"
    and "now \<le> i64_max - GPU_LEASE_SECONDS"
  shows "now + GPU_LEASE_RENEW_SECONDS < ga_lease_expires_at a'"
  using assms
  by (auto simp: renew_assignment_def reserve_device_def ebind_def eret_def GPU_LEASE_RENEW_SECONDS_def
      GPU_LEASE_SECONDS_def i64_saturating_add_def i64_saturating_sub_def i64_max_def i64_min_def Let_def
      split: if_splits prod.splits sum.splits)

text \<open>
  The status patch of a job leaves nothing of the old status: merged into any status, it gives
  exactly the new one, so that a lost assignment and an old message disappear.
\<close>

lemma job_status_patch_complete:
  "apply_job_patch (job_status_patch j s) old = s \<and>
   pt_resource_version (job_status_patch j s) = meta_resource_version (job_meta j)"
  by (cases "meta_resource_version (job_meta j)")
     (simp_all add: apply_job_patch_def job_status_patch_def merge_field_def Let_def)

end
