(* ===== verification/Meter_Properties.thy ===== *)
theory Meter_Properties
  imports Metering
begin

text \<open>
  Correctness of the weekly meter: weeks, the projection of a service, the totals as sums over
  the services that are charged, the quota decision, and the durable usage record, whose store is
  the locale \<open>usage_store\<close>.
\<close>

section \<open>Weeks\<close>

lemma week_start_bounds:
  "utc_week_start t \<le> t" "t < utc_week_start t + WEEK_SECONDS"
proof -
  let ?s = "t - FIRST_MONDAY_AFTER_UNIX_EPOCH"
  have "?s div WEEK_SECONDS * WEEK_SECONDS + ?s mod WEEK_SECONDS = ?s" by simp
  moreover have "0 \<le> ?s mod WEEK_SECONDS" "?s mod WEEK_SECONDS < WEEK_SECONDS"
    by (simp_all add: WEEK_SECONDS_def)
  ultimately show "utc_week_start t \<le> t" "t < utc_week_start t + WEEK_SECONDS"
    unfolding utc_week_start_def by linarith+
qed

lemma week_start_unique:
  assumes "(s - FIRST_MONDAY_AFTER_UNIX_EPOCH) mod WEEK_SECONDS = 0" and "s \<le> t" and "t < s + WEEK_SECONDS"
  shows "utc_week_start t = s"
proof -
  from assms(1) obtain k where k: "s - FIRST_MONDAY_AFTER_UNIX_EPOCH = WEEK_SECONDS * k" by auto
  have "(t - FIRST_MONDAY_AFTER_UNIX_EPOCH) div WEEK_SECONDS = k"
    using assms(2,3) k by (intro int_div_pos_eq [of _ _ _ "t - s"]) (simp_all add: algebra_simps)
  with k show ?thesis by (simp add: utc_week_start_def algebra_simps)
qed

section \<open>Totals\<close>

lemmas add_defs = add_organization_def add_cloud_def add_member_def

lemma add_swap:
  "add_cloud u (add_organization v t) = add_organization v (add_cloud u t)"
  "add_cloud u (add_member v t) = add_member v (add_cloud u t)"
  "add_organization u (add_member v t) = add_member v (add_organization u t)"
  by (cases t; simp add: add_defs)+

lemma add_cloud_fold_organization:
  "add_cloud u (fold add_organization us t) = fold add_organization us (add_cloud u t)"
  by (induction us arbitrary: t) (simp_all add: add_swap)

lemma add_cloud_fold_member: "add_cloud u (fold add_member us t) = fold add_member us (add_cloud u t)"
  by (induction us arbitrary: t) (simp_all add: add_swap)

lemma add_organization_fold_member:
  "add_organization u (fold add_member us t) = fold add_member us (add_organization u t)"
  by (induction us arbitrary: t) (simp_all add: add_swap)

lemmas add_commute = add_cloud_fold_organization add_cloud_fold_member add_organization_fold_member

text \<open>Who is charged, as lists of usages.\<close>

definition week_records :: "i64 \<Rightarrow> flash_usage_record list \<Rightarrow> flash_usage_record_spec list" where
  "week_records week records =
     filter (\<lambda>r. wu_week_started_at (ur_usage r) = week) (map ur_spec records)"

definition chargeable :: "flash_service \<Rightarrow> string \<Rightarrow> bool" where
  "chargeable flash org \<longleftrightarrow> account_match flash org \<or> cloud_match flash org"

definition recorded_ids :: "flash_service \<Rightarrow> i64 \<Rightarrow> flash_usage_record list \<Rightarrow> string set" where
  "recorded_ids flash week records =
     ur_service_instance_id ` {r \<in> set (week_records week records). chargeable flash (ur_organization_id r)}"

definition unrecorded ::
  "flash_service \<Rightarrow> i64 \<Rightarrow> flash_usage_record list \<Rightarrow> flash_service list \<Rightarrow> flash_service list" where
  "unrecorded flash week records peers =
     filter (\<lambda>p. svc_service_instance_id (fsv_spec p) \<notin> recorded_ids flash week records) peers"

definition organization_usages ::
  "flash_service \<Rightarrow> i64 \<Rightarrow> i64 \<Rightarrow> flash_service list \<Rightarrow> flash_usage_record list \<Rightarrow> flash_weekly_usage list" where
  "organization_usages flash now week peers records =
     map ur_usage (filter (\<lambda>r. account_match flash (ur_organization_id r)) (week_records week records)) @
     map (\<lambda>p. projected_weekly_usage p now)
       (filter (\<lambda>p. account_match flash (svc_organization_id (fsv_spec p))) (unrecorded flash week records peers))"

definition cloud_usages ::
  "flash_service \<Rightarrow> i64 \<Rightarrow> i64 \<Rightarrow> flash_service list \<Rightarrow> flash_usage_record list \<Rightarrow> flash_weekly_usage list" where
  "cloud_usages flash now week peers records =
     map ur_usage (filter (\<lambda>r. cloud_match flash (ur_organization_id r)) (week_records week records)) @
     map (\<lambda>p. projected_weekly_usage p now)
       (filter (\<lambda>p. cloud_match flash (svc_organization_id (fsv_spec p))) (unrecorded flash week records peers))"

definition member_usages ::
  "flash_service \<Rightarrow> i64 \<Rightarrow> i64 \<Rightarrow> flash_service list \<Rightarrow> flash_usage_record list \<Rightarrow> flash_weekly_usage list" where
  "member_usages flash now week peers records =
     map ur_usage (filter (\<lambda>r. account_match flash (ur_organization_id r) \<and>
         member_record flash (service_owners peers) r) (week_records week records)) @
     map (\<lambda>p. projected_weekly_usage p now)
       (filter (\<lambda>p. account_match flash (svc_organization_id (fsv_spec p)) \<and> member_peer flash p)
         (unrecorded flash week records peers))"

lemma record_fold:
  "fst (fold (record_step flash week owners) records (t, ids)) =
     fold add_member (map ur_usage (filter (\<lambda>r. account_match flash (ur_organization_id r) \<and>
         member_record flash owners r) (week_records week records)))
      (fold add_organization (map ur_usage (filter (\<lambda>r. account_match flash (ur_organization_id r))
         (week_records week records)))
       (fold add_cloud (map ur_usage (filter (\<lambda>r. cloud_match flash (ur_organization_id r))
         (week_records week records))) t)) \<and>
   set (snd (fold (record_step flash week owners) records (t, ids))) =
     set ids \<union> recorded_ids flash week records"
proof (induction records rule: rev_induct)
  case Nil
  then show ?case by (simp add: week_records_def recorded_ids_def)
next
  case (snoc rec records)
  obtain t' ids' where st: "fold (record_step flash week owners) records (t, ids) = (t', ids')" by force
  have weeks: "week_records week (records @ [rec]) = week_records week records @
      (if wu_week_started_at (ur_usage (ur_spec rec)) = week then [ur_spec rec] else [])"
    by (simp add: week_records_def)
  have ids: "recorded_ids flash week (records @ [rec]) = recorded_ids flash week records \<union>
      (if wu_week_started_at (ur_usage (ur_spec rec)) = week \<and> chargeable flash (ur_organization_id (ur_spec rec))
       then {ur_service_instance_id (ur_spec rec)} else {})"
    by (auto simp: recorded_ids_def weeks)
  from snoc.IH show ?case
    unfolding st weeks ids fold_append
    by (auto simp: st record_step_def Let_def add_commute chargeable_def)
qed

lemma peer_fold:
  "fold (peer_step flash now recorded) peers t =
     fold add_member (map (\<lambda>p. projected_weekly_usage p now)
        (filter (\<lambda>p. account_match flash (svc_organization_id (fsv_spec p)) \<and> member_peer flash p)
          (filter (\<lambda>p. svc_service_instance_id (fsv_spec p) \<notin> set recorded) peers)))
      (fold add_organization (map (\<lambda>p. projected_weekly_usage p now)
         (filter (\<lambda>p. account_match flash (svc_organization_id (fsv_spec p)))
           (filter (\<lambda>p. svc_service_instance_id (fsv_spec p) \<notin> set recorded) peers)))
       (fold add_cloud (map (\<lambda>p. projected_weekly_usage p now)
          (filter (\<lambda>p. cloud_match flash (svc_organization_id (fsv_spec p)))
            (filter (\<lambda>p. svc_service_instance_id (fsv_spec p) \<notin> set recorded) peers))) t))"
  by (induction peers rule: rev_induct) (simp_all add: peer_step_def Let_def add_commute)

text \<open>Each total after a run of additions.\<close>

definition sat_sum :: "u64 list \<Rightarrow> u64" where
  "sat_sum xs = min (sum_list xs) u64_max"

lemma fold_add_sum:
  fixes get :: "weekly_totals \<Rightarrow> u64"
  assumes "\<And>u t. get (add u t) = u64_saturating_add (get t) (val u)"
  shows "get (fold add us t) = fold (\<lambda>u n. u64_saturating_add n (val u)) us (get t)"
  using assms by (induction us arbitrary: t) simp_all

lemma fold_add_other:
  fixes get :: "weekly_totals \<Rightarrow> u64"
  assumes "\<And>u t. get (add u t) = get t"
  shows "get (fold add us t) = get t"
  using assms by (induction us arbitrary: t) simp_all

lemma saturated_twice:
  "fold (\<lambda>u n. u64_saturating_add n (f u)) ys (fold (\<lambda>u n. u64_saturating_add n (f u)) xs 0)
     = sat_sum (map f (xs @ ys))"
  unfolding sat_sum_def fold_append [symmetric, unfolded comp_def, THEN fun_cong]
  by (subst fold_saturating_add) simp_all

lemmas fold_add_fields =
  fold_add_sum [of organization_cpu add_organization wu_cpu_millicore_seconds]
  fold_add_sum [of organization_memory add_organization wu_memory_mib_seconds]
  fold_add_sum [of organization_gpu add_organization wu_gpu_seconds]
  fold_add_sum [of cloud_organization_cpu add_cloud wu_cpu_millicore_seconds]
  fold_add_sum [of cloud_organization_memory add_cloud wu_memory_mib_seconds]
  fold_add_sum [of cloud_organization_gpu add_cloud wu_gpu_seconds]
  fold_add_sum [of member_cpu add_member wu_cpu_millicore_seconds]
  fold_add_sum [of member_memory add_member wu_memory_mib_seconds]
  fold_add_sum [of member_gpu add_member wu_gpu_seconds]
  fold_add_other [of organization_cpu add_cloud] fold_add_other [of organization_cpu add_member]
  fold_add_other [of organization_memory add_cloud] fold_add_other [of organization_memory add_member]
  fold_add_other [of organization_gpu add_cloud] fold_add_other [of organization_gpu add_member]
  fold_add_other [of cloud_organization_cpu add_organization] fold_add_other [of cloud_organization_cpu add_member]
  fold_add_other [of cloud_organization_memory add_organization] fold_add_other [of cloud_organization_memory add_member]
  fold_add_other [of cloud_organization_gpu add_organization] fold_add_other [of cloud_organization_gpu add_member]
  fold_add_other [of member_cpu add_cloud] fold_add_other [of member_cpu add_organization]
  fold_add_other [of member_memory add_cloud] fold_add_other [of member_memory add_organization]
  fold_add_other [of member_gpu add_cloud] fold_add_other [of member_gpu add_organization]

lemma weekly_totals_sums:
  "weekly_totals_of flash now week peers records =
     (let org = organization_usages flash now week peers records;
          cloud = cloud_usages flash now week peers records;
          member = member_usages flash now week peers records
      in \<lparr>organization_cpu = sat_sum (map wu_cpu_millicore_seconds org),
          organization_memory = sat_sum (map wu_memory_mib_seconds org),
          organization_gpu = sat_sum (map wu_gpu_seconds org),
          cloud_organization_cpu = sat_sum (map wu_cpu_millicore_seconds cloud),
          cloud_organization_memory = sat_sum (map wu_memory_mib_seconds cloud),
          cloud_organization_gpu = sat_sum (map wu_gpu_seconds cloud),
          member_cpu = sat_sum (map wu_cpu_millicore_seconds member),
          member_memory = sat_sum (map wu_memory_mib_seconds member),
          member_gpu = sat_sum (map wu_gpu_seconds member)\<rparr>)"
proof -
  obtain t ids where st: "fold (record_step flash week (service_owners peers)) records (default_weekly_totals, []) = (t, ids)"
    by force
  note rf = record_fold [of flash week "service_owners peers" records default_weekly_totals "[]", unfolded st fst_conv snd_conv]
  have fresh: "filter (\<lambda>p. svc_service_instance_id (fsv_spec p) \<notin> set ids) peers = unrecorded flash week records peers"
    using rf by (simp add: unrecorded_def)
  have "weekly_totals_of flash now week peers records = fold (peer_step flash now ids) peers t"
    by (simp add: weekly_totals_of_def st)
  then show ?thesis
    unfolding peer_fold fresh conjunct1 [OF rf] Let_def
    by (intro weekly_totals.equality)
       (simp_all add: fold_add_fields add_defs default_weekly_totals_def saturated_twice
         organization_usages_def cloud_usages_def member_usages_def)
qed

section \<open>The projection\<close>

text \<open>The status after the controller has stored a meter.\<close>

definition store_usage :: "flash_weekly_usage \<Rightarrow> flash_service \<Rightarrow> flash_service" where
  "store_usage u flash =
     flash\<lparr>fsv_status := map_option (\<lambda>s. s\<lparr>st_weekly_usage := Some u\<rparr>) (fsv_status flash)\<rparr>"

lemma charged_store_usage [simp]:
  "charged_cpu (store_usage u flash) = charged_cpu flash"
  "charged_memory (store_usage u flash) = charged_memory flash"
  "charged_gpu (store_usage u flash) = charged_gpu flash"
  "fsv_spec (store_usage u flash) = fsv_spec flash"
  by (cases "fsv_status flash";
      simp add: store_usage_def charged_cpu_def charged_memory_def charged_gpu_def ready_replicas_of_def)+

text \<open>The seconds that are charged at \<open>now\<close> when the last metering of the week was at \<open>t0\<close>.\<close>

lemma elapsed_in_week:
  assumes "utc_week_start now \<le> t0" and "t0 \<le> now"
  shows "u64_of_i64 (i64_saturating_sub now (min (max t0 (utc_week_start now)) now)) = nat (now - t0)"
proof -
  have "now - t0 < WEEK_SECONDS" using assms(1) week_start_bounds [of now] by linarith
  with assms show ?thesis
    by (simp add: u64_of_i64_def u64_try_from_i64_def unwrap_or_def i64_saturating_sub_def
        i64_max_def i64_min_def WEEK_SECONDS_def)
qed

lemma projected_with_previous:
  assumes "fsv_status flash = Some s" and "st_weekly_usage s = Some u"
    and "wu_week_started_at u = utc_week_start now" and "utc_week_start now \<le> wu_last_metered_at u"
    and "wu_last_metered_at u \<le> now"
  shows "projected_weekly_usage flash now =
    (let e = nat (now - wu_last_metered_at u); policy = svc_policy (fsv_spec flash)
     in \<lparr>wu_week_started_at = utc_week_start now,
         wu_cpu_millicore_seconds = u64_saturating_add (wu_cpu_millicore_seconds u) (e * charged_cpu flash),
         wu_memory_mib_seconds = u64_saturating_add (wu_memory_mib_seconds u) (e * charged_memory flash),
         wu_gpu_seconds = u64_saturating_add (wu_gpu_seconds u) (e * charged_gpu flash),
         wu_last_metered_at = now,
         wu_max_cpu_millicore_seconds = pol_cpu_millicore_seconds policy,
         wu_max_memory_mib_seconds = pol_memory_mib_seconds policy,
         wu_max_gpu_seconds = pol_gpu_seconds policy\<rparr>)"
  unfolding projected_weekly_usage_def Let_def u64_saturating_add_mul
  using assms elapsed_in_week [OF assms(4,5)]
  by (simp add: filter_opt_def or_else_def unwrap_or_def)

lemma project_twice:
  assumes "fsv_status flash = Some s" and "st_weekly_usage s = Some u"
    and "wu_week_started_at u = utc_week_start t1" and "utc_week_start t2 = utc_week_start t1"
    and "utc_week_start t1 \<le> wu_last_metered_at u" and "wu_last_metered_at u \<le> t1" and "t1 \<le> t2"
  shows "projected_weekly_usage (store_usage (projected_weekly_usage flash t1) flash) t2 =
    projected_weekly_usage flash t2"
proof -
  let ?u1 = "projected_weekly_usage flash t1"
  have u1: "?u1 =
    (let e = nat (t1 - wu_last_metered_at u); policy = svc_policy (fsv_spec flash)
     in \<lparr>wu_week_started_at = utc_week_start t1,
         wu_cpu_millicore_seconds = u64_saturating_add (wu_cpu_millicore_seconds u) (e * charged_cpu flash),
         wu_memory_mib_seconds = u64_saturating_add (wu_memory_mib_seconds u) (e * charged_memory flash),
         wu_gpu_seconds = u64_saturating_add (wu_gpu_seconds u) (e * charged_gpu flash),
         wu_last_metered_at = t1,
         wu_max_cpu_millicore_seconds = pol_cpu_millicore_seconds policy,
         wu_max_memory_mib_seconds = pol_memory_mib_seconds policy,
         wu_max_gpu_seconds = pol_gpu_seconds policy\<rparr>)"
    using assms by (intro projected_with_previous) auto
  have stored: "fsv_status (store_usage ?u1 flash) = Some (s\<lparr>st_weekly_usage := Some ?u1\<rparr>)"
    using assms(1) by (simp add: store_usage_def)
  have "nat (t2 - wu_last_metered_at u) = nat (t1 - wu_last_metered_at u) + nat (t2 - t1)"
    using assms(6,7) by simp
  then have split: "u64_saturating_add (u64_saturating_add a (nat (t1 - wu_last_metered_at u) * c)) (nat (t2 - t1) * c)
      = u64_saturating_add a (nat (t2 - wu_last_metered_at u) * c)" for a c
    by (simp add: u64_saturating_add_assoc add_mult_distrib)
  have "projected_weekly_usage (store_usage ?u1 flash) t2 =
    (let e = nat (t2 - t1); policy = svc_policy (fsv_spec flash)
     in \<lparr>wu_week_started_at = utc_week_start t2,
         wu_cpu_millicore_seconds = u64_saturating_add (wu_cpu_millicore_seconds ?u1) (e * charged_cpu flash),
         wu_memory_mib_seconds = u64_saturating_add (wu_memory_mib_seconds ?u1) (e * charged_memory flash),
         wu_gpu_seconds = u64_saturating_add (wu_gpu_seconds ?u1) (e * charged_gpu flash),
         wu_last_metered_at = t2,
         wu_max_cpu_millicore_seconds = pol_cpu_millicore_seconds policy,
         wu_max_memory_mib_seconds = pol_memory_mib_seconds policy,
         wu_max_gpu_seconds = pol_gpu_seconds policy\<rparr>)"
    using projected_with_previous [OF stored, of ?u1 t2] assms week_start_bounds(1) [of t1]
    by (simp add: u1 Let_def)
  also have "\<dots> = projected_weekly_usage flash t2"
    using projected_with_previous [OF assms(1,2), of t2] assms by (simp add: u1 Let_def split)
  finally show ?thesis .
qed

section \<open>The usage record\<close>

locale usage_store =
  fixes api :: "'w meter_api"
    and rview :: "'w \<Rightarrow> string \<Rightarrow> flash_usage_record_spec option"
  assumes get_ok: "api_record_get_opt api n w = (Inr r, w') \<Longrightarrow> rview w' = rview w \<and> rview w n = map_option ur_spec r"
    and get_err: "api_record_get_opt api n w = (Inl e, w') \<Longrightarrow> rview w' = rview w"
    and apply_ok: "api_record_apply api n s w = (Inr u, w') \<Longrightarrow> rview w' = (rview w)(n \<mapsto> s)"
    and apply_err: "api_record_apply api n s w = (Inl e, w') \<Longrightarrow> rview w' = rview w"
    and services_frame: "rview (snd (api_services_list api w)) = rview w"
    and records_frame: "rview (snd (api_records_list api w)) = rview w"

text \<open>Two meters of the same service in order: in the same week no counter is smaller.\<close>

definition usage_le :: "flash_weekly_usage \<Rightarrow> flash_weekly_usage \<Rightarrow> bool" where
  "usage_le u v \<longleftrightarrow>
     wu_week_started_at u \<noteq> wu_week_started_at v \<or>
     wu_cpu_millicore_seconds u \<le> wu_cpu_millicore_seconds v \<and>
     wu_memory_mib_seconds u \<le> wu_memory_mib_seconds v \<and> wu_gpu_seconds u \<le> wu_gpu_seconds v"

lemma usage_le_refl [simp]: "usage_le u u"
  by (simp add: usage_le_def)

lemma raise_to_record_ge:
  "usage_le (ur_usage r) (raise_to_record r u)" "usage_le u (raise_to_record r u)"
  by (auto simp: usage_le_def raise_to_record_def)

context usage_store
begin

definition grown :: "string \<Rightarrow> (string \<Rightarrow> flash_usage_record_spec option) \<Rightarrow> 'w \<Rightarrow> bool" where
  "grown n start w \<longleftrightarrow>
     (\<forall>m. m \<noteq> n \<longrightarrow> rview w m = start m) \<and>
     (\<forall>r. start n = Some r \<longrightarrow> (\<exists>r'. rview w n = Some r' \<and> usage_le (ur_usage r) (ur_usage r')))"

lemma ekube_gives: "gives P m Q E \<Longrightarrow> gives P (ekube m) Q E"
  unfolding ekube_def by (erule gives_match) (auto intro: effect_rules)

lemma meter_weekly_usage_grown:
  assumes "n = meta_name (fsv_meta flash)"
  shows "gives (\<lambda>w. rview w = start) (meter_weekly_usage api flash now)
     (\<lambda>m w. grown n start w \<and> rview w n = Some (usage_record_of flash (wm_usage m)))
     (grown n start)"
proof -
  let ?u0 = "projected_weekly_usage flash now"
  let ?ok = "\<lambda>u. (\<forall>r. start n = Some r \<longrightarrow> usage_le (ur_usage r) u)"
  have frame: "grown n start w" if "rview w = start" for w
    using that by (auto simp: grown_def intro: exI [of _ "_ :: flash_usage_record_spec"])
  have read: "gives (\<lambda>w. rview w = start) (ekube (api_record_get_opt api n))
      (\<lambda>found w. rview w = start \<and> start n = map_option ur_spec found) (grown n start)"
    using frame by (intro ekube_gives) (auto simp: gives_def dest: get_ok get_err)
  have choose: "gives (\<lambda>w. rview w = start \<and> start n = map_option ur_spec found)
      (case found of None \<Rightarrow> eret ?u0
       | Some rec \<Rightarrow> if ur_service_instance_id (ur_spec rec) \<noteq> svc_service_instance_id (fsv_spec flash) \<or>
            ur_organization_id (ur_spec rec) \<noteq> svc_organization_id (fsv_spec flash)
          then efail (Resource ''usage record identity does not match FlashService'')
          else eret (raise_to_record (ur_spec rec) ?u0))
      (\<lambda>u w. rview w = start \<and> ?ok u) (grown n start)" for found
    using frame
    by (cases found) (auto intro!: effect_rules simp: raise_to_record_ge)
  have wrote: "gives (\<lambda>w. rview w = start \<and> ?ok u) (ekube (api_record_apply api n (usage_record_of flash u)))
      (\<lambda>_ w. grown n start w \<and> rview w n = Some (usage_record_of flash u)) (grown n start)" for u
    using frame
    by (intro ekube_gives)
       (auto simp: gives_def grown_def usage_record_of_def Let_def dest!: apply_ok apply_err)
  have lists: "gives (\<lambda>w. grown n start w \<and> rview w n = x) (ekube m)
      (\<lambda>_ w. grown n start w \<and> rview w n = x) (grown n start)"
    if "\<And>w. rview (snd (m w)) = rview w" for x and m :: "('w, kube_error, 'b) effect"
    using that by (intro ekube_gives) (auto simp: gives_def grown_def, (metis snd_conv)+)
  show ?thesis
    unfolding meter_weekly_usage_def Let_def assms [symmetric]
    apply (rule gives_bind [OF read])
    apply (rule gives_bind [OF choose])
    apply (rule gives_bind)
     apply (rule gives_pre [OF wrote])
     apply (simp add: usage_le_def)
    apply (rule gives_bind [OF lists [OF services_frame]])
    apply (rule gives_bind [OF lists [OF records_frame]])
    apply (rule gives_ret)
    apply (simp add: weekly_meter_of_def Let_def)
    done
qed

end

context usage_store
begin

lemma meter_weekly_usage_record:
  assumes "rview w (meta_name (fsv_meta flash)) = Some old"
    and "meter_weekly_usage api flash now w = (r, w')"
  shows "(\<exists>new. rview w' (meta_name (fsv_meta flash)) = Some new \<and> usage_le (ur_usage old) (ur_usage new)) \<and>
    (\<forall>m. m \<noteq> meta_name (fsv_meta flash) \<longrightarrow> rview w' m = rview w m) \<and>
    (\<forall>meter. r = Inr meter \<longrightarrow>
       rview w' (meta_name (fsv_meta flash)) = Some (usage_record_of flash (wm_usage meter)))"
proof -
  note g = meter_weekly_usage_grown [OF refl, of "rview w" flash now]
  have "grown (meta_name (fsv_meta flash)) (rview w) w'"
    using gives_Inr [OF g refl] gives_Inl [OF g refl] assms(2) by (cases r) auto
  moreover have "rview w' (meta_name (fsv_meta flash)) = Some (usage_record_of flash (wm_usage meter))"
    if "r = Inr meter" for meter
    using gives_Inr [OF g refl] assms(2) that by auto
  ultimately show ?thesis using assms(1) by (auto simp: grown_def)
qed

end

section \<open>A server that keeps the contract\<close>

record usage_mem =
  um_records :: "(string \<times> flash_usage_record_spec) list"
  um_services :: "flash_service list"

definition plain_meta :: "string \<Rightarrow> object_meta" where
  "plain_meta n =
     \<lparr>meta_name = n, meta_namespace = None, meta_resource_version = None, meta_deletion_timestamp = None,
      meta_finalizers = [], meta_annotations = [], meta_uid = None, meta_generation = None\<rparr>"

definition record_named :: "string \<Rightarrow> flash_usage_record_spec \<Rightarrow> flash_usage_record" where
  "record_named n s = \<lparr>ur_meta = plain_meta n, ur_spec = s\<rparr>"

definition usage_mem_api :: "usage_mem meter_api" where
  "usage_mem_api =
     \<lparr>api_services_list = (\<lambda>w. (Inr (um_services w), w)),
      api_record_get_opt = (\<lambda>n w. (Inr (map_option (record_named n) (map_of (um_records w) n)), w)),
      api_record_apply = (\<lambda>n s w. (Inr (), w\<lparr>um_records := (n, s) # um_records w\<rparr>)),
      api_records_list =
        (\<lambda>w. (Inr (List.map_filter (\<lambda>n. map_option (record_named n) (map_of (um_records w) n))
                     (remdups (map fst (um_records w)))), w))\<rparr>"

interpretation usage_mem_store: usage_store usage_mem_api "\<lambda>w. map_of (um_records w)"
  by unfold_locales
     (auto simp: usage_mem_api_def record_named_def option.map_comp comp_def option.map_ident)

section \<open>Properties\<close>

definition sample_flash_spec :: flash_spec where
  "sample_flash_spec =
     \<lparr>fs_region = ''jp'', fs_image = ''nginx'', fs_deployment = None, fs_task_role = None,
      fs_replicas = 1, fs_stopped = False, fs_autoscaling = None,
      fs_cpu_millis = 250, fs_memory_mib = 128, fs_gpu_type = None, fs_gpu_count = 1,
      fs_ephemeral_storage_gib = 10, fs_rootfs_storage_gib = None, fs_persistent_storage_gib = None,
      fs_restore_from_backup_id = None, fs_ports = [],
      fs_exposure = \<lparr>ex_endpoint_mode = Ip, ex_kind = Public, ex_traffic_mode = Direct,
        ex_allowed_source_cidrs = [], ex_denied_source_cidrs = [], ex_authentication = None\<rparr>,
      fs_egress = default_flash_egress, fs_network = None, fs_env = [], fs_secret_env = [],
      fs_secret_files = [], fs_command = [], fs_args = [], fs_metadata = []\<rparr>"

definition sample_usage :: flash_weekly_usage where
  "sample_usage =
     \<lparr>wu_week_started_at = 345600, wu_cpu_millicore_seconds = 1000, wu_memory_mib_seconds = 2000,
      wu_gpu_seconds = 10, wu_last_metered_at = 345700, wu_max_cpu_millicore_seconds = 0,
      wu_max_memory_mib_seconds = 0, wu_max_gpu_seconds = 0\<rparr>"

definition sample_flash :: flash_service where
  "sample_flash =
     \<lparr>fsv_meta = plain_meta ''svc'',
      fsv_spec = \<lparr>svc_desired_generation = 1, svc_display_name = ''web'', svc_organization_id = ''acme'',
        svc_project_id = ''p'', svc_service_instance_id = ''svc'', svc_subject_id = None,
        svc_quota_user_id = None, svc_policy = default_flash_service_policy, svc_workload = sample_flash_spec\<rparr>,
      fsv_status = Some (default_flash_service_status
        \<lparr>st_ready_replicas := 2, st_weekly_usage := Some sample_usage\<rparr>)\<rparr>"

text \<open>
  The week of a timestamp is the one that began on a Monday at midnight and contains it, and it
  is the only one: the start is at most the timestamp, less than a week before it, a whole number of
  weeks after the first Monday of the epoch, and any other start with these properties is equal.
\<close>

theorem utc_week_start_correct:
  "utc_week_start t \<le> t \<and> t < utc_week_start t + WEEK_SECONDS \<and>
   (utc_week_start t - FIRST_MONDAY_AFTER_UNIX_EPOCH) mod WEEK_SECONDS = 0 \<and>
   (\<forall>s. (s - FIRST_MONDAY_AFTER_UNIX_EPOCH) mod WEEK_SECONDS = 0 \<longrightarrow> s \<le> t \<longrightarrow> t < s + WEEK_SECONDS \<longrightarrow>
        s = utc_week_start t)"
  using week_start_bounds [of t] week_start_unique [of _ t] by (auto simp: utc_week_start_def)

theorem utc_week_start_correct_witness:
  "utc_week_start 345700 = 345600"
proof -
  note unique = utc_week_start_correct [of 345700, THEN conjunct2, THEN conjunct2, THEN conjunct2,
      THEN spec, of 345600]
  then have "345600 = utc_week_start 345700"
    by (simp add: FIRST_MONDAY_AFTER_UNIX_EPOCH_def WEEK_SECONDS_def)
  then show ?thesis by (rule sym)
qed

text \<open>
  Metering is additive: with the same allocation, metering at a time, storing the result and
  metering again later in the week gives exactly what one metering at the later time gives, also when
  a counter saturates. How often the controller runs does not change the charge.
\<close>

theorem projected_weekly_usage_additive:
  assumes "fsv_status flash = Some s" and "st_weekly_usage s = Some u"
    and "wu_week_started_at u = utc_week_start t1" and "utc_week_start t2 = utc_week_start t1"
    and "utc_week_start t1 \<le> wu_last_metered_at u" and "wu_last_metered_at u \<le> t1" and "t1 \<le> t2"
  shows "projected_weekly_usage (store_usage (projected_weekly_usage flash t1) flash) t2 =
    projected_weekly_usage flash t2"
  using assms by (rule project_twice)

theorem projected_weekly_usage_additive_witness:
  "projected_weekly_usage (store_usage (projected_weekly_usage sample_flash 345730) sample_flash) 345760 =
     projected_weekly_usage sample_flash 345760"
  by (rule projected_weekly_usage_additive [of _ "default_flash_service_status
        \<lparr>st_ready_replicas := 2, st_weekly_usage := Some sample_usage\<rparr>" sample_usage])
     (simp_all add: sample_flash_def sample_usage_def utc_week_start_def WEEK_SECONDS_def
       FIRST_MONDAY_AFTER_UNIX_EPOCH_def)

text \<open>
  C30. The totals are the sums, cut off at the largest counter, over the services that are charged:
  the usage records of this week of the organization (of the accounts of the cloud organization, of
  the member), and the projections of the services of the organization (accounts, member) that have
  no such record. A service with a record is not counted a second time.
\<close>

theorem weekly_totals_correct:
  "weekly_totals_of flash now week peers records =
     (let org = organization_usages flash now week peers records;
          cloud = cloud_usages flash now week peers records;
          member = member_usages flash now week peers records
      in \<lparr>organization_cpu = sat_sum (map wu_cpu_millicore_seconds org),
          organization_memory = sat_sum (map wu_memory_mib_seconds org),
          organization_gpu = sat_sum (map wu_gpu_seconds org),
          cloud_organization_cpu = sat_sum (map wu_cpu_millicore_seconds cloud),
          cloud_organization_memory = sat_sum (map wu_memory_mib_seconds cloud),
          cloud_organization_gpu = sat_sum (map wu_gpu_seconds cloud),
          member_cpu = sat_sum (map wu_cpu_millicore_seconds member),
          member_memory = sat_sum (map wu_memory_mib_seconds member),
          member_gpu = sat_sum (map wu_gpu_seconds member)\<rparr>)"
  by (rule weekly_totals_sums)

text \<open>
  The quota decision and the quota that is handed to the scheduler agree: for a service with a
  GPU, the GPU quota is exhausted exactly when no second of GPU time remains, that is, when the
  organization, its cloud organization or the member has reached its limit.
\<close>

theorem gpu_exhausted_iff_nothing_remains:
  assumes "0 < effective_gpu_count (svc_workload (fsv_spec flash))"
  shows "wm_gpu_exhausted (weekly_meter_of flash now usage totals) \<longleftrightarrow>
    wm_gpu_remaining_seconds (weekly_meter_of flash now usage totals) = 0"
  using assms
  by (auto simp: weekly_meter_of_def Let_def u64_saturating_sub_def min_def u64_max_def
      split: option.splits if_splits)

theorem gpu_exhausted_iff_nothing_remains_witness:
  "wm_gpu_exhausted (weekly_meter_of sample_flash 345760 sample_usage
       (default_weekly_totals\<lparr>organization_gpu := 31536000\<rparr>)) \<and>
   wm_gpu_remaining_seconds (weekly_meter_of sample_flash 345760 sample_usage
       (default_weekly_totals\<lparr>organization_gpu := 31536000\<rparr>)) = 0"
proof -
  have gpu: "0 < effective_gpu_count (svc_workload (fsv_spec sample_flash))"
    by (simp add: sample_flash_def sample_flash_spec_def effective_gpu_count_def)
  have "wm_gpu_remaining_seconds (weekly_meter_of sample_flash 345760 sample_usage
       (default_weekly_totals\<lparr>organization_gpu := 31536000\<rparr>)) = 0"
    by (simp add: weekly_meter_of_def Let_def sample_flash_def default_flash_service_policy_def
        MAX_WEEKLY_GPU_SECONDS_def u64_saturating_sub_def)
  with gpu_exhausted_iff_nothing_remains [OF gpu] show ?thesis by simp
qed

text \<open>
  C8. Usage that was recorded is never lost: whatever a metering returns, the durable record of the
  service keeps its counters or raises them within a week, the records of other services do not
  change, and when the metering succeeds the record holds the meter that it returns.
\<close>

theorem meter_weekly_usage_durable:
  assumes "usage_store api rview" and "rview w (meta_name (fsv_meta flash)) = Some old"
    and "meter_weekly_usage api flash now w = (r, w')"
  shows "(\<exists>new. rview w' (meta_name (fsv_meta flash)) = Some new \<and> usage_le (ur_usage old) (ur_usage new)) \<and>
    (\<forall>m. m \<noteq> meta_name (fsv_meta flash) \<longrightarrow> rview w' m = rview w m) \<and>
    (\<forall>meter. r = Inr meter \<longrightarrow>
       rview w' (meta_name (fsv_meta flash)) = Some (usage_record_of flash (wm_usage meter)))"
  using usage_store.meter_weekly_usage_record [OF assms] .

definition sample_usage_mem :: usage_mem where
  "sample_usage_mem =
     \<lparr>um_records = [(''svc'', usage_record_of sample_flash sample_usage)], um_services = [sample_flash]\<rparr>"

theorem meter_weekly_usage_durable_witness:
  "\<exists>new. map_of (um_records (snd (meter_weekly_usage usage_mem_api sample_flash 345760 sample_usage_mem))) ''svc'' = Some new \<and>
     usage_le sample_usage (ur_usage new)"
proof -
  obtain r w' where run: "meter_weekly_usage usage_mem_api sample_flash 345760 sample_usage_mem = (r, w')" by force
  have name: "meta_name (fsv_meta sample_flash) = ''svc''" by (simp add: sample_flash_def plain_meta_def)
  have old: "map_of (um_records sample_usage_mem) (meta_name (fsv_meta sample_flash)) =
      Some (usage_record_of sample_flash sample_usage)"
    by (simp add: sample_usage_mem_def name)
  have "ur_usage (usage_record_of sample_flash sample_usage) = sample_usage"
    by (simp add: usage_record_of_def Let_def)
  with meter_weekly_usage_durable [OF usage_mem_store.usage_store_axioms old run] run show ?thesis
    by (simp add: name)
qed

end
