(* ===== verification/Storage_Properties.thy ===== *)
theory Storage_Properties
  imports Storage
begin

text \<open>
  Correctness of the disk: the sum of an image, the split of the writable part with an existing
  home that must never shrink, and the reading of quantities.
\<close>

lemmas storage_limits =
  MIB_BYTES_def MIN_PERSISTENT_STORAGE_BYTES_def MIN_ROOTFS_STORAGE_BYTES_def
  MAX_ROOTFS_STORAGE_BYTES_def GIB_BYTES_def

section \<open>Images\<close>

lemma add_descriptor_Inr:
  "add_descriptor d t = Inr n \<longleftrightarrow> 0 \<le> oci_size d \<and> n = t + nat (oci_size d) \<and> n \<le> u64_max"
  by (auto simp: add_descriptor_def result_simps u64_try_from_i64_def u64_checked_add_def)

lemma manifest_fold:
  "try_fold add_descriptor ds t = Inr n \<longleftrightarrow>
   list_all (\<lambda>d. 0 \<le> oci_size d) ds \<and> n = t + sum_list (map (\<lambda>d. nat (oci_size d)) ds) \<and>
   (ds = [] \<or> n \<le> u64_max)"
proof (induction ds arbitrary: t)
  case Nil
  then show ?case by auto
next
  case (Cons d ds)
  have "try_fold add_descriptor (d # ds) t = Inr n \<longleftrightarrow>
      0 \<le> oci_size d \<and> t + nat (oci_size d) \<le> u64_max \<and>
      try_fold add_descriptor ds (t + nat (oci_size d)) = Inr n"
    by (auto simp: bindR_Inr add_descriptor_Inr)
  then show ?case unfolding Cons.IH by auto
qed

section \<open>The split\<close>

lemma requested_bytes_Inr:
  "requested_bytes gib = Inr r \<Longrightarrow>
     (case gib of None \<Rightarrow> r = None | Some g \<Rightarrow> r = Some (g * GIB_BYTES) \<and> g * GIB_BYTES \<le> u64_max)"
  by (cases gib) (auto simp: requested_bytes_def bindR_Inr ok_or_Inr u64_checked_mul_def split: if_splits)

lemma check_split_Inr:
  "check_split writable rootfs home = Inr a \<longleftrightarrow>
     a = \<lparr>rootfs_bytes = rootfs, persistent_bytes = home\<rparr> \<and> MIN_ROOTFS_STORAGE_BYTES \<le> rootfs \<and>
     MIN_PERSISTENT_STORAGE_BYTES \<le> home \<and> rootfs + home \<le> writable \<and> rootfs + home \<le> u64_max"
  by (auto simp: check_split_def u64_checked_add_def)

lemma storage_allocation_persistent:
  assumes "storage_allocation_of writable True rootfs_gib persistent_gib = Inr a"
  shows "MIN_ROOTFS_STORAGE_BYTES \<le> rootfs_bytes a" and "MIN_PERSISTENT_STORAGE_BYTES \<le> persistent_bytes a"
    and "rootfs_bytes a + persistent_bytes a \<le> writable"
    and "\<And>g. rootfs_gib = Some g \<Longrightarrow> rootfs_bytes a = g * GIB_BYTES"
    and "\<And>g. persistent_gib = Some g \<Longrightarrow> persistent_bytes a = g * GIB_BYTES"
proof -
  from assms obtain r p where r: "requested_bytes rootfs_gib = Inr r"
    and p: "requested_bytes persistent_gib = Inr p"
    and res: "check_split writable (unwrap_or r (default_rootfs_bytes writable p))
        (unwrap_or p (u64_saturating_sub writable (unwrap_or r (default_rootfs_bytes writable p)))) = Inr a"
    by (auto simp: storage_allocation_of_def bindR_Inr Let_def split: if_splits)
  note ok = res [unfolded check_split_Inr]
  then show "MIN_ROOTFS_STORAGE_BYTES \<le> rootfs_bytes a" "MIN_PERSISTENT_STORAGE_BYTES \<le> persistent_bytes a"
    "rootfs_bytes a + persistent_bytes a \<le> writable" by simp_all
  show "rootfs_bytes a = g * GIB_BYTES" if "rootfs_gib = Some g" for g
    using requested_bytes_Inr [OF r] that ok by (simp add: unwrap_or_def)
  show "persistent_bytes a = g * GIB_BYTES" if "persistent_gib = Some g" for g
    using requested_bytes_Inr [OF p] that ok by (simp add: unwrap_or_def)
qed

lemma storage_allocation_ephemeral:
  assumes "storage_allocation_of writable False rootfs_gib persistent_gib = Inr a"
  shows "persistent_bytes a = 0" and "rootfs_bytes a \<le> writable" and "persistent_gib = None"
    and "\<And>g. rootfs_gib = Some g \<Longrightarrow> rootfs_bytes a = g * GIB_BYTES"
proof -
  from assms obtain r p where r: "requested_bytes rootfs_gib = Inr r"
    and p: "requested_bytes persistent_gib = Inr p" and "p = None"
    and a: "a = \<lparr>rootfs_bytes = unwrap_or r writable, persistent_bytes = 0\<rparr>" and "unwrap_or r writable \<le> writable"
    by (auto simp: storage_allocation_of_def bindR_Inr Let_def split: if_splits)
  then show "persistent_bytes a = 0" "rootfs_bytes a \<le> writable" by simp_all
  show "persistent_gib = None" using requested_bytes_Inr [OF p] \<open>p = None\<close> by (cases persistent_gib) auto
  show "rootfs_bytes a = g * GIB_BYTES" if "rootfs_gib = Some g" for g
    using requested_bytes_Inr [OF r] that by (simp add: a unwrap_or_def)
qed

lemma mib_floor:
  assumes "MIN_PERSISTENT_STORAGE_BYTES \<le> n"
  shows "n div MIB_BYTES * MIB_BYTES \<le> n" and "MIN_PERSISTENT_STORAGE_BYTES \<le> n div MIB_BYTES * MIB_BYTES"
proof -
  show "n div MIB_BYTES * MIB_BYTES \<le> n" by simp
  have "64 \<le> n div MIB_BYTES"
    using div_le_mono [OF assms, of MIB_BYTES] by (simp add: storage_limits)
  then show "MIN_PERSISTENT_STORAGE_BYTES \<le> n div MIB_BYTES * MIB_BYTES"
    by (simp add: storage_limits)
qed

text \<open>The cases of the allocation with an existing home.\<close>

lemma retaining_cases:
  assumes "storage_allocation_retaining writable True rootfs_gib persistent_gib existing = Inr a"
  obtains b where "storage_allocation_of writable True rootfs_gib persistent_gib = Inr b"
    and "persistent_gib = None" and "existing < persistent_bytes b" and "rootfs_bytes a = rootfs_bytes b"
    and "persistent_bytes a = max (persistent_bytes b div MIB_BYTES * MIB_BYTES) existing"
  | b where "storage_allocation_of writable True rootfs_gib persistent_gib = Inr b"
    and "persistent_gib = None" and "rootfs_gib = None" and "persistent_bytes b < existing"
    and "existing + MIN_ROOTFS_STORAGE_BYTES \<le> writable"
    and "rootfs_bytes a = writable - existing" and "persistent_bytes a = existing"
  | "storage_allocation_of writable True rootfs_gib persistent_gib = Inr a"
    and "existing \<le> persistent_bytes a" and "persistent_gib \<noteq> None \<or> persistent_bytes a = existing"
proof -
  from assms obtain b where b: "storage_allocation_of writable True rootfs_gib persistent_gib = Inr b"
    by (auto simp: storage_allocation_retaining_def bindR_Inr)
  consider (grow) "persistent_gib = None" "existing < persistent_bytes b"
    | (shrink) "persistent_bytes b < existing"
    | (keep) "existing \<le> persistent_bytes b" "persistent_gib \<noteq> None \<or> persistent_bytes b = existing"
    by linarith
  then show thesis
  proof cases
    case grow
    with assms b show thesis
      by (intro that(1) [OF b]) (auto simp: storage_allocation_retaining_def Let_def)
  next
    case shrink
    with assms b show thesis
      by (intro that(2) [OF b])
         (auto simp: storage_allocation_retaining_def Let_def u64_checked_sub_def split: if_splits)
  next
    case keep
    with assms b show thesis
      by (intro that(3)) (auto simp: storage_allocation_retaining_def Let_def)
  qed
qed

lemma retaining_bounds:
  assumes "storage_allocation_retaining writable True rootfs_gib persistent_gib existing = Inr a"
  shows "rootfs_bytes a + persistent_bytes a \<le> writable \<and> existing \<le> persistent_bytes a \<and>
    MIN_ROOTFS_STORAGE_BYTES \<le> rootfs_bytes a \<and> MIN_PERSISTENT_STORAGE_BYTES \<le> persistent_bytes a \<and>
    (\<forall>g. rootfs_gib = Some g \<longrightarrow> rootfs_bytes a = g * GIB_BYTES) \<and>
    (\<forall>g. persistent_gib = Some g \<longrightarrow> persistent_bytes a = g * GIB_BYTES)"
  using assms
proof (cases rule: retaining_cases)
  case (1 b)
  note bounds = storage_allocation_persistent [OF 1(1)]
  have le: "persistent_bytes a \<le> persistent_bytes b"
    using 1(3,5) mib_floor(1) [OF bounds(2)] by simp
  then have "rootfs_bytes a + persistent_bytes a \<le> writable"
    using bounds(3) 1(4) by linarith
  moreover have "existing \<le> persistent_bytes a" and "MIN_PERSISTENT_STORAGE_BYTES \<le> persistent_bytes a"
    using 1(5) mib_floor(2) [OF bounds(2)] by simp_all
  ultimately show ?thesis using bounds(1,4) 1(2,4) by simp
next
  case (2 b)
  with storage_allocation_persistent [OF 2(1)] show ?thesis by auto
next
  case 3
  with storage_allocation_persistent [OF 3(1)] show ?thesis by auto
qed

lemma retaining_stable:
  assumes "storage_allocation_retaining writable True rootfs_gib persistent_gib existing = Inr a"
  shows "storage_allocation_retaining writable True rootfs_gib persistent_gib (persistent_bytes a) = Inr a"
  using assms
proof (cases rule: retaining_cases)
  case (1 b)
  let ?f = "persistent_bytes b div MIB_BYTES * MIB_BYTES"
  have floor: "?f \<le> persistent_bytes b" by simp
  show ?thesis
  proof (cases "persistent_bytes a < persistent_bytes b")
    case True
    with 1 show ?thesis by (auto simp: storage_allocation_retaining_def Let_def intro!: storage_allocation.equality)
  next
    case False
    moreover have "persistent_bytes a \<le> persistent_bytes b" unfolding 1(5) using floor 1(3) by linarith
    ultimately have "persistent_bytes a = persistent_bytes b" by linarith
    with 1 show ?thesis by (auto simp: storage_allocation_retaining_def Let_def intro!: storage_allocation.equality)
  qed
next
  case (2 b)
  then show ?thesis
    by (auto simp: storage_allocation_retaining_def Let_def u64_checked_sub_def intro!: storage_allocation.equality)
next
  case 3
  then show ?thesis by (auto simp: storage_allocation_retaining_def Let_def)
qed

lemma automatic_split:
  assumes "MIN_ROOTFS_STORAGE_BYTES + MIN_PERSISTENT_STORAGE_BYTES \<le> writable" and "writable \<le> u64_max"
  shows "\<exists>a. storage_allocation_of writable True None None = Inr a"
proof -
  let ?r = "default_rootfs_bytes writable None"
  have "MIN_ROOTFS_STORAGE_BYTES \<le> ?r" and "?r \<le> writable - MIN_PERSISTENT_STORAGE_BYTES"
    using assms(1) by (auto simp: default_rootfs_bytes_def clamp_def unwrap_or_def u64_saturating_sub_def storage_limits)
  moreover from this have "?r + (writable - ?r) = writable" and "MIN_PERSISTENT_STORAGE_BYTES \<le> writable - ?r"
    using assms(1) by auto
  ultimately have "\<exists>a. check_split writable ?r (writable - ?r) = Inr a"
    using assms(2) by (simp add: check_split_Inr)
  moreover have "u64_checked_add MIN_ROOTFS_STORAGE_BYTES MIN_PERSISTENT_STORAGE_BYTES =
      Some (MIN_ROOTFS_STORAGE_BYTES + MIN_PERSISTENT_STORAGE_BYTES)"
    by (simp add: u64_checked_add_def storage_limits u64_max_def)
  ultimately show ?thesis
    using assms(1)
    by (simp add: storage_allocation_of_def requested_bytes_def ok_or_def unwrap_or_def u64_saturating_sub_def Let_def)
qed

section \<open>Quantities\<close>

definition quantity_units :: "(string \<times> nat) list" where
  "quantity_units =
     [([], 1), (''Ki'', 1024), (''Mi'', 1024 ^ 2), (''Gi'', 1024 ^ 3), (''Ti'', 1024 ^ 4),
      (''Pi'', 1024 ^ 5), (''Ei'', 1024 ^ 6), (''k'', 10 ^ 3), (''M'', 10 ^ 6), (''G'', 10 ^ 9),
      (''T'', 10 ^ 12), (''P'', 10 ^ 15), (''E'', 10 ^ 18)]"

lemma number_of_quantity:
  assumes "s = [] \<or> \<not> is_ascii_digit (hd s) \<and> hd s \<noteq> CHR ''.''"
  shows "takeWhile (\<lambda>c. is_ascii_digit c \<or> c = CHR ''.'') (show_nat n @ s) = show_nat n"
    and "dropWhile (\<lambda>c. is_ascii_digit c \<or> c = CHR ''.'') (show_nat n @ s) = s"
proof -
  have "\<And>c. c \<in> set (show_nat n) \<Longrightarrow> is_ascii_digit c \<or> c = CHR ''.''"
    using show_nat_all by blast
  then show "takeWhile (\<lambda>c. is_ascii_digit c \<or> c = CHR ''.'') (show_nat n @ s) = show_nat n"
    and "dropWhile (\<lambda>c. is_ascii_digit c \<or> c = CHR ''.'') (show_nat n @ s) = s"
    using assms by (cases s; simp add: takeWhile_append2 dropWhile_append2)+
qed

lemma show_nat_no_dot: "CHR ''.'' \<notin> set (show_nat n)"
  using show_nat_all [of "CHR ''.''" n] by (auto simp: char_defs)

lemma show_nat_no_plus: "strip_prefix ''+'' (show_nat n @ s) = None"
proof -
  obtain c cs where c: "show_nat n = c # cs" by (cases "show_nat n") auto
  then have "is_ascii_digit c" using show_nat_all [of c n] by simp
  then have "c \<noteq> CHR ''+''" by (auto simp: char_defs)
  then show ?thesis by (simp add: strip_prefix_def c)
qed

lemma i64_max_small: "n \<le> nat i64_max \<Longrightarrow> n \<le> u64_max \<and> n \<le> u128_max"
  by (simp add: i64_max_def u64_max_def u128_max_def)

text \<open>Reading a number of units, once the suffix has been classified.\<close>

lemma quantity_binary:
  assumes "binary_suffix s = Some k" and "n * 1024 ^ k \<le> nat i64_max"
    and "s = [] \<or> \<not> is_ascii_digit (hd s) \<and> hd s \<noteq> CHR ''.''"
  shows "storage_quantity_bytes (show_nat n @ s) = Inr (n * 1024 ^ k)"
proof -
  have "n \<le> n * 1024 ^ k" by simp
  then have "n \<le> u128_max" using i64_max_small [OF assms(2)] by (meson order_trans)
  with assms i64_max_small [OF assms(2)] show ?thesis
    unfolding storage_quantity_bytes_def Let_def show_nat_no_plus option.case number_of_quantity [OF assms(3)]
      split_once_None [THEN iffD2, OF show_nat_no_dot]
    by (simp add: parse_uint_show_nat show_nat_digits ok_or_def ensure_def u128_checked_pow_def
        u128_checked_mul_def u128_max_def u32_max_def)
qed

lemma quantity_decimal:
  assumes "binary_suffix s = None" and "decimal_suffix s = Some (int k)" and "n * 10 ^ k \<le> nat i64_max"
    and "0 < n \<or> k < 38"
    and "s = [] \<or> \<not> is_ascii_digit (hd s) \<and> hd s \<noteq> CHR ''.''"
  shows "storage_quantity_bytes (show_nat n @ s) = Inr (n * 10 ^ k)"
proof -
  have "n \<le> n * 10 ^ k" by simp
  then have "n \<le> u128_max" using i64_max_small [OF assms(3)] by (meson order_trans)
  moreover have "10 ^ k \<le> u128_max"
  proof (cases "k < 38")
    case True
    then have "(10::nat) ^ k \<le> 10 ^ 37" by (intro power_increasing) auto
    then show ?thesis by (simp add: u128_max_def)
  next
    case False
    with assms(4) have "1 * 10 ^ k \<le> n * 10 ^ k" by (intro mult_le_mono1) simp
    then show ?thesis using i64_max_small [OF assms(3)] by (simp only: mult_1) (meson order_trans)
  qed
  ultimately show ?thesis
    using assms i64_max_small [OF assms(3)]
    unfolding storage_quantity_bytes_def Let_def show_nat_no_plus option.case number_of_quantity [OF assms(5)]
      split_once_None [THEN iffD2, OF show_nat_no_dot]
    by (simp add: parse_uint_show_nat show_nat_digits ok_or_def ensure_def u128_checked_pow_def
        u128_checked_mul_def u128_max_def u32_max_def)
qed

lemma quantity_units_cases:
  assumes "(s, m) \<in> set quantity_units"
  obtains k where "binary_suffix s = Some k" and "m = 1024 ^ k" and "s = [] \<or> \<not> is_ascii_digit (hd s) \<and> hd s \<noteq> CHR ''.''"
  | k where "binary_suffix s = None" and "decimal_suffix s = Some (int k)" and "m = 10 ^ k" and "k < 38"
    and "s = [] \<or> \<not> is_ascii_digit (hd s) \<and> hd s \<noteq> CHR ''.''"
proof -
  from assms have "s \<in> {''Ki'', ''Mi'', ''Gi'', ''Ti'', ''Pi'', ''Ei''} \<and> (\<exists>k. binary_suffix s = Some k \<and> m = 1024 ^ k)
      \<or> s \<in> {[], ''k'', ''M'', ''G'', ''T'', ''P'', ''E''} \<and> binary_suffix s = None \<and>
        (\<exists>k < 38. decimal_suffix s = Some (int k) \<and> m = 10 ^ k)"
    by (simp add: quantity_units_def) (elim disjE; simp add: binary_suffix_def decimal_suffix_def; presburger?)
  then show thesis
    by (elim disjE conjE exE) (rule that, (auto simp: char_defs)[3], rule that, (auto simp: char_defs)[5])
qed

section \<open>Properties\<close>

text \<open>
  An image is accepted exactly when every size its registry reports is not negative, their
  exact sum fits in 64 bits and is less than the disk of the service; what remains writable is
  then the exact rest of the disk.
\<close>

theorem image_size_exact:
  "bindR (manifest_size_bytes m) (\<lambda>size. writable_storage_bytes size disk) = Inr writable \<longleftrightarrow>
     list_all (\<lambda>d. 0 \<le> oci_size d) (oci_config m # oci_layers m) \<and>
     (let size = sum_list (map (\<lambda>d. nat (oci_size d)) (oci_config m # oci_layers m))
      in size \<le> u64_max \<and> size < disk \<and> writable + size = disk)"
  by (auto simp: manifest_size_bytes_def manifest_fold bindR_Inr writable_storage_bytes_def Let_def
      split: if_splits simp del: try_fold.simps)

lemmas allocation_eval =
  storage_allocation_retaining_def storage_allocation_of_def requested_bytes_def ok_or_def unwrap_or_def
  default_rootfs_bytes_def clamp_def check_split_def Let_def storage_limits u64_max_def
  u64_checked_mul_def u64_checked_add_def u64_checked_sub_def u64_saturating_sub_def

text \<open>
  C28. The split of the disk of a persistent service keeps its promises: container filesystem and
  home together fit in the writable space, both have their minimum of 64 MiB, the home is never
  smaller than what the existing claim already has, and a size that the specification asks for is
  given exactly.
\<close>

theorem storage_allocation_retaining_sound:
  assumes "storage_allocation_retaining writable True rootfs_gib persistent_gib existing = Inr a"
  shows "rootfs_bytes a + persistent_bytes a \<le> writable \<and> existing \<le> persistent_bytes a \<and>
    64 * 1024 ^ 2 \<le> rootfs_bytes a \<and> 64 * 1024 ^ 2 \<le> persistent_bytes a \<and>
    (\<forall>g. rootfs_gib = Some g \<longrightarrow> rootfs_bytes a = g * 1024 ^ 3) \<and>
    (\<forall>g. persistent_gib = Some g \<longrightarrow> persistent_bytes a = g * 1024 ^ 3)"
  using retaining_bounds [OF assms] by (simp add: storage_limits)

theorem storage_allocation_retaining_sound_witness:
  "storage_allocation_retaining (8 * GIB_BYTES) True (Some 2) None (5 * GIB_BYTES) =
     Inr \<lparr>rootfs_bytes = 2 * GIB_BYTES, persistent_bytes = 6 * GIB_BYTES\<rparr> \<and>
   (2 * GIB_BYTES + 6 * GIB_BYTES \<le> 8 * GIB_BYTES \<and> 5 * GIB_BYTES \<le> 6 * GIB_BYTES \<and>
    64 * 1024 ^ 2 \<le> 2 * GIB_BYTES \<and> 64 * 1024 ^ 2 \<le> 6 * GIB_BYTES)"
proof -
  have "storage_allocation_retaining (8 * GIB_BYTES) True (Some 2) None (5 * GIB_BYTES) =
      Inr \<lparr>rootfs_bytes = 2 * GIB_BYTES, persistent_bytes = 6 * GIB_BYTES\<rparr>"
    by (simp add: allocation_eval)
  from this storage_allocation_retaining_sound [OF this] show ?thesis by simp
qed

text \<open>
  The split settles: the controller runs again with the home it created last time as the
  existing one, and gets the same split, so the sizes of a running service do not drift.
\<close>

theorem storage_allocation_retaining_stable:
  assumes "storage_allocation_retaining writable True rootfs_gib persistent_gib existing = Inr a"
  shows "storage_allocation_retaining writable True rootfs_gib persistent_gib (persistent_bytes a) = Inr a"
  by (rule retaining_stable [OF assms])

theorem storage_allocation_retaining_stable_witness:
  "storage_allocation_retaining 1073741824 True None None 0 =
     Inr \<lparr>rootfs_bytes = 107374182, persistent_bytes = 965738496\<rparr> \<and>
   storage_allocation_retaining 1073741824 True None None (965738496) =
     Inr \<lparr>rootfs_bytes = 107374182, persistent_bytes = 965738496\<rparr>"
proof -
  have "storage_allocation_retaining 1073741824 True None None 0 =
      Inr \<lparr>rootfs_bytes = 107374182, persistent_bytes = 965738496\<rparr>"
    by (simp add: allocation_eval)
  from this storage_allocation_retaining_stable [OF this] show ?thesis by simp
qed

text \<open>
  An automatic split never fails for want of room that is there: with 128 MiB of writable
  space, and 64 MiB beside the home that already exists, there is an allocation.
\<close>

theorem automatic_storage_succeeds:
  assumes "128 * 1024 ^ 2 \<le> writable" and "writable \<le> u64_max"
    and "existing + 64 * 1024 ^ 2 \<le> writable"
  shows "\<exists>a. storage_allocation_retaining writable True None None existing = Inr a"
proof -
  from automatic_split [of writable] assms obtain b where
    b: "storage_allocation_of writable True None None = Inr b"
    by (auto simp: storage_limits)
  from assms(3) have "existing \<le> writable" and "MIN_ROOTFS_STORAGE_BYTES \<le> writable - existing"
    by (auto simp: storage_limits)
  with b show ?thesis
    by (auto simp: storage_allocation_retaining_def Let_def u64_checked_sub_def)
qed

theorem automatic_storage_succeeds_witness:
  "\<exists>a. storage_allocation_retaining (5 * GIB_BYTES) True None None (4 * GIB_BYTES) = Inr a"
  by (rule automatic_storage_succeeds) (simp_all add: GIB_BYTES_def u64_max_def)

text \<open>
  A quantity of storage written as a whole number of units, with the binary and decimal unit
  suffixes of Kubernetes, is read back as the exact number of bytes, up to the maximum of a signed
  64-bit integer.
\<close>

theorem storage_quantity_round_trip:
  assumes "(sfx, unit) \<in> set quantity_units" and "n * unit \<le> nat i64_max"
  shows "storage_quantity_bytes (show_nat n @ sfx) = Inr (n * unit)"
  using assms(1)
proof (cases rule: quantity_units_cases)
  case (1 k)
  with assms(2) quantity_binary [of sfx k n] show ?thesis by simp
next
  case (2 k)
  with assms(2) quantity_decimal [of sfx k n] show ?thesis by simp
qed

theorem storage_quantity_round_trip_witness:
  "storage_quantity_bytes (show_nat 20 @ ''Gi'') = Inr (20 * 1024 ^ 3) \<and> show_nat 20 @ ''Gi'' = ''20Gi''"
proof -
  have "(''Gi'', 1024 ^ 3) \<in> set quantity_units" by (simp add: quantity_units_def)
  moreover have "show_nat 20 @ ''Gi'' = ''20Gi''" by code_simp
  ultimately show ?thesis
    using storage_quantity_round_trip [of "''Gi''" "1024 ^ 3" 20] by (simp add: i64_max_def)
qed

end
