(* ===== verification/Image_Inspection.thy ===== *)
theory Image_Inspection
  imports Storage
begin

text \<open>
  The inspection of images (\<open>image.rs\<close>) and the reuse of an earlier inspection
  (\<open>reconcile.rs\<close>). The OCI client is not part of the sources: image references have an arbitrary
  type \<open>'r\<close>, and the operations of the client on references, on the registry and on the
  configuration document are the fields of a record that the definitions take as an argument.
\<close>

section \<open>The client\<close>

text \<open>
  The errors that the sources tell apart, with the text of the error: an answer of the server with
  its status code, a failed request with whether it was a timeout or a refused connection, and the
  others.
\<close>

datatype oci_error =
    ServerError nat string
  | RequestError bool bool string
  | OtherOciError string

definition oci_error_text :: "oci_error \<Rightarrow> string" where
  "oci_error_text e = (case e of ServerError _ t \<Rightarrow> t | RequestError _ _ t \<Rightarrow> t | OtherOciError t \<Rightarrow> t)"

datatype registry_auth = Anonymous | Basic string string

record oci_index_entry =
  oie_digest :: string
  oie_platform_os :: "string option"

datatype oci_manifest = Image oci_image_manifest | ImageIndex "oci_index_entry list"

record oci_config_file =
  cfg_os :: string
  cfg_architecture :: string
  cfg_runtime :: "(string list option \<times> string list option) option"

record ('r, 'w) oci_client =
  ref_try_from :: "string \<Rightarrow> string + 'r"
  ref_registry :: "'r \<Rightarrow> string"
  ref_digest :: "'r \<Rightarrow> string option"
  ref_clone_with_digest :: "'r \<Rightarrow> string \<Rightarrow> 'r"
  ref_to_string :: "'r \<Rightarrow> string"
  pull_manifest :: "'r \<Rightarrow> registry_auth \<Rightarrow> ('w, oci_error, oci_manifest \<times> string) effect"
  pull_image_manifest :: "'r \<Rightarrow> registry_auth \<Rightarrow> ('w, oci_error, oci_image_manifest) effect"
  pull_blob :: "'r \<Rightarrow> oci_descriptor \<Rightarrow> ('w, oci_error, string) effect"
  parse_config_file :: "string \<Rightarrow> oci_config_file option"

section \<open>The inspector\<close>

record image_inspection =
  ii_resolved_image :: string
  ii_image_size_bytes :: u64
  ii_writable_storage_bytes :: u64
  ii_image_entrypoint :: "string list"
  ii_image_cmd :: "string list"
  ii_architecture :: string

record scoped_registry_auth =
  sra_registry :: string
  sra_auth :: registry_auth

type_synonym image_inspector = "scoped_registry_auth option"

definition new_inspector :: image_inspector where
  "new_inspector = None"

definition with_basic_auth :: "string \<Rightarrow> string \<Rightarrow> string \<Rightarrow> image_inspector" where
  "with_basic_auth registry username password =
     Some \<lparr>sra_registry = registry, sra_auth = Basic username password\<rparr>"

definition auth_for :: "('r, 'w) oci_client \<Rightarrow> image_inspector \<Rightarrow> 'r \<Rightarrow> registry_auth" where
  "auth_for client inspector reference =
     (case filter_opt (\<lambda>c. eq_ignore_ascii_case (sra_registry c) (ref_registry client reference)) inspector of
        None \<Rightarrow> Anonymous | Some c \<Rightarrow> sra_auth c)"

text \<open>\<open>ImageInspectionError::registry\<close>, and the error of a call of the client.\<close>

definition registry_error :: "string \<Rightarrow> oci_error \<Rightarrow> image_inspection_error" where
  "registry_error img e =
     Registry img (oci_error_text e)
       (case e of
          ServerError code _ \<Rightarrow> 500 \<le> code \<and> code \<le> 599
        | RequestError timeout connect _ \<Rightarrow> timeout \<or> connect
        | OtherOciError _ \<Rightarrow> False)"

definition eregistry :: "string \<Rightarrow> ('w, oci_error, 'a) effect \<Rightarrow> ('w, image_inspection_error, 'a) effect" where
  "eregistry img m =
     ematch m (\<lambda>r. case r of Inl e \<Rightarrow> efail (registry_error img e) | Inr x \<Rightarrow> eret x)"

text \<open>The \<open>?\<close> operator on a computation without effects.\<close>

definition elift :: "'e + 'a \<Rightarrow> ('w, 'e, 'a) effect" where
  "elift r = (case r of Inl e \<Rightarrow> efail e | Inr x \<Rightarrow> eret x)"

definition is_linux_entry :: "oci_index_entry \<Rightarrow> bool" where
  "is_linux_entry entry =
     (case oie_platform_os entry of None \<Rightarrow> False | Some os \<Rightarrow> eq_ignore_ascii_case os ''linux'')"

fun largest_manifest ::
  "('r, 'w) oci_client \<Rightarrow> string \<Rightarrow> 'r \<Rightarrow> registry_auth \<Rightarrow> oci_index_entry list \<Rightarrow> u64 \<Rightarrow>
   ('w, image_inspection_error, u64) effect" where
  "largest_manifest client img reference auth [] largest = eret largest"
| "largest_manifest client img reference auth (entry # entries) largest =
     ebind (eregistry img
              (pull_manifest client (ref_clone_with_digest client reference (oie_digest entry)) auth))
       (\<lambda>(manifest, _).
     case manifest of
       ImageIndex _ \<Rightarrow> efail (NestedImageIndex img)
     | Image m \<Rightarrow>
         ebind (elift (manifest_size_bytes m)) (\<lambda>size.
         largest_manifest client img reference auth entries (max largest size)))"

definition inspect_size ::
  "('r, 'w) oci_client \<Rightarrow> string \<Rightarrow> 'r \<Rightarrow> registry_auth \<Rightarrow> oci_manifest \<Rightarrow>
   ('w, image_inspection_error, u64) effect" where
  "inspect_size client img reference auth manifest =
     (case manifest of
        Image m \<Rightarrow> elift (manifest_size_bytes m)
      | ImageIndex entries \<Rightarrow>
          let linux_entries = filter is_linux_entry entries
          in if linux_entries = [] then efail (NoLinuxManifest img)
             else largest_manifest client img reference auth linux_entries 0)"

definition inspect_config ::
  "('r, 'w) oci_client \<Rightarrow> string \<Rightarrow> 'r \<Rightarrow> registry_auth \<Rightarrow> ('w, image_inspection_error, oci_config_file) effect" where
  "inspect_config client img resolved auth =
     ebind (eregistry img (pull_image_manifest client resolved auth)) (\<lambda>selected.
     if oci_size (oci_config selected) < 0 \<or> 1048576 < oci_size (oci_config selected)
     then efail InvalidImageConfig
     else ebind (eregistry img (pull_blob client resolved (oci_config selected))) (\<lambda>bytes.
          ebind (elift (ok_or (parse_config_file client bytes) InvalidImageConfig)) (\<lambda>config.
          if \<not> eq_ignore_ascii_case (cfg_os config) ''linux'' then efail UnsupportedPlatform
          else eret config)))"

text \<open>What follows the first pull: the size, the writable rest, and the configuration.\<close>

definition inspect_resolved ::
  "('r, 'w) oci_client \<Rightarrow> string \<Rightarrow> u64 \<Rightarrow> 'r \<Rightarrow> registry_auth \<Rightarrow> oci_manifest \<times> string \<Rightarrow>
   ('w, image_inspection_error, image_inspection) effect" where
  "inspect_resolved client img disk_budget reference auth pulled =
     (let (manifest, digest) = pulled; resolved = ref_clone_with_digest client reference digest
      in ebind (inspect_size client img reference auth manifest) (\<lambda>size.
         ebind (elift (writable_storage_bytes size disk_budget)) (\<lambda>writable.
         ebind (inspect_config client img resolved auth) (\<lambda>config.
         eret \<lparr>ii_resolved_image = ref_to_string client resolved, ii_image_size_bytes = size,
               ii_writable_storage_bytes = writable,
               ii_image_entrypoint =
                 (case cfg_runtime config of None \<Rightarrow> [] | Some (entrypoint, _) \<Rightarrow> unwrap_or entrypoint []),
               ii_image_cmd = (case cfg_runtime config of None \<Rightarrow> [] | Some (_, cmd) \<Rightarrow> unwrap_or cmd []),
               ii_architecture = cfg_architecture config\<rparr>))))"

definition inspect ::
  "('r, 'w) oci_client \<Rightarrow> image_inspector \<Rightarrow> string \<Rightarrow> u64 \<Rightarrow>
   ('w, image_inspection_error, image_inspection) effect" where
  "inspect client inspector img disk_budget =
     ebind (elift (map_err (InvalidReference img) (ref_try_from client img))) (\<lambda>reference.
     let auth = auth_for client inspector reference
     in ebind (eregistry img (pull_manifest client reference auth))
          (inspect_resolved client img disk_budget reference auth))"

section \<open>Reuse of an earlier inspection\<close>

text \<open>The requested digest: \<open>sha256:\<close> and 64 lowercase hexadecimal digits.\<close>

definition immutable_digest :: "string \<Rightarrow> bool" where
  "immutable_digest digest =
     (case strip_prefix ''sha256:'' digest of
        None \<Rightarrow> False
      | Some v \<Rightarrow> length v = 64 \<and> list_all (\<lambda>c. is_ascii_hexdigit c \<and> \<not> is_ascii_uppercase c) v)"

definition ok :: "'e + 'a \<Rightarrow> 'a option" where
  "ok r = (case r of Inl _ \<Rightarrow> None | Inr x \<Rightarrow> Some x)"

definition verified_image_from_peer ::
  "('r, 'w) oci_client \<Rightarrow> flash_service \<Rightarrow> flash_service \<Rightarrow> u64 \<Rightarrow> image_inspection option" where
  "verified_image_from_peer client flash peer disk_budget =
     (if svc_organization_id (fsv_spec flash) \<noteq> svc_organization_id (fsv_spec peer) then None
      else
     Option.bind (ok (ref_try_from client (fs_image (svc_workload (fsv_spec flash))))) (\<lambda>requested.
     Option.bind (ref_digest client requested) (\<lambda>digest.
     if \<not> immutable_digest digest then None
     else
     Option.bind (ok (ref_try_from client (fs_image (svc_workload (fsv_spec peer))))) (\<lambda>peer_request.
     if ref_to_string client requested \<noteq> ref_to_string client peer_request then None
     else
     Option.bind (fsv_status peer) (\<lambda>status.
     Option.bind (st_resolved_image status) (\<lambda>resolved_image.
     Option.bind (ok (ref_try_from client resolved_image)) (\<lambda>resolved.
     if ref_to_string client requested \<noteq> ref_to_string client resolved then None
     else
     Option.bind (st_image_size_bytes status) (\<lambda>size.
     Option.bind (u64_checked_sub disk_budget size) (\<lambda>writable.
     if size = 0 \<or> writable = 0 then None
     else
     Option.bind (st_image_entrypoint status) (\<lambda>entrypoint.
     Option.bind (st_image_cmd status) (\<lambda>cmd.
     Option.bind (st_image_architecture status) (\<lambda>architecture.
     Some \<lparr>ii_resolved_image = resolved_image, ii_image_size_bytes = size,
           ii_writable_storage_bytes = writable, ii_image_entrypoint = entrypoint, ii_image_cmd = cmd,
           ii_architecture = architecture\<rparr>))))))))))))"

definition cached_image_inspection :: "flash_service \<Rightarrow> u64 \<Rightarrow> image_inspection option" where
  "cached_image_inspection flash disk_budget =
     Option.bind (fsv_status flash) (\<lambda>status.
     if st_observed_generation status \<noteq> svc_desired_generation (fsv_spec flash) then None
     else
     Option.bind (st_resolved_image status) (\<lambda>resolved_image.
     Option.bind (st_image_size_bytes status) (\<lambda>size.
     Option.bind (st_writable_storage_bytes status) (\<lambda>writable.
     Option.bind (st_image_entrypoint status) (\<lambda>entrypoint.
     Option.bind (st_image_cmd status) (\<lambda>cmd.
     Option.bind (st_image_architecture status) (\<lambda>architecture.
     Option.bind (u64_checked_sub disk_budget size) (\<lambda>expected_writable.
     if disk_budget \<le> size \<or> writable \<noteq> expected_writable then None
     else Some \<lparr>ii_resolved_image = resolved_image, ii_image_size_bytes = size,
                ii_writable_storage_bytes = writable, ii_image_entrypoint = entrypoint, ii_image_cmd = cmd,
                ii_architecture = architecture\<rparr>))))))))"

definition verified_peer_image_inspection ::
  "('r, 'w) oci_client \<Rightarrow> ('v, kube_error, flash_service list) effect \<Rightarrow> flash_service \<Rightarrow> u64 \<Rightarrow>
   ('v, kube_error, image_inspection option) effect" where
  "verified_peer_image_inspection client services_list flash disk_budget =
     (if cached_image_inspection flash disk_budget \<noteq> None \<or>
         \<not> contains_str ''@sha256:'' (fs_image (svc_workload (fsv_spec flash)))
      then eret None
      else ebind services_list (\<lambda>peers.
           eret (find_map (\<lambda>peer. verified_image_from_peer client flash peer disk_budget) peers)))"

end
