(* ===== verification/Image_Properties.thy ===== *)
theory Image_Properties
  imports Image_Inspection Meter_Properties
begin

text \<open>
  What the inspection of an image guarantees, under the contract of a registry: the size that is
  accounted for is the size of the manifests behind the pinned digest, and the configured
  credentials reach no other registry. The reuse of an inspection stays within one organization and
  one immutable digest.
\<close>

section \<open>The contract of the client\<close>

text \<open>
  \<open>sent w\<close> is the set of credentials that were presented so far, with the registry they were
  presented to; \<open>manifests\<close> is what the registry serves for a reference while an image is inspected.
\<close>

locale image_registry =
  fixes client :: "('r, 'w) oci_client"
    and sent :: "'w \<Rightarrow> (string \<times> registry_auth) set"
    and manifests :: "'r \<Rightarrow> (oci_manifest \<times> string) option"
  assumes clone_registry: "ref_registry client (ref_clone_with_digest client r d) = ref_registry client r"
    and pull_manifest_sent:
      "pull_manifest client r a w = (x, w') \<Longrightarrow> sent w' \<subseteq> insert (ref_registry client r, a) (sent w)"
    and pull_image_manifest_sent:
      "pull_image_manifest client r a w = (y, w') \<Longrightarrow> sent w' \<subseteq> insert (ref_registry client r, a) (sent w)"
    and pull_blob_sent: "pull_blob client r b w = (z, w') \<Longrightarrow> sent w' \<subseteq> sent w"
    and pull_manifest_content: "pull_manifest client r a w = (Inr m, w') \<Longrightarrow> manifests r = Some m"

text \<open>The credentials that an inspector may present.\<close>

definition may_present :: "image_inspector \<Rightarrow> string \<times> registry_auth \<Rightarrow> bool" where
  "may_present inspector p \<longleftrightarrow>
     snd p = Anonymous \<or>
     (\<exists>c\<in>set_option inspector. eq_ignore_ascii_case (sra_registry c) (fst p) \<and> snd p = sra_auth c)"

lemma auth_for_may_present: "may_present inspector (ref_registry client r, auth_for client inspector r)"
  by (auto simp: may_present_def auth_for_def filter_opt_def split: option.splits)

text \<open>The size of an image: of its manifest, or the largest of the manifests for Linux of its index.\<close>

definition platform_size ::
  "('r, 'w) oci_client \<Rightarrow> ('r \<Rightarrow> (oci_manifest \<times> string) option) \<Rightarrow> 'r \<Rightarrow> oci_index_entry \<Rightarrow> u64 option" where
  "platform_size client manifests reference entry =
     (case manifests (ref_clone_with_digest client reference (oie_digest entry)) of
        Some (Image m, _) \<Rightarrow> ok (manifest_size_bytes m)
      | _ \<Rightarrow> None)"

definition image_total ::
  "('r, 'w) oci_client \<Rightarrow> ('r \<Rightarrow> (oci_manifest \<times> string) option) \<Rightarrow> 'r \<Rightarrow> oci_manifest \<Rightarrow> u64 option" where
  "image_total client manifests reference manifest =
     (case manifest of
        Image m \<Rightarrow> ok (manifest_size_bytes m)
      | ImageIndex entries \<Rightarrow>
          if filter is_linux_entry entries = [] then None
          else map_option (\<lambda>ks. Max (set ks))
                 (those (map (platform_size client manifests reference) (filter is_linux_entry entries))))"

text \<open>What an inspection has found out about the image that it names.\<close>

definition measured ::
  "('r, 'w) oci_client \<Rightarrow> ('r \<Rightarrow> (oci_manifest \<times> string) option) \<Rightarrow> string \<Rightarrow> u64 \<Rightarrow> image_inspection \<Rightarrow> bool" where
  "measured client manifests img disk i \<longleftrightarrow>
     (\<exists>r manifest digest. ref_try_from client img = Inr r \<and> manifests r = Some (manifest, digest) \<and>
        image_total client manifests r manifest = Some (ii_image_size_bytes i) \<and>
        ii_image_size_bytes i + ii_writable_storage_bytes i = disk \<and> 0 < ii_writable_storage_bytes i \<and>
        ii_resolved_image i = ref_to_string client (ref_clone_with_digest client r digest))"

lemma gives_eregistry: "gives P m Q P \<Longrightarrow> gives P (eregistry img m) Q P"
  unfolding eregistry_def by (rule gives_match) (auto intro: effect_rules)

lemma gives_elift: "(\<And>x w. r = Inr x \<Longrightarrow> P w \<Longrightarrow> Q x w) \<Longrightarrow> gives P (elift r) Q P"
  by (cases r) (auto simp: elift_def intro: effect_rules)

lemma gives_bind_inv:
  "gives P m (\<lambda>_. P) P \<Longrightarrow> (\<And>x. gives P (f x) Q P) \<Longrightarrow> gives P (ebind m f) Q P"
  by (rule gives_bind)

lemma ok_Some: "ok r = Some x \<longleftrightarrow> r = Inr x"
  by (auto simp: ok_def split: sum.splits)

context image_registry
begin

lemma gives_pull_manifest:
  assumes "(ref_registry client r, a) \<in> S"
  shows "gives (\<lambda>w. sent w \<subseteq> S) (eregistry img (pull_manifest client r a))
    (\<lambda>m w. manifests r = Some m \<and> sent w \<subseteq> S) (\<lambda>w. sent w \<subseteq> S)"
proof (rule gives_eregistry)
  show "gives (\<lambda>w. sent w \<subseteq> S) (pull_manifest client r a)
      (\<lambda>m w. manifests r = Some m \<and> sent w \<subseteq> S) (\<lambda>w. sent w \<subseteq> S)"
    unfolding gives_def using assms pull_manifest_sent pull_manifest_content by blast
qed

lemma gives_inspect_config:
  assumes "(ref_registry client r, a) \<in> S"
  shows "gives (\<lambda>w. sent w \<subseteq> S) (inspect_config client img r a) (\<lambda>_ w. sent w \<subseteq> S) (\<lambda>w. sent w \<subseteq> S)"
proof -
  have "gives (\<lambda>w. sent w \<subseteq> S) (pull_image_manifest client r a) (\<lambda>_ w. sent w \<subseteq> S) (\<lambda>w. sent w \<subseteq> S)"
    unfolding gives_def using assms pull_image_manifest_sent by blast
  moreover have "gives (\<lambda>w. sent w \<subseteq> S) (pull_blob client r d) (\<lambda>_ w. sent w \<subseteq> S) (\<lambda>w. sent w \<subseteq> S)" for d
    unfolding gives_def using pull_blob_sent by blast
  ultimately show ?thesis
    unfolding inspect_config_def
    by (intro gives_bind_inv gives_if gives_ret gives_fail gives_eregistry gives_elift)
qed

lemma gives_platform_manifest:
  assumes mem: "(ref_registry client r, a) \<in> S" and "x = (manifest, d)"
    and go: "\<And>k. platform_size client manifests r e = Some k \<Longrightarrow>
      gives (\<lambda>w. sent w \<subseteq> S) (cont k) Q (\<lambda>w. sent w \<subseteq> S)"
  shows "gives (\<lambda>w. manifests (ref_clone_with_digest client r (oie_digest e)) = Some x \<and> sent w \<subseteq> S)
    (case x of (manifest, _) \<Rightarrow> case manifest of
       ImageIndex _ \<Rightarrow> efail (NestedImageIndex img)
     | Image m \<Rightarrow> ebind (elift (manifest_size_bytes m)) cont) Q (\<lambda>w. sent w \<subseteq> S)"
proof (rule gives_pure)
  assume m: "manifests (ref_clone_with_digest client r (oie_digest e)) = Some x"
  show "gives (\<lambda>w. sent w \<subseteq> S)
    (case x of (manifest, _) \<Rightarrow> case manifest of
       ImageIndex _ \<Rightarrow> efail (NestedImageIndex img)
     | Image m \<Rightarrow> ebind (elift (manifest_size_bytes m)) cont) Q (\<lambda>w. sent w \<subseteq> S)"
  proof (cases manifest)
    case (Image i)
    have "gives (\<lambda>w. sent w \<subseteq> S) (ebind (elift (manifest_size_bytes i)) cont) Q (\<lambda>w. sent w \<subseteq> S)"
    proof (cases "manifest_size_bytes i")
      case (Inl err)
      then show ?thesis by (simp add: elift_def) (auto simp: gives_def ebind_def efail_def)
    next
      case (Inr k)
      then have "platform_size client manifests r e = Some k"
        by (simp add: platform_size_def m assms(2) Image ok_Some)
      from go [OF this] show ?thesis by (simp add: elift_def Inr)
    qed
    then show ?thesis by (simp add: assms(2) Image)
  next
    case (ImageIndex es)
    then show ?thesis by (simp add: assms(2)) (rule gives_fail)
  qed
qed

lemma gives_largest_manifest:
  assumes "(ref_registry client r, a) \<in> S"
  shows "gives (\<lambda>w. sent w \<subseteq> S) (largest_manifest client img r a entries n)
    (\<lambda>k w. (\<exists>ks. those (map (platform_size client manifests r) entries) = Some ks \<and> k = fold max ks n) \<and>
           sent w \<subseteq> S)
    (\<lambda>w. sent w \<subseteq> S)"
proof (induction entries arbitrary: n)
  case Nil
  show ?case by (auto intro: effect_rules)
next
  case (Cons e es)
  let ?p = "ref_clone_with_digest client r (oie_digest e)"
  have mem: "(ref_registry client ?p, a) \<in> S" using assms by (simp add: clone_registry)
  show ?case
    unfolding largest_manifest.simps
  proof (rule gives_bind [OF gives_pull_manifest [OF mem]], rule gives_platform_manifest [OF assms surjective_pairing])
    fix k
    assume "platform_size client manifests r e = Some k"
    then show "gives (\<lambda>w. sent w \<subseteq> S) (largest_manifest client img r a es (max n k))
        (\<lambda>t w. (\<exists>ks. those (map (platform_size client manifests r) (e # es)) = Some ks \<and> t = fold max ks n) \<and>
               sent w \<subseteq> S) (\<lambda>w. sent w \<subseteq> S)"
      by (intro gives_conseq [OF Cons.IH]) (auto simp: max.commute)
  qed
qed

lemma gives_inspect_size:
  assumes "(ref_registry client r, a) \<in> S"
  shows "gives (\<lambda>w. sent w \<subseteq> S) (inspect_size client img r a manifest)
    (\<lambda>n w. image_total client manifests r manifest = Some n \<and> sent w \<subseteq> S) (\<lambda>w. sent w \<subseteq> S)"
proof (cases manifest)
  case (Image m)
  then show ?thesis by (auto simp: inspect_size_def image_total_def ok_Some intro: gives_elift)
next
  case (ImageIndex entries)
  let ?linux = "filter is_linux_entry entries"
  have "Max (set ks) = fold max ks 0" if "ks \<noteq> []" for ks :: "nat list"
    using that by (cases ks) (simp_all add: Max.set_eq_fold del: set_simps list.set)
  moreover have "ks \<noteq> []" if "those (map (platform_size client manifests r) ?linux) = Some ks" "?linux \<noteq> []" for ks
    using that by (cases ?linux) (auto split: option.splits)
  ultimately have "gives (\<lambda>w. sent w \<subseteq> S) (largest_manifest client img r a ?linux 0)
      (\<lambda>n w. image_total client manifests r manifest = Some n \<and> sent w \<subseteq> S) (\<lambda>w. sent w \<subseteq> S)" if "?linux \<noteq> []"
    by (intro gives_conseq [OF gives_largest_manifest [OF assms]]) (use that ImageIndex in \<open>auto simp: image_total_def\<close>)
  then show ?thesis
    by (auto simp: inspect_size_def ImageIndex Let_def intro: gives_fail)
qed

lemma gives_inspect_resolved:
  assumes r: "ref_try_from client img = Inr r" and mem: "(ref_registry client r, a) \<in> S"
  shows "gives (\<lambda>w. manifests r = Some x \<and> sent w \<subseteq> S) (inspect_resolved client img disk r a x)
    (\<lambda>i w. measured client manifests img disk i \<and> sent w \<subseteq> S) (\<lambda>w. sent w \<subseteq> S)"
proof (rule gives_pure)
  assume pulled: "manifests r = Some x"
  obtain manifest digest where x: "x = (manifest, digest)" by fastforce
  have mem': "(ref_registry client (ref_clone_with_digest client r digest), a) \<in> S"
    using mem by (simp add: clone_registry)
  show "gives (\<lambda>w. sent w \<subseteq> S) (inspect_resolved client img disk r a x)
      (\<lambda>i w. measured client manifests img disk i \<and> sent w \<subseteq> S) (\<lambda>w. sent w \<subseteq> S)"
    unfolding inspect_resolved_def Let_def x prod.case
  proof (rule gives_bind [OF gives_inspect_size [OF mem]], rule gives_pure, rule gives_bind)
    fix size
    show "gives (\<lambda>w. sent w \<subseteq> S) (elift (writable_storage_bytes size disk))
        (\<lambda>writable w. writable_storage_bytes size disk = Inr writable \<and> sent w \<subseteq> S) (\<lambda>w. sent w \<subseteq> S)"
      by (rule gives_elift) simp
  next
    fix size writable
    assume "image_total client manifests r manifest = Some size"
    then show "gives (\<lambda>w. writable_storage_bytes size disk = Inr writable \<and> sent w \<subseteq> S)
        (ebind (inspect_config client img (ref_clone_with_digest client r digest) a) (\<lambda>config.
         eret \<lparr>ii_resolved_image = ref_to_string client (ref_clone_with_digest client r digest),
               ii_image_size_bytes = size, ii_writable_storage_bytes = writable,
               ii_image_entrypoint =
                 (case cfg_runtime config of None \<Rightarrow> [] | Some (entrypoint, _) \<Rightarrow> unwrap_or entrypoint []),
               ii_image_cmd = (case cfg_runtime config of None \<Rightarrow> [] | Some (_, cmd) \<Rightarrow> unwrap_or cmd []),
               ii_architecture = cfg_architecture config\<rparr>))
        (\<lambda>i w. measured client manifests img disk i \<and> sent w \<subseteq> S) (\<lambda>w. sent w \<subseteq> S)"
      using r pulled x
      by (intro gives_pure gives_bind_inv gives_inspect_config [OF mem'] gives_ret)
         (auto simp: measured_def writable_storage_bytes_def split: if_splits)
  qed
qed

lemma gives_inspect:
  "gives (\<lambda>w. sent w \<subseteq> S \<union> Collect (may_present inspector)) (inspect client inspector img disk)
    (\<lambda>i w. measured client manifests img disk i \<and> sent w \<subseteq> S \<union> Collect (may_present inspector))
    (\<lambda>w. sent w \<subseteq> S \<union> Collect (may_present inspector))"
proof (cases "ref_try_from client img")
  case (Inl e)
  then show ?thesis by (simp add: inspect_def elift_def) (auto simp: gives_def ebind_def efail_def)
next
  case (Inr r)
  have "(ref_registry client r, auth_for client inspector r) \<in> S \<union> Collect (may_present inspector)"
    using auth_for_may_present [of inspector client r] by simp
  note mem = this
  show ?thesis
    unfolding inspect_def Inr map_err.simps Let_def elift_def sum.case ebind_eret
    by (rule gives_bind [OF gives_pull_manifest [OF mem] gives_inspect_resolved [OF Inr mem]])
qed

end

lemma verified_image_from_peer_Some:
  assumes "verified_image_from_peer client flash peer disk = Some i"
  shows "\<exists>status r d p q.
    svc_organization_id (fsv_spec peer) = svc_organization_id (fsv_spec flash) \<and>
    ref_try_from client (fs_image (svc_workload (fsv_spec flash))) = Inr r \<and>
    ref_digest client r = Some d \<and> immutable_digest d \<and>
    ref_try_from client (fs_image (svc_workload (fsv_spec peer))) = Inr p \<and>
    ref_to_string client p = ref_to_string client r \<and>
    fsv_status peer = Some status \<and> st_resolved_image status = Some (ii_resolved_image i) \<and>
    ref_try_from client (ii_resolved_image i) = Inr q \<and> ref_to_string client q = ref_to_string client r \<and>
    st_image_size_bytes status = Some (ii_image_size_bytes i) \<and> 0 < ii_image_size_bytes i \<and>
    0 < ii_writable_storage_bytes i \<and> ii_image_size_bytes i + ii_writable_storage_bytes i = disk"
  using assms
  by (auto simp: verified_image_from_peer_def Option.bind_eq_Some_conv ok_Some u64_checked_sub_def split: if_splits)

section \<open>A registry that keeps the contract\<close>

text \<open>
  References are a registry, a path and a digest; the state is the log of presented credentials.
\<close>

record mem_reference =
  mr_registry :: string
  mr_path :: string
  mr_digest :: "string option"

definition show_reference :: "mem_reference \<Rightarrow> string" where
  "show_reference r =
     mr_registry r @ ''/'' @ mr_path r @ (case mr_digest r of None \<Rightarrow> [] | Some d \<Rightarrow> CHR ''@'' # d)"

definition read_reference :: "string \<Rightarrow> string + mem_reference" where
  "read_reference t =
     (case split_once CHR ''/'' t of
        None \<Rightarrow> Inl ''no registry''
      | Some (registry, rest) \<Rightarrow>
          Inr (case split_once CHR ''@'' rest of
                 None \<Rightarrow> \<lparr>mr_registry = registry, mr_path = rest, mr_digest = None\<rparr>
               | Some (path, d) \<Rightarrow> \<lparr>mr_registry = registry, mr_path = path, mr_digest = Some d\<rparr>))"

definition mem_client ::
  "(mem_reference \<Rightarrow> (oci_manifest \<times> string) option) \<Rightarrow> oci_config_file \<Rightarrow>
   (mem_reference, (string \<times> registry_auth) list) oci_client" where
  "mem_client served config =
     \<lparr>ref_try_from = read_reference, ref_registry = mr_registry, ref_digest = mr_digest,
      ref_clone_with_digest = (\<lambda>r d. r\<lparr>mr_digest := Some d\<rparr>), ref_to_string = show_reference,
      pull_manifest = (\<lambda>r a w. (ok_or (served r) (ServerError 404 ''missing''), (mr_registry r, a) # w)),
      pull_image_manifest = (\<lambda>r a w.
        (case served r of
           Some (Image m, _) \<Rightarrow> Inr m
         | _ \<Rightarrow> Inl (ServerError 404 ''missing''), (mr_registry r, a) # w)),
      pull_blob = (\<lambda>r d w. (Inr (oci_digest d), w)),
      parse_config_file = (\<lambda>bytes. if bytes = [] then None else Some config)\<rparr>"

interpretation mem_registry: image_registry "mem_client served config" set served for served config
  by unfold_locales (auto simp: mem_client_def ok_or_Inr)

definition sample_manifest :: oci_image_manifest where
  "sample_manifest =
     \<lparr>oci_config = \<lparr>oci_digest = ''c'', oci_size = 100\<rparr>, oci_layers = [\<lparr>oci_digest = ''l'', oci_size = 900\<rparr>]\<rparr>"

definition sample_config :: oci_config_file where
  "sample_config = \<lparr>cfg_os = ''linux'', cfg_architecture = ''amd64'', cfg_runtime = None\<rparr>"

definition sample_client :: "(mem_reference, (string \<times> registry_auth) list) oci_client" where
  "sample_client = mem_client (\<lambda>_. Some (Image sample_manifest, ''sha256:d'')) sample_config"

lemmas inspect_eval =
  inspect_def inspect_resolved_def inspect_size_def inspect_config_def elift_def eregistry_def ematch_def
  ebind_def eret_def efail_def auth_for_def filter_opt_def new_inspector_def with_basic_auth_def
  sample_client_def mem_client_def sample_manifest_def sample_config_def manifest_size_bytes_def
  add_descriptor_def ok_or_def u64_try_from_i64_def u64_checked_add_def u64_max_def
  writable_storage_bytes_def read_reference_def show_reference_def eq_ignore_ascii_case_def
  to_ascii_lowercase_def

section \<open>Properties\<close>

text \<open>
  An inspection that succeeds has measured the image it pins: the resolved reference carries
  the digest that the registry returned for the requested one, the accounted size is the exact size
  of that manifest, or of the largest Linux manifest of that index, and size and writable space are
  exactly the disk of the service.
\<close>

theorem inspect_measures:
  assumes "image_registry client sent manifests"
    and "inspect client inspector img disk w = (Inr i, w')"
  shows "measured client manifests img disk i"
  using gives_Inr [OF image_registry.gives_inspect [OF assms(1), of "sent w"] _ assms(2)] by auto

theorem inspect_measures_witness:
  "inspect sample_client new_inspector ''r.io/a'' 5000 [] =
     (Inr \<lparr>ii_resolved_image = ''r.io/a@sha256:d'', ii_image_size_bytes = 1000, ii_writable_storage_bytes = 4000,
        ii_image_entrypoint = [], ii_image_cmd = [], ii_architecture = ''amd64''\<rparr>,
      [(''r.io'', Anonymous), (''r.io'', Anonymous)]) \<and>
   measured sample_client (\<lambda>_. Some (Image sample_manifest, ''sha256:d'')) ''r.io/a'' 5000
     \<lparr>ii_resolved_image = ''r.io/a@sha256:d'', ii_image_size_bytes = 1000, ii_writable_storage_bytes = 4000,
      ii_image_entrypoint = [], ii_image_cmd = [], ii_architecture = ''amd64''\<rparr>"
proof -
  have "inspect sample_client new_inspector ''r.io/a'' 5000 [] =
     (Inr \<lparr>ii_resolved_image = ''r.io/a@sha256:d'', ii_image_size_bytes = 1000, ii_writable_storage_bytes = 4000,
        ii_image_entrypoint = [], ii_image_cmd = [], ii_architecture = ''amd64''\<rparr>,
      [(''r.io'', Anonymous), (''r.io'', Anonymous)])"
    by (simp add: inspect_eval)
  from this inspect_measures [OF mem_registry.image_registry_axioms this [unfolded sample_client_def]] show ?thesis
    by (simp add: sample_client_def)
qed

text \<open>
  The credentials of the private registry are presented to that registry only: whatever an
  inspection pulls, and whether it succeeds or fails, every credential that it newly presents is
  anonymous or goes to the registry it was configured for.
\<close>

theorem inspect_credentials_scoped:
  assumes "image_registry client sent manifests"
    and "inspect client inspector img disk w = (x, w')" and "p \<in> sent w'"
  shows "p \<in> sent w \<or> may_present inspector p"
proof -
  note spec = image_registry.gives_inspect [OF assms(1), of "sent w" inspector img disk]
  have "sent w' \<subseteq> sent w \<union> Collect (may_present inspector)"
  proof (cases x)
    case (Inl e)
    show ?thesis by (rule gives_Inl [OF spec _ assms(2) [unfolded Inl]]) simp
  next
    case (Inr i)
    have "measured client manifests img disk i \<and> sent w' \<subseteq> sent w \<union> Collect (may_present inspector)"
      by (rule gives_Inr [OF spec _ assms(2) [unfolded Inr]]) simp
    then show ?thesis ..
  qed
  with assms(3) show ?thesis by auto
qed

theorem inspect_credentials_scoped_witness:
  "snd (inspect sample_client (with_basic_auth ''Private.io'' ''u'' ''p'') ''r.io/a'' 500 []) = [(''r.io'', Anonymous)] \<and>
   may_present (with_basic_auth ''Private.io'' ''u'' ''p'') (''r.io'', Anonymous)"
proof -
  have "inspect sample_client (with_basic_auth ''Private.io'' ''u'' ''p'') ''r.io/a'' 500 [] =
      (Inl (DiskLimitExceeded 1000 500), [(''r.io'', Anonymous)])"
    by (simp add: inspect_eval)
  from this inspect_credentials_scoped [OF mem_registry.image_registry_axioms this [unfolded sample_client_def]]
  show ?thesis by auto
qed

text \<open>
  An inspection is reused from another service only within one organization and for one
  immutable digest: what is found comes from a service of the list with the same organization whose
  requested and resolved image are the requested reference, whose digest is a full SHA-256; the
  writable space is computed anew and both parts of the disk are not empty.
\<close>

theorem verified_peer_image_sound:
  assumes "verified_peer_image_inspection client (\<lambda>w. (Inr peers, w)) flash disk w = (Inr (Some i), w')"
  shows "\<exists>peer\<in>set peers. \<exists>status r d p q.
    svc_organization_id (fsv_spec peer) = svc_organization_id (fsv_spec flash) \<and>
    ref_try_from client (fs_image (svc_workload (fsv_spec flash))) = Inr r \<and>
    ref_digest client r = Some d \<and> immutable_digest d \<and>
    ref_try_from client (fs_image (svc_workload (fsv_spec peer))) = Inr p \<and>
    ref_to_string client p = ref_to_string client r \<and>
    fsv_status peer = Some status \<and> st_resolved_image status = Some (ii_resolved_image i) \<and>
    ref_try_from client (ii_resolved_image i) = Inr q \<and> ref_to_string client q = ref_to_string client r \<and>
    st_image_size_bytes status = Some (ii_image_size_bytes i) \<and> 0 < ii_image_size_bytes i \<and>
    0 < ii_writable_storage_bytes i \<and> ii_image_size_bytes i + ii_writable_storage_bytes i = disk"
proof -
  from assms have "find_map (\<lambda>peer. verified_image_from_peer client flash peer disk) peers = Some i"
    by (auto simp: verified_peer_image_inspection_def eret_def ebind_def split: if_splits)
  then obtain peer where "peer \<in> set peers" and "verified_image_from_peer client flash peer disk = Some i"
    by (auto dest: find_map_Some)
  then show ?thesis by (blast dest: verified_image_from_peer_Some)
qed

definition sample_pinned :: "string \<Rightarrow> flash_service" where
  "sample_pinned img =
     sample_flash
       \<lparr>fsv_spec := (fsv_spec sample_flash)\<lparr>svc_workload := sample_flash_spec\<lparr>fs_image := img\<rparr>\<rparr>,
        fsv_status := Some (default_flash_service_status
          \<lparr>st_resolved_image := Some img, st_image_size_bytes := Some 1000, st_image_entrypoint := Some [],
           st_image_cmd := Some [], st_image_architecture := Some ''amd64''\<rparr>)\<rparr>"

theorem verified_peer_image_sound_witness:
  "\<exists>img i. verified_peer_image_inspection sample_client (\<lambda>w. (Inr [sample_pinned img], w)) (sample_pinned img) 5000 () =
       (Inr (Some i), ()) \<and> ii_image_size_bytes i + ii_writable_storage_bytes i = 5000"
proof -
  let ?img = "''r/a@sha256:0000000000000000000000000000000000000000000000000000000000000000''"
  let ?i = "\<lparr>ii_resolved_image = ?img, ii_image_size_bytes = 1000, ii_writable_storage_bytes = 4000,
    ii_image_entrypoint = [], ii_image_cmd = [], ii_architecture = ''amd64''\<rparr>"
  have digest: "immutable_digest ''sha256:0000000000000000000000000000000000000000000000000000000000000000''" by code_simp
  have pinned: "contains_str ''@sha256:'' ?img" by code_simp
  have read: "read_reference ?img = Inr \<lparr>mr_registry = ''r'', mr_path = ''a'', mr_digest = Some ''sha256:0000000000000000000000000000000000000000000000000000000000000000''\<rparr>"
    by code_simp
  have found: "verified_peer_image_inspection sample_client (\<lambda>w. (Inr [sample_pinned ?img], w)) (sample_pinned ?img) 5000 () =
      (Inr (Some ?i), ())"
    using digest pinned read
    by (simp add: verified_peer_image_inspection_def verified_image_from_peer_def cached_image_inspection_def
        sample_pinned_def sample_flash_def sample_client_def mem_client_def ok_def ebind_def eret_def
        u64_checked_sub_def default_flash_service_status_def)
  from verified_peer_image_sound [OF this] found show ?thesis by blast
qed

end
