(* ===== verification/Network_Policy.thy ===== *)
theory Network_Policy
  imports Service_Objects
begin

text \<open>
  The \<open>NetworkPolicy\<close> of a service (\<open>reconcile.rs\<close>, \<open>desired_network_policy_with_networks\<close> and
  its normalization). The peers of a rule are kept in the text the controller sends; what they
  admit is stated in \<open>Policy_Properties\<close>.
\<close>

record np_ip_block =
  ipb_cidr :: string
  ipb_except :: "string list option"

record np_peer =
  npp_ip_block :: "np_ip_block option"
  npp_namespace_selector :: "(string, string) btree_map option"
  npp_pod_selector :: "(string, string) btree_map option"

record np_port =
  npo_protocol :: string
  npo_port :: u16

record np_rule =
  npr_peers :: "np_peer list option"
  npr_ports :: "np_port list option"

record network_policy =
  np_name :: string
  np_labels :: "(string, string) btree_map"
  np_owner :: owner_reference
  np_pod_selector :: "(string, string) btree_map"
  np_policy_types :: "string list option"
  np_ingress :: "np_rule list option"
  np_egress :: "np_rule list option"

record 'n network_policy_options =
  npo_additional_protected_networks :: "'n list"
  npo_dns_networks :: "'n list"
  npo_secret_manager_networks :: "'n list"
  npo_vpc_guard_networks :: "'n list"
  npo_forwarded_ingress_networks :: "'n list"
  npo_activator_namespace :: string
  npo_allow_activator :: bool

section \<open>Peers and rules\<close>

definition cidr_peer :: "'n ipnet_ops \<Rightarrow> 'n \<Rightarrow> np_peer" where
  "cidr_peer ops n =
     \<lparr>npp_ip_block = Some \<lparr>ipb_cidr = net_show ops n, ipb_except = None\<rparr>,
      npp_namespace_selector = None, npp_pod_selector = None\<rparr>"

definition block_peer :: "'n ipnet_ops \<Rightarrow> 'n destination_ip_block \<Rightarrow> np_peer" where
  "block_peer ops b =
     \<lparr>npp_ip_block = Some \<lparr>ipb_cidr = net_show ops (blk_cidr b),
                         ipb_except = Some (map (net_show ops) (blk_except b))\<rparr>,
      npp_namespace_selector = None, npp_pod_selector = None\<rparr>"

definition pods_peer :: "(string, string) btree_map option \<Rightarrow> (string \<times> string) list \<Rightarrow> np_peer" where
  "pods_peer namespace labels =
     \<lparr>npp_ip_block = None, npp_namespace_selector = namespace, npp_pod_selector = Some labels\<rparr>"

abbreviation namespace_named :: "string \<Rightarrow> (string, string) btree_map option" where
  "namespace_named n \<equiv> Some [(''kubernetes.io/metadata.name'', n)]"

abbreviation organization_peer :: "flash_service \<Rightarrow> np_peer" where
  "organization_peer flash \<equiv> pods_peer None [(ORGANIZATION_LABEL, svc_organization_id (fsv_spec flash))]"

definition rule_of :: "np_peer list \<Rightarrow> np_port list option \<Rightarrow> np_rule" where
  "rule_of peers ports = \<lparr>npr_peers = Some peers, npr_ports = ports\<rparr>"

text \<open>The ports of the containers, without the duplicates that several published ports may give.\<close>

fun container_ports :: "flash_port list \<Rightarrow> (u16 \<times> transport_protocol) list \<Rightarrow> np_port list" where
  "container_ports [] seen = []"
| "container_ports (p # ps) seen =
     (if (port_container p, port_protocol p) \<in> set seen then container_ports ps seen
      else \<lparr>npo_protocol = as_kubernetes (port_protocol p), npo_port = port_container p\<rparr> #
           container_ports ps ((port_container p, port_protocol p) # seen))"

section \<open>Ingress\<close>

definition web_sources :: "'n network_policy_options \<Rightarrow> np_peer list" where
  "web_sources options =
     pods_peer (namespace_named PROXY_NAMESPACE)
       [(''app.kubernetes.io/name'', ''envoy''), (''app.kubernetes.io/component'', ''proxy''),
        (''app.kubernetes.io/managed-by'', ''envoy-gateway''),
        (''gateway.envoyproxy.io/owning-gateway-name'', GATEWAY_NAME),
        (''gateway.envoyproxy.io/owning-gateway-namespace'', GATEWAY_NAMESPACE)] #
     (if npo_allow_activator options
      then [pods_peer (namespace_named (npo_activator_namespace options))
              [(''app.kubernetes.io/component'', ''activator''), (''app.kubernetes.io/part-of'', ''heterocloud'')]]
      else [])"

definition ingress_rules ::
  "('n::linorder) ipnet_ops \<Rightarrow> flash_service \<Rightarrow> 'n network_policy_options \<Rightarrow> reconcile_error + np_rule list" where
  "ingress_rules ops flash options =
     (let w = workload flash; x = fs_exposure w; ports = container_ports (fs_ports w) []
      in if ports = [] then Inr []
         else if ex_endpoint_mode x = Web then Inr [rule_of (web_sources options) (Some ports)]
         else case ex_kind x of
                Internal \<Rightarrow>
                  if fs_network w \<noteq> None then Inr []
                  else Inr [rule_of [organization_peer flash] (Some ports)]
              | Public \<Rightarrow>
                  bindR (map_err Validation (public_source_ip_blocks ops x)) (\<lambda>blocks.
                  let sources = map (block_peer ops) blocks @
                        (if ex_traffic_mode x = Forwarded
                         then map (cidr_peer ops) (npo_forwarded_ingress_networks options) else [])
                  in Inr (if sources = [] then [] else [rule_of sources (Some ports)])))"

section \<open>Egress\<close>

definition dns_rule :: "'n ipnet_ops \<Rightarrow> 'n network_policy_options \<Rightarrow> np_rule" where
  "dns_rule ops options =
     rule_of (map (cidr_peer ops) (npo_dns_networks options) @
              [pods_peer (namespace_named ''kube-system'') [(''k8s-app'', ''kube-dns'')]])
       (Some [\<lparr>npo_protocol = ''UDP'', npo_port = 53\<rparr>, \<lparr>npo_protocol = ''TCP'', npo_port = 53\<rparr>])"

definition uses_secrets :: "flash_spec \<Rightarrow> bool" where
  "uses_secrets w \<longleftrightarrow> fs_secret_env w \<noteq> [] \<or> fs_secret_files w \<noteq> []"

definition secret_rules ::
  "'n ipnet_ops \<Rightarrow> flash_spec \<Rightarrow> 'n network_policy_options \<Rightarrow> reconcile_error + np_rule list" where
  "secret_rules ops w options =
     (if uses_secrets w
      then if npo_secret_manager_networks options = [] then Inl MissingSecretManagerNetwork
           else Inr [rule_of (map (cidr_peer ops) (npo_secret_manager_networks options))
                       (Some [\<lparr>npo_protocol = ''TCP'', npo_port = 443\<rparr>])]
      else Inr [])"

definition guard_rules ::
  "'n ipnet_ops \<Rightarrow> flash_spec \<Rightarrow> 'n network_policy_options \<Rightarrow> reconcile_error + np_rule list" where
  "guard_rules ops w options =
     (if fs_network w \<noteq> None
      then if npo_vpc_guard_networks options = []
           then Inl (Resource ''VPC node guard addresses are not configured'')
           else Inr [rule_of (map (cidr_peer ops) (npo_vpc_guard_networks options))
                       (Some [\<lparr>npo_protocol = ''TCP'', npo_port = 18083\<rparr>])]
      else Inr [])"

definition egress_rules ::
  "('n::linorder) ipnet_ops \<Rightarrow> flash_service \<Rightarrow> 'n network_policy_options \<Rightarrow> reconcile_error + np_rule list" where
  "egress_rules ops flash options =
     (let w = workload flash
      in bindR (secret_rules ops w options) (\<lambda>secrets.
         let organization =
               (if fs_network w = None \<and> eg_allow_same_organization (fs_egress w)
                then [rule_of [organization_peer flash] None] else [])
         in bindR (map_err Validation
                     (destination_ip_blocks ops (fs_egress w) (npo_additional_protected_networks options))) (\<lambda>blocks.
            let destinations = map (block_peer ops) blocks;
                internet = (if fs_network w = None \<and> destinations \<noteq> [] then [rule_of destinations None] else [])
            in bindR (guard_rules ops w options) (\<lambda>guard.
               Inr ([dns_rule ops options] @ secrets @ organization @ internet @ guard)))))"

section \<open>The policy\<close>

definition omit_empty :: "'a list option \<Rightarrow> 'a list option" where
  "omit_empty values = (if values = Some [] then None else values)"

definition normalize_peer :: "np_peer \<Rightarrow> np_peer" where
  "normalize_peer p =
     p\<lparr>npp_ip_block := map_option (\<lambda>b. b\<lparr>ipb_except := omit_empty (ipb_except b)\<rparr>) (npp_ip_block p)\<rparr>"

definition normalize_rule :: "np_rule \<Rightarrow> np_rule" where
  "normalize_rule r =
     r\<lparr>npr_ports := omit_empty (npr_ports r),
       npr_peers := map_option (map normalize_peer) (omit_empty (npr_peers r))\<rparr>"

definition normalize_network_policy :: "network_policy \<Rightarrow> network_policy" where
  "normalize_network_policy policy =
     policy
       \<lparr>np_ingress := map_option (map normalize_rule) (omit_empty (np_ingress policy)),
        np_egress := map_option (map normalize_rule) (omit_empty (np_egress policy)),
        np_policy_types := omit_empty (np_policy_types policy)\<rparr>"

definition desired_network_policy_with_networks ::
  "('n::linorder) ipnet_ops \<Rightarrow> uuid_ops \<Rightarrow> flash_service \<Rightarrow> owner_reference \<Rightarrow> 'n network_policy_options \<Rightarrow>
   reconcile_error + network_policy" where
  "desired_network_policy_with_networks ops uuids flash owner options =
     bindR (ingress_rules ops flash options) (\<lambda>ingress.
     bindR (egress_rules ops flash options) (\<lambda>egress.
     Inr (normalize_network_policy
       \<lparr>np_name = flash_name flash, np_labels = base_labels uuids flash, np_owner = owner,
        np_pod_selector = [(INSTANCE_LABEL, svc_service_instance_id (fsv_spec flash))],
        np_policy_types = Some [''Ingress'', ''Egress''], np_ingress = Some ingress, np_egress = Some egress\<rparr>)))"

end
