(* ===== verification/Policy_Properties.thy ===== *)
theory Policy_Properties
  imports Network_Policy Network_Sets Meter_Properties
begin

text \<open>
  What the network policy of a service admits. The meaning of a policy is the one Kubernetes
  documents: a rule without peers admits every peer and a rule without ports every port, a direction
  that the policy types name admits what one of its rules admits, an address is admitted by an IP
  block outside its exceptions, and a pod by selectors on its labels and those of its namespace.
\<close>

section \<open>The meaning of a policy\<close>

definition some_or_any :: "('a \<Rightarrow> bool) \<Rightarrow> 'a list option \<Rightarrow> bool" where
  "some_or_any P xs = (case xs of None \<Rightarrow> True | Some ys \<Rightarrow> ys = [] \<or> list_ex P ys)"

definition rule_admits :: "(np_peer \<Rightarrow> bool) \<Rightarrow> string \<Rightarrow> u16 \<Rightarrow> np_rule \<Rightarrow> bool" where
  "rule_admits A proto port r \<longleftrightarrow>
     some_or_any (\<lambda>p. npo_protocol p = proto \<and> npo_port p = port) (npr_ports r) \<and> some_or_any A (npr_peers r)"

definition direction_admits ::
  "string \<Rightarrow> (np_peer \<Rightarrow> bool) \<Rightarrow> string \<Rightarrow> u16 \<Rightarrow> string list option \<Rightarrow> np_rule list option \<Rightarrow> bool" where
  "direction_admits direction A proto port types rules =
     (if direction \<in> set (unwrap_or types []) then list_ex (rule_admits A proto port) (unwrap_or rules []) else True)"

definition admits_ingress :: "(np_peer \<Rightarrow> bool) \<Rightarrow> transport_protocol \<Rightarrow> u16 \<Rightarrow> network_policy \<Rightarrow> bool" where
  "admits_ingress A proto port policy =
     direction_admits ''Ingress'' A (as_kubernetes proto) port (np_policy_types policy) (np_ingress policy)"

definition admits_egress :: "(np_peer \<Rightarrow> bool) \<Rightarrow> transport_protocol \<Rightarrow> u16 \<Rightarrow> network_policy \<Rightarrow> bool" where
  "admits_egress A proto port policy =
     direction_admits ''Egress'' A (as_kubernetes proto) port (np_policy_types policy) (np_egress policy)"

definition addr_admitted :: "(string \<Rightarrow> ip_addr set) \<Rightarrow> ip_addr \<Rightarrow> np_peer \<Rightarrow> bool" where
  "addr_admitted text_addrs a p =
     (case npp_ip_block p of
        None \<Rightarrow> False
      | Some b \<Rightarrow> a \<in> text_addrs (ipb_cidr b) \<and> (\<forall>e\<in>set (unwrap_or (ipb_except b) []). a \<notin> text_addrs e))"

record peer_pod =
  pp_same_namespace :: bool
  pp_namespace_labels :: "string \<Rightarrow> string option"
  pp_labels :: "string \<Rightarrow> string option"

definition selects :: "(string, string) btree_map \<Rightarrow> (string \<Rightarrow> string option) \<Rightarrow> bool" where
  "selects selector labels = list_all (\<lambda>(k, v). labels k = Some v) selector"

definition pod_admitted :: "peer_pod \<Rightarrow> np_peer \<Rightarrow> bool" where
  "pod_admitted q p \<longleftrightarrow>
     npp_ip_block p = None \<and>
     (case npp_namespace_selector p of
        None \<Rightarrow> pp_same_namespace q
      | Some selector \<Rightarrow> selects selector (pp_namespace_labels q)) \<and>
     (case npp_pod_selector p of None \<Rightarrow> True | Some selector \<Rightarrow> selects selector (pp_labels q))"

section \<open>Normalization keeps the meaning\<close>

lemma some_or_any_omit [simp]: "some_or_any P (omit_empty xs) = some_or_any P xs"
  by (auto simp: some_or_any_def omit_empty_def split: option.splits)

lemma some_or_any_map [simp]: "some_or_any P (map_option (map f) xs) = some_or_any (\<lambda>x. P (f x)) xs"
  by (auto simp: some_or_any_def list_ex_iff split: option.splits)

lemma some_or_any_Some [simp]: "some_or_any P (Some xs) \<longleftrightarrow> xs = [] \<or> list_ex P xs"
  by (simp add: some_or_any_def)

lemma some_or_any_None [simp]: "some_or_any P None"
  by (simp add: some_or_any_def)

lemma addr_admitted_normalize [simp]: "addr_admitted t a (normalize_peer p) = addr_admitted t a p"
  by (auto simp: addr_admitted_def normalize_peer_def omit_empty_def unwrap_or_def split: option.splits)

lemma pod_admitted_normalize [simp]: "pod_admitted q (normalize_peer p) = pod_admitted q p"
  by (simp add: pod_admitted_def normalize_peer_def)

lemma rule_admits_normalize:
  assumes "\<And>p. A (normalize_peer p) = A p"
  shows "rule_admits A proto port (normalize_rule r) = rule_admits A proto port r"
  using assms by (simp add: rule_admits_def normalize_rule_def)

lemma list_ex_normalize:
  assumes "\<And>p. A (normalize_peer p) = A p"
  shows "list_ex (rule_admits A proto port) (unwrap_or (map_option (map normalize_rule) (omit_empty (Some rs))) [])
    \<longleftrightarrow> list_ex (rule_admits A proto port) rs"
  using rule_admits_normalize [of A, OF assms]
  by (simp add: unwrap_or_def omit_empty_def list_ex_iff)

text \<open>The rules that the policy was built from decide what it admits.\<close>

lemma desired_policy_admits:
  assumes "desired_network_policy_with_networks ops uuids flash owner options = Inr policy"
  obtains ingress egress where "ingress_rules ops flash options = Inr ingress"
    and "egress_rules ops flash options = Inr egress"
    and "\<And>A proto port. (\<And>p. A (normalize_peer p) = A p) \<Longrightarrow>
      admits_ingress A proto port policy = list_ex (rule_admits A (as_kubernetes proto) port) ingress"
    and "\<And>A proto port. (\<And>p. A (normalize_peer p) = A p) \<Longrightarrow>
      admits_egress A proto port policy = list_ex (rule_admits A (as_kubernetes proto) port) egress"
proof -
  from assms obtain ingress egress where rules: "ingress_rules ops flash options = Inr ingress"
    "egress_rules ops flash options = Inr egress"
    and policy: "policy = normalize_network_policy
      \<lparr>np_name = flash_name flash, np_labels = base_labels uuids flash, np_owner = owner,
       np_pod_selector = [(INSTANCE_LABEL, svc_service_instance_id (fsv_spec flash))],
       np_policy_types = Some [''Ingress'', ''Egress''], np_ingress = Some ingress, np_egress = Some egress\<rparr>"
    by (auto simp: desired_network_policy_with_networks_def bindR_Inr)
  have types: "np_policy_types policy = Some [''Ingress'', ''Egress'']"
    by (simp add: policy normalize_network_policy_def omit_empty_def)
  show thesis
  proof (rule that [OF rules])
    fix A :: "np_peer \<Rightarrow> bool" and proto port
    assume keep: "\<And>p. A (normalize_peer p) = A p"
    show "admits_ingress A proto port policy = list_ex (rule_admits A (as_kubernetes proto) port) ingress"
      and "admits_egress A proto port policy = list_ex (rule_admits A (as_kubernetes proto) port) egress"
      using list_ex_normalize [of A, OF keep]
      by (simp_all add: admits_ingress_def admits_egress_def direction_admits_def types policy
          normalize_network_policy_def unwrap_or_def omit_empty_def)
  qed
qed

section \<open>Ports\<close>

lemma container_ports_set:
  "list_ex (\<lambda>p. npo_protocol p = as_kubernetes proto \<and> npo_port p = port) (container_ports ps seen) \<longleftrightarrow>
     (port, proto) \<notin> set seen \<and> list_ex (\<lambda>p. port_protocol p = proto \<and> port_container p = port) ps"
proof (induction ps seen rule: container_ports.induct)
  case (2 p ps seen)
  have "as_kubernetes q = as_kubernetes proto \<longleftrightarrow> q = proto" for q
    by (cases q; cases proto) (simp_all add: as_kubernetes_def)
  with 2 show ?case by auto
qed simp

lemma container_ports_Nil: "container_ports ps [] = [] \<longleftrightarrow> ps = []"
  by (cases ps) auto

lemma as_kubernetes_literal:
  "''TCP'' = as_kubernetes proto \<longleftrightarrow> proto = Tcp" "''UDP'' = as_kubernetes proto \<longleftrightarrow> proto = Udp"
  by (cases proto; simp add: as_kubernetes_def)+

section \<open>Addresses\<close>

text \<open>The text of a network means the addresses of that network.\<close>

locale policy_text = ip_network_text +
  fixes text_addrs :: "string \<Rightarrow> ip_addr set"
  assumes shown: "text_addrs (net_show ops n) = net_addrs ops n"
begin

lemma addr_cidr_peer [simp]: "addr_admitted text_addrs a (cidr_peer ops n) \<longleftrightarrow> a \<in> net_addrs ops n"
  by (simp add: addr_admitted_def cidr_peer_def shown unwrap_or_def)

lemma addr_pods_peer [simp]: "\<not> addr_admitted text_addrs a (pods_peer ns ls)"
  by (simp add: addr_admitted_def pods_peer_def)

lemma addr_cidr_peers: "list_ex (addr_admitted text_addrs a) (map (cidr_peer ops) ns) \<longleftrightarrow> a \<in> cover ops ns"
  by (auto simp: list_ex_iff cover_def)

lemma addr_block_peers:
  "list_ex (addr_admitted text_addrs a) (map (block_peer ops) bs) \<longleftrightarrow> a \<in> permitted ops bs"
  by (auto simp: list_ex_iff addr_admitted_def block_peer_def shown unwrap_or_def permitted_def cover_def)

lemma dns_rule_admits:
  "rule_admits (addr_admitted text_addrs a) (as_kubernetes proto) port (dns_rule ops options) \<longleftrightarrow>
     port = 53 \<and> a \<in> cover ops (npo_dns_networks options)"
  by (cases proto) (auto simp: rule_admits_def dns_rule_def rule_of_def addr_cidr_peers as_kubernetes_def)

lemma secret_rules_admit:
  assumes "secret_rules ops w options = Inr rs"
  shows "list_ex (rule_admits (addr_admitted text_addrs a) (as_kubernetes proto) port) rs \<longleftrightarrow>
    uses_secrets w \<and> proto = Tcp \<and> port = 443 \<and> a \<in> cover ops (npo_secret_manager_networks options)"
  using assms
  by (auto simp: secret_rules_def rule_admits_def rule_of_def addr_cidr_peers as_kubernetes_literal split: if_splits)

lemma guard_rules_admit:
  assumes "guard_rules ops w options = Inr rs"
  shows "list_ex (rule_admits (addr_admitted text_addrs a) (as_kubernetes proto) port) rs \<longleftrightarrow>
    fs_network w \<noteq> None \<and> proto = Tcp \<and> port = 18083 \<and> a \<in> cover ops (npo_vpc_guard_networks options)"
  using assms
  by (auto simp: guard_rules_def rule_admits_def rule_of_def addr_cidr_peers as_kubernetes_literal split: if_splits)

lemma blocks_rule_admits:
  "list_ex (rule_admits (addr_admitted text_addrs a) proto port)
     (if bs \<noteq> [] then [rule_of (map (block_peer ops) bs) None] else []) \<longleftrightarrow> a \<in> permitted ops bs"
  by (auto simp: rule_admits_def rule_of_def addr_block_peers permitted_def)

lemma egress_rules_admit:
  assumes "egress_rules ops flash options = Inr rs"
  shows "list_ex (rule_admits (addr_admitted text_addrs a) (as_kubernetes proto) port) rs \<longleftrightarrow>
    port = 53 \<and> a \<in> cover ops (npo_dns_networks options) \<or>
    uses_secrets (workload flash) \<and> proto = Tcp \<and> port = 443 \<and> a \<in> cover ops (npo_secret_manager_networks options) \<or>
    fs_network (workload flash) = None \<and>
      (\<exists>bs. destination_ip_blocks ops (fs_egress (workload flash)) (npo_additional_protected_networks options) = Inr bs \<and>
            a \<in> permitted ops bs) \<or>
    fs_network (workload flash) \<noteq> None \<and> proto = Tcp \<and> port = 18083 \<and>
      a \<in> cover ops (npo_vpc_guard_networks options)"
proof -
  from assms obtain secrets bs guard where
    secrets: "secret_rules ops (workload flash) options = Inr secrets"
    and bs: "destination_ip_blocks ops (fs_egress (workload flash)) (npo_additional_protected_networks options) = Inr bs"
    and guard: "guard_rules ops (workload flash) options = Inr guard"
    and rs: "rs = [dns_rule ops options] @ secrets @
        (if fs_network (workload flash) = None \<and> eg_allow_same_organization (fs_egress (workload flash))
         then [rule_of [organization_peer flash] None] else []) @
        (if fs_network (workload flash) = None \<and> map (block_peer ops) bs \<noteq> []
         then [rule_of (map (block_peer ops) bs) None] else []) @ guard"
    by (auto simp: egress_rules_def Let_def bindR_Inr map_err_Inr)
  have "\<not> list_ex (rule_admits (addr_admitted text_addrs a) (as_kubernetes proto) port)
      (if c then [rule_of [organization_peer flash] None] else [])" for c
    by (simp add: rule_admits_def rule_of_def)
  moreover have "list_ex (rule_admits (addr_admitted text_addrs a) (as_kubernetes proto) port)
      (if fs_network (workload flash) = None \<and> map (block_peer ops) bs \<noteq> []
       then [rule_of (map (block_peer ops) bs) None] else []) \<longleftrightarrow>
      fs_network (workload flash) = None \<and> a \<in> permitted ops bs"
    using blocks_rule_admits [of a "as_kubernetes proto" port bs] by auto
  ultimately show ?thesis
    unfolding rs using bs
    by (simp add: secret_rules_admit [OF secrets] guard_rules_admit [OF guard] dns_rule_admits)
qed

lemma ingress_rules_admit:
  assumes "ingress_rules ops flash options = Inr rs"
  shows "list_ex (rule_admits (addr_admitted text_addrs a) (as_kubernetes proto) port) rs \<longleftrightarrow>
    has_load_balancer (fs_exposure (workload flash)) \<and>
    list_ex (\<lambda>p. port_protocol p = proto \<and> port_container p = port) (fs_ports (workload flash)) \<and>
    ((\<exists>bs. public_source_ip_blocks ops (fs_exposure (workload flash)) = Inr bs \<and> a \<in> permitted ops bs) \<or>
     ex_traffic_mode (fs_exposure (workload flash)) = Forwarded \<and>
     a \<in> cover ops (npo_forwarded_ingress_networks options))"
proof -
  let ?w = "workload flash"
  let ?x = "fs_exposure ?w" and ?ports = "container_ports (fs_ports ?w) []"
  let ?ex = "list_ex (rule_admits (addr_admitted text_addrs a) (as_kubernetes proto) port)"
  have ports: "list_ex (\<lambda>p. npo_protocol p = as_kubernetes proto \<and> npo_port p = port) ?ports \<longleftrightarrow>
      list_ex (\<lambda>p. port_protocol p = proto \<and> port_container p = port) (fs_ports ?w)"
    by (simp add: container_ports_set)
  consider "?ports = []" "rs = []" | "?ports \<noteq> []" "\<not> has_load_balancer ?x" "\<not> ?ex rs"
    | bs where "?ports \<noteq> []" "has_load_balancer ?x" "public_source_ip_blocks ops ?x = Inr bs"
      "?ex rs \<longleftrightarrow> list_ex (\<lambda>p. npo_protocol p = as_kubernetes proto \<and> npo_port p = port) ?ports \<and>
         list_ex (addr_admitted text_addrs a) (map (block_peer ops) bs @
           (if ex_traffic_mode ?x = Forwarded then map (cidr_peer ops) (npo_forwarded_ingress_networks options) else []))"
    using assms
    by (auto simp: ingress_rules_def Let_def bindR_Inr map_err_Inr has_load_balancer_def rule_admits_def rule_of_def
        web_sources_def split: if_splits exposure_type.splits)
  then show ?thesis
  proof cases
    case 1
    then show ?thesis by (simp add: container_ports_Nil)
  next
    case 2
    then show ?thesis by simp
  next
    case (3 bs)
    then show ?thesis
      unfolding 3(4) ports list_ex_append addr_block_peers by (simp add: addr_cidr_peers)
  qed
qed

end

section \<open>Pods\<close>

definition organization_pod :: "flash_service \<Rightarrow> peer_pod \<Rightarrow> bool" where
  "organization_pod flash q \<longleftrightarrow>
     pp_same_namespace q \<and> pp_labels q ORGANIZATION_LABEL = Some (svc_organization_id (fsv_spec flash))"

definition dns_pod :: "peer_pod \<Rightarrow> bool" where
  "dns_pod q \<longleftrightarrow>
     pp_namespace_labels q ''kubernetes.io/metadata.name'' = Some ''kube-system'' \<and>
     pp_labels q ''k8s-app'' = Some ''kube-dns''"

text \<open>The proxies of the gateway, by the labels that its controller gives them, and the activator in its namespace.\<close>

definition gateway_pod :: "peer_pod \<Rightarrow> bool" where
  "gateway_pod q \<longleftrightarrow>
     pp_namespace_labels q ''kubernetes.io/metadata.name'' = Some ''envoy-gateway-system'' \<and>
     pp_labels q ''app.kubernetes.io/name'' = Some ''envoy'' \<and> pp_labels q ''app.kubernetes.io/component'' = Some ''proxy'' \<and>
     pp_labels q ''app.kubernetes.io/managed-by'' = Some ''envoy-gateway'' \<and>
     pp_labels q ''gateway.envoyproxy.io/owning-gateway-name'' = Some ''heterocloud-edge'' \<and>
     pp_labels q ''gateway.envoyproxy.io/owning-gateway-namespace'' = Some ''heterocloud-edge''"

definition activator_pod :: "string \<Rightarrow> peer_pod \<Rightarrow> bool" where
  "activator_pod namespace q \<longleftrightarrow>
     pp_namespace_labels q ''kubernetes.io/metadata.name'' = Some namespace \<and>
     pp_labels q ''app.kubernetes.io/component'' = Some ''activator'' \<and> pp_labels q ''app.kubernetes.io/part-of'' = Some ''heterocloud''"

lemma pod_cidr_peer [simp]: "\<not> pod_admitted q (cidr_peer ops n)" "\<not> pod_admitted q (block_peer ops b)"
  by (simp_all add: pod_admitted_def cidr_peer_def block_peer_def)

lemma pod_pods_peer [simp]:
  "pod_admitted q (pods_peer None ls) \<longleftrightarrow> pp_same_namespace q \<and> selects ls (pp_labels q)"
  "pod_admitted q (pods_peer (Some sel) ls) \<longleftrightarrow> selects sel (pp_namespace_labels q) \<and> selects ls (pp_labels q)"
  by (simp_all add: pod_admitted_def pods_peer_def)

lemma no_pod_cidr_peers [simp]:
  "\<not> list_ex (pod_admitted q) (map (cidr_peer ops) ns)" "\<not> list_ex (pod_admitted q) (map (block_peer ops) bs)"
  by (simp_all add: list_ex_iff)

lemma egress_rules_pods:
  assumes "egress_rules ops flash options = Inr rs"
  shows "list_ex (rule_admits (pod_admitted q) (as_kubernetes proto) port) rs \<longleftrightarrow>
    port = 53 \<and> dns_pod q \<or>
    fs_network (workload flash) = None \<and> eg_allow_same_organization (fs_egress (workload flash)) \<and>
    organization_pod flash q"
proof -
  from assms obtain secrets bs guard where
    secrets: "secret_rules ops (workload flash) options = Inr secrets"
    and guard: "guard_rules ops (workload flash) options = Inr guard"
    and rs: "rs = [dns_rule ops options] @ secrets @
        (if fs_network (workload flash) = None \<and> eg_allow_same_organization (fs_egress (workload flash))
         then [rule_of [organization_peer flash] None] else []) @
        (if fs_network (workload flash) = None \<and> map (block_peer ops) bs \<noteq> []
         then [rule_of (map (block_peer ops) bs) None] else []) @ guard"
    by (auto simp: egress_rules_def Let_def bindR_Inr map_err_Inr)
  have "\<not> list_ex (rule_admits (pod_admitted q) (as_kubernetes proto) port) secrets"
    and "\<not> list_ex (rule_admits (pod_admitted q) (as_kubernetes proto) port) guard"
    using secrets guard
    by (auto simp: secret_rules_def guard_rules_def rule_admits_def rule_of_def split: if_splits)
  moreover have "rule_admits (pod_admitted q) (as_kubernetes proto) port (dns_rule ops options) \<longleftrightarrow> port = 53 \<and> dns_pod q"
    by (cases proto) (auto simp: rule_admits_def dns_rule_def rule_of_def selects_def dns_pod_def as_kubernetes_def)
  ultimately show ?thesis
    unfolding rs by (auto simp: rule_admits_def rule_of_def selects_def organization_pod_def)
qed

lemma web_sources_pods:
  "list_ex (pod_admitted q) (web_sources options) \<longleftrightarrow>
     gateway_pod q \<or> npo_allow_activator options \<and> activator_pod (npo_activator_namespace options) q"
  by (auto simp: web_sources_def selects_def gateway_pod_def activator_pod_def PROXY_NAMESPACE_def GATEWAY_NAME_def
      GATEWAY_NAMESPACE_def)

lemma ingress_rules_pods:
  assumes "ingress_rules ops flash options = Inr rs"
  shows "list_ex (rule_admits (pod_admitted q) (as_kubernetes proto) port) rs \<longleftrightarrow>
    list_ex (\<lambda>p. port_protocol p = proto \<and> port_container p = port) (fs_ports (workload flash)) \<and>
    (if ex_endpoint_mode (fs_exposure (workload flash)) = Web
     then list_ex (pod_admitted q) (web_sources options)
     else ex_kind (fs_exposure (workload flash)) = Internal \<and> fs_network (workload flash) = None \<and>
          organization_pod flash q)"
proof -
  let ?ports = "container_ports (fs_ports (workload flash)) []"
  have ports: "list_ex (\<lambda>p. npo_protocol p = as_kubernetes proto \<and> npo_port p = port) ?ports \<longleftrightarrow>
      list_ex (\<lambda>p. port_protocol p = proto \<and> port_container p = port) (fs_ports (workload flash))"
    by (simp add: container_ports_set)
  have none: "web_sources options \<noteq> []" by (simp add: web_sources_def)
  show ?thesis
    unfolding ports [symmetric] using assms none
    by (cases "?ports = []")
       (auto simp: ingress_rules_def Let_def bindR_Inr map_err_Inr rule_admits_def rule_of_def selects_def
         organization_pod_def split: if_splits exposure_type.splits)
qed

section \<open>The reference networks satisfy the contract\<close>

definition shown_addrs :: "string \<Rightarrow> ip_addr set" where
  "shown_addrs t = {a. \<exists>n. show_cidr n = t \<and> cidr_contains_addr n a}"

lemma show_cidr_inj: "show_cidr n = show_cidr m \<Longrightarrow> n = m"
proof -
  let ?b = "\<lambda>b. if b then CHR ''1'' else CHR ''0''"
  have inj: "inj ?b" by (auto simp: inj_def split: if_splits)
  have slash: "CHR ''/'' \<notin> set (map ?b bs)" for bs by auto
  assume "show_cidr n = show_cidr m"
  then have "cidr_v6 n = cidr_v6 m"
    and "map ?b (cidr_bits n) @ CHR ''/'' # map ?b (cidr_host n) = map ?b (cidr_bits m) @ CHR ''/'' # map ?b (cidr_host m)"
    by (auto simp: show_cidr_def Let_def split: if_splits)
  then show ?thesis
    using append_Cons_eq_iff [OF slash slash] inj by (auto simp: inj_map_eq_map intro: cidr.expand)
qed

interpretation cidr_policy: policy_text cidr_ops "\<lambda>n. cidr_width (cidr_v6 n)" shown_addrs
  by unfold_locales (auto simp: shown_addrs_def cidr_ops_def net_addrs_def dest: show_cidr_inj)

section \<open>Properties\<close>

text \<open>
  C2. The network policy of a service lets it reach an address exactly when the address is one of
  the DNS networks on port 53, one of the secret manager on TCP port 443 while the service uses
  secrets, one of the guards of its VPC on TCP port 18083 while it is attached to one, or, outside a
  VPC, an address that its egress mode allows and that is not protected, not additionally protected
  and not denied.
\<close>

theorem network_policy_egress_exact:
  assumes "policy_text ops max_len text_addrs"
    and "desired_network_policy_with_networks ops uuids flash owner options = Inr policy"
  shows "admits_egress (addr_admitted text_addrs a) proto port policy \<longleftrightarrow>
    port = 53 \<and> a \<in> cover ops (npo_dns_networks options) \<or>
    uses_secrets (workload flash) \<and> proto = Tcp \<and> port = 443 \<and> a \<in> cover ops (npo_secret_manager_networks options) \<or>
    fs_network (workload flash) \<noteq> None \<and> proto = Tcp \<and> port = 18083 \<and>
      a \<in> cover ops (npo_vpc_guard_networks options) \<or>
    fs_network (workload flash) = None \<and>
    a \<in> (case eg_mode (fs_egress (workload flash)) of
           Disabled \<Rightarrow> {}
         | Restricted \<Rightarrow> entries_addrs ops (eg_allowed_destination_cidrs (fs_egress (workload flash)))
         | Internet \<Rightarrow> (\<Union>v\<in>set PUBLIC_EGRESS_ROOTS. literal_addrs v))
        - ((\<Union>v\<in>set PROTECTED_EGRESS_CIDRS. literal_addrs v)
           \<union> cover ops (npo_additional_protected_networks options)
           \<union> entries_addrs ops (eg_denied_destination_cidrs (fs_egress (workload flash))))"
proof -
  from assms(2) obtain egress where rules: "egress_rules ops flash options = Inr egress"
    and "admits_egress (addr_admitted text_addrs a) proto port policy =
      list_ex (rule_admits (addr_admitted text_addrs a) (as_kubernetes proto) port) egress"
    by (rule desired_policy_admits) simp
  moreover obtain bs where bs: "destination_ip_blocks ops (fs_egress (workload flash))
      (npo_additional_protected_networks options) = Inr bs"
    using rules by (auto simp: egress_rules_def Let_def bindR_Inr map_err_Inr)
  ultimately show ?thesis
    unfolding ip_network_text.destination_ip_blocks_permitted [OF policy_text.axioms(1) [OF assms(1)] bs, symmetric]
    using policy_text.egress_rules_admit [OF assms(1) rules, of a proto port] by auto
qed

definition sample_options :: "cidr network_policy_options" where
  "sample_options =
     \<lparr>npo_additional_protected_networks = [], npo_dns_networks = [Cidr False (replicate 8 True) []],
      npo_secret_manager_networks = [], npo_vpc_guard_networks = [], npo_forwarded_ingress_networks = [],
      npo_activator_namespace = ''heterocloud-flash'', npo_allow_activator = False\<rparr>"

definition sample_uuids :: uuid_ops where
  "sample_uuids = \<lparr>uuid_parse = (\<lambda>_. Some 1), uuid_show = (\<lambda>_. ''1''), uuid_simple = (\<lambda>_. ''1'')\<rparr>"

definition sample_owner :: owner_reference where
  "sample_owner = \<lparr>owner_kind = ''FlashService'', owner_name = ''svc'', owner_uid = ''u''\<rparr>"

definition sample_service :: "flash_port list \<Rightarrow> flash_service" where
  "sample_service ports =
     sample_flash\<lparr>fsv_spec := (fsv_spec sample_flash)
       \<lparr>svc_workload := sample_flash_spec
          \<lparr>fs_ports := ports, fs_exposure := sample_exposure, fs_egress := sample_egress\<rparr>\<rparr>\<rparr>"

definition sample_ports :: "flash_port list" where
  "sample_ports = [\<lparr>port_name = ''http'', port_protocol = Tcp, port_container = 8080, port_service = 80\<rparr>]"

lemma sample_policy:
  "\<exists>policy. desired_network_policy_with_networks cidr_ops sample_uuids (sample_service sample_ports)
     sample_owner sample_options = Inr policy"
proof -
  obtain bs where "destination_ip_blocks cidr_ops sample_egress [] = Inr bs" using sample_destination_blocks ..
  moreover obtain cs where "public_source_ip_blocks cidr_ops sample_exposure = Inr cs" using sample_public_blocks ..
  ultimately show ?thesis
    by (simp add: desired_network_policy_with_networks_def ingress_rules_def egress_rules_def secret_rules_def
        guard_rules_def uses_secrets_def sample_service_def sample_flash_def sample_flash_spec_def sample_options_def
        sample_exposure_def Let_def)
qed

theorem network_policy_egress_exact_witness:
  "\<exists>policy. desired_network_policy_with_networks cidr_ops sample_uuids (sample_service sample_ports)
       sample_owner sample_options = Inr policy \<and>
     (\<forall>a. admits_egress (addr_admitted shown_addrs a) Tcp 443 policy \<longleftrightarrow>
        a \<in> (\<Union>v\<in>set PUBLIC_EGRESS_ROOTS. literal_addrs v)
          - ((\<Union>v\<in>set PROTECTED_EGRESS_CIDRS. literal_addrs v) \<union> entries_addrs cidr_ops [''8.8.8.8'']))"
proof -
  obtain policy where policy: "desired_network_policy_with_networks cidr_ops sample_uuids
      (sample_service sample_ports) sample_owner sample_options = Inr policy"
    using sample_policy ..
  show ?thesis
    using network_policy_egress_exact [OF cidr_policy.policy_text_axioms policy] policy
    by (simp add: sample_service_def sample_flash_def sample_flash_spec_def sample_options_def sample_egress_def
        uses_secrets_def)
qed

text \<open>
  C18. The network policy of a service lets an address reach it exactly when the service is public
  with a load balancer of its own, the protocol and port are those of one of its container ports, and
  the address is an allowed source that is neither denied nor protected, or, with forwarded traffic,
  one of the forwarding nodes. An internal or a web service accepts no address.
\<close>

theorem network_policy_ingress_exact:
  assumes "policy_text ops max_len text_addrs"
    and "desired_network_policy_with_networks ops uuids flash owner options = Inr policy"
  shows "admits_ingress (addr_admitted text_addrs a) proto port policy \<longleftrightarrow>
    ex_kind (fs_exposure (workload flash)) = Public \<and> ex_endpoint_mode (fs_exposure (workload flash)) \<noteq> Web \<and>
    list_ex (\<lambda>p. port_protocol p = proto \<and> port_container p = port) (fs_ports (workload flash)) \<and>
    (a \<in> (if ex_allowed_source_cidrs (fs_exposure (workload flash)) = []
          then \<Union>v\<in>set PUBLIC_EGRESS_ROOTS. literal_addrs v
          else entries_addrs ops (ex_allowed_source_cidrs (fs_exposure (workload flash))))
         - (entries_addrs ops (ex_denied_source_cidrs (fs_exposure (workload flash)))
            \<union> (\<Union>v\<in>set PROTECTED_EGRESS_CIDRS. literal_addrs v)) \<or>
     ex_traffic_mode (fs_exposure (workload flash)) = Forwarded \<and>
     a \<in> cover ops (npo_forwarded_ingress_networks options))"
proof -
  let ?x = "fs_exposure (workload flash)"
  from assms(2) obtain ingress where rules: "ingress_rules ops flash options = Inr ingress"
    and admits: "admits_ingress (addr_admitted text_addrs a) proto port policy =
      list_ex (rule_admits (addr_admitted text_addrs a) (as_kubernetes proto) port) ingress"
    by (rule desired_policy_admits) simp
  note laws = policy_text.axioms(1) [OF assms(1)]
  have "\<exists>bs. public_source_ip_blocks ops ?x = Inr bs"
    if "has_load_balancer ?x" "fs_ports (workload flash) \<noteq> []"
    using rules that
    by (auto simp: ingress_rules_def Let_def bindR_Inr map_err_Inr has_load_balancer_def container_ports_Nil
        split: if_splits)
  then show ?thesis
    unfolding admits policy_text.ingress_rules_admit [OF assms(1) rules]
    using ip_network_text.public_source_ip_blocks_permitted [OF laws, of ?x]
    by (cases "fs_ports (workload flash) = []") (auto simp: has_load_balancer_def)
qed

theorem network_policy_ingress_exact_witness:
  "\<exists>policy. desired_network_policy_with_networks cidr_ops sample_uuids (sample_service sample_ports)
       sample_owner sample_options = Inr policy \<and>
     (\<forall>a. admits_ingress (addr_admitted shown_addrs a) Tcp 8080 policy \<longleftrightarrow>
        a \<in> entries_addrs cidr_ops [''10.0.0.0/6'']
          - (entries_addrs cidr_ops [''10.0.0.0/8''] \<union> (\<Union>v\<in>set PROTECTED_EGRESS_CIDRS. literal_addrs v))) \<and>
     (\<forall>a. \<not> admits_ingress (addr_admitted shown_addrs a) Tcp 80 policy)"
proof -
  obtain policy where policy: "desired_network_policy_with_networks cidr_ops sample_uuids
      (sample_service sample_ports) sample_owner sample_options = Inr policy"
    using sample_policy ..
  show ?thesis
    using network_policy_ingress_exact [OF cidr_policy.policy_text_axioms policy] policy
    by (simp add: sample_service_def sample_flash_def sample_flash_spec_def sample_options_def sample_exposure_def
        sample_ports_def)
qed

text \<open>
  C22. Tenants are isolated: the policy of a service applies to exactly the pods with the label of that service. Through its selectors,
  a service outside a VPC reaches
  pods of its own organization only, and only if its specification says so, and the cluster's DNS on
  port 53; it is reached on its container ports by pods of its own organization when it is internal
  and outside a VPC, and, when it is a web service, by exactly the proxies of the gateway and, where the options
  allow it, the activator. A service in a VPC exchanges nothing with other tenants' pods.
\<close>

theorem network_policy_pods_exact:
  assumes "desired_network_policy_with_networks ops uuids flash owner options = Inr policy"
  shows "(selects (np_pod_selector policy) labels \<longleftrightarrow>
      labels ''flash.heterocloud.io/instance'' = Some (svc_service_instance_id (fsv_spec flash))) \<and>
    (admits_egress (pod_admitted q) proto port policy \<longleftrightarrow>
      port = 53 \<and> dns_pod q \<or>
      fs_network (workload flash) = None \<and> eg_allow_same_organization (fs_egress (workload flash)) \<and>
      organization_pod flash q) \<and>
    (admits_ingress (pod_admitted q) proto port policy \<longleftrightarrow>
      list_ex (\<lambda>p. port_protocol p = proto \<and> port_container p = port) (fs_ports (workload flash)) \<and>
      (if ex_endpoint_mode (fs_exposure (workload flash)) = Web
       then gateway_pod q \<or> npo_allow_activator options \<and> activator_pod (npo_activator_namespace options) q
       else ex_kind (fs_exposure (workload flash)) = Internal \<and> fs_network (workload flash) = None \<and>
            organization_pod flash q))"
proof
  show "selects (np_pod_selector policy) labels \<longleftrightarrow>
      labels ''flash.heterocloud.io/instance'' = Some (svc_service_instance_id (fsv_spec flash))"
    using assms
    by (auto simp: desired_network_policy_with_networks_def bindR_Inr normalize_network_policy_def selects_def INSTANCE_LABEL_def)
next
  show "(admits_egress (pod_admitted q) proto port policy \<longleftrightarrow>
      port = 53 \<and> dns_pod q \<or>
      fs_network (workload flash) = None \<and> eg_allow_same_organization (fs_egress (workload flash)) \<and>
      organization_pod flash q) \<and>
    (admits_ingress (pod_admitted q) proto port policy \<longleftrightarrow>
      list_ex (\<lambda>p. port_protocol p = proto \<and> port_container p = port) (fs_ports (workload flash)) \<and>
      (if ex_endpoint_mode (fs_exposure (workload flash)) = Web
       then gateway_pod q \<or> npo_allow_activator options \<and> activator_pod (npo_activator_namespace options) q
       else ex_kind (fs_exposure (workload flash)) = Internal \<and> fs_network (workload flash) = None \<and>
            organization_pod flash q))"
    using assms
  proof (rule desired_policy_admits)
    fix ingress egress
    assume "ingress_rules ops flash options = Inr ingress" and "egress_rules ops flash options = Inr egress"
      and "\<And>A proto port. (\<And>p. A (normalize_peer p) = A p) \<Longrightarrow>
        admits_ingress A proto port policy = list_ex (rule_admits A (as_kubernetes proto) port) ingress"
      and "\<And>A proto port. (\<And>p. A (normalize_peer p) = A p) \<Longrightarrow>
        admits_egress A proto port policy = list_ex (rule_admits A (as_kubernetes proto) port) egress"
    then show ?thesis by (simp add: egress_rules_pods ingress_rules_pods web_sources_pods)
  qed
qed

theorem network_policy_pods_exact_witness:
  "\<exists>policy. desired_network_policy_with_networks cidr_ops sample_uuids (sample_service sample_ports)
       sample_owner sample_options = Inr policy \<and>
     \<not> admits_egress (pod_admitted \<lparr>pp_same_namespace = True, pp_namespace_labels = (\<lambda>_. None),
         pp_labels = [ORGANIZATION_LABEL \<mapsto> ''other'']\<rparr>) Tcp 8080 policy"
proof -
  obtain policy where policy: "desired_network_policy_with_networks cidr_ops sample_uuids
      (sample_service sample_ports) sample_owner sample_options = Inr policy"
    using sample_policy ..
  show ?thesis
    using network_policy_pods_exact [OF policy] policy
    by (simp add: sample_service_def sample_flash_def sample_flash_spec_def sample_egress_def)
qed

end
