(* ===== verification/Workload_Status.thy ===== *)
theory Workload_Status
  imports Service_Objects
begin

text \<open>
  The observed state of a workload (\<open>reconcile.rs\<close>): the readiness of its pods, the resources they
  hold, the message and phase that its status reports, and the status of a stopped service.
\<close>

section \<open>Pods\<close>

definition condition_is :: "string \<Rightarrow> string \<Rightarrow> pod_condition \<Rightarrow> bool" where
  "condition_is kind status c \<longleftrightarrow> pc_type c = kind \<and> pc_status c = status"

definition pod_is_ready :: "pod \<Rightarrow> bool" where
  "pod_is_ready p \<longleftrightarrow>
     pod_deletion_timestamp p = None \<and>
     (case Option.bind (pod_status_of p) ps_conditions of
        None \<Rightarrow> False | Some conditions \<Rightarrow> list_ex (condition_is ''Ready'' ''True'') conditions)"

definition pod_is_active :: "pod \<Rightarrow> bool" where
  "pod_is_active p \<longleftrightarrow> Option.bind (pod_status_of p) ps_phase \<notin> {Some ''Failed'', Some ''Succeeded''}"

definition i32_of_count :: "nat \<Rightarrow> i32" where
  "i32_of_count n = (if int n \<le> i32_max then int n else i32_max)"

definition ready_count :: "pod list \<Rightarrow> i32" where
  "ready_count pods = i32_of_count (length (filter pod_is_ready pods))"

section \<open>Messages\<close>

definition workload_pending_message :: "pod list \<Rightarrow> string option" where
  "workload_pending_message pods =
     find_map (\<lambda>p.
       Option.bind (pod_status_of p) (\<lambda>status.
       Option.bind (ps_conditions status) (\<lambda>conditions.
       map_option (\<lambda>c.
         ''waiting for pod '' @ pod_name p @ '' to be scheduled ('' @ unwrap_or (pc_reason c) ''Pending'' @ ''): '' @
         unwrap_or (pc_message c) ''no eligible node'')
         (find (condition_is ''PodScheduled'' ''False'') conditions))))
       (filter (\<lambda>p. pod_deletion_timestamp p = None) pods)"

definition FAILURE_REASONS :: "string list" where
  "FAILURE_REASONS =
     [''CreateContainerConfigError'', ''CrashLoopBackOff'', ''ErrImagePull'', ''ImagePullBackOff'',
      ''InvalidImageName'', ''RunContainerError'']"

text \<open>The end of the container, or of its last run while it waits to be restarted.\<close>

definition container_end :: "container_status \<Rightarrow> container_terminated option" where
  "container_end c =
     or_else (Option.bind (cs_state c) cst_terminated)
       (if Option.bind (cs_state c) cst_waiting_reason = Some (Some ''CrashLoopBackOff'')
        then Option.bind (cs_last_state c) cst_terminated else None)"

definition container_failure :: "string \<Rightarrow> container_status \<Rightarrow> string option" where
  "container_failure name c =
     (case container_end c of
        Some t \<Rightarrow>
          let detail = unwrap_or (or_else (ct_message t) (ct_reason t)) ''the image process stopped''
          in Some (if ct_exit_code t = 0
                   then ''pod '' @ name @ '' exited: '' @ detail @
                        ''; configure a long-running command for this service''
                   else ''pod '' @ name @ '' exited with code '' @ show_int (ct_exit_code t) @ '': '' @ detail)
      | None \<Rightarrow>
          (case Option.bind (cs_state c) cst_waiting_reason of
             Some (Some why) \<Rightarrow>
               if why \<in> set FAILURE_REASONS
               then Some (''pod '' @ name @ '' cannot start ('' @ why @ ''): '' @
                      unwrap_or (Option.bind (cs_state c) cst_waiting_message) ''container startup failed'')
               else None
           | _ \<Rightarrow> None))"

definition container_statuses :: "pod \<Rightarrow> container_status list" where
  "container_statuses p = option_list (Option.bind (pod_status_of p) ps_container_statuses)"

definition workload_failure_message :: "pod list \<Rightarrow> string option" where
  "workload_failure_message pods = find_map (\<lambda>p. find_map (container_failure (pod_name p)) (container_statuses p)) pods"

definition restart_of :: "string \<Rightarrow> container_status \<Rightarrow> string option" where
  "restart_of name c =
     map_option (\<lambda>t.
       ''pod '' @ name @ '' recovered after container restart '' @ show_int (cs_restart_count c) @ '' ('' @
       unwrap_or (ct_reason t) ''process failure'' @ '', exit code '' @ show_int (ct_exit_code t) @ '')'')
       (Option.bind (cs_last_state c) cst_terminated)"

text \<open>A ready pod without a status would end the search; a ready pod has one.\<close>

fun restart_message :: "pod list \<Rightarrow> string option" where
  "restart_message [] = None"
| "restart_message (p # ps) =
     (case pod_status_of p of
        None \<Rightarrow> None
      | Some _ \<Rightarrow>
          (case find_map (restart_of (pod_name p)) (container_statuses p) of
             Some m \<Rightarrow> Some m | None \<Rightarrow> restart_message ps))"

definition workload_restart_message :: "pod list \<Rightarrow> string option" where
  "workload_restart_message pods = restart_message (filter pod_is_ready pods)"

definition deployment_failure_message :: "deployment \<Rightarrow> string option" where
  "deployment_failure_message d =
     Option.bind (dep_generation d) (\<lambda>generation.
     Option.bind (dep_status d) (\<lambda>status.
     Option.bind (ds_observed_generation status) (\<lambda>observed.
     if observed < generation then None
     else
     let conditions = option_list (ds_conditions status)
     in map_option (\<lambda>failure.
          ''deployment '' @ dep_name d @ '' cannot complete its update ('' @
          unwrap_or (pc_reason failure) ''ReplicaFailure'' @ ''): '' @
          unwrap_or (pc_message failure) ''replica creation failed'')
          (or_else (find (condition_is ''ReplicaFailure'' ''True'') conditions)
             (find (\<lambda>c. condition_is ''Progressing'' ''False'' c \<and> pc_reason c = Some ''ProgressDeadlineExceeded'')
                conditions)))))"

section \<open>The status of a running service\<close>

definition workload_ready :: "flash_service_status \<Rightarrow> pod list \<Rightarrow> deployment \<Rightarrow> bool \<Rightarrow> bool" where
  "workload_ready status pods deployment endpoint_ready \<longleftrightarrow>
     st_desired_replicas status \<le> ready_count pods \<and> endpoint_ready \<and>
     (case dep_status deployment of
        None \<Rightarrow> True | Some s \<Rightarrow> st_desired_replicas status \<le> unwrap_or (ds_available_replicas s) 0)"

definition workload_failure :: "pod list \<Rightarrow> deployment \<Rightarrow> string option" where
  "workload_failure pods deployment =
     (let active = filter (\<lambda>p. pod_deletion_timestamp p = None \<and> pod_is_active p) pods
      in or_else (workload_failure_message (if active = [] then pods else active))
           (deployment_failure_message deployment))"

definition waiting_message :: "flash_service_status \<Rightarrow> bool \<Rightarrow> string" where
  "waiting_message status needs_endpoint =
     ''waiting for '' @ show_int (st_desired_replicas status) @ '' '' @ st_runtime_class status @
     (if needs_endpoint then '' replicas and a routable service endpoint'' else '' replicas'')"

definition update_workload_status ::
  "i64 \<Rightarrow> flash_service_status \<Rightarrow> pod list \<Rightarrow> deployment \<Rightarrow> bool \<Rightarrow> bool \<Rightarrow> flash_service_status \<times> action" where
  "update_workload_status now status pods deployment endpoint_ready needs_endpoint =
     (let ready = workload_ready status pods deployment endpoint_ready;
          failure = (if ready then None else workload_failure pods deployment);
          phase = (if failure \<noteq> None then Error else if ready then Ready else Provisioning);
          message = or_else failure
            (if ready then workload_restart_message pods
             else or_else (workload_pending_message pods) (Some (waiting_message status needs_endpoint)))
      in (status\<lparr>st_ready_replicas := ready_count pods, st_phase := phase, st_message := message,
                 st_diagnostics := collect pods ready now message (st_disk_usage status)\<rparr>,
          if phase = Ready then Await_Change else Requeue 5))"

definition explicit_stop_status :: "flash_service \<Rightarrow> pod list \<Rightarrow> bool \<Rightarrow> flash_service_status" where
  "explicit_stop_status flash pods gpu_released =
     (let status = unwrap_or (fsv_status flash) default_flash_service_status;
          stopped = (\<not> list_ex pod_is_active pods \<and> gpu_released)
      in status
           \<lparr>st_observed_generation := svc_desired_generation (fsv_spec flash),
            st_desired_replicas := 0,
            st_ready_replicas := ready_count pods,
            st_runtime_class := workload_runtime_class (effective_gpu_count (workload flash)),
            st_cold := False,
            st_stopped := stopped,
            st_phase := (if stopped then Ready else Provisioning),
            st_gpu_scheduling := (if gpu_released then None else st_gpu_scheduling status),
            st_message := Some (if stopped
              then ''stopped; persistent home and service settings are retained''
              else ''stopping; waiting for workload Pods and GPU reservation to drain'')\<rparr>)"

section \<open>Allocation\<close>

definition cpu_quantity_millis :: "string \<Rightarrow> reconcile_error + u64" where
  "cpu_quantity_millis q =
     (case strip_suffix ''m'' q of
        Some m \<Rightarrow> ok_or (parse_uint u64_max m) InvalidStorageQuantity
      | None \<Rightarrow>
          bindR (ok_or (parse_uint u64_max q) InvalidStorageQuantity) (\<lambda>n. Inr (u64_saturating_mul n 1000)))"

definition add_request ::
  "(string, string) btree_map \<Rightarrow> string \<Rightarrow> (string \<Rightarrow> reconcile_error + u64) \<Rightarrow> u64 \<Rightarrow> reconcile_error + u64" where
  "add_request requests name read acc =
     (case bt_get requests name of
        None \<Rightarrow> Inr acc
      | Some q \<Rightarrow> bindR (read q) (\<lambda>n. Inr (u64_saturating_add acc n)))"

definition pod_requests :: "pod \<Rightarrow> (string, string) btree_map option" where
  "pod_requests p =
     Option.bind (pod_containers p) (\<lambda>cs. Option.bind (find (\<lambda>c. pcn_name c = ''workload'') cs) pcn_requests)"

definition memory_quantity_mib :: "string \<Rightarrow> reconcile_error + u64" where
  "memory_quantity_mib q = bindR (storage_quantity_bytes q) (\<lambda>b. Inr (div_ceil b MIB_BYTES))"

definition gpu_quantity :: "string \<Rightarrow> reconcile_error + u64" where
  "gpu_quantity q = ok_or (parse_uint u64_max q) InvalidStorageQuantity"

definition add_pod_allocation :: "pod \<Rightarrow> u64 \<times> u64 \<times> u64 \<Rightarrow> reconcile_error + (u64 \<times> u64 \<times> u64)" where
  "add_pod_allocation p acc =
     (case pod_requests p of
        None \<Rightarrow> Inr acc
      | Some requests \<Rightarrow>
          let (cpu, memory, gpu) = acc
          in bindR (add_request requests ''cpu'' cpu_quantity_millis cpu) (\<lambda>cpu.
             bindR (add_request requests ''memory'' memory_quantity_mib memory) (\<lambda>memory.
             bindR (add_request requests GPU_RESOURCE_NAME gpu_quantity gpu) (\<lambda>gpu.
             Inr (cpu, memory, gpu)))))"

definition running_allocation :: "pod list \<Rightarrow> reconcile_error + (u64 \<times> u64 \<times> u64)" where
  "running_allocation pods =
     try_fold add_pod_allocation
       (filter (\<lambda>p. Option.bind (pod_status_of p) ps_phase = Some ''Running'') pods) (0, 0, 0)"

record observed_allocation =
  oa_pods :: "pod list"
  oa_serving :: u32
  oa_cpu_millis :: u64
  oa_memory_mib :: u64
  oa_gpu_count :: u64
  oa_disk :: "disk_usage option"

text \<open>
  \<open>observe_allocation\<close> once the pods of the service have been listed and the disk usage has been
  measured.
\<close>

definition observe_allocation :: "pod list \<Rightarrow> disk_usage option \<Rightarrow> reconcile_error + observed_allocation" where
  "observe_allocation pods disk =
     bindR (running_allocation pods) (\<lambda>(cpu, memory, gpu).
     Inr \<lparr>oa_pods = pods, oa_serving = min (length (filter pod_is_ready pods)) u32_max,
          oa_cpu_millis = cpu, oa_memory_mib = memory, oa_gpu_count = gpu, oa_disk = disk\<rparr>)"

text \<open>The status that \<open>patch_observed_status\<close> sends.\<close>

definition observed_status ::
  "i64 \<Rightarrow> observed_allocation \<Rightarrow> flash_service_status \<Rightarrow> flash_service_status" where
  "observed_status now allocation status =
     (let status = status
            \<lparr>st_serving_replicas := Some (oa_serving allocation),
             st_allocated_cpu_millis := Some (oa_cpu_millis allocation),
             st_allocated_memory_mib := Some (oa_memory_mib allocation),
             st_allocated_gpu_count := Some (oa_gpu_count allocation),
             st_disk_usage := oa_disk allocation\<rparr>
      in if st_diagnostics status \<noteq> [] then status
         else let diagnostics = collect (oa_pods allocation) (st_phase status = Ready) now (st_message status)
                    (st_disk_usage status)
              in status\<lparr>st_diagnostics :=
                   (if st_phase status = Error \<and> diagnostics = [] then [reason ''deployment_failed''] else diagnostics)\<rparr>)"

section \<open>Scaling to zero\<close>

definition LAST_ACTIVITY_ANNOTATION :: string where
  "LAST_ACTIVITY_ANNOTATION = ''flash.heterocloud.io/last-activity-at''"

definition activity_timestamp :: "flash_service \<Rightarrow> i64 option" where
  "activity_timestamp flash =
     Option.bind (bt_get (meta_annotations (fsv_meta flash)) LAST_ACTIVITY_ANNOTATION) (parse_sint i64_min i64_max)"

definition should_scale_to_zero :: "flash_service \<Rightarrow> i64 \<Rightarrow> bool" where
  "should_scale_to_zero flash now =
     (case filter_opt (\<lambda>s. as_min_replicas s = 0) (fs_autoscaling (workload flash)) of
        None \<Rightarrow> False
      | Some scaling \<Rightarrow>
          (case fsv_status flash of
             None \<Rightarrow> False
           | Some status \<Rightarrow>
               st_phase status = Ready \<and>
               (st_observed_generation status = svc_desired_generation (fsv_spec flash) \<or>
                st_cold status \<and> st_desired_replicas status = 0)) \<and>
          (case activity_timestamp flash of
             None \<Rightarrow> False
           | Some last_activity \<Rightarrow>
               int (as_idle_timeout_seconds scaling) \<le> i64_saturating_sub now last_activity))"

end
