(* ===== verification/Gpu_Request.thy ===== *)
theory Gpu_Request
  imports Service_Objects
begin

text \<open>
  The GPU job that the controller keeps for a service (\<open>reconcile.rs\<close>, \<open>reconcile_gpu_job\<close>): its
  request in the queue, and the part of the scheduler's answer that may reach the deployment.
\<close>

record gpu_job_state =
  gst_phase :: flash_gpu_job_phase
  gst_assignment :: "flash_gpu_assignment option"

text \<open>A job with the identifiers of its owners.\<close>

record gpu_job_object =
  gjo_job :: flash_gpu_job
  gjo_owner_uids :: "string list option"

record 'w gpu_job_api =
  api_gpu_job_delete :: "string \<Rightarrow> ('w, kube_error, unit) effect"
  api_gpu_job_get_opt :: "string \<Rightarrow> ('w, kube_error, gpu_job_object option) effect"
  api_gpu_job_apply :: "string \<Rightarrow> flash_gpu_job_spec \<Rightarrow> owner_reference list \<Rightarrow> ('w, kube_error, flash_gpu_job) effect"

definition gpu_job_state_of :: "flash_gpu_job \<Rightarrow> bool \<Rightarrow> gpu_job_state" where
  "gpu_job_state_of job status_is_current =
     (let status = (if status_is_current then job_status job else None)
      in \<lparr>gst_phase = (case status of None \<Rightarrow> Queued | Some s \<Rightarrow> js_phase s),
          gst_assignment =
            Option.bind status (\<lambda>s. if js_phase s \<in> {Reserved, Running} then js_assignment s else None)\<rparr>)"

definition unchanged_request :: "flash_service \<Rightarrow> owner_reference \<Rightarrow> gpu_job_object \<Rightarrow> bool" where
  "unchanged_request flash owner existing \<longleftrightarrow>
     (let spec = job_spec (gjo_job existing); s = fsv_spec flash
      in gj_service_instance_id spec = svc_service_instance_id s \<and>
         gj_organization_id spec = svc_organization_id s \<and>
         gj_project_id spec = svc_project_id s \<and>
         (case gjo_owner_uids existing of None \<Rightarrow> False | Some uids \<Rightarrow> owner_uid owner \<in> set uids) \<and>
         gj_gpu_type spec = fs_gpu_type (svc_workload s) \<and>
         gj_subject_id spec = unwrap_or (svc_subject_id s) [])"

definition gpu_job_request :: "flash_service \<Rightarrow> u64 \<Rightarrow> i64 \<Rightarrow> flash_gpu_job_spec" where
  "gpu_job_request flash quota_remaining_seconds queued_at =
     (let s = fsv_spec flash
      in \<lparr>gj_service_instance_id = svc_service_instance_id s, gj_service_generation = svc_desired_generation s,
          gj_subject_id = unwrap_or (svc_subject_id s) [], gj_organization_id = svc_organization_id s,
          gj_project_id = svc_project_id s, gj_gpu_type = fs_gpu_type (svc_workload s), gj_count = 1,
          gj_quota_remaining_seconds = quota_remaining_seconds, gj_queued_at = queued_at\<rparr>)"

definition reconcile_gpu_job ::
  "'w gpu_job_api \<Rightarrow> flash_service \<Rightarrow> owner_reference \<Rightarrow> i64 \<Rightarrow> u64 \<Rightarrow> bool \<Rightarrow>
   ('w, reconcile_error, gpu_job_state option) effect" where
  "reconcile_gpu_job api flash owner now quota_remaining_seconds suspended =
     (let name = flash_name flash
      in if effective_gpu_count (workload flash) = 0 \<or> suspended
         then ematch (api_gpu_job_delete api name) (\<lambda>r.
              case r of
                Inr _ \<Rightarrow> eret None
              | Inl e \<Rightarrow> if e = Api_Error 404 then eret None else efail (Kubernetes e))
         else
         ebind (ekube (api_gpu_job_get_opt api name)) (\<lambda>existing.
         let unchanged = (case existing of None \<Rightarrow> False | Some job \<Rightarrow> unchanged_request flash owner job);
             queued_at = (case existing of
                            None \<Rightarrow> now
                          | Some job \<Rightarrow> if unchanged then gj_queued_at (job_spec (gjo_job job)) else now)
         in ebind (ekube (api_gpu_job_apply api name (gpu_job_request flash quota_remaining_seconds queued_at) [owner]))
              (\<lambda>applied.
            eret (Some (gpu_job_state_of applied unchanged)))))"

definition gpu_scheduling_status ::
  "flash_service \<Rightarrow> gpu_job_state option \<Rightarrow> flash_gpu_scheduling_status option" where
  "gpu_scheduling_status flash state =
     map_option (\<lambda>s.
       \<lparr>sch_phase = gst_phase s, sch_gpu_type = fs_gpu_type (workload flash),
        sch_display_name = map_option ga_model (gst_assignment s)\<rparr>) state"

end
