(* ===== verification/Workload_Properties.thy ===== *)
theory Workload_Properties
  imports Workload_Status Gpu_Request Policy_Properties Storage_Properties
begin

text \<open>
  Properties of the objects of a service and of its observed state: the source ranges of a load
  balancer, the persistent claim, the GPU request, the measured allocation and the reported phase.
\<close>

section \<open>The source ranges of a load balancer\<close>

context policy_text
begin

lemma cover_Nil_iff: "cover ops ns = {} \<longleftrightarrow> ns = []"
  using addrs_nonempty by (cases ns) auto

lemma source_ranges_cover:
  assumes "source_ranges ops x = Inr r" and "has_load_balancer x" and "has_source_policy x"
  obtains ns where "effective_source_networks ops x = Inr ns"
    and "r = Some (if ns = [] then [''0.0.0.0/32'', ''::/128''] else map (net_show ops) ns)"
  using assms by (auto simp: source_ranges_def bindR_Inr map_err_Inr Let_def)

lemma shown_cover: "(\<Union>n\<in>set ns. text_addrs (net_show ops n)) = cover ops ns"
  by (auto simp: cover_def shown)

end

section \<open>The allocation of the running pods\<close>

definition is_running :: "pod \<Rightarrow> bool" where
  "is_running p \<longleftrightarrow> Option.bind (pod_status_of p) ps_phase = Some ''Running''"

text \<open>What a pod requests of a resource, nothing when it does not name it; \<open>None\<close> when unreadable.\<close>

definition pod_amount :: "string \<Rightarrow> (string \<Rightarrow> reconcile_error + u64) \<Rightarrow> pod \<Rightarrow> u64 option" where
  "pod_amount name read p =
     (case Option.bind (pod_requests p) (\<lambda>r. bt_get r name) of
        None \<Rightarrow> Some 0
      | Some q \<Rightarrow> (case read q of Inl _ \<Rightarrow> None | Inr n \<Rightarrow> Some n))"

lemma add_request_Inr:
  assumes "acc \<le> u64_max"
  shows "add_request requests name read acc = Inr n \<longleftrightarrow>
    (\<exists>k. (case bt_get requests name of
            None \<Rightarrow> Some 0 | Some q \<Rightarrow> (case read q of Inl _ \<Rightarrow> None | Inr n \<Rightarrow> Some n)) = Some k \<and>
         n = u64_saturating_add acc k)"
  using assms
  by (auto simp: add_request_def bindR_Inr split: option.splits sum.splits)

lemma add_pod_allocation_Inr:
  assumes "c \<le> u64_max" and "m \<le> u64_max" and "g \<le> u64_max"
  shows "add_pod_allocation p (c, m, g) = Inr t \<longleftrightarrow>
    (\<exists>dc dm dg. pod_amount ''cpu'' cpu_quantity_millis p = Some dc \<and>
       pod_amount ''memory'' memory_quantity_mib p = Some dm \<and>
       pod_amount GPU_RESOURCE_NAME gpu_quantity p = Some dg \<and>
       t = (u64_saturating_add c dc, u64_saturating_add m dm, u64_saturating_add g dg))"
proof (cases "pod_requests p")
  case None
  with assms show ?thesis by (auto simp: add_pod_allocation_def pod_amount_def)
next
  case (Some requests)
  show ?thesis
    unfolding add_pod_allocation_def Some option.case Let_def prod.case bindR_Inr pod_amount_def bind.bind_lunit
      add_request_Inr [OF assms(1)] add_request_Inr [OF assms(2)] add_request_Inr [OF assms(3)]
    by auto
qed

lemma allocation_fold:
  assumes "c \<le> u64_max" and "m \<le> u64_max" and "g \<le> u64_max"
  shows "try_fold add_pod_allocation ps (c, m, g) = Inr t \<longleftrightarrow>
    (\<exists>cs ms gs. those (map (pod_amount ''cpu'' cpu_quantity_millis) ps) = Some cs \<and>
       those (map (pod_amount ''memory'' memory_quantity_mib) ps) = Some ms \<and>
       those (map (pod_amount GPU_RESOURCE_NAME gpu_quantity) ps) = Some gs \<and>
       t = (min (c + sum_list cs) u64_max, min (m + sum_list ms) u64_max, min (g + sum_list gs) u64_max))"
  using assms
proof (induction ps arbitrary: c m g)
  case Nil
  then show ?case by (auto simp: min_absorb1)
next
  case (Cons p ps)
  have sat: "min (u64_saturating_add x k + y) u64_max = min (x + (k + y)) u64_max" for x k y
    by (simp add: u64_saturating_add_def min_def)
  show ?case
    unfolding try_fold.simps bindR_Inr add_pod_allocation_Inr [OF Cons.prems]
    using Cons.IH [OF u64_saturating_add_le u64_saturating_add_le u64_saturating_add_le]
    by (auto simp: sat split: option.splits)
qed

section \<open>Phases\<close>

definition retired :: "pod \<Rightarrow> bool" where
  "retired p \<longleftrightarrow> pod_deletion_timestamp p \<noteq> None \<or> \<not> pod_is_active p"

lemma active_filter: "filter (\<lambda>p. pod_deletion_timestamp p = None \<and> pod_is_active p) pods = filter (\<lambda>p. \<not> retired p) pods"
  by (simp add: retired_def)

lemma retired_filter:
  assumes "list_ex (\<lambda>p. \<not> retired p) pods" and "list_all (\<lambda>p. \<not> (pod_is_ready p \<and> retired p)) pods"
  shows "ready_count (filter (\<lambda>p. \<not> retired p) pods) = ready_count pods"
    and "workload_failure (filter (\<lambda>p. \<not> retired p) pods) d = workload_failure pods d"
proof -
  have "filter (\<lambda>p. \<not> retired p \<and> pod_is_ready p) pods = filter pod_is_ready pods"
    using assms(2) by (intro filter_cong) (auto simp: list_all_iff)
  then show "ready_count (filter (\<lambda>p. \<not> retired p) pods) = ready_count pods"
    by (simp add: ready_count_def conj_commute)
  have "filter (\<lambda>p. \<not> retired p) pods \<noteq> []" using assms(1) by (auto simp: list_ex_iff filter_empty_conv)
  then show "workload_failure (filter (\<lambda>p. \<not> retired p) pods) d = workload_failure pods d"
    by (simp add: workload_failure_def active_filter Let_def)
qed

section \<open>Properties\<close>

text \<open>
  The ranges of a load balancer with a source policy restrict it to that policy: they are never
  empty, since no ranges at all would admit every address, and together they contain exactly the
  allowed addresses without the denied ones; when there is none, only the two unspecified addresses
  remain. Without a source policy, or for another kind of endpoint, no range is set.
\<close>

theorem service_source_ranges_exact:
  assumes "policy_text ops max_len text_addrs"
    and "desired_service_with_hostname ops uuids flash owner hostname = Inr (Some s)"
  shows "let x = fs_exposure (workload flash);
      allowed = (if ex_allowed_source_cidrs x = [] then literal_addrs ''0.0.0.0/0'' \<union> literal_addrs ''::/0''
                 else entries_addrs ops (ex_allowed_source_cidrs x)) - entries_addrs ops (ex_denied_source_cidrs x)
    in if ex_kind x = Public \<and> ex_endpoint_mode x \<noteq> Web \<and> has_source_policy x
       then \<exists>ranges. ks_source_ranges s = Some ranges \<and> ranges \<noteq> [] \<and>
         (if allowed = {} then ranges = [''0.0.0.0/32'', ''::/128''] else (\<Union>t\<in>set ranges. text_addrs t) = allowed)
       else ks_source_ranges s = None"
proof -
  let ?x = "fs_exposure (workload flash)"
  from assms(2) have ranges: "source_ranges ops ?x = Inr (ks_source_ranges s)"
    by (auto simp: desired_service_with_hostname_def Let_def bindR_Inr split: if_splits)
  show ?thesis
  proof (cases "has_load_balancer ?x \<and> has_source_policy ?x")
    case True
    then obtain ns where ns: "effective_source_networks ops ?x = Inr ns"
      and r: "ks_source_ranges s = Some (if ns = [] then [''0.0.0.0/32'', ''::/128''] else map (net_show ops) ns)"
      using policy_text.source_ranges_cover [OF assms(1) ranges] by auto
    note exact = ip_network_text.effective_source_networks_cover [OF policy_text.axioms(1) [OF assms(1)] ns]
    show ?thesis
      using True unfolding exact [symmetric] policy_text.cover_Nil_iff [OF assms(1)] r Let_def has_load_balancer_def
      by (simp add: policy_text.shown_cover [OF assms(1)])
  next
    case False
    with ranges show ?thesis by (auto simp: source_ranges_def has_load_balancer_def)
  qed
qed

lemma sample_service_object:
  "\<exists>s. desired_service_with_hostname cidr_ops sample_uuids (sample_service sample_ports) sample_owner None = Inr (Some s)"
  using sample_effective
  by (simp add: desired_service_with_hostname_def sample_service_def sample_flash_def sample_flash_spec_def
      sample_ports_def source_ranges_def Let_def sample_exposure_def)

theorem service_source_ranges_exact_witness:
  "\<exists>s ranges. desired_service_with_hostname cidr_ops sample_uuids (sample_service sample_ports) sample_owner None = Inr (Some s) \<and>
     ks_source_ranges s = Some ranges \<and> ranges \<noteq> []"
proof -
  obtain s where s: "desired_service_with_hostname cidr_ops sample_uuids (sample_service sample_ports)
      sample_owner None = Inr (Some s)"
    using sample_service_object ..
  show ?thesis
    using service_source_ranges_exact [OF cidr_policy.policy_text_axioms s] s
    by (auto simp: sample_service_def sample_flash_def sample_flash_spec_def sample_exposure_def Let_def
        has_source_policy_def)
qed

text \<open>
  The allocation that is charged is what the running pods hold: the measurement succeeds exactly
  when every quantity of a running pod can be read, and then each total is the sum over the running
  pods, in millicores, in mebibytes rounded up and in devices, cut off at the largest counter.
\<close>

theorem running_allocation_exact:
  "running_allocation pods = Inr (cpu, memory, gpu) \<longleftrightarrow>
     (\<exists>cs ms gs. those (map (pod_amount ''cpu'' cpu_quantity_millis) (filter is_running pods)) = Some cs \<and>
        those (map (pod_amount ''memory'' memory_quantity_mib) (filter is_running pods)) = Some ms \<and>
        those (map (pod_amount GPU_RESOURCE_NAME gpu_quantity) (filter is_running pods)) = Some gs \<and>
        cpu = sat_sum cs \<and> memory = sat_sum ms \<and> gpu = sat_sum gs)"
  unfolding running_allocation_def is_running_def [symmetric] by (subst allocation_fold) (auto simp: sat_sum_def)

text \<open>
  A retired pod never holds a service back: while a pod is left that is neither being deleted
  nor finished, the phase and the next action are those that this and the other such pods alone give,
  whatever the containers of the retired ones report.
\<close>

theorem retired_pods_ignored:
  assumes "list_ex (\<lambda>p. \<not> retired p) pods" and "list_all (\<lambda>p. \<not> (pod_is_ready p \<and> retired p)) pods"
  shows "st_phase (fst (update_workload_status now status pods d endpoint needs)) =
      st_phase (fst (update_workload_status now status (filter (\<lambda>p. \<not> retired p) pods) d endpoint needs)) \<and>
    snd (update_workload_status now status pods d endpoint needs) =
      snd (update_workload_status now status (filter (\<lambda>p. \<not> retired p) pods) d endpoint needs)"
  using retired_filter [OF assms] by (simp add: update_workload_status_def workload_ready_def Let_def)

definition sample_pod :: "string \<Rightarrow> string \<Rightarrow> bool \<Rightarrow> pod" where
  "sample_pod name phase ready =
     \<lparr>pod_name = name, pod_labels = None, pod_node_name = None, pod_deletion_timestamp = None, pod_containers = None,
      pod_status_of = Some \<lparr>ps_phase = Some phase,
        ps_conditions = Some [\<lparr>pc_type = ''Ready'', pc_status = (if ready then ''True'' else ''False''),
                              pc_reason = None, pc_message = None\<rparr>],
        ps_container_statuses = None, ps_init_container_statuses = None\<rparr>\<rparr>"

theorem retired_pods_ignored_witness:
  "st_phase (fst (update_workload_status 0 default_flash_service_status
       [sample_pod ''old'' ''Failed'' False, sample_pod ''new'' ''Running'' True]
       \<lparr>dep_name = ''d'', dep_generation = None, dep_status = None\<rparr> True True)) = Ready"
proof -
  let ?pods = "[sample_pod ''old'' ''Failed'' False, sample_pod ''new'' ''Running'' True]"
  have "list_ex (\<lambda>p. \<not> retired p) ?pods" and "list_all (\<lambda>p. \<not> (pod_is_ready p \<and> retired p)) ?pods"
    by (simp_all add: retired_def pod_is_active_def pod_is_ready_def sample_pod_def condition_is_def)
  from retired_pods_ignored [OF this, of 0 default_flash_service_status
      "\<lparr>dep_name = ''d'', dep_generation = None, dep_status = None\<rparr>" True True]
  show ?thesis
    by (simp add: update_workload_status_def workload_ready_def Let_def ready_count_def i32_of_count_def i32_max_def
        retired_def pod_is_active_def pod_is_ready_def sample_pod_def condition_is_def default_flash_service_status_def)
qed

text \<open>
  The claim of a home settles: the controller reads from the claim that it wrote the size that
  it wrote, and does not ask for an update again, nor while the storage system reports a capacity
  that it has rounded up; it asks for one exactly when more is desired.
\<close>

theorem persistent_claim_settles:
  assumes "bytes \<le> nat i64_max"
  shows "claim_storage (persistent_volume_claim.truncate (desired_persistent_volume_claim uuids flash owner class_name bytes)) =
      Inr (bytes, 0) \<and>
    (claim_needs_storage_update (Some (bytes, capacity)) desired \<longleftrightarrow> bytes < desired \<and> capacity < desired) \<and>
    \<not> claim_needs_storage_update (Some (bytes, capacity)) bytes"
proof -
  have "storage_quantity_bytes (show_nat bytes @ []) = Inr (bytes * 10 ^ 0)"
    using assms by (intro quantity_decimal) (simp_all add: binary_suffix_def decimal_suffix_def)
  then show ?thesis
    by (auto simp: claim_storage_def desired_persistent_volume_claim_def persistent_volume_claim.truncate_def
        ok_or_def claim_needs_storage_update_def)
qed

theorem persistent_claim_settles_witness:
  "claim_storage (persistent_volume_claim.truncate
     (desired_persistent_volume_claim sample_uuids sample_flash sample_owner ''ceph'' 965738496)) = Inr (965738496, 0)"
  using persistent_claim_settles [of 965738496 sample_uuids sample_flash sample_owner "''ceph''"] by (simp add: i64_max_def)

text \<open>
  A stale GPU assignment never reaches a deployment: if the controller sees an assignment after
  it has applied its request, the job existed before with the same service, organization, project,
  subject, GPU type and owner, and the scheduler reports it as reserved or running. A service without
  a GPU, or suspended, never has one.
\<close>

theorem gpu_assignment_current:
  assumes "reconcile_gpu_job api flash owner now quota suspended w = (Inr (Some state), w')"
    and "gst_assignment state = Some a"
  shows "0 < effective_gpu_count (workload flash) \<and> \<not> suspended \<and>
    (\<exists>job w1 applied status. api_gpu_job_get_opt api (flash_name flash) w = (Inr (Some job), w1) \<and>
       unchanged_request flash owner job \<and>
       api_gpu_job_apply api (flash_name flash)
         (gpu_job_request flash quota (gj_queued_at (job_spec (gjo_job job)))) [owner] w1 = (Inr applied, w') \<and>
       job_status applied = Some status \<and> js_phase status \<in> {Reserved, Running} \<and> js_assignment status = Some a)"
proof -
  let ?g = "api_gpu_job_get_opt api (flash_name flash)"
  have active: "0 < effective_gpu_count (workload flash)" "\<not> suspended"
    using assms(1)
    by (auto simp: reconcile_gpu_job_def Let_def ematch_def eret_def efail_def split: if_splits prod.splits sum.splits)
  with assms(1) obtain existing w1 applied where get: "?g w = (Inr existing, w1)"
    and app: "api_gpu_job_apply api (flash_name flash) (gpu_job_request flash quota
        (case existing of None \<Rightarrow> now
         | Some job \<Rightarrow> if unchanged_request flash owner job then gj_queued_at (job_spec (gjo_job job)) else now))
        [owner] w1 = (Inr applied, w')"
    and state: "state = gpu_job_state_of applied
        (case existing of None \<Rightarrow> False | Some job \<Rightarrow> unchanged_request flash owner job)"
    by (auto simp: reconcile_gpu_job_def Let_def ebind_def ekube_def ematch_def eret_def efail_def
        split: prod.splits sum.splits option.splits if_splits)
  from assms(2) obtain job where "existing = Some job" and "unchanged_request flash owner job"
    unfolding state by (cases existing) (auto simp: gpu_job_state_of_def Let_def split: if_splits)
  with assms(2) get app active show ?thesis
    unfolding state by (auto simp: gpu_job_state_of_def Let_def bind_eq_Some_conv split: if_splits)
qed

definition reserved_job :: flash_gpu_job where
  "reserved_job =
     \<lparr>job_meta = plain_meta ''svc'', job_spec = gpu_job_request sample_flash 100 5,
      job_status = Some (default_gpu_job_status\<lparr>js_phase := Reserved,
        js_assignment := Some \<lparr>ga_inventory_name = ''gpu0'', ga_node_name = ''n'', ga_gpu_type = ''a'', ga_model = ''A'',
                              ga_lease_expires_at = 9\<rparr>\<rparr>)\<rparr>"

definition reserved_api :: "unit gpu_job_api" where
  "reserved_api =
     \<lparr>api_gpu_job_delete = (\<lambda>_. eret ()),
      api_gpu_job_get_opt = (\<lambda>_. eret (Some \<lparr>gjo_job = reserved_job, gjo_owner_uids = Some [''u'']\<rparr>)),
      api_gpu_job_apply = (\<lambda>_ s _. eret (reserved_job\<lparr>job_spec := s\<rparr>))\<rparr>"

theorem gpu_assignment_current_witness:
  "\<exists>state a. reconcile_gpu_job reserved_api sample_flash sample_owner 50 100 False () = (Inr (Some state), ()) \<and>
     gst_assignment state = Some a \<and> 0 < effective_gpu_count (workload sample_flash)"
proof -
  obtain state a where run: "reconcile_gpu_job reserved_api sample_flash sample_owner 50 100 False () = (Inr (Some state), ())"
    and a: "gst_assignment state = Some a"
    by (simp add: reconcile_gpu_job_def reserved_api_def reserved_job_def unchanged_request_def gpu_job_request_def
        sample_flash_def sample_flash_spec_def sample_owner_def effective_gpu_count_def ebind_def ekube_def ematch_def
        eret_def Let_def gpu_job_state_of_def)
  from gpu_assignment_current [OF this] run a show ?thesis by blast
qed

end
