(* ===== verification/Backup_Destinations.thy ===== *)
theory Backup_Destinations
  imports Json_Objects
begin

text \<open>
  \<open>backup_destinations.rs\<close>: the S3 destinations of a tenant. The \<open>url\<close>, \<open>hmac\<close>, \<open>ipnet\<close> and \<open>uuid\<close>
  crates are the fields of \<open>dest_lib\<close>; the calls to the API server are the fields of \<open>dest_api\<close>. A
  storage class is read with the JSON value it serialises to, which cannot fail.
\<close>

definition TOKEN_DOMAIN :: string where "TOKEN_DOMAIN = ''heterocloud-backup-s3-proxy-v1'' @ [char_of (0 :: nat)]"

record s3_destination =
  s3_endpoint :: string
  s3_bucket :: string
  s3_region :: string
  s3_prefix :: string
  s3_virtual_hosted :: bool
  s3_access_key :: string
  s3_secret_key :: string

datatype destination_error =
    Invalid_Destination | ProxyUnavailable | InvalidStorageClass | Destination_Conflict | StorageUnavailable

record destination_view =
  dv_id :: uuid
  dv_organization_id :: uuid
  dv_target_name :: string
  dv_ready :: bool

record manifest_set =
  mf_secret :: json
  mf_target :: json
  mf_restore_class :: json
  mf_verification_class :: json

datatype url_host = Domain_Host string | Ipv4_Host "32 word" | Ipv6_Host "128 word"

text \<open>The parts of a parsed URL and its text.\<close>

record url =
  url_scheme :: string
  url_username :: string
  url_password :: "string option"
  url_host :: "url_host option"
  url_port_or_known_default :: "u16 option"
  url_path :: string
  url_query :: "string option"
  url_fragment :: "string option"
  url_text :: string

record 'n dest_lib =
  dl_uuids :: uuid_ops
  dl_nets :: "'n ipnet_ops"
  dl_url_parse :: "string \<Rightarrow> url option"
  dl_set_username :: "url \<Rightarrow> string \<Rightarrow> url option"
  dl_set_password :: "url \<Rightarrow> string \<Rightarrow> url option"
  dl_hmac_sha256 :: "string \<Rightarrow> (string \<Rightarrow> nat list) option"

record 'w dest_api =
  da_class_get :: "string \<Rightarrow> ('w, kube_error, dynamic_object) effect"
  da_class_get_opt :: "string \<Rightarrow> ('w, kube_error, dynamic_object option) effect"
  da_class_apply :: "string \<Rightarrow> json \<Rightarrow> ('w, kube_error, unit) effect"
  da_target_get :: "string \<Rightarrow> ('w, kube_error, dynamic_object) effect"
  da_target_get_opt :: "string \<Rightarrow> ('w, kube_error, dynamic_object option) effect"
  da_target_apply :: "string \<Rightarrow> json \<Rightarrow> ('w, kube_error, dynamic_object) effect"
  da_secret_get_opt :: "string \<Rightarrow> ('w, kube_error, dynamic_object option) effect"
  da_secret_apply :: "string \<Rightarrow> json \<Rightarrow> ('w, kube_error, unit) effect"

definition BACKUP_DESTINATION_LABEL :: string where
  "BACKUP_DESTINATION_LABEL = ''flash.heterocloud.io/backup-destination''"

definition labels_match :: "uuid_ops \<Rightarrow> (string, string) btree_map option \<Rightarrow> uuid \<Rightarrow> uuid \<Rightarrow> bool" where
  "labels_match uuids labels organization uuid =
     (case labels of
        None \<Rightarrow> False
      | Some m \<Rightarrow>
          bt_get m ORGANIZATION_LABEL = Some (uuid_show uuids organization) \<and>
          bt_get m BACKUP_DESTINATION_LABEL = Some (uuid_show uuids uuid))"

definition target_name :: "uuid_ops \<Rightarrow> uuid \<Rightarrow> string" where
  "target_name uuids uuid = ''hc-backup-'' @ uuid_simple uuids uuid"

definition verification_class_name :: "uuid_ops \<Rightarrow> uuid \<Rightarrow> string" where
  "verification_class_name uuids uuid = ''hc-verify-'' @ uuid_simple uuids uuid"

section \<open>Checks\<close>

definition protected_networks :: "string list" where
  "protected_networks =
     [''0.0.0.0/8'', ''10.0.0.0/8'', ''100.64.0.0/10'', ''127.0.0.0/8'', ''169.254.0.0/16'', ''172.16.0.0/12'',
      ''192.168.0.0/16'', ''224.0.0.0/4'', ''240.0.0.0/4'', ''::/128'', ''::1/128'', ''::ffff:0:0/96'', ''fc00::/7'',
      ''fe80::/10'', ''ff00::/8'']"

definition protected_ip :: "'n ipnet_ops \<Rightarrow> ip_addr \<Rightarrow> bool" where
  "protected_ip nets address \<longleftrightarrow>
     list_ex (\<lambda>network. case net_parse nets network of
                          None \<Rightarrow> False
                        | Some net \<Rightarrow> net_contains_addr nets net address) protected_networks"

definition internal_suffixes :: "string list" where
  "internal_suffixes = [''.localhost'', ''.local'', ''.internal'', ''.svc'', ''.cluster.local'']"

definition endpoint_host :: "'n ipnet_ops \<Rightarrow> url_host \<Rightarrow> destination_error + string" where
  "endpoint_host nets host =
     (case host of
        Domain_Host d \<Rightarrow>
          let normalized = to_ascii_lowercase (trim_end_matches CHR ''.'' d)
          in if normalized = [] \<or> normalized = ''localhost'' \<or>
                list_ex (\<lambda>s. suffix s normalized) internal_suffixes
             then Inl Invalid_Destination else Inr normalized
      | Ipv4_Host ip \<Rightarrow> if protected_ip nets (V4 ip) then Inl Invalid_Destination else Inr (show_ipv4 ip)
      | Ipv6_Host ip \<Rightarrow> if protected_ip nets (V6 ip) then Inl Invalid_Destination else Inr (show_ipv6 ip))"

definition endpoint :: "'n dest_lib \<Rightarrow> string \<Rightarrow> destination_error + url \<times> string \<times> u16" where
  "endpoint lib v =
     bindR (ok_or (dl_url_parse lib v) Invalid_Destination) (\<lambda>url.
     bindR (ensure (\<not> (url_scheme url \<noteq> ''https'' \<or> url_username url \<noteq> [] \<or> url_password url \<noteq> None \<or>
                        url_path url \<notin> {[], ''/''} \<or> url_query url \<noteq> None \<or> url_fragment url \<noteq> None))
              Invalid_Destination) (\<lambda>_.
     bindR (ok_or (url_host url) Invalid_Destination) (\<lambda>h.
     bindR (endpoint_host (dl_nets lib) h) (\<lambda>host.
     bindR (ok_or (url_port_or_known_default url) Invalid_Destination) (\<lambda>port.
     Inr (url, host, port))))))"

definition valid_bucket :: "string \<Rightarrow> bool" where
  "valid_bucket v \<longleftrightarrow>
     3 \<le> length v \<and> length v \<le> 63 \<and> first_is is_ascii_alphanumeric v \<and> last_is is_ascii_alphanumeric v \<and>
     list_all (\<lambda>c. is_ascii_lowercase c \<or> is_ascii_digit c \<or> c = CHR ''-'' \<or> c = CHR ''.'') v \<and>
     \<not> contains_str ''..'' v \<and> \<not> contains_str ''.-'' v \<and> \<not> contains_str ''-.'' v \<and> parse_ipv4 v = None"

definition valid_prefix :: "string \<Rightarrow> bool" where
  "valid_prefix v \<longleftrightarrow>
     length v \<le> 512 \<and> \<not> first_is (\<lambda>c. c = CHR ''/'') v \<and>
     list_all (\<lambda>part. part \<noteq> ''.'' \<and> part \<noteq> ''..'') (split_on CHR ''/'' v) \<and>
     list_all (\<lambda>c. is_ascii_alphanumeric c \<or> c = CHR ''-'' \<or> c = CHR ''_'' \<or> c = CHR ''.'' \<or> c = CHR ''/'') v"

definition valid_credential :: "string \<Rightarrow> bool" where
  "valid_credential v \<longleftrightarrow> v \<noteq> [] \<and> length v \<le> 4096 \<and> \<not> any_control v"

definition valid_region :: "string \<Rightarrow> bool" where
  "valid_region v \<longleftrightarrow>
     v \<noteq> [] \<and> length v \<le> 128 \<and>
     list_all (\<lambda>c. is_ascii_alphanumeric c \<or> c = CHR ''-'' \<or> c = CHR ''_'' \<or> c = CHR ''.'') v"

text \<open>The key is a byte string; the authentication code covers the concatenation of the updates.\<close>

definition proxy_token :: "'n dest_lib \<Rightarrow> string \<Rightarrow> string \<Rightarrow> string \<Rightarrow> u16 \<Rightarrow> destination_error + string" where
  "proxy_token lib key identity host port =
     (if length key < 32 then Inl ProxyUnavailable
      else bindR (ok_or (dl_hmac_sha256 lib key) ProxyUnavailable) (\<lambda>mac.
           Inr (concat (map show_hex2
             (mac (TOKEN_DOMAIN @ identity @ [char_of (0 :: nat)] @ host @ [char_of (0 :: nat)] @ show_nat port))))))"

section \<open>Manifests\<close>

definition storage_class :: "json \<Rightarrow> string \<Rightarrow> json \<Rightarrow> string \<Rightarrow> destination_error + json" where
  "storage_class template name labels target =
     bindR (ensure (jget template ''provisioner'' = JStr ''driver.longhorn.io'') InvalidStorageClass) (\<lambda>_.
     bindR (ok_or (jobject (jget template ''parameters'')) InvalidStorageClass) (\<lambda>parameters.
     bindR (ensure (\<not> (case Option.bind (map_of parameters ''fromBackup'') jstr of
                         None \<Rightarrow> False | Some v \<Rightarrow> v \<noteq> [])) InvalidStorageClass) (\<lambda>_.
     let parameters = bt_insert ''backupTargetName'' (JStr target) parameters;
         result = jobj [(''apiVersion'', JStr ''storage.k8s.io/v1''), (''kind'', JStr ''StorageClass''),
                        (''metadata'', jobj [(''name'', JStr name), (''labels'', labels)]),
                        (''provisioner'', JStr ''driver.longhorn.io''), (''parameters'', JObj parameters)]
     in Inr (fold (\<lambda>key result. case jget_opt template key of None \<Rightarrow> result | Some v \<Rightarrow> jset key v result)
               [''reclaimPolicy'', ''volumeBindingMode'', ''allowVolumeExpansion'', ''mountOptions'', ''allowedTopologies'']
               result))))"

definition proxy_url :: "'n dest_lib \<Rightarrow> string \<Rightarrow> string \<Rightarrow> string \<Rightarrow> destination_error + string" where
  "proxy_url lib proxy_origin identity token =
     bindR (ok_or (dl_url_parse lib proxy_origin) ProxyUnavailable) (\<lambda>proxy.
     bindR (ensure (\<not> (url_scheme proxy \<noteq> ''http'' \<or> url_host proxy = None \<or> url_username proxy \<noteq> [] \<or>
                        url_password proxy \<noteq> None \<or> url_path proxy \<notin> {[], ''/''} \<or> url_query proxy \<noteq> None \<or>
                        url_fragment proxy \<noteq> None)) ProxyUnavailable) (\<lambda>_.
     bindR (ok_or (dl_set_username lib proxy identity) ProxyUnavailable) (\<lambda>proxy.
     bindR (ok_or (dl_set_password lib proxy token) ProxyUnavailable) (\<lambda>proxy.
     Inr (url_text proxy)))))"

definition target_url :: "uuid_ops \<Rightarrow> uuid \<Rightarrow> uuid \<Rightarrow> s3_destination \<Rightarrow> string" where
  "target_url uuids organization uuid input =
     (let pre = trim_end_matches CHR ''/'' (s3_prefix input);
          root = (if pre = [] then [] else pre @ ''/'')
      in ''s3://'' @ s3_bucket input @ ''@'' @ s3_region input @ ''/'' @ root @ ''heterocloud/'' @
         uuid_simple uuids organization @ ''/'' @ uuid_simple uuids uuid)"

definition destination_labels :: "uuid_ops \<Rightarrow> uuid \<Rightarrow> uuid \<Rightarrow> json" where
  "destination_labels uuids organization uuid =
     jobj [(BACKUP_DESTINATION_LABEL, JStr (uuid_show uuids uuid)),
           (ORGANIZATION_LABEL, JStr (uuid_show uuids organization))]"

definition destination_secret :: "string \<Rightarrow> string \<Rightarrow> json \<Rightarrow> s3_destination \<Rightarrow> url \<Rightarrow> string \<Rightarrow> json" where
  "destination_secret name storage_namespace labels input url proxy =
     jobj [(''apiVersion'', JStr ''v1''), (''kind'', JStr ''Secret''),
           (''metadata'', jobj [(''name'', JStr name), (''namespace'', JStr storage_namespace), (''labels'', labels)]),
           (''type'', JStr ''Opaque''),
           (''stringData'', jobj [(''AWS_ACCESS_KEY_ID'', JStr (s3_access_key input)),
              (''AWS_SECRET_ACCESS_KEY'', JStr (s3_secret_key input)), (''AWS_ENDPOINTS'', JStr (url_text url)),
              (''VIRTUAL_HOSTED_STYLE'', JStr (if s3_virtual_hosted input then ''true'' else ''false'')),
              (''HTTPS_PROXY'', JStr proxy), (''HTTP_PROXY'', JStr proxy), (''NO_PROXY'', JStr [])])]"

definition destination_target :: "string \<Rightarrow> string \<Rightarrow> json \<Rightarrow> string \<Rightarrow> json" where
  "destination_target name storage_namespace labels url =
     jobj [(''apiVersion'', JStr ''longhorn.io/v1beta2''), (''kind'', JStr ''BackupTarget''),
           (''metadata'', jobj [(''name'', JStr name), (''namespace'', JStr storage_namespace), (''labels'', labels)]),
           (''spec'', jobj [(''backupTargetURL'', JStr url), (''credentialSecret'', JStr name),
                          (''pollInterval'', JStr ''1m'')])]"

text \<open>The host that requests go to: with the bucket in front for virtual-hosted access.\<close>

definition request_host :: "s3_destination \<Rightarrow> string \<Rightarrow> destination_error + string" where
  "request_host input host =
     (if s3_virtual_hosted input
      then if parse_ip_addr host \<noteq> None then Inl Invalid_Destination else Inr (s3_bucket input @ ''.'' @ host)
      else Inr host)"

definition manifests ::
  "'n dest_lib \<Rightarrow> uuid \<Rightarrow> uuid \<Rightarrow> s3_destination \<Rightarrow> string \<Rightarrow> string \<Rightarrow> string \<Rightarrow> json \<Rightarrow> json \<Rightarrow>
   destination_error + manifest_set" where
  "manifests lib organization uuid input proxy_origin proxy_key storage_namespace restore_template
     verification_template =
     (let uuids = dl_uuids lib
      in bindR (ensure (\<not> (is_nil organization \<or> is_nil uuid \<or> \<not> valid_bucket (s3_bucket input) \<or>
                            \<not> valid_prefix (s3_prefix input) \<or> \<not> valid_region (s3_region input) \<or>
                            \<not> valid_credential (s3_access_key input) \<or> \<not> valid_credential (s3_secret_key input)))
                  Invalid_Destination) (\<lambda>_.
         bindR (endpoint lib (s3_endpoint input)) (\<lambda>(url, host, port).
         bindR (request_host input host) (\<lambda>host.
         let identity = uuid_simple uuids organization @ ''.'' @ uuid_simple uuids uuid
         in bindR (proxy_token lib proxy_key identity host port) (\<lambda>token.
            bindR (proxy_url lib proxy_origin identity token) (\<lambda>proxy.
            let name = target_name uuids uuid;
                labels = destination_labels uuids organization uuid
            in bindR (storage_class restore_template name labels name) (\<lambda>restore.
               bindR (storage_class verification_template (verification_class_name uuids uuid) labels name)
                 (\<lambda>verification.
               Inr \<lparr>mf_secret = destination_secret name storage_namespace labels input url proxy,
                    mf_target = destination_target name storage_namespace labels
                                  (target_url uuids organization uuid input),
                    mf_restore_class = restore, mf_verification_class = verification\<rparr>))))))))"

section \<open>The store\<close>

text \<open>The checks of \<open>put_destination\<close> on what is already stored, before anything is written.\<close>

definition target_conflicts :: "uuid_ops \<Rightarrow> uuid \<Rightarrow> uuid \<Rightarrow> json \<Rightarrow> dynamic_object \<Rightarrow> bool" where
  "target_conflicts uuids organization uuid desired existing \<longleftrightarrow>
     \<not> labels_match uuids (dyn_labels existing) organization uuid \<or>
     dyn_at existing ''spec'' ''backupTargetURL'' \<noteq> jget (jget desired ''spec'') ''backupTargetURL'' \<or>
     dyn_at existing ''spec'' ''credentialSecret'' \<noteq> JStr (target_name uuids uuid)"

definition class_conflicts :: "uuid_ops \<Rightarrow> uuid \<Rightarrow> uuid \<Rightarrow> json \<Rightarrow> dynamic_object \<Rightarrow> bool" where
  "class_conflicts uuids organization uuid desired existing \<longleftrightarrow>
     \<not> labels_match uuids (dyn_labels existing) organization uuid \<or>
     jget (dyn_data existing) ''provisioner'' \<noteq> jget desired ''provisioner'' \<or>
     jget (dyn_data existing) ''parameters'' \<noteq> jget desired ''parameters'' \<or>
     jget (dyn_data existing) ''reclaimPolicy'' \<noteq> jget desired ''reclaimPolicy''"

definition class_name_of :: "json \<Rightarrow> destination_error + string" where
  "class_name_of desired = ok_or (jstr (jget (jget desired ''metadata'') ''name'')) InvalidStorageClass"

definition check_class ::
  "'w dest_api \<Rightarrow> uuid_ops \<Rightarrow> uuid \<Rightarrow> uuid \<Rightarrow> json \<Rightarrow> ('w, destination_error, unit) effect" where
  "check_class api uuids organization uuid desired =
     ebind (etry (class_name_of desired)) (\<lambda>class_name.
     ebind (emap_err (\<lambda>_. StorageUnavailable) (da_class_get_opt api class_name)) (\<lambda>found.
     case found of
       None \<Rightarrow> eret ()
     | Some existing \<Rightarrow>
         if class_conflicts uuids organization uuid desired existing then efail Destination_Conflict
         else eret ()))"

definition check_stored ::
  "'w dest_api \<Rightarrow> uuid_ops \<Rightarrow> uuid \<Rightarrow> uuid \<Rightarrow> manifest_set \<Rightarrow> ('w, destination_error, unit) effect" where
  "check_stored api uuids organization uuid desired =
     (let name = target_name uuids uuid
      in ebind (emap_err (\<lambda>_. StorageUnavailable) (da_target_get_opt api name)) (\<lambda>target.
         if (case target of
               None \<Rightarrow> False
             | Some existing \<Rightarrow> target_conflicts uuids organization uuid (mf_target desired) existing)
         then efail Destination_Conflict
         else ebind (emap_err (\<lambda>_. StorageUnavailable) (da_secret_get_opt api name)) (\<lambda>secret.
         if (case secret of
               None \<Rightarrow> False
             | Some existing \<Rightarrow> \<not> labels_match uuids (dyn_labels existing) organization uuid)
         then efail Destination_Conflict
         else efor (check_class api uuids organization uuid)
                [mf_restore_class desired, mf_verification_class desired])))"

definition apply_class :: "'w dest_api \<Rightarrow> json \<Rightarrow> ('w, destination_error, unit) effect" where
  "apply_class api desired =
     ebind (etry (class_name_of desired)) (\<lambda>class_name.
     emap_err (\<lambda>_. StorageUnavailable) (da_class_apply api class_name desired))"

definition is_available :: "dynamic_object \<Rightarrow> bool" where
  "is_available target \<longleftrightarrow> dyn_at target ''status'' ''available'' = JBool True"

definition write_destination ::
  "'w dest_api \<Rightarrow> uuid_ops \<Rightarrow> uuid \<Rightarrow> uuid \<Rightarrow> manifest_set \<Rightarrow>
   ('w, destination_error, destination_view) effect" where
  "write_destination api uuids organization uuid desired =
     (let name = target_name uuids uuid
      in ebind (emap_err (\<lambda>_. StorageUnavailable) (da_secret_apply api name (mf_secret desired))) (\<lambda>_.
         ebind (efor (apply_class api) [mf_restore_class desired, mf_verification_class desired]) (\<lambda>_.
         ebind (emap_err (\<lambda>_. StorageUnavailable) (da_target_apply api name (mf_target desired))) (\<lambda>target.
         eret \<lparr>dv_id = uuid, dv_organization_id = organization, dv_target_name = name,
               dv_ready = is_available target\<rparr>))))"

definition put_destination ::
  "'w dest_api \<Rightarrow> 'n dest_lib \<Rightarrow> uuid \<Rightarrow> uuid \<Rightarrow> s3_destination \<Rightarrow> string \<Rightarrow> string \<Rightarrow> string \<Rightarrow>
   string \<Rightarrow> string \<Rightarrow> ('w, destination_error, destination_view) effect" where
  "put_destination api lib organization uuid input proxy_origin proxy_key storage_namespace restore_template
     verification_template =
     ebind (emap_err (\<lambda>_. InvalidStorageClass) (da_class_get api restore_template)) (\<lambda>restore.
     ebind (emap_err (\<lambda>_. InvalidStorageClass) (da_class_get api verification_template)) (\<lambda>verification.
     ebind (etry (manifests lib organization uuid input proxy_origin proxy_key storage_namespace
                    (dyn_data restore) (dyn_data verification))) (\<lambda>desired.
     ebind (check_stored api (dl_uuids lib) organization uuid desired) (\<lambda>_.
     write_destination api (dl_uuids lib) organization uuid desired))))"

definition get_destination ::
  "'w dest_api \<Rightarrow> uuid_ops \<Rightarrow> uuid \<Rightarrow> uuid \<Rightarrow> ('w, destination_error, destination_view) effect" where
  "get_destination api uuids organization uuid =
     (let name = target_name uuids uuid
      in ebind (emap_err (\<lambda>_. StorageUnavailable) (da_target_get api name)) (\<lambda>target.
         if \<not> labels_match uuids (dyn_labels target) organization uuid then efail Destination_Conflict
         else eret \<lparr>dv_id = uuid, dv_organization_id = organization, dv_target_name = name,
                    dv_ready = is_available target\<rparr>))"

end
