(* ===== verification/Uuid_Text.thy ===== *)
theory Uuid_Text
  imports Json_Objects
begin

text \<open>
  The interface of the \<open>uuid\<close> crate that names of objects rely on, and its instance: 32 hexadecimal
  digits, with hyphens in the long form.
\<close>

locale uuid_text =
  fixes uuids :: uuid_ops
  assumes simple_length: "length (uuid_simple uuids u) = 32"
    and simple_inj: "uuid_simple uuids u = uuid_simple uuids v \<Longrightarrow> u = v"
    and parse_show: "uuid_parse uuids (uuid_show uuids u) = Some u"
begin

lemma show_eq_iff [simp]: "uuid_show uuids u = uuid_show uuids v \<longleftrightarrow> u = v"
  by (metis parse_show option.inject)

lemma simple_eq_iff [simp]: "uuid_simple uuids u = uuid_simple uuids v \<longleftrightarrow> u = v"
  using simple_inj by auto

lemma backup_name_eq_iff [simp]: "backup_name uuids u = backup_name uuids v \<longleftrightarrow> u = v"
  by (simp add: backup_name_def)

lemma simple_tail:
  assumes "xs @ uuid_simple uuids u = ys @ uuid_simple uuids v"
  shows "xs = ys \<and> u = v"
  using assms by (simp add: append_eq_append_conv simple_length)

end

section \<open>The instance\<close>

definition hex_digits :: "nat \<Rightarrow> nat \<Rightarrow> string" where
  "hex_digits k n = map (\<lambda>i. hex_char (n div 16 ^ i mod 16)) (rev [0..<k])"

definition hex_number :: "string \<Rightarrow> nat" where
  "hex_number s = foldl (\<lambda>a c. 16 * a + hex_value c) 0 s"

lemma length_hex_digits [simp]: "length (hex_digits k n) = k"
  by (simp add: hex_digits_def)

lemma hex_value_hex_char: "n < 16 \<Longrightarrow> hex_value (hex_char n) = n"
  by (auto simp: hex_value_def hex_char_def byte_def is_ascii_digit_def is_ascii_lowercase_def)

lemma hex_digits_value: "foldl (\<lambda>a c. 16 * a + hex_value c) a (hex_digits k n) = a * 16 ^ k + n mod 16 ^ k"
proof (induction k arbitrary: a)
  case (Suc k)
  have "n mod 16 ^ Suc k = 16 ^ k * (n div 16 ^ k mod 16) + n mod 16 ^ k"
    using mod_mult2_eq [of n "16 ^ k" 16] by (simp add: mult.commute)
  then show ?case
    using Suc [of "16 * a + n div 16 ^ k mod 16"]
    by (simp add: hex_digits_def hex_value_hex_char algebra_simps)
qed (simp add: hex_digits_def)

definition hex_uuids :: uuid_ops where
  "hex_uuids =
     \<lparr>uuid_parse = (\<lambda>s.
        let t = filter (\<lambda>c. c \<noteq> CHR ''-'') s
        in if length t = 32 \<and> list_all is_ascii_hexdigit t then Some (of_nat (hex_number t)) else None),
      uuid_show = (\<lambda>u. let s = hex_digits 32 (unat u)
        in take 8 s @ ''-'' @ take 4 (drop 8 s) @ ''-'' @ take 4 (drop 12 s) @ ''-'' @ take 4 (drop 16 s) @ ''-'' @ drop 20 s),
      uuid_simple = (\<lambda>u. hex_digits 32 (unat u))\<rparr>"

lemma hex_char_hexdigit: "n < 16 \<Longrightarrow> is_ascii_hexdigit (hex_char n) \<and> hex_char n \<noteq> CHR ''-''"
  by (auto simp: hex_char_def is_ascii_hexdigit_def is_ascii_digit_def byte_def char_of_eq_iff
      take_bit_nat_eq_self)

lemma hex_digits_hexdigit: "c \<in> set (hex_digits k n) \<Longrightarrow> is_ascii_hexdigit c \<and> c \<noteq> CHR ''-''"
  using hex_char_hexdigit by (auto simp: hex_digits_def)

lemma hex_number_digits: "of_nat (hex_number (hex_digits 32 (unat u))) = (u :: 128 word)"
proof -
  have "unat u < 16 ^ 32" using unsigned_less [of u] by simp
  then show ?thesis by (simp add: hex_number_def hex_digits_value)
qed

lemma take_drop_32:
  "take 8 s @ take 4 (drop 8 s) @ take 4 (drop 12 s) @ take 4 (drop 16 s) @ drop 20 s = s"
proof -
  have "s = take 8 s @ drop 8 s" by simp
  also have "drop 8 s = take 4 (drop 8 s) @ drop 12 s"
    using append_take_drop_id [of 4 "drop 8 s"] by (simp add: drop_drop)
  also have "drop 12 s = take 4 (drop 12 s) @ drop 16 s"
    using append_take_drop_id [of 4 "drop 12 s"] by (simp add: drop_drop)
  also have "drop 16 s = take 4 (drop 16 s) @ drop 20 s"
    using append_take_drop_id [of 4 "drop 16 s"] by (simp add: drop_drop)
  finally show ?thesis by simp
qed

lemma hex_uuids_show:
  "filter (\<lambda>c. c \<noteq> CHR ''-'') (uuid_show hex_uuids u) = hex_digits 32 (unat u)"
proof -
  let ?s = "hex_digits 32 (unat u)"
  have keep: "filter (\<lambda>c. c \<noteq> CHR ''-'') t = t" if "set t \<subseteq> set ?s" for t
    using that hex_digits_hexdigit by (auto simp: filter_id_conv)
  have "filter (\<lambda>c. c \<noteq> CHR ''-'') (uuid_show hex_uuids u) =
      take 8 ?s @ take 4 (drop 8 ?s) @ take 4 (drop 12 ?s) @ take 4 (drop 16 ?s) @ drop 20 ?s"
    by (simp add: hex_uuids_def Let_def keep set_take_subset set_drop_subset
        subset_trans [OF set_take_subset set_drop_subset])
  then show ?thesis by (simp only: take_drop_32)
qed

lemma hex_simple: "uuid_simple hex_uuids u = hex_digits 32 (unat u)"
  by (simp add: hex_uuids_def)

lemma hex_parse_show: "uuid_parse hex_uuids (uuid_show hex_uuids u) = Some u"
proof -
  have "uuid_parse hex_uuids s =
      (let t = filter (\<lambda>c. c \<noteq> CHR ''-'') s
       in if length t = 32 \<and> list_all is_ascii_hexdigit t then Some (of_nat (hex_number t)) else None)" for s
    by (simp add: hex_uuids_def)
  moreover have "list_all is_ascii_hexdigit (hex_digits 32 (unat u))"
    using hex_digits_hexdigit by (auto simp: list_all_iff)
  ultimately show ?thesis
    by (simp only: hex_uuids_show length_hex_digits hex_number_digits Let_def) simp
qed

interpretation hex: uuid_text hex_uuids
proof unfold_locales
  fix u v :: uuid
  show "length (uuid_simple hex_uuids u) = 32" by (simp only: hex_simple length_hex_digits)
  show "u = v" if "uuid_simple hex_uuids u = uuid_simple hex_uuids v"
    using that unfolding hex_simple by (metis hex_number_digits)
  show "uuid_parse hex_uuids (uuid_show hex_uuids u) = Some u" by (rule hex_parse_show)
qed

end
