(* ===== verification/Destination_Properties.thy ===== *)
theory Destination_Properties
  imports Backup_Destinations Uuid_Text
begin

text \<open>
  Properties of the destinations: credentials stay in the secret, a refused destination writes
  nothing, an existing destination keeps its location, and tenants never share a location.
\<close>

section \<open>Credentials\<close>

lemma same_input:
  "request_host (input\<lparr>s3_access_key := a, s3_secret_key := s\<rparr>) = request_host input"
  "target_url uuids organization uuid (input\<lparr>s3_access_key := a, s3_secret_key := s\<rparr>) =
     target_url uuids organization uuid input"
  by (simp_all add: request_host_def target_url_def fun_eq_iff)

lemma manifests_Inr:
  assumes "manifests lib organization uuid input origin key ns restore verification = Inr m"
  obtains url host port proxy where
    "valid_credential (s3_access_key input)" and "valid_credential (s3_secret_key input)"
    and "m = \<lparr>mf_secret = destination_secret (target_name (dl_uuids lib) uuid) ns
                 (destination_labels (dl_uuids lib) organization uuid) input url proxy,
               mf_target = destination_target (target_name (dl_uuids lib) uuid) ns
                 (destination_labels (dl_uuids lib) organization uuid)
                 (target_url (dl_uuids lib) organization uuid input),
               mf_restore_class = mf_restore_class m, mf_verification_class = mf_verification_class m\<rparr>"
    and "\<And>a s. valid_credential a \<Longrightarrow> valid_credential s \<Longrightarrow>
      manifests lib organization uuid (input\<lparr>s3_access_key := a, s3_secret_key := s\<rparr>) origin key ns
        restore verification =
      Inr (m\<lparr>mf_secret := destination_secret (target_name (dl_uuids lib) uuid) ns
                 (destination_labels (dl_uuids lib) organization uuid)
                 (input\<lparr>s3_access_key := a, s3_secret_key := s\<rparr>) url proxy\<rparr>)"
proof -
  from assms obtain url host port host' token proxy rc vc where
    checked: "\<not> (is_nil organization \<or> is_nil uuid \<or> \<not> valid_bucket (s3_bucket input) \<or>
        \<not> valid_prefix (s3_prefix input) \<or> \<not> valid_region (s3_region input) \<or>
        \<not> valid_credential (s3_access_key input) \<or> \<not> valid_credential (s3_secret_key input))"
    and ep: "endpoint lib (s3_endpoint input) = Inr (url, host, port)"
    and host': "request_host input host = Inr host'"
    and token: "proxy_token lib key (uuid_simple (dl_uuids lib) organization @ ''.'' @
         uuid_simple (dl_uuids lib) uuid) host' port = Inr token"
    and proxy: "proxy_url lib origin (uuid_simple (dl_uuids lib) organization @ ''.'' @
         uuid_simple (dl_uuids lib) uuid) token = Inr proxy"
    and rc: "storage_class restore (target_name (dl_uuids lib) uuid)
         (destination_labels (dl_uuids lib) organization uuid) (target_name (dl_uuids lib) uuid) = Inr rc"
    and vc: "storage_class verification (verification_class_name (dl_uuids lib) uuid)
         (destination_labels (dl_uuids lib) organization uuid) (target_name (dl_uuids lib) uuid) = Inr vc"
    and m: "m = \<lparr>mf_secret = destination_secret (target_name (dl_uuids lib) uuid) ns
                 (destination_labels (dl_uuids lib) organization uuid) input url proxy,
               mf_target = destination_target (target_name (dl_uuids lib) uuid) ns
                 (destination_labels (dl_uuids lib) organization uuid)
                 (target_url (dl_uuids lib) organization uuid input),
               mf_restore_class = rc, mf_verification_class = vc\<rparr>"
    unfolding manifests_def Let_def by (auto simp: result_simps)
  show ?thesis
  proof (rule that)
    show "valid_credential (s3_access_key input)" "valid_credential (s3_secret_key input)"
      using checked by auto
    show "manifests lib organization uuid (input\<lparr>s3_access_key := a, s3_secret_key := s\<rparr>) origin key ns
        restore verification =
      Inr (m\<lparr>mf_secret := destination_secret (target_name (dl_uuids lib) uuid) ns
                 (destination_labels (dl_uuids lib) organization uuid)
                 (input\<lparr>s3_access_key := a, s3_secret_key := s\<rparr>) url proxy\<rparr>)"
      if "valid_credential a" "valid_credential s" for a s
      using checked that token proxy
      by (simp add: manifests_def Let_def ep host' rc vc m ensure_def same_input)
  qed (use m in simp)
qed

text \<open>
  The credentials of a destination only enter its secret: with other valid credentials the
  destination is accepted as well, and its backup target and both of its storage classes are the same.
\<close>

theorem manifests_hide_credentials:
  assumes "manifests lib organization uuid input origin key ns restore verification = Inr m"
    and "valid_credential a" and "valid_credential s"
  shows "\<exists>m'. manifests lib organization uuid (input\<lparr>s3_access_key := a, s3_secret_key := s\<rparr>) origin key ns
        restore verification = Inr m' \<and>
      mf_target m' = mf_target m \<and> mf_restore_class m' = mf_restore_class m \<and>
      mf_verification_class m' = mf_verification_class m \<and>
      jget (jget (mf_secret m') ''stringData'') ''AWS_ACCESS_KEY_ID'' = JStr a \<and>
      jget (jget (mf_secret m') ''stringData'') ''AWS_SECRET_ACCESS_KEY'' = JStr s"
proof -
  obtain url host port proxy where
    "manifests lib organization uuid (input\<lparr>s3_access_key := a, s3_secret_key := s\<rparr>) origin key ns
        restore verification =
      Inr (m\<lparr>mf_secret := destination_secret (target_name (dl_uuids lib) uuid) ns
                 (destination_labels (dl_uuids lib) organization uuid)
                 (input\<lparr>s3_access_key := a, s3_secret_key := s\<rparr>) url proxy\<rparr>)"
    using manifests_Inr [OF assms(1)] assms(2,3) by metis
  then show ?thesis by (simp add: destination_secret_def jget_jobj unwrap_or_def)
qed

section \<open>Writes\<close>

text \<open>The same server with other effects of the calls that write.\<close>

abbreviation with_writes ::
  "'w dest_api \<Rightarrow> (string \<Rightarrow> json \<Rightarrow> ('w, kube_error, unit) effect) \<Rightarrow>
   (string \<Rightarrow> json \<Rightarrow> ('w, kube_error, unit) effect) \<Rightarrow>
   (string \<Rightarrow> json \<Rightarrow> ('w, kube_error, dynamic_object) effect) \<Rightarrow> 'w dest_api" where
  "with_writes api f g h \<equiv> api\<lparr>da_secret_apply := f, da_class_apply := g, da_target_apply := h\<rparr>"

lemma check_class_writes: "check_class (with_writes api f g h) uuids = check_class api uuids"
  by (simp add: check_class_def fun_eq_iff)

lemma check_stored_writes: "check_stored (with_writes api f g h) uuids = check_stored api uuids"
  by (simp add: check_stored_def check_class_writes fun_eq_iff cong: if_cong)

lemma check_class_Inr:
  assumes "check_class api uuids organization uuid desired w = (Inr (), w')"
  shows "\<exists>name. class_name_of desired = Inr name"
  using assms by (auto simp: check_class_def elim!: ebind_Inr)

lemma check_stored_Inr:
  assumes "check_stored api uuids organization uuid desired w = (Inr (), w')"
  obtains found w1 where "da_target_get_opt api (target_name uuids uuid) w = (Inr found, w1)"
    and "\<forall>existing\<in>set_option found. \<not> target_conflicts uuids organization uuid (mf_target desired) existing"
    and "\<exists>name. class_name_of (mf_restore_class desired) = Inr name"
    and "\<exists>name. class_name_of (mf_verification_class desired) = Inr name"
proof -
  from assms obtain found w1 w3 where found: "da_target_get_opt api (target_name uuids uuid) w = (Inr found, w1)"
    and ok: "\<forall>existing\<in>set_option found. \<not> target_conflicts uuids organization uuid (mf_target desired) existing"
    and rest: "efor (check_class api uuids organization uuid)
        [mf_restore_class desired, mf_verification_class desired] w3 = (Inr (), w')"
    by (auto simp: check_stored_def Let_def simp del: efor.simps elim!: ebind_Inr split: if_splits option.splits)
  then show ?thesis
    by (intro that [OF found ok]) (auto elim!: ebind_Inr dest: check_class_Inr)
qed

lemma write_destination_error:
  assumes "\<exists>name. class_name_of (mf_restore_class desired) = Inr name"
    and "\<exists>name. class_name_of (mf_verification_class desired) = Inr name"
    and "write_destination api uuids organization uuid desired w = (Inl e, w')"
  shows "e = StorageUnavailable"
  using assms
  by (auto simp: write_destination_def Let_def apply_class_def emap_err_Inl elim!: ebind_Inl)

text \<open>
  C34. Registering a destination fails without writing anything unless the store itself fails: when
  \<open>put_destination\<close> returns another error (bad configuration, an unusable template, a target, secret or class that
  belongs to another tenant or points elsewhere), the run is the same whatever the writing calls do.
\<close>

theorem put_refused_writes_nothing:
  assumes "put_destination api lib organization uuid input origin key ns restore verification w = (Inl e, w')"
    and "e \<noteq> StorageUnavailable"
  shows "put_destination (with_writes api f g h) lib organization uuid input origin key ns restore verification w = (Inl e, w')"
proof -
  have run: "write_destination api (dl_uuids lib) organization uuid desired w4 \<noteq> (Inl e, w')"
    if "check_stored api (dl_uuids lib) organization uuid desired w3 = (Inr u, w4)" for desired u w3 w4
    using that assms(2) by (cases u) (metis check_stored_Inr write_destination_error)
  show ?thesis
    unfolding put_destination_def check_stored_writes
    by (rule ebind_Inl_cong [OF assms(1) [unfolded put_destination_def]], simp,
        erule ebind_Inl_cong, simp, erule ebind_Inl_cong, simp, erule ebind_Inl_cong, simp)
       (simp add: run)
qed

text \<open>
  Registering or rotating a destination never moves it: when \<open>put_destination\<close> succeeds, a target that was
  stored under the name carried the labels of the same organization and destination, and it had the
  location that is written, so its backups stay reachable.
\<close>

theorem put_keeps_location:
  assumes "put_destination api lib organization uuid input origin key ns restore verification w = (Inr view, w')"
  shows "dv_id view = uuid \<and> dv_organization_id view = organization \<and>
    dv_target_name view = target_name (dl_uuids lib) uuid \<and>
    (\<exists>w1 w2 found. da_target_get_opt api (target_name (dl_uuids lib) uuid) w1 = (Inr found, w2) \<and>
       (\<forall>existing\<in>set_option found.
          labels_match (dl_uuids lib) (dyn_labels existing) organization uuid \<and>
          dyn_at existing ''spec'' ''backupTargetURL'' =
            JStr (target_url (dl_uuids lib) organization uuid input)))"
proof -
  from assms obtain rt vt desired w3 w4 where
    m: "manifests lib organization uuid input origin key ns rt vt = Inr desired"
    and checked: "check_stored api (dl_uuids lib) organization uuid desired w3 = (Inr (), w4)"
    and written: "write_destination api (dl_uuids lib) organization uuid desired w4 = (Inr view, w')"
    by (auto simp: put_destination_def elim!: ebind_Inr)
  obtain found w5 where found: "da_target_get_opt api (target_name (dl_uuids lib) uuid) w3 = (Inr found, w5)"
    and ok: "\<forall>existing\<in>set_option found. \<not> target_conflicts (dl_uuids lib) organization uuid (mf_target desired) existing"
    using checked by (rule check_stored_Inr) blast
  have "jget (jget (mf_target desired) ''spec'') ''backupTargetURL'' =
      JStr (target_url (dl_uuids lib) organization uuid input)"
    by (rule manifests_Inr [OF m], erule ssubst) (simp add: destination_target_def jget_jobj unwrap_or_def)
  with found ok have "\<forall>existing\<in>set_option found.
      labels_match (dl_uuids lib) (dyn_labels existing) organization uuid \<and>
      dyn_at existing ''spec'' ''backupTargetURL'' = JStr (target_url (dl_uuids lib) organization uuid input)"
    by (auto simp: target_conflicts_def)
  with found written show ?thesis
    by (auto simp: write_destination_def Let_def elim!: ebind_Inr)
qed

section \<open>Locations\<close>

context uuid_text
begin

lemma target_url_inj:
  assumes "target_url uuids organization u input = target_url uuids organization' v input'"
  shows "organization = organization' \<and> u = v"
proof -
  have front: "target_url uuids org x inp = (''s3://'' @ s3_bucket inp @ ''@'' @ s3_region inp @ ''/'' @
      (let pre = trim_end_matches CHR ''/'' (s3_prefix inp) in if pre = [] then [] else pre @ ''/'') @
      ''heterocloud/'' @ uuid_simple uuids org @ ''/'') @ uuid_simple uuids x" for org x inp
    by (simp add: target_url_def Let_def)
  note tails = simple_tail [OF assms [unfolded front]]
  then have "u = v" by blast
  moreover have "organization = organization'"
    using conjunct1 [OF tails] simple_tail [of _ organization _ organization']
    by (metis append.assoc append_same_eq)
  ultimately show ?thesis by blast
qed

end

text \<open>
  Two destinations of different organizations, or two destinations of one organization, never have the
  same location, whatever their buckets, regions and prefixes. Hypothesis: identifiers are shown as
  32 digits without collision.
\<close>

theorem target_url_tenant_scoped:
  assumes "uuid_text uuids"
    and "target_url uuids organization u input = target_url uuids organization' v input'"
  shows "organization = organization' \<and> u = v"
  using uuid_text.target_url_inj [OF assms] .

section \<open>Witnesses\<close>

definition sample_url :: "string \<Rightarrow> string \<Rightarrow> url" where
  "sample_url scheme host =
     \<lparr>url_scheme = scheme, url_username = [], url_password = None, url_host = Some (Domain_Host host),
      url_port_or_known_default = Some 443, url_path = ''/'', url_query = None, url_fragment = None,
      url_text = scheme @ ''://'' @ host @ ''/''\<rparr>"

definition sample_dest_lib :: "cidr dest_lib" where
  "sample_dest_lib =
     \<lparr>dl_uuids = hex_uuids, dl_nets = cidr_ops,
      dl_url_parse = (\<lambda>s. if s = ''https://storage.example'' then Some (sample_url ''https'' ''storage.example'')
                          else if s = ''http://proxy.ns.svc'' then Some (sample_url ''http'' ''proxy.ns.svc'') else None),
      dl_set_username = (\<lambda>u v. Some (u\<lparr>url_username := v\<rparr>)),
      dl_set_password = (\<lambda>u v. Some (u\<lparr>url_password := Some v\<rparr>)),
      dl_hmac_sha256 = (\<lambda>key. Some (\<lambda>s. [length key mod 256, length s mod 256]))\<rparr>"

definition sample_s3 :: s3_destination where
  "sample_s3 =
     \<lparr>s3_endpoint = ''https://storage.example'', s3_bucket = ''sample-bucket'', s3_region = ''us-east-1'',
      s3_prefix = ''backups'', s3_virtual_hosted = False, s3_access_key = ''access'', s3_secret_key = ''secret''\<rparr>"

definition sample_class :: dynamic_object where
  "sample_class =
     \<lparr>dyn_name = ''longhorn'', dyn_resource_version = None, dyn_labels = None, dyn_annotations = [],
      dyn_data = jobj [(''provisioner'', JStr ''driver.longhorn.io''), (''parameters'', jobj []),
                       (''reclaimPolicy'', JStr ''Delete'')]\<rparr>"

text \<open>A store that holds at most a backup target; writes are counted.\<close>

definition sample_dest_api :: "dynamic_object option \<Rightarrow> nat dest_api" where
  "sample_dest_api target =
     \<lparr>da_class_get = (\<lambda>_. eret sample_class), da_class_get_opt = (\<lambda>_. eret None),
      da_class_apply = (\<lambda>_ _ w. (Inr (), w + 1)), da_target_get = (\<lambda>_. eret sample_class),
      da_target_get_opt = (\<lambda>_. eret target), da_target_apply = (\<lambda>_ _ w. (Inr sample_class, w + 1)),
      da_secret_get_opt = (\<lambda>_. eret None), da_secret_apply = (\<lambda>_ _ w. (Inr (), w + 1))\<rparr>"

definition sample_manifests :: "destination_error + manifest_set" where
  "sample_manifests = manifests sample_dest_lib 1 2 sample_s3 ''http://proxy.ns.svc'' (replicate 32 CHR ''k'')
     ''longhorn-system'' (dyn_data sample_class) (dyn_data sample_class)"

lemma sample_dest_uuids [simp]: "dl_uuids sample_dest_lib = hex_uuids"
  by (simp add: sample_dest_lib_def)

lemma sample_host: "endpoint_host nets (Domain_Host ''storage.example'') = Inr ''storage.example''"
proof -
  have "to_ascii_lowercase (trim_end_matches CHR ''.'' ''storage.example'') = ''storage.example''"
    by code_simp
  moreover have "\<not> list_ex (\<lambda>s. suffix s ''storage.example'') internal_suffixes"
    by code_simp
  ultimately show ?thesis by (simp add: endpoint_host_def Let_def)
qed

lemma sample_endpoint:
  "endpoint sample_dest_lib (s3_endpoint sample_s3) =
     Inr (sample_url ''https'' ''storage.example'', ''storage.example'', 443)"
  by (simp add: endpoint_def sample_dest_lib_def sample_s3_def sample_url_def ok_or_def ensure_def sample_host)

lemma sample_checked:
  "valid_bucket (s3_bucket sample_s3)" "valid_prefix (s3_prefix sample_s3)" "valid_region (s3_region sample_s3)"
  "valid_credential (s3_access_key sample_s3)" "valid_credential (s3_secret_key sample_s3)"
  by code_simp+

lemma sample_storage_class: "\<exists>c. storage_class (dyn_data sample_class) name labels target = Inr c"
  by (simp add: storage_class_def sample_class_def jget_def jobject_def ok_or_def ensure_def jobj_def Let_def)

lemma sample_manifests_ok: "\<exists>m. sample_manifests = Inr m"
proof -
  obtain a b where "storage_class (dyn_data sample_class) (target_name hex_uuids 2) (destination_labels hex_uuids 1 2)
        (target_name hex_uuids 2) = Inr a"
    and "storage_class (dyn_data sample_class) (verification_class_name hex_uuids 2)
        (destination_labels hex_uuids 1 2) (target_name hex_uuids 2) = Inr b"
    using sample_storage_class by metis
  moreover have "dl_uuids sample_dest_lib = hex_uuids" "s3_virtual_hosted sample_s3 = False"
    by (simp_all add: sample_dest_lib_def sample_s3_def)
  moreover have "\<exists>t. proxy_token sample_dest_lib (replicate 32 CHR ''k'') identity host port = Inr t" for identity host port
    by (simp add: proxy_token_def sample_dest_lib_def ok_or_def)
  moreover have "\<exists>p. proxy_url sample_dest_lib ''http://proxy.ns.svc'' identity token = Inr p" for identity token
    by (simp add: proxy_url_def sample_dest_lib_def sample_url_def ok_or_def ensure_def)
  ultimately show ?thesis
    using sample_checked
    by (simp add: sample_manifests_def manifests_def sample_endpoint is_nil_def ensure_def request_host_def Let_def
        result_simps) blast
qed

theorem manifests_hide_credentials_witness:
  "\<exists>m m'. sample_manifests = Inr m \<and>
     manifests sample_dest_lib 1 2 (sample_s3\<lparr>s3_access_key := ''rotated'', s3_secret_key := ''key''\<rparr>)
       ''http://proxy.ns.svc'' (replicate 32 CHR ''k'') ''longhorn-system'' (dyn_data sample_class)
       (dyn_data sample_class) = Inr m' \<and> mf_target m' = mf_target m"
proof -
  have keys: "valid_credential ''rotated''" "valid_credential ''key''" by code_simp+
  obtain m where "sample_manifests = Inr m" using sample_manifests_ok ..
  then show ?thesis
    using manifests_hide_credentials [OF _ keys] unfolding sample_manifests_def by blast
qed

abbreviation sample_put :: "dynamic_object option \<Rightarrow> nat \<Rightarrow> (destination_error + destination_view) \<times> nat" where
  "sample_put target \<equiv> put_destination (sample_dest_api target) sample_dest_lib 1 2 sample_s3 ''http://proxy.ns.svc''
     (replicate 32 CHR ''k'') ''longhorn-system'' ''longhorn'' ''longhorn''"

lemma sample_put_start:
  assumes "sample_manifests = Inr m"
  shows "sample_put target w =
    ebind (check_stored (sample_dest_api target) hex_uuids 1 2 m)
      (\<lambda>_. write_destination (sample_dest_api target) hex_uuids 1 2 m) w"
  using assms
  by (simp add: put_destination_def sample_dest_api_def ebind_apply emap_err_def sample_manifests_def cong: sum.case_cong)

lemma sample_put_refused: "sample_put (Some sample_class) 0 = (Inl Destination_Conflict, 0)"
proof -
  obtain m where m: "sample_manifests = Inr m" using sample_manifests_ok ..
  show ?thesis
    unfolding sample_put_start [OF m]
    by (simp add: check_stored_def sample_dest_api_def ebind_apply emap_err_def target_conflicts_def labels_match_def)
       (simp add: sample_class_def)
qed

theorem put_refused_writes_nothing_witness:
  "sample_put (Some sample_class) 0 = (Inl Destination_Conflict, 0) \<and>
   put_destination (with_writes (sample_dest_api (Some sample_class)) (\<lambda>_ _. eret ()) (\<lambda>_ _. eret ()) (\<lambda>_ _. eret sample_class))
     sample_dest_lib 1 2 sample_s3 ''http://proxy.ns.svc'' (replicate 32 CHR ''k'') ''longhorn-system'' ''longhorn''
     ''longhorn'' 0 = (Inl Destination_Conflict, 0)"
  using sample_put_refused put_refused_writes_nothing [OF sample_put_refused] by blast

lemma class_name_of_storage_class:
  assumes "storage_class template name labels target = Inr c"
  shows "class_name_of c = Inr name"
proof -
  have "jget (fold (\<lambda>key result. case jget_opt template key of None \<Rightarrow> result | Some v \<Rightarrow> jset key v result) ks v)
      ''metadata'' = jget v ''metadata''" if "''metadata'' \<notin> set ks" for ks v
    using that by (induction ks arbitrary: v) (auto simp: jset_def jget_def split: option.splits json.splits)
  with assms show ?thesis
    by (auto simp: storage_class_def Let_def result_simps class_name_of_def jget_jobj unwrap_or_def jstr_def ok_or_def
        simp del: fold.simps fold_Cons)
qed

lemma manifests_class_names:
  assumes "manifests lib organization uuid input origin key ns restore verification = Inr m"
  shows "class_name_of (mf_restore_class m) = Inr (target_name (dl_uuids lib) uuid)"
    and "class_name_of (mf_verification_class m) = Inr (verification_class_name (dl_uuids lib) uuid)"
  using assms unfolding manifests_def Let_def
  by (auto simp: result_simps dest!: class_name_of_storage_class)

lemma sample_put_stored: "\<exists>view. sample_put None 0 = (Inr view, 4)"
proof -
  obtain m where m: "sample_manifests = Inr m" using sample_manifests_ok ..
  note names = manifests_class_names [OF m [unfolded sample_manifests_def]]
  show ?thesis
    unfolding sample_put_start [OF m]
    by (simp add: check_stored_def check_class_def write_destination_def apply_class_def
        sample_dest_api_def ebind_apply emap_err_def names Let_def)
qed

theorem put_keeps_location_witness:
  "\<exists>view. sample_put None 0 = (Inr view, 4) \<and> dv_id view = 2 \<and> dv_organization_id view = 1"
proof -
  obtain view where view: "sample_put None 0 = (Inr view, 4)" using sample_put_stored ..
  then show ?thesis using put_keeps_location [OF view] by (intro exI [of _ view]) simp
qed

theorem target_url_tenant_scoped_witness:
  "target_url hex_uuids 1 2 sample_s3 \<noteq> target_url hex_uuids 3 2 (sample_s3\<lparr>s3_prefix := []\<rparr>)"
  using target_url_tenant_scoped [OF hex.uuid_text_axioms] by fastforce

end
