(* ===== verification/Status_Patch.thy ===== *)
theory Status_Patch
  imports Json_Objects Workload_Status
begin

text \<open>
  The merge patch that reports the status of a service (\<open>status_patch\<close> of \<open>reconcile.rs\<close>), with the
  serialisation of the status and of its parts (\<open>crd.rs\<close>, \<open>diagnostics.rs\<close>). The server applies it as a
  JSON merge patch; what is documented of that (RFC 7386) is the locale \<open>merge_patch\<close>.
\<close>

section \<open>Serialisation\<close>

definition jnat :: "nat \<Rightarrow> json" where "jnat n = JNum (int n)"
definition jstrs :: "string list \<Rightarrow> json" where "jstrs ss = JArr (map JStr ss)"

text \<open>An object without the fields that are skipped, and a value where null stands for \<open>None\<close>.\<close>

definition jfields :: "(string \<times> json option) list \<Rightarrow> json" where
  "jfields entries = jobj (List.map_filter (\<lambda>(k, v). map_option (Pair k) v) entries)"

definition jnull :: "('a \<Rightarrow> json) \<Rightarrow> 'a option \<Rightarrow> json" where
  "jnull f v = (case v of None \<Rightarrow> JNull | Some x \<Rightarrow> f x)"

definition service_phase_json :: "flash_service_phase \<Rightarrow> json" where
  "service_phase_json p =
     JStr (case p of Provisioning \<Rightarrow> ''provisioning'' | Ready \<Rightarrow> ''ready'' | Error \<Rightarrow> ''error'')"

definition gpu_job_phase_json :: "flash_gpu_job_phase \<Rightarrow> json" where
  "gpu_job_phase_json p =
     JStr (case p of Queued \<Rightarrow> ''queued'' | Reserved \<Rightarrow> ''reserved'' | Running \<Rightarrow> ''running'' | Retry \<Rightarrow> ''retry''
           | Cancelled \<Rightarrow> ''cancelled'' | Released \<Rightarrow> ''released'' | Rejected \<Rightarrow> ''rejected'')"

definition diagnostic_json :: "diagnostic \<Rightarrow> json" where
  "diagnostic_json d =
     jfields [(''code'', Some (JStr (dg_code d))), (''severity'', Some (JStr (dg_severity d))),
              (''message'', Some (JStr (dg_message d))), (''resource'', map_option JStr (dg_resource d))]"

definition disk_usage_json :: "disk_usage \<Rightarrow> json" where
  "disk_usage_json d =
     jobj [(''capacity_bytes'', jnat (du_capacity_bytes d)), (''used_bytes'', jnat (du_used_bytes d)),
           (''available_bytes'', jnat (du_available_bytes d)), (''measured_at'', JStr (du_measured_at d))]"

definition endpoint_json :: "flash_endpoint \<Rightarrow> json" where
  "endpoint_json e =
     jobj [(''name'', JStr (ep_name e)),
           (''protocol'', JStr (case ep_protocol e of Tcp \<Rightarrow> ''tcp'' | Udp \<Rightarrow> ''udp'')),
           (''host'', JStr (ep_host e)), (''port'', jnat (ep_port e))]"

definition gpu_weekly_usage_json :: "flash_gpu_weekly_usage \<Rightarrow> json" where
  "gpu_weekly_usage_json u =
     jobj [(''week_started_at'', JNum (gw_week_started_at u)), (''used_seconds'', jnat (gw_used_seconds u)),
           (''last_metered_at'', JNum (gw_last_metered_at u)), (''limit_seconds'', jnat (gw_limit_seconds u))]"

definition weekly_usage_json :: "flash_weekly_usage \<Rightarrow> json" where
  "weekly_usage_json u =
     jobj [(''week_started_at'', JNum (wu_week_started_at u)),
           (''cpu_millicore_seconds'', jnat (wu_cpu_millicore_seconds u)),
           (''memory_mib_seconds'', jnat (wu_memory_mib_seconds u)), (''gpu_seconds'', jnat (wu_gpu_seconds u)),
           (''last_metered_at'', JNum (wu_last_metered_at u)),
           (''max_cpu_millicore_seconds'', jnat (wu_max_cpu_millicore_seconds u)),
           (''max_memory_mib_seconds'', jnat (wu_max_memory_mib_seconds u)),
           (''max_gpu_seconds'', jnat (wu_max_gpu_seconds u))]"

definition gpu_scheduling_json :: "flash_gpu_scheduling_status \<Rightarrow> json" where
  "gpu_scheduling_json s =
     jfields [(''phase'', Some (gpu_job_phase_json (sch_phase s))), (''gpu_type'', map_option JStr (sch_gpu_type s)),
              (''display_name'', map_option JStr (sch_display_name s))]"

text \<open>The fields of a status; \<open>None\<close> is a field that is skipped.\<close>

definition status_fields :: "flash_service_status \<Rightarrow> (string \<times> json option) list" where
  "status_fields s =
     [(''serving_replicas'', map_option jnat (st_serving_replicas s)),
      (''allocated_cpu_millis'', map_option jnat (st_allocated_cpu_millis s)),
      (''allocated_memory_mib'', map_option jnat (st_allocated_memory_mib s)),
      (''allocated_gpu_count'', map_option jnat (st_allocated_gpu_count s)),
      (''diagnostics'', if st_diagnostics s = [] then None else Some (JArr (map diagnostic_json (st_diagnostics s)))),
      (''disk_usage'', map_option disk_usage_json (st_disk_usage s)),
      (''phase'', Some (service_phase_json (st_phase s))),
      (''observed_generation'', Some (JNum (st_observed_generation s))),
      (''ready_replicas'', Some (JNum (st_ready_replicas s))),
      (''desired_replicas'', Some (JNum (st_desired_replicas s))),
      (''runtime_class'', Some (JStr (st_runtime_class s))),
      (''endpoints'', Some (JArr (map endpoint_json (st_endpoints s)))),
      (''private_endpoints'',
       if st_private_endpoints s = [] then None else Some (JArr (map endpoint_json (st_private_endpoints s)))),
      (''message'', Some (jnull JStr (st_message s))),
      (''oidc_callback_url'', map_option JStr (st_oidc_callback_url s)),
      (''resolved_image'', map_option JStr (st_resolved_image s)),
      (''image_size_bytes'', map_option jnat (st_image_size_bytes s)),
      (''writable_storage_bytes'', map_option jnat (st_writable_storage_bytes s)),
      (''rootfs_storage_bytes'', map_option jnat (st_rootfs_storage_bytes s)),
      (''persistent_storage_bytes'', map_option jnat (st_persistent_storage_bytes s)),
      (''persistent_storage_capacity_bytes'', map_option jnat (st_persistent_storage_capacity_bytes s)),
      (''storage_resize_pending'', Some (JBool (st_storage_resize_pending s))),
      (''image_entrypoint'', map_option jstrs (st_image_entrypoint s)),
      (''image_cmd'', map_option jstrs (st_image_cmd s)),
      (''image_architecture'', map_option JStr (st_image_architecture s)),
      (''gpu_weekly_usage'', map_option gpu_weekly_usage_json (st_gpu_weekly_usage s)),
      (''gpu_quota_exhausted'', Some (JBool (st_gpu_quota_exhausted s))),
      (''weekly_usage'', map_option weekly_usage_json (st_weekly_usage s)),
      (''cpu_quota_exhausted'', Some (JBool (st_cpu_quota_exhausted s))),
      (''memory_quota_exhausted'', Some (JBool (st_memory_quota_exhausted s))),
      (''cold'', Some (JBool (st_cold s))), (''stopped'', Some (JBool (st_stopped s))),
      (''gpu_scheduling'', map_option gpu_scheduling_json (st_gpu_scheduling s))]"

section \<open>The patch\<close>

text \<open>The fields that are written even when they are empty.\<close>

definition explicit_fields :: "flash_service_status \<Rightarrow> (string \<times> json) list" where
  "explicit_fields s =
     [(''diagnostics'', JArr (map diagnostic_json (st_diagnostics s))),
      (''disk_usage'', jnull disk_usage_json (st_disk_usage s)),
      (''serving_replicas'', jnull jnat (st_serving_replicas s)),
      (''allocated_cpu_millis'', jnull jnat (st_allocated_cpu_millis s)),
      (''allocated_memory_mib'', jnull jnat (st_allocated_memory_mib s)),
      (''allocated_gpu_count'', jnull jnat (st_allocated_gpu_count s)),
      (''resolved_image'', jnull JStr (st_resolved_image s)),
      (''image_size_bytes'', jnull jnat (st_image_size_bytes s)),
      (''writable_storage_bytes'', jnull jnat (st_writable_storage_bytes s)),
      (''rootfs_storage_bytes'', jnull jnat (st_rootfs_storage_bytes s)),
      (''persistent_storage_bytes'', jnull jnat (st_persistent_storage_bytes s)),
      (''persistent_storage_capacity_bytes'', jnull jnat (st_persistent_storage_capacity_bytes s)),
      (''image_entrypoint'', jnull jstrs (st_image_entrypoint s)),
      (''image_cmd'', jnull jstrs (st_image_cmd s)),
      (''image_architecture'', jnull JStr (st_image_architecture s)),
      (''gpu_weekly_usage'', jnull gpu_weekly_usage_json (st_gpu_weekly_usage s)),
      (''weekly_usage'', jnull weekly_usage_json (st_weekly_usage s)),
      (''gpu_scheduling'', jnull gpu_scheduling_json (st_gpu_scheduling s))]"

definition status_body :: "flash_service_status \<Rightarrow> json" where
  "status_body s = fold (\<lambda>(k, v). jset k v) (explicit_fields s) (jfields (status_fields s))"

definition status_patch :: "flash_service \<Rightarrow> flash_service_status \<Rightarrow> json" where
  "status_patch flash s =
     (let patch = jobj [(''status'', status_body s)]
      in case meta_resource_version (fsv_meta flash) of
           None \<Rightarrow> patch
         | Some version \<Rightarrow> jset ''metadata'' (jobj [(''resourceVersion'', JStr version)]) patch)"

section \<open>Merge patches\<close>

abbreviation unique_keys :: "(string \<times> json) list \<Rightarrow> bool" where
  "unique_keys m \<equiv> distinct (map fst m)"

text \<open>A field of the patch is removed when it is null, merged when it is an object and replaced otherwise.\<close>

locale merge_patch =
  fixes merge :: "json \<Rightarrow> json \<Rightarrow> json"
  assumes merge_absent: "unique_keys m \<Longrightarrow> map_of m k = None \<Longrightarrow> jget_opt (merge c (JObj m)) k = jget_opt c k"
    and merge_null: "unique_keys m \<Longrightarrow> map_of m k = Some JNull \<Longrightarrow> jget_opt (merge c (JObj m)) k = None"
    and merge_object: "unique_keys m \<Longrightarrow> map_of m k = Some (JObj n) \<Longrightarrow>
      jget_opt (merge c (JObj m)) k = Some (merge (jget c k) (JObj n))"
    and merge_value: "unique_keys m \<Longrightarrow> map_of m k = Some v \<Longrightarrow> v \<noteq> JNull \<Longrightarrow> jobject v = None \<Longrightarrow>
      jget_opt (merge c (JObj m)) k = Some v"
begin

text \<open>The value a field has afterwards, for a patch that carries no object in it.\<close>

lemma merge_field:
  assumes "unique_keys m" and "map_of m k = Some v" and "jobject v = None"
  shows "jget_opt (merge c (JObj m)) k = (if v = JNull then None else Some v)"
  using assms by (simp add: merge_null merge_value)

end

lemma size_entry_lt: "(k, v) \<in> set m \<Longrightarrow> size (v::json) < Suc (size_list (size_prod (\<lambda>_. 0) size) m)"
  by (induction m) auto

lemma size_map_of_lt: "map_of m k = Some v \<Longrightarrow> size (v::json) < Suc (size_list (size_prod (\<lambda>_. 0) size) m)"
  by (drule map_of_SomeD) (rule size_entry_lt)

text \<open>An implementation.\<close>

fun present_fields :: "(string \<times> json) list \<Rightarrow> (string \<times> json) list" where
  "present_fields [] = []"
| "present_fields ((k, v) # m) = (if v = JNull then present_fields m else (k, v) # present_fields m)"

lemma present_fields_subset: "(k, v) \<in> set (present_fields m) \<Longrightarrow> (k, v) \<in> set m"
  by (induction m rule: present_fields.induct) (auto split: if_splits)

function rfc7386 :: "json \<Rightarrow> json \<Rightarrow> json" where
  "rfc7386 c p =
     (case p of
        JObj m \<Rightarrow>
          JObj (map (\<lambda>(k, v). (k, case v of JObj _ \<Rightarrow> rfc7386 (jget c k) v | _ \<Rightarrow> v)) (present_fields m) @
                (case c of JObj t \<Rightarrow> filter (\<lambda>(k, _). map_of m k = None) t | _ \<Rightarrow> []))
      | _ \<Rightarrow> p)"
  by pat_completeness auto
termination by (relation "measure (\<lambda>(c, p). size p)") (auto dest!: present_fields_subset dest: size_entry_lt)

lemma present_fields_keys: "fst ` set (present_fields m) \<subseteq> fst ` set m"
  by (auto dest: present_fields_subset intro: rev_image_eqI)

lemma map_of_present:
  "unique_keys m \<Longrightarrow> map_of (present_fields m) k = (if map_of m k = Some JNull then None else map_of m k)"
proof (induction m rule: present_fields.induct)
  case (2 k' v m)
  then have "k' \<notin> fst ` set m" by simp
  then have "k' \<notin> fst ` set (present_fields m)" and "map_of m k' = None"
    using present_fields_keys by (blast, simp add: map_of_eq_None_iff)
  then have "map_of (present_fields m) k' = None" by (simp add: map_of_eq_None_iff)
  with 2 \<open>map_of m k' = None\<close> show ?case by simp
qed simp

lemma map_of_map_key: "map_of (map (\<lambda>(k, v). (k, f k v)) xs) k = map_option (f k) (map_of xs k)"
  by (induction xs) auto

lemma map_of_filter_key: "map_of (filter (\<lambda>(k, _). P k) xs) k = (if P k then map_of xs k else None)"
  by (induction xs) auto

lemma jget_opt_rfc7386:
  assumes "unique_keys m"
  shows "jget_opt (rfc7386 c (JObj m)) k =
    (case map_of m k of
       None \<Rightarrow> jget_opt c k
     | Some v \<Rightarrow> if v = JNull then None else Some (case v of JObj _ \<Rightarrow> rfc7386 (jget c k) v | _ \<Rightarrow> v))"
  using assms
  by (cases c)
     (auto simp: rfc7386.simps [of _ "JObj m"] jget_opt_def map_add_def map_of_map_key map_of_filter_key map_of_present
       simp del: rfc7386.simps split: option.splits)

interpretation rfc: merge_patch rfc7386
  by unfold_locales (auto simp: jget_opt_rfc7386 jobject_def simp del: rfc7386.simps split: json.splits)

section \<open>What the patch leaves\<close>

lemma jset_fold: "fold (\<lambda>(k, v). jset k v) xs (JObj m) = JObj (fold (\<lambda>(k, v). bt_insert k v) xs m)"
  by (induction xs arbitrary: m) (auto simp: jset_def)

lemma bt_wf_fold: "bt_wf m \<Longrightarrow> bt_wf (fold (\<lambda>(k, v). bt_insert k v) xs m)"
  by (induction xs arbitrary: m) (auto simp: bt_insert_wf)

lemma unique_jobj: "unique_keys (fold (\<lambda>(k, v). bt_insert k v) es [])"
  by (intro bt_wf_distinct bt_wf_fold) (simp add: bt_wf_def)

lemma merge_jobj_absent: "map_of (rev es) k = None \<Longrightarrow> jget_opt (rfc7386 c (jobj es)) k = jget_opt c k"
  unfolding jobj_def by (rule rfc.merge_absent [OF unique_jobj]) (simp add: map_of_fold_bt_insert)

lemma merge_jobj_value:
  "map_of (rev es) k = Some v \<Longrightarrow> v \<noteq> JNull \<Longrightarrow> jobject v = None \<Longrightarrow> jget_opt (rfc7386 c (jobj es)) k = Some v"
  unfolding jobj_def by (rule rfc.merge_value [OF unique_jobj]) (simp_all add: map_of_fold_bt_insert)

lemma jget_of_opt: "jget v k = unwrap_or (jget_opt v k) JNull"
  by (simp add: jget_def jget_opt_def unwrap_or_def split: json.splits option.splits)

lemma merge_jobj_object:
  "map_of (rev es) k = Some (jobj n) \<Longrightarrow> jget (rfc7386 c (jobj es)) k = rfc7386 (jget c k) (jobj n)"
  unfolding jobj_def jget_of_opt [of "rfc7386 c _"]
  by (subst rfc.merge_object [OF unique_jobj]) (simp_all add: map_of_fold_bt_insert unwrap_or_def del: rfc7386.simps)

lemma map_of_rev: "unique_keys xs \<Longrightarrow> map_of (rev xs) k = map_of xs k"
  by (rule map_of_eqI [THEN fun_cong]) (auto simp: distinct_map)

lemma map_of_skipped:
  assumes "distinct (map fst es)"
  shows "unique_keys (List.map_filter (\<lambda>(k, v). map_option (Pair k) v) es) \<and>
    map_of (List.map_filter (\<lambda>(k, v). map_option (Pair k) v) es) k = Option.bind (map_of es k) (\<lambda>v. v)"
  using assms
proof (induction es)
  case (Cons e es)
  have "fst ` set (List.map_filter (\<lambda>(k, v). map_option (Pair k) v) es) \<subseteq> fst ` set es"
    by (auto simp: List.map_filter_def intro: rev_image_eqI)
  with Cons show ?case
    by (cases e) (auto simp: map_of_eq_None_iff split: option.splits if_splits)
qed simp

lemma status_keys [simp]: "unique_keys (explicit_fields s)" "distinct (map fst (status_fields s))"
  by (simp_all add: explicit_fields_def status_fields_def)

definition status_entries :: "flash_service_status \<Rightarrow> (string, json) btree_map" where
  "status_entries s =
     fold (\<lambda>(k, v). bt_insert k v) (explicit_fields s)
       (fold (\<lambda>(k, v). bt_insert k v) (List.map_filter (\<lambda>(k, v). map_option (Pair k) v) (status_fields s)) [])"

lemma status_body_entries: "status_body s = JObj (status_entries s)"
  by (simp add: status_body_def status_entries_def jfields_def jobj_def jset_fold)

lemma unique_status_entries: "unique_keys (status_entries s)"
  unfolding status_entries_def by (intro bt_wf_distinct bt_wf_fold) (simp add: bt_wf_def)

lemma status_entries_lookup:
  "map_of (status_entries s) k =
     (case map_of (explicit_fields s) k of
        Some v \<Rightarrow> Some v | None \<Rightarrow> Option.bind (map_of (status_fields s) k) (\<lambda>v. v))"
  by (simp add: status_entries_def map_of_fold_bt_insert map_of_rev map_of_skipped split: option.splits)

lemma jnull_map [simp]: "jnull (\<lambda>x. x) (map_option f v) = jnull f v" "jnull (\<lambda>x. x) (Some y) = y"
  by (simp_all add: jnull_def option.case_eq_if option.map_sel)

text \<open>The explicit fields repeat the fields of the status, with null or an empty list where these are skipped.\<close>

lemma explicit_field_value:
  "list_all (\<lambda>(k, x). \<exists>v. map_of (status_fields s) k = Some v \<and>
     x = (case v of Some y \<Rightarrow> y | None \<Rightarrow> if k = ''diagnostics'' then JArr [] else JNull)) (explicit_fields s)"
  by (simp add: explicit_fields_def status_fields_def jnull_def cong: option.case_cong)

lemma explicit_keys:
  "list_all (\<lambda>(k, v). v = None \<longrightarrow> k \<in> set (map fst (explicit_fields s)) \<or> k = ''oidc_callback_url'' \<or> k = ''private_endpoints'')
     (status_fields s)"
  by (simp add: explicit_fields_def status_fields_def)

lemma status_field_entry:
  assumes "(k, v) \<in> set (status_fields s)"
  shows "map_of (status_entries s) k =
    (case v of
       Some x \<Rightarrow> Some x
     | None \<Rightarrow> if k = ''oidc_callback_url'' \<or> k = ''private_endpoints'' then None
         else if k = ''diagnostics'' then Some (JArr []) else Some JNull)"
proof -
  have field: "map_of (status_fields s) k = Some v" using assms by simp
  show ?thesis
  proof (cases "map_of (explicit_fields s) k")
    case None
    then have "v = None \<longrightarrow> k = ''oidc_callback_url'' \<or> k = ''private_endpoints''"
      using explicit_keys [of s] assms by (auto simp: list_all_iff map_of_eq_None_iff)
    then show ?thesis using None field by (auto simp: status_entries_lookup split: option.split)
  next
    case (Some x)
    then obtain u where "map_of (status_fields s) k = Some u"
      and x: "x = (case u of Some y \<Rightarrow> y | None \<Rightarrow> if k = ''diagnostics'' then JArr [] else JNull)"
      using explicit_field_value [of s] map_of_SomeD [OF Some] unfolding list_all_iff by blast
    then have "u = v" unfolding field by simp
    moreover have "k \<noteq> ''oidc_callback_url''" "k \<noteq> ''private_endpoints''"
      using map_of_SomeD [OF Some] by (auto simp: explicit_fields_def)
    ultimately show ?thesis using Some x by (simp add: status_entries_lookup split: option.split)
  qed
qed

text \<open>The objects inside a status have fields of their own that are neither null nor objects.\<close>

definition flat_json :: "json \<Rightarrow> bool" where
  "flat_json v \<longleftrightarrow> (\<forall>n. v = JObj n \<longrightarrow> unique_keys n \<and> (\<forall>i x. map_of n i = Some x \<longrightarrow> x \<noteq> JNull \<and> jobject x = None))"

lemma flat_jobj:
  assumes "list_all (\<lambda>(i, x). x \<noteq> JNull \<and> jobject x = None) es"
  shows "flat_json (jobj es)"
proof -
  have "map_of (fold (\<lambda>(k, v). bt_insert k v) es []) i = map_of (rev es) i" for i
    by (simp add: map_of_fold_bt_insert split: option.split)
  then show ?thesis
    using assms unique_jobj [of es] by (auto simp: flat_json_def jobj_def list_all_iff dest!: map_of_SomeD)
qed

lemma flat_values:
  "flat_json JNull" "flat_json (JNum i)" "flat_json (JStr t)" "flat_json (JBool b)" "flat_json (JArr xs)" "flat_json (jnat m)"
  "flat_json (jstrs ts)" "flat_json (service_phase_json ph)"
  by (simp_all add: flat_json_def jnat_def jstrs_def service_phase_json_def)

lemma flat_objects:
  "flat_json (disk_usage_json d)" "flat_json (gpu_weekly_usage_json g)" "flat_json (weekly_usage_json u)"
  "flat_json (gpu_scheduling_json p)"
  unfolding disk_usage_json_def gpu_weekly_usage_json_def weekly_usage_json_def gpu_scheduling_json_def jfields_def
  by (rule flat_jobj, auto simp: List.map_filter_def jnat_def jobject_def gpu_job_phase_json_def list_all_iff)+

lemma status_object_flat:
  assumes "(k, Some v) \<in> set (status_fields s)"
  shows "flat_json v"
proof -
  have "list_all (\<lambda>(k, v). pred_option flat_json v) (status_fields s)"
    by (simp add: status_fields_def option.pred_map comp_def flat_values flat_objects option.pred_True jnull_def split: option.split)
  with assms show ?thesis by (auto simp: list_all_iff)
qed

lemma gpu_scheduling_fields:
  assumes "st_gpu_scheduling s = Some g"
  obtains n where "(''gpu_scheduling'', Some (JObj n)) \<in> set (status_fields s)"
    and "map_of n ''phase'' = Some (gpu_job_phase_json (sch_phase g))"
    and "map_of n ''gpu_type'' = map_option JStr (sch_gpu_type g)"
    and "map_of n ''display_name'' = map_option JStr (sch_display_name g)"
proof
  let ?n = "fold (\<lambda>(k, v). bt_insert k v)
    (List.map_filter (\<lambda>(k, v). map_option (Pair k) v)
      [(''phase'', Some (gpu_job_phase_json (sch_phase g))), (''gpu_type'', map_option JStr (sch_gpu_type g)),
       (''display_name'', map_option JStr (sch_display_name g))]) []"
  show "(''gpu_scheduling'', Some (JObj ?n)) \<in> set (status_fields s)"
    using assms by (simp add: status_fields_def gpu_scheduling_json_def jfields_def jobj_def)
  show "map_of ?n ''phase'' = Some (gpu_job_phase_json (sch_phase g))"
    and "map_of ?n ''gpu_type'' = map_option JStr (sch_gpu_type g)"
    and "map_of ?n ''display_name'' = map_option JStr (sch_display_name g)"
    by (cases "sch_gpu_type g"; cases "sch_display_name g"; simp add: map_of_fold_bt_insert List.map_filter_def)+
qed

text \<open>What the server has stored after a merge of the entries of a status.\<close>

context merge_patch
begin

lemma reported_absent:
  assumes "(k, None) \<in> set (status_fields s)"
  shows "jget_opt (merge before (JObj (status_entries s))) k =
    (if k = ''oidc_callback_url'' \<or> k = ''private_endpoints'' then jget_opt before k
     else if k = ''diagnostics'' then Some (JArr []) else None)"
  using status_field_entry [OF assms]
  by (auto simp: merge_field [OF unique_status_entries] merge_absent [OF unique_status_entries] jobject_def split: if_splits)

lemma reported_plain:
  assumes "(k, Some x) \<in> set (status_fields s)" and "jobject x = None"
  shows "jget_opt (merge before (JObj (status_entries s))) k = (if x = JNull then None else Some x)"
  using status_field_entry [OF assms(1)] assms(2) by (intro merge_field [OF unique_status_entries]) simp_all

lemma reported_inside:
  assumes "(k, Some (JObj n)) \<in> set (status_fields s)"
  shows "jget_opt (jget (merge before (JObj (status_entries s))) k) i =
    (case map_of n i of None \<Rightarrow> jget_opt (jget before k) i | Some y \<Rightarrow> Some y)"
proof -
  have "jget (merge before (JObj (status_entries s))) k = merge (jget before k) (JObj n)"
    unfolding jget_of_opt [of "merge before _"]
    using merge_object [OF unique_status_entries] status_field_entry [OF assms] by (simp add: unwrap_or_def)
  then show ?thesis
    using status_object_flat [OF assms, unfolded flat_json_def] merge_absent merge_value by (auto split: option.splits)
qed

lemma reported_field:
  assumes "(k, v) \<in> set (status_fields s)"
  shows "case v of
       None \<Rightarrow> jget_opt (merge before (JObj (status_entries s))) k =
         (if k = ''oidc_callback_url'' \<or> k = ''private_endpoints'' then jget_opt before k
          else if k = ''diagnostics'' then Some (JArr []) else None)
     | Some x \<Rightarrow>
         (case jobject x of
            None \<Rightarrow> jget_opt (merge before (JObj (status_entries s))) k = (if x = JNull then None else Some x)
          | Some n \<Rightarrow> \<forall>i. jget_opt (jget (merge before (JObj (status_entries s))) k) i =
              (case map_of n i of None \<Rightarrow> jget_opt (jget before k) i | Some y \<Rightarrow> Some y))"
proof (cases v)
  case None
  show ?thesis unfolding None option.case using reported_absent [OF assms [unfolded None]] .
next
  case (Some x)
  show ?thesis
  proof (cases "jobject x")
    case None
    show ?thesis unfolding Some None option.case using reported_plain [OF assms [unfolded Some] None] .
  next
    case (Some n)
    then have "x = JObj n" by (cases x) (simp_all add: jobject_def)
    then have "(k, Some (JObj n)) \<in> set (status_fields s)" using assms \<open>v = Some x\<close> by simp
    from reported_inside [OF this] show ?thesis unfolding Some \<open>v = Some x\<close> option.case by blast
  qed
qed

lemma reported_gpu:
  assumes "st_gpu_scheduling s = Some g"
  shows "let stored = jget (merge before (JObj (status_entries s))) ''gpu_scheduling''
    in jget_opt stored ''phase'' = Some (gpu_job_phase_json (sch_phase g)) \<and>
      jget_opt stored ''gpu_type'' =
        (case sch_gpu_type g of None \<Rightarrow> jget_opt (jget before ''gpu_scheduling'') ''gpu_type'' | Some t \<Rightarrow> Some (JStr t)) \<and>
      jget_opt stored ''display_name'' =
        (case sch_display_name g of None \<Rightarrow> jget_opt (jget before ''gpu_scheduling'') ''display_name'' | Some t \<Rightarrow> Some (JStr t))"
proof -
  obtain n where n: "(''gpu_scheduling'', Some (JObj n)) \<in> set (status_fields s)"
    "map_of n ''phase'' = Some (gpu_job_phase_json (sch_phase g))"
    "map_of n ''gpu_type'' = map_option JStr (sch_gpu_type g)" "map_of n ''display_name'' = map_option JStr (sch_display_name g)"
    using gpu_scheduling_fields [OF assms] .
  show ?thesis
    using n(2-4) by (simp add: reported_inside [OF n(1)] split: option.splits)
qed

end

text \<open>
  C36. What a reader sees after the status was reported, field by field, whatever was stored before. A field that the new status has is
  stored with its new value, and an object field by field of that object. A field that the new status does not have is
  absent, with the diagnostics an empty list; so the fields that the serialisation omits are cleared. Four fields are not: a callback URL,
  private endpoints, and the type and the display name of a GPU that the new status no longer has stay as they were stored. Hypothesis: the
  documented behaviour of a merge patch.
\<close>

theorem status_patch_reported:
  assumes "merge_patch merge" and stored_eq: "stored = merge before (jget (status_patch flash s) ''status'')"
  shows "(\<forall>k v. (k, v) \<in> set (status_fields s) \<longrightarrow>
      (case v of
         None \<Rightarrow> jget_opt stored k =
           (if k = ''oidc_callback_url'' \<or> k = ''private_endpoints'' then jget_opt before k
            else if k = ''diagnostics'' then Some (JArr []) else None)
       | Some x \<Rightarrow>
           (case jobject x of
              None \<Rightarrow> jget_opt stored k = (if x = JNull then None else Some x)
            | Some n \<Rightarrow> \<forall>i. jget_opt (jget stored k) i =
                (case map_of n i of None \<Rightarrow> jget_opt (jget before k) i | Some y \<Rightarrow> Some y)))) \<and>
    (\<forall>g. st_gpu_scheduling s = Some g \<longrightarrow>
      jget_opt (jget stored ''gpu_scheduling'') ''phase'' = Some (gpu_job_phase_json (sch_phase g)) \<and>
      jget_opt (jget stored ''gpu_scheduling'') ''gpu_type'' =
        (case sch_gpu_type g of None \<Rightarrow> jget_opt (jget before ''gpu_scheduling'') ''gpu_type'' | Some t \<Rightarrow> Some (JStr t)) \<and>
      jget_opt (jget stored ''gpu_scheduling'') ''display_name'' =
        (case sch_display_name g of None \<Rightarrow> jget_opt (jget before ''gpu_scheduling'') ''display_name'' | Some t \<Rightarrow> Some (JStr t)))"
proof -
  have stored: "stored = merge before (JObj (status_entries s))"
    by (simp add: stored_eq status_patch_def status_body_entries jset_def jobj_def jget_def Let_def split: option.splits)
  show ?thesis
    unfolding stored
    by (intro conjI allI impI merge_patch.reported_field [OF assms(1)];
        (use merge_patch.reported_gpu [OF assms(1), of s] in \<open>simp add: Let_def\<close>)?)
qed

definition callback_before :: json where
  "callback_before = jobj [(''oidc_callback_url'', JStr ''https://old/''), (''message'', JStr ''old'')]"

theorem status_patch_reported_witness:
  "\<forall>flash. jget_opt (rfc7386 callback_before (jget (status_patch flash default_flash_service_status) ''status''))
      ''message'' = None \<and>
    jget_opt (rfc7386 callback_before (jget (status_patch flash default_flash_service_status) ''status''))
      ''oidc_callback_url'' = Some (JStr ''https://old/'')"
proof
  fix flash
  have m: "(''message'', Some JNull) \<in> set (status_fields default_flash_service_status)"
    and u: "(''oidc_callback_url'', None) \<in> set (status_fields default_flash_service_status)"
    by (simp_all add: status_fields_def default_flash_service_status_def jnull_def)
  have b: "jget_opt callback_before ''oidc_callback_url'' = Some (JStr ''https://old/'')"
    by (simp add: callback_before_def jobj_def jget_opt_def map_of_fold_bt_insert)
  note reported = status_patch_reported [OF rfc.merge_patch_axioms refl, where before = callback_before
    and flash = flash and s = default_flash_service_status, THEN conjunct1, rule_format]
  show "jget_opt (rfc7386 callback_before (jget (status_patch flash default_flash_service_status) ''status''))
      ''message'' = None \<and>
    jget_opt (rfc7386 callback_before (jget (status_patch flash default_flash_service_status) ''status''))
      ''oidc_callback_url'' = Some (JStr ''https://old/'')"
    using reported [OF m] reported [OF u] b by (simp add: jobject_def del: rfc7386.simps)
qed

end
