(* ===== verification/Backups.thy ===== *)
theory Backups
  imports Backup_Destinations Status_Patch
begin

text \<open>
  \<open>backups.rs\<close>: backups of disks, their creation and deletion through the API, the restoration of a disk,
  the lock that serialises the destination of a volume, and the controller. The calls to the API
  server are the fields of \<open>backup_api\<close>, in the namespaces the code uses; the clock and the generator
  of identifiers are read from the world. The environment variables, and the parsers of dates and
  JSON, are the fields of \<open>backup_env\<close>.
\<close>

definition FINALIZER :: string where "FINALIZER = ''flash.heterocloud.io/backup-protection''"
definition TARGET_LOCK :: string where "TARGET_LOCK = ''flash.heterocloud.io/backup-destination-lock''"
definition RESTORE_VERIFICATION :: string where
  "RESTORE_VERIFICATION = ''flash.heterocloud.io/restore-verification''"

record backup_request =
  rq_id :: uuid
  rq_name :: string
  rq_source_pvc_uid :: string
  rq_volume_size_bytes :: u64
  rq_destination_id :: "uuid option"

record flash_backup_spec =
  fb_id :: uuid
  fb_name :: string
  fb_organization_id :: uuid
  fb_project_id :: uuid
  fb_service_instance_id :: uuid
  fb_source_pvc :: string
  fb_source_pvc_uid :: string
  fb_volume_size_bytes :: u64
  fb_snapshot_class :: string
  fb_destination_id :: "uuid option"

record flash_backup_status =
  fbs_phase :: string
  fbs_message :: "string option"
  fbs_completed_at :: "i64 option"

definition default_flash_backup_status :: flash_backup_status where
  "default_flash_backup_status = \<lparr>fbs_phase = [], fbs_message = None, fbs_completed_at = None\<rparr>"

record flash_backup =
  bk_meta :: object_meta
  bk_labels :: "(string, string) btree_map option"
  bk_creation_timestamp :: "i64 option"
  bk_spec :: flash_backup_spec
  bk_status :: "flash_backup_status option"

abbreviation bk_name :: "flash_backup \<Rightarrow> string" where
  "bk_name b \<equiv> meta_name (bk_meta b)"

abbreviation bk_deleting :: "flash_backup \<Rightarrow> bool" where
  "bk_deleting b \<equiv> meta_deletion_timestamp (bk_meta b) \<noteq> None"

datatype backup_error =
    BackupsDisabled | BackupUnavailable | BackupNotFound | BackupForbidden
  | BackupConflict string | BackupInvalid string | BackupStorage kube_error | BackupDecode

section \<open>Objects and calls\<close>

record home_claim = persistent_volume_claim +
  hc_uid :: "string option"
  hc_deletion_timestamp :: "int option"
  hc_owner_references :: "owner_reference list option"
  hc_phase :: "string option"
  hc_volume_name :: "string option"
  hc_data_source_name :: "string option"

record csi_source =
  csi_driver :: string
  csi_volume_handle :: string

record persistent_volume_spec =
  pv_csi :: "csi_source option"
  pv_capacity :: "(string, string) btree_map option"
  pv_claim_uid :: "string option"

type_synonym persistent_volume = "persistent_volume_spec option"

text \<open>The claim that restores a disk, and the snapshot that takes a backup, as they are sent.\<close>

record restore_claim =
  rc_name :: string
  rc_namespace :: string
  rc_owner :: owner_reference
  rc_labels :: "(string, string) btree_map"
  rc_storage_class :: string
  rc_storage :: string
  rc_snapshot :: string

record desired_snapshot =
  sn_name :: string
  sn_namespace :: string
  sn_owner :: owner_reference
  sn_class :: string
  sn_claim :: string

record 'w backup_api =
  ba_now :: "'w \<Rightarrow> i64"
  ba_new_uuid :: "'w \<Rightarrow> uuid"
  ba_backup_get_opt :: "string \<Rightarrow> ('w, kube_error, flash_backup option) effect"
  ba_backups_list :: "('w, kube_error, flash_backup list) effect"
  ba_backup_create :: "flash_backup \<Rightarrow> ('w, kube_error, flash_backup) effect"
  ba_backup_delete :: "string \<Rightarrow> string option \<Rightarrow> string option \<Rightarrow> ('w, kube_error, unit) effect"
  ba_backup_patch_status :: "string \<Rightarrow> json \<Rightarrow> ('w, kube_error, unit) effect"
  ba_backup_patch_finalizers :: "string \<Rightarrow> string option \<Rightarrow> string list \<Rightarrow> ('w, kube_error, unit) effect"
  ba_backup_patch_annotations ::
    "string \<Rightarrow> string option \<Rightarrow> (string \<times> string) list \<Rightarrow> ('w, kube_error, unit) effect"
  ba_snapshot_get_opt :: "string \<Rightarrow> ('w, kube_error, dynamic_object option) effect"
  ba_snapshots_list :: "('w, kube_error, dynamic_object list) effect"
  ba_snapshot_apply :: "string \<Rightarrow> desired_snapshot \<Rightarrow> ('w, kube_error, dynamic_object) effect"
  ba_snapshot_delete :: "string \<Rightarrow> ('w, kube_error, unit) effect"
  ba_snapshot_class_get :: "string \<Rightarrow> ('w, kube_error, dynamic_object) effect"
  ba_claim_get_opt :: "string \<Rightarrow> ('w, kube_error, home_claim option) effect"
  ba_claims_labelled :: "string \<Rightarrow> ('w, kube_error, home_claim list) effect"
  ba_claim_create :: "restore_claim \<Rightarrow> ('w, kube_error, unit) effect"
  ba_volume_get :: "string \<Rightarrow> ('w, kube_error, persistent_volume) effect"
  ba_longhorn_get :: "string \<Rightarrow> string \<Rightarrow> ('w, kube_error, dynamic_object) effect"
  ba_longhorn_get_opt :: "string \<Rightarrow> string \<Rightarrow> ('w, kube_error, dynamic_object option) effect"
  ba_longhorn_patch ::
    "string \<Rightarrow> string \<Rightarrow> string option \<Rightarrow> string option \<Rightarrow> string \<Rightarrow> ('w, kube_error, unit) effect"
  ba_service_get_opt :: "string \<Rightarrow> ('w, kube_error, flash_service option) effect"
  ba_services_list :: "('w, kube_error, flash_service list) effect"
  ba_destinations :: "string \<Rightarrow> 'w dest_api"

record backup_env =
  be_uuids :: uuid_ops
  be_destinations_enabled :: "string option"
  be_storage_namespace :: "string option"
  be_parse_rfc3339 :: "string \<Rightarrow> i64 option"
  be_show_rfc3339 :: "i64 \<Rightarrow> string"
  be_json_parse :: "string \<Rightarrow> json option"
  be_json_show :: "json \<Rightarrow> string"

definition destinations_enabled :: "backup_env \<Rightarrow> bool" where
  "destinations_enabled env \<longleftrightarrow> be_destinations_enabled env = Some ''true''"

definition storage_namespace :: "backup_env \<Rightarrow> string" where
  "storage_namespace env = unwrap_or (be_storage_namespace env) ''longhorn-system''"

abbreviation bname :: "backup_env \<Rightarrow> uuid \<Rightarrow> string" where
  "bname env \<equiv> backup_name (be_uuids env)"

abbreviation ecall :: "('w, kube_error, 'a) effect \<Rightarrow> ('w, backup_error, 'a) effect" where
  "ecall \<equiv> emap_err BackupStorage"

text \<open>\<open>controller_owner_ref\<close>: none while the object has no identifier.\<close>

definition owner_ref :: "string \<Rightarrow> object_meta \<Rightarrow> owner_reference option" where
  "owner_ref kind m =
     map_option (\<lambda>uid. \<lparr>owner_kind = kind, owner_name = meta_name m, owner_uid = uid\<rparr>) (meta_uid m)"

section \<open>Views and scope\<close>

record restore_verification_view =
  rv_phase :: json
  rv_started_at :: json
  rv_completed_at :: json
  rv_sampled_files :: json
  rv_sampled_bytes :: json
  rv_sha256 :: json
  rv_cleanup_verified :: json

record backup_view =
  bv_id :: uuid
  bv_name :: string
  bv_phase :: string
  bv_message :: "string option"
  bv_completed_at :: "i64 option"
  bv_volume_size_bytes :: u64
  bv_destination_id :: "uuid option"
  bv_restore_verification :: "restore_verification_view option"

definition verification_of :: "backup_env \<Rightarrow> flash_backup \<Rightarrow> json option" where
  "verification_of env backup =
     Option.bind (bt_get (meta_annotations (bk_meta backup)) RESTORE_VERIFICATION) (be_json_parse env)"

definition view_backup :: "backup_env \<Rightarrow> flash_backup \<Rightarrow> backup_view" where
  "view_backup env backup =
     (let status = unwrap_or (bk_status backup) default_flash_backup_status
      in \<lparr>bv_id = fb_id (bk_spec backup), bv_name = fb_name (bk_spec backup),
          bv_phase = (if bk_deleting backup then ''deleting''
                      else if fbs_phase status = [] then ''pending'' else fbs_phase status),
          bv_message = fbs_message status, bv_completed_at = fbs_completed_at status,
          bv_volume_size_bytes = fb_volume_size_bytes (bk_spec backup),
          bv_destination_id = fb_destination_id (bk_spec backup),
          bv_restore_verification =
            map_option (\<lambda>v. \<lparr>rv_phase = jget v ''phase'', rv_started_at = jget v ''started_at'',
                rv_completed_at = jget v ''completed_at'', rv_sampled_files = jget v ''sampled_files'',
                rv_sampled_bytes = jget v ''sampled_bytes'', rv_sha256 = jget v ''sha256'',
                rv_cleanup_verified = jget v ''cleanup_verified''\<rparr>) (verification_of env backup)\<rparr>)"

definition check_scope :: "flash_backup \<Rightarrow> provider_claims \<Rightarrow> backup_error + unit" where
  "check_scope backup claims =
     ensure (\<not> (fb_organization_id (bk_spec backup) \<noteq> tk_organization_id claims \<or>
                 fb_project_id (bk_spec backup) \<noteq> tk_project_id claims \<or>
                 fb_service_instance_id (bk_spec backup) \<noteq> tk_service_instance_id claims)) BackupForbidden"

definition get_backup ::
  "'w backup_api \<Rightarrow> backup_env \<Rightarrow> uuid \<Rightarrow> provider_claims \<Rightarrow> ('w, backup_error, flash_backup) effect" where
  "get_backup api env uuid claims =
     ebind (ecall (ba_backup_get_opt api (bname env uuid))) (\<lambda>found.
     ebind (etry (ok_or found BackupNotFound)) (\<lambda>backup.
     ebind (etry (check_scope backup claims)) (\<lambda>_.
     eret backup)))"

definition is_ready :: "flash_backup \<Rightarrow> bool" where
  "is_ready backup \<longleftrightarrow> (case bk_status backup of None \<Rightarrow> False | Some s \<Rightarrow> fbs_phase s = ''ready'')"

definition request_verification ::
  "'w backup_api \<Rightarrow> backup_env \<Rightarrow> uuid \<Rightarrow> provider_claims \<Rightarrow> ('w, backup_error, unit) effect" where
  "request_verification api env uuid claims =
     ebind (get_backup api env uuid claims) (\<lambda>backup.
     if bk_deleting backup \<or> \<not> is_ready backup
     then efail (BackupConflict ''backup is not ready for verification'')
     else if (case verification_of env backup of
                None \<Rightarrow> False
              | Some v \<Rightarrow> jstr (jget v ''phase'') \<in> Some ` {''queued'', ''restoring'', ''cleaning''})
     then eret ()
     else ebind (eread (ba_now api)) (\<lambda>now.
          ebind (eread (ba_new_uuid api)) (\<lambda>fresh.
          let annotation = be_json_show env (jobj [(''phase'', JStr ''queued''),
                                                   (''started_at'', JStr (be_show_rfc3339 env now))])
          in ecall (ba_backup_patch_annotations api (bk_name backup)
                     (meta_resource_version (bk_meta backup))
                     [(''flash.heterocloud.io/verify-request'', uuid_show (be_uuids env) fresh),
                      (RESTORE_VERIFICATION, annotation)]))))"

section \<open>The source disk\<close>

definition quantity_suffixes :: "(string \<times> nat) list" where
  "quantity_suffixes =
     [(''Ki'', 1024), (''Mi'', 1024 ^ 2), (''Gi'', 1024 ^ 3), (''Ti'', 1024 ^ 4), (''K'', 1000), (''M'', 1000 ^ 2),
      (''G'', 1000 ^ 3), ([], 1)]"

definition quantity_bytes :: "string \<Rightarrow> backup_error + u64" where
  "quantity_bytes v =
     ok_or (find_map (\<lambda>(s, scale).
              filter_opt (\<lambda>bytes. 0 < bytes)
                (Option.bind (strip_suffix s v) (\<lambda>number.
                 Option.bind (parse_uint u64_max number) (\<lambda>n. u64_checked_mul n scale)))) quantity_suffixes)
       (BackupInvalid ''invalid persistent disk capacity'')"

record disk_source =
  ds_source_pvc_uid :: string
  ds_volume_size_bytes :: u64
  ds_generation :: i64
  ds_resolved_image :: "string option"

definition storage_of :: "(string, string) btree_map option \<Rightarrow> backup_error + string" where
  "storage_of m = ok_or (Option.bind m (\<lambda>m. bt_get m ''storage'')) BackupNotFound"

definition owned_by_service :: "home_claim \<Rightarrow> flash_service \<Rightarrow> bool" where
  "owned_by_service pvc flash =
     (case hc_owner_references pvc of
        None \<Rightarrow> False
      | Some owners \<Rightarrow>
          list_ex (\<lambda>r. owner_uid r = unwrap_or (meta_uid (fsv_meta flash)) [] \<and> owner_kind r = ''FlashService'') owners)"

text \<open>The checks of the service, of its claim, and of the sizes.\<close>

definition source_service ::
  "'w backup_api \<Rightarrow> backup_env \<Rightarrow> provider_claims \<Rightarrow> ('w, backup_error, flash_service) effect" where
  "source_service api env claims =
     (let show = uuid_show (be_uuids env)
      in ebind (ecall (ba_service_get_opt api (''flash-'' @ show (tk_service_instance_id claims)))) (\<lambda>found.
         ebind (etry (ok_or found BackupNotFound)) (\<lambda>flash.
         if svc_organization_id (fsv_spec flash) \<noteq> show (tk_organization_id claims) \<or>
            svc_project_id (fsv_spec flash) \<noteq> show (tk_project_id claims)
         then efail BackupForbidden
         else if svc_desired_generation (fsv_spec flash) \<noteq> tk_generation claims \<or>
                 meta_deletion_timestamp (fsv_meta flash) \<noteq> None
         then efail (BackupConflict ''source service is changing; retry when its update completes'')
         else eret flash)))"

definition source_claim ::
  "'w backup_api \<Rightarrow> flash_service \<Rightarrow> ('w, backup_error, home_claim) effect" where
  "source_claim api flash =
     ebind (ecall (ba_claim_get_opt api (flash_name flash @ ''-home''))) (\<lambda>found.
     ebind (etry (ok_or found BackupNotFound)) (\<lambda>pvc.
     if hc_deletion_timestamp pvc \<noteq> None \<or> hc_phase pvc \<noteq> Some ''Bound''
     then efail (BackupConflict ''persistent disk is not bound'')
     else if \<not> owned_by_service pvc flash then efail BackupForbidden
     else eret pvc))"

definition resizing :: "home_claim \<Rightarrow> bool" where
  "resizing pvc =
     (case pvc_conditions pvc of
        None \<Rightarrow> False
      | Some conditions \<Rightarrow>
          list_ex (\<lambda>(t, s). s = ''True'' \<and> t \<in> {''Resizing'', ''FileSystemResizePending''}) conditions)"

definition source_size :: "home_claim \<Rightarrow> persistent_volume \<Rightarrow> backup_error + u64" where
  "source_size pvc pv =
     bindR (ensure (map_option csi_driver (Option.bind pv pv_csi) = Some ''driver.longhorn.io'')
              (BackupInvalid ''this disk driver does not support Flash backups'')) (\<lambda>_.
     bindR (storage_of (pvc_capacity pvc)) (\<lambda>quantity.
     bindR (quantity_bytes quantity) (\<lambda>size.
     bindR (storage_of (pvc_requests pvc)) (\<lambda>requested.
     bindR (storage_of (Option.bind pv pv_capacity)) (\<lambda>provisioned.
     bindR (quantity_bytes requested) (\<lambda>requested.
     if requested \<noteq> size then Inl (BackupConflict ''persistent disk is still resizing'')
     else bindR (quantity_bytes provisioned) (\<lambda>provisioned.
     if provisioned \<noteq> size \<or> resizing pvc then Inl (BackupConflict ''persistent disk is still resizing'')
     else Inr size)))))))"

definition backup_source ::
  "'w backup_api \<Rightarrow> backup_env \<Rightarrow> provider_claims \<Rightarrow> ('w, backup_error, disk_source) effect" where
  "backup_source api env claims =
     ebind (source_service api env claims) (\<lambda>flash.
     ebind (source_claim api flash) (\<lambda>pvc.
     ebind (etry (ok_or (hc_volume_name pvc) BackupNotFound)) (\<lambda>pv_name.
     ebind (ecall (ba_volume_get api pv_name)) (\<lambda>pv.
     ebind (etry (source_size pvc pv)) (\<lambda>size.
     ebind (etry (ok_or (hc_uid pvc) BackupNotFound)) (\<lambda>uid.
     eret \<lparr>ds_source_pvc_uid = uid, ds_volume_size_bytes = size,
           ds_generation = svc_desired_generation (fsv_spec flash),
           ds_resolved_image = Option.bind (fsv_status flash) st_resolved_image\<rparr>))))))"

section \<open>Creation\<close>

definition destination_of ::
  "'w backup_api \<Rightarrow> backup_env \<Rightarrow> uuid \<Rightarrow> uuid \<Rightarrow> ('w, backup_error, destination_view) effect" where
  "destination_of api env organization uuid =
     emap_err (\<lambda>e. case e of Destination_Conflict \<Rightarrow> BackupForbidden | _ \<Rightarrow> BackupUnavailable)
       (get_destination (ba_destinations api (storage_namespace env)) (be_uuids env) organization uuid)"

definition same_request :: "flash_backup \<Rightarrow> backup_request \<Rightarrow> bool" where
  "same_request existing request \<longleftrightarrow>
     \<not> (fb_name (bk_spec existing) \<noteq> rq_name request \<or>
        fb_source_pvc_uid (bk_spec existing) \<noteq> rq_source_pvc_uid request \<or>
        fb_volume_size_bytes (bk_spec existing) \<noteq> rq_volume_size_bytes request \<or>
        fb_destination_id (bk_spec existing) \<noteq> rq_destination_id request \<or> bk_deleting existing)"

definition check_snapshot_class :: "dynamic_object \<Rightarrow> backup_error + unit" where
  "check_snapshot_class class =
     ensure (\<not> (jget (dyn_data class) ''driver'' \<noteq> JStr ''driver.longhorn.io'' \<or>
                 dyn_at class ''parameters'' ''type'' \<noteq> JStr ''bak'' \<or>
                 jget (dyn_data class) ''deletionPolicy'' \<noteq> JStr ''Delete''))
       (BackupInvalid ''backup class must use durable CSI backups with managed deletion'')"

definition new_backup ::
  "backup_env \<Rightarrow> string \<Rightarrow> provider_claims \<Rightarrow> backup_request \<Rightarrow> flash_backup" where
  "new_backup env snapshot_class claims request =
     (let show = uuid_show (be_uuids env)
      in \<lparr>bk_meta = \<lparr>meta_name = bname env (rq_id request), meta_namespace = None, meta_resource_version = None,
            meta_deletion_timestamp = None, meta_finalizers = [FINALIZER], meta_annotations = [],
            meta_uid = None, meta_generation = None\<rparr>,
          bk_labels = Some (fold (\<lambda>(k, v). bt_insert k v)
            [(ORGANIZATION_LABEL, show (tk_organization_id claims)),
             (INSTANCE_LABEL, show (tk_service_instance_id claims))] []),
          bk_creation_timestamp = None,
          bk_spec = \<lparr>fb_id = rq_id request, fb_name = rq_name request,
            fb_organization_id = tk_organization_id claims, fb_project_id = tk_project_id claims,
            fb_service_instance_id = tk_service_instance_id claims,
            fb_source_pvc = ''flash-'' @ show (tk_service_instance_id claims) @ ''-home'',
            fb_source_pvc_uid = rq_source_pvc_uid request,
            fb_volume_size_bytes = rq_volume_size_bytes request, fb_snapshot_class = snapshot_class,
            fb_destination_id = rq_destination_id request\<rparr>,
          bk_status = None\<rparr>)"

definition check_destination ::
  "'w backup_api \<Rightarrow> backup_env \<Rightarrow> provider_claims \<Rightarrow> backup_request \<Rightarrow> ('w, backup_error, unit) effect" where
  "check_destination api env claims request =
     (case rq_destination_id request of
        None \<Rightarrow> eret ()
      | Some destination_id \<Rightarrow>
          if \<not> destinations_enabled env then efail BackupUnavailable
          else ebind (destination_of api env (tk_organization_id claims) destination_id) (\<lambda>destination.
               if \<not> dv_ready destination then efail BackupUnavailable else eret ()))"

text \<open>
  One run of \<open>create\<close> up to its last call. \<open>None\<close> stands for a backup that appeared meanwhile (the
  server answers 409): \<open>create\<close> then calls itself with the same request. The recursion is bounded by
  fuel; when it is used up, the result is \<open>None\<close>.
\<close>

definition create_new ::
  "'w backup_api \<Rightarrow> backup_env \<Rightarrow> string \<Rightarrow> provider_claims \<Rightarrow> backup_request \<Rightarrow>
   ('w, backup_error, flash_backup option) effect" where
  "create_new api env snapshot_class claims request =
     ebind (backup_source api env claims) (\<lambda>observed.
     if ds_source_pvc_uid observed \<noteq> rq_source_pvc_uid request \<or>
        ds_volume_size_bytes observed \<noteq> rq_volume_size_bytes request
     then efail (BackupConflict ''source persistent disk changed before backup'')
     else ebind (check_destination api env claims request) (\<lambda>_.
          ebind (ecall (ba_snapshot_class_get api snapshot_class)) (\<lambda>class.
          ebind (etry (check_snapshot_class class)) (\<lambda>_.
          ematch (ba_backup_create api (new_backup env snapshot_class claims request)) (\<lambda>r.
          case r of
            Inr backup \<Rightarrow> eret (Some backup)
          | Inl (Api_Error code) \<Rightarrow>
              if code = 409 then eret None else efail (BackupStorage (Api_Error code))
          | Inl e \<Rightarrow> efail (BackupStorage e))))))"

definition create_attempt ::
  "'w backup_api \<Rightarrow> backup_env \<Rightarrow> string \<Rightarrow> provider_claims \<Rightarrow> backup_request \<Rightarrow>
   ('w, backup_error, flash_backup option) effect" where
  "create_attempt api env snapshot_class claims request =
     (if snapshot_class = [] then efail BackupsDisabled
      else if blank (rq_name request) \<or> 128 < length (rq_name request) \<or> is_nil (rq_id request)
      then efail (BackupInvalid ''invalid backup name or identifier'')
      else ebind (ecall (ba_backup_get_opt api (bname env (rq_id request)))) (\<lambda>found.
           case found of
             Some existing \<Rightarrow>
               ebind (etry (check_scope existing claims)) (\<lambda>_.
               if \<not> same_request existing request
               then efail (BackupConflict ''backup identifier was already used for another request'')
               else eret (Some existing))
           | None \<Rightarrow> create_new api env snapshot_class claims request))"

fun create ::
  "nat \<Rightarrow> 'w backup_api \<Rightarrow> backup_env \<Rightarrow> string \<Rightarrow> provider_claims \<Rightarrow> backup_request \<Rightarrow> 'w \<Rightarrow>
   ((backup_error + flash_backup) \<times> 'w) option" where
  "create 0 api env snapshot_class claims request w = None"
| "create (Suc n) api env snapshot_class claims request w =
     (case create_attempt api env snapshot_class claims request w of
        (Inl e, w') \<Rightarrow> Some (Inl e, w')
      | (Inr (Some backup), w') \<Rightarrow> Some (Inr backup, w')
      | (Inr None, w') \<Rightarrow> create n api env snapshot_class claims request w')"

section \<open>Restoration and deletion\<close>

definition offsite_locked :: "backup_env \<Rightarrow> i64 \<Rightarrow> flash_backup \<Rightarrow> bool" where
  "offsite_locked env now backup =
     (case Option.bind (bt_get (meta_annotations (bk_meta backup)) ''flash.heterocloud.io/offsite-lock-until'')
             (be_parse_rfc3339 env) of
        None \<Rightarrow> False
      | Some until \<Rightarrow> now < until)"

definition disk_restore_complete ::
  "'w backup_api \<Rightarrow> backup_env \<Rightarrow> home_claim \<Rightarrow> ('w, backup_error, bool) effect" where
  "disk_restore_complete api env pvc =
     (if hc_phase pvc \<noteq> Some ''Bound'' then eret False
      else ebind (etry (ok_or (hc_volume_name pvc) BackupNotFound)) (\<lambda>name.
           ebind (ecall (ba_volume_get api name)) (\<lambda>pv.
           ebind (etry (ok_or (Option.bind pv pv_csi) (BackupInvalid ''restore disk must use CSI''))) (\<lambda>csi.
           if csi_driver csi \<noteq> ''driver.longhorn.io''
           then efail (BackupInvalid ''restore disk must use the backup storage driver'')
           else ebind (ecall (ba_longhorn_get api (storage_namespace env) (csi_volume_handle csi))) (\<lambda>volume.
                eret (dyn_at volume ''status'' ''restoreInitiated'' = JBool True \<and>
                      dyn_at volume ''status'' ''restoreRequired'' = JBool False))))))"

fun any_restoring ::
  "'w backup_api \<Rightarrow> backup_env \<Rightarrow> uuid \<Rightarrow> flash_service list \<Rightarrow> ('w, backup_error, bool) effect" where
  "any_restoring api env uuid [] = eret False"
| "any_restoring api env uuid (flash # services) =
     (if fs_restore_from_backup_id (workload flash) \<noteq> Some uuid \<or>
         meta_deletion_timestamp (fsv_meta flash) \<noteq> None
      then any_restoring api env uuid services
      else ebind (ecall (ba_claim_get_opt api (flash_name flash @ ''-home''))) (\<lambda>found.
           ebind (case found of
                    Some pvc \<Rightarrow> ebind (disk_restore_complete api env pvc) (\<lambda>complete. eret (\<not> complete))
                  | None \<Rightarrow> eret True) (\<lambda>pending.
           if pending then eret True else any_restoring api env uuid services)))"

definition restore_pending ::
  "'w backup_api \<Rightarrow> backup_env \<Rightarrow> uuid \<Rightarrow> ('w, backup_error, bool) effect" where
  "restore_pending api env uuid =
     ebind (ecall (ba_claims_labelled api
              (''flash.heterocloud.io/backup-verification='' @ uuid_show (be_uuids env) uuid))) (\<lambda>claims.
     if claims \<noteq> [] then eret True
     else ebind (ecall (ba_services_list api)) (\<lambda>services. any_restoring api env uuid services))"

text \<open>The result tells whether the backup is gone.\<close>

definition delete_backup ::
  "'w backup_api \<Rightarrow> backup_env \<Rightarrow> uuid \<Rightarrow> provider_claims \<Rightarrow> ('w, backup_error, bool) effect" where
  "delete_backup api env uuid claims =
     ematch (get_backup api env uuid claims) (\<lambda>r.
     case r of
       Inl e \<Rightarrow> if e = BackupNotFound then eret True else efail e
     | Inr backup \<Rightarrow>
         ebind (eread (ba_now api)) (\<lambda>now.
         if offsite_locked env now backup then efail (BackupConflict ''an offsite copy is using this backup'')
         else ebind (restore_pending api env uuid) (\<lambda>pending.
              if pending then efail (BackupConflict ''a disk restore is still using this backup'')
              else if \<not> bk_deleting backup
              then ebind (ecall (ba_backup_delete api (bk_name backup) (meta_uid (bk_meta backup))
                            (meta_resource_version (bk_meta backup)))) (\<lambda>_. eret False)
              else eret False)))"

definition restore_class ::
  "'w backup_api \<Rightarrow> backup_env \<Rightarrow> flash_backup \<Rightarrow> string \<Rightarrow> ('w, backup_error, string) effect" where
  "restore_class api env backup class_name =
     (case fb_destination_id (bk_spec backup) of
        Some destination_id \<Rightarrow>
          ebind (destination_of api env (fb_organization_id (bk_spec backup)) destination_id) (\<lambda>destination.
          if \<not> dv_ready destination then efail BackupUnavailable
          else eret (target_name (be_uuids env) destination_id))
      | None \<Rightarrow> eret class_name)"

definition claim_restores :: "backup_env \<Rightarrow> uuid \<Rightarrow> flash_service \<Rightarrow> home_claim \<Rightarrow> bool" where
  "claim_restores env uuid flash existing \<longleftrightarrow>
     \<not> (hc_data_source_name existing \<noteq> Some (bname env uuid) \<or>
        (case hc_owner_references existing of
           None \<Rightarrow> True
         | Some owners \<Rightarrow> \<not> list_ex (\<lambda>r. owner_uid r = unwrap_or (meta_uid (fsv_meta flash)) []) owners))"

definition restore_claim_of ::
  "backup_env \<Rightarrow> string \<Rightarrow> flash_service \<Rightarrow> owner_reference \<Rightarrow> string \<Rightarrow> flash_backup \<Rightarrow> uuid \<Rightarrow> restore_claim" where
  "restore_claim_of env namespace flash owner class backup uuid =
     \<lparr>rc_name = flash_name flash @ ''-home'', rc_namespace = namespace, rc_owner = owner,
      rc_labels = fold (\<lambda>(k, v). bt_insert k v)
        [(INSTANCE_LABEL, svc_service_instance_id (fsv_spec flash)),
         (ORGANIZATION_LABEL, svc_organization_id (fsv_spec flash))] [],
      rc_storage_class = class, rc_storage = show_nat (fb_volume_size_bytes (bk_spec backup)),
      rc_snapshot = bname env uuid\<rparr>"

definition create_restored_home ::
  "'w backup_api \<Rightarrow> backup_env \<Rightarrow> string \<Rightarrow> flash_service \<Rightarrow> string \<Rightarrow> uuid \<Rightarrow>
   ('w, backup_error, bool) effect" where
  "create_restored_home api env namespace flash class_name uuid =
     ebind (ecall (ba_backup_get_opt api (bname env uuid))) (\<lambda>found.
     ebind (etry (ok_or found BackupNotFound)) (\<lambda>backup.
     if uuid_show (be_uuids env) (fb_organization_id (bk_spec backup)) \<noteq> svc_organization_id (fsv_spec flash)
     then efail BackupForbidden
     else if bk_deleting backup \<or> \<not> is_ready backup
     then efail (BackupConflict ''backup is not ready for restoration'')
     else ebind (restore_class api env backup class_name) (\<lambda>class.
          ebind (etry (ok_or (owner_ref ''FlashService'' (fsv_meta flash)) BackupNotFound)) (\<lambda>owner.
          ematch (ba_claim_create api (restore_claim_of env namespace flash owner class backup uuid)) (\<lambda>r.
          case r of
            Inr _ \<Rightarrow> eret False
          | Inl (Api_Error code) \<Rightarrow>
              if code = 409 then eret False else efail (BackupStorage (Api_Error code))
          | Inl e \<Rightarrow> efail (BackupStorage e))))))"

definition ensure_restored_home ::
  "'w backup_api \<Rightarrow> backup_env \<Rightarrow> string \<Rightarrow> flash_service \<Rightarrow> string \<Rightarrow> ('w, backup_error, bool) effect" where
  "ensure_restored_home api env namespace flash class_name =
     ebind (etry (ok_or (fs_restore_from_backup_id (workload flash))
              (BackupInvalid ''restore source is missing''))) (\<lambda>uuid.
     ebind (ecall (ba_claim_get_opt api (flash_name flash @ ''-home''))) (\<lambda>found.
     case found of
       Some existing \<Rightarrow>
         if \<not> claim_restores env uuid flash existing
         then efail (BackupConflict ''existing disk has a different owner or restore source'')
         else disk_restore_complete api env existing
     | None \<Rightarrow> create_restored_home api env namespace flash class_name uuid))"

section \<open>The lock of the destination of a volume\<close>

definition backup_volume ::
  "'w backup_api \<Rightarrow> backup_env \<Rightarrow> flash_backup \<Rightarrow> ('w, backup_error, dynamic_object option) effect" where
  "backup_volume api env backup =
     ebind (ecall (ba_claim_get_opt api (fb_source_pvc (bk_spec backup)))) (\<lambda>found.
     case found of
       None \<Rightarrow> eret None
     | Some pvc \<Rightarrow>
         if hc_uid pvc \<noteq> Some (fb_source_pvc_uid (bk_spec backup))
         then efail (BackupConflict ''source disk identity changed'')
         else ebind (etry (ok_or (hc_volume_name pvc) BackupNotFound)) (\<lambda>volume_name.
              ebind (ecall (ba_volume_get api volume_name)) (\<lambda>pv.
              ebind (etry (ok_or pv BackupNotFound)) (\<lambda>spec.
              if pv_claim_uid spec \<noteq> Some (fb_source_pvc_uid (bk_spec backup))
              then efail (BackupConflict ''persistent disk ownership changed'')
              else ebind (etry (ok_or (filter_opt (\<lambda>csi. csi_driver csi = ''driver.longhorn.io'') (pv_csi spec))
                            (BackupInvalid ''backup disk must use the configured storage driver''))) (\<lambda>csi.
                   ecall (ba_longhorn_get_opt api (storage_namespace env) (csi_volume_handle csi)))))))"

definition release_target_lock ::
  "'w backup_api \<Rightarrow> backup_env \<Rightarrow> flash_backup \<Rightarrow> bool \<Rightarrow> ('w, backup_error, unit) effect" where
  "release_target_lock api env backup enabled =
     (if \<not> enabled then eret ()
      else ematch (backup_volume api env backup) (\<lambda>r.
           case r of
             Inr (Some volume) \<Rightarrow>
               if bt_get (dyn_annotations volume) TARGET_LOCK \<noteq>
                  Some (uuid_show (be_uuids env) (fb_id (bk_spec backup)))
               then eret ()
               else ecall (ba_longhorn_patch api (storage_namespace env) (dyn_name volume)
                            (dyn_resource_version volume) None ''default'')
           | Inr None \<Rightarrow> eret ()
           | Inl BackupNotFound \<Rightarrow> eret ()
           | Inl (BackupConflict _) \<Rightarrow> eret ()
           | Inl (BackupStorage (Api_Error code)) \<Rightarrow>
               if code = 404 then eret () else efail (BackupStorage (Api_Error code))
           | Inl e \<Rightarrow> efail e))"

definition snapshot_ready :: "dynamic_object \<Rightarrow> bool" where
  "snapshot_ready snapshot \<longleftrightarrow> dyn_at snapshot ''status'' ''readyToUse'' = JBool True"

definition is_completed :: "flash_backup \<Rightarrow> bool" where
  "is_completed backup \<longleftrightarrow>
     (case bk_status backup of None \<Rightarrow> False | Some s \<Rightarrow> fbs_phase s = ''ready'' \<or> fbs_phase s = ''error'')"

definition desired_target :: "backup_env \<Rightarrow> flash_backup \<Rightarrow> string" where
  "desired_target env backup =
     (case fb_destination_id (bk_spec backup) of
        None \<Rightarrow> ''default'' | Some uuid \<Rightarrow> target_name (be_uuids env) uuid)"

text \<open>Without the feature, a volume that was redirected is left alone.\<close>

definition acquire_disabled ::
  "'w backup_api \<Rightarrow> backup_env \<Rightarrow> flash_backup \<Rightarrow> ('w, backup_error, bool) effect" where
  "acquire_disabled api env backup =
     (if fb_destination_id (bk_spec backup) \<noteq> None then efail BackupUnavailable
      else ebind (backup_volume api env backup) (\<lambda>found.
           case found of
             None \<Rightarrow> efail BackupNotFound
           | Some volume \<Rightarrow>
               if bt_contains (dyn_annotations volume) TARGET_LOCK \<or>
                  (case jstr (dyn_at volume ''spec'' ''backupTargetName'') of
                     None \<Rightarrow> False | Some name \<Rightarrow> name \<noteq> [] \<and> name \<noteq> ''default'')
               then efail BackupUnavailable else eret True))"

text \<open>The holder of the lock is busy while its snapshot or its backup is not completed.\<close>

definition holder_busy ::
  "'w backup_api \<Rightarrow> backup_env \<Rightarrow> string option \<Rightarrow> ('w, backup_error, bool) effect" where
  "holder_busy api env current =
     (case current of
        None \<Rightarrow> eret False
      | Some t \<Rightarrow>
          ebind (etry (ok_or (uuid_parse (be_uuids env) t) (BackupConflict ''invalid backup destination lock''))) (\<lambda>holder.
          ebind (ecall (ba_backup_get_opt api (bname env holder))) (\<lambda>other.
          ebind (ecall (ba_snapshot_get_opt api (bname env holder))) (\<lambda>other_snapshot.
          eret ((case other_snapshot of None \<Rightarrow> False | Some s \<Rightarrow> \<not> snapshot_ready s) \<or>
                (case other of None \<Rightarrow> False | Some b \<Rightarrow> \<not> is_completed b))))))"

definition other_transfer :: "flash_backup \<Rightarrow> dynamic_object \<Rightarrow> bool" where
  "other_transfer backup snapshot \<longleftrightarrow>
     dyn_name snapshot \<noteq> bk_name backup \<and>
     jget (dyn_at snapshot ''spec'' ''source'') ''persistentVolumeClaimName'' = JStr (fb_source_pvc (bk_spec backup)) \<and>
     \<not> snapshot_ready snapshot"

definition destination_ready ::
  "'w backup_api \<Rightarrow> backup_env \<Rightarrow> flash_backup \<Rightarrow> ('w, backup_error, bool) effect" where
  "destination_ready api env backup =
     (case fb_destination_id (bk_spec backup) of
        None \<Rightarrow> eret True
      | Some uuid \<Rightarrow>
          ebind (destination_of api env (fb_organization_id (bk_spec backup)) uuid) (\<lambda>destination.
          eret (dv_ready destination)))"

definition take_lock ::
  "'w backup_api \<Rightarrow> backup_env \<Rightarrow> flash_backup \<Rightarrow> dynamic_object \<Rightarrow> ('w, backup_error, bool) effect" where
  "take_lock api env backup volume =
     ematch (ba_longhorn_patch api (storage_namespace env) (dyn_name volume) (dyn_resource_version volume)
              (Some (uuid_show (be_uuids env) (fb_id (bk_spec backup)))) (desired_target env backup)) (\<lambda>r.
     case r of
       Inr _ \<Rightarrow> eret True
     | Inl (Api_Error code) \<Rightarrow> if code = 409 then eret False else efail (BackupStorage (Api_Error code))
     | Inl e \<Rightarrow> efail (BackupStorage e))"

definition acquire_target_lock ::
  "'w backup_api \<Rightarrow> backup_env \<Rightarrow> flash_backup \<Rightarrow> bool \<Rightarrow> ('w, backup_error, bool) effect" where
  "acquire_target_lock api env backup enabled =
     (if \<not> enabled then acquire_disabled api env backup
      else ebind (backup_volume api env backup) (\<lambda>found.
           case found of
             None \<Rightarrow> efail BackupNotFound
           | Some volume \<Rightarrow>
               let current = bt_get (dyn_annotations volume) TARGET_LOCK
               in if current = Some (uuid_show (be_uuids env) (fb_id (bk_spec backup)))
                  then if dyn_at volume ''spec'' ''backupTargetName'' \<noteq> JStr (desired_target env backup)
                       then efail (BackupConflict ''backup destination changed during transfer'')
                       else eret True
                  else ebind (holder_busy api env current) (\<lambda>busy.
                       if busy then eret False
                       else ebind (ecall (ba_snapshots_list api)) (\<lambda>all_snapshots.
                       if list_ex (other_transfer backup) all_snapshots then eret False
                       else ebind (destination_ready api env backup) (\<lambda>ready.
                       if \<not> ready then eret False else take_lock api env backup volume)))))"

section \<open>The controller\<close>

text \<open>The merge patch of a status: the serialisation skips a message and a time that are \<open>None\<close>, so the patch does not name them.\<close>

definition backup_status_json :: "flash_backup_status \<Rightarrow> json" where
  "backup_status_json v =
     jfields [(''phase'', Some (JStr (fbs_phase v))), (''message'', map_option JStr (fbs_message v)),
              (''completed_at'', map_option JNum (fbs_completed_at v))]"

definition write_status ::
  "'w backup_api \<Rightarrow> flash_backup \<Rightarrow> flash_backup_status \<Rightarrow> ('w, backup_error, unit) effect" where
  "write_status api backup v =
     (if bk_status backup \<noteq> Some v
      then ecall (ba_backup_patch_status api (bk_name backup)
             (jobj [(''metadata'', jobj [(''resourceVersion'', jnull JStr (meta_resource_version (bk_meta backup)))]),
                    (''status'', backup_status_json v)]))
      else eret ())"

definition expired :: "i64 \<Rightarrow> flash_backup \<Rightarrow> bool" where
  "expired now backup =
     (case bk_creation_timestamp backup of None \<Rightarrow> False | Some t \<Rightarrow> 1800 \<le> i64_saturating_sub now t)"

definition reconcile_deleted ::
  "'w backup_api \<Rightarrow> backup_env \<Rightarrow> flash_backup \<Rightarrow> ('w, backup_error, unit) effect" where
  "reconcile_deleted api env backup =
     ebind (eread (ba_now api)) (\<lambda>now.
     if offsite_locked env now backup then eret ()
     else ebind (restore_pending api env (fb_id (bk_spec backup))) (\<lambda>pending.
          if pending then eret ()
          else ebind (ecall (ba_snapshot_get_opt api (bk_name backup))) (\<lambda>snapshot.
          if snapshot \<noteq> None
          then ematch (ba_snapshot_delete api (bk_name backup)) (\<lambda>r.
               case r of
                 Inr _ \<Rightarrow> eret ()
               | Inl (Api_Error code) \<Rightarrow>
                   if code = 404 then eret () else efail (BackupStorage (Api_Error code))
               | Inl e \<Rightarrow> efail (BackupStorage e))
          else ebind (release_target_lock api env backup (destinations_enabled env)) (\<lambda>_.
               ecall (ba_backup_patch_finalizers api (bk_name backup) (meta_resource_version (bk_meta backup))
                        (filter (\<lambda>f. f \<noteq> FINALIZER) (meta_finalizers (bk_meta backup))))))))"

definition missing_snapshot_status :: flash_backup_status where
  "missing_snapshot_status =
     \<lparr>fbs_phase = ''error'', fbs_message = Some ''backup_storage_missing'', fbs_completed_at = None\<rparr>"

definition waiting_status :: "bool \<Rightarrow> flash_backup_status" where
  "waiting_status late =
     \<lparr>fbs_phase = (if late then ''error'' else ''creating''),
      fbs_message = (if late then Some ''backup_storage_error'' else None), fbs_completed_at = None\<rparr>"

definition progress_phase :: "dynamic_object \<Rightarrow> bool \<Rightarrow> string" where
  "progress_phase snapshot late =
     (if snapshot_ready snapshot then ''ready'' else if late then ''error'' else ''creating'')"

definition progress_status :: "flash_backup \<Rightarrow> string \<Rightarrow> i64 \<Rightarrow> flash_backup_status" where
  "progress_status backup phase now =
     \<lparr>fbs_phase = phase, fbs_message = (if phase = ''error'' then Some ''backup_storage_error'' else None),
      fbs_completed_at =
        (if phase = ''ready'' then Some (unwrap_or (Option.bind (bk_status backup) fbs_completed_at) now) else None)\<rparr>"

definition take_snapshot ::
  "'w backup_api \<Rightarrow> backup_env \<Rightarrow> string \<Rightarrow> flash_backup \<Rightarrow> ('w, backup_error, dynamic_object) effect" where
  "take_snapshot api env namespace backup =
     ebind (ecall (ba_claim_get_opt api (fb_source_pvc (bk_spec backup)))) (\<lambda>found.
     ebind (etry (ok_or found BackupNotFound)) (\<lambda>pvc.
     if hc_uid pvc \<noteq> Some (fb_source_pvc_uid (bk_spec backup))
     then efail (BackupConflict ''source disk identity changed'')
     else ebind (etry (ok_or (owner_ref ''FlashBackup'' (bk_meta backup)) BackupNotFound)) (\<lambda>owner.
          ecall (ba_snapshot_apply api (bk_name backup)
                   \<lparr>sn_name = bk_name backup, sn_namespace = namespace, sn_owner = owner,
                    sn_class = fb_snapshot_class (bk_spec backup), sn_claim = fb_source_pvc (bk_spec backup)\<rparr>))))"

definition report_progress ::
  "'w backup_api \<Rightarrow> backup_env \<Rightarrow> flash_backup \<Rightarrow> dynamic_object \<Rightarrow> ('w, backup_error, unit) effect" where
  "report_progress api env backup snapshot =
     ebind (eread (ba_now api)) (\<lambda>now.
     let phase = progress_phase snapshot (expired now backup)
     in ebind (eread (ba_now api)) (\<lambda>completed.
        ebind (write_status api backup (progress_status backup phase completed)) (\<lambda>_.
        if phase = ''ready'' then release_target_lock api env backup (destinations_enabled env) else eret ())))"

definition reconcile_live ::
  "'w backup_api \<Rightarrow> backup_env \<Rightarrow> string \<Rightarrow> flash_backup \<Rightarrow> dynamic_object option \<Rightarrow>
   ('w, backup_error, unit) effect" where
  "reconcile_live api env namespace backup existing =
     (case existing of
        Some snapshot \<Rightarrow> report_progress api env backup snapshot
      | None \<Rightarrow>
          if is_completed backup then write_status api backup missing_snapshot_status
          else ebind (take_snapshot api env namespace backup) (report_progress api env backup))"

definition reconcile_backup ::
  "'w backup_api \<Rightarrow> backup_env \<Rightarrow> string \<Rightarrow> flash_backup \<Rightarrow> ('w, backup_error, unit) effect" where
  "reconcile_backup api env namespace backup =
     (if bk_deleting backup then reconcile_deleted api env backup
      else ebind (ecall (ba_snapshot_get_opt api (bk_name backup))) (\<lambda>existing.
           let completed_missing = (existing = None \<and> is_completed backup);
               already_ready = (case existing of None \<Rightarrow> False | Some s \<Rightarrow> snapshot_ready s \<and> is_ready backup)
           in ebind (if \<not> completed_missing \<and> \<not> already_ready
                     then acquire_target_lock api env backup (destinations_enabled env) else eret True) (\<lambda>held.
              if \<not> held
              then ebind (eread (ba_now api)) (\<lambda>now. write_status api backup (waiting_status (expired now backup)))
              else reconcile_live api env namespace backup existing)))"

text \<open>One tick of \<open>run_controller\<close>; the errors of a single backup are reported and swallowed.\<close>

definition source_unavailable_status :: flash_backup_status where
  "source_unavailable_status =
     \<lparr>fbs_phase = ''error'', fbs_message = Some ''backup_source_unavailable'', fbs_completed_at = None\<rparr>"

definition is_source_error :: "backup_error \<Rightarrow> bool" where
  "is_source_error e =
     (case e of BackupNotFound \<Rightarrow> True | BackupConflict _ \<Rightarrow> True | BackupInvalid _ \<Rightarrow> True | BackupForbidden \<Rightarrow> True
      | _ \<Rightarrow> False)"

definition controller_step ::
  "'w backup_api \<Rightarrow> backup_env \<Rightarrow> string \<Rightarrow> flash_backup \<Rightarrow> ('w, kube_error, unit) effect" where
  "controller_step api env namespace backup =
     ematch (reconcile_backup api env namespace backup) (\<lambda>r.
     case r of
       Inr _ \<Rightarrow> eret ()
     | Inl e \<Rightarrow>
         if is_source_error e
         then ematch (write_status api backup source_unavailable_status) (\<lambda>_. eret ())
         else eret ())"

definition controller_tick ::
  "'w backup_api \<Rightarrow> backup_env \<Rightarrow> string \<Rightarrow> ('w, kube_error, unit) effect" where
  "controller_tick api env namespace =
     ebind (ba_backups_list api) (\<lambda>backups. efor (controller_step api env namespace) backups)"

end
