(* ===== verification/Backup_Calls.thy ===== *)
theory Backup_Calls
  imports Backups Uuid_Text Meter_Properties
begin

text \<open>
  What the functions of the backups do not do: for the calls that change something, the functions whose
  run does not depend on them. Properties use it to say that a call is only made under a condition: the
  run of the code is the same when the call is replaced by an arbitrary one outside that condition.
\<close>

section \<open>Calls that a function does not make\<close>

lemma reads_backup_delete:
  "ba_now (api\<lparr>ba_backup_delete := d\<rparr>) = ba_now api"
  "ba_backup_get_opt (api\<lparr>ba_backup_delete := d\<rparr>) = ba_backup_get_opt api"
  "ba_snapshot_get_opt (api\<lparr>ba_backup_delete := d\<rparr>) = ba_snapshot_get_opt api"
  "ba_snapshots_list (api\<lparr>ba_backup_delete := d\<rparr>) = ba_snapshots_list api"
  "ba_claim_get_opt (api\<lparr>ba_backup_delete := d\<rparr>) = ba_claim_get_opt api"
  "ba_claims_labelled (api\<lparr>ba_backup_delete := d\<rparr>) = ba_claims_labelled api"
  "ba_volume_get (api\<lparr>ba_backup_delete := d\<rparr>) = ba_volume_get api"
  "ba_longhorn_get (api\<lparr>ba_backup_delete := d\<rparr>) = ba_longhorn_get api"
  "ba_longhorn_get_opt (api\<lparr>ba_backup_delete := d\<rparr>) = ba_longhorn_get_opt api"
  "ba_services_list (api\<lparr>ba_backup_delete := d\<rparr>) = ba_services_list api"
  "ba_destinations (api\<lparr>ba_backup_delete := d\<rparr>) = ba_destinations api"
  "ba_snapshot_delete (api\<lparr>ba_backup_delete := d\<rparr>) = ba_snapshot_delete api"
  "ba_claim_create (api\<lparr>ba_backup_delete := d\<rparr>) = ba_claim_create api"
  "ba_longhorn_patch (api\<lparr>ba_backup_delete := d\<rparr>) = ba_longhorn_patch api"
  "ba_snapshot_apply (api\<lparr>ba_backup_delete := d\<rparr>) = ba_snapshot_apply api"
  "ba_backup_patch_finalizers (api\<lparr>ba_backup_delete := d\<rparr>) = ba_backup_patch_finalizers api"
  "ba_backup_patch_status (api\<lparr>ba_backup_delete := d\<rparr>) = ba_backup_patch_status api"
  by simp_all

lemma reads_snapshot_delete:
  "ba_now (api\<lparr>ba_snapshot_delete := g\<rparr>) = ba_now api"
  "ba_backup_get_opt (api\<lparr>ba_snapshot_delete := g\<rparr>) = ba_backup_get_opt api"
  "ba_snapshot_get_opt (api\<lparr>ba_snapshot_delete := g\<rparr>) = ba_snapshot_get_opt api"
  "ba_snapshots_list (api\<lparr>ba_snapshot_delete := g\<rparr>) = ba_snapshots_list api"
  "ba_claim_get_opt (api\<lparr>ba_snapshot_delete := g\<rparr>) = ba_claim_get_opt api"
  "ba_claims_labelled (api\<lparr>ba_snapshot_delete := g\<rparr>) = ba_claims_labelled api"
  "ba_volume_get (api\<lparr>ba_snapshot_delete := g\<rparr>) = ba_volume_get api"
  "ba_longhorn_get (api\<lparr>ba_snapshot_delete := g\<rparr>) = ba_longhorn_get api"
  "ba_longhorn_get_opt (api\<lparr>ba_snapshot_delete := g\<rparr>) = ba_longhorn_get_opt api"
  "ba_services_list (api\<lparr>ba_snapshot_delete := g\<rparr>) = ba_services_list api"
  "ba_destinations (api\<lparr>ba_snapshot_delete := g\<rparr>) = ba_destinations api"
  "ba_backup_delete (api\<lparr>ba_snapshot_delete := g\<rparr>) = ba_backup_delete api"
  "ba_claim_create (api\<lparr>ba_snapshot_delete := g\<rparr>) = ba_claim_create api"
  "ba_longhorn_patch (api\<lparr>ba_snapshot_delete := g\<rparr>) = ba_longhorn_patch api"
  "ba_snapshot_apply (api\<lparr>ba_snapshot_delete := g\<rparr>) = ba_snapshot_apply api"
  "ba_backup_patch_finalizers (api\<lparr>ba_snapshot_delete := g\<rparr>) = ba_backup_patch_finalizers api"
  "ba_backup_patch_status (api\<lparr>ba_snapshot_delete := g\<rparr>) = ba_backup_patch_status api"
  by simp_all

lemma reads_claim_create:
  "ba_now (api\<lparr>ba_claim_create := c\<rparr>) = ba_now api"
  "ba_backup_get_opt (api\<lparr>ba_claim_create := c\<rparr>) = ba_backup_get_opt api"
  "ba_snapshot_get_opt (api\<lparr>ba_claim_create := c\<rparr>) = ba_snapshot_get_opt api"
  "ba_snapshots_list (api\<lparr>ba_claim_create := c\<rparr>) = ba_snapshots_list api"
  "ba_claim_get_opt (api\<lparr>ba_claim_create := c\<rparr>) = ba_claim_get_opt api"
  "ba_claims_labelled (api\<lparr>ba_claim_create := c\<rparr>) = ba_claims_labelled api"
  "ba_volume_get (api\<lparr>ba_claim_create := c\<rparr>) = ba_volume_get api"
  "ba_longhorn_get (api\<lparr>ba_claim_create := c\<rparr>) = ba_longhorn_get api"
  "ba_longhorn_get_opt (api\<lparr>ba_claim_create := c\<rparr>) = ba_longhorn_get_opt api"
  "ba_services_list (api\<lparr>ba_claim_create := c\<rparr>) = ba_services_list api"
  "ba_destinations (api\<lparr>ba_claim_create := c\<rparr>) = ba_destinations api"
  "ba_backup_delete (api\<lparr>ba_claim_create := c\<rparr>) = ba_backup_delete api"
  "ba_snapshot_delete (api\<lparr>ba_claim_create := c\<rparr>) = ba_snapshot_delete api"
  "ba_longhorn_patch (api\<lparr>ba_claim_create := c\<rparr>) = ba_longhorn_patch api"
  "ba_snapshot_apply (api\<lparr>ba_claim_create := c\<rparr>) = ba_snapshot_apply api"
  "ba_backup_patch_finalizers (api\<lparr>ba_claim_create := c\<rparr>) = ba_backup_patch_finalizers api"
  "ba_backup_patch_status (api\<lparr>ba_claim_create := c\<rparr>) = ba_backup_patch_status api"
  by simp_all

lemma reads_longhorn_patch:
  "ba_now (api\<lparr>ba_longhorn_patch := p\<rparr>) = ba_now api"
  "ba_backup_get_opt (api\<lparr>ba_longhorn_patch := p\<rparr>) = ba_backup_get_opt api"
  "ba_snapshot_get_opt (api\<lparr>ba_longhorn_patch := p\<rparr>) = ba_snapshot_get_opt api"
  "ba_snapshots_list (api\<lparr>ba_longhorn_patch := p\<rparr>) = ba_snapshots_list api"
  "ba_claim_get_opt (api\<lparr>ba_longhorn_patch := p\<rparr>) = ba_claim_get_opt api"
  "ba_claims_labelled (api\<lparr>ba_longhorn_patch := p\<rparr>) = ba_claims_labelled api"
  "ba_volume_get (api\<lparr>ba_longhorn_patch := p\<rparr>) = ba_volume_get api"
  "ba_longhorn_get (api\<lparr>ba_longhorn_patch := p\<rparr>) = ba_longhorn_get api"
  "ba_longhorn_get_opt (api\<lparr>ba_longhorn_patch := p\<rparr>) = ba_longhorn_get_opt api"
  "ba_services_list (api\<lparr>ba_longhorn_patch := p\<rparr>) = ba_services_list api"
  "ba_destinations (api\<lparr>ba_longhorn_patch := p\<rparr>) = ba_destinations api"
  "ba_backup_delete (api\<lparr>ba_longhorn_patch := p\<rparr>) = ba_backup_delete api"
  "ba_snapshot_delete (api\<lparr>ba_longhorn_patch := p\<rparr>) = ba_snapshot_delete api"
  "ba_claim_create (api\<lparr>ba_longhorn_patch := p\<rparr>) = ba_claim_create api"
  "ba_snapshot_apply (api\<lparr>ba_longhorn_patch := p\<rparr>) = ba_snapshot_apply api"
  "ba_backup_patch_finalizers (api\<lparr>ba_longhorn_patch := p\<rparr>) = ba_backup_patch_finalizers api"
  "ba_backup_patch_status (api\<lparr>ba_longhorn_patch := p\<rparr>) = ba_backup_patch_status api"
  by simp_all

lemma reads_snapshot_apply:
  "ba_now (api\<lparr>ba_snapshot_apply := a\<rparr>) = ba_now api"
  "ba_backup_get_opt (api\<lparr>ba_snapshot_apply := a\<rparr>) = ba_backup_get_opt api"
  "ba_snapshot_get_opt (api\<lparr>ba_snapshot_apply := a\<rparr>) = ba_snapshot_get_opt api"
  "ba_snapshots_list (api\<lparr>ba_snapshot_apply := a\<rparr>) = ba_snapshots_list api"
  "ba_claim_get_opt (api\<lparr>ba_snapshot_apply := a\<rparr>) = ba_claim_get_opt api"
  "ba_claims_labelled (api\<lparr>ba_snapshot_apply := a\<rparr>) = ba_claims_labelled api"
  "ba_volume_get (api\<lparr>ba_snapshot_apply := a\<rparr>) = ba_volume_get api"
  "ba_longhorn_get (api\<lparr>ba_snapshot_apply := a\<rparr>) = ba_longhorn_get api"
  "ba_longhorn_get_opt (api\<lparr>ba_snapshot_apply := a\<rparr>) = ba_longhorn_get_opt api"
  "ba_services_list (api\<lparr>ba_snapshot_apply := a\<rparr>) = ba_services_list api"
  "ba_destinations (api\<lparr>ba_snapshot_apply := a\<rparr>) = ba_destinations api"
  "ba_backup_delete (api\<lparr>ba_snapshot_apply := a\<rparr>) = ba_backup_delete api"
  "ba_snapshot_delete (api\<lparr>ba_snapshot_apply := a\<rparr>) = ba_snapshot_delete api"
  "ba_claim_create (api\<lparr>ba_snapshot_apply := a\<rparr>) = ba_claim_create api"
  "ba_longhorn_patch (api\<lparr>ba_snapshot_apply := a\<rparr>) = ba_longhorn_patch api"
  "ba_backup_patch_finalizers (api\<lparr>ba_snapshot_apply := a\<rparr>) = ba_backup_patch_finalizers api"
  "ba_backup_patch_status (api\<lparr>ba_snapshot_apply := a\<rparr>) = ba_backup_patch_status api"
  by simp_all

lemma reads_backup_patch_finalizers:
  "ba_now (api\<lparr>ba_backup_patch_finalizers := q\<rparr>) = ba_now api"
  "ba_backup_get_opt (api\<lparr>ba_backup_patch_finalizers := q\<rparr>) = ba_backup_get_opt api"
  "ba_snapshot_get_opt (api\<lparr>ba_backup_patch_finalizers := q\<rparr>) = ba_snapshot_get_opt api"
  "ba_snapshots_list (api\<lparr>ba_backup_patch_finalizers := q\<rparr>) = ba_snapshots_list api"
  "ba_claim_get_opt (api\<lparr>ba_backup_patch_finalizers := q\<rparr>) = ba_claim_get_opt api"
  "ba_claims_labelled (api\<lparr>ba_backup_patch_finalizers := q\<rparr>) = ba_claims_labelled api"
  "ba_volume_get (api\<lparr>ba_backup_patch_finalizers := q\<rparr>) = ba_volume_get api"
  "ba_longhorn_get (api\<lparr>ba_backup_patch_finalizers := q\<rparr>) = ba_longhorn_get api"
  "ba_longhorn_get_opt (api\<lparr>ba_backup_patch_finalizers := q\<rparr>) = ba_longhorn_get_opt api"
  "ba_services_list (api\<lparr>ba_backup_patch_finalizers := q\<rparr>) = ba_services_list api"
  "ba_destinations (api\<lparr>ba_backup_patch_finalizers := q\<rparr>) = ba_destinations api"
  "ba_backup_delete (api\<lparr>ba_backup_patch_finalizers := q\<rparr>) = ba_backup_delete api"
  "ba_snapshot_delete (api\<lparr>ba_backup_patch_finalizers := q\<rparr>) = ba_snapshot_delete api"
  "ba_claim_create (api\<lparr>ba_backup_patch_finalizers := q\<rparr>) = ba_claim_create api"
  "ba_longhorn_patch (api\<lparr>ba_backup_patch_finalizers := q\<rparr>) = ba_longhorn_patch api"
  "ba_snapshot_apply (api\<lparr>ba_backup_patch_finalizers := q\<rparr>) = ba_snapshot_apply api"
  "ba_backup_patch_status (api\<lparr>ba_backup_patch_finalizers := q\<rparr>) = ba_backup_patch_status api"
  by simp_all

lemma reads_backup_patch_status:
  "ba_now (api\<lparr>ba_backup_patch_status := t\<rparr>) = ba_now api"
  "ba_backup_get_opt (api\<lparr>ba_backup_patch_status := t\<rparr>) = ba_backup_get_opt api"
  "ba_snapshot_get_opt (api\<lparr>ba_backup_patch_status := t\<rparr>) = ba_snapshot_get_opt api"
  "ba_snapshots_list (api\<lparr>ba_backup_patch_status := t\<rparr>) = ba_snapshots_list api"
  "ba_claim_get_opt (api\<lparr>ba_backup_patch_status := t\<rparr>) = ba_claim_get_opt api"
  "ba_claims_labelled (api\<lparr>ba_backup_patch_status := t\<rparr>) = ba_claims_labelled api"
  "ba_volume_get (api\<lparr>ba_backup_patch_status := t\<rparr>) = ba_volume_get api"
  "ba_longhorn_get (api\<lparr>ba_backup_patch_status := t\<rparr>) = ba_longhorn_get api"
  "ba_longhorn_get_opt (api\<lparr>ba_backup_patch_status := t\<rparr>) = ba_longhorn_get_opt api"
  "ba_services_list (api\<lparr>ba_backup_patch_status := t\<rparr>) = ba_services_list api"
  "ba_destinations (api\<lparr>ba_backup_patch_status := t\<rparr>) = ba_destinations api"
  "ba_backup_delete (api\<lparr>ba_backup_patch_status := t\<rparr>) = ba_backup_delete api"
  "ba_snapshot_delete (api\<lparr>ba_backup_patch_status := t\<rparr>) = ba_snapshot_delete api"
  "ba_claim_create (api\<lparr>ba_backup_patch_status := t\<rparr>) = ba_claim_create api"
  "ba_longhorn_patch (api\<lparr>ba_backup_patch_status := t\<rparr>) = ba_longhorn_patch api"
  "ba_snapshot_apply (api\<lparr>ba_backup_patch_status := t\<rparr>) = ba_snapshot_apply api"
  "ba_backup_patch_finalizers (api\<lparr>ba_backup_patch_status := t\<rparr>) = ba_backup_patch_finalizers api"
  by simp_all

lemmas reads = reads_backup_delete reads_snapshot_delete reads_claim_create reads_longhorn_patch reads_snapshot_apply reads_backup_patch_finalizers reads_backup_patch_status

lemma destination_of_calls:
  "destination_of (api\<lparr>ba_backup_delete := d\<rparr>) = destination_of api"
  "destination_of (api\<lparr>ba_snapshot_delete := g\<rparr>) = destination_of api"
  "destination_of (api\<lparr>ba_claim_create := c\<rparr>) = destination_of api"
  "destination_of (api\<lparr>ba_longhorn_patch := p\<rparr>) = destination_of api"
  "destination_of (api\<lparr>ba_snapshot_apply := a\<rparr>) = destination_of api"
  "destination_of (api\<lparr>ba_backup_patch_finalizers := q\<rparr>) = destination_of api"
  "destination_of (api\<lparr>ba_backup_patch_status := t\<rparr>) = destination_of api"
  by (intro ext, simp only: destination_of_def reads)+

lemma backup_volume_calls:
  "backup_volume (api\<lparr>ba_backup_delete := d\<rparr>) = backup_volume api"
  "backup_volume (api\<lparr>ba_snapshot_delete := g\<rparr>) = backup_volume api"
  "backup_volume (api\<lparr>ba_claim_create := c\<rparr>) = backup_volume api"
  "backup_volume (api\<lparr>ba_longhorn_patch := p\<rparr>) = backup_volume api"
  "backup_volume (api\<lparr>ba_snapshot_apply := a\<rparr>) = backup_volume api"
  "backup_volume (api\<lparr>ba_backup_patch_finalizers := q\<rparr>) = backup_volume api"
  "backup_volume (api\<lparr>ba_backup_patch_status := t\<rparr>) = backup_volume api"
  by (intro ext, simp only: backup_volume_def reads)+

lemma holder_busy_calls:
  "holder_busy (api\<lparr>ba_backup_delete := d\<rparr>) = holder_busy api"
  "holder_busy (api\<lparr>ba_snapshot_delete := g\<rparr>) = holder_busy api"
  "holder_busy (api\<lparr>ba_claim_create := c\<rparr>) = holder_busy api"
  "holder_busy (api\<lparr>ba_longhorn_patch := p\<rparr>) = holder_busy api"
  "holder_busy (api\<lparr>ba_snapshot_apply := a\<rparr>) = holder_busy api"
  "holder_busy (api\<lparr>ba_backup_patch_finalizers := q\<rparr>) = holder_busy api"
  "holder_busy (api\<lparr>ba_backup_patch_status := t\<rparr>) = holder_busy api"
  by (intro ext, simp only: holder_busy_def reads)+

lemma destination_ready_calls:
  "destination_ready (api\<lparr>ba_backup_delete := d\<rparr>) = destination_ready api"
  "destination_ready (api\<lparr>ba_snapshot_delete := g\<rparr>) = destination_ready api"
  "destination_ready (api\<lparr>ba_claim_create := c\<rparr>) = destination_ready api"
  "destination_ready (api\<lparr>ba_longhorn_patch := p\<rparr>) = destination_ready api"
  "destination_ready (api\<lparr>ba_snapshot_apply := a\<rparr>) = destination_ready api"
  "destination_ready (api\<lparr>ba_backup_patch_finalizers := q\<rparr>) = destination_ready api"
  "destination_ready (api\<lparr>ba_backup_patch_status := t\<rparr>) = destination_ready api"
  by (intro ext, simp only: destination_ready_def destination_of_calls reads)+

lemma acquire_disabled_calls:
  "acquire_disabled (api\<lparr>ba_backup_delete := d\<rparr>) = acquire_disabled api"
  "acquire_disabled (api\<lparr>ba_snapshot_delete := g\<rparr>) = acquire_disabled api"
  "acquire_disabled (api\<lparr>ba_claim_create := c\<rparr>) = acquire_disabled api"
  "acquire_disabled (api\<lparr>ba_longhorn_patch := p\<rparr>) = acquire_disabled api"
  "acquire_disabled (api\<lparr>ba_snapshot_apply := a\<rparr>) = acquire_disabled api"
  "acquire_disabled (api\<lparr>ba_backup_patch_finalizers := q\<rparr>) = acquire_disabled api"
  "acquire_disabled (api\<lparr>ba_backup_patch_status := t\<rparr>) = acquire_disabled api"
  by (intro ext, simp only: acquire_disabled_def backup_volume_calls reads)+

lemma disk_restore_complete_calls:
  "disk_restore_complete (api\<lparr>ba_backup_delete := d\<rparr>) = disk_restore_complete api"
  "disk_restore_complete (api\<lparr>ba_snapshot_delete := g\<rparr>) = disk_restore_complete api"
  "disk_restore_complete (api\<lparr>ba_claim_create := c\<rparr>) = disk_restore_complete api"
  "disk_restore_complete (api\<lparr>ba_longhorn_patch := p\<rparr>) = disk_restore_complete api"
  "disk_restore_complete (api\<lparr>ba_snapshot_apply := a\<rparr>) = disk_restore_complete api"
  "disk_restore_complete (api\<lparr>ba_backup_patch_finalizers := q\<rparr>) = disk_restore_complete api"
  "disk_restore_complete (api\<lparr>ba_backup_patch_status := t\<rparr>) = disk_restore_complete api"
  by (intro ext, simp only: disk_restore_complete_def reads)+

lemma any_restoring_calls:
  "any_restoring (api\<lparr>ba_backup_delete := d\<rparr>) env uuid services = any_restoring api env uuid services"
  "any_restoring (api\<lparr>ba_snapshot_delete := g\<rparr>) env uuid services = any_restoring api env uuid services"
  "any_restoring (api\<lparr>ba_claim_create := c\<rparr>) env uuid services = any_restoring api env uuid services"
  "any_restoring (api\<lparr>ba_longhorn_patch := p\<rparr>) env uuid services = any_restoring api env uuid services"
  "any_restoring (api\<lparr>ba_snapshot_apply := a\<rparr>) env uuid services = any_restoring api env uuid services"
  "any_restoring (api\<lparr>ba_backup_patch_finalizers := q\<rparr>) env uuid services = any_restoring api env uuid services"
  "any_restoring (api\<lparr>ba_backup_patch_status := t\<rparr>) env uuid services = any_restoring api env uuid services"
  by (induction services) (simp_all only: any_restoring.simps reads disk_restore_complete_calls)

lemma restore_pending_calls:
  "restore_pending (api\<lparr>ba_backup_delete := d\<rparr>) = restore_pending api"
  "restore_pending (api\<lparr>ba_snapshot_delete := g\<rparr>) = restore_pending api"
  "restore_pending (api\<lparr>ba_claim_create := c\<rparr>) = restore_pending api"
  "restore_pending (api\<lparr>ba_longhorn_patch := p\<rparr>) = restore_pending api"
  "restore_pending (api\<lparr>ba_snapshot_apply := a\<rparr>) = restore_pending api"
  "restore_pending (api\<lparr>ba_backup_patch_finalizers := q\<rparr>) = restore_pending api"
  "restore_pending (api\<lparr>ba_backup_patch_status := t\<rparr>) = restore_pending api"
  by (intro ext, simp only: restore_pending_def any_restoring_calls reads)+

lemma take_lock_calls:
  "take_lock (api\<lparr>ba_backup_delete := d\<rparr>) = take_lock api"
  "take_lock (api\<lparr>ba_snapshot_delete := g\<rparr>) = take_lock api"
  "take_lock (api\<lparr>ba_claim_create := c\<rparr>) = take_lock api"
  "take_lock (api\<lparr>ba_snapshot_apply := a\<rparr>) = take_lock api"
  "take_lock (api\<lparr>ba_backup_patch_finalizers := q\<rparr>) = take_lock api"
  "take_lock (api\<lparr>ba_backup_patch_status := t\<rparr>) = take_lock api"
  by (intro ext, simp only: take_lock_def reads)+

lemma acquire_target_lock_calls:
  "acquire_target_lock (api\<lparr>ba_backup_delete := d\<rparr>) = acquire_target_lock api"
  "acquire_target_lock (api\<lparr>ba_snapshot_delete := g\<rparr>) = acquire_target_lock api"
  "acquire_target_lock (api\<lparr>ba_claim_create := c\<rparr>) = acquire_target_lock api"
  "acquire_target_lock (api\<lparr>ba_snapshot_apply := a\<rparr>) = acquire_target_lock api"
  "acquire_target_lock (api\<lparr>ba_backup_patch_finalizers := q\<rparr>) = acquire_target_lock api"
  "acquire_target_lock (api\<lparr>ba_backup_patch_status := t\<rparr>) = acquire_target_lock api"
  by (intro ext, simp only: acquire_target_lock_def acquire_disabled_calls backup_volume_calls holder_busy_calls destination_ready_calls take_lock_calls reads)+

lemma release_target_lock_calls:
  "release_target_lock (api\<lparr>ba_backup_delete := d\<rparr>) = release_target_lock api"
  "release_target_lock (api\<lparr>ba_snapshot_delete := g\<rparr>) = release_target_lock api"
  "release_target_lock (api\<lparr>ba_claim_create := c\<rparr>) = release_target_lock api"
  "release_target_lock (api\<lparr>ba_snapshot_apply := a\<rparr>) = release_target_lock api"
  "release_target_lock (api\<lparr>ba_backup_patch_finalizers := q\<rparr>) = release_target_lock api"
  "release_target_lock (api\<lparr>ba_backup_patch_status := t\<rparr>) = release_target_lock api"
  by (intro ext, simp only: release_target_lock_def backup_volume_calls reads)+

lemma write_status_calls:
  "write_status (api\<lparr>ba_backup_delete := d\<rparr>) = write_status api"
  "write_status (api\<lparr>ba_snapshot_delete := g\<rparr>) = write_status api"
  "write_status (api\<lparr>ba_claim_create := c\<rparr>) = write_status api"
  "write_status (api\<lparr>ba_longhorn_patch := p\<rparr>) = write_status api"
  "write_status (api\<lparr>ba_snapshot_apply := a\<rparr>) = write_status api"
  "write_status (api\<lparr>ba_backup_patch_finalizers := q\<rparr>) = write_status api"
  by (intro ext, simp only: write_status_def reads)+

lemma report_progress_calls:
  "report_progress (api\<lparr>ba_snapshot_apply := a\<rparr>) = report_progress api"
  "report_progress (api\<lparr>ba_backup_patch_finalizers := q\<rparr>) = report_progress api"
  by (intro ext, simp only: report_progress_def write_status_calls release_target_lock_calls reads)+

lemma take_snapshot_calls:
  "take_snapshot (api\<lparr>ba_backup_delete := d\<rparr>) = take_snapshot api"
  "take_snapshot (api\<lparr>ba_snapshot_delete := g\<rparr>) = take_snapshot api"
  "take_snapshot (api\<lparr>ba_claim_create := c\<rparr>) = take_snapshot api"
  "take_snapshot (api\<lparr>ba_longhorn_patch := p\<rparr>) = take_snapshot api"
  "take_snapshot (api\<lparr>ba_backup_patch_finalizers := q\<rparr>) = take_snapshot api"
  "take_snapshot (api\<lparr>ba_backup_patch_status := t\<rparr>) = take_snapshot api"
  by (intro ext, simp only: take_snapshot_def reads)+

lemmas same_calls = reads destination_of_calls backup_volume_calls holder_busy_calls destination_ready_calls
  acquire_disabled_calls disk_restore_complete_calls restore_pending_calls take_lock_calls
  acquire_target_lock_calls release_target_lock_calls write_status_calls report_progress_calls take_snapshot_calls

end
