(* ===== verification/Volume_Lock.thy ===== *)
theory Volume_Lock
  imports Backup_Calls Version_Codes
begin

text \<open>
  The lock that directs a volume to the destination of a backup: the abstract lock, the interface of the
  server with its optimistic concurrency, the refinement of the abstract lock by the controller, and a store
  with versions as the instance of the interface.
\<close>

section \<open>The abstract lock and the interface of the server\<close>

text \<open>
  The abstract lock: its holder and the destination of the volume. A backup takes a lock it does not
  hold and directs the volume to its own destination; it gives back a lock it holds and directs the
  volume to the default destination.
\<close>

type_synonym volume_lock = "string option \<times> json"

definition lock_of :: "dynamic_object \<Rightarrow> volume_lock" where
  "lock_of volume = (bt_get (dyn_annotations volume) TARGET_LOCK, dyn_at volume ''spec'' ''backupTargetName'')"

abbreviation own_lock :: "backup_env \<Rightarrow> flash_backup \<Rightarrow> string" where
  "own_lock env backup \<equiv> uuid_show (be_uuids env) (fb_id (bk_spec backup))"

inductive lock_step :: "backup_env \<Rightarrow> flash_backup \<Rightarrow> volume_lock \<Rightarrow> volume_lock \<Rightarrow> bool"
  for env backup where
  take: "fst s \<noteq> Some (own_lock env backup) \<Longrightarrow>
    lock_step env backup s (Some (own_lock env backup), JStr (desired_target env backup))"
| drop: "fst s = Some (own_lock env backup) \<Longrightarrow> lock_step env backup s (None, JStr ''default'')"

inductive_cases lock_stepE: "lock_step env backup s s'"

inductive lock_history :: "backup_env \<Rightarrow> flash_backup set \<Rightarrow> volume_lock \<Rightarrow> bool" for env backups where
  start: "lock_history env backups (None, JStr ''default'')"
| step: "lock_history env backups s \<Longrightarrow> backup \<in> backups \<Longrightarrow> lock_step env backup s s' \<Longrightarrow>
    lock_history env backups s'"

text \<open>
  A patch that, if it succeeds, takes the lock of the current volume by a step of the backup, and the
  server in which every other patch is replaced.
\<close>

definition patch_is_step ::
  "'w backup_api \<Rightarrow> string \<Rightarrow> ('w \<Rightarrow> string \<Rightarrow> dynamic_object option) \<Rightarrow> backup_env \<Rightarrow> flash_backup \<Rightarrow>
   string \<Rightarrow> string option \<Rightarrow> string option \<Rightarrow> string \<Rightarrow> 'w \<Rightarrow> bool" where
  "patch_is_step api ns cur env backup n rv l t w \<longleftrightarrow>
     (\<forall>w'. ba_longhorn_patch api ns n rv l t w = (Inr (), w') \<longrightarrow>
        (\<exists>v v'. cur w n = Some v \<and> cur w' n = Some v' \<and> lock_step env backup (lock_of v) (lock_of v')))"

abbreviation only_steps ::
  "'w backup_api \<Rightarrow> string \<Rightarrow> ('w \<Rightarrow> string \<Rightarrow> dynamic_object option) \<Rightarrow> backup_env \<Rightarrow> flash_backup \<Rightarrow>
   (string \<Rightarrow> string \<Rightarrow> string option \<Rightarrow> string option \<Rightarrow> string \<Rightarrow> ('w, kube_error, unit) effect) \<Rightarrow> 'w backup_api" where
  "only_steps api ns cur env backup p \<equiv>
     api\<lparr>ba_longhorn_patch := (\<lambda>m n rv l t w.
        if m = ns \<and> patch_is_step api ns cur env backup n rv l t w then ba_longhorn_patch api m n rv l t w
        else p m n rv l t w)\<rparr>"

text \<open>
  Before a lock is taken over: its holder was found completed, with no unfinished snapshot, and no other
  unfinished snapshot of the same claim was listed.
\<close>

definition idle_takeover :: "'w backup_api \<Rightarrow> backup_env \<Rightarrow> flash_backup \<Rightarrow> dynamic_object \<Rightarrow> 'w \<Rightarrow> bool" where
  "idle_takeover api env backup v w1 \<longleftrightarrow>
     (\<exists>w2 w3 snapshots. holder_busy api env (bt_get (dyn_annotations v) TARGET_LOCK) w1 = (Inr False, w2) \<and>
        ba_snapshots_list api w2 = (Inr snapshots, w3) \<and> \<not> list_ex (other_transfer backup) snapshots)"

lemma acquire_True:
  assumes "acquire_target_lock api env backup True w = (Inr True, w')"
  shows "\<exists>v w1. backup_volume api env backup w = (Inr (Some v), w1) \<and>
    (bt_get (dyn_annotations v) TARGET_LOCK = Some (own_lock env backup) \<and> w' = w1 \<and>
       dyn_at v ''spec'' ''backupTargetName'' = JStr (desired_target env backup) \<or>
     idle_takeover api env backup v w1 \<and> (\<exists>w2. take_lock api env backup v w2 = (Inr True, w')))"
proof -
  from assms obtain found w1 where vol: "backup_volume api env backup w = (Inr found, w1)"
    and rest: "(case found of None \<Rightarrow> efail BackupNotFound | Some volume \<Rightarrow>
      let current = bt_get (dyn_annotations volume) TARGET_LOCK
      in if current = Some (own_lock env backup)
         then if dyn_at volume ''spec'' ''backupTargetName'' \<noteq> JStr (desired_target env backup)
              then efail (BackupConflict ''backup destination changed during transfer'') else eret True
         else ebind (holder_busy api env current) (\<lambda>busy.
              if busy then eret False
              else ebind (ecall (ba_snapshots_list api)) (\<lambda>all_snapshots.
              if list_ex (other_transfer backup) all_snapshots then eret False
              else ebind (destination_ready api env backup) (\<lambda>ready.
              if \<not> ready then eret False else take_lock api env backup volume)))) w1 = (Inr True, w')"
    by (auto simp: acquire_target_lock_def elim: ebind_Inr)
  then obtain v where v: "found = Some v" by (cases found) auto
  have "idle_takeover api env backup v w1 \<and> (\<exists>w2. take_lock api env backup v w2 = (Inr True, w'))"
    if "bt_get (dyn_annotations v) TARGET_LOCK \<noteq> Some (own_lock env backup)"
    using rest that by (auto simp: v Let_def idle_takeover_def elim!: ebind_Inr split: if_splits) blast+
  moreover have "w' = w1 \<and> dyn_at v ''spec'' ''backupTargetName'' = JStr (desired_target env backup)"
    if "bt_get (dyn_annotations v) TARGET_LOCK = Some (own_lock env backup)"
    using rest that by (auto simp: v Let_def split: if_splits)
  ultimately show ?thesis using vol v by blast
qed

text \<open>
  What the code relies on of the server: a read returns the current volume under its name, two
  volumes of one name and one version are the same, and a patch succeeds only on the version it
  names and then sets the lock and the destination.
\<close>

locale volume_store =
  fixes api :: "'w backup_api" and ns :: string and cur :: "'w \<Rightarrow> string \<Rightarrow> dynamic_object option"
  assumes read_current: "ba_longhorn_get_opt api ns n w = (Inr r, w') \<Longrightarrow> cur w' n = r"
    and read_named: "ba_longhorn_get_opt api ns n w = (Inr (Some v), w') \<Longrightarrow> dyn_name v = n"
    and version_determines: "ba_longhorn_get_opt api ns n w = (Inr (Some v), w') \<Longrightarrow> cur w'' n = Some v' \<Longrightarrow>
      dyn_resource_version v' = dyn_resource_version v \<Longrightarrow> v' = v"
    and patch_swaps: "ba_longhorn_patch api ns n rv l t w = (Inr (), w') \<Longrightarrow>
      \<exists>v v'. cur w n = Some v \<and> dyn_resource_version v = rv \<and> cur w' n = Some v' \<and> lock_of v' = (l, JStr t)"
begin

lemma backup_volume_read:
  assumes "backup_volume api env backup w = (Inr (Some v), w')" and "storage_namespace env = ns"
  obtains n w1 where "ba_longhorn_get_opt api ns n w1 = (Inr (Some v), w')"
  using assms by (auto simp: backup_volume_def elim!: ebind_Inr split: option.splits if_splits)

lemma read_patch_is_step:
  assumes read: "ba_longhorn_get_opt api ns n w1 = (Inr (Some v), w2)"
    and legal: "lock_step env backup (lock_of v) (l, JStr t)"
  shows "patch_is_step api ns cur env backup (dyn_name v) (dyn_resource_version v) l t w"
  unfolding patch_is_step_def
proof (intro allI impI)
  fix w'
  assume "ba_longhorn_patch api ns (dyn_name v) (dyn_resource_version v) l t w = (Inr (), w')"
  then obtain u u' where "cur w (dyn_name v) = Some u" and "dyn_resource_version u = dyn_resource_version v"
    and "cur w' (dyn_name v) = Some u'" and "lock_of u' = (l, JStr t)"
    using patch_swaps by blast
  moreover have "u = v"
    using version_determines [OF read, of w u] read_named [OF read] calculation by simp
  ultimately show "\<exists>v' v''. cur w (dyn_name v) = Some v' \<and> cur w' (dyn_name v) = Some v'' \<and>
      lock_step env backup (lock_of v') (lock_of v'')"
    using legal by metis
qed

lemma take_lock_steps:
  assumes "storage_namespace env = ns" and read: "ba_longhorn_get_opt api ns n w1 = (Inr (Some v), w2)"
    and "bt_get (dyn_annotations v) TARGET_LOCK \<noteq> Some (own_lock env backup)"
  shows "take_lock (only_steps api ns cur env backup p) env backup v = take_lock api env backup v"
proof -
  have "lock_step env backup (lock_of v) (Some (own_lock env backup), JStr (desired_target env backup))"
    using assms(3) by (intro lock_step.take) (simp add: lock_of_def)
  then have "patch_is_step api ns cur env backup (dyn_name v) (dyn_resource_version v) (Some (own_lock env backup))
      (desired_target env backup) w" for w
    using read_patch_is_step [OF read] by blast
  then show ?thesis using assms(1) by (simp add: take_lock_def)
qed

lemma release_target_lock_steps:
  assumes "storage_namespace env = ns"
  shows "release_target_lock (only_steps api ns cur env backup p) env backup enabled w =
    release_target_lock api env backup enabled w"
proof -
  have "patch_is_step api ns cur env backup (dyn_name v) (dyn_resource_version v) None ''default'' w2"
    if vol: "backup_volume api env backup w = (Inr (Some v), w1)"
      and lock: "bt_get (dyn_annotations v) TARGET_LOCK = Some (own_lock env backup)" for v w1 w2
  proof -
    obtain n w0 where read: "ba_longhorn_get_opt api ns n w0 = (Inr (Some v), w1)"
      using backup_volume_read [OF vol assms] .
    show ?thesis
      by (rule read_patch_is_step [OF read]) (use lock in \<open>simp add: lock_of_def lock_step.drop\<close>)
  qed
  then show ?thesis
    using assms
    by (auto simp: release_target_lock_def same_calls emap_err_def split: prod.splits sum.splits option.splits
        backup_error.splits kube_error.splits)
qed

lemma acquire_target_lock_steps:
  assumes ns: "storage_namespace env = ns"
  shows "acquire_target_lock (only_steps api ns cur env backup p) env backup enabled w =
    acquire_target_lock api env backup enabled w"
proof (cases enabled)
  case True
  have "take_lock (only_steps api ns cur env backup p) env backup v = take_lock api env backup v"
    if vol: "backup_volume api env backup w = (Inr (Some v), w1)"
      and lock: "bt_get (dyn_annotations v) TARGET_LOCK \<noteq> Some (own_lock env backup)" for v w1
  proof -
    obtain n w0 where read: "ba_longhorn_get_opt api ns n w0 = (Inr (Some v), w1)"
      using backup_volume_read [OF vol ns] .
    show ?thesis using take_lock_steps [OF ns read lock] .
  qed
  then show ?thesis
    unfolding acquire_target_lock_def same_calls
    by (simp add: True Let_def) (intro ebind_cong_at, auto split: option.splits simp: Let_def cong: if_cong)
next
  case False
  then show ?thesis by (simp add: acquire_target_lock_def same_calls)
qed

lemma reconcile_backup_steps:
  assumes ns: "storage_namespace env = ns"
  shows "reconcile_backup (only_steps api ns cur env backup p) env namespace backup =
    reconcile_backup api env namespace backup"
proof -
  have report: "report_progress (only_steps api ns cur env backup p) env backup = report_progress api env backup"
    by (intro ext) (simp add: report_progress_def same_calls release_target_lock_steps [OF ns] Let_def
        ebind_apply split: prod.splits sum.splits)
  have live: "reconcile_live (only_steps api ns cur env backup p) env namespace backup existing =
      reconcile_live api env namespace backup existing" for existing
    by (simp add: reconcile_live_def report same_calls split: option.splits)
  have release: "release_target_lock (only_steps api ns cur env backup p) env backup enabled =
      release_target_lock api env backup enabled" for enabled
    by (rule ext) (rule release_target_lock_steps [OF ns])
  have deleted: "reconcile_deleted (only_steps api ns cur env backup p) env backup = reconcile_deleted api env backup"
    by (simp only: reconcile_deleted_def same_calls release)
  have acquire: "acquire_target_lock (only_steps api ns cur env backup p) env backup enabled =
      acquire_target_lock api env backup enabled" for enabled
    by (rule ext) (rule acquire_target_lock_steps [OF ns])
  show ?thesis
    unfolding reconcile_backup_def same_calls deleted live acquire by (simp only: same_calls)
qed

lemma take_lock_True:
  assumes "take_lock api env backup v w = (Inr True, w')" and "storage_namespace env = ns"
  shows "\<exists>u. cur w' (dyn_name v) = Some u \<and>
    lock_of u = (Some (own_lock env backup), JStr (desired_target env backup))"
proof -
  from assms have "ba_longhorn_patch api ns (dyn_name v) (dyn_resource_version v) (Some (own_lock env backup))
      (desired_target env backup) w = (Inr (), w')"
    by (auto simp: take_lock_def split: prod.splits sum.splits kube_error.splits if_splits)
  then show ?thesis using patch_swaps by blast
qed

lemma acquired_lock:
  assumes "acquire_target_lock api env backup True w = (Inr True, w')" and ns: "storage_namespace env = ns"
  shows "\<exists>n u. cur w' n = Some u \<and> lock_of u = (Some (own_lock env backup), JStr (desired_target env backup))"
proof -
  obtain v w1 where vol: "backup_volume api env backup w = (Inr (Some v), w1)"
    and cont: "bt_get (dyn_annotations v) TARGET_LOCK = Some (own_lock env backup) \<and> w' = w1 \<and>
        dyn_at v ''spec'' ''backupTargetName'' = JStr (desired_target env backup) \<or>
      (\<exists>w2. take_lock api env backup v w2 = (Inr True, w'))"
    using acquire_True [OF assms(1)] by blast
  obtain n w0 where read: "ba_longhorn_get_opt api ns n w0 = (Inr (Some v), w1)"
    using backup_volume_read [OF vol ns] .
  from cont show ?thesis
  proof
    assume "\<exists>w2. take_lock api env backup v w2 = (Inr True, w')"
    then show ?thesis using take_lock_True [OF _ ns] by blast
  qed (use read_current [OF read] in \<open>auto simp: lock_of_def\<close>)
qed

end

lemma lock_history_consistent:
  assumes "lock_history env backups s" and "\<And>b c. b \<in> backups \<Longrightarrow> c \<in> backups \<Longrightarrow> fb_id (bk_spec b) = fb_id (bk_spec c) \<Longrightarrow> b = c"
    and "uuid_text (be_uuids env)"
  shows "(fst s = None \<longrightarrow> snd s = JStr ''default'') \<and>
    (\<forall>b\<in>backups. fst s = Some (own_lock env b) \<longrightarrow> snd s = JStr (desired_target env b))"
  using assms
proof (induction rule: lock_history.induct)
  case (step s backup s')
  note show_eq = uuid_text.show_eq_iff [OF step.prems(2)]
  from \<open>lock_step env backup s s'\<close> show ?case
    using step.prems(1) \<open>backup \<in> backups\<close> by cases (auto simp: show_eq)
qed simp

text \<open>
  C4. The controller refines the abstract lock of a volume: every patch of a volume that a pass over a
  backup makes, and that succeeds, is a step of that backup: it takes the lock, which another
  backup or nobody holds at that moment, and sets its own destination, or gives back its own lock and
  sets the default destination. This holds however other clients change the volume between the
  calls. Hypotheses: the documented optimistic concurrency of the server.
\<close>

theorem reconcile_refines_lock:
  assumes "volume_store api (storage_namespace env) cur"
  shows "reconcile_backup
      (api\<lparr>ba_longhorn_patch := (\<lambda>m n rv l t w.
        if m = storage_namespace env \<and> patch_is_step api (storage_namespace env) cur env backup n rv l t w
        then ba_longhorn_patch api m n rv l t w else p m n rv l t w)\<rparr>) env namespace backup =
    reconcile_backup api env namespace backup"
  using volume_store.reconcile_backup_steps [OF assms] by blast

text \<open>
  A transfer goes to the destination of its backup: when the lock is granted, the volume carries
  the lock of the backup and is directed to its destination, and the backup held the lock before or
  found its holder and all other transfers of the claim completed. In every history of the lock,
  whatever backups take part, a volume that nobody holds is directed to the default
  destination, and one that a backup holds to the destination of that backup. Hypotheses: the
  documented optimistic concurrency of the server, and identifiers that are shown without collision.
\<close>

theorem lock_directs_to_own_destination:
  assumes "volume_store api (storage_namespace env) cur" and "uuid_text (be_uuids env)"
    and "acquire_target_lock api env backup True w = (Inr True, w')"
    and "\<And>b c. b \<in> backups \<Longrightarrow> c \<in> backups \<Longrightarrow> fb_id (bk_spec b) = fb_id (bk_spec c) \<Longrightarrow> b = c"
  shows "(\<exists>n u. cur w' n = Some u \<and> lock_of u = (Some (own_lock env backup), JStr (desired_target env backup))) \<and>
    (\<exists>v w1. backup_volume api env backup w = (Inr (Some v), w1) \<and>
       (fst (lock_of v) = Some (own_lock env backup) \<or> idle_takeover api env backup v w1)) \<and>
    (\<forall>s. lock_history env backups s \<longrightarrow>
       (fst s = None \<longrightarrow> snd s = JStr ''default'') \<and>
       (\<forall>b\<in>backups. fst s = Some (own_lock env b) \<longrightarrow> snd s = JStr (desired_target env b)))"
proof (intro conjI)
  show "\<exists>n u. cur w' n = Some u \<and> lock_of u = (Some (own_lock env backup), JStr (desired_target env backup))"
    using volume_store.acquired_lock [OF assms(1,3) refl] .
  show "\<exists>v w1. backup_volume api env backup w = (Inr (Some v), w1) \<and>
      (fst (lock_of v) = Some (own_lock env backup) \<or> idle_takeover api env backup v w1)"
    unfolding lock_of_def fst_conv using acquire_True [OF assms(3)] by blast
  show "\<forall>s. lock_history env backups s \<longrightarrow> (fst s = None \<longrightarrow> snd s = JStr ''default'') \<and>
      (\<forall>b\<in>backups. fst s = Some (own_lock env b) \<longrightarrow> snd s = JStr (desired_target env b))"
    using lock_history_consistent [OF _ assms(4,2)] by blast
qed

section \<open>A store with versions\<close>

text \<open>
  A store of volumes for which the interface holds: the world gives the lock of every volume, and the
  version of a volume is a code of its lock.
\<close>

definition version_code :: "string option \<times> string \<Rightarrow> string" where
  "version_code c = code_option code_string (fst c) @ snd c"

lemma version_code_inj: "version_code c = version_code d \<Longrightarrow> c = d"
  by (simp add: version_code_def code_eqs prod_eq_iff)

type_synonym lock_world = "string \<Rightarrow> (string option \<times> string) option"

definition stored_volume :: "string \<Rightarrow> string option \<times> string \<Rightarrow> dynamic_object" where
  "stored_volume n c =
     \<lparr>dyn_name = n, dyn_resource_version = Some (version_code c), dyn_labels = None,
      dyn_annotations = (case fst c of None \<Rightarrow> [] | Some s \<Rightarrow> [(TARGET_LOCK, s)]),
      dyn_data = jobj [(''spec'', jobj [(''backupTargetName'', JStr (snd c))])]\<rparr>"

lemma lock_of_stored_volume [simp]: "lock_of (stored_volume n c) = (fst c, JStr (snd c))"
  by (simp add: lock_of_def stored_volume_def jget_jobj unwrap_or_def split: option.splits)

definition stored :: "lock_world \<Rightarrow> string \<Rightarrow> dynamic_object option" where
  "stored w n = map_option (stored_volume n) (w n)"

definition store_patch ::
  "string \<Rightarrow> string option \<Rightarrow> string option \<Rightarrow> string \<Rightarrow> (lock_world, kube_error, unit) effect" where
  "store_patch n rv l t w =
     (case stored w n of
        None \<Rightarrow> (Inl (Api_Error 404), w)
      | Some v \<Rightarrow> if dyn_resource_version v = rv then (Inr (), w(n \<mapsto> (l, t))) else (Inl (Api_Error 409), w))"

text \<open>The other calls: one claim, bound to the volume \<open>vol\<close>, and no snapshot or service.\<close>

definition store_claim :: home_claim where
  "store_claim =
     \<lparr>pvc_requests = Some [(''storage'', ''1Gi'')], pvc_capacity = Some [(''storage'', ''1Gi'')], pvc_conditions = None,
      hc_uid = Some ''uid'', hc_deletion_timestamp = None, hc_owner_references = None, hc_phase = Some ''Bound'',
      hc_volume_name = Some ''pv'', hc_data_source_name = None\<rparr>"

definition store_volume :: persistent_volume where
  "store_volume = Some \<lparr>pv_csi = Some \<lparr>csi_driver = ''driver.longhorn.io'', csi_volume_handle = ''vol''\<rparr>,
     pv_capacity = Some [(''storage'', ''1Gi'')], pv_claim_uid = Some ''uid''\<rparr>"

definition store_api :: "lock_world backup_api" where
  "store_api =
     \<lparr>ba_now = (\<lambda>_. 0), ba_new_uuid = (\<lambda>_. 7), ba_backup_get_opt = (\<lambda>_. eret None), ba_backups_list = eret [],
      ba_backup_create = eret, ba_backup_delete = (\<lambda>_ _ _. eret ()), ba_backup_patch_status = (\<lambda>_ _. eret ()),
      ba_backup_patch_finalizers = (\<lambda>_ _ _. eret ()), ba_backup_patch_annotations = (\<lambda>_ _ _. eret ()),
      ba_snapshot_get_opt = (\<lambda>_. eret None), ba_snapshots_list = eret [],
      ba_snapshot_apply = (\<lambda>n _. eret (stored_volume n (None, []))), ba_snapshot_delete = (\<lambda>_. eret ()),
      ba_snapshot_class_get = (\<lambda>_. efail (Api_Error 404)), ba_claim_get_opt = (\<lambda>_. eret (Some store_claim)),
      ba_claims_labelled = (\<lambda>_. eret []), ba_claim_create = (\<lambda>_. eret ()),
      ba_volume_get = (\<lambda>_. eret store_volume), ba_longhorn_get = (\<lambda>_ _. efail (Api_Error 404)),
      ba_longhorn_get_opt = (\<lambda>_ n w. (Inr (stored w n), w)), ba_longhorn_patch = (\<lambda>_. store_patch),
      ba_service_get_opt = (\<lambda>_. eret None), ba_services_list = eret [],
      ba_destinations = (\<lambda>_. \<lparr>da_class_get = (\<lambda>_. efail (Api_Error 404)), da_class_get_opt = (\<lambda>_. eret None),
         da_class_apply = (\<lambda>_ _. eret ()), da_target_get = (\<lambda>_. efail (Api_Error 404)),
         da_target_get_opt = (\<lambda>_. eret None), da_target_apply = (\<lambda>_ _. efail (Api_Error 404)),
         da_secret_get_opt = (\<lambda>_. eret None), da_secret_apply = (\<lambda>_ _. eret ())\<rparr>)\<rparr>"

interpretation versioned: volume_store store_api ns stored
proof unfold_locales
  fix n w r w'
  assume "ba_longhorn_get_opt store_api ns n w = (Inr r, w')"
  then show "stored w' n = r" by (auto simp: store_api_def)
next
  fix n w v w'
  assume "ba_longhorn_get_opt store_api ns n w = (Inr (Some v), w')"
  then show "dyn_name v = n" by (auto simp: store_api_def stored_def stored_volume_def)
next
  fix n w v w' w'' v'
  assume "ba_longhorn_get_opt store_api ns n w = (Inr (Some v), w')" and "stored w'' n = Some v'"
    and "dyn_resource_version v' = dyn_resource_version v"
  then show "v' = v" by (auto simp: store_api_def stored_def stored_volume_def dest: version_code_inj)
next
  fix n rv l t w w'
  assume "ba_longhorn_patch store_api ns n rv l t w = (Inr (), w')"
  then show "\<exists>v v'. stored w n = Some v \<and> dyn_resource_version v = rv \<and> stored w' n = Some v' \<and> lock_of v' = (l, JStr t)"
    by (auto simp: store_api_def store_patch_def stored_def split: option.splits if_splits)
qed

definition sample_env :: backup_env where
  "sample_env =
     \<lparr>be_uuids = hex_uuids, be_destinations_enabled = Some ''true'', be_storage_namespace = None,
      be_parse_rfc3339 = (\<lambda>_. None), be_show_rfc3339 = (\<lambda>_. []), be_json_parse = (\<lambda>_. None), be_json_show = (\<lambda>_. [])\<rparr>"

definition sample_backup :: "uuid \<Rightarrow> flash_backup_status option \<Rightarrow> flash_backup" where
  "sample_backup uuid status =
     \<lparr>bk_meta = (plain_meta (bname sample_env uuid))\<lparr>meta_finalizers := [FINALIZER], meta_uid := Some ''b''\<rparr>,
      bk_labels = None, bk_creation_timestamp = Some 0,
      bk_spec = \<lparr>fb_id = uuid, fb_name = ''nightly'', fb_organization_id = 1, fb_project_id = 2, fb_service_instance_id = 3,
        fb_source_pvc = ''flash-3-home'', fb_source_pvc_uid = ''uid'', fb_volume_size_bytes = 1073741824,
        fb_snapshot_class = ''backup'', fb_destination_id = None\<rparr>, bk_status = status\<rparr>"

theorem reconcile_refines_lock_witness:
  "reconcile_backup
      (store_api\<lparr>ba_longhorn_patch := (\<lambda>m n rv l t w.
        if m = ''longhorn-system'' \<and>
           patch_is_step store_api ''longhorn-system'' stored sample_env (sample_backup 9 None) n rv l t w
        then store_patch n rv l t w else (Inl (Client_Error ''refused''), w))\<rparr>) sample_env ''flash'' (sample_backup 9 None) =
    reconcile_backup store_api sample_env ''flash'' (sample_backup 9 None)"
proof -
  have "storage_namespace sample_env = ''longhorn-system''" "ba_longhorn_patch store_api = (\<lambda>_. store_patch)"
    by (simp_all add: storage_namespace_def sample_env_def unwrap_or_def store_api_def)
  then show ?thesis
    using reconcile_refines_lock [OF versioned.volume_store_axioms, of sample_env "sample_backup 9 None"
        "\<lambda>_ _ _ _ _ w. (Inl (Client_Error ''refused''), w)" "''flash''"] by (simp cong: if_cong)
qed

lemma store_api_calls:
  "ba_longhorn_get_opt store_api = (\<lambda>_ n w. (Inr (stored w n), w))"
  "ba_longhorn_patch store_api = (\<lambda>_. store_patch)" "ba_snapshots_list store_api = eret []"
  "ba_claim_get_opt store_api = (\<lambda>_. eret (Some store_claim))" "ba_volume_get store_api = (\<lambda>_. eret store_volume)"
  by (simp_all add: store_api_def)

lemma sample_backup_volume:
  "backup_volume store_api sample_env (sample_backup uuid status) w = (Inr (stored w ''vol''), w)"
  by (simp add: backup_volume_def store_api_calls ebind_apply emap_err_def store_claim_def store_volume_def
      sample_backup_def ok_or_def filter_opt_def)

lemma sample_take_lock:
  "take_lock store_api sample_env (sample_backup 9 None) (stored_volume ''vol'' c) [''vol'' \<mapsto> c] =
     (Inr True, [''vol'' \<mapsto> (Some (uuid_show hex_uuids 9), ''default'')])"
  by (simp add: take_lock_def store_api_calls store_patch_def stored_def stored_volume_def desired_target_def
      sample_backup_def sample_env_def)

lemma sample_acquire:
  "acquire_target_lock store_api sample_env (sample_backup 9 None) True [''vol'' \<mapsto> (None, ''default'')] =
     (Inr True, [''vol'' \<mapsto> (Some (uuid_show hex_uuids 9), ''default'')])"
proof -
  have "bt_get (dyn_annotations (stored_volume ''vol'' (None, ''default''))) TARGET_LOCK = None"
    by (simp add: stored_volume_def)
  moreover have "destination_ready store_api sample_env (sample_backup 9 None) w = (Inr True, w)" for w
    by (simp add: destination_ready_def sample_backup_def)
  ultimately show ?thesis
    by (simp add: acquire_target_lock_def ebind_apply sample_backup_volume stored_def Let_def holder_busy_def
        store_api_calls emap_err_def sample_take_lock)
qed

theorem lock_directs_to_own_destination_witness:
  "\<exists>n u. stored [''vol'' \<mapsto> (Some (uuid_show hex_uuids 9), ''default'')] n = Some u \<and>
     lock_of u = (Some (uuid_show hex_uuids 9), JStr ''default'')"
  using lock_directs_to_own_destination [OF versioned.volume_store_axioms _ sample_acquire,
      of "{sample_backup 9 None}"] hex.uuid_text_axioms
  by (auto simp: sample_env_def sample_backup_def desired_target_def)

end
