(* ===== verification/Backup_Properties.thy ===== *)
theory Backup_Properties
  imports Volume_Lock
begin

text \<open>
  Properties of the controller and of the API of backups: completed backups, the statuses that are
  written, restorations, deletion, creation, and the sizes of disks.
\<close>

section \<open>A completed backup is not taken again\<close>

lemma reconcile_deleted_calls:
  "reconcile_deleted (api\<lparr>ba_snapshot_apply := a\<rparr>) = reconcile_deleted api"
  "reconcile_deleted (api\<lparr>ba_backup_patch_status := t\<rparr>) = reconcile_deleted api"
  by (intro ext, simp only: reconcile_deleted_def same_calls)+

lemma reconcile_live_completed:
  assumes "is_completed backup"
  shows "reconcile_live (api\<lparr>ba_snapshot_apply := a\<rparr>) env ns backup = reconcile_live api env ns backup"
  using assms by (auto simp: reconcile_live_def same_calls fun_eq_iff split: option.splits)

text \<open>
  C20. A completed backup is never taken again from a later state of its disk: the controller makes no
  call that applies a snapshot for a backup whose phase is ready or error, and when the snapshot of
  such a backup is missing it only reports that.
\<close>

theorem completed_backup_not_retaken:
  assumes "is_completed backup"
  shows "reconcile_backup (api\<lparr>ba_snapshot_apply := a\<rparr>) env ns backup = reconcile_backup api env ns backup \<and>
    (\<not> bk_deleting backup \<and> ba_snapshot_get_opt api (bk_name backup) w = (Inr None, w') \<longrightarrow>
     reconcile_backup api env ns backup w = write_status api backup missing_snapshot_status w')"
proof
  show "reconcile_backup (api\<lparr>ba_snapshot_apply := a\<rparr>) env ns backup = reconcile_backup api env ns backup"
    by (intro ext) (simp only: reconcile_backup_def reconcile_deleted_calls same_calls
        reconcile_live_completed [OF assms])
  show "\<not> bk_deleting backup \<and> ba_snapshot_get_opt api (bk_name backup) w = (Inr None, w') \<longrightarrow>
     reconcile_backup api env ns backup w = write_status api backup missing_snapshot_status w'"
    using assms
    by (auto simp: reconcile_backup_def ebind_apply emap_err_def reconcile_live_def)
qed

section \<open>The statuses the controller writes\<close>

definition status_wf :: "flash_backup_status \<Rightarrow> bool" where
  "status_wf v \<longleftrightarrow>
     fbs_phase v \<in> {''creating'', ''ready'', ''error''} \<and>
     (fbs_message v \<noteq> None \<longleftrightarrow> fbs_phase v = ''error'') \<and> (fbs_completed_at v \<noteq> None \<longleftrightarrow> fbs_phase v = ''ready'')"

lemma status_wf_written [simp]:
  "status_wf missing_snapshot_status" "status_wf (waiting_status late)" "status_wf source_unavailable_status"
  "status_wf (progress_status backup (progress_phase snapshot late) now)"
  by (simp_all add: status_wf_def missing_snapshot_status_def waiting_status_def source_unavailable_status_def
      progress_status_def progress_phase_def)

text \<open>
  What a patch of a backup does to a document, in the semantics of RFC 7386: outside of the status only the resource version is concerned,
  and of the status only three fields. The phase is replaced. In the phase error the message is replaced too, and in the phase ready the
  time of completion; in the other phases the stored message, or time, stays.
\<close>

definition status_patch_wf :: "json \<Rightarrow> bool" where
  "status_patch_wf patch \<longleftrightarrow>
     (\<forall>doc k. k \<noteq> ''status'' \<and> k \<noteq> ''metadata'' \<longrightarrow> jget_opt (rfc7386 doc patch) k = jget_opt doc k) \<and>
     (\<forall>doc k. k \<noteq> ''resourceVersion'' \<longrightarrow>
        jget_opt (jget (rfc7386 doc patch) ''metadata'') k = jget_opt (jget doc ''metadata'') k) \<and>
     (\<exists>phase\<in>{''creating'', ''ready'', ''error''}. \<exists>message time. \<forall>doc k.
        jget_opt (jget (rfc7386 doc patch) ''status'') k =
          (if k = ''phase'' then Some (JStr phase)
           else if k = ''message'' \<and> phase = ''error'' then Some (JStr message)
           else if k = ''completed_at'' \<and> phase = ''ready'' then Some (JNum time)
           else jget_opt (jget doc ''status'') k))"

lemma backup_status_merged:
  "jget_opt (rfc7386 c (backup_status_json v)) k =
     (if k = ''phase'' then Some (JStr (fbs_phase v))
      else if k = ''message'' \<and> fbs_message v \<noteq> None then map_option JStr (fbs_message v)
      else if k = ''completed_at'' \<and> fbs_completed_at v \<noteq> None then map_option JNum (fbs_completed_at v)
      else jget_opt c k)"
proof -
  obtain es where es: "backup_status_json v = jobj es" "map_of (rev es) = map_of (rev
      (List.map_filter (\<lambda>(k, v). map_option (Pair k) v)
        [(''phase'', Some (JStr (fbs_phase v))), (''message'', map_option JStr (fbs_message v)),
         (''completed_at'', map_option JNum (fbs_completed_at v))]))"
    by (simp add: backup_status_json_def jfields_def)
  have "map_of (rev es) k =
     (if k = ''phase'' then Some (JStr (fbs_phase v))
      else if k = ''message'' then map_option JStr (fbs_message v)
      else if k = ''completed_at'' then map_option JNum (fbs_completed_at v) else None)"
    by (cases "fbs_message v"; cases "fbs_completed_at v") (simp_all add: es(2) List.map_filter_def)
  then show ?thesis
    unfolding es(1) by (auto intro!: merge_jobj_value merge_jobj_absent simp: jobject_def simp del: rfc7386.simps)
qed

lemma status_patch_wf_written:
  assumes "status_wf v"
  shows "status_patch_wf (jobj [(''metadata'', jobj [(''resourceVersion'', version)]), (''status'', backup_status_json v)])"
proof -
  let ?p = "jobj [(''metadata'', jobj [(''resourceVersion'', version)]), (''status'', backup_status_json v)]"
  have body: "jget (rfc7386 doc ?p) ''status'' = rfc7386 (jget doc ''status'') (backup_status_json v)" for doc
    unfolding backup_status_json_def jfields_def by (rule merge_jobj_object) simp
  have "\<exists>message time. \<forall>doc k. jget_opt (jget (rfc7386 doc ?p) ''status'') k =
      (if k = ''phase'' then Some (JStr (fbs_phase v))
       else if k = ''message'' \<and> fbs_phase v = ''error'' then Some (JStr message)
       else if k = ''completed_at'' \<and> fbs_phase v = ''ready'' then Some (JNum time)
       else jget_opt (jget doc ''status'') k)"
    by (rule exI [of _ "the (fbs_message v)"], rule exI [of _ "the (fbs_completed_at v)"])
       (use assms in \<open>auto simp: body backup_status_merged status_wf_def simp del: rfc7386.simps\<close>)
  moreover have "fbs_phase v \<in> {''creating'', ''ready'', ''error''}" using assms by (simp add: status_wf_def)
  ultimately show ?thesis
    unfolding status_patch_wf_def
    by (intro conjI) (auto simp: merge_jobj_absent merge_jobj_object simp del: rfc7386.simps)
qed

text \<open>The same server, with another answer to a patch that is not well formed.\<close>

abbreviation only_wf_status ::
  "'w backup_api \<Rightarrow> (string \<Rightarrow> json \<Rightarrow> ('w, kube_error, unit) effect) \<Rightarrow> 'w backup_api" where
  "only_wf_status api t \<equiv>
     api\<lparr>ba_backup_patch_status := (\<lambda>n p. if status_patch_wf p then ba_backup_patch_status api n p else t n p)\<rparr>"

lemma write_status_wf: "status_wf v \<Longrightarrow> write_status (only_wf_status api t) backup v = write_status api backup v"
  by (simp add: write_status_def status_patch_wf_written)

lemma report_progress_wf: "report_progress (only_wf_status api t) env backup = report_progress api env backup"
  by (simp add: report_progress_def write_status_wf same_calls fun_eq_iff cong: if_cong)

lemma reconcile_backup_wf:
  "reconcile_backup (only_wf_status api t) env ns backup = reconcile_backup api env ns backup"
proof -
  have "reconcile_live (only_wf_status api t) env ns backup existing = reconcile_live api env ns backup existing"
    for existing
    by (simp add: reconcile_live_def report_progress_wf write_status_wf same_calls split: option.splits)
  then show ?thesis
    by (simp add: reconcile_backup_def reconcile_deleted_calls same_calls write_status_wf cong: if_cong)
qed

text \<open>
  C33. What the controller does to the stored status of a backup: every patch of a tick sets the phase to creating, ready or error,
  sets a message when the phase is error and a time of completion when it is ready, and changes nothing else of the stored object. It removes
  neither of them: a message stays stored when the backup leaves the phase error, and a time when it leaves the phase ready. A tick is the
  same whatever the server does with a patch of another effect.
\<close>

theorem controller_writes_wf_statuses:
  "controller_tick
     (api\<lparr>ba_backup_patch_status := (\<lambda>n p. if status_patch_wf p then ba_backup_patch_status api n p else t n p)\<rparr>)
     env ns = controller_tick api env ns"
proof -
  have "controller_step (only_wf_status api t) env ns backup = controller_step api env ns backup" for backup
    by (simp add: controller_step_def reconcile_backup_wf write_status_wf cong: sum.case_cong if_cong)
  then have "controller_step (only_wf_status api t) env ns = controller_step api env ns" by (rule ext)
  then show ?thesis by (simp add: controller_tick_def)
qed

section \<open>Restorations protect a backup\<close>

lemma any_restoring_False:
  assumes "any_restoring api env uuid services w = (Inr False, w')" and "flash \<in> set services"
    and "fs_restore_from_backup_id (workload flash) = Some uuid" and "meta_deletion_timestamp (fsv_meta flash) = None"
  shows "\<exists>w1 w2 pvc w3. ba_claim_get_opt api (flash_name flash @ ''-home'') w1 = (Inr (Some pvc), w2) \<and>
    disk_restore_complete api env pvc w2 = (Inr True, w3)"
  using assms
proof (induction services arbitrary: w)
  case (Cons f services)
  show ?case
  proof (cases "f = flash")
    case True
    with Cons.prems obtain found w1 pending w2 where
      "ba_claim_get_opt api (flash_name flash @ ''-home'') w = (Inr found, w1)"
      and "(case found of Some pvc \<Rightarrow> ebind (disk_restore_complete api env pvc) (\<lambda>complete. eret (\<not> complete))
            | None \<Rightarrow> eret True) w1 = (Inr pending, w2)" and "\<not> pending"
      by (auto elim!: ebind_Inr split: if_splits)
    then show ?thesis by (cases found) (auto elim!: ebind_Inr, blast)
  next
    case False
    then show ?thesis
      using Cons by (auto elim!: ebind_Inr split: if_splits)
  qed
qed simp

lemma restore_pending_not_False:
  assumes "\<forall>w services w'. ba_services_list api w = (Inr services, w') \<longrightarrow> flash \<in> set services"
    and "fs_restore_from_backup_id (workload flash) = Some uuid" and "meta_deletion_timestamp (fsv_meta flash) = None"
    and "\<forall>w w1 pvc w2. ba_claim_get_opt api (flash_name flash @ ''-home'') w = (Inr (Some pvc), w1) \<longrightarrow>
      disk_restore_complete api env pvc w1 \<noteq> (Inr True, w2)"
  shows "restore_pending api env uuid w \<noteq> (Inr False, w')"
proof
  assume "restore_pending api env uuid w = (Inr False, w')"
  then obtain services w1 w2 where "ba_services_list api w1 = (Inr services, w2)"
    and "any_restoring api env uuid services w2 = (Inr False, w')"
    by (auto simp: restore_pending_def elim!: ebind_Inr split: if_splits)
  with any_restoring_False [of api env uuid services w2 w' flash] assms show False by blast
qed

lemma ebind_pending:
  assumes "\<And>w'. m w \<noteq> (Inr False, w')" and "f True = f' True"
  shows "ebind m f w = ebind m f' w"
  using assms by (intro ebind_cong_at) (auto, metis (full_types))

text \<open>
  C16. While a service that lives is still restoring its disk from a backup, nothing of the backup is
  deleted: the API does not delete it, and the controller neither deletes its snapshot, nor gives
  back its lock, nor removes its finalizer. Hypotheses: the service is listed, and whenever its
  disk is looked at, the restoration is not complete.
\<close>

theorem restoring_service_protects_backup:
  assumes "\<forall>w services w'. ba_services_list api w = (Inr services, w') \<longrightarrow> flash \<in> set services"
    and "fs_restore_from_backup_id (workload flash) = Some uuid" and "meta_deletion_timestamp (fsv_meta flash) = None"
    and "\<forall>w w1 pvc w2. ba_claim_get_opt api (flash_name flash @ ''-home'') w = (Inr (Some pvc), w1) \<longrightarrow>
      disk_restore_complete api env pvc w1 \<noteq> (Inr True, w2)"
    and "fb_id (bk_spec backup) = uuid" and "bk_deleting backup"
  shows "delete_backup (api\<lparr>ba_backup_delete := d\<rparr>) env uuid claims = delete_backup api env uuid claims \<and>
    reconcile_backup (api\<lparr>ba_snapshot_delete := g, ba_longhorn_patch := p, ba_backup_patch_finalizers := q\<rparr>)
      env ns backup = reconcile_backup api env ns backup"
proof
  have pending: "restore_pending api env uuid w \<noteq> (Inr False, w')" for w w'
    using restore_pending_not_False [OF assms(1-4)] by blast
  have get: "get_backup (api\<lparr>ba_backup_delete := d\<rparr>) = get_backup api"
    by (intro ext) (simp only: get_backup_def reads)
  show "delete_backup (api\<lparr>ba_backup_delete := d\<rparr>) env uuid claims = delete_backup api env uuid claims"
    unfolding delete_backup_def get same_calls
    by (rule ext) (auto simp: ebind_apply pending split: prod.splits sum.splits intro!: ebind_pending)
  show "reconcile_backup (api\<lparr>ba_snapshot_delete := g, ba_longhorn_patch := p, ba_backup_patch_finalizers := q\<rparr>)
      env ns backup = reconcile_backup api env ns backup"
    unfolding reconcile_backup_def reconcile_deleted_def assms(5) same_calls
    by (rule ext) (auto simp: assms(6) ebind_apply pending split: prod.splits sum.splits intro!: ebind_pending)
qed

text \<open>
  The finalizer of a deleted backup stays, and so does its lock, while an offsite copy uses the
  backup, while a restoration is pending, and while its snapshot still exists.
\<close>

theorem finalizer_waits:
  assumes "bk_deleting backup"
    and "offsite_locked env (ba_now api w) backup \<or>
      restore_pending api env (fb_id (bk_spec backup)) w = (Inr True, w1) \<or>
      restore_pending api env (fb_id (bk_spec backup)) w = (Inr False, w1) \<and>
        ba_snapshot_get_opt api (bk_name backup) w1 = (Inr (Some snapshot), w2)"
  shows "reconcile_backup (api\<lparr>ba_longhorn_patch := p, ba_backup_patch_finalizers := q\<rparr>) env ns backup w =
    reconcile_backup api env ns backup w"
  using assms unfolding reconcile_backup_def reconcile_deleted_def same_calls
  by (auto simp: ebind_apply emap_err_def)

section \<open>Creation\<close>

lemma create_attempt_Some:
  assumes "create_attempt api env class claims request w = (Inr (Some b), w')"
    and echo: "\<forall>b w b' w'. ba_backup_create api b w = (Inr b', w') \<longrightarrow> bk_spec b' = bk_spec b \<and> \<not> bk_deleting b'"
  shows "check_scope b claims = Inr () \<and> same_request b request"
proof -
  from assms(1) obtain found w1 where run: "(case found of
        Some existing \<Rightarrow>
          ebind (etry (check_scope existing claims)) (\<lambda>_.
          if \<not> same_request existing request
          then efail (BackupConflict ''backup identifier was already used for another request'')
          else eret (Some existing))
      | None \<Rightarrow> create_new api env class claims request) w1 = (Inr (Some b), w')"
    by (auto simp: create_attempt_def elim: ebind_Inr split: if_splits)
  show ?thesis
  proof (cases found)
    case None
    with run obtain w2 where "ba_backup_create api (new_backup env class claims request) w2 = (Inr b, w')"
      by (auto simp: create_new_def elim!: ebind_Inr split: if_splits prod.splits sum.splits kube_error.splits)
    then show ?thesis
      using echo by (fastforce simp: new_backup_def check_scope_def same_request_def ensure_def Let_def)
  qed (use run in \<open>auto elim!: ebind_Inr split: if_splits\<close>)
qed

text \<open>
  A backup that \<open>create\<close> returns lies in the scope of the caller, that is its organization, project
  and service, describes exactly the request, and is not being deleted, whether it was created now,
  before, or meanwhile by another caller. Hypothesis: the server stores the specification it is sent.
\<close>

theorem create_scoped:
  assumes "create n api env class claims request w = Some (Inr b, w')"
    and "\<forall>b w b' w'. ba_backup_create api b w = (Inr b', w') \<longrightarrow> bk_spec b' = bk_spec b \<and> \<not> bk_deleting b'"
  shows "fb_organization_id (bk_spec b) = tk_organization_id claims \<and> fb_project_id (bk_spec b) = tk_project_id claims \<and>
    fb_service_instance_id (bk_spec b) = tk_service_instance_id claims \<and> fb_name (bk_spec b) = rq_name request \<and>
    fb_source_pvc_uid (bk_spec b) = rq_source_pvc_uid request \<and>
    fb_volume_size_bytes (bk_spec b) = rq_volume_size_bytes request \<and>
    fb_destination_id (bk_spec b) = rq_destination_id request \<and> \<not> bk_deleting b"
proof -
  have "check_scope b claims = Inr () \<and> same_request b request"
    using assms(1)
  proof (induction n arbitrary: w)
    case (Suc n)
    then show ?case
      using create_attempt_Some [OF _ assms(2)] by (auto split: prod.splits sum.splits option.splits)
  qed simp
  then show ?thesis by (auto simp: check_scope_def same_request_def ensure_def split: if_splits)
qed

text \<open>
  The recursion of \<open>create\<close> ends after at most two rounds, with a backup or an error. Hypothesis: after
  the server has refused a name as taken, a lookup of the name does not answer that it is free.
\<close>

theorem create_terminates:
  assumes "\<And>w w' w''. ba_backup_create api (new_backup env class claims request) w = (Inl (Api_Error 409), w') \<Longrightarrow>
      ba_backup_get_opt api (bname env (rq_id request)) w' \<noteq> (Inr None, w'')"
  shows "\<exists>r. create 2 api env class claims request w = Some r"
proof -
  have retry: "\<exists>w2. ba_backup_create api (new_backup env class claims request) w2 = (Inl (Api_Error 409), w')"
    if "create_attempt api env class claims request w = (Inr None, w')" for w w'
    using that by (auto simp: create_attempt_def create_new_def elim!: ebind_Inr
        split: if_splits prod.splits sum.splits option.splits kube_error.splits) blast
  have settled: "create_attempt api env class claims request w' \<noteq> (Inr None, w'')"
    if "create_attempt api env class claims request w = (Inr None, w')" for w w' w''
    using retry [OF that] assms
    by (auto simp: create_attempt_def elim!: ebind_Inr split: if_splits option.splits)
  show ?thesis
    using settled by (auto simp: numeral_2_eq_2 split: prod.splits sum.splits option.splits)
qed

section \<open>Restoration\<close>

text \<open>
  No disk is made from a backup of another organization, or from one that is not ready or being
  deleted: then \<open>ensure_restored_home\<close> makes no call that creates a claim, whatever that call would do.
\<close>

theorem foreign_backup_not_restored:
  assumes "fs_restore_from_backup_id (workload flash) = Some uuid"
    and "\<And>w b w'. ba_backup_get_opt api (bname env uuid) w = (Inr (Some b), w') \<Longrightarrow>
      uuid_show (be_uuids env) (fb_organization_id (bk_spec b)) \<noteq> svc_organization_id (fsv_spec flash) \<or>
      bk_deleting b \<or> \<not> is_ready b"
  shows "ensure_restored_home (api\<lparr>ba_claim_create := c\<rparr>) env ns flash class = ensure_restored_home api env ns flash class"
proof -
  have rc: "restore_class (api\<lparr>ba_claim_create := c\<rparr>) = restore_class api"
    by (intro ext) (simp only: restore_class_def same_calls)
  have "create_restored_home (api\<lparr>ba_claim_create := c\<rparr>) env ns flash class uuid w =
      create_restored_home api env ns flash class uuid w" for w
    unfolding create_restored_home_def same_calls rc
    by (rule ebind_cong_at, rule refl) (auto simp: ebind_apply ok_or_def dest: assms(2) split: option.splits)
  then show ?thesis
    unfolding ensure_restored_home_def same_calls
    by (auto simp: assms(1) ok_or_def fun_eq_iff ebind_apply split: option.splits prod.splits sum.splits)
qed

section \<open>Sizes of disks\<close>

lemma plus_digits:
  assumes "parse_uint u64_max number = Some m"
  obtains ds where "number = ds \<or> number = CHR ''+'' # ds" and "ds \<noteq> []" and "list_all is_ascii_digit ds"
    and "digits_value ds = m" and "m \<le> u64_max"
proof (cases "first_is (\<lambda>c. c = CHR ''+'') number")
  case True
  then have "number = CHR ''+'' # tl number" by (cases number) (auto simp: first_is_def)
  with True assms show ?thesis
    by (intro that [of "tl number"]) (auto simp: parse_uint_def parse_digits_def split: option.splits if_splits)
next
  case False
  with assms show ?thesis
    by (intro that [of number]) (auto simp: parse_uint_def parse_digits_def split: option.splits if_splits)
qed

lemma split_once_digits: "list_all is_ascii_digit ds \<Longrightarrow> split_once CHR ''.'' ds = None"
  by (induction ds) (auto simp: char_defs)

lemma plus_stripped:
  assumes "ds \<noteq> []" and "list_all is_ascii_digit ds" and "v = ds @ s \<or> v = CHR ''+'' # ds @ s"
  shows "(case strip_prefix ''+'' v of None \<Rightarrow> v | Some t \<Rightarrow> t) = ds @ s"
  using assms by (cases ds) (auto simp: strip_prefix_def char_defs)

lemma number_of_digits:
  assumes "list_all is_ascii_digit ds" and "s = [] \<or> \<not> is_ascii_digit (hd s) \<and> hd s \<noteq> CHR ''.''"
  shows "takeWhile (\<lambda>c. is_ascii_digit c \<or> c = CHR ''.'') (ds @ s) = ds"
    and "dropWhile (\<lambda>c. is_ascii_digit c \<or> c = CHR ''.'') (ds @ s) = s"
  using assms by (cases s; simp add: list_all_iff takeWhile_append2 dropWhile_append2)+

lemma parse_uint_digits:
  assumes "ds \<noteq> []" and "list_all is_ascii_digit ds"
  shows "parse_uint limit ds = (if digits_value ds \<le> limit then Some (digits_value ds) else None)"
  using assms by (cases ds) (auto simp: parse_uint_def parse_digits_def first_is_def char_defs)

lemma storage_quantity_digits:
  assumes "ds \<noteq> []" and "list_all is_ascii_digit ds" and "s = [] \<or> \<not> is_ascii_digit (hd s) \<and> hd s \<noteq> CHR ''.''"
    and "v = ds @ s \<or> v = CHR ''+'' # ds @ s"
    and "binary_suffix s = Some k \<and> scale = 1024 ^ k \<or> binary_suffix s = None \<and> decimal_suffix s = Some (int k) \<and> scale = 10 ^ k"
    and "k \<le> 10"
  shows "storage_quantity_bytes v =
    (if nat i64_max < digits_value ds * scale then Inl InvalidStorageQuantity else Inr (digits_value ds * scale))"
proof -
  have "0 < scale" using assms(5) by auto
  then have le: "digits_value ds \<le> digits_value ds * scale" by simp
  have small: "digits_value ds * scale \<le> u128_max \<and> digits_value ds * scale \<le> u64_max \<and> digits_value ds \<le> u128_max"
    if "\<not> nat i64_max < digits_value ds * scale"
    using that le_trans [OF le, of u128_max] by (auto simp: u128_max_def u64_max_def i64_max_def)
  have u128_pos: "Suc 0 \<le> u128_max" by (simp add: u128_max_def)
  have pow: "(10 :: nat) ^ k \<le> u128_max"
    using power_increasing [OF assms(6), of "10 :: nat"] by (simp add: u128_max_def)
  show ?thesis
    using assms(1,2,5) small pow u128_pos
    by (auto simp: storage_quantity_bytes_def plus_stripped [OF assms(1,2,4)] number_of_digits [OF assms(2,3)] split_once_digits
        parse_uint_digits ensure_def ok_or_def u128_checked_pow_def u128_checked_mul_def div_ceil_def Let_def)
qed

text \<open>The texts that the backups read: digits with an optional sign before them and one of eight suffixes after them.\<close>

definition size_suffixes :: "(string \<times> nat) list" where
  "size_suffixes = [(''Ki'', 2 ^ 10), (''Mi'', 2 ^ 20), (''Gi'', 2 ^ 30), (''Ti'', 2 ^ 40), (''K'', 10 ^ 3), (''M'', 10 ^ 6), (''G'', 10 ^ 9),
     ([], 1)]"

definition written_size :: "string \<Rightarrow> string \<Rightarrow> string \<Rightarrow> nat \<Rightarrow> bool" where
  "written_size v ds s scale \<longleftrightarrow>
     (v = ds @ s \<or> v = CHR ''+'' # ds @ s) \<and> ds \<noteq> [] \<and> list_all is_ascii_digit ds \<and> map_of size_suffixes s = Some scale"

lemma size_suffix_letter: "map_of size_suffixes s = Some scale \<Longrightarrow> s = [] \<or> \<not> is_ascii_digit (hd s) \<and> hd s \<noteq> CHR ''.''"
  by (auto simp: size_suffixes_def char_defs split: if_splits)

lemma size_suffix_controller:
  assumes "map_of size_suffixes s = Some scale" and "s \<noteq> ''K''"
  shows "\<exists>k\<le>10. binary_suffix s = Some k \<and> scale = 1024 ^ k \<or>
      binary_suffix s = None \<and> decimal_suffix s = Some (int k) \<and> scale = 10 ^ k"
proof -
  have "(s, scale) \<in> set size_suffixes" using assms(1) by (rule map_of_SomeD)
  then consider "s = ''Ki''" "scale = 1024" | "s = ''Mi''" "scale = 1024 ^ 2" | "s = ''Gi''" "scale = 1024 ^ 3"
    | "s = ''Ti''" "scale = 1024 ^ 4" | "s = ''M''" "scale = 10 ^ 6" | "s = ''G''" "scale = 10 ^ 9" | "s = []" "scale = 1"
    using assms(2) unfolding size_suffixes_def by auto
  then show ?thesis
  proof cases
    case 1 then show ?thesis by (intro exI [of _ 1]) (simp add: binary_suffix_def)
  next
    case 2 then show ?thesis by (intro exI [of _ 2]) (simp add: binary_suffix_def)
  next
    case 3 then show ?thesis by (intro exI [of _ 3]) (simp add: binary_suffix_def)
  next
    case 4 then show ?thesis by (intro exI [of _ 4]) (simp add: binary_suffix_def)
  next
    case 5 then show ?thesis by (intro exI [of _ 6]) (simp add: binary_suffix_def decimal_suffix_def)
  next
    case 6 then show ?thesis by (intro exI [of _ 9]) (simp add: binary_suffix_def decimal_suffix_def)
  next
    case 7 then show ?thesis by (intro exI [of _ 0]) (simp add: binary_suffix_def decimal_suffix_def)
  qed
qed

lemma written_size_unique:
  assumes "written_size v ds s scale" and "written_size v ds' s' scale'"
  shows "ds' = ds \<and> s' = s \<and> scale' = scale"
proof -
  have plain: "(case strip_prefix ''+'' v of None \<Rightarrow> v | Some t \<Rightarrow> t) = ds @ s" if "written_size v ds s scale" for ds s scale
    by (rule plus_stripped) (use that in \<open>simp_all add: written_size_def\<close>)
  have digits: "takeWhile (\<lambda>c. is_ascii_digit c \<or> c = CHR ''.'') (ds @ s) = ds" if "written_size v ds s scale" for ds s scale
    by (rule number_of_digits [OF _ size_suffix_letter]) (use that in \<open>simp_all add: written_size_def\<close>)
  have "ds' @ s' = ds @ s" using plain [OF assms(1)] plain [OF assms(2)] by simp
  moreover have "ds' = ds" using digits [OF assms(1)] digits [OF assms(2)] calculation by simp
  ultimately show ?thesis using assms by (simp add: written_size_def)
qed

lemma find_map_SomeD: "find_map f xs = Some y \<Longrightarrow> \<exists>x\<in>set xs. f x = Some y"
  by (induction xs) (auto split: option.splits)

lemma find_map_unique:
  "x \<in> set xs \<Longrightarrow> f x = Some y \<Longrightarrow> (\<And>z b. z \<in> set xs \<Longrightarrow> f z = Some b \<Longrightarrow> b = y) \<Longrightarrow> find_map f xs = Some y"
proof (induction xs)
  case (Cons a xs)
  show ?case
  proof (cases "f a")
    case None
    then have "x \<in> set xs" using Cons.prems(1,2) by auto
    then have "find_map f xs = Some y"
      using Cons.prems(2) by (rule Cons.IH) (rule Cons.prems(3), simp_all)
    then show ?thesis using None by simp
  next
    case (Some b)
    then show ?thesis using Cons.prems(3) [of a b] by simp
  qed
qed simp

definition read_suffix :: "string \<Rightarrow> string \<times> nat \<Rightarrow> nat option" where
  "read_suffix v = (\<lambda>(s, scale).
     filter_opt (\<lambda>bytes. 0 < bytes)
       (Option.bind (strip_suffix s v) (\<lambda>number.
        Option.bind (parse_uint u64_max number) (\<lambda>m. u64_checked_mul m scale))))"

lemma quantity_suffixes_sizes: "(s, scale) \<in> set quantity_suffixes \<longleftrightarrow> map_of size_suffixes s = Some scale"
proof -
  have "quantity_suffixes = size_suffixes" by (simp add: quantity_suffixes_def size_suffixes_def)
  moreover have "distinct (map fst size_suffixes)" by (simp add: size_suffixes_def)
  ultimately show ?thesis by simp
qed

lemma read_suffix_Some:
  assumes "(s, scale) \<in> set quantity_suffixes"
  shows "read_suffix v (s, scale) = Some n \<longleftrightarrow>
    (\<exists>ds. written_size v ds s scale \<and> n = digits_value ds * scale \<and> 0 < n \<and> n \<le> u64_max)"
proof
  assume "read_suffix v (s, scale) = Some n"
  then obtain number m where number: "strip_suffix s v = Some number" and m: "parse_uint u64_max number = Some m"
    and n: "n = m * scale" "0 < n" "n \<le> u64_max"
    by (auto simp: read_suffix_def filter_opt_def bind_eq_Some_conv u64_checked_mul_def split: option.splits if_splits)
  have v: "v = number @ s"
    using number by (auto simp: strip_suffix_def suffix_def split: if_splits)
  show "\<exists>ds. written_size v ds s scale \<and> n = digits_value ds * scale \<and> 0 < n \<and> n \<le> u64_max"
    by (rule plus_digits [OF m]) (use assms v n in \<open>auto simp: written_size_def quantity_suffixes_sizes\<close>)
next
  assume "\<exists>ds. written_size v ds s scale \<and> n = digits_value ds * scale \<and> 0 < n \<and> n \<le> u64_max"
  then obtain ds where ds: "written_size v ds s scale" and n: "n = digits_value ds * scale" "0 < n" "n \<le> u64_max" by blast
  have d: "ds \<noteq> []" "list_all is_ascii_digit ds" using ds by (simp_all add: written_size_def)
  have "digits_value ds \<le> n" using n(1,2) by simp
  then have fits: "digits_value ds \<le> u64_max" using n(3) by simp
  obtain number where v: "v = number @ s" and "number = ds \<or> number = CHR ''+'' # ds"
    using ds by (auto simp: written_size_def)
  then have "parse_uint u64_max number = Some (digits_value ds)"
    using d fits parse_uint_digits [OF d] by (auto simp: parse_uint_def [of _ "CHR ''+'' # ds"] parse_digits_def first_is_def)
  then show "read_suffix v (s, scale) = Some n"
    using n by (auto simp: read_suffix_def v strip_suffix_def suffix_def filter_opt_def u64_checked_mul_def)
qed

lemma quantity_bytes_reads:
  "quantity_bytes v = Inr n \<longleftrightarrow>
     (\<exists>ds s scale. written_size v ds s scale \<and> n = digits_value ds * scale \<and> 0 < n \<and> n \<le> u64_max)"
proof -
  have table: "(s, scale) \<in> set quantity_suffixes" if "written_size v ds s scale" for ds s scale
    using that by (simp add: written_size_def quantity_suffixes_sizes)
  have "quantity_bytes v = Inr n \<longleftrightarrow> find_map (read_suffix v) quantity_suffixes = Some n"
    by (simp add: quantity_bytes_def read_suffix_def ok_or_def split: option.splits)
  moreover have "find_map (read_suffix v) quantity_suffixes = Some n"
    if "written_size v ds s scale" "n = digits_value ds * scale" "0 < n" "n \<le> u64_max" for ds s scale
    using that table [OF that(1)]
    by (intro find_map_unique [of "(s, scale)"]) (auto simp: read_suffix_Some dest: written_size_unique [OF that(1)])
  ultimately show ?thesis
    by (metis find_map_SomeD read_suffix_Some surj_pair)
qed

lemma strip_suffix_digits:
  assumes "list_all is_ascii_digit ds" and "s \<noteq> []" and "\<not> is_ascii_digit (last s)"
  shows "strip_suffix s ds = None"
proof -
  have "\<not> suffix s ds"
  proof
    assume "suffix s ds"
    then have "last s \<in> set ds" using assms(2) by (auto simp: suffix_def)
    with assms show False by (auto simp: list_all_iff)
  qed
  then show ?thesis by (simp add: strip_suffix_def)
qed

lemma quantity_bytes_show_nat:
  assumes "0 < n" and "n \<le> u64_max"
  shows "quantity_bytes (show_nat n) = Inr n"
proof -
  have "strip_suffix s (show_nat n) = None" if "s \<in> {''Ki'', ''Mi'', ''Gi'', ''Ti'', ''K'', ''M'', ''G''}" for s
    using that show_nat_digits [of n] by (auto intro!: strip_suffix_digits simp: char_defs)
  moreover have "strip_suffix [] (show_nat n) = Some (show_nat n)" by (simp add: strip_suffix_def)
  ultimately show ?thesis
    using assms by (simp add: quantity_bytes_def quantity_suffixes_def filter_opt_def ok_or_def
        parse_uint_show_nat u64_checked_mul_def)
qed

lemma storage_quantity_thousands:
  assumes "written_size v ds ''K'' scale"
  shows "storage_quantity_bytes v = Inl InvalidStorageQuantity"
proof -
  have d: "ds \<noteq> []" "list_all is_ascii_digit ds" and v: "v = ds @ ''K'' \<or> v = CHR ''+'' # ds @ ''K''"
    using assms by (simp_all add: written_size_def)
  have K: "''K'' = [] \<or> \<not> is_ascii_digit (hd ''K'') \<and> hd ''K'' \<noteq> CHR ''.''" by (simp add: char_defs)
  show ?thesis
    using d by (auto simp: storage_quantity_bytes_def plus_stripped [OF d v] number_of_digits [OF d(2) K] split_once_digits ensure_def
        ok_or_def binary_suffix_def decimal_suffix_def first_is_def Let_def split: option.splits)
qed

lemma storage_quantity_written:
  assumes "written_size v ds s scale" and "s \<noteq> ''K''"
  shows "storage_quantity_bytes v =
    (if nat i64_max < digits_value ds * scale then Inl InvalidStorageQuantity else Inr (digits_value ds * scale))"
proof -
  have d: "ds \<noteq> []" "list_all is_ascii_digit ds" and v: "v = ds @ s \<or> v = CHR ''+'' # ds @ s"
    using assms by (simp_all add: written_size_def)
  have "map_of size_suffixes s = Some scale" using assms(1) by (simp add: written_size_def)
  then show ?thesis
    using storage_quantity_digits [OF d size_suffix_letter v] size_suffix_controller assms(2) by blast
qed

text \<open>
  C38. The two readers of disk sizes on the sizes that the backups read. The backups read exactly the texts of digits, with an
  optional plus sign and one of the suffixes Ki, Mi, Gi, Ti, K, M, G or none, whose value is positive and fits in 64 bits, and read them as
  that value. On the texts of this form the controller reads the same value up to the largest signed number and reports an invalid
  quantity above it, except that it refuses the suffix K. A number of bytes, as it is written into the claim that restores a backup, is
  read back unchanged by the backups. The controller reads more than these texts: fractions, exponents and the other suffixes of
  Kubernetes, k among them.
\<close>

theorem quantity_readers_agree:
  "(quantity_bytes v = Inr n \<longleftrightarrow>
      (\<exists>ds s scale. written_size v ds s scale \<and> n = digits_value ds * scale \<and> 0 < n \<and> n \<le> u64_max)) \<and>
   (written_size v ds s scale \<longrightarrow>
      storage_quantity_bytes v =
        (if s = ''K'' \<or> 2 ^ 63 \<le> digits_value ds * scale then Inl InvalidStorageQuantity else Inr (digits_value ds * scale))) \<and>
   (0 < bytes \<and> bytes < 2 ^ 64 \<longrightarrow> quantity_bytes (show_nat bytes) = Inr bytes)"
proof (intro conjI impI)
  show "quantity_bytes v = Inr n \<longleftrightarrow>
      (\<exists>ds s scale. written_size v ds s scale \<and> n = digits_value ds * scale \<and> 0 < n \<and> n \<le> u64_max)"
    by (rule quantity_bytes_reads)
  show "storage_quantity_bytes v =
      (if s = ''K'' \<or> 2 ^ 63 \<le> digits_value ds * scale then Inl InvalidStorageQuantity else Inr (digits_value ds * scale))"
    if "written_size v ds s scale"
    using that storage_quantity_thousands [of v ds scale] storage_quantity_written [OF that]
    by (cases "s = ''K''") (auto simp: i64_max_def)
  show "quantity_bytes (show_nat bytes) = Inr bytes" if "0 < bytes \<and> bytes < 2 ^ 64"
    using that by (intro quantity_bytes_show_nat) (simp_all add: u64_max_def)
qed

section \<open>Witnesses\<close>

definition ready_status :: flash_backup_status where
  "ready_status = \<lparr>fbs_phase = ''ready'', fbs_message = None, fbs_completed_at = Some 5\<rparr>"

definition ready_backup :: flash_backup where
  "ready_backup = sample_backup 9 (Some ready_status)"

lemma ready_backup_simps:
  "is_completed ready_backup" "\<not> bk_deleting ready_backup" "fb_id (bk_spec ready_backup) = 9"
  "ba_snapshot_get_opt store_api n w = (Inr None, w)"
  by (simp_all add: ready_backup_def is_completed_def sample_backup_def ready_status_def plain_meta_def store_api_def)

theorem completed_backup_not_retaken_witness:
  "is_completed ready_backup \<and>
   reconcile_backup store_api sample_env ''flash'' ready_backup Map.empty =
     write_status store_api ready_backup missing_snapshot_status Map.empty"
  using completed_backup_not_retaken [OF ready_backup_simps(1), where api = store_api and w = Map.empty
      and w' = Map.empty and env = sample_env and ns = "''flash''"] ready_backup_simps by blast

definition deleted_backup :: flash_backup where
  "deleted_backup = ready_backup\<lparr>bk_meta := (bk_meta ready_backup)\<lparr>meta_deletion_timestamp := Some 1\<rparr>\<rparr>"

definition restoring_flash :: flash_service where
  "restoring_flash = sample_flash\<lparr>fsv_spec := (fsv_spec sample_flash)
     \<lparr>svc_workload := sample_flash_spec\<lparr>fs_restore_from_backup_id := Some 9\<rparr>\<rparr>\<rparr>"

lemma restoring_flash_simps:
  "fs_restore_from_backup_id (workload restoring_flash) = Some 9"
  "meta_deletion_timestamp (fsv_meta restoring_flash) = None"
  "svc_organization_id (fsv_spec restoring_flash) = ''acme''"
  by (simp_all add: restoring_flash_def sample_flash_def plain_meta_def)

definition restoring_api :: "lock_world backup_api" where
  "restoring_api = store_api\<lparr>ba_services_list := eret [restoring_flash], ba_claim_get_opt := (\<lambda>_. eret None),
     ba_backup_get_opt := (\<lambda>_. eret (Some ready_backup))\<rparr>"

theorem restoring_service_protects_backup_witness:
  "delete_backup (restoring_api\<lparr>ba_backup_delete := (\<lambda>_ _ _. efail (Client_Error ''never''))\<rparr>) sample_env 9 sample_claims =
     delete_backup restoring_api sample_env 9 sample_claims"
  using restoring_service_protects_backup [where api = restoring_api and flash = restoring_flash and uuid = 9
      and env = sample_env and backup = deleted_backup]
  by (simp add: restoring_flash_simps restoring_api_def deleted_backup_def ready_backup_simps)

theorem finalizer_waits_witness:
  "reconcile_backup (restoring_api\<lparr>ba_longhorn_patch := (\<lambda>_ _ _ _ _. efail (Client_Error ''never'')),
       ba_backup_patch_finalizers := (\<lambda>_ _ _. efail (Client_Error ''never''))\<rparr>) sample_env ''flash'' deleted_backup Map.empty =
     reconcile_backup restoring_api sample_env ''flash'' deleted_backup Map.empty"
proof -
  have "restore_pending restoring_api sample_env 9 Map.empty = (Inr True, Map.empty)"
    by (simp add: restore_pending_def restoring_api_def store_api_def ebind_apply emap_err_def restoring_flash_simps)
  then show ?thesis
    by (intro finalizer_waits [where ?w1.0 = Map.empty]) (simp_all add: deleted_backup_def ready_backup_simps)
qed

definition sample_request :: backup_request where
  "sample_request = \<lparr>rq_id = 9, rq_name = ''nightly'', rq_source_pvc_uid = ''uid'', rq_volume_size_bytes = 1073741824,
     rq_destination_id = None\<rparr>"

text \<open>A server on which the name is always taken by the same backup.\<close>

definition taken_api :: "lock_world backup_api" where
  "taken_api = store_api\<lparr>ba_backup_get_opt := (\<lambda>_. eret (Some ready_backup)),
     ba_backup_create := (\<lambda>_. efail (Api_Error 409))\<rparr>"

lemma sample_create: "create 1 taken_api sample_env ''backup'' sample_claims sample_request Map.empty = Some (Inr ready_backup, Map.empty)"
proof -
  have "\<not> blank ''nightly''" by code_simp
  then show ?thesis
    by (simp add: create_attempt_def taken_api_def sample_request_def is_nil_def ebind_apply emap_err_def check_scope_def
        same_request_def ensure_def ready_backup_def sample_backup_def sample_claims_def plain_meta_def)
qed

theorem create_scoped_witness:
  "create 1 taken_api sample_env ''backup'' sample_claims sample_request Map.empty = Some (Inr ready_backup, Map.empty) \<and>
   fb_organization_id (bk_spec ready_backup) = tk_organization_id sample_claims"
  using create_scoped [OF sample_create] sample_create by (simp add: taken_api_def)

theorem create_terminates_witness:
  "\<exists>r. create 2 taken_api sample_env ''backup'' sample_claims sample_request Map.empty = Some r"
  by (rule create_terminates) (simp add: taken_api_def)

theorem foreign_backup_not_restored_witness:
  "ensure_restored_home (taken_api\<lparr>ba_claim_create := (\<lambda>_. efail (Client_Error ''never''))\<rparr>) sample_env ''flash''
     restoring_flash ''longhorn'' = ensure_restored_home taken_api sample_env ''flash'' restoring_flash ''longhorn''"
proof (rule foreign_backup_not_restored [OF restoring_flash_simps(1)])
  have "length (uuid_show hex_uuids 1) = 36" by (simp add: hex_uuids_def Let_def)
  then have "uuid_show hex_uuids 1 \<noteq> ''acme''" by auto
  then show "uuid_show (be_uuids sample_env) (fb_organization_id (bk_spec b)) \<noteq> svc_organization_id (fsv_spec restoring_flash) \<or>
      bk_deleting b \<or> \<not> is_ready b"
    if "ba_backup_get_opt taken_api (bname sample_env 9) w = (Inr (Some b), w')" for w b w'
    using that by (auto simp: taken_api_def sample_env_def restoring_flash_simps ready_backup_def sample_backup_def)
qed

theorem quantity_readers_agree_witness:
  "quantity_bytes ''+5Gi'' = Inr 5368709120 \<and> storage_quantity_bytes ''+5Gi'' = Inr 5368709120 \<and>
   quantity_bytes ''5K'' = Inr 5000 \<and> storage_quantity_bytes ''5K'' = Inl InvalidStorageQuantity \<and>
   quantity_bytes (show_nat 1024) = Inr 1024"
proof -
  have digit: "digits_value ''5'' = 5" "list_all is_ascii_digit ''5'' = True" by code_simp+
  have gib: "written_size ''+5Gi'' ''5'' ''Gi'' (2 ^ 30)" and thousand: "written_size ''5K'' ''5'' ''K'' 1000"
    unfolding written_size_def digit(2) by (simp_all add: size_suffixes_def)
  have fits: "5368709120 \<le> u64_max" "5000 \<le> u64_max" by (simp_all add: u64_max_def)
  note c = quantity_readers_agree
  have "quantity_bytes ''+5Gi'' = Inr 5368709120" "quantity_bytes ''5K'' = Inr 5000"
    by (rule c [THEN conjunct1, THEN iffD2, OF exI, OF exI, OF exI, OF conjI, OF gib] c [THEN conjunct1, THEN iffD2, OF exI, OF exI, OF exI, OF conjI, OF thousand],
        simp add: digit fits)+
  then show ?thesis
    using c [THEN conjunct2, THEN conjunct1, rule_format, OF gib] c [THEN conjunct2, THEN conjunct1, rule_format, OF thousand]
      c [THEN conjunct2, THEN conjunct2, rule_format, of 1024]
    by (simp add: digit)
qed

end
