(* ===== verification/Activator.thy ===== *)
theory Activator
  imports Uuid_Text Meter_Properties
begin

text \<open>
  \<open>bin/flash-activator.rs\<close>: the proxy that wakes a service which is scaled to zero. The calls to the API
  server, the monotonic clock in milliseconds, sleeping and the HTTP client are the fields of
  \<open>activator_api\<close>; a body is passed through unread. The start of the process is not modelled.
\<close>

definition DEFAULT_COLD_START_TIMEOUT_SECONDS :: u64 where "DEFAULT_COLD_START_TIMEOUT_SECONDS = 120"

datatype 'x activator_error =
    Act_NotFound | Act_Stopped | Act_QuotaExceeded | Act_ColdStartTimeout
  | Act_Kubernetes kube_error | Act_Upstream 'x | Act_Internal

type_synonym headers = "(string \<times> string) list"

record 'b http_request =
  hq_method :: string
  hq_path_and_query :: "string option"
  hq_headers :: headers
  hq_body :: 'b

record 'b http_response =
  hs_status :: u16
  hs_headers :: headers
  hs_body :: 'b

record ('w, 'b, 'x) activator_api =
  act_service_get_opt :: "string \<Rightarrow> ('w, kube_error, flash_service option) effect"
  act_service_get :: "string \<Rightarrow> ('w, kube_error, flash_service) effect"
  act_patch_activity :: "string \<Rightarrow> string \<Rightarrow> ('w, kube_error, unit) effect"
  act_scale :: "string \<Rightarrow> u32 \<Rightarrow> ('w, kube_error, unit) effect"
  act_deployment_get :: "string \<Rightarrow> ('w, kube_error, deployment) effect"
  act_timestamp :: "'w \<Rightarrow> i64"
  act_instant :: "'w \<Rightarrow> nat"
  act_sleep :: "nat \<Rightarrow> 'w \<Rightarrow> 'w"
  act_send :: "string \<Rightarrow> string \<Rightarrow> headers \<Rightarrow> 'b \<Rightarrow> ('w, 'x, 'b http_response) effect"

record app_state =
  app_workload_namespace :: string
  app_public_domain :: string
  app_cold_start_timeout :: nat

definition cold_start_timeout_seconds :: "string option \<Rightarrow> u64" where
  "cold_start_timeout_seconds var =
     clamp (unwrap_or (Option.bind var (parse_uint u64_max)) DEFAULT_COLD_START_TIMEOUT_SECONDS) 10 600"

text \<open>The \<open>host\<close> header, as text when it is text.\<close>

definition request_hostname :: "(string \<Rightarrow> string option) \<Rightarrow> string option \<Rightarrow> 'x activator_error + string" where
  "request_hostname to_str host =
     bindR (ok_or (Option.bind host to_str) Act_NotFound) (\<lambda>host.
     let host = to_ascii_lowercase (trim_end_matches CHR ''.''
                  (case split_once CHR '':'' host of None \<Rightarrow> host | Some (hostname, _) \<Rightarrow> hostname))
     in if host = [] then Inl Act_NotFound else Inr host)"

definition service_id_from_hostname :: "uuid_ops \<Rightarrow> string \<Rightarrow> string \<Rightarrow> 'x activator_error + uuid" where
  "service_id_from_hostname uuids hostname public_domain =
     bindR (ok_or (Option.bind (strip_suffix (''.'' @ public_domain) hostname) (strip_prefix ''f-'')) Act_NotFound) (\<lambda>label.
     ok_or (uuid_parse uuids label) Act_NotFound)"

definition ensure_running :: "flash_service \<Rightarrow> 'x activator_error + unit" where
  "ensure_running service = (if fs_stopped (workload service) then Inl Act_Stopped else Inr ())"

definition is_hop_by_hop :: "string \<Rightarrow> bool" where
  "is_hop_by_hop name \<longleftrightarrow>
     to_ascii_lowercase name \<in> {''connection'', ''keep-alive'', ''proxy-authenticate'', ''proxy-authorization'', ''te'',
       ''trailer'', ''transfer-encoding'', ''upgrade''}"

abbreviation eact :: "('w, kube_error, 'a) effect \<Rightarrow> ('w, 'x activator_error, 'a) effect" where
  "eact \<equiv> emap_err Act_Kubernetes"

definition mark_activity ::
  "('w, 'b, 'x) activator_api \<Rightarrow> flash_service \<Rightarrow> ('w, 'x activator_error, unit) effect" where
  "mark_activity api service =
     ebind (eread (act_timestamp api)) (\<lambda>now. eact (act_patch_activity api (flash_name service) (show_int now)))"

definition wake :: "('w, 'b, 'x) activator_api \<Rightarrow> string \<Rightarrow> ('w, 'x activator_error, unit) effect" where
  "wake api name = eact (act_scale api name 1)"

definition quota_reached :: "flash_service \<Rightarrow> bool" where
  "quota_reached service = (case fsv_status service of None \<Rightarrow> False | Some s \<Rightarrow> quota_exhausted s)"

definition generation_ready :: "flash_service \<Rightarrow> i64 \<Rightarrow> bool" where
  "generation_ready service generation =
     (case fsv_status service of
        None \<Rightarrow> False
      | Some s \<Rightarrow> st_observed_generation s = generation \<and> (st_phase s = Ready \<or> st_phase s = Provisioning))"

definition available :: "deployment \<Rightarrow> bool" where
  "available d \<longleftrightarrow> 1 \<le> unwrap_or (Option.bind (dep_status d) ds_available_replicas) 0"

text \<open>One round of \<open>wait_until_ready\<close>: whether the service is ready, before the deadline is looked at.\<close>

definition poll_ready ::
  "('w, 'b, 'x) activator_api \<Rightarrow> string \<Rightarrow> i64 \<Rightarrow> ('w, 'x activator_error, bool) effect" where
  "poll_ready api name generation =
     ebind (eact (act_service_get api name)) (\<lambda>service.
     ebind (etry (ensure_running service)) (\<lambda>_.
     if quota_reached service then efail Act_QuotaExceeded
     else ebind (eact (act_deployment_get api name)) (\<lambda>d.
          eret (available d \<and> generation_ready service generation))))"

text \<open>The loop has fuel; \<open>None\<close> stands for a loop that is still running.\<close>

fun wait_loop ::
  "nat \<Rightarrow> ('w, 'b, 'x) activator_api \<Rightarrow> string \<Rightarrow> i64 \<Rightarrow> nat \<Rightarrow> 'w \<Rightarrow>
   (('x activator_error + unit) \<times> 'w) option" where
  "wait_loop 0 api name generation deadline w = None"
| "wait_loop (Suc n) api name generation deadline w =
     (case poll_ready api name generation w of
        (Inl e, w') \<Rightarrow> Some (Inl e, w')
      | (Inr True, w') \<Rightarrow> Some (Inr (), act_sleep api 100 w')
      | (Inr False, w') \<Rightarrow>
          if deadline \<le> act_instant api w' then Some (Inl Act_ColdStartTimeout, w')
          else wait_loop n api name generation deadline (act_sleep api 250 w'))"

definition wait_until_ready ::
  "nat \<Rightarrow> ('w, 'b, 'x) activator_api \<Rightarrow> app_state \<Rightarrow> string \<Rightarrow> i64 \<Rightarrow> 'w \<Rightarrow>
   (('x activator_error + unit) \<times> 'w) option" where
  "wait_until_ready n api state name generation w =
     wait_loop n api name generation (act_instant api w + app_cold_start_timeout state) w"

text \<open>The service that a host name activates, and its first port.\<close>

definition activation_target ::
  "('w, 'b, 'x) activator_api \<Rightarrow> uuid_ops \<Rightarrow> (string \<Rightarrow> string option) \<Rightarrow> app_state \<Rightarrow> 'b http_request \<Rightarrow>
   ('w, 'x activator_error, flash_service \<times> string \<times> u16) effect" where
  "activation_target api uuids to_str state request =
     ebind (etry (request_hostname to_str (map_of (hq_headers request) ''host''))) (\<lambda>hostname.
     ebind (etry (service_id_from_hostname uuids hostname (app_public_domain state))) (\<lambda>service_id.
     let resource_name = ''flash-'' @ uuid_show uuids service_id
     in ebind (eact (act_service_get_opt api resource_name)) (\<lambda>found.
        ebind (etry (ok_or found Act_NotFound)) (\<lambda>service.
        if svc_service_instance_id (fsv_spec service) \<noteq> uuid_show uuids service_id \<or>
           ex_endpoint_mode (fs_exposure (workload service)) \<noteq> Web \<or> \<not> is_scale_to_zero service
        then efail Act_NotFound
        else ebind (etry (ensure_running service)) (\<lambda>_.
             if quota_reached service then efail Act_QuotaExceeded
             else case fs_ports (workload service) of
                    [] \<Rightarrow> efail Act_NotFound
                  | port # _ \<Rightarrow> eret (service, resource_name, port_service port))))))"

text \<open>The request to the service and the answer, without the headers of a single hop.\<close>

definition forward_request ::
  "('w, 'b, 'x) activator_api \<Rightarrow> app_state \<Rightarrow> 'b http_request \<Rightarrow> string \<Rightarrow> u16 \<Rightarrow>
   ('w, 'x activator_error, 'b http_response) effect" where
  "forward_request api state request resource_name port =
     (let upstream = ''http://'' @ resource_name @ ''.'' @ app_workload_namespace state @ ''.svc.cluster.local:'' @
            show_nat port @ unwrap_or (hq_path_and_query request) ''/'';
          headers = filter (\<lambda>(name, _). \<not> is_hop_by_hop name \<and> name \<noteq> ''host'') (hq_headers request)
      in ebind (emap_err Act_Upstream (act_send api (hq_method request) upstream headers (hq_body request))) (\<lambda>answer.
         eret (answer\<lparr>hs_headers := filter (\<lambda>(name, _). \<not> is_hop_by_hop name) (hs_headers answer)\<rparr>)))"

definition proxy_inner ::
  "nat \<Rightarrow> ('w, 'b, 'x) activator_api \<Rightarrow> uuid_ops \<Rightarrow> (string \<Rightarrow> string option) \<Rightarrow> app_state \<Rightarrow> 'b http_request \<Rightarrow> 'w \<Rightarrow>
   (('x activator_error + 'b http_response) \<times> 'w) option" where
  "proxy_inner n api uuids to_str state request w =
     (case ebind (activation_target api uuids to_str state request) (\<lambda>(service, resource_name, port).
           ebind (mark_activity api service) (\<lambda>_.
           ebind (if effective_gpu_count (workload service) = 0 then wake api resource_name else eret ()) (\<lambda>_.
           eret (service, resource_name, port)))) w of
        (Inl e, w') \<Rightarrow> Some (Inl e, w')
      | (Inr (service, resource_name, port), w') \<Rightarrow>
          (case wait_until_ready n api state resource_name (svc_desired_generation (fsv_spec service)) w' of
             None \<Rightarrow> None
           | Some (Inl e, w'') \<Rightarrow> Some (Inl e, w'')
           | Some (Inr _, w'') \<Rightarrow> Some (forward_request api state request resource_name port w'')))"

definition activator_answer :: "'x activator_error \<Rightarrow> u16 \<times> string \<times> string \<times> string option" where
  "activator_answer e =
     (case e of
        Act_Stopped \<Rightarrow> (503, ''service_stopped'', ''service is stopped; start it through the HeteroCloud API'', None)
      | Act_NotFound \<Rightarrow> (404, ''not_found'', ''service not found'', None)
      | Act_QuotaExceeded \<Rightarrow> (429, ''weekly_gpu_limit_reached'', ''weekly GPU runtime limit reached'', Some ''60'')
      | Act_ColdStartTimeout \<Rightarrow>
          (504, ''cold_start_timeout'', ''service did not become ready before the cold-start deadline'', Some ''5'')
      | _ \<Rightarrow> (502, ''activation_failed'', ''service activation failed'', Some ''2''))"

section \<open>The activator and the controller agree on host names\<close>

lemma split_on_chars: "c \<in> set s \<Longrightarrow> c = d \<or> (\<exists>p\<in>set (split_on d s). c \<in> set p)"
  by (induction s) (auto split: list.splits)

lemma split_on_last: "split_on d (s @ [d]) = split_on d s @ [[]]"
  by (induction s) (auto split: list.splits)

lemma valid_subdomain_chars:
  assumes "valid_dns_subdomain v m" and "c \<in> set v"
  shows "is_ascii_lowercase c \<or> is_ascii_digit c \<or> c = CHR ''-'' \<or> c = CHR ''.''"
proof -
  have "c = CHR ''.'' \<or> (\<exists>p\<in>set (split_on CHR ''.'' v). c \<in> set p)"
    using split_on_chars [OF assms(2)] .
  then show ?thesis
    using assms(1) by (auto simp: valid_dns_subdomain_def valid_dns_label_of_def list_all_iff)
qed

lemma valid_subdomain_last:
  assumes "valid_dns_subdomain v m"
  shows "v \<noteq> [] \<and> last v \<noteq> CHR ''.''"
proof
  show "v \<noteq> []" using assms by (simp add: valid_dns_subdomain_def)
  show "last v \<noteq> CHR ''.''"
  proof
    assume "last v = CHR ''.''"
    then have "v = butlast v @ [CHR ''.'']" using \<open>v \<noteq> []\<close> append_butlast_last_id by metis
    then have "[] \<in> set (split_on CHR ''.'' v)" using split_on_last by (metis in_set_conv_decomp)
    with assms show False by (auto simp: valid_dns_subdomain_def valid_dns_label_of_def list_all_iff)
  qed
qed

lemma to_ascii_lowercase_id: "(\<And>c. c \<in> set s \<Longrightarrow> \<not> is_ascii_uppercase c) \<Longrightarrow> to_ascii_lowercase s = s"
  by (simp add: to_ascii_lowercase_def map_idI)

lemma trim_end_matches_id: "s \<noteq> [] \<Longrightarrow> last s \<noteq> c \<Longrightarrow> trim_end_matches c s = s"
  by (cases s rule: rev_cases) (auto simp: trim_end_matches_def)

text \<open>The crate shows identifiers in lower case, without colons.\<close>

locale uuid_hostname = uuid_text +
  assumes show_chars: "c \<in> set (uuid_show uuids u) \<Longrightarrow> \<not> is_ascii_uppercase c \<and> c \<noteq> CHR '':''"
begin

lemma published_host_found:
  assumes "valid_dns_subdomain domain m" and "host = ''f-'' @ uuid_show uuids u @ ''.'' @ domain" and "to_str host = Some host"
  shows "request_hostname to_str (Some host) = Inr host \<and> service_id_from_hostname uuids host domain = Inr u"
proof
  have chars: "\<not> is_ascii_uppercase c \<and> c \<noteq> CHR '':''" if "c \<in> set host" for c
    using that show_chars [of c u] valid_subdomain_chars [OF assms(1), of c]
    by (auto simp: assms(2) char_defs)
  have "split_once CHR '':'' host = None"
    using chars by (auto simp: split_once_None)
  moreover have "trim_end_matches CHR ''.'' host = host"
    using valid_subdomain_last [OF assms(1)] by (intro trim_end_matches_id) (simp_all add: assms(2))
  moreover have "to_ascii_lowercase host = host"
    by (rule to_ascii_lowercase_id) (use chars in blast)
  moreover have "host \<noteq> []" by (simp add: assms(2))
  ultimately show "request_hostname to_str (Some host) = Inr host"
    using assms(3) by (simp add: request_hostname_def ok_or_def Let_def)
  have "strip_suffix (''.'' @ domain) host = Some (''f-'' @ uuid_show uuids u)"
    by (simp add: strip_suffix_Some assms(2))
  moreover have "strip_prefix ''f-'' (''f-'' @ uuid_show uuids u) = Some (uuid_show uuids u)"
    by (simp add: strip_prefix_Some)
  ultimately show "service_id_from_hostname uuids host domain = Inr u"
    by (simp add: service_id_from_hostname_def ok_or_def parse_show)
qed

end

lemma hex_char_lower: "n < 16 \<Longrightarrow> \<not> is_ascii_uppercase (hex_char n) \<and> hex_char n \<noteq> CHR '':''"
  by (auto simp: hex_char_def is_ascii_uppercase_def byte_def char_of_eq_iff take_bit_nat_eq_self)

lemma hex_show_chars: "c \<in> set (uuid_show hex_uuids u) \<Longrightarrow> \<not> is_ascii_uppercase c \<and> c \<noteq> CHR '':''"
proof -
  have hex: "\<not> is_ascii_uppercase c \<and> c \<noteq> CHR '':''" if "c \<in> set (hex_digits 32 (unat u))" for c
    using that hex_char_lower by (auto simp: hex_digits_def)
  have dash: "\<not> is_ascii_uppercase CHR ''-''" by code_simp
  assume "c \<in> set (uuid_show hex_uuids u)"
  then have "c = CHR ''-'' \<or> c \<in> set (hex_digits 32 (unat u))"
    by (auto simp: hex_uuids_def Let_def dest: in_set_takeD in_set_dropD)
  then show ?thesis using hex dash by auto
qed

interpretation hex_host: uuid_hostname hex_uuids
  by unfold_locales (use hex_show_chars in blast)+

text \<open>
  C35. The activator serves the host names that the controller publishes: a request for the public
  host name of a service reaches the identifier of that service, whatever the domain. Hypotheses: the
  text form of identifiers, and a header that is text.
\<close>

theorem activator_finds_published_host:
  assumes "uuid_hostname uuids" and "public_hostname uuids flash (Some domain) = Inr (Some host)"
    and "to_str host = Some host"
  shows "\<exists>u. uuid_parse uuids (svc_service_instance_id (fsv_spec flash)) = Some u \<and>
    bindR (request_hostname to_str (Some host)) (\<lambda>h. service_id_from_hostname uuids h domain) =
      (Inr u :: 'x activator_error + uuid)"
proof -
  from assms(2) obtain u where "valid_dns_subdomain domain 214"
    and u: "uuid_parse uuids (svc_service_instance_id (fsv_spec flash)) = Some u"
    and "host = ''f-'' @ uuid_show uuids u @ ''.'' @ domain"
    by (auto simp: public_hostname_def validate_public_domain_def ok_or_def ensure_def result_simps
        split: if_splits option.splits)
  then have "(request_hostname to_str (Some host) :: 'x activator_error + string) = Inr host \<and>
      (service_id_from_hostname uuids host domain :: 'x activator_error + uuid) = Inr u"
    using uuid_hostname.published_host_found [of uuids domain 214 host u to_str] assms(1,3) by blast
  then show ?thesis using u by simp
qed

section \<open>Waking\<close>

text \<open>
  A service that was stopped by its owner, or whose weekly quota is used up, is never woken: for a
  service that is found in such a state, a request marks no activity, scales nothing and forwards nothing,
  whatever these calls would do.
\<close>

theorem stopped_service_not_woken:
  assumes "\<And>n w service w'. act_service_get_opt api n w = (Inr (Some service), w') \<Longrightarrow>
      fs_stopped (workload service) \<or> quota_reached service"
  shows "proxy_inner n (api\<lparr>act_patch_activity := a, act_scale := s, act_send := f\<rparr>) uuids to_str state request w =
    proxy_inner n api uuids to_str state request w \<and>
    (\<forall>answer w'. proxy_inner n api uuids to_str state request w \<noteq> Some (Inr answer, w'))"
proof -
  have target: "activation_target (api\<lparr>act_patch_activity := a, act_scale := s, act_send := f\<rparr>) uuids to_str state request w =
      activation_target api uuids to_str state request w"
    by (simp add: activation_target_def)
  have "\<exists>e w'. activation_target api uuids to_str state request w = (Inl e, w')"
  proof (cases "activation_target api uuids to_str state request w")
    case (Pair r w')
    show ?thesis
    proof (cases r)
      case (Inr x)
      then show ?thesis
        using Pair assms
        by (auto simp: activation_target_def ensure_running_def ok_or_def Let_def elim!: ebind_Inr
            split: if_splits option.splits list.splits) blast
    qed (use Pair in auto)
  qed
  then show ?thesis
    by (auto simp: proxy_inner_def ebind_apply target)
qed

lemma poll_ready_True:
  assumes "poll_ready api name generation w = (Inr True, w')"
  obtains service d w1 where "act_service_get api name w = (Inr service, w1)" "act_deployment_get api name w1 = (Inr d, w')"
    "\<not> fs_stopped (workload service)" "\<not> quota_reached service" "available d" "generation_ready service generation"
  using assms
  by (auto simp: poll_ready_def ensure_running_def emap_err_def elim!: ebind_Inr split: if_splits prod.splits sum.splits)

text \<open>
  The clock in the waits of the activator: a call takes at most \<open>slack\<close> milliseconds, a sleep at least the time that is asked for and at
  most \<open>slack\<close> more, and nothing turns it back.
\<close>

definition bounded_calls :: "('w, 'b, 'x) activator_api \<Rightarrow> string \<Rightarrow> nat \<Rightarrow> bool" where
  "bounded_calls api name slack \<longleftrightarrow>
     (\<forall>w d. act_instant api w + d \<le> act_instant api (act_sleep api d w) \<and>
            act_instant api (act_sleep api d w) \<le> act_instant api w + d + slack) \<and>
     (\<forall>w r w'. act_service_get api name w = (r, w') \<longrightarrow>
        act_instant api w \<le> act_instant api w' \<and> act_instant api w' \<le> act_instant api w + slack) \<and>
     (\<forall>w r w'. act_deployment_get api name w = (r, w') \<longrightarrow>
        act_instant api w \<le> act_instant api w' \<and> act_instant api w' \<le> act_instant api w + slack)"

lemma bounded_calls_sleep:
  "bounded_calls api name slack \<Longrightarrow> act_instant api w + d \<le> act_instant api (act_sleep api d w)"
  "bounded_calls api name slack \<Longrightarrow> act_instant api (act_sleep api d w) \<le> act_instant api w + d + slack"
  by (simp_all add: bounded_calls_def)

lemma bounded_calls_poll:
  assumes "bounded_calls api name slack" and "poll_ready api name generation w = (r, w')"
  shows "act_instant api w \<le> act_instant api w' \<and> act_instant api w' \<le> act_instant api w + 2 * slack"
proof -
  obtain answer w1 where first: "act_service_get api name w = (answer, w1)" by fastforce
  obtain found w2 where second: "act_deployment_get api name w1 = (found, w2)" by fastforce
  have "w' = w1 \<or> w' = w2"
    using assms(2) first second
    by (auto simp: poll_ready_def ensure_running_def ebind_apply emap_err_def split: if_splits sum.splits)
  moreover have "act_instant api w \<le> act_instant api w1" "act_instant api w1 \<le> act_instant api w + slack"
    "act_instant api w1 \<le> act_instant api w2" "act_instant api w2 \<le> act_instant api w1 + slack"
    using assms(1) first second unfolding bounded_calls_def by blast+
  ultimately show ?thesis by auto
qed

text \<open>What a wait with a deadline may end with.\<close>

definition wait_outcome ::
  "('w, 'b, 'x) activator_api \<Rightarrow> string \<Rightarrow> i64 \<Rightarrow> nat \<Rightarrow> nat \<Rightarrow> 'x activator_error + unit \<Rightarrow> 'w \<Rightarrow> bool" where
  "wait_outcome api name generation deadline slack r w' \<longleftrightarrow>
     act_instant api w' \<le> deadline + 350 + 4 * slack \<and>
     (r = Inl Act_ColdStartTimeout \<longrightarrow> deadline \<le> act_instant api w') \<and>
     (r = Inr () \<longrightarrow> (\<exists>w0 service w1 d w2.
        act_service_get api name w0 = (Inr service, w1) \<and> act_deployment_get api name w1 = (Inr d, w2) \<and>
        \<not> fs_stopped (workload service) \<and> \<not> quota_reached service \<and> available d \<and> generation_ready service generation \<and>
        w' = act_sleep api 100 w2))"

lemma poll_ready_timeout: "poll_ready api name generation w \<noteq> (Inl Act_ColdStartTimeout, w')"
  by (auto simp: poll_ready_def ensure_running_def ebind_apply emap_err_def split: if_splits prod.splits sum.splits)

lemma wait_loop_ends:
  assumes "bounded_calls api name slack"
  shows "deadline + 250 \<le> act_instant api w + 250 * n \<Longrightarrow> 0 < n \<Longrightarrow> act_instant api w \<le> deadline + 250 + slack \<Longrightarrow>
    \<exists>r w'. wait_loop n api name generation deadline w = Some (r, w') \<and> wait_outcome api name generation deadline slack r w'"
proof (induction n arbitrary: w)
  case (Suc n)
  obtain r w' where poll: "poll_ready api name generation w = (r, w')" by fastforce
  note time = bounded_calls_poll [OF assms poll] bounded_calls_sleep [OF assms, where w = w' and d = 250]
    bounded_calls_sleep [OF assms, where w = w' and d = 100]
  show ?case
  proof (cases r)
    case (Inl e)
    then have "e \<noteq> Act_ColdStartTimeout" using poll poll_ready_timeout by metis
    then show ?thesis using poll Inl time Suc.prems by (simp add: wait_outcome_def)
  next
    case (Inr ready)
    show ?thesis
    proof (cases ready)
      case True
      with poll Inr have "poll_ready api name generation w = (Inr True, w')" by simp
      from this show ?thesis
        by (rule poll_ready_True) (use poll Inr True time Suc.prems in \<open>(auto simp: wait_outcome_def, blast)\<close>)
    next
      case False
      show ?thesis
      proof (cases "deadline \<le> act_instant api w'")
        case True
        then show ?thesis using poll Inr False time Suc.prems by (simp add: wait_outcome_def)
      next
        case late: False
        then have "0 < n" using time Suc.prems by (cases n) simp_all
        with late show ?thesis using Suc.IH [of "act_sleep api 250 w'"] poll Inr False time Suc.prems by simp
      qed
    qed
  qed
qed simp

text \<open>
  C37. The wait for a cold start ends, and in time: with two rounds more than the timeout holds periods of 250 milliseconds the loop has
  returned, and the clock then is at most 350 milliseconds and the slack of two calls and two sleeps after the timeout. It reports the timeout
  only when the timeout has passed, and success only after one round has read the service, neither stopped nor over its quota and
  with the wanted generation observed, and its deployment with an available replica. Hypothesis: a call takes at most the slack, a sleep at
  most the slack more than the time that is asked for and never less, and the clock is not turned back.
\<close>

theorem wait_until_ready_returns:
  assumes "bounded_calls api name slack" and "app_cold_start_timeout state div 250 + 2 \<le> n"
  shows "\<exists>r w'. wait_until_ready n api state name generation w = Some (r, w') \<and>
    act_instant api w' \<le> act_instant api w + app_cold_start_timeout state + 350 + 4 * slack \<and>
    (r = Inl Act_ColdStartTimeout \<longrightarrow> act_instant api w + app_cold_start_timeout state \<le> act_instant api w') \<and>
    (r = Inr () \<longrightarrow> (\<exists>w0 service w1 d w2.
        act_service_get api name w0 = (Inr service, w1) \<and> act_deployment_get api name w1 = (Inr d, w2) \<and>
        \<not> fs_stopped (workload service) \<and> \<not> quota_reached service \<and> available d \<and> generation_ready service generation \<and>
        w' = act_sleep api 100 w2))"
proof -
  have "act_instant api w + app_cold_start_timeout state + 250 \<le> act_instant api w + 250 * n"
    using assms(2) dividend_less_times_div [of 250 "app_cold_start_timeout state"] by simp
  then show ?thesis
    using wait_loop_ends [OF assms(1), of "act_instant api w + app_cold_start_timeout state" w n generation] assms(2)
    by (simp add: wait_until_ready_def wait_outcome_def)
qed

section \<open>Witnesses\<close>

definition web_flash :: flash_service where
  "web_flash = sample_flash\<lparr>fsv_spec := (fsv_spec sample_flash)
     \<lparr>svc_service_instance_id := uuid_show hex_uuids 7,
      svc_workload := sample_flash_spec\<lparr>fs_exposure := (fs_exposure sample_flash_spec)\<lparr>ex_endpoint_mode := Web\<rparr>\<rparr>\<rparr>\<rparr>"

theorem activator_finds_published_host_witness:
  "\<exists>host. public_hostname hex_uuids web_flash (Some ''flash.example.test'') = Inr (Some host) \<and>
     bindR (request_hostname Some (Some host)) (\<lambda>h. service_id_from_hostname hex_uuids h ''flash.example.test'') =
       (Inr 7 :: unit activator_error + uuid)"
proof -
  have labels: "valid_dns_subdomain ''flash.example.test'' 214"
    by (simp add: valid_dns_subdomain_def) code_simp
  have v4: "parse_ipv4 ''flash.example.test'' = None" by code_simp
  then have "parse_run ''flash.example.test'' = None"
    by (simp add: parse_run_def parse_group_def)
  then have no_ip: "parse_ip_addr ''flash.example.test'' = None"
    by (simp add: parse_ip_addr_def v4 parse_ipv6_def)
  have sid: "svc_service_instance_id (fsv_spec web_flash) = uuid_show hex_uuids 7" and
    mode: "ex_endpoint_mode (fs_exposure (workload web_flash)) = Web"
    by (simp_all add: web_flash_def)
  have parse: "uuid_parse hex_uuids (svc_service_instance_id (fsv_spec web_flash)) = Some 7"
    unfolding sid by (rule hex_parse_show)
  have host: "public_hostname hex_uuids web_flash (Some ''flash.example.test'') =
      Inr (Some (''f-'' @ uuid_show hex_uuids 7 @ ''.'' @ ''flash.example.test''))"
    by (simp add: public_hostname_def validate_public_domain_def mode parse ok_or_def ensure_def labels no_ip)
  have "bindR (request_hostname Some (Some (''f-'' @ uuid_show hex_uuids 7 @ ''.'' @ ''flash.example.test'')))
      (\<lambda>h. service_id_from_hostname hex_uuids h ''flash.example.test'') = (Inr 7 :: unit activator_error + uuid)"
    using activator_finds_published_host [OF hex_host.uuid_hostname_axioms host, of Some] parse by simp
  with host show ?thesis by blast
qed

definition stopped_flash :: flash_service where
  "stopped_flash = web_flash\<lparr>fsv_spec := (fsv_spec web_flash)\<lparr>svc_workload := (workload web_flash)\<lparr>fs_stopped := True\<rparr>\<rparr>\<rparr>"

text \<open>A world that is a clock in milliseconds, in which the service never becomes available.\<close>

definition sample_activator :: "flash_service \<Rightarrow> (nat, unit, unit) activator_api" where
  "sample_activator service =
     \<lparr>act_service_get_opt = (\<lambda>_. eret (Some service)), act_service_get = (\<lambda>_. eret service),
      act_patch_activity = (\<lambda>_ _. eret ()), act_scale = (\<lambda>_ _. eret ()),
      act_deployment_get = (\<lambda>n. eret \<lparr>dep_name = n, dep_generation = None, dep_status = None\<rparr>),
      act_timestamp = int, act_instant = (\<lambda>w. w), act_sleep = (\<lambda>d w. w + d),
      act_send = (\<lambda>_ _ _ _. efail ())\<rparr>"

definition sample_app :: app_state where
  "sample_app = \<lparr>app_workload_namespace = ''flash'', app_public_domain = ''flash.example.test'',
     app_cold_start_timeout = 1000\<rparr>"

theorem stopped_service_not_woken_witness:
  "\<forall>answer w'. proxy_inner 6 (sample_activator stopped_flash) hex_uuids Some sample_app
     \<lparr>hq_method = ''GET'', hq_path_and_query = None, hq_headers = [], hq_body = ()\<rparr> 0 \<noteq> Some (Inr answer, w')"
proof -
  have "fs_stopped (workload service) \<or> quota_reached service"
    if "act_service_get_opt (sample_activator stopped_flash) n w = (Inr (Some service), w')" for n w service w'
    using that by (auto simp: sample_activator_def stopped_flash_def)
  then show ?thesis using stopped_service_not_woken [where api = "sample_activator stopped_flash"] by blast
qed

theorem wait_until_ready_returns_witness:
  "bounded_calls (sample_activator web_flash) ''flash-7'' 0 \<and>
   (\<exists>r w'. wait_until_ready 6 (sample_activator web_flash) sample_app ''flash-7'' 1 0 = Some (r, w') \<and> w' \<le> 1350)"
proof
  show bounded: "bounded_calls (sample_activator web_flash) ''flash-7'' 0"
    by (simp add: bounded_calls_def sample_activator_def)
  show "\<exists>r w'. wait_until_ready 6 (sample_activator web_flash) sample_app ''flash-7'' 1 0 = Some (r, w') \<and> w' \<le> 1350"
    using wait_until_ready_returns [OF bounded, of sample_app 6 1 0] by (auto simp: sample_app_def sample_activator_def)
qed

end
