(* ===== verification/Web_Auth.thy ===== *)
theory Web_Auth
  imports Uuid_Text Meter_Properties
begin

text \<open>
  \<open>lb_auth.rs\<close> and \<open>custom_domains.rs\<close>: OIDC in front of a web endpoint, and further host names of it. The
  calls to the API server are the fields of \<open>web_api\<close>; version 5 identifiers and the text of the
  authentication settings are the fields of \<open>web_lib\<close>. The routes of the controller have one rule, so
  the rules of a route are its list of backends.
\<close>

definition CALLBACK_PATH :: string where "CALLBACK_PATH = ''/_heterocloud/oidc/callback''"
definition LOGOUT_PATH :: string where "LOGOUT_PATH = ''/_heterocloud/oidc/logout''"

record object_owner = owner_reference +
  own_controller :: "bool option"

text \<open>\<open>controller_owner_ref\<close>: none while the object has no identifier.\<close>

definition controller_owner :: "flash_service \<Rightarrow> object_owner option" where
  "controller_owner flash =
     map_option (\<lambda>uid. \<lparr>owner_kind = ''FlashService'', owner_name = flash_name flash, owner_uid = uid,
                       own_controller = Some True\<rparr>) (meta_uid (fsv_meta flash))"

record live_route = http_route +
  lr_owners :: "object_owner list option"

record security_policy =
  sp_name :: string
  sp_generation :: "i64 option"
  sp_deletion_timestamp :: "int option"
  sp_owners :: "object_owner list option"
  sp_target_refs :: "json list"
  sp_oidc :: "json option"
  sp_status :: "json option"

record web_secret =
  ws_uid :: "string option"
  ws_resource_version :: "string option"
  ws_owners :: "object_owner list option"
  ws_labels :: "(string, string) btree_map option"
  ws_data :: "(string, string) btree_map option"

record flash_domain_spec =
  fd_hostname :: string
  fd_cname_target :: string
  fd_binding_id :: string
  fd_verification_value :: string
  fd_service_instance_id :: string
  fd_organization_id :: string
  fd_project_id :: string
  fd_service_uid :: string

record flash_domain_status =
  fds_observed_generation :: i64
  fds_phase :: string
  fds_dns_verified :: bool
  fds_tls_ready :: bool
  fds_message :: "string option"
  fds_certificate_expires_at :: "string option"

definition default_flash_domain_status :: flash_domain_status where
  "default_flash_domain_status =
     \<lparr>fds_observed_generation = 0, fds_phase = [], fds_dns_verified = False, fds_tls_ready = False,
      fds_message = None, fds_certificate_expires_at = None\<rparr>"

record flash_domain =
  dom_meta :: object_meta
  dom_owners :: "object_owner list option"
  dom_spec :: flash_domain_spec
  dom_status :: "flash_domain_status option"

datatype web_error = Web_Error string | Web_Kubernetes kube_error

record web_lib =
  wl_uuids :: uuid_ops
  wl_new_v5 :: "uuid \<Rightarrow> string \<Rightarrow> uuid"
  wl_namespace_dns :: uuid
  wl_authentication_text :: "flash_oidc_authentication \<Rightarrow> string"

record 'w web_api =
  wa_policy_get_opt :: "string \<Rightarrow> ('w, kube_error, security_policy option) effect"
  wa_policy_delete :: "string \<Rightarrow> ('w, kube_error, unit) effect"
  wa_policy_apply :: "string \<Rightarrow> security_policy \<Rightarrow> ('w, kube_error, security_policy) effect"
  wa_secret_get_opt :: "string \<Rightarrow> ('w, kube_error, web_secret option) effect"
  wa_secret_adopt :: "string \<Rightarrow> string option \<Rightarrow> object_owner \<Rightarrow> ('w, kube_error, web_secret) effect"
  wa_route_get_opt :: "string \<Rightarrow> ('w, kube_error, live_route option) effect"
  wa_route_delete :: "string \<Rightarrow> ('w, kube_error, unit) effect"
  wa_route_apply :: "string \<Rightarrow> http_route \<Rightarrow> ('w, kube_error, unit) effect"
  wa_domain_route_apply :: "string \<Rightarrow> http_route \<Rightarrow> ('w, kube_error, unit) effect"
  wa_domains_list :: "string \<Rightarrow> ('w, kube_error, flash_domain list) effect"

abbreviation eweb :: "('w, kube_error, 'a) effect \<Rightarrow> ('w, web_error, 'a) effect" where
  "eweb \<equiv> emap_err Web_Kubernetes"

abbreviation eensure :: "bool \<Rightarrow> string \<Rightarrow> ('w, web_error, unit) effect" where
  "eensure b m \<equiv> etry (ensure b (Web_Error m))"

section \<open>lb_auth.rs\<close>

definition client_secret_reference :: "string \<Rightarrow> json" where
  "client_secret_reference name = jobj [(''group'', JStr []), (''kind'', JStr ''Secret''), (''name'', JStr name)]"

definition secret_name :: "web_lib \<Rightarrow> uuid \<Rightarrow> string \<Rightarrow> string" where
  "secret_name lib service_id reference =
     ''flash-'' @ uuid_simple (wl_uuids lib) service_id @ ''-oidc-'' @
     take 12 (uuid_simple (wl_uuids lib) (wl_new_v5 lib service_id reference))"

definition jarray :: "json \<Rightarrow> json list option" where
  "jarray v = (case v of JArr xs \<Rightarrow> Some xs | _ \<Rightarrow> None)"

definition jint :: "json \<Rightarrow> i64 option" where
  "jint v = (case v of JNum n \<Rightarrow> if i64_min \<le> n \<and> n \<le> i64_max then Some n else None | _ \<Rightarrow> None)"

definition ancestor_accepts :: "i64 \<Rightarrow> json \<Rightarrow> bool" where
  "ancestor_accepts generation ancestor \<longleftrightarrow>
     (let reference = jget ancestor ''ancestorRef''
      in jget ancestor ''controllerName'' = JStr GATEWAY_CONTROLLER \<and>
         jget reference ''name'' = JStr GATEWAY_NAME \<and> jget reference ''namespace'' = JStr GATEWAY_NAMESPACE \<and>
         (case jget_opt reference ''kind'' of None \<Rightarrow> True | Some k \<Rightarrow> k = JStr ''Gateway'') \<and>
         (case jget_opt reference ''group'' of None \<Rightarrow> True | Some g \<Rightarrow> g = JStr ''gateway.networking.k8s.io'') \<and>
         (case jarray (jget ancestor ''conditions'') of
            None \<Rightarrow> False
          | Some conditions \<Rightarrow>
              list_ex (\<lambda>c. jget c ''type'' = JStr ''Accepted'' \<and> jget c ''status'' = JStr ''True'' \<and>
                           jint (jget c ''observedGeneration'') = Some generation) conditions))"

definition policy_is_ready :: "security_policy \<Rightarrow> bool" where
  "policy_is_ready policy =
     (case sp_generation policy of
        None \<Rightarrow> False
      | Some generation \<Rightarrow>
          sp_deletion_timestamp policy = None \<and>
          (case Option.bind (Option.bind (sp_status policy) (\<lambda>s. jget_opt s ''ancestors'')) jarray of
             None \<Rightarrow> False
           | Some ancestors \<Rightarrow> list_ex (ancestor_accepts generation) ancestors))"

definition blocked_backend :: "string \<Rightarrow> backend_reference" where
  "blocked_backend name =
     \<lparr>br_group = [], br_kind = ''Service'', br_name = name @ ''-oidc-pending'', br_namespace = None, br_port = Some 80\<rparr>"

definition blocked_route :: "http_route \<Rightarrow> http_route" where
  "blocked_route route = route\<lparr>hr_backend_refs := [blocked_backend (hr_name route)]\<rparr>"

definition block_existing_route :: "'w web_api \<Rightarrow> string \<Rightarrow> ('w, web_error, unit) effect" where
  "block_existing_route api name =
     ebind (eweb (wa_route_get_opt api name)) (\<lambda>found.
     case found of
       None \<Rightarrow> eret ()
     | Some route \<Rightarrow>
         eweb (wa_route_apply api name ((blocked_route (http_route.truncate route))\<lparr>hr_status := None\<rparr>)))"

record prepared_authentication =
  pa_ready :: bool
  pa_message :: "string option"

definition ensure_controlled :: "object_owner list option \<Rightarrow> owner_reference \<Rightarrow> web_error + unit" where
  "ensure_controlled references owner =
     ensure (case references of
               None \<Rightarrow> False
             | Some refs \<Rightarrow> list_ex (\<lambda>r. owner_uid r = owner_uid owner \<and> own_controller r = Some True) refs)
       (Web_Error ''OIDC resource ownership does not match the Flash service'')"

text \<open>Without authentication, a policy of the service is removed.\<close>

definition remove_policy ::
  "'w web_api \<Rightarrow> string \<Rightarrow> object_owner \<Rightarrow> ('w, web_error, prepared_authentication) effect" where
  "remove_policy api name owner =
     ebind (eweb (wa_policy_get_opt api name)) (\<lambda>found.
     ebind (case found of
              None \<Rightarrow> eret ()
            | Some policy \<Rightarrow>
                ebind (etry (ensure_controlled (sp_owners policy) (owner_reference.truncate owner))) (\<lambda>_.
                ematch (wa_policy_delete api name) (\<lambda>r.
                case r of
                  Inr _ \<Rightarrow> eret ()
                | Inl (Api_Error code) \<Rightarrow>
                    if code = 404 then eret () else efail (Web_Kubernetes (Api_Error code))
                | Inl e \<Rightarrow> efail (Web_Kubernetes e)))) (\<lambda>_.
     eret \<lparr>pa_ready = True, pa_message = None\<rparr>))"

text \<open>The client secret: one without an owner is adopted when its labels name the service.\<close>

definition secret_in_scope :: "flash_service \<Rightarrow> web_secret \<Rightarrow> bool" where
  "secret_in_scope flash existing \<longleftrightarrow>
     (let label = (\<lambda>k. Option.bind (ws_labels existing) (\<lambda>m. bt_get m k))
      in label INSTANCE_LABEL = Some (svc_service_instance_id (fsv_spec flash)) \<and>
         label ORGANIZATION_LABEL = Some (svc_organization_id (fsv_spec flash)) \<and>
         label ''flash.heterocloud.io/project'' = Some (svc_project_id (fsv_spec flash)))"

definition claim_secret ::
  "'w web_api \<Rightarrow> flash_service \<Rightarrow> object_owner \<Rightarrow> string \<Rightarrow> ('w, web_error, web_secret option) effect" where
  "claim_secret api flash owner credential_name =
     ebind (eweb (wa_secret_get_opt api credential_name)) (\<lambda>found.
     case found of
       None \<Rightarrow> eret None
     | Some existing \<Rightarrow>
         if ws_owners existing = None \<or> ws_owners existing = Some []
         then ebind (eensure (secret_in_scope flash existing) ''OIDC credential scope does not match the service'') (\<lambda>_.
              ebind (eweb (wa_secret_adopt api credential_name (ws_resource_version existing) owner)) (\<lambda>s.
              eret (Some s)))
         else ebind (etry (ensure_controlled (ws_owners existing) (owner_reference.truncate owner))) (\<lambda>_.
              eret (Some existing)))"

definition cookie_suffix ::
  "web_lib \<Rightarrow> uuid \<Rightarrow> flash_oidc_authentication \<Rightarrow> web_secret option \<Rightarrow> string" where
  "cookie_suffix lib service_id authentication secret =
     (let revision = wl_authentication_text lib authentication @ '':'' @
            unwrap_or (Option.bind secret ws_uid) ''missing'' @ '':'' @
            unwrap_or (Option.bind secret ws_resource_version) ''missing''
      in uuid_simple (wl_uuids lib) (wl_new_v5 lib service_id revision))"

definition desired_policy ::
  "string \<Rightarrow> object_owner \<Rightarrow> flash_oidc_authentication \<Rightarrow> string \<Rightarrow> string \<Rightarrow> string \<Rightarrow> security_policy" where
  "desired_policy name owner authentication credential_name hostname cookies =
     \<lparr>sp_name = name, sp_generation = None, sp_deletion_timestamp = None, sp_owners = Some [owner],
      sp_target_refs = [jobj [(''group'', JStr ''gateway.networking.k8s.io''), (''kind'', JStr ''HTTPRoute''), (''name'', JStr name)]],
      sp_oidc = Some (jobj
        [(''provider'', jobj [(''issuer'', JStr (oidc_issuer_url authentication))]),
         (''clientID'', JStr (oidc_client_id authentication)),
         (''clientSecret'', client_secret_reference credential_name),
         (''scopes'', JArr (map JStr (oidc_scopes authentication))),
         (''redirectURL'', JStr (''https://'' @ hostname @ CALLBACK_PATH)), (''logoutPath'', JStr LOGOUT_PATH),
         (''cookieConfig'', jobj [(''sameSite'', JStr ''Lax'')]),
         (''cookieNames'', jobj [(''accessToken'', JStr (''HcAccessToken-'' @ cookies)),
                               (''idToken'', JStr (''HcIdToken-'' @ cookies))]),
         (''forwardAccessToken'', JBool False), (''passThroughAuthHeader'', JBool False),
         (''disableTokenEncryption'', JBool False), (''refreshToken'', JBool True)]),
      sp_status = None\<rparr>"

definition policy_current :: "security_policy \<Rightarrow> security_policy option \<Rightarrow> bool" where
  "policy_current desired current =
     (case current of
        None \<Rightarrow> False
      | Some policy \<Rightarrow>
          sp_target_refs policy = sp_target_refs desired \<and> sp_oidc policy = sp_oidc desired \<and> policy_is_ready policy)"

definition secret_valid :: "web_secret option \<Rightarrow> bool" where
  "secret_valid secret =
     (case Option.bind (Option.bind secret ws_data) (\<lambda>m. bt_get m ''client-secret'') of
        None \<Rightarrow> False | Some v \<Rightarrow> v \<noteq> [])"

text \<open>The route is blocked before the policy changes.\<close>

definition install_policy ::
  "'w web_api \<Rightarrow> string \<Rightarrow> object_owner \<Rightarrow> http_route \<Rightarrow> security_policy \<Rightarrow> web_secret option \<Rightarrow>
   ('w, web_error, prepared_authentication) effect" where
  "install_policy api name owner route desired secret =
     ebind (eweb (wa_policy_get_opt api name)) (\<lambda>current.
     ebind (case current of
              None \<Rightarrow> eret ()
            | Some policy \<Rightarrow> etry (ensure_controlled (sp_owners policy) (owner_reference.truncate owner))) (\<lambda>_.
     ebind (if policy_current desired current then eret ()
            else eweb (wa_route_apply api name (blocked_route route))) (\<lambda>_.
     ebind (eweb (wa_policy_apply api name desired)) (\<lambda>applied.
     let ready = secret_valid secret \<and> policy_is_ready applied
     in eret \<lparr>pa_ready = ready,
              pa_message =
                (if ready then None
                 else Some (if secret_valid secret
                   then ''waiting for load balancer OIDC policy acceptance; unauthenticated access is blocked''
                   else ''write the referenced load balancer client secret; unauthenticated access is blocked''))\<rparr>))))"

definition prepare ::
  "'w web_api \<Rightarrow> web_lib \<Rightarrow> flash_service \<Rightarrow> object_owner \<Rightarrow> string option \<Rightarrow> http_route option \<Rightarrow>
   ('w, web_error, prepared_authentication) effect" where
  "prepare api lib flash owner hostname route =
     (let name = flash_name flash
      in case ex_authentication (fs_exposure (workload flash)) of
           None \<Rightarrow> remove_policy api name owner
         | Some authentication \<Rightarrow>
             ebind (etry (ok_or route (Web_Error ''OIDC requires an HTTP route''))) (\<lambda>route.
             ebind (etry (ok_or hostname (Web_Error ''OIDC requires provider publicDomain''))) (\<lambda>hostname.
             ebind (etry (ok_or (uuid_parse (wl_uuids lib) (svc_service_instance_id (fsv_spec flash)))
                      (Web_Error ''invalid UUID''))) (\<lambda>service_id.
             let credential_name = secret_name lib service_id (oidc_client_secret_ref authentication)
             in ebind (claim_secret api flash owner credential_name) (\<lambda>secret.
                install_policy api name owner route
                  (desired_policy name owner authentication credential_name hostname
                     (cookie_suffix lib service_id authentication secret)) secret)))))"

section \<open>custom_domains.rs\<close>

definition LIST_ACTION :: string where "LIST_ACTION = ''flash.domains.list''"
definition WRITE_ACTION :: string where "WRITE_ACTION = ''flash.domains.write''"

definition valid_host_label :: "string \<Rightarrow> bool" where
  "valid_host_label label \<longleftrightarrow>
     label \<noteq> [] \<and> length label \<le> 63 \<and> is_ascii_alphanumeric (label ! 0) \<and>
     is_ascii_alphanumeric (label ! (length label - 1)) \<and>
     list_all (\<lambda>c. is_ascii_lowercase c \<or> is_ascii_digit c \<or> c = CHR ''-'') label"

definition validate_hostname :: "string \<Rightarrow> web_error + unit" where
  "validate_hostname v =
     bindR (ensure (3 \<le> length v \<and> length v \<le> 253 \<and> CHR ''.'' \<in> set v \<and> parse_ip_addr v = None)
              (Web_Error ''invalid public hostname'')) (\<lambda>_.
     bindR (ensure (\<not> list_ex (\<lambda>s. suffix s v) [''.internal'', ''.localhost'', ''.local''])
              (Web_Error ''private hostnames are not supported'')) (\<lambda>_.
     for_each (\<lambda>label. ensure (valid_host_label label)
                (Web_Error ''hostname must be canonical lowercase DNS without scheme, path, port or wildcard''))
       (split_on CHR ''.'' v)))"

definition resource_name :: "web_lib \<Rightarrow> string \<Rightarrow> string" where
  "resource_name lib hostname =
     ''flash-domain-'' @ uuid_simple (wl_uuids lib) (wl_new_v5 lib (wl_namespace_dns lib) hostname)"

definition owned_by :: "flash_domain \<Rightarrow> flash_service \<Rightarrow> bool" where
  "owned_by fdomain flash \<longleftrightarrow>
     fd_service_instance_id (dom_spec fdomain) = svc_service_instance_id (fsv_spec flash) \<and>
     fd_organization_id (dom_spec fdomain) = svc_organization_id (fsv_spec flash) \<and>
     fd_project_id (dom_spec fdomain) = svc_project_id (fsv_spec flash) \<and>
     meta_uid (fsv_meta flash) = Some (fd_service_uid (dom_spec fdomain)) \<and>
     (case dom_owners fdomain of
        None \<Rightarrow> False
      | Some refs \<Rightarrow>
          list_ex (\<lambda>r. owner_kind r = ''FlashService'' \<and> Some (owner_uid r) = meta_uid (fsv_meta flash)) refs)"

definition ensure_owner :: "object_owner list option \<Rightarrow> object_owner \<Rightarrow> web_error + unit" where
  "ensure_owner refs owner =
     ensure (case refs of
               None \<Rightarrow> False
             | Some rs \<Rightarrow> list_ex (\<lambda>x. owner_uid x = owner_uid owner \<and> owner_kind x = owner_kind owner) rs)
       (Web_Error ''domain route owner differs'')"

definition domain_ready :: "flash_domain \<Rightarrow> bool" where
  "domain_ready fdomain \<longleftrightarrow>
     meta_deletion_timestamp (dom_meta fdomain) = None \<and>
     (case dom_status fdomain of
        None \<Rightarrow> False
      | Some s \<Rightarrow> fds_dns_verified s \<and> fds_tls_ready s \<and>
                  fds_observed_generation s = unwrap_or (meta_generation (dom_meta fdomain)) 0)"

definition remove_domain ::
  "'w web_api \<Rightarrow> string \<Rightarrow> object_owner \<Rightarrow> ('w, web_error, unit) effect" where
  "remove_domain api name owner =
     ebind (eweb (wa_route_get_opt api name)) (\<lambda>route.
     ebind (case route of
              None \<Rightarrow> eret ()
            | Some current \<Rightarrow>
                ebind (etry (ensure_owner (lr_owners current) owner)) (\<lambda>_. eweb (wa_route_delete api name))) (\<lambda>_.
     ebind (eweb (wa_policy_get_opt api name)) (\<lambda>policy.
     case policy of
       None \<Rightarrow> eret ()
     | Some current \<Rightarrow>
         ebind (etry (ensure_owner (sp_owners current) owner)) (\<lambda>_. eweb (wa_policy_delete api name)))))"

definition domain_route :: "http_route \<Rightarrow> string \<Rightarrow> string \<Rightarrow> http_route" where
  "domain_route base name hostname =
     base\<lparr>hr_name := name, hr_hostnames := [hostname],
          hr_labels := bt_insert ''flash.heterocloud.io/custom-domain'' name (hr_labels base)\<rparr>"

definition publish_domain ::
  "'w web_api \<Rightarrow> web_lib \<Rightarrow> flash_service \<Rightarrow> object_owner \<Rightarrow> flash_domain \<Rightarrow> http_route \<Rightarrow>
   ('w, web_error, unit) effect" where
  "publish_domain api lib flash owner fdomain base =
     (let name = meta_name (dom_meta fdomain);
          route = domain_route base name (fd_hostname (dom_spec fdomain))
      in ebind (eweb (wa_route_get_opt api name)) (\<lambda>found.
         ebind (case found of
                  None \<Rightarrow> eret () | Some current \<Rightarrow> etry (ensure_owner (lr_owners current) owner)) (\<lambda>_.
         ebind (prepare api lib (flash\<lparr>fsv_meta := (fsv_meta flash)\<lparr>meta_name := name\<rparr>\<rparr>) owner
                  (Some (fd_hostname (dom_spec fdomain))) (Some route)) (\<lambda>authentication.
         if pa_ready authentication then eweb (wa_domain_route_apply api name route) else eret ()))))"

definition reconcile_domain ::
  "'w web_api \<Rightarrow> web_lib \<Rightarrow> flash_service \<Rightarrow> object_owner \<Rightarrow> http_route option \<Rightarrow> flash_domain \<Rightarrow>
   ('w, web_error, unit) effect" where
  "reconcile_domain api lib flash owner base fdomain =
     ebind (eensure (owned_by fdomain flash) ''custom hostname owner differs'') (\<lambda>_.
     ebind (etry (validate_hostname (fd_hostname (dom_spec fdomain)))) (\<lambda>_.
     ebind (eensure (meta_name (dom_meta fdomain) = resource_name lib (fd_hostname (dom_spec fdomain)))
              ''custom hostname resource name differs'') (\<lambda>_.
     case base of
       None \<Rightarrow> remove_domain api (meta_name (dom_meta fdomain)) owner
     | Some route \<Rightarrow>
         if \<not> domain_ready fdomain then remove_domain api (meta_name (dom_meta fdomain)) owner
         else publish_domain api lib flash owner fdomain route)))"

definition reconcile_routes ::
  "'w web_api \<Rightarrow> web_lib \<Rightarrow> flash_service \<Rightarrow> object_owner \<Rightarrow> http_route option \<Rightarrow> ('w, web_error, unit) effect" where
  "reconcile_routes api lib flash owner base =
     ebind (eweb (wa_domains_list api (INSTANCE_LABEL @ ''='' @ svc_service_instance_id (fsv_spec flash)))) (\<lambda>aliases.
     efor (reconcile_domain api lib flash owner base) aliases)"

record domain_view =
  dvw_hostname :: string
  dvw_cname_target :: string
  dvw_phase :: string
  dvw_message :: "string option"
  dvw_certificate_expires_at :: "string option"
  dvw_verification_name :: string
  dvw_verification_value :: string
  dvw_oidc_callback_url :: string

definition domain_phase :: "flash_domain \<Rightarrow> bool \<Rightarrow> bool \<Rightarrow> string" where
  "domain_phase fdomain routed authenticated =
     (let status = unwrap_or (dom_status fdomain) default_flash_domain_status
      in if meta_deletion_timestamp (dom_meta fdomain) \<noteq> None then ''deleting''
         else if fds_tls_ready status \<and> routed \<and> authenticated then ''ready''
         else if fds_tls_ready status then ''routing''
         else if fds_phase status = [] then ''pending_dns'' else fds_phase status)"

fun domain_views ::
  "'w web_api \<Rightarrow> flash_service \<Rightarrow> flash_domain list \<Rightarrow> ('w, web_error, domain_view list) effect" where
  "domain_views api flash [] = eret []"
| "domain_views api flash (fdomain # aliases) =
     ebind (eensure (owned_by fdomain flash) ''custom hostname owner differs'') (\<lambda>_.
     ebind (eweb (wa_route_get_opt api (meta_name (dom_meta fdomain)))) (\<lambda>route.
     ebind (if ex_authentication (fs_exposure (workload flash)) \<noteq> None
            then ebind (eweb (wa_policy_get_opt api (meta_name (dom_meta fdomain)))) (\<lambda>policy.
                 eret (case policy of None \<Rightarrow> False | Some p \<Rightarrow> policy_is_ready p))
            else eret True) (\<lambda>authenticated.
     let routed = (case route of None \<Rightarrow> False | Some r \<Rightarrow> route_is_ready (http_route.truncate r));
         status = unwrap_or (dom_status fdomain) default_flash_domain_status;
         host = fd_hostname (dom_spec fdomain)
     in ebind (domain_views api flash aliases) (\<lambda>rest.
        eret (\<lparr>dvw_hostname = host, dvw_cname_target = fd_cname_target (dom_spec fdomain),
               dvw_phase = domain_phase fdomain routed authenticated, dvw_message = fds_message status,
               dvw_certificate_expires_at = fds_certificate_expires_at status,
               dvw_verification_name = ''_heterocloud.'' @ host,
               dvw_verification_value = fd_verification_value (dom_spec fdomain),
               dvw_oidc_callback_url = ''https://'' @ host @ CALLBACK_PATH\<rparr> # rest)))))"

definition status_view ::
  "'w web_api \<Rightarrow> flash_service \<Rightarrow> ('w, web_error, domain_view list) effect" where
  "status_view api flash =
     ebind (eweb (wa_domains_list api (INSTANCE_LABEL @ ''='' @ svc_service_instance_id (fsv_spec flash))))
       (domain_views api flash)"

end
