(* ===== verification/Web_Auth_Properties.thy ===== *)
theory Web_Auth_Properties
  imports Web_Auth
begin

text \<open>
  Properties of the authentication in front of web endpoints and of custom domains: a route stays blocked
  until its policy is accepted, and only validated host names are published.
\<close>

lemma web_reads:
  "wa_policy_get_opt (api\<lparr>wa_domain_route_apply := f\<rparr>) = wa_policy_get_opt api"
  "wa_policy_delete (api\<lparr>wa_domain_route_apply := f\<rparr>) = wa_policy_delete api"
  "wa_policy_apply (api\<lparr>wa_domain_route_apply := f\<rparr>) = wa_policy_apply api"
  "wa_secret_get_opt (api\<lparr>wa_domain_route_apply := f\<rparr>) = wa_secret_get_opt api"
  "wa_secret_adopt (api\<lparr>wa_domain_route_apply := f\<rparr>) = wa_secret_adopt api"
  "wa_route_get_opt (api\<lparr>wa_domain_route_apply := f\<rparr>) = wa_route_get_opt api"
  "wa_route_delete (api\<lparr>wa_domain_route_apply := f\<rparr>) = wa_route_delete api"
  "wa_route_apply (api\<lparr>wa_domain_route_apply := f\<rparr>) = wa_route_apply api"
  "wa_domains_list (api\<lparr>wa_domain_route_apply := f\<rparr>) = wa_domains_list api"
  "wa_policy_get_opt (api\<lparr>wa_route_apply := g\<rparr>) = wa_policy_get_opt api"
  "wa_policy_delete (api\<lparr>wa_route_apply := g\<rparr>) = wa_policy_delete api"
  "wa_policy_apply (api\<lparr>wa_route_apply := g\<rparr>) = wa_policy_apply api"
  "wa_secret_get_opt (api\<lparr>wa_route_apply := g\<rparr>) = wa_secret_get_opt api"
  "wa_secret_adopt (api\<lparr>wa_route_apply := g\<rparr>) = wa_secret_adopt api"
  "wa_route_get_opt (api\<lparr>wa_route_apply := g\<rparr>) = wa_route_get_opt api"
  "wa_route_delete (api\<lparr>wa_route_apply := g\<rparr>) = wa_route_delete api"
  "wa_domain_route_apply (api\<lparr>wa_route_apply := g\<rparr>) = wa_domain_route_apply api"
  "wa_domains_list (api\<lparr>wa_route_apply := g\<rparr>) = wa_domains_list api"
  by simp_all

lemma remove_policy_calls:
  "remove_policy (api\<lparr>wa_domain_route_apply := f\<rparr>) = remove_policy api"
  "remove_policy (api\<lparr>wa_route_apply := g\<rparr>) = remove_policy api"
  by (intro ext, simp only: remove_policy_def web_reads)+

lemma claim_secret_calls:
  "claim_secret (api\<lparr>wa_domain_route_apply := f\<rparr>) = claim_secret api"
  "claim_secret (api\<lparr>wa_route_apply := g\<rparr>) = claim_secret api"
  by (intro ext, simp only: claim_secret_def web_reads)+

lemma remove_domain_calls:
  "remove_domain (api\<lparr>wa_domain_route_apply := f\<rparr>) = remove_domain api"
  "remove_domain (api\<lparr>wa_route_apply := g\<rparr>) = remove_domain api"
  by (intro ext, simp only: remove_domain_def web_reads)+

lemma prepare_calls: "prepare (api\<lparr>wa_domain_route_apply := f\<rparr>) = prepare api"
proof -
  have "install_policy (api\<lparr>wa_domain_route_apply := f\<rparr>) = install_policy api"
    by (intro ext) (simp only: install_policy_def web_reads)
  then show ?thesis
    by (intro ext) (simp only: prepare_def web_reads remove_policy_calls claim_secret_calls)
qed

lemmas web_calls = web_reads remove_policy_calls claim_secret_calls remove_domain_calls prepare_calls

section \<open>Blocked until accepted\<close>

definition is_blocked :: "http_route \<Rightarrow> bool" where
  "is_blocked route \<longleftrightarrow> hr_backend_refs route = [blocked_backend (hr_name route)]"

abbreviation only_blocked ::
  "'w web_api \<Rightarrow> (string \<Rightarrow> http_route \<Rightarrow> ('w, kube_error, unit) effect) \<Rightarrow> 'w web_api" where
  "only_blocked api g \<equiv> api\<lparr>wa_route_apply := (\<lambda>n r. if is_blocked r then wa_route_apply api n r else g n r)\<rparr>"

lemma prepare_blocked: "prepare (only_blocked api g) = prepare api"
proof -
  have "is_blocked (blocked_route route)" for route
    by (simp add: is_blocked_def blocked_route_def)
  then have "wa_route_apply (only_blocked api g) n (blocked_route route) = wa_route_apply api n (blocked_route route)" for n route
    by simp
  then have "install_policy (only_blocked api g) = install_policy api"
    by (intro ext) (simp only: install_policy_def web_reads)
  then show ?thesis
    by (intro ext) (simp only: prepare_def web_calls)
qed

lemma install_policy_ready:
  assumes "install_policy api name owner route desired secret w = (Inr p, w')" and "pa_ready p"
  shows "secret_valid secret \<and> (\<exists>w1 applied. wa_policy_apply api name desired w1 = (Inr applied, w') \<and> policy_is_ready applied)"
  using assms by (auto simp: install_policy_def Let_def elim!: ebind_Inr) blast

lemma prepare_ready:
  assumes "prepare api lib flash owner hostname route w = (Inr p, w')" and "pa_ready p"
    and "ex_authentication (fs_exposure (workload flash)) \<noteq> None"
  shows "\<exists>n desired w1 applied. wa_policy_apply api n desired w1 = (Inr applied, w') \<and> policy_is_ready applied"
  using assms
  by (auto simp: prepare_def Let_def elim!: ebind_Inr dest!: install_policy_ready split: option.splits)

lemma publish_domain_blocked:
  "publish_domain (only_blocked api g) = publish_domain api"
  by (intro ext) (simp only: publish_domain_def web_calls prepare_blocked)

lemma publish_domain_refused:
  assumes "ex_authentication (fs_exposure (workload flash)) \<noteq> None"
    and "\<forall>n desired w applied w'. wa_policy_apply api n desired w = (Inr applied, w') \<longrightarrow> \<not> policy_is_ready applied"
  shows "publish_domain (api\<lparr>wa_domain_route_apply := f\<rparr>) lib flash owner fdomain base = publish_domain api lib flash owner fdomain base"
proof -
  let ?identity = "flash\<lparr>fsv_meta := (fsv_meta flash)\<lparr>meta_name := meta_name (dom_meta fdomain)\<rparr>\<rparr>"
  have "\<not> pa_ready p" if "prepare api lib ?identity owner host route w = (Inr p, w')" for host route w p w'
  proof
    assume "pa_ready p"
    moreover have "ex_authentication (fs_exposure (workload ?identity)) \<noteq> None" using assms(1) by simp
    ultimately show False using prepare_ready [OF that] assms(2) by blast
  qed
  then show ?thesis
    by (auto simp: publish_domain_def web_calls fun_eq_iff Let_def intro!: ebind_cong_at)
qed

lemma reconcile_routes_cong:
  assumes "\<And>fdomain base. publish_domain api' lib flash owner fdomain base = publish_domain api lib flash owner fdomain base"
    and "remove_domain api' = remove_domain api" and "wa_domains_list api' = wa_domains_list api"
  shows "reconcile_routes api' lib flash owner base = reconcile_routes api lib flash owner base"
proof -
  have "reconcile_domain api' lib flash owner base = reconcile_domain api lib flash owner base"
    by (intro ext) (simp only: reconcile_domain_def assms)
  then show ?thesis by (simp only: reconcile_routes_def assms)
qed

lemma blocked_routes: "reconcile_routes (only_blocked web g) lib flash owner base = reconcile_routes web lib flash owner base"
  by (rule reconcile_routes_cong) (simp_all only: publish_domain_blocked web_calls)

text \<open>
  The policy is only changed behind a blocked route: unless the policy in force is the desired one and accepted,
  a failure to block the route leaves the policy as it is, whatever the call that applies it would do.
\<close>

theorem policy_changes_behind_blocked_route:
  assumes "\<forall>w current w'. wa_policy_get_opt api name w = (Inr current, w') \<longrightarrow> \<not> policy_current desired current"
    and "\<forall>r w. \<exists>e w'. wa_route_apply api name r w = (Inl e, w')"
  shows "install_policy (api\<lparr>wa_policy_apply := f\<rparr>) name owner route desired secret = install_policy api name owner route desired secret"
proof -
  have reads: "wa_policy_get_opt (api\<lparr>wa_policy_apply := f\<rparr>) = wa_policy_get_opt api"
      "wa_route_apply (api\<lparr>wa_policy_apply := f\<rparr>) = wa_route_apply api"
    by simp_all
  have failed: "\<exists>e w'. (if policy_current desired current then eret () else eweb (wa_route_apply api name (blocked_route route))) w = (Inl e, w')"
    if found: "wa_policy_get_opt api name w0 = (Inr current, w1)" for current w w0 w1
  proof -
    obtain e w' where "wa_route_apply api name (blocked_route route) w = (Inl e, w')" using assms(2) by blast
    moreover have "\<not> policy_current desired current" using assms(1) found by blast
    ultimately show ?thesis by (simp add: emap_err_Inl)
  qed
  have skip: "ebind m k w = ebind m k' w" if "\<exists>e w'. m w = (Inl e, w')"
    for m :: "('a, web_error, unit) effect" and k k' :: "unit \<Rightarrow> ('a, web_error, prepared_authentication) effect" and w
    using that by (auto simp: ebind_apply)
  show ?thesis
    unfolding install_policy_def reads
    by (rule ext, rule ebind_cong_at, rule refl, rule ebind_cong_at, rule refl, rule skip)
       (simp add: failed)
qed

section \<open>Names of domains\<close>

definition publishable :: "web_lib \<Rightarrow> string \<Rightarrow> http_route \<Rightarrow> bool" where
  "publishable lib name route \<longleftrightarrow>
     (\<exists>host. hr_hostnames route = [host] \<and> name = resource_name lib host \<and> hr_name route = name \<and> validate_hostname host = Inr ())"

text \<open>
  Only validated host names are published, each under the name of its own resource: a route that is applied for a
  domain has exactly one host name, which is a canonical public name, and the resource name derived from it.
\<close>

theorem published_domains_valid:
  "reconcile_routes (api\<lparr>wa_domain_route_apply := (\<lambda>n r. if publishable lib n r then wa_domain_route_apply api n r else f n r)\<rparr>)
     lib flash owner base = reconcile_routes api lib flash owner base"
proof -
  let ?api = "api\<lparr>wa_domain_route_apply := (\<lambda>n r. if publishable lib n r then wa_domain_route_apply api n r else f n r)\<rparr>"
  have published: "publish_domain ?api lib flash owner fdomain route = publish_domain api lib flash owner fdomain route"
    if "validate_hostname (fd_hostname (dom_spec fdomain)) = Inr ()"
      "meta_name (dom_meta fdomain) = resource_name lib (fd_hostname (dom_spec fdomain))" for fdomain route
  proof -
    have "publishable lib (meta_name (dom_meta fdomain)) (domain_route route (meta_name (dom_meta fdomain)) (fd_hostname (dom_spec fdomain)))"
      using that by (auto simp: publishable_def domain_route_def)
    then have "wa_domain_route_apply ?api (meta_name (dom_meta fdomain)) (domain_route route (meta_name (dom_meta fdomain)) (fd_hostname (dom_spec fdomain))) =
        wa_domain_route_apply api (meta_name (dom_meta fdomain)) (domain_route route (meta_name (dom_meta fdomain)) (fd_hostname (dom_spec fdomain)))"
      by simp
    then show ?thesis by (simp only: publish_domain_def Let_def web_calls)
  qed
  have "reconcile_domain ?api lib flash owner base fdomain w = reconcile_domain api lib flash owner base fdomain w" for fdomain w
    unfolding reconcile_domain_def web_calls
    by (rule ebind_cong_at, rule refl, rule ebind_cong_at, rule refl, rule ebind_cong_at, rule refl)
       (auto simp: published ensure_def split: if_splits option.splits)
  then have "reconcile_domain ?api lib flash owner base = reconcile_domain api lib flash owner base"
    by (intro ext)
  then show ?thesis by (simp only: reconcile_routes_def web_calls)
qed

section \<open>Witnesses\<close>

definition sample_oidc :: flash_oidc_authentication where
  "sample_oidc = \<lparr>oidc_issuer_url = ''https://id.example'', oidc_client_id = ''web'', oidc_client_secret_ref = ''credential'',
     oidc_scopes = [''openid'']\<rparr>"

definition oidc_flash :: flash_service where
  "oidc_flash = sample_flash\<lparr>fsv_spec := (fsv_spec sample_flash)\<lparr>svc_workload := sample_flash_spec
     \<lparr>fs_exposure := (fs_exposure sample_flash_spec)\<lparr>ex_authentication := Some sample_oidc\<rparr>\<rparr>\<rparr>\<rparr>"

definition sample_web_lib :: web_lib where
  "sample_web_lib = \<lparr>wl_uuids = hex_uuids, wl_new_v5 = (\<lambda>u s. u + of_nat (length s)), wl_namespace_dns = 1,
     wl_authentication_text = oidc_issuer_url\<rparr>"

definition sample_domain_owner :: object_owner where
  "sample_domain_owner = \<lparr>owner_kind = ''FlashService'', owner_name = ''svc'', owner_uid = ''u'', own_controller = Some True\<rparr>"

definition sample_policy :: security_policy where
  "sample_policy = desired_policy ''svc'' sample_domain_owner sample_oidc ''credential'' ''www.example.org'' ''1''"

text \<open>A gateway that has not accepted any policy yet, and a server that cannot write routes.\<close>

definition sample_web_api :: "unit web_api" where
  "sample_web_api =
     \<lparr>wa_policy_get_opt = (\<lambda>_. eret None), wa_policy_delete = (\<lambda>_. eret ()), wa_policy_apply = (\<lambda>_. eret),
      wa_secret_get_opt = (\<lambda>_. eret None), wa_secret_adopt = (\<lambda>_ _ _. efail (Api_Error 404)),
      wa_route_get_opt = (\<lambda>_. eret None), wa_route_delete = (\<lambda>_. eret ()),
      wa_route_apply = (\<lambda>_ _. efail (Api_Error 503)), wa_domain_route_apply = (\<lambda>_ _. eret ()),
      wa_domains_list = (\<lambda>_. eret [])\<rparr>"

definition sample_route :: http_route where
  "sample_route = \<lparr>hr_name = ''svc'', hr_labels = [], hr_owner = None, hr_generation = None, hr_deletion_timestamp = None,
     hr_parent_refs = [], hr_hostnames = [''www.example.org''], hr_backend_refs = [], hr_set_headers = [], hr_status = None\<rparr>"

theorem policy_changes_behind_blocked_route_witness:
  "install_policy (sample_web_api\<lparr>wa_policy_apply := (\<lambda>_ _. efail (Api_Error 500))\<rparr>) ''svc'' sample_domain_owner sample_route
     sample_policy None =
   install_policy sample_web_api ''svc'' sample_domain_owner sample_route sample_policy None"
  by (rule policy_changes_behind_blocked_route) (simp_all add: sample_web_api_def policy_current_def)

end
