(* ===== verification/Deployments.thy ===== *)
theory Deployments
  imports Json_Objects Gpu_Request
begin

text \<open>
  The deployment of a service (\<open>reconcile.rs\<close>, \<open>desired_deployment\<close>), and what an update takes over
  from the deployment that runs. The source writes JSON and converts it into the typed object; here the
  deployment is a record and its pod specification stays the JSON value. The conversion only fails for
  counts that do not fit into 32 signed bits.
\<close>

definition GENERATION_LABEL :: string where "GENERATION_LABEL = ''flash.heterocloud.io/generation''"
definition TEMPLATE_OBSERVED_GENERATION :: string where
  "TEMPLATE_OBSERVED_GENERATION = ''flash.heterocloud.io/template-observed-generation''"
definition PERSISTENT_HOME_MOUNT_PATH :: string where "PERSISTENT_HOME_MOUNT_PATH = ''/root''"
definition SECRET_HELPER_VOLUME :: string where "SECRET_HELPER_VOLUME = ''flash-secret-launcher''"
definition SECRET_HELPER_MOUNT :: string where "SECRET_HELPER_MOUNT = ''/run/flash-helper''"
definition IMAGE_SIZE_ANNOTATION :: string where "IMAGE_SIZE_ANNOTATION = ''flash.heterocloud.io/image-size-bytes''"

section \<open>The object\<close>

record managed_fields_entry =
  mfe_manager :: "string option"
  mfe_operation :: "string option"
  mfe_api_version :: "string option"
  mfe_subresource :: "string option"
  mfe_fields_type :: "string option"
  mfe_fields_v1 :: "json option"

record template_meta =
  tm_labels :: "(string, string) btree_map option"
  tm_annotations :: "(string, string) btree_map option"

record pod_template =
  tp_metadata :: "template_meta option"
  tp_spec :: "json option"

text \<open>The numbers of a rolling update are the unavailable and the surplus pods.\<close>

record deployment_strategy =
  dst_type :: "string option"
  dst_rolling :: "(nat \<times> nat) option"

record deployment_spec =
  dsp_replicas :: "i32 option"
  dsp_strategy :: "deployment_strategy option"
  dsp_progress_deadline :: "nat option"
  dsp_min_ready_seconds :: "nat option"
  dsp_revision_history_limit :: "nat option"
  dsp_selector :: "(string, string) btree_map"
  dsp_template :: pod_template

record live_deployment = deployment +
  ld_labels :: "(string, string) btree_map"
  ld_annotations :: "(string, string) btree_map option"
  ld_owners :: "owner_reference list"
  ld_resource_version :: "string option"
  ld_managed_fields :: "managed_fields_entry list option"
  ld_spec :: "deployment_spec option"

record deployment_options =
  do_image_entrypoint :: "string list"
  do_image_cmd :: "string list"
  do_image_architecture :: "string option"
  do_helper_image :: "string option"
  do_persistent_volume_claim :: "string option"
  do_registry_pull_secret :: "string option"
  do_admin_volume_mounts :: "admin_volume_mount list"
  do_gpu_assignment :: "flash_gpu_assignment option"
  do_workload_identity_endpoint :: "string option"

section \<open>Names and annotations\<close>

definition flash_secret_service_account_name :: "uuid_ops \<Rightarrow> flash_service \<Rightarrow> reconcile_error + string" where
  "flash_secret_service_account_name uuids flash =
     bindR (ok_or (uuid_parse uuids (svc_service_instance_id (fsv_spec flash))) InvalidServiceId) (\<lambda>uuid.
     Inr (''flash-'' @ uuid_simple uuids uuid))"

record service_account =
  sa_name :: string
  sa_labels :: "(string, string) btree_map"
  sa_owner :: owner_reference
  sa_automount_token :: bool

definition desired_secret_service_account ::
  "uuid_ops \<Rightarrow> flash_service \<Rightarrow> owner_reference \<Rightarrow> reconcile_error + service_account" where
  "desired_secret_service_account uuids flash owner =
     bindR (flash_secret_service_account_name uuids flash) (\<lambda>name.
     Inr \<lparr>sa_name = name, sa_labels = base_labels uuids flash, sa_owner = owner, sa_automount_token = False\<rparr>)"

abbreviation insert_all :: "(string \<times> string) list \<Rightarrow> (string, string) btree_map \<Rightarrow> (string, string) btree_map" where
  "insert_all \<equiv> fold (\<lambda>(k, v). bt_insert k v)"

definition secret_path :: "string \<Rightarrow> string \<Rightarrow> string" where
  "secret_path account secret = ''secret/data/flash/'' @ account @ ''/'' @ secret"

definition secret_annotations_of :: "string \<Rightarrow> string \<Rightarrow> (string \<times> string) list" where
  "secret_annotations_of account secret =
     [(''vault.hashicorp.com/agent-inject-secret-'' @ secret, secret_path account secret),
      (''vault.hashicorp.com/agent-inject-template-'' @ secret,
       ''{{- with secret '' @ [CHR 0x22] @ secret_path account secret @ [CHR 0x22] @
       '' -}}{{ .Data.data.value }}{{- end -}}''),
      (''vault.hashicorp.com/agent-inject-perms-'' @ secret, ''0400'')]"

definition secret_annotations :: "string \<Rightarrow> (string, string) btree_map \<Rightarrow> (string, string) btree_map" where
  "secret_annotations account secret_env =
     (if secret_env = [] then []
      else insert_all
             ([(''vault.hashicorp.com/agent-inject'', ''true''),
               (''vault.hashicorp.com/agent-pre-populate-only'', ''true''),
               (''vault.hashicorp.com/role'', ''heterosecrets-flash-workload''),
               (''vault.hashicorp.com/agent-inject-containers'', ''workload'')] @
              concat (map (secret_annotations_of account) (bt_set (map snd secret_env)))) [])"

definition pod_labels_of :: "uuid_ops \<Rightarrow> flash_service \<Rightarrow> (string, string) btree_map" where
  "pod_labels_of uuids flash =
     (let labels = bt_insert GENERATION_LABEL (show_int (svc_desired_generation (fsv_spec flash))) (base_labels uuids flash)
      in if ex_traffic_mode (fs_exposure (workload flash)) = Direct
         then bt_insert TRAFFIC_MODE_ANNOTATION (as_annotation Direct) labels else labels)"

section \<open>The container\<close>

fun workload_ports :: "flash_port list \<Rightarrow> (u16 \<times> transport_protocol) list \<Rightarrow> json list" where
  "workload_ports [] seen = []"
| "workload_ports (p # ps) seen =
     (if (port_container p, port_protocol p) \<in> set seen then workload_ports ps seen
      else jobj [(''name'', JStr (port_name p)), (''containerPort'', JNum (int (port_container p))),
                 (''protocol'', JStr (as_kubernetes (port_protocol p)))] #
           workload_ports ps ((port_container p, port_protocol p) # seen))"

abbreviation jenv :: "string \<Rightarrow> string \<Rightarrow> json" where
  "jenv name v \<equiv> jobj [(''name'', JStr name), (''value'', JStr v)]"

text \<open>The identity of a task adds an annotation of the pod and three variables.\<close>

definition workload_env ::
  "uuid_ops \<Rightarrow> flash_service \<Rightarrow> string option \<Rightarrow> (string, string) btree_map \<Rightarrow>
   reconcile_error + (string, string) btree_map \<times> json list" where
  "workload_env uuids flash identity_endpoint annotations =
     (let env = map (\<lambda>(name, v). jenv name v) (fs_env (workload flash))
      in case fs_task_role (workload flash) of
           None \<Rightarrow> Inr (annotations, env)
         | Some role \<Rightarrow>
             bindR (ok_or identity_endpoint
                      (Resource ''task_role requires provider workloadIdentity.endpoint'')) (\<lambda>endpoint.
             Inr (bt_insert ''iam.heterocloud.io/task-role'' (uuid_show uuids role) annotations,
                  env @ [jenv ''HETEROCLOUD_ENDPOINT'' endpoint,
                         jenv ''HETEROCLOUD_ORGANIZATION_ID'' (svc_organization_id (fsv_spec flash)),
                         jenv ''HETEROCLOUD_WORKLOAD_TOKEN_FILE'' ''/var/run/secrets/heterocloud-workload/token''])))"

definition workload_resources :: "flash_spec \<Rightarrow> u64 \<Rightarrow> json" where
  "workload_resources w rootfs_size =
     jobj ([(''cpu'', JStr (show_nat (fs_cpu_millis w) @ ''m'')), (''memory'', JStr (show_nat (fs_memory_mib w) @ ''Mi'')),
            (''ephemeral-storage'', JStr (show_nat rootfs_size))] @
           (if 0 < effective_gpu_count w then [(GPU_RESOURCE_NAME, JStr (show_nat (effective_gpu_count w)))] else []))"

definition workload_policy :: "flash_spec \<Rightarrow> deployment_policy" where
  "workload_policy w = unwrap_or (fs_deployment w) default_deployment_policy"

text \<open>The check of a policy, or a connection to the first TCP port.\<close>

definition workload_check :: "flash_spec \<Rightarrow> health_check option" where
  "workload_check w =
     or_else (dp_health_check (workload_policy w))
       (map_option (\<lambda>p. \<lparr>hc_port = port_container p, hc_path = None\<rparr>)
          (find (\<lambda>p. port_protocol p = Tcp) (fs_ports w)))"

definition probe_of :: "health_check \<Rightarrow> nat \<Rightarrow> json" where
  "probe_of check failure_threshold =
     jobj ((case hc_path check of
              Some path \<Rightarrow>
                [(''httpGet'', jobj [(''path'', JStr path), (''port'', JNum (int (hc_port check))), (''scheme'', JStr ''HTTP'')])]
            | None \<Rightarrow> [(''tcpSocket'', jobj [(''port'', JNum (int (hc_port check)))])]) @
           [(''periodSeconds'', JNum 5), (''timeoutSeconds'', JNum 2), (''failureThreshold'', JNum (int failure_threshold))])"

definition startup_failures :: "u32 \<Rightarrow> nat" where
  "startup_failures deadline_seconds = (max (deadline_seconds - 30) 30 + 4) div 5"

definition workload_probes :: "flash_spec \<Rightarrow> (string \<times> json) list" where
  "workload_probes w =
     (case workload_check w of
        None \<Rightarrow> []
      | Some check \<Rightarrow>
          [(''readinessProbe'', probe_of check 3),
           (''startupProbe'', probe_of check (startup_failures (dp_deadline_seconds (workload_policy w))))])"

text \<open>With secrets the launcher starts the command of the service or of its image.\<close>

definition original_command :: "flash_spec \<Rightarrow> deployment_options \<Rightarrow> string list" where
  "original_command w options =
     (if fs_command w = [] then do_image_entrypoint options else fs_command w) @
     (if fs_args w = [] then do_image_cmd options else fs_args w)"

definition workload_command ::
  "flash_spec \<Rightarrow> (string, string) btree_map \<Rightarrow> deployment_options \<Rightarrow> reconcile_error + (string \<times> json) list" where
  "workload_command w secret_env options =
     (if secret_env = []
      then Inr ((if fs_command w = [] then [] else [(''command'', JArr (map JStr (fs_command w)))]) @
                (if fs_args w = [] then [] else [(''args'', JArr (map JStr (fs_args w)))]))
      else case original_command w options of
             [] \<Rightarrow> Inl MissingWorkloadCommand
           | c # _ \<Rightarrow>
               if c = [] then Inl MissingWorkloadCommand
               else Inr [(''command'', JArr [JStr (SECRET_HELPER_MOUNT @ ''/launcher'')]),
                         (''args'', JArr (map JStr
                            (concat (map (\<lambda>(env_name, secret). [''--secret-env'', env_name @ ''='' @ secret]) secret_env) @
                             ''--'' # original_command w options)))])"

definition volume_mounts ::
  "flash_spec \<Rightarrow> (string, string) btree_map \<Rightarrow> deployment_options \<Rightarrow> json list" where
  "volume_mounts w secret_env options =
     (if fs_task_role w = None then []
      else [jobj [(''name'', JStr ''heterocloud-workload-identity''),
                  (''mountPath'', JStr ''/var/run/secrets/heterocloud-workload''), (''readOnly'', JBool True)]]) @
     (if secret_env = [] then []
      else [jobj [(''name'', JStr SECRET_HELPER_VOLUME), (''mountPath'', JStr SECRET_HELPER_MOUNT), (''readOnly'', JBool True)]]) @
     (if do_persistent_volume_claim options = None then []
      else [jobj [(''name'', JStr PERSISTENT_HOME_VOLUME), (''mountPath'', JStr PERSISTENT_HOME_MOUNT_PATH)]]) @
     map (\<lambda>m. jobj [(''name'', JStr (avm_name m)), (''mountPath'', JStr (avm_mount_path m)),
                    (''readOnly'', JBool (avm_read_only m))]) (do_admin_volume_mounts options)"

definition workload_container ::
  "flash_spec \<Rightarrow> string \<Rightarrow> u64 \<Rightarrow> json list \<Rightarrow> (string \<times> json) list \<Rightarrow> json list \<Rightarrow> json" where
  "workload_container w resolved_image rootfs_size env command mounts =
     jobj ([(''name'', JStr ''workload''), (''image'', JStr resolved_image), (''imagePullPolicy'', JStr ''IfNotPresent''),
            (''lifecycle'', jobj [(''preStop'', jobj [(''sleep'', jobj [(''seconds'', JNum 5)])])]),
            (''ports'', JArr (workload_ports (fs_ports w) [])), (''env'', JArr env),
            (''resources'', jobj [(''requests'', workload_resources w rootfs_size),
                                (''limits'', workload_resources w rootfs_size)]),
            (''securityContext'',
             jobj [(''runAsNonRoot'', JBool False), (''runAsUser'', JNum 0), (''runAsGroup'', JNum 0),
                   (''allowPrivilegeEscalation'', JBool False),
                   (''capabilities'', jobj [(''drop'', JArr [JStr ''NET_RAW''])])])] @
           workload_probes w @ command @
           (if mounts = [] then [] else [(''volumeMounts'', JArr mounts)]))"

section \<open>The pod\<close>

definition helper_security :: "nat \<Rightarrow> (string \<times> json) list \<Rightarrow> json" where
  "helper_security user extra =
     jobj ([(''runAsUser'', JNum (int user)), (''runAsGroup'', JNum (int user)), (''allowPrivilegeEscalation'', JBool False),
            (''readOnlyRootFilesystem'', JBool True), (''capabilities'', jobj [(''drop'', JArr [JStr ''ALL''])])] @ extra)"

definition helper_resources :: json where
  "helper_resources =
     jobj [(''requests'', jobj [(''cpu'', JStr ''10m''), (''memory'', JStr ''16Mi'')]),
           (''limits'', jobj [(''cpu'', JStr ''100m''), (''memory'', JStr ''64Mi'')])]"

definition secret_helper :: "string \<Rightarrow> json" where
  "secret_helper helper_image =
     jobj [(''name'', JStr SECRET_HELPER_VOLUME), (''image'', JStr helper_image), (''imagePullPolicy'', JStr ''IfNotPresent''),
           (''command'', JArr [JStr ''/bin/cp'', JStr ''/usr/local/bin/flash-secret-env-launcher'',
                             JStr (SECRET_HELPER_MOUNT @ ''/launcher'')]),
           (''resources'', helper_resources),
           (''volumeMounts'', JArr [jobj [(''name'', JStr SECRET_HELPER_VOLUME), (''mountPath'', JStr SECRET_HELPER_MOUNT)]]),
           (''securityContext'', helper_security 0 [])]"

definition field_env :: "string \<Rightarrow> string \<Rightarrow> json" where
  "field_env name path =
     jobj [(''name'', JStr name), (''valueFrom'', jobj [(''fieldRef'', jobj [(''fieldPath'', JStr path)])])]"

definition vpc_guard :: "string \<Rightarrow> json" where
  "vpc_guard helper_image =
     jobj [(''name'', JStr ''flash-vpc-ready''), (''image'', JStr helper_image), (''imagePullPolicy'', JStr ''IfNotPresent''),
           (''command'', JArr [JStr ''/usr/local/bin/flash-vpc-ready'']),
           (''env'', JArr [field_env ''NODE_IP'' ''status.hostIP'', field_env ''POD_UID'' ''metadata.uid'']),
           (''securityContext'', helper_security 65532 [(''runAsNonRoot'', JBool True)]),
           (''resources'', helper_resources)]"

text \<open>The helpers of secrets and of the network; without them the field is absent.\<close>

definition init_containers ::
  "flash_spec \<Rightarrow> (string, string) btree_map \<Rightarrow> deployment_options \<Rightarrow> reconcile_error + json list" where
  "init_containers w secret_env options =
     bindR (if secret_env = [] then Inr []
            else bindR (ok_or (do_helper_image options) MissingHelperImage) (\<lambda>helper_image. Inr [secret_helper helper_image])) (\<lambda>secret.
     bindR (if secret_env = [] then Inr () else ensure (do_image_architecture options \<noteq> None) MissingImageArchitecture) (\<lambda>_.
     bindR (if fs_network w = None then Inr []
            else bindR (ok_or (do_helper_image options) MissingHelperImage) (\<lambda>helper_image. Inr [vpc_guard helper_image])) (\<lambda>guard.
     Inr (secret @ guard))))"

definition node_selector ::
  "flash_spec \<Rightarrow> (string, string) btree_map \<Rightarrow> deployment_options \<Rightarrow> (string \<times> json) list" where
  "node_selector w secret_env options =
     (if secret_env = [] then []
      else case do_image_architecture options of
             None \<Rightarrow> [] | Some architecture \<Rightarrow> [(''kubernetes.io/arch'', JStr architecture)]) @
     (if 0 < effective_gpu_count w then [(GPU_READY_LABEL, JStr ''true'')] else [])"

definition match_in :: "string \<Rightarrow> string \<Rightarrow> json" where
  "match_in key v = jobj [(''key'', JStr key), (''operator'', JStr ''In''), (''values'', JArr [JStr v])]"

definition gpu_affinity :: "flash_gpu_assignment \<Rightarrow> json" where
  "gpu_affinity assignment =
     jobj [(''nodeAffinity'', jobj [(''requiredDuringSchedulingIgnoredDuringExecution'',
       jobj [(''nodeSelectorTerms'', JArr [jobj [(''matchExpressions'', JArr
         [match_in ''kubernetes.io/hostname'' (ga_node_name assignment),
          match_in GPU_TYPE_LABEL (ga_gpu_type assignment)])]])])])]"

definition claim_volume :: "string \<Rightarrow> string \<Rightarrow> json" where
  "claim_volume name claim =
     jobj [(''name'', JStr name), (''persistentVolumeClaim'', jobj [(''claimName'', JStr claim)])]"

definition pod_volumes ::
  "flash_spec \<Rightarrow> (string, string) btree_map \<Rightarrow> deployment_options \<Rightarrow> json list" where
  "pod_volumes w secret_env options =
     (if secret_env = [] then []
      else [jobj [(''name'', JStr SECRET_HELPER_VOLUME), (''emptyDir'', jobj [(''medium'', JStr ''Memory'')])]]) @
     (case do_persistent_volume_claim options of
        None \<Rightarrow> [] | Some claim_name \<Rightarrow> [claim_volume PERSISTENT_HOME_VOLUME claim_name]) @
     map (\<lambda>m. claim_volume (avm_name m) (avm_claim_name m)) (do_admin_volume_mounts options) @
     (if fs_task_role w = None then []
      else [jobj [(''name'', JStr ''heterocloud-workload-identity''),
                  (''projected'', jobj [(''defaultMode'', JNum 292),
                     (''sources'', JArr [jobj [(''serviceAccountToken'',
                        jobj [(''audience'', JStr ''heterocloud-workload''), (''expirationSeconds'', JNum 3600),
                              (''path'', JStr ''token'')])]])])]])"

definition pod_base :: "flash_service \<Rightarrow> string \<Rightarrow> (string, string) btree_map \<Rightarrow> json \<Rightarrow> (string \<times> json) list" where
  "pod_base flash account secret_env container =
     (let own_account = (if fs_task_role (workload flash) \<noteq> None \<or> secret_env \<noteq> [] then account else ''default'')
      in [(''runtimeClassName'', JStr (workload_runtime_class (effective_gpu_count (workload flash)))),
          (''serviceAccountName'', JStr own_account), (''serviceAccount'', JStr own_account),
          (''automountServiceAccountToken'', JBool (secret_env \<noteq> [])),
          (''enableServiceLinks'', JBool False), (''terminationGracePeriodSeconds'', JNum 30),
          (''securityContext'',
           jobj [(''runAsNonRoot'', JBool False), (''runAsUser'', JNum 0), (''runAsGroup'', JNum 0),
                 (''seccompProfile'', jobj [(''type'', JStr ''RuntimeDefault'')])]),
          (''topologySpreadConstraints'', JArr [jobj
            [(''maxSkew'', JNum 1), (''topologyKey'', JStr ''kubernetes.io/hostname''),
             (''whenUnsatisfiable'', JStr ''ScheduleAnyway''),
             (''labelSelector'', jobj [(''matchLabels'',
                jobj [(INSTANCE_LABEL, JStr (svc_service_instance_id (fsv_spec flash)))])])]]),
          (''containers'', JArr [container])])"

definition pod_placement ::
  "flash_spec \<Rightarrow> (string, string) btree_map \<Rightarrow> deployment_options \<Rightarrow> json list \<Rightarrow> (string \<times> json) list" where
  "pod_placement w secret_env options init =
     (if init = [] then [] else [(''initContainers'', JArr init)]) @
     (if node_selector w secret_env options = [] then []
      else [(''nodeSelector'', jobj (node_selector w secret_env options))]) @
     (if 0 < effective_gpu_count w
      then (case do_gpu_assignment options of
              None \<Rightarrow> [] | Some assignment \<Rightarrow> [(''affinity'', gpu_affinity assignment)]) else []) @
     (case do_registry_pull_secret options of
        None \<Rightarrow> [] | Some secret \<Rightarrow> [(''imagePullSecrets'', JArr [jobj [(''name'', JStr secret)]])])"

definition pod_spec_of ::
  "flash_service \<Rightarrow> string \<Rightarrow> (string, string) btree_map \<Rightarrow> deployment_options \<Rightarrow> json \<Rightarrow> json list \<Rightarrow> json" where
  "pod_spec_of flash account secret_env options container init =
     (let volumes = pod_volumes (workload flash) secret_env options
      in jobj (pod_base flash account secret_env container @ pod_placement (workload flash) secret_env options init @
               (if volumes = [] then [] else [(''volumes'', JArr volumes)])))"

section \<open>The deployment\<close>

text \<open>A disk or a device is never held by two revisions at once.\<close>

definition is_stateful :: "flash_spec \<Rightarrow> deployment_options \<Rightarrow> bool" where
  "is_stateful w options \<longleftrightarrow>
     do_persistent_volume_claim options \<noteq> None \<or> do_admin_volume_mounts options \<noteq> [] \<or> 0 < effective_gpu_count w"

definition deployment_strategy_of ::
  "flash_spec \<Rightarrow> deployment_options \<Rightarrow> reconcile_error + deployment_strategy" where
  "deployment_strategy_of w options =
     (let strategy = dp_strategy (workload_policy w)
      in if is_stateful w options \<and> strategy = ''rolling''
         then Inl (Resource ''rolling updates require a stateless service; use auto or recreate for persistent disks/GPU'')
         else if is_stateful w options \<or> strategy = ''recreate''
         then Inr \<lparr>dst_type = Some ''Recreate'', dst_rolling = None\<rparr>
         else if 0 < effective_gpu_count w
         then Inr \<lparr>dst_type = Some ''RollingUpdate'', dst_rolling = Some (1, 0)\<rparr>
         else Inr \<lparr>dst_type = Some ''RollingUpdate'', dst_rolling = Some (0, 1)\<rparr>)"

definition deployment_of ::
  "uuid_ops \<Rightarrow> flash_service \<Rightarrow> owner_reference \<Rightarrow> deployment_strategy \<Rightarrow> (string, string) btree_map \<Rightarrow> json \<Rightarrow>
   live_deployment" where
  "deployment_of uuids flash owner strategy annotations pod_spec =
     \<lparr>dep_name = flash_name flash, dep_generation = None, dep_status = None,
      ld_labels = base_labels uuids flash, ld_annotations = None, ld_owners = [owner],
      ld_resource_version = None, ld_managed_fields = None,
      ld_spec = Some
        \<lparr>dsp_replicas = Some (int (fs_replicas (workload flash))), dsp_strategy = Some strategy,
         dsp_progress_deadline = Some (dp_deadline_seconds (workload_policy (workload flash))),
         dsp_min_ready_seconds = Some 5, dsp_revision_history_limit = Some 10,
         dsp_selector = [(INSTANCE_LABEL, svc_service_instance_id (fsv_spec flash))],
         dsp_template =
           \<lparr>tp_metadata = Some \<lparr>tm_labels = Some (pod_labels_of uuids flash),
                               tm_annotations = (if annotations = [] then None else Some annotations)\<rparr>,
            tp_spec = Some pod_spec\<rparr>\<rparr>\<rparr>"

definition desired_deployment ::
  "uuid_ops \<Rightarrow> flash_service \<Rightarrow> owner_reference \<Rightarrow> string \<Rightarrow> u64 \<Rightarrow> deployment_options \<Rightarrow>
   reconcile_error + live_deployment" where
  "desired_deployment uuids flash owner resolved_image rootfs_size options =
     (let w = workload flash
      in bindR (map_err Validation (effective_secret_env w)) (\<lambda>secret_env.
         bindR (flash_secret_service_account_name uuids flash) (\<lambda>account.
         bindR (workload_env uuids flash (do_workload_identity_endpoint options)
                  (secret_annotations account secret_env)) (\<lambda>(annotations, env).
         bindR (workload_command w secret_env options) (\<lambda>command.
         bindR (init_containers w secret_env options) (\<lambda>init.
         bindR (deployment_strategy_of w options) (\<lambda>strategy.
         bindR (ensure (int (fs_replicas w) \<le> i32_max \<and> int (dp_deadline_seconds (workload_policy w)) \<le> i32_max)
                  (Resource ''invalid deployment'')) (\<lambda>_.
         Inr (deployment_of uuids flash owner strategy annotations
                (pod_spec_of flash account secret_env options
                   (workload_container w resolved_image rootfs_size env command (volume_mounts w secret_env options))
                   init))))))))))"

section \<open>What an update keeps\<close>

definition deployment_pod_generation :: "('a live_deployment_scheme) \<Rightarrow> string option" where
  "deployment_pod_generation d =
     Option.bind (ld_spec d) (\<lambda>spec.
     Option.bind (tp_metadata (dsp_template spec)) (\<lambda>metadata.
     Option.bind (tm_labels metadata) (\<lambda>labels. bt_get labels GENERATION_LABEL)))"

text \<open>The metadata of the template, changed where it exists.\<close>

definition map_template :: "(pod_template \<Rightarrow> pod_template) \<Rightarrow> live_deployment \<Rightarrow> live_deployment" where
  "map_template f d = d\<lparr>ld_spec := map_option (\<lambda>spec. spec\<lparr>dsp_template := f (dsp_template spec)\<rparr>) (ld_spec d)\<rparr>"

definition annotate_template :: "string \<Rightarrow> string \<Rightarrow> template_meta \<Rightarrow> template_meta" where
  "annotate_template k v m = m\<lparr>tm_annotations := Some (bt_insert k v (unwrap_or (tm_annotations m) []))\<rparr>"

definition set_image_size :: "u64 \<Rightarrow> live_deployment \<Rightarrow> live_deployment" where
  "set_image_size bytes =
     map_template (\<lambda>t. t\<lparr>tp_metadata := map_option (annotate_template IMAGE_SIZE_ANNOTATION (show_nat bytes)) (tp_metadata t)\<rparr>)"

text \<open>A field of another object, or its absence.\<close>

definition jcopy :: "string \<Rightarrow> json \<Rightarrow> json \<Rightarrow> json" where
  "jcopy k from v =
     (case jget_opt from k of
        Some x \<Rightarrow> jset k x v
      | None \<Rightarrow> (case v of JObj m \<Rightarrow> JObj (filter (\<lambda>(k', _). k' \<noteq> k) m) | _ \<Rightarrow> v))"

definition containers_of :: "json \<Rightarrow> json list" where
  "containers_of spec = (case jget spec ''containers'' of JArr cs \<Rightarrow> cs | _ \<Rightarrow> [])"

definition keep_probes :: "json list \<Rightarrow> json \<Rightarrow> json" where
  "keep_probes old container =
     (case find (\<lambda>c. jget c ''name'' = jget container ''name'') old of
        None \<Rightarrow> container
      | Some previous \<Rightarrow>
          jcopy ''lifecycle'' previous (jcopy ''startupProbe'' previous (jcopy ''readinessProbe'' previous container)))"

definition template_annotation :: "live_deployment \<Rightarrow> string \<Rightarrow> string option" where
  "template_annotation d key =
     Option.bind (ld_spec d) (\<lambda>spec.
     Option.bind (tp_metadata (dsp_template spec)) (\<lambda>metadata.
     Option.bind (tm_annotations metadata) (\<lambda>annotations. bt_get annotations key)))"

definition preserve_legacy_probe_fields :: "live_deployment \<Rightarrow> live_deployment \<Rightarrow> live_deployment" where
  "preserve_legacy_probe_fields current desired =
     (case Option.bind (ld_spec current) (\<lambda>s. tp_spec (dsp_template s)) of
        None \<Rightarrow> desired
      | Some old \<Rightarrow>
          let desired = map_template (\<lambda>t. t\<lparr>tp_spec := map_option (\<lambda>spec.
                jset ''containers'' (JArr (map (keep_probes (containers_of old)) (containers_of spec))) spec) (tp_spec t)\<rparr>) desired
          in case template_annotation current IMAGE_SIZE_ANNOTATION of
               None \<Rightarrow> desired
             | Some v \<Rightarrow>
                 map_template (\<lambda>t. t\<lparr>tp_metadata := Some (annotate_template IMAGE_SIZE_ANNOTATION v
                   (unwrap_or (tp_metadata t) \<lparr>tm_labels = None, tm_annotations = None\<rparr>))\<rparr>) desired)"

end
