(* ===== verification/Scaling.thy ===== *)
theory Scaling
  imports Deployments
begin

text \<open>
  Suspension, scaling and update of a deployment (\<open>reconcile.rs\<close>): the deletion of the autoscaler, the
  hand-over of the replica count and of field ownership between managers, and the generation of the pods
  that an update without effect keeps. The calls are the fields of \<open>scaling_api\<close>.
\<close>

definition REPLICAS_MANAGER :: string where "REPLICAS_MANAGER = ''heterocloud-flash-replicas''"

record live_autoscaler =
  la_uid :: "string option"
  la_resource_version :: "string option"
  la_deletion_timestamp :: "int option"

text \<open>
  \<open>sc_deployment_apply\<close> is the forced apply as \<open>FIELD_MANAGER\<close>, \<open>sc_deployment_dry_run\<close> the same without
  a write, \<open>sc_replicas_apply\<close> the forced apply of the count alone as \<open>REPLICAS_MANAGER\<close>, and
  \<open>sc_deployment_scale\<close> and \<open>sc_managed_fields\<close> are merge patches.
\<close>

record 'w scaling_api =
  sc_hpa_get_opt :: "string \<Rightarrow> ('w, kube_error, live_autoscaler option) effect"
  sc_hpa_delete :: "string \<Rightarrow> string option \<Rightarrow> string option \<Rightarrow> ('w, kube_error, unit) effect"
  sc_hpa_apply :: "string \<Rightarrow> autoscaler \<Rightarrow> ('w, kube_error, unit) effect"
  sc_deployment_get_opt :: "string \<Rightarrow> ('w, kube_error, live_deployment option) effect"
  sc_deployment_apply :: "string \<Rightarrow> live_deployment \<Rightarrow> ('w, kube_error, live_deployment) effect"
  sc_deployment_dry_run :: "string \<Rightarrow> live_deployment \<Rightarrow> ('w, kube_error, live_deployment) effect"
  sc_deployment_scale :: "string \<Rightarrow> i32 \<Rightarrow> ('w, kube_error, unit) effect"
  sc_replicas_apply :: "string \<Rightarrow> string option \<Rightarrow> i32 \<Rightarrow> ('w, kube_error, live_deployment) effect"
  sc_managed_fields :: "string \<Rightarrow> string option \<Rightarrow> managed_fields_entry list \<Rightarrow> ('w, kube_error, live_deployment) effect"

section \<open>Suspension\<close>

text \<open>A deletion for which an object that is already gone is a success.\<close>

definition edelete :: "('w, kube_error, unit) effect \<Rightarrow> ('w, reconcile_error, unit) effect" where
  "edelete m =
     ematch m (\<lambda>r.
     case r of
       Inr _ \<Rightarrow> eret ()
     | Inl (Api_Error code) \<Rightarrow> if code = 404 then eret () else efail (Kubernetes (Api_Error code))
     | Inl e \<Rightarrow> efail (Kubernetes e))"

definition delete_autoscaler :: "'w scaling_api \<Rightarrow> string \<Rightarrow> ('w, reconcile_error, bool) effect" where
  "delete_autoscaler api name =
     ebind (ekube (sc_hpa_get_opt api name)) (\<lambda>found.
     case found of
       None \<Rightarrow> eret True
     | Some hpa \<Rightarrow>
         ebind (if la_deletion_timestamp hpa = None
                then edelete (sc_hpa_delete api name (la_uid hpa) (la_resource_version hpa)) else eret ()) (\<lambda>_.
         ebind (ekube (sc_hpa_get_opt api name)) (\<lambda>again. eret (again = None))))"

definition live_replicas :: "live_deployment \<Rightarrow> i32 option" where
  "live_replicas d = Option.bind (ld_spec d) dsp_replicas"

definition suspend_deployment :: "'w scaling_api \<Rightarrow> string \<Rightarrow> ('w, reconcile_error, unit) effect" where
  "suspend_deployment api name =
     ebind (delete_autoscaler api name) (\<lambda>gone.
     if \<not> gone then efail (Resource ''waiting for autoscaler deletion before suspension'')
     else ebind (ekube (sc_deployment_get_opt api name)) (\<lambda>found.
          if (case found of None \<Rightarrow> False | Some d \<Rightarrow> live_replicas d \<noteq> Some 0)
          then ekube (sc_deployment_scale api name 0) else eret ()))"

section \<open>Ownership of fields\<close>

definition legacy_owns_replicas :: "live_deployment \<Rightarrow> bool" where
  "legacy_owns_replicas d \<longleftrightarrow>
     list_ex (\<lambda>entry. mfe_manager entry = Some FIELD_MANAGER \<and>
       (case mfe_fields_v1 entry of
          None \<Rightarrow> False
        | Some owned \<Rightarrow> Option.bind (jget_opt owned ''f:spec'') (\<lambda>v. jget_opt v ''f:replicas'') \<noteq> None))
       (unwrap_or (ld_managed_fields d) [])"

lemma size_entry: "(k, v) \<in> set s \<Longrightarrow> size (v::json) < Suc (size_list (size_prod (\<lambda>_. 0) size) s)"
  by (induction s) auto

function merge_field_sets :: "json \<Rightarrow> json \<Rightarrow> json" where
  "merge_field_sets target addition =
     (case target of
        JObj t \<Rightarrow>
          (case addition of
             JObj s \<Rightarrow>
               JObj (fold (\<lambda>(key, v) t.
                 case map_of t key of
                   Some existing \<Rightarrow> bt_insert key (merge_field_sets existing v) t
                 | None \<Rightarrow> bt_insert key v t) s t)
           | _ \<Rightarrow> target)
      | _ \<Rightarrow> target)"
  by pat_completeness auto
termination by (relation "measure (\<lambda>(t, s). size s)") (auto simp: size_entry)

definition is_legacy :: "managed_fields_entry \<Rightarrow> bool" where
  "is_legacy entry \<longleftrightarrow>
     mfe_manager entry = Some FIELD_MANAGER \<and> mfe_operation entry = Some ''Update'' \<and>
     mfe_api_version entry = Some ''apps/v1'' \<and> unwrap_or (mfe_subresource entry) [] = [] \<and>
     mfe_fields_type entry = Some ''FieldsV1'' \<and>
     (case mfe_fields_v1 entry of None \<Rightarrow> False | Some owned \<Rightarrow> jobject owned \<noteq> None)"

definition is_applied :: "managed_fields_entry \<Rightarrow> managed_fields_entry \<Rightarrow> bool" where
  "is_applied legacy entry \<longleftrightarrow>
     mfe_manager entry = mfe_manager legacy \<and> mfe_operation entry = Some ''Apply'' \<and>
     mfe_api_version entry = mfe_api_version legacy \<and> unwrap_or (mfe_subresource entry) [] = []"

definition absorb_fields :: "managed_fields_entry \<Rightarrow> managed_fields_entry \<Rightarrow> managed_fields_entry" where
  "absorb_fields legacy applied =
     (case (mfe_fields_v1 applied, mfe_fields_v1 legacy) of
        (Some target, Some addition) \<Rightarrow> applied\<lparr>mfe_fields_v1 := Some (merge_field_sets target addition)\<rparr>
      | (None, _) \<Rightarrow> applied\<lparr>mfe_fields_v1 := mfe_fields_v1 legacy, mfe_fields_type := mfe_fields_type legacy\<rparr>
      | _ \<Rightarrow> applied)"

fun migrate_entry :: "managed_fields_entry \<Rightarrow> managed_fields_entry list \<Rightarrow> managed_fields_entry list" where
  "migrate_entry legacy [] = [legacy\<lparr>mfe_operation := Some ''Apply''\<rparr>]"
| "migrate_entry legacy (entry # entries) =
     (if is_applied legacy entry then absorb_fields legacy entry # entries
      else entry # migrate_entry legacy entries)"

definition migrated_deployment_fields :: "live_deployment \<Rightarrow> managed_fields_entry list option" where
  "migrated_deployment_fields d =
     Option.bind (ld_managed_fields d) (\<lambda>owned.
     if \<not> list_ex is_legacy owned then None
     else Some (fold migrate_entry (filter is_legacy owned) (filter (\<lambda>e. \<not> is_legacy e) owned)))"

section \<open>The generation of the pods\<close>

definition with_generation :: "string \<Rightarrow> live_deployment \<Rightarrow> live_deployment" where
  "with_generation generation =
     map_template (\<lambda>t. t\<lparr>tp_metadata := map_option (\<lambda>m.
       m\<lparr>tm_labels := Some (bt_insert GENERATION_LABEL generation (unwrap_or (tm_labels m) []))\<rparr>) (tp_metadata t)\<rparr>)"

definition template_checked :: "live_deployment \<Rightarrow> string \<Rightarrow> bool" where
  "template_checked current requested \<longleftrightarrow>
     Option.bind (ld_annotations current) (\<lambda>m. bt_get m TEMPLATE_OBSERVED_GENERATION) = Some requested"

definition same_template :: "live_deployment \<Rightarrow> live_deployment \<Rightarrow> bool" where
  "same_template a b \<longleftrightarrow> map_option dsp_template (ld_spec a) = map_option dsp_template (ld_spec b)"

definition mark_observed :: "string \<Rightarrow> live_deployment \<Rightarrow> live_deployment" where
  "mark_observed requested d =
     d\<lparr>ld_annotations := Some (bt_insert TEMPLATE_OBSERVED_GENERATION requested (unwrap_or (ld_annotations d) []))\<rparr>"

definition preserve_unchanged_pod_generation ::
  "'w scaling_api \<Rightarrow> live_deployment \<Rightarrow> live_deployment \<Rightarrow> ('w, reconcile_error, live_deployment) effect" where
  "preserve_unchanged_pod_generation api current desired =
     (case deployment_pod_generation desired of
        None \<Rightarrow> eret desired
      | Some requested \<Rightarrow>
          ebind (case deployment_pod_generation current of
                   None \<Rightarrow> eret desired
                 | Some generation \<Rightarrow>
                     if generation = requested then eret desired
                     else let candidate = with_generation generation desired
                          in ebind (if template_checked current requested then eret True
                                    else ebind (ekube (sc_deployment_dry_run api (dep_name desired) candidate)) (\<lambda>preview.
                                         eret (same_template preview current))) (\<lambda>unchanged.
                             eret (if unchanged then candidate else desired))) (\<lambda>d.
          eret (mark_observed requested d)))"

section \<open>Scaling\<close>

definition without_replicas :: "live_deployment \<Rightarrow> live_deployment" where
  "without_replicas d = d\<lparr>ld_spec := map_option (\<lambda>spec. spec\<lparr>dsp_replicas := None\<rparr>) (ld_spec d)\<rparr>"

text \<open>The count is shared with a manager of its own before the template omits it.\<close>

definition share_replicas ::
  "'w scaling_api \<Rightarrow> flash_service \<Rightarrow> bool \<Rightarrow> bool \<Rightarrow> live_deployment \<Rightarrow> ('w, reconcile_error, live_deployment) effect" where
  "share_replicas api flash has_hpa suspended current =
     (let wake_autoscaler = (has_hpa \<and> \<not> suspended \<and> live_replicas current = Some 0)
      in if \<not> has_hpa \<or> legacy_owns_replicas current \<or> wake_autoscaler
         then ebind (if suspended then eret 0
                     else if \<not> has_hpa \<or> wake_autoscaler
                     then etry (if int (fs_replicas (workload flash)) \<le> i32_max
                                then Inr (int (fs_replicas (workload flash))) else Inl InvalidReplicaCount)
                     else eret (unwrap_or (live_replicas current) 1)) (\<lambda>replicas.
              ekube (sc_replicas_apply api (flash_name flash) (ld_resource_version current) replicas))
         else eret current)"

definition migrate_fields ::
  "'w scaling_api \<Rightarrow> string \<Rightarrow> live_deployment \<Rightarrow> ('w, reconcile_error, live_deployment) effect" where
  "migrate_fields api name current =
     (case migrated_deployment_fields current of
        None \<Rightarrow> eret current
      | Some owned \<Rightarrow> ekube (sc_managed_fields api name (ld_resource_version current) owned))"

definition reconcile_scaling ::
  "'w scaling_api \<Rightarrow> uuid_ops \<Rightarrow> flash_service \<Rightarrow> owner_reference \<Rightarrow> live_deployment \<Rightarrow> bool \<Rightarrow>
   ('w, reconcile_error, live_deployment) effect" where
  "reconcile_scaling api uuids flash owner desired suspended =
     (let name = flash_name flash; hpa = desired_autoscaler uuids flash owner suspended
      in ebind (if hpa = None then delete_autoscaler api name else eret True) (\<lambda>gone.
         if \<not> gone then efail (Resource ''waiting for autoscaler deletion before fixed scaling'')
         else
         ebind (ekube (sc_deployment_get_opt api name)) (\<lambda>found.
         ebind (case found of Some current \<Rightarrow> eret current | None \<Rightarrow> ekube (sc_deployment_apply api name desired)) (\<lambda>current.
         ebind (share_replicas api flash (hpa \<noteq> None) suspended current) (\<lambda>current.
         ebind (migrate_fields api name current) (\<lambda>current.
         ebind (preserve_unchanged_pod_generation api current
                  ((without_replicas desired)\<lparr>ld_resource_version := ld_resource_version current\<rparr>)) (\<lambda>desired.
         ebind (ekube (sc_deployment_apply api name desired)) (\<lambda>applied.
         ebind (case hpa of None \<Rightarrow> eret () | Some h \<Rightarrow> ekube (sc_hpa_apply api name h)) (\<lambda>_.
         eret applied)))))))))"

end
