(* ===== verification/Deployment_Properties.thy ===== *)
theory Deployment_Properties
  imports Scaling Policy_Properties
begin

text \<open>
  Properties of the deployment of a service: disks are never shared by two revisions, secrets and accounts stay
  with the service; and of its update: what the migration of field ownership keeps, and when pods restart.
\<close>

section \<open>The shape of a deployment\<close>

lemma desired_deployment_shape:
  assumes "desired_deployment uuids flash owner img rootfs options = Inr d"
  obtains secret_env account annotations env command init strategy where
    "effective_secret_env (workload flash) = Inr secret_env"
    "flash_secret_service_account_name uuids flash = Inr account"
    "workload_env uuids flash (do_workload_identity_endpoint options) (secret_annotations account secret_env) =
      Inr (annotations, env)"
    "workload_command (workload flash) secret_env options = Inr command"
    "init_containers (workload flash) secret_env options = Inr init"
    "deployment_strategy_of (workload flash) options = Inr strategy"
    "d = deployment_of uuids flash owner strategy annotations
      (pod_spec_of flash account secret_env options
        (workload_container (workload flash) img rootfs env command (volume_mounts (workload flash) secret_env options)) init)"
  using assms by (auto simp: desired_deployment_def Let_def result_simps split: prod.splits)

section \<open>Isolation\<close>

definition SECRET_ANNOTATION :: string where "SECRET_ANNOTATION = ''vault.hashicorp.com/agent-inject-secret-''"

lemma insert_all_subset: "(k, v) \<in> set (insert_all xs m) \<Longrightarrow> (k, v) \<in> set xs \<or> (k, v) \<in> set m"
proof (induction xs arbitrary: m)
  case (Cons x xs)
  have "(k, v) \<in> set (bt_insert a b m) \<Longrightarrow> (k, v) = (a, b) \<or> (k, v) \<in> set m" for a b and m :: "(string, string) btree_map"
    by (induction m) (auto split: if_splits)
  with Cons show ?case by (cases x) fastforce
qed simp

lemma secret_annotations_scoped:
  assumes "(k, v) \<in> set (secret_annotations account secret_env)" and "prefix SECRET_ANNOTATION k"
  shows "\<exists>secret. k = SECRET_ANNOTATION @ secret \<and> v = secret_path account secret"
proof -
  from assms(1) consider "k \<in> {''vault.hashicorp.com/agent-inject'', ''vault.hashicorp.com/agent-pre-populate-only'',
      ''vault.hashicorp.com/role'', ''vault.hashicorp.com/agent-inject-containers''}"
    | secret where "(k, v) \<in> set (secret_annotations_of account secret)"
    by (fastforce simp: secret_annotations_def simp del: fold_append fold_simps split: if_splits dest!: insert_all_subset)
  then show ?thesis
    using assms(2) by cases (auto simp: secret_annotations_of_def SECRET_ANNOTATION_def)
qed

text \<open>The pod of a deployment, and its annotations.\<close>

definition pod_of :: "live_deployment \<Rightarrow> json" where
  "pod_of d = unwrap_or (Option.bind (ld_spec d) (\<lambda>s. tp_spec (dsp_template s))) JNull"

definition annotations_of :: "live_deployment \<Rightarrow> (string, string) btree_map" where
  "annotations_of d =
     unwrap_or (Option.bind (ld_spec d) (\<lambda>s. Option.bind (tp_metadata (dsp_template s)) tm_annotations)) []"

definition labels_of :: "live_deployment \<Rightarrow> (string, string) btree_map" where
  "labels_of d = unwrap_or (Option.bind (ld_spec d) (\<lambda>s. Option.bind (tp_metadata (dsp_template s)) tm_labels)) []"

definition volumes_of :: "json \<Rightarrow> json list" where
  "volumes_of pod = (case jget pod ''volumes'' of JArr vs \<Rightarrow> vs | _ \<Rightarrow> [])"

definition strategy_of :: "live_deployment \<Rightarrow> string option" where
  "strategy_of d = Option.bind (ld_spec d) (\<lambda>s. Option.bind (dsp_strategy s) dst_type)"

lemma strategy_recreates:
  assumes "deployment_strategy_of w options = Inr strategy" and "is_stateful w options"
  shows "dst_type strategy = Some ''Recreate''"
  using assms by (auto simp: deployment_strategy_of_def Let_def split: if_splits)

lemma claim_volumes_stateful:
  assumes "v \<in> set (pod_volumes w secret_env options)" and "jget v ''persistentVolumeClaim'' \<noteq> JNull"
  shows "is_stateful w options"
  using assms
  by (cases "do_persistent_volume_claim options")
     (auto simp: pod_volumes_def is_stateful_def jget_jobj unwrap_or_def split: if_splits)

lemma task_role_annotation:
  assumes "workload_env uuids flash endpoint annotations = Inr (annotations', env)" and "(k, v) \<in> set annotations'"
    and "prefix SECRET_ANNOTATION k"
  shows "(k, v) \<in> set annotations"
proof -
  have "(k, v) \<in> set (bt_insert a b m) \<Longrightarrow> (k, v) = (a, b) \<or> (k, v) \<in> set m" for a b and m :: "(string, string) btree_map"
    by (induction m) (auto split: if_splits)
  then show ?thesis
    using assms by (fastforce simp: workload_env_def Let_def result_simps SECRET_ANNOTATION_def split: option.splits)
qed

lemma jget_jobj_skip: "k \<notin> fst ` set ys \<Longrightarrow> jget (jobj (xs @ ys)) k = jget (jobj xs) k"
  by (simp add: jget_jobj map_add_def map_of_eq_None_iff [THEN iffD2] split: option.splits)

lemma jget_jobj_end: "jget (jobj (xs @ [(k, v)])) k = v"
  by (simp add: jget_jobj unwrap_or_def)

lemma pod_fields:
  fixes flash account secret_env options container init
  defines "pod \<equiv> pod_spec_of flash account secret_env options container init"
  shows "jget pod ''serviceAccountName'' =
      JStr (if fs_task_role (workload flash) \<noteq> None \<or> secret_env \<noteq> [] then account else ''default'')"
    and "jget pod ''automountServiceAccountToken'' = JBool (secret_env \<noteq> [])"
    and "jget pod ''containers'' = JArr [container]"
    and "volumes_of pod = pod_volumes (workload flash) secret_env options"
proof -
  let ?base = "pod_base flash account secret_env container"
  let ?mid = "pod_placement (workload flash) secret_env options init"
  let ?vols = "pod_volumes (workload flash) secret_env options"
  have mid: "fst ` set ?mid \<subseteq> {''initContainers'', ''nodeSelector'', ''affinity'', ''imagePullSecrets''}"
    unfolding pod_placement_def
    by (cases "0 < effective_gpu_count (workload flash)"; cases "do_gpu_assignment options";
        cases "do_registry_pull_secret options") simp_all
  have skip: "jget pod k = jget (jobj ?base) k"
    if "k \<notin> {''initContainers'', ''nodeSelector'', ''affinity'', ''imagePullSecrets'', ''volumes''}" for k
    unfolding pod_def pod_spec_of_def Let_def
    by (rule jget_jobj_skip) (use mid that in \<open>auto split: if_splits\<close>)
  show "jget pod ''serviceAccountName'' =
      JStr (if fs_task_role (workload flash) \<noteq> None \<or> secret_env \<noteq> [] then account else ''default'')"
    "jget pod ''automountServiceAccountToken'' = JBool (secret_env \<noteq> [])"
    "jget pod ''containers'' = JArr [container]"
    by (simp_all add: skip pod_base_def Let_def jget_jobj unwrap_or_def)
  show "volumes_of pod = ?vols"
  proof (cases "?vols = []")
    case True
    then have "pod = jobj (?base @ ?mid)" by (simp add: pod_def pod_spec_of_def)
    moreover have "''volumes'' \<notin> fst ` set ?mid" using mid by auto
    moreover have "jget (jobj ?base) ''volumes'' = JNull" by (simp add: pod_base_def Let_def jget_jobj unwrap_or_def)
    ultimately show ?thesis using True by (simp add: volumes_of_def jget_jobj_skip)
  next
    case False
    then have "pod = jobj ((?base @ ?mid) @ [(''volumes'', JArr ?vols)])" by (simp add: pod_def pod_spec_of_def)
    then show ?thesis by (simp add: volumes_of_def jget_jobj_end del: append_assoc)
  qed
qed

lemma container_fields:
  fixes w img rootfs env command mounts
  defines "c \<equiv> workload_container w img rootfs env command mounts"
  assumes "fst ` set command \<subseteq> {''command'', ''args''}"
  shows "jget (jget c ''securityContext'') ''allowPrivilegeEscalation'' = JBool False"
    and "jget c ''resources'' = jobj [(''requests'', workload_resources w rootfs), (''limits'', workload_resources w rootfs)]"
    and "jget c ''image'' = JStr img"
proof -
  have "fst ` set (workload_probes w) \<subseteq> {''readinessProbe'', ''startupProbe''}"
    by (auto simp: workload_probes_def split: option.splits)
  then have "k \<notin> fst ` set (workload_probes w @ command @ (if mounts = [] then [] else [(''volumeMounts'', JArr mounts)]))"
    if "k \<in> {''securityContext'', ''resources'', ''image''}" for k
    using that assms(2) by (auto split: if_splits)
  note skip = jget_jobj_skip [OF this]
  show "jget (jget c ''securityContext'') ''allowPrivilegeEscalation'' = JBool False"
    and "jget c ''resources'' = jobj [(''requests'', workload_resources w rootfs), (''limits'', workload_resources w rootfs)]"
    and "jget c ''image'' = JStr img"
    unfolding c_def workload_container_def
    by (subst skip, simp, simp add: jget_jobj unwrap_or_def)+
qed

lemma command_keys: "workload_command w secret_env options = Inr command \<Longrightarrow> fst ` set command \<subseteq> {''command'', ''args''}"
  by (auto simp: workload_command_def split: if_splits list.splits)

text \<open>
  C14. The deployment of a service keeps to itself. A pod that mounts a persistent volume claim, or uses a GPU, is
  recreated, never rolled, so that no disk and no device is held by two revisions at once. The account is the one of the service, and
  only with secrets or a task role; the token is mounted with secrets only; every secret that is injected lies under the
  path of this account. The pods carry the label that the selector asks for. The container may not gain privileges, has
  equal requests and limits, and runs the image that was resolved.
\<close>

theorem deployment_isolated:
  assumes "desired_deployment uuids flash owner img rootfs options = Inr d"
  shows "\<exists>account secret_env c.
    flash_secret_service_account_name uuids flash = Inr account \<and> effective_secret_env (workload flash) = Inr secret_env \<and>
    ((\<exists>v\<in>set (volumes_of (pod_of d)). jget v ''persistentVolumeClaim'' \<noteq> JNull) \<or> 0 < effective_gpu_count (workload flash) \<longrightarrow>
      strategy_of d = Some ''Recreate'') \<and>
    jget (pod_of d) ''serviceAccountName'' =
      JStr (if fs_task_role (workload flash) \<noteq> None \<or> secret_env \<noteq> [] then account else ''default'') \<and>
    jget (pod_of d) ''automountServiceAccountToken'' = JBool (secret_env \<noteq> []) \<and>
    (\<forall>(k, v)\<in>set (annotations_of d). prefix SECRET_ANNOTATION k \<longrightarrow> prefix (''secret/data/flash/'' @ account @ ''/'') v) \<and>
    bt_get (labels_of d) INSTANCE_LABEL = Some (svc_service_instance_id (fsv_spec flash)) \<and>
    map_option dsp_selector (ld_spec d) = Some [(INSTANCE_LABEL, svc_service_instance_id (fsv_spec flash))] \<and>
    jget (pod_of d) ''containers'' = JArr [c] \<and>
    jget (jget c ''securityContext'') ''allowPrivilegeEscalation'' = JBool False \<and>
    jget (jget c ''resources'') ''requests'' = jget (jget c ''resources'') ''limits'' \<and> jget c ''image'' = JStr img"
proof -
  obtain secret_env account annotations env command init strategy where d:
    "effective_secret_env (workload flash) = Inr secret_env"
    "flash_secret_service_account_name uuids flash = Inr account"
    "workload_env uuids flash (do_workload_identity_endpoint options) (secret_annotations account secret_env) =
      Inr (annotations, env)"
    "workload_command (workload flash) secret_env options = Inr command"
    "init_containers (workload flash) secret_env options = Inr init"
    "deployment_strategy_of (workload flash) options = Inr strategy"
    "d = deployment_of uuids flash owner strategy annotations
      (pod_spec_of flash account secret_env options
        (workload_container (workload flash) img rootfs env command (volume_mounts (workload flash) secret_env options)) init)"
    using desired_deployment_shape [OF assms] .
  let ?c = "workload_container (workload flash) img rootfs env command (volume_mounts (workload flash) secret_env options)"
  let ?pod = "pod_spec_of flash account secret_env options ?c init"
  have parts: "pod_of d = ?pod" "annotations_of d = annotations" "labels_of d = pod_labels_of uuids flash"
    "strategy_of d = dst_type strategy"
    "map_option dsp_selector (ld_spec d) = Some [(INSTANCE_LABEL, svc_service_instance_id (fsv_spec flash))]"
    by (simp_all add: d(7) deployment_of_def pod_of_def annotations_of_def labels_of_def strategy_of_def unwrap_or_def)
  have stateful: "dst_type strategy = Some ''Recreate''"
    if "(\<exists>v\<in>set (volumes_of ?pod). jget v ''persistentVolumeClaim'' \<noteq> JNull) \<or> 0 < effective_gpu_count (workload flash)"
    using that claim_volumes_stateful strategy_recreates [OF d(6)]
    by (auto simp: pod_fields(4)) (auto simp: is_stateful_def)
  have scoped: "prefix (''secret/data/flash/'' @ account @ ''/'') v"
    if "(k, v) \<in> set annotations" "prefix SECRET_ANNOTATION k" for k v
    using secret_annotations_scoped [OF task_role_annotation [OF d(3) that] that(2)] by (auto simp: secret_path_def)
  have label: "bt_get (pod_labels_of uuids flash) INSTANCE_LABEL = Some (svc_service_instance_id (fsv_spec flash))"
    by (auto simp: pod_labels_of_def Let_def base_labels_def INSTANCE_LABEL_def ORGANIZATION_LABEL_def GENERATION_LABEL_def
        TRAFFIC_MODE_ANNOTATION_def split: option.splits)
  note c = container_fields [OF command_keys [OF d(4)]]
  show ?thesis
    unfolding parts(1-4)
  proof (intro exI conjI)
    show "\<forall>(k, v)\<in>set annotations. prefix SECRET_ANNOTATION k \<longrightarrow> prefix (''secret/data/flash/'' @ account @ ''/'') v"
      using scoped by blast
    show "jget (jget ?c ''resources'') ''requests'' = jget (jget ?c ''resources'') ''limits''"
      by (simp add: c(2) jget_jobj)
  qed (rule d(2) d(1) impI [OF stateful] pod_fields(1-3) label parts(5) c(1,3); assumption?)+
qed

definition sample_secret_flash :: flash_service where
  "sample_secret_flash = sample_flash\<lparr>fsv_spec := (fsv_spec sample_flash)\<lparr>svc_workload := sample_flash_spec
     \<lparr>fs_secret_env := [(''TOKEN'', ''db'')], fs_command := [''/bin/app'']\<rparr>\<rparr>\<rparr>"

definition sample_deployment_options :: deployment_options where
  "sample_deployment_options =
     \<lparr>do_image_entrypoint = [], do_image_cmd = [], do_image_architecture = Some ''amd64'',
      do_helper_image = Some ''helper'', do_persistent_volume_claim = Some ''svc-home'', do_registry_pull_secret = None,
      do_admin_volume_mounts = [], do_gpu_assignment = None, do_workload_identity_endpoint = None\<rparr>"

lemma sample_deployment_built:
  "\<exists>d. desired_deployment sample_uuids sample_secret_flash sample_owner ''nginx'' 1000 sample_deployment_options = Inr d"
  by (simp add: desired_deployment_def Let_def sample_secret_flash_def sample_deployment_options_def sample_flash_def
      sample_flash_spec_def sample_uuids_def effective_secret_env_def flash_secret_service_account_name_def
      workload_env_def workload_command_def original_command_def init_containers_def deployment_strategy_of_def
      is_stateful_def workload_policy_def default_deployment_policy_def unwrap_or_def ok_or_def ensure_def i32_max_def)

theorem deployment_isolated_witness:
  "\<exists>d. desired_deployment sample_uuids sample_secret_flash sample_owner ''nginx'' 1000 sample_deployment_options = Inr d \<and>
     jget (pod_of d) ''serviceAccountName'' = JStr ''flash-1'' \<and> bt_get (labels_of d) INSTANCE_LABEL = Some ''svc''"
proof -
  obtain d where d: "desired_deployment sample_uuids sample_secret_flash sample_owner ''nginx'' 1000 sample_deployment_options = Inr d"
    using sample_deployment_built ..
  have sample: "flash_secret_service_account_name sample_uuids sample_secret_flash = Inr ''flash-1''"
    "effective_secret_env (workload sample_secret_flash) = Inr [(''TOKEN'', ''db'')]"
    "svc_service_instance_id (fsv_spec sample_secret_flash) = ''svc''"
    by (simp_all add: flash_secret_service_account_name_def effective_secret_env_def sample_secret_flash_def sample_flash_def
        sample_flash_spec_def sample_uuids_def ok_or_def)
  show ?thesis
    using d deployment_isolated [OF d] unfolding sample by auto
qed

section \<open>Ownership of fields\<close>

text \<open>A set of fields is a tree of objects; it owns the paths into the tree.\<close>

fun has_path :: "string list \<Rightarrow> json \<Rightarrow> bool" where
  "has_path [] v = True"
| "has_path (k # path) v = (case jget_opt v k of None \<Rightarrow> False | Some x \<Rightarrow> has_path path x)"

inductive field_set :: "json \<Rightarrow> bool" where
  field_set_object: "bt_wf m \<Longrightarrow> (\<And>k v. map_of m k = Some v \<Longrightarrow> field_set v) \<Longrightarrow> field_set (JObj m)"

inductive_cases field_setE: "field_set v"

abbreviation merge_step :: "string \<times> json \<Rightarrow> (string \<times> json) list \<Rightarrow> (string \<times> json) list" where
  "merge_step \<equiv> \<lambda>(key, v) t.
     case map_of t key of
       Some existing \<Rightarrow> bt_insert key (merge_field_sets existing v) t
     | None \<Rightarrow> bt_insert key v t"

lemma merge_objects: "merge_field_sets (JObj t) (JObj s) = JObj (fold merge_step s t)"
  by simp

declare merge_field_sets.simps [simp del]

lemma merge_lookup:
  assumes "distinct (map fst s)"
  shows "map_of (fold merge_step s t) k =
    (case map_of s k of
       None \<Rightarrow> map_of t k
     | Some v \<Rightarrow> Some (case map_of t k of None \<Rightarrow> v | Some x \<Rightarrow> merge_field_sets x v))"
  using assms
proof (induction s arbitrary: t k)
  case (Cons e s)
  obtain a b where e: "e = (a, b)" by (cases e)
  then have a: "map_of s a = None" and s: "distinct (map fst s)" using Cons.prems by (simp_all add: map_of_eq_None_iff)
  show ?case
    using a by (cases "map_of t a"; cases "k = a") (simp_all add: e Cons.IH [OF s] split: option.splits)
qed simp

lemma merge_wf: "bt_wf t \<Longrightarrow> bt_wf (fold merge_step s t)"
  by (induction s arbitrary: t) (auto simp: bt_insert_wf split: option.splits)

lemma merge_paths:
  assumes "field_set t" and "field_set s"
  shows "has_path path (merge_field_sets t s) \<longleftrightarrow> has_path path t \<or> has_path path s"
  using assms
proof (induction path arbitrary: t s)
  case (Cons k path)
  from Cons.prems obtain mt ms where m: "t = JObj mt" "s = JObj ms" "bt_wf ms"
      "\<And>k v. map_of mt k = Some v \<Longrightarrow> field_set v" "\<And>k v. map_of ms k = Some v \<Longrightarrow> field_set v"
    by (elim field_setE) blast
  then show ?case
    using Cons.IH by (auto simp: merge_objects jget_opt_def merge_lookup bt_wf_distinct split: option.splits)
qed simp

lemma merge_field_set: "field_set s \<Longrightarrow> field_set t \<Longrightarrow> field_set (merge_field_sets t s)"
proof (induction s arbitrary: t rule: field_set.induct)
  case (field_set_object ms)
  then obtain mt where t: "t = JObj mt" "bt_wf mt" "\<And>k v. map_of mt k = Some v \<Longrightarrow> field_set v"
    by (elim field_setE) blast
  show ?case
    unfolding t(1) merge_objects
  proof (rule field_set.intros)
    show "bt_wf (fold merge_step ms mt)" by (rule merge_wf [OF t(2)])
    fix k v
    assume "map_of (fold merge_step ms mt) k = Some v"
    then show "field_set v"
      using field_set_object t(3) by (auto simp: merge_lookup bt_wf_distinct split: option.splits)
  qed
qed

definition owns :: "string list \<Rightarrow> managed_fields_entry \<Rightarrow> bool" where
  "owns path entry \<longleftrightarrow> (\<exists>f. mfe_fields_v1 entry = Some f \<and> has_path path f)"

definition fields_wf :: "managed_fields_entry list \<Rightarrow> bool" where
  "fields_wf entries \<longleftrightarrow> (\<forall>e\<in>set entries. \<forall>f. mfe_fields_v1 e = Some f \<longrightarrow> field_set f)"

text \<open>The entry of the controller for what it applies to the deployment itself.\<close>

definition applies_main :: "managed_fields_entry \<Rightarrow> bool" where
  "applies_main e \<longleftrightarrow>
     mfe_manager e = Some FIELD_MANAGER \<and> mfe_operation e = Some ''Apply'' \<and> mfe_api_version e = Some ''apps/v1'' \<and>
     unwrap_or (mfe_subresource e) [] = []"

abbreviation foreign :: "managed_fields_entry list \<Rightarrow> managed_fields_entry list" where
  "foreign \<equiv> filter (\<lambda>e. mfe_manager e \<noteq> Some FIELD_MANAGER)"

lemma applied_main: "is_legacy l \<Longrightarrow> is_applied l e \<longleftrightarrow> applies_main e"
  by (auto simp: is_legacy_def is_applied_def applies_main_def)

lemma absorb_entry:
  assumes "is_legacy l" and "applies_main e" and "fields_wf [l, e]"
  shows "applies_main (absorb_fields l e)" and "owns path (absorb_fields l e) \<longleftrightarrow> owns path e \<or> owns path l"
    and "fields_wf [absorb_fields l e]" and "\<not> is_legacy (absorb_fields l e)"
proof -
  from assms(1) obtain f where f: "mfe_fields_v1 l = Some f" by (auto simp: is_legacy_def split: option.splits)
  then show "owns path (absorb_fields l e) \<longleftrightarrow> owns path e \<or> owns path l" "fields_wf [absorb_fields l e]"
    using assms(3)
    by (cases "mfe_fields_v1 e"; simp add: absorb_fields_def owns_def fields_wf_def merge_paths merge_field_set)+
  show "applies_main (absorb_fields l e)" "\<not> is_legacy (absorb_fields l e)"
    using assms(2) by (auto simp: absorb_fields_def applies_main_def is_legacy_def split: option.splits)
qed

lemma migrate_entry_keeps:
  assumes "is_legacy l" and "fields_wf (l # es)" and "\<not> list_ex is_legacy es"
  shows "foreign (migrate_entry l es) = foreign es \<and> \<not> list_ex is_legacy (migrate_entry l es) \<and>
    fields_wf (migrate_entry l es) \<and>
    ((\<exists>e\<in>set (migrate_entry l es). applies_main e \<and> owns path e) \<longleftrightarrow>
     (\<exists>e\<in>set es. applies_main e \<and> owns path e) \<or> owns path l)"
  using assms
proof (induction es)
  case Nil
  then show ?case
    by (auto simp: is_legacy_def applies_main_def owns_def fields_wf_def)
next
  case (Cons e es)
  have wf: "fields_wf (l # es)" "fields_wf [l, e]" using Cons.prems(2) by (auto simp: fields_wf_def)
  show ?case
  proof (cases "applies_main e")
    case True
    note absorb = absorb_entry [OF Cons.prems(1) True wf(2)]
    have "mfe_manager (absorb_fields l e) = Some FIELD_MANAGER" "mfe_manager e = Some FIELD_MANAGER"
      using absorb(1) True by (auto simp: applies_main_def)
    then show ?thesis
      using absorb True Cons.prems by (auto simp: applied_main fields_wf_def)
  next
    case False
    then show ?thesis
      using Cons.IH [OF Cons.prems(1) wf(1)] Cons.prems by (auto simp: applied_main fields_wf_def)
  qed
qed

lemma migrate_all_keeps:
  assumes "\<forall>l\<in>set ls. is_legacy l" and "fields_wf (ls @ es)" and "\<not> list_ex is_legacy es"
  shows "foreign (fold migrate_entry ls es) = foreign es \<and> \<not> list_ex is_legacy (fold migrate_entry ls es) \<and>
    ((\<exists>e\<in>set (fold migrate_entry ls es). applies_main e \<and> owns path e) \<longleftrightarrow>
     (\<exists>e\<in>set es. applies_main e \<and> owns path e) \<or> (\<exists>l\<in>set ls. owns path l))"
  using assms
proof (induction ls arbitrary: es)
  case (Cons l ls)
  have "fields_wf (l # es)" using Cons.prems(2) by (auto simp: fields_wf_def)
  note step = migrate_entry_keeps [OF _ this Cons.prems(3), of path]
  have "fields_wf (ls @ migrate_entry l es)"
    using Cons.prems(1,2) step by (auto simp: fields_wf_def)
  then show ?case
    using Cons.IH [of "migrate_entry l es"] Cons.prems(1) step by auto
qed simp

text \<open>
  The migration of field ownership takes nothing from others and loses nothing. The entries of other managers are
  the same, in the same order; what the controller owned by updates it owns afterwards as applied, together with what it had
  applied before, and nothing else; no entry of the old kind is left, so a second migration does nothing. Hypothesis:
  the documented format of owned fields, a tree of objects.
\<close>

theorem migration_keeps_ownership:
  assumes "ld_managed_fields d = Some entries" and "migrated_deployment_fields d = Some migrated" and "fields_wf entries"
  shows "foreign migrated = foreign entries \<and>
    ((\<exists>e\<in>set migrated. applies_main e \<and> owns path e) \<longleftrightarrow>
     (\<exists>e\<in>set entries. (applies_main e \<or> is_legacy e) \<and> owns path e)) \<and>
    migrated_deployment_fields (d\<lparr>ld_managed_fields := Some migrated\<rparr>) = None"
proof -
  let ?ls = "filter is_legacy entries" and ?es = "filter (\<lambda>e. \<not> is_legacy e) entries"
  have m: "migrated = fold migrate_entry ?ls ?es"
    using assms(1,2) by (auto simp: migrated_deployment_fields_def split: if_splits)
  have "\<forall>l\<in>set ?ls. is_legacy l" "fields_wf (?ls @ ?es)" "\<not> list_ex is_legacy ?es"
    using assms(3) by (auto simp: fields_wf_def list_ex_iff)
  note keeps = migrate_all_keeps [OF this, of path, folded m]
  have "\<not> is_legacy e" if "applies_main e" for e
    using that by (auto simp: applies_main_def is_legacy_def)
  then have "(\<exists>e\<in>set ?es. applies_main e \<and> owns path e) \<or> (\<exists>l\<in>set ?ls. owns path l) \<longleftrightarrow>
      (\<exists>e\<in>set entries. (applies_main e \<or> is_legacy e) \<and> owns path e)"
    by auto
  moreover have "foreign ?es = foreign entries"
    unfolding filter_filter by (rule filter_cong) (auto simp: is_legacy_def)
  moreover have "migrated_deployment_fields (d\<lparr>ld_managed_fields := Some migrated\<rparr>) = None"
    using keeps by (simp add: migrated_deployment_fields_def)
  ultimately show ?thesis using keeps by argo
qed

definition sample_owned :: "string \<Rightarrow> string \<Rightarrow> string \<Rightarrow> managed_fields_entry" where
  "sample_owned manager operation field =
     \<lparr>mfe_manager = Some manager, mfe_operation = Some operation, mfe_api_version = Some ''apps/v1'', mfe_subresource = None,
      mfe_fields_type = Some ''FieldsV1'', mfe_fields_v1 = Some (JObj [(field, JObj [])])\<rparr>"

definition sample_entries :: "managed_fields_entry list" where
  "sample_entries =
     [sample_owned FIELD_MANAGER ''Update'' ''f:spec'', sample_owned ''kubectl'' ''Apply'' ''f:data'',
      sample_owned FIELD_MANAGER ''Apply'' ''f:metadata'']"

definition sample_live :: live_deployment where
  "sample_live = (deployment_of sample_uuids sample_flash sample_owner \<lparr>dst_type = None, dst_rolling = None\<rparr> [] JNull)
     \<lparr>ld_managed_fields := Some sample_entries\<rparr>"

theorem migration_keeps_ownership_witness:
  "\<exists>migrated. migrated_deployment_fields sample_live = Some migrated \<and>
     (\<exists>e\<in>set migrated. applies_main e \<and> owns [''f:spec''] e) \<and> sample_owned ''kubectl'' ''Apply'' ''f:data'' \<in> set migrated"
proof -
  have legacy: "is_legacy (sample_owned FIELD_MANAGER ''Update'' ''f:spec'')"
    by (simp add: is_legacy_def sample_owned_def unwrap_or_def jobject_def)
  then obtain migrated where m: "migrated_deployment_fields sample_live = Some migrated"
    by (simp add: migrated_deployment_fields_def sample_live_def sample_entries_def)
  have entries: "ld_managed_fields sample_live = Some sample_entries" by (simp add: sample_live_def)
  have leaf: "field_set (JObj [])" by (rule field_set.intros) (simp_all add: bt_wf_def)
  have "field_set (JObj [(f, JObj [])])" for f
    by (rule field_set.intros) (auto simp: bt_wf_def leaf split: if_splits)
  then have wf: "fields_wf sample_entries" by (simp add: fields_wf_def sample_entries_def sample_owned_def)
  note keeps = migration_keeps_ownership [OF entries m wf, of "[''f:spec'']"]
  have "owns [''f:spec''] (sample_owned FIELD_MANAGER ''Update'' ''f:spec'')"
    by (simp add: owns_def sample_owned_def jget_opt_def)
  then have "\<exists>e\<in>set migrated. applies_main e \<and> owns [''f:spec''] e"
    using keeps legacy by (auto simp: sample_entries_def)
  moreover have "sample_owned ''kubectl'' ''Apply'' ''f:data'' \<in> set (foreign sample_entries)"
    by (simp add: sample_entries_def sample_owned_def FIELD_MANAGER_def)
  then have "sample_owned ''kubectl'' ''Apply'' ''f:data'' \<in> set migrated"
    unfolding keeps [THEN conjunct1, symmetric] by simp
  ultimately show ?thesis using m by blast
qed

section \<open>When pods restart\<close>

lemma with_generation_reads:
  "deployment_pod_generation d = Some r \<Longrightarrow> deployment_pod_generation (with_generation g d) = Some g"
  by (auto simp: deployment_pod_generation_def with_generation_def map_template_def unwrap_or_def bind_eq_Some_conv)

lemma mark_observed_reads:
  "deployment_pod_generation (mark_observed r d) = deployment_pod_generation d" "template_checked (mark_observed r d) r"
  by (simp_all add: deployment_pod_generation_def mark_observed_def template_checked_def)

lemma ekube_Inr: "ekube m w = (Inr x, w') \<longleftrightarrow> m w = (Inr x, w')"
  by (auto simp: ekube_def ematch_def efail_def eret_def split: prod.splits sum.splits)

lemma kept_generation:
  assumes "preserve_unchanged_pod_generation api current desired w = (Inr d, w')"
    and "deployment_pod_generation desired = Some requested"
  obtains (requested) "d = mark_observed requested desired"
  | (kept) g where "deployment_pod_generation current = Some g" "g \<noteq> requested"
      "d = mark_observed requested (with_generation g desired)"
      "template_checked current requested \<or>
       (\<exists>preview w1. sc_deployment_dry_run api (dep_name desired) (with_generation g desired) w = (Inr preview, w1) \<and>
         same_template preview current)"
  using assms
  by (auto simp: preserve_unchanged_pod_generation_def Let_def eret_def ekube_Inr elim!: ebind_Inr
      split: option.splits if_splits)

text \<open>
  Pods restart for a reason, and once. The generation that an update writes into the template is the requested
  one or the one that runs; it is kept only when the server, asked without writing, finds the template unchanged, or did so
  before for this request. When the server has stored the update, the next pass writes the very same deployment, without
  asking again. Hypothesis: the stored deployment has the label and the annotations that were written.
\<close>

theorem pod_generation_settles:
  assumes "preserve_unchanged_pod_generation api current desired w = (Inr d, w')"
    and "deployment_pod_generation live = deployment_pod_generation d"
    and "\<forall>requested. template_checked d requested \<longrightarrow> template_checked live requested"
  shows "preserve_unchanged_pod_generation api live desired w2 = (Inr d, w2) \<and>
    (deployment_pod_generation d = deployment_pod_generation desired \<or>
     (\<exists>g requested. deployment_pod_generation current = Some g \<and> deployment_pod_generation desired = Some requested \<and>
       deployment_pod_generation d = Some g \<and>
       (template_checked current requested \<or>
        (\<exists>preview w1. sc_deployment_dry_run api (dep_name desired) (with_generation g desired) w = (Inr preview, w1) \<and>
          same_template preview current))))"
proof (cases "deployment_pod_generation desired")
  case None
  with assms(1) show ?thesis by (auto simp: preserve_unchanged_pod_generation_def eret_def)
next
  case (Some requested)
  from assms(1) Some show ?thesis
  proof (cases rule: kept_generation)
    case requested
    then show ?thesis
      using Some assms(2)
      by (simp add: preserve_unchanged_pod_generation_def mark_observed_reads ebind_apply eret_def)
  next
    case (kept g)
    have live: "deployment_pod_generation live = Some g" "template_checked live requested"
      using assms(2,3) kept(3) with_generation_reads [OF Some] by (simp_all add: mark_observed_reads)
    then have "preserve_unchanged_pod_generation api live desired w2 = (Inr d, w2)"
      using kept(2,3) Some by (simp add: preserve_unchanged_pod_generation_def Let_def ebind_apply eret_def)
    moreover have "deployment_pod_generation d = Some g" using live(1) assms(2) by simp
    ultimately show ?thesis using kept(1,4) Some by blast
  qed
qed

definition sample_scaling_api :: "live_deployment \<Rightarrow> nat scaling_api" where
  "sample_scaling_api stored =
     \<lparr>sc_hpa_get_opt = (\<lambda>_. eret None), sc_hpa_delete = (\<lambda>_ _ _. eret ()), sc_hpa_apply = (\<lambda>_ _. eret ()),
      sc_deployment_get_opt = (\<lambda>_. eret (Some stored)), sc_deployment_apply = (\<lambda>_ d. eret d),
      sc_deployment_dry_run = (\<lambda>_ _ w. (Inr stored, w + 1)), sc_deployment_scale = (\<lambda>_ _. eret ()),
      sc_replicas_apply = (\<lambda>_ _ _. eret stored), sc_managed_fields = (\<lambda>_ _ _. eret stored)\<rparr>"

text \<open>The first pass asks the server once, the second not at all; the generation 1 that runs stays.\<close>

theorem pod_generation_settles_witness:
  "\<exists>d. preserve_unchanged_pod_generation (sample_scaling_api sample_live) sample_live (with_generation ''2'' sample_live) 0 = (Inr d, 1) \<and>
     preserve_unchanged_pod_generation (sample_scaling_api sample_live) d (with_generation ''2'' sample_live) 5 = (Inr d, 5)"
proof -
  have current: "deployment_pod_generation sample_live = Some (show_int 1)"
    by (simp add: deployment_pod_generation_def sample_live_def deployment_of_def pod_labels_of_def Let_def sample_flash_def
        sample_flash_spec_def TRAFFIC_MODE_ANNOTATION_def GENERATION_LABEL_def)
  then have "deployment_pod_generation (with_generation ''2'' sample_live) = Some ''2''" by (rule with_generation_reads)
  moreover have "show_int 1 \<noteq> ''2''" by code_simp
  moreover have "\<not> template_checked sample_live ''2''" by (simp add: template_checked_def sample_live_def deployment_of_def)
  ultimately have first: "preserve_unchanged_pod_generation (sample_scaling_api sample_live) sample_live
      (with_generation ''2'' sample_live) 0 =
      (Inr (mark_observed ''2'' (with_generation (show_int 1) (with_generation ''2'' sample_live))), 1)"
    using current
    by (simp add: preserve_unchanged_pod_generation_def Let_def ebind_apply eret_def ekube_def ematch_def sample_scaling_api_def
        same_template_def)
  from pod_generation_settles [OF this refl, of 5] this show ?thesis by blast
qed

end
