(* ===== verification/Reconcile.thy ===== *)
theory Reconcile
  imports Scaling Status_Patch Network_Policy Image_Inspection Web_Auth Backups
begin

text \<open>
  The main pass over a service (\<open>reconcile\<close> of \<open>reconcile.rs\<close>), with the capacity client
  (\<open>capacity.rs\<close>). It composes the components: routes and authentication, restoration, stop, validation,
  metering, the GPU job, image inspection, the split of the disk, the deployment and the objects around it, and
  the status. An early return of the source is the value \<open>Done\<close> of a stage. The calls to the API
  server are the fields of \<open>controller_api\<close>, those of other components grouped as their own records;
  libraries and the texts of errors are the fields of \<open>controller_lib\<close>.
\<close>

section \<open>Capacity\<close>

text \<open>A request that is sent gives a status code and a body, which may not be JSON.\<close>

record 'w capacity_client =
  cap_post :: "string \<Rightarrow> json \<Rightarrow> ('w, string, nat \<times> (string + json)) effect"
  cap_decode_usage :: "json \<Rightarrow> disk_usage option"

definition is_success :: "nat \<Rightarrow> bool" where
  "is_success code \<longleftrightarrow> 200 \<le> code \<and> code < 300"

definition UNAVAILABLE :: string where "UNAVAILABLE = ''capacity_metrics_unavailable''"

definition capacity_check ::
  "'w capacity_client \<Rightarrow> string \<Rightarrow> json \<Rightarrow> bool \<Rightarrow> ('w, string, string option) effect" where
  "capacity_check client kind object recreate =
     ebind (cap_post client ''preflight''
              (jobj [(''kind'', JStr kind), (''object'', object), (''recreate'', JBool recreate)])) (\<lambda>(code, body).
     if \<not> is_success code then eret (Some UNAVAILABLE)
     else ebind (etry body) (\<lambda>v.
          if jget v ''allowed'' = JBool True then eret None
          else eret (Some (unwrap_or (jstr (jget v ''reason'')) UNAVAILABLE))))"

definition capacity_disk_usage :: "'w capacity_client \<Rightarrow> string \<Rightarrow> ('w, 'e, disk_usage option) effect" where
  "capacity_disk_usage client sid =
     ematch (cap_post client ''usage'' (jobj [(''service_instance_id'', JStr sid)])) (\<lambda>r.
     eret (case r of
             Inl _ \<Rightarrow> None
           | Inr (code, body) \<Rightarrow>
               if \<not> is_success code then None
               else (case body of Inl _ \<Rightarrow> None | Inr v \<Rightarrow> cap_decode_usage client v)))"

section \<open>Context and calls\<close>

record ('n, 'w) controller_context =
  ctx_capacity :: "'w capacity_client option"
  ctx_namespace :: string
  ctx_image_inspector :: image_inspector
  ctx_helper_image :: string
  ctx_registry_pull_secret :: "string option"
  ctx_persistent_storage_class :: "string option"
  ctx_admin_volume_mounts :: "(string, admin_volume_mount list) btree_map"
  ctx_additional_protected_networks :: "'n list"
  ctx_dns_networks :: "'n list"
  ctx_secret_manager_networks :: "'n list"
  ctx_vpc_guard_networks :: "'n list"
  ctx_public_domain :: "string option"
  ctx_workload_identity_endpoint :: "string option"
  ctx_activator_namespace :: string
  ctx_activator_service :: string
  ctx_activator_port :: u16

text \<open>The libraries; \<open>cl_network\<close> and \<open>cl_first_host\<close> are the network address and the first host of a network.\<close>

record 'n controller_lib =
  cl_nets :: "'n ipnet_ops"
  cl_network :: "'n \<Rightarrow> ip_addr"
  cl_first_host :: "'n \<Rightarrow> ip_addr option"
  cl_url_parse :: "string \<Rightarrow> parsed_url option"
  cl_web :: web_lib
  cl_backup_env :: backup_env
  cl_node_names :: "string \<Rightarrow> string list option"
  cl_claim_json :: "desired_claim \<Rightarrow> json"
  cl_template_json :: "pod_template \<Rightarrow> json"
  cl_error_text :: "reconcile_error \<Rightarrow> string"
  cl_image_error_text :: "image_inspection_error \<Rightarrow> string"
  cl_backup_error_text :: "backup_error \<Rightarrow> string"
  cl_kube_error_text :: "kube_error \<Rightarrow> string"

abbreviation cl_uuids :: "('n, 'z) controller_lib_scheme \<Rightarrow> uuid_ops" where
  "cl_uuids lib \<equiv> wl_uuids (cl_web lib)"

record forwarder_node =
  fwd_name :: string
  fwd_pod_cidrs :: "string list option"
  fwd_addresses :: "(string \<times> string) list option"

record route_meta =
  rm_uid :: "string option"
  rm_resource_version :: "string option"
  rm_deletion_timestamp :: "int option"

text \<open>\<open>ca_timeout\<close> runs a computation for at most 30 seconds; \<open>None\<close> is that it did not end.\<close>

record ('r, 'w) controller_api =
  ca_web :: "'w web_api"
  ca_backups :: "'w backup_api"
  ca_meter :: "'w meter_api"
  ca_jobs :: "'w gpu_job_api"
  ca_scaling :: "'w scaling_api"
  ca_oci :: "('r, 'w) oci_client"
  ca_timeout :: "('w, image_inspection_error, image_inspection) effect \<Rightarrow>
    'w \<Rightarrow> (image_inspection_error + image_inspection) option \<times> 'w"
  ca_now :: "'w \<Rightarrow> i64"
  ca_pods_list :: "string \<Rightarrow> ('w, kube_error, pod list) effect"
  ca_nodes_list :: "('w, kube_error, forwarder_node list) effect"
  ca_job_deleting :: "string \<Rightarrow> ('w, kube_error, bool option) effect"
  ca_claim_get_opt :: "string \<Rightarrow> ('w, kube_error, persistent_volume_claim option) effect"
  ca_claim_apply :: "string \<Rightarrow> desired_claim \<Rightarrow> ('w, kube_error, unit) effect"
  ca_account_apply :: "string \<Rightarrow> service_account \<Rightarrow> ('w, kube_error, unit) effect"
  ca_account_delete :: "string \<Rightarrow> ('w, kube_error, unit) effect"
  ca_policy_apply :: "string \<Rightarrow> network_policy \<Rightarrow> ('w, kube_error, unit) effect"
  ca_service_annotations :: "string \<Rightarrow> ('w, kube_error, (string, string) btree_map option option) effect"
  ca_service_apply :: "string \<Rightarrow> kube_service \<Rightarrow> ('w, kube_error, observed_service) effect"
  ca_service_delete :: "string \<Rightarrow> ('w, kube_error, unit) effect"
  ca_route_get_opt :: "string \<Rightarrow> ('w, kube_error, route_meta option) effect"
  ca_route_delete :: "string \<Rightarrow> string option \<Rightarrow> string option \<Rightarrow> ('w, kube_error, unit) effect"
  ca_route_apply :: "string \<Rightarrow> http_route \<Rightarrow> ('w, kube_error, http_route) effect"
  ca_patch_status :: "string \<Rightarrow> json \<Rightarrow> ('w, kube_error, unit) effect"
  ca_patch_activity :: "string \<Rightarrow> string \<Rightarrow> ('w, kube_error, unit) effect"

definition web_failure :: "('n, 'z) controller_lib_scheme \<Rightarrow> web_error \<Rightarrow> reconcile_error" where
  "web_failure lib e =
     Resource (case e of Web_Error m \<Rightarrow> m | Web_Kubernetes k \<Rightarrow> cl_kube_error_text lib k)"

section \<open>The parts of a pass\<close>

definition ASSIGNED_NODES_ANNOTATION :: string where
  "ASSIGNED_NODES_ANNOTATION = ''networking.heteronetwork.io/assigned-nodes''"

text \<open>The networks of the nodes that forward to a service: of their pods the gateway, and their own addresses.\<close>

definition pod_cidr_networks ::
  "'n controller_lib \<Rightarrow> string \<Rightarrow> string \<Rightarrow> reconcile_error + 'n list" where
  "pod_cidr_networks lib node v =
     bindR (ok_or (net_parse (cl_nets lib) v) (Resource (''node '' @ node @ '' has invalid Pod CIDR '' @ v))) (\<lambda>cidr.
     Inr (net_of_addr (cl_nets lib) (cl_network lib cidr) #
          (case cl_first_host lib cidr of None \<Rightarrow> [] | Some host \<Rightarrow> [net_of_addr (cl_nets lib) host])))"

definition node_networks :: "'n controller_lib \<Rightarrow> forwarder_node \<Rightarrow> 'n list \<Rightarrow> reconcile_error + 'n list" where
  "node_networks lib node networks =
     bindR (try_fold (\<lambda>v acc. bindR (pod_cidr_networks lib (fwd_name node) v) (\<lambda>ns. Inr (acc @ ns)))
              (unwrap_or (fwd_pod_cidrs node) []) networks) (\<lambda>networks.
     try_fold (\<lambda>(_, address) acc.
         bindR (ok_or (parse_ip_addr address) (Resource (''node '' @ fwd_name node @ '' has invalid internal IP''))) (\<lambda>a.
         Inr (acc @ [net_of_addr (cl_nets lib) a])))
       (filter (\<lambda>(kind, _). kind = ''InternalIP'') (unwrap_or (fwd_addresses node) [])) networks)"

definition assigned_forwarder_networks ::
  "('r, 'w) controller_api \<Rightarrow> ('n::linorder) controller_lib \<Rightarrow> (string, string) btree_map option option \<Rightarrow>
   ('w, reconcile_error, 'n list) effect" where
  "assigned_forwarder_networks api lib service =
     (case Option.bind service (\<lambda>annotations. Option.bind annotations (\<lambda>m. bt_get m ASSIGNED_NODES_ANNOTATION)) of
        None \<Rightarrow> eret []
      | Some encoded \<Rightarrow>
          ebind (etry (ok_or (cl_node_names lib encoded)
                   (Resource ''parse assigned HeteroNetwork ingress nodes''))) (\<lambda>assigned.
          ebind (ekube (ca_nodes_list api)) (\<lambda>nodes.
          ebind (etry (try_fold (node_networks lib) (filter (\<lambda>n. fwd_name n \<in> set assigned) nodes) [])) (\<lambda>networks.
          eret (bt_set networks)))))"

definition flash_service_for_pod :: "(string, string) btree_map option \<Rightarrow> string option \<Rightarrow> (string \<times> string) option" where
  "flash_service_for_pod labels namespace =
     Option.bind labels (\<lambda>m. Option.bind (bt_get m INSTANCE_LABEL) (\<lambda>sid.
     Option.bind namespace (\<lambda>ns. Some (''flash-'' @ sid, ns))))"

definition mark_activity ::
  "('r, 'w) controller_api \<Rightarrow> flash_service \<Rightarrow> i64 \<Rightarrow> ('w, reconcile_error, unit) effect" where
  "mark_activity api flash timestamp = ekube (ca_patch_activity api (flash_name flash) (show_int timestamp))"

definition delete_http_route :: "('r, 'w) controller_api \<Rightarrow> string \<Rightarrow> ('w, reconcile_error, bool) effect" where
  "delete_http_route api name =
     ebind (ekube (ca_route_get_opt api name)) (\<lambda>found.
     case found of
       None \<Rightarrow> eret True
     | Some route \<Rightarrow>
         ebind (if rm_deletion_timestamp route = None
                then edelete (ca_route_delete api name (rm_uid route) (rm_resource_version route)) else eret ()) (\<lambda>_.
         ebind (ekube (ca_route_get_opt api name)) (\<lambda>again. eret (again = None))))"

definition pods_of_service :: "flash_service \<Rightarrow> string" where
  "pods_of_service flash = INSTANCE_LABEL @ ''='' @ svc_service_instance_id (fsv_spec flash)"

definition observe ::
  "('r, 'w) controller_api \<Rightarrow> ('n, 'w) controller_context \<Rightarrow> flash_service \<Rightarrow>
   ('w, reconcile_error, observed_allocation) effect" where
  "observe api ctx flash =
     ebind (ekube (ca_pods_list api (pods_of_service flash))) (\<lambda>pods.
     ebind (etry (running_allocation pods)) (\<lambda>_.
     ebind (case ctx_capacity ctx of
              None \<Rightarrow> eret None
            | Some client \<Rightarrow> capacity_disk_usage client (svc_service_instance_id (fsv_spec flash))) (\<lambda>disk.
     etry (observe_allocation pods disk))))"

definition patch_status_if_changed ::
  "('r, 'w) controller_api \<Rightarrow> flash_service \<Rightarrow> flash_service_status \<Rightarrow> ('w, reconcile_error, unit) effect" where
  "patch_status_if_changed api flash status =
     (if fsv_status flash \<noteq> Some status
      then ekube (ca_patch_status api (flash_name flash) (status_patch flash status)) else eret ())"

definition patch_observed_status ::
  "('r, 'w) controller_api \<Rightarrow> observed_allocation \<Rightarrow> flash_service \<Rightarrow> flash_service_status \<Rightarrow>
   ('w, reconcile_error, unit) effect" where
  "patch_observed_status api allocation flash status =
     ebind (eread (ca_now api)) (\<lambda>now.
     patch_status_if_changed api flash (observed_status now allocation status))"

section \<open>Stages before the workload\<close>

datatype 'a stage = Done action | Continue 'a

definition estage ::
  "('w, 'e, 'a stage) effect \<Rightarrow> ('a \<Rightarrow> ('w, 'e, action) effect) \<Rightarrow> ('w, 'e, action) effect" where
  "estage m f = ebind m (\<lambda>s. case s of Done action \<Rightarrow> eret action | Continue x \<Rightarrow> f x)"

text \<open>What the pass has observed and derived before it looks at the workload.\<close>

record service_pass =
  sv_flash :: flash_service
  sv_allocation :: observed_allocation
  sv_owner :: object_owner
  sv_hostname :: "string option"
  sv_route :: "http_route option"
  sv_authentication :: prepared_authentication

abbreviation sv_own :: "('z service_pass_scheme) \<Rightarrow> owner_reference" where
  "sv_own p \<equiv> owner_reference.truncate (sv_owner p)"

definition report ::
  "('r, 'w) controller_api \<Rightarrow> ('z service_pass_scheme) \<Rightarrow> flash_service_status \<Rightarrow> action \<Rightarrow> ('w, reconcile_error, action) effect" where
  "report api p status action =
     ebind (patch_observed_status api (sv_allocation p) (sv_flash p) status) (\<lambda>_. eret action)"

text \<open>The status that most early returns report.\<close>

definition plain_status :: "flash_service \<Rightarrow> flash_service_phase \<Rightarrow> i32 \<Rightarrow> string \<Rightarrow> flash_service_status" where
  "plain_status flash phase replicas message =
     default_flash_service_status
       \<lparr>st_phase := phase, st_observed_generation := svc_desired_generation (fsv_spec flash),
        st_desired_replicas := replicas,
        st_runtime_class := workload_runtime_class (effective_gpu_count (workload flash)),
        st_message := Some message\<rparr>"

definition await_restore ::
  "('r, 'w) controller_api \<Rightarrow> 'n controller_lib \<Rightarrow> ('n, 'w) controller_context \<Rightarrow> ('z service_pass_scheme) \<Rightarrow>
   ('w, reconcile_error, unit stage) effect" where
  "await_restore api lib ctx p =
     (if fs_restore_from_backup_id (workload (sv_flash p)) = None then eret (Continue ())
      else ebind (etry (ok_or (ctx_persistent_storage_class ctx) PersistentStorageUnavailable)) (\<lambda>class.
           ebind (emap_err (\<lambda>e. Backup (cl_backup_error_text lib e))
                    (ensure_restored_home (ca_backups api) (cl_backup_env lib) (ctx_namespace ctx) (sv_flash p) class)) (\<lambda>restored.
           if restored then eret (Continue ())
           else ebind (report api p (plain_status (sv_flash p) Provisioning 0
                         ''restoring backup into a new persistent disk; workload remains stopped'') (Requeue 3)) (\<lambda>a.
                eret (Done a)))))"

definition callback_url :: "('z service_pass_scheme) \<Rightarrow> string option" where
  "callback_url p =
     (if ex_endpoint_mode (fs_exposure (workload (sv_flash p))) = Web
      then map_option (\<lambda>hostname. ''https://'' @ hostname @ CALLBACK_PATH) (sv_hostname p) else None)"

text \<open>The GPU is given back only when no pod is left.\<close>

definition release_gpu ::
  "('r, 'w) controller_api \<Rightarrow> flash_service \<Rightarrow> pod list \<Rightarrow> ('w, reconcile_error, bool) effect" where
  "release_gpu api flash pods =
     (let needs_gpu = 0 < effective_gpu_count (workload flash)
      in if \<not> list_ex pod_is_active pods \<and> needs_gpu
         then ebind (ekube (ca_job_deleting api (flash_name flash))) (\<lambda>job.
              case job of
                None \<Rightarrow> eret True
              | Some deleting \<Rightarrow>
                  ebind (if deleting then eret ()
                         else edelete (api_gpu_job_delete (ca_jobs api) (flash_name flash))) (\<lambda>_. eret False))
         else eret (\<not> needs_gpu))"

definition stop_service ::
  "('r, 'w) controller_api \<Rightarrow> ('z service_pass_scheme) \<Rightarrow> ('w, reconcile_error, action) effect" where
  "stop_service api p =
     (let flash = sv_flash p
      in ebind (eread (ca_now api)) (\<lambda>now.
         ebind (meter_weekly_usage (ca_meter api) flash now) (\<lambda>meter.
         ebind (suspend_deployment (ca_scaling api) (flash_name flash)) (\<lambda>_.
         ebind (ekube (ca_pods_list api (pods_of_service flash))) (\<lambda>pods.
         ebind (release_gpu api flash pods) (\<lambda>gpu_released.
         let status = apply_weekly_meter meter
               ((explicit_stop_status flash pods gpu_released)\<lparr>st_oidc_callback_url := callback_url p\<rparr>)
         in report api p status (Requeue (if st_stopped status then 30 else 2))))))))"

definition check_service ::
  "('n::linorder) controller_lib \<Rightarrow> ('n, 'w) controller_context \<Rightarrow> flash_service \<Rightarrow> reconcile_error + unit" where
  "check_service lib ctx flash =
     bindR (map_err Validation (validate_flash_spec (cl_nets lib) (cl_url_parse lib) (workload flash))) (\<lambda>_.
     bindR (public_hostname (cl_uuids lib) flash (ctx_public_domain ctx)) (\<lambda>_. Inr ()))"

definition reject_invalid ::
  "('r, 'w) controller_api \<Rightarrow> ('n::linorder) controller_lib \<Rightarrow> ('n, 'w) controller_context \<Rightarrow> ('z service_pass_scheme) \<Rightarrow>
   ('w, reconcile_error, unit stage) effect" where
  "reject_invalid api lib ctx p =
     (let flash = sv_flash p
      in case check_service lib ctx flash of
           Inr _ \<Rightarrow> eret (Continue ())
         | Inl e \<Rightarrow>
             ebind (if 0 < effective_gpu_count (workload flash)
                    then ebind (suspend_deployment (ca_scaling api) (flash_name flash)) (\<lambda>_.
                         edelete (api_gpu_job_delete (ca_jobs api) (flash_name flash)))
                    else eret ()) (\<lambda>_.
             ebind (report api p (plain_status flash Error (i32_of_count (fs_replicas (workload flash)))
                      (cl_error_text lib e)) (Requeue 30)) (\<lambda>a.
             eret (Done a))))"

definition await_network ::
  "('r, 'w) controller_api \<Rightarrow> ('z service_pass_scheme) \<Rightarrow> ('w, reconcile_error, unit stage) effect" where
  "await_network api p =
     (let flash = sv_flash p
      in if fs_network (workload flash) \<noteq> None \<and>
            bt_get (meta_annotations (fsv_meta flash)) ''vpc.heterocloud.io/applied-generation'' \<noteq>
              Some (show_int (svc_desired_generation (fsv_spec flash)))
         then ebind (report api p (plain_status flash Provisioning (i32_of_count (fs_replicas (workload flash)))
                       ''waiting for VPC policies and private DNS'') (Requeue 2)) (\<lambda>a.
              eret (Done a))
         else eret (Continue ()))"

section \<open>Quota, GPU and image\<close>

record metered_pass = service_pass +
  mt_now :: i64
  mt_meter :: weekly_meter
  mt_cold :: bool
  mt_quota_message :: "string option"
  mt_suspended :: bool
  mt_gpu_job :: "gpu_job_state option"
  mt_replicas :: i32

definition gpu_assignment_of :: "('z metered_pass_scheme) \<Rightarrow> flash_gpu_assignment option" where
  "gpu_assignment_of p = Option.bind (mt_gpu_job p) gst_assignment"

text \<open>The quota is enforced before anything else can fail.\<close>

definition meter_service ::
  "('r, 'w) controller_api \<Rightarrow> service_pass \<Rightarrow> ('w, reconcile_error, metered_pass) effect" where
  "meter_service api p =
     (let flash = sv_flash p
      in ebind (eread (ca_now api)) (\<lambda>now.
         ebind (meter_weekly_usage (ca_meter api) flash now) (\<lambda>meter.
         let cold = should_scale_to_zero flash now; quota_message = exhausted_quota_message meter;
             suspended = (cold \<or> quota_message \<noteq> None)
         in ebind (if quota_message \<noteq> None then suspend_deployment (ca_scaling api) (flash_name flash) else eret ()) (\<lambda>_.
            ebind (reconcile_gpu_job (ca_jobs api) flash (sv_own p) now (wm_gpu_remaining_seconds meter) suspended) (\<lambda>job.
            ebind (etry (if int (fs_replicas (workload flash)) \<le> i32_max
                         then Inr (int (fs_replicas (workload flash))) else Inl InvalidReplicaCount)) (\<lambda>replicas.
            eret (service_pass.extend p
              \<lparr>mt_now = now, mt_meter = meter, mt_cold = cold, mt_quota_message = quota_message,
               mt_suspended = suspended, mt_gpu_job = job, mt_replicas = replicas\<rparr>)))))))"

definition metered_status :: "('z metered_pass_scheme) \<Rightarrow> flash_service_phase \<Rightarrow> string \<Rightarrow> flash_service_status" where
  "metered_status p phase message =
     apply_weekly_meter (mt_meter p) (plain_status (sv_flash p) phase (mt_replicas p) message)"

definition await_gpu ::
  "('r, 'w) controller_api \<Rightarrow> metered_pass \<Rightarrow> ('w, reconcile_error, unit stage) effect" where
  "await_gpu api p =
     (let flash = sv_flash p
      in if 0 < effective_gpu_count (workload flash) \<and> \<not> mt_suspended p \<and> gpu_assignment_of p = None
         then ebind (suspend_deployment (ca_scaling api) (flash_name flash)) (\<lambda>_.
              ebind (report api p ((metered_status p Provisioning ''queued for a visible healthy GPU of the requested type'')
                       \<lparr>st_gpu_scheduling := gpu_scheduling_status flash (mt_gpu_job p)\<rparr>) (Requeue 5)) (\<lambda>a.
              eret (Done a)))
         else eret (Continue ()))"

definition disk_budget :: "flash_service \<Rightarrow> reconcile_error + u64" where
  "disk_budget flash =
     ok_or (u64_checked_mul (fs_ephemeral_storage_gib (workload flash)) GIB_BYTES) StorageBudgetOverflow"

text \<open>
  What follows the inspection, which is \<open>None\<close> after a timeout: a verified inspection of a peer replaces a
  registry that is unavailable, a failure that may pass waits, and an invalid image is reported once.
\<close>

definition use_inspection ::
  "('r, 'w) controller_api \<Rightarrow> 'n controller_lib \<Rightarrow> metered_pass \<Rightarrow> image_inspection option \<Rightarrow>
   (image_inspection_error + image_inspection) option \<Rightarrow> ('w, reconcile_error, image_inspection stage) effect" where
  "use_inspection api lib p peer result =
     (let stay = (\<lambda>phase message action. ebind (report api p (metered_status p phase message) action) (\<lambda>a. eret (Done a)))
      in case result of
           Some (Inr inspection) \<Rightarrow> eret (Continue inspection)
         | Some (Inl e) \<Rightarrow>
             if peer \<noteq> None \<and> allows_verified_cache e then eret (Continue (the peer))
             else if retryable e
             then stay Provisioning (''waiting for image inspection: '' @ cl_image_error_text lib e) (Requeue 30)
             else stay Error (cl_image_error_text lib e) Await_Change
         | None \<Rightarrow>
             (case peer of
                Some cached \<Rightarrow> eret (Continue cached)
              | None \<Rightarrow> stay Provisioning ''waiting for image inspection: OCI registry request timed out'' (Requeue 30)))"

definition inspect_workload ::
  "('r, 'w) controller_api \<Rightarrow> 'n controller_lib \<Rightarrow> ('n, 'w) controller_context \<Rightarrow> metered_pass \<Rightarrow>
   ('w, reconcile_error, image_inspection stage) effect" where
  "inspect_workload api lib ctx p =
     (let flash = sv_flash p
      in ebind (etry (disk_budget flash)) (\<lambda>budget.
         ebind (ekube (verified_peer_image_inspection (ca_oci api) (api_services_list (ca_meter api)) flash budget)) (\<lambda>peer.
         case cached_image_inspection flash budget of
           Some inspection \<Rightarrow> eret (Continue inspection)
         | None \<Rightarrow>
             (\<lambda>w. case ca_timeout api (inspect (ca_oci api) (ctx_image_inspector ctx) (fs_image (workload flash)) budget) w of
                    (result, w') \<Rightarrow> use_inspection api lib p peer result w'))))"

section \<open>The plan of a workload\<close>

record storage_plan =
  pl_inspection :: image_inspection
  pl_existing_claim :: "persistent_volume_claim option"
  pl_existing_storage :: "(u64 \<times> u64) option"
  pl_storage :: storage_allocation
  pl_claim :: "desired_claim option"

record workload_plan = storage_plan +
  pl_deployment :: live_deployment
  pl_new_template :: bool

definition is_stateless :: "flash_service \<Rightarrow> bool" where
  "is_stateless flash = (case fs_deployment (workload flash) of None \<Rightarrow> False | Some d \<Rightarrow> dp_stateless d)"

definition transpose_result :: "('e + 'a) option \<Rightarrow> 'e + 'a option" where
  "transpose_result r = (case r of None \<Rightarrow> Inr None | Some (Inl e) \<Rightarrow> Inl e | Some (Inr x) \<Rightarrow> Inr (Some x))"

text \<open>An update whose disk does not fit is reported and changes nothing.\<close>

definition plan_storage ::
  "('r, 'w) controller_api \<Rightarrow> 'n controller_lib \<Rightarrow> ('n, 'w) controller_context \<Rightarrow> metered_pass \<Rightarrow> image_inspection \<Rightarrow>
   ('w, reconcile_error, storage_plan stage) effect" where
  "plan_storage api lib ctx p inspection =
     (let flash = sv_flash p
      in ebind (if ctx_persistent_storage_class ctx \<noteq> None
                then ekube (ca_claim_get_opt api (flash_name flash @ ''-home'')) else eret None) (\<lambda>existing_claim.
         ebind (etry (transpose_result (map_option claim_storage existing_claim))) (\<lambda>existing_storage.
         let allocate_home = (ctx_persistent_storage_class ctx \<noteq> None \<and> (\<not> is_stateless flash \<or> existing_claim \<noteq> None))
         in case storage_allocation_retaining (ii_writable_storage_bytes inspection) allocate_home
                   (fs_rootfs_storage_gib (workload flash)) (fs_persistent_storage_gib (workload flash))
                   (unwrap_or (map_option fst existing_storage) 0) of
              Inl e \<Rightarrow>
                ebind (report api p
                         ((metered_status p Error (cl_error_text lib e))
                            \<lparr>st_resolved_image := Some (ii_resolved_image inspection),
                             st_image_size_bytes := Some (ii_image_size_bytes inspection)\<rparr>) (Requeue 30)) (\<lambda>a.
                eret (Done a))
            | Inr storage \<Rightarrow>
                eret (Continue
                  \<lparr>pl_inspection = inspection, pl_existing_claim = existing_claim,
                   pl_existing_storage = existing_storage, pl_storage = storage,
                   pl_claim =
                     (if allocate_home
                      then map_option (\<lambda>class. desired_persistent_volume_claim (cl_uuids lib) flash (sv_own p) class
                             (persistent_bytes storage)) (ctx_persistent_storage_class ctx)
                      else None)\<rparr>))))"

definition options_of ::
  "('n, 'w) controller_context \<Rightarrow> metered_pass \<Rightarrow> storage_plan \<Rightarrow> deployment_options" where
  "options_of ctx p plan =
     \<lparr>do_image_entrypoint = ii_image_entrypoint (pl_inspection plan), do_image_cmd = ii_image_cmd (pl_inspection plan),
      do_image_architecture = Some (ii_architecture (pl_inspection plan)),
      do_helper_image = Some (ctx_helper_image ctx),
      do_persistent_volume_claim = (if is_stateless (sv_flash p) then None else map_option dc_name (pl_claim plan)),
      do_registry_pull_secret = ctx_registry_pull_secret ctx,
      do_admin_volume_mounts =
        unwrap_or (bt_get (ctx_admin_volume_mounts ctx) (svc_service_instance_id (fsv_spec (sv_flash p)))) [],
      do_gpu_assignment = gpu_assignment_of p,
      do_workload_identity_endpoint = ctx_workload_identity_endpoint ctx\<rparr>"

definition plan_deployment ::
  "('r, 'w) controller_api \<Rightarrow> 'n controller_lib \<Rightarrow> ('n, 'w) controller_context \<Rightarrow> metered_pass \<Rightarrow> storage_plan \<Rightarrow>
   ('w, reconcile_error, workload_plan) effect" where
  "plan_deployment api lib ctx p plan =
     (let flash = sv_flash p; inspection = pl_inspection plan
      in ebind (etry (desired_deployment (cl_uuids lib) flash (sv_own p) (ii_resolved_image inspection)
                        (rootfs_bytes (pl_storage plan)) (options_of ctx p plan))) (\<lambda>deployment.
         ebind (ekube (sc_deployment_get_opt (ca_scaling api) (flash_name flash))) (\<lambda>current.
         let current_generation = Option.bind current deployment_pod_generation;
             new_template = (current = None \<or>
               current_generation \<noteq> Some (show_int (svc_desired_generation (fsv_spec flash))));
             deployment =
               (if new_template then set_image_size (ii_image_size_bytes inspection) deployment
                else case current of None \<Rightarrow> deployment | Some c \<Rightarrow> preserve_legacy_probe_fields c deployment)
         in eret (storage_plan.extend plan \<lparr>pl_deployment = deployment, pl_new_template = new_template\<rparr>))))"

definition claim_changes :: "('z storage_plan_scheme) \<Rightarrow> bool" where
  "claim_changes plan \<longleftrightarrow>
     pl_claim plan \<noteq> None \<and> claim_needs_storage_update (pl_existing_storage plan) (persistent_bytes (pl_storage plan))"

definition or_unavailable :: "('w, string, string option) effect \<Rightarrow> ('w, 'e, string option) effect" where
  "or_unavailable m = ematch m (\<lambda>r. eret (case r of Inl _ \<Rightarrow> Some UNAVAILABLE | Inr s \<Rightarrow> s))"

definition recreates :: "live_deployment \<Rightarrow> bool" where
  "recreates d \<longleftrightarrow> Option.bind (Option.bind (ld_spec d) dsp_strategy) dst_type = Some ''Recreate''"

definition find_shortage ::
  "'w capacity_client \<Rightarrow> 'n controller_lib \<Rightarrow> metered_pass \<Rightarrow> workload_plan \<Rightarrow> ('w, reconcile_error, string option) effect" where
  "find_shortage client lib p plan =
     ebind (case pl_claim plan of
              None \<Rightarrow> eret None
            | Some claim \<Rightarrow>
                if claim_changes plan
                then or_unavailable (capacity_check client ''PersistentVolumeClaim'' (cl_claim_json lib claim) False)
                else eret None) (\<lambda>shortage.
     if shortage = None \<and> pl_new_template plan \<and> \<not> mt_suspended p
     then ebind (etry (ok_or (ld_spec (pl_deployment plan)) (Resource ''missing template''))) (\<lambda>spec.
          or_unavailable (capacity_check client ''Pod'' (cl_template_json lib (dsp_template spec))
            (recreates (pl_deployment plan))))
     else eret shortage)"

definition await_capacity ::
  "('r, 'w) controller_api \<Rightarrow> 'n controller_lib \<Rightarrow> ('n, 'w) controller_context \<Rightarrow> metered_pass \<Rightarrow> workload_plan \<Rightarrow>
   ('w, reconcile_error, unit stage) effect" where
  "await_capacity api lib ctx p plan =
     (case ctx_capacity ctx of
        None \<Rightarrow> eret (Continue ())
      | Some client \<Rightarrow>
          ebind (find_shortage client lib p plan) (\<lambda>shortage.
          case shortage of
            None \<Rightarrow> eret (Continue ())
          | Some code \<Rightarrow>
              let flash = sv_flash p;
                  status = (unwrap_or (fsv_status flash) default_flash_service_status)
                    \<lparr>st_phase := Provisioning, st_observed_generation := svc_desired_generation (fsv_spec flash),
                     st_desired_replicas := mt_replicas p,
                     st_runtime_class := workload_runtime_class (effective_gpu_count (workload flash)),
                     st_message := Some (''waiting for capacity: '' @ code @ ''; existing revision and disk are retained''),
                     st_diagnostics := [reason code]\<rparr>
              in ebind (report api p (apply_weekly_meter (mt_meter p) status) (Requeue 15)) (\<lambda>a.
                 eret (Done a))))"

section \<open>Applying the plan\<close>

definition forwarded_networks ::
  "('r, 'w) controller_api \<Rightarrow> ('n::linorder) controller_lib \<Rightarrow> flash_service \<Rightarrow>
   (string, string) btree_map option option \<Rightarrow> ('w, reconcile_error, 'n list) effect" where
  "forwarded_networks api lib flash service =
     (let x = fs_exposure (workload flash)
      in if ex_kind x = Public \<and> ex_traffic_mode x = Forwarded \<and> ex_endpoint_mode x \<noteq> Web
         then assigned_forwarder_networks api lib service else eret [])"

definition apply_account ::
  "('r, 'w) controller_api \<Rightarrow> 'n controller_lib \<Rightarrow> ('z service_pass_scheme) \<Rightarrow> ('w, reconcile_error, unit) effect" where
  "apply_account api lib p =
     (let flash = sv_flash p; w = workload flash
      in ebind (etry (flash_secret_service_account_name (cl_uuids lib) flash)) (\<lambda>name.
         if fs_secret_env w = [] \<and> fs_secret_files w = [] \<and> fs_task_role w = None
         then edelete (ca_account_delete api name)
         else ebind (etry (desired_secret_service_account (cl_uuids lib) flash (sv_own p))) (\<lambda>account.
              ekube (ca_account_apply api name account))))"

definition apply_service ::
  "('r, 'w) controller_api \<Rightarrow> flash_service \<Rightarrow> kube_service option \<Rightarrow> ('w, reconcile_error, observed_service option) effect" where
  "apply_service api flash service =
     (case service of
        Some s \<Rightarrow> ebind (ekube (ca_service_apply api (flash_name flash) s)) (\<lambda>applied. eret (Some applied))
      | None \<Rightarrow> ebind (edelete (ca_service_delete api (flash_name flash))) (\<lambda>_. eret None))"

text \<open>The route stays blocked while authentication is not ready.\<close>

definition apply_route ::
  "('r, 'w) controller_api \<Rightarrow> ('z service_pass_scheme) \<Rightarrow> ('w, reconcile_error, http_route option) effect" where
  "apply_route api p =
     (case sv_route p of
        None \<Rightarrow> eret None
      | Some route \<Rightarrow>
          ebind (ekube (ca_route_apply api (flash_name (sv_flash p))
                   (if pa_ready (sv_authentication p) then route else blocked_route route))) (\<lambda>applied.
          eret (Some applied)))"

record applied_objects =
  ao_deployment :: live_deployment
  ao_service :: "observed_service option"
  ao_route :: "http_route option"

definition policy_options ::
  "('n, 'w) controller_context \<Rightarrow> flash_service \<Rightarrow> 'n list \<Rightarrow> 'n network_policy_options" where
  "policy_options ctx flash forwarded =
     \<lparr>npo_additional_protected_networks = ctx_additional_protected_networks ctx,
      npo_dns_networks = ctx_dns_networks ctx, npo_secret_manager_networks = ctx_secret_manager_networks ctx,
      npo_vpc_guard_networks = ctx_vpc_guard_networks ctx, npo_forwarded_ingress_networks = forwarded,
      npo_activator_namespace = ctx_activator_namespace ctx, npo_allow_activator = is_scale_to_zero flash\<rparr>"

definition apply_claim ::
  "('r, 'w) controller_api \<Rightarrow> ('z storage_plan_scheme) \<Rightarrow> ('w, reconcile_error, unit) effect" where
  "apply_claim api plan =
     (case pl_claim plan of
        None \<Rightarrow> eret ()
      | Some claim \<Rightarrow> if claim_changes plan then ekube (ca_claim_apply api (dc_name claim) claim) else eret ())"

definition apply_plan ::
  "('r, 'w) controller_api \<Rightarrow> ('n::linorder) controller_lib \<Rightarrow> ('n, 'w) controller_context \<Rightarrow> metered_pass \<Rightarrow> workload_plan \<Rightarrow>
   ('w, reconcile_error, applied_objects stage) effect" where
  "apply_plan api lib ctx p plan =
     (let flash = sv_flash p; name = flash_name flash
      in ebind (etry (desired_service_with_hostname (cl_nets lib) (cl_uuids lib) flash (sv_own p) (sv_hostname p))) (\<lambda>service.
         ebind (if sv_route p = None then delete_http_route api name else eret True) (\<lambda>gone.
         if \<not> gone then eret (Done (Requeue 2))
         else
         ebind (ekube (ca_service_annotations api name)) (\<lambda>current.
         ebind (forwarded_networks api lib flash current) (\<lambda>forwarded.
         ebind (etry (desired_network_policy_with_networks (cl_nets lib) (cl_uuids lib) flash (sv_own p)
                        (policy_options ctx flash forwarded))) (\<lambda>policy.
         ebind (apply_claim api plan) (\<lambda>_.
         ebind (apply_account api lib p) (\<lambda>_.
         ebind (ekube (ca_policy_apply api name policy)) (\<lambda>_.
         ebind (reconcile_scaling (ca_scaling api) (cl_uuids lib) flash (sv_own p) (pl_deployment plan) (mt_suspended p)) (\<lambda>deployment.
         ebind (apply_service api flash service) (\<lambda>applied.
         ebind (apply_route api p) (\<lambda>route.
         eret (Continue \<lparr>ao_deployment = deployment, ao_service = applied, ao_route = route\<rparr>)))))))))))))"

section \<open>The status\<close>

definition endpoints_of :: "metered_pass \<Rightarrow> applied_objects \<Rightarrow> flash_endpoint list" where
  "endpoints_of p ao =
     (case ao_service ao of
        None \<Rightarrow> []
      | Some service \<Rightarrow>
          if ex_endpoint_mode (fs_exposure (workload (sv_flash p))) = Web
          then if pa_ready (sv_authentication p) then web_endpoints (sv_flash p) service (ao_route ao) (sv_hostname p) else []
          else service_endpoints (sv_flash p) service (sv_hostname p))"

definition initial_status :: "metered_pass \<Rightarrow> workload_plan \<Rightarrow> applied_objects \<Rightarrow> flash_service_status" where
  "initial_status p plan ao =
     (let flash = sv_flash p; inspection = pl_inspection plan
      in apply_weekly_meter (mt_meter p) (default_flash_service_status
           \<lparr>st_observed_generation := svc_desired_generation (fsv_spec flash),
            st_desired_replicas := unwrap_or (live_replicas (ao_deployment ao)) (mt_replicas p),
            st_runtime_class := workload_runtime_class (effective_gpu_count (workload flash)),
            st_endpoints := endpoints_of p ao, st_private_endpoints := private_endpoints flash,
            st_oidc_callback_url := callback_url p,
            st_resolved_image := Some (ii_resolved_image inspection),
            st_image_size_bytes := Some (ii_image_size_bytes inspection),
            st_writable_storage_bytes := Some (ii_writable_storage_bytes inspection),
            st_rootfs_storage_bytes := Some (rootfs_bytes (pl_storage plan)),
            st_persistent_storage_bytes :=
              (if pl_claim plan = None then None else Some (persistent_bytes (pl_storage plan))),
            st_persistent_storage_capacity_bytes := map_option snd (pl_existing_storage plan),
            st_storage_resize_pending :=
              (pl_claim plan \<noteq> None \<and>
               persistent_resize_pending (pl_existing_claim plan) (pl_existing_storage plan) (persistent_bytes (pl_storage plan))),
            st_image_entrypoint := Some (ii_image_entrypoint inspection),
            st_image_cmd := Some (ii_image_cmd inspection),
            st_image_architecture := Some (ii_architecture inspection),
            st_disk_usage := oa_disk (sv_allocation p), st_cold := mt_cold p,
            st_gpu_scheduling := gpu_scheduling_status flash (mt_gpu_job p)\<rparr>))"

definition note_resize :: "flash_service_status \<Rightarrow> flash_service_status" where
  "note_resize s =
     (if st_storage_resize_pending s \<and> st_phase s = Ready
      then s\<lparr>st_phase := Provisioning,
             st_message := Some ''waiting for persistent disk expansion; existing data is retained''\<rparr> else s)"

definition note_suspension :: "metered_pass \<Rightarrow> flash_service_status \<Rightarrow> flash_service_status" where
  "note_suspension p s =
     (if mt_suspended p
      then s\<lparr>st_desired_replicas := 0, st_ready_replicas := 0, st_phase := Ready,
             st_message := or_else (mt_quota_message p)
               (Some ''scaled to zero; the next HTTP request will cold-start one replica'')\<rparr> else s)"

definition note_endpoint :: "metered_pass \<Rightarrow> flash_service_status \<Rightarrow> flash_service_status" where
  "note_endpoint p s =
     (if sv_hostname p \<noteq> None \<and> st_endpoints s \<noteq> [] \<and> st_phase s = Ready
      then let note = (if ex_endpoint_mode (fs_exposure (workload (sv_flash p))) = Web
                       then ''HTTPRoute accepted; external DNS, TLS and HTTPS reachability are not verified''
                       else ''Load balancer allocated; DNS publication/resolution is not verified'')
           in s\<lparr>st_message := Some (case st_message s of Some message \<Rightarrow> message @ ''; '' @ note | None \<Rightarrow> note)\<rparr>
      else s)"

definition note_authentication :: "metered_pass \<Rightarrow> flash_service_status \<Rightarrow> flash_service_status" where
  "note_authentication p s =
     (case pa_message (sv_authentication p) of
        None \<Rightarrow> s | Some message \<Rightarrow> s\<lparr>st_phase := Provisioning, st_message := Some message\<rparr>)"

definition final_status ::
  "i64 \<Rightarrow> metered_pass \<Rightarrow> workload_plan \<Rightarrow> applied_objects \<Rightarrow> pod list \<Rightarrow> flash_service_status \<times> action" where
  "final_status now p plan ao pods =
     (let status = initial_status p plan ao;
          endpoint_ready = (fs_ports (workload (sv_flash p)) = [] \<or> st_endpoints status \<noteq> []);
          (status, action) = update_workload_status now status pods (deployment.truncate (ao_deployment ao))
            endpoint_ready (fs_ports (workload (sv_flash p)) \<noteq> [])
      in (note_authentication p (note_endpoint p (note_suspension p (note_resize status))), action))"

definition finish_pass ::
  "('r, 'w) controller_api \<Rightarrow> metered_pass \<Rightarrow> workload_plan \<Rightarrow> applied_objects \<Rightarrow> ('w, reconcile_error, action) effect" where
  "finish_pass api p plan ao =
     (let flash = sv_flash p;
          generation = unwrap_or (deployment_pod_generation (ao_deployment ao))
            (show_int (svc_desired_generation (fsv_spec flash)))
      in ebind (ekube (ca_pods_list api (pods_of_service flash @ '','' @ GENERATION_LABEL @ ''='' @ generation))) (\<lambda>pods.
         ebind (eread (ca_now api)) (\<lambda>now.
         let (status, action) = final_status now p plan ao pods; ready = (st_phase status = Ready)
         in ebind (patch_observed_status api (sv_allocation p) flash status) (\<lambda>_.
            if is_scale_to_zero flash \<and> ready \<and> activity_timestamp flash = None
            then ebind (mark_activity api flash (mt_now p)) (\<lambda>_. eret (Requeue 30))
            else eret (if ready then Requeue 30 else action)))))"

section \<open>The pass\<close>

definition run_workload ::
  "('r, 'w) controller_api \<Rightarrow> ('n::linorder) controller_lib \<Rightarrow> ('n, 'w) controller_context \<Rightarrow> metered_pass \<Rightarrow>
   ('w, reconcile_error, action) effect" where
  "run_workload api lib ctx p =
     estage (await_gpu api p) (\<lambda>_.
     estage (inspect_workload api lib ctx p) (\<lambda>inspection.
     estage (plan_storage api lib ctx p inspection) (\<lambda>storage.
     ebind (plan_deployment api lib ctx p storage) (\<lambda>plan.
     estage (await_capacity api lib ctx p plan) (\<lambda>_.
     estage (apply_plan api lib ctx p plan) (\<lambda>ao.
     finish_pass api p plan ao))))))"

definition reconcile_service ::
  "('r, 'w) controller_api \<Rightarrow> ('n::linorder) controller_lib \<Rightarrow> ('n, 'w) controller_context \<Rightarrow> service_pass \<Rightarrow>
   ('w, reconcile_error, action) effect" where
  "reconcile_service api lib ctx p =
     estage (await_restore api lib ctx p) (\<lambda>_.
     if fs_stopped (workload (sv_flash p)) then stop_service api p
     else
     estage (reject_invalid api lib ctx p) (\<lambda>_.
     estage (await_network api p) (\<lambda>_.
     ebind (meter_service api p) (\<lambda>p.
     run_workload api lib ctx p))))"

definition reconcile ::
  "('r, 'w) controller_api \<Rightarrow> ('n::linorder) controller_lib \<Rightarrow> ('n, 'w) controller_context \<Rightarrow> flash_service \<Rightarrow>
   ('w, reconcile_error, action) effect" where
  "reconcile api lib ctx flash =
     ebind (observe api ctx flash) (\<lambda>allocation.
     ebind (etry (ok_or (controller_owner flash) MissingOwnerReference)) (\<lambda>owner.
     ebind (etry (public_hostname (cl_uuids lib) flash (ctx_public_domain ctx))) (\<lambda>hostname.
     ebind (etry (desired_http_route (cl_nets lib) (cl_url_parse lib) (cl_uuids lib) flash
                    (owner_reference.truncate owner) hostname (ctx_activator_namespace ctx)
                    (ctx_activator_service ctx) (ctx_activator_port ctx))) (\<lambda>route.
     ematch (reconcile_routes (ca_web api) (cl_web lib) flash owner route) (\<lambda>_.
     ebind (emap_err (web_failure lib) (prepare (ca_web api) (cl_web lib) flash owner hostname route)) (\<lambda>authentication.
     reconcile_service api lib ctx
       \<lparr>sv_flash = flash, sv_allocation = allocation, sv_owner = owner, sv_hostname = hostname,
        sv_route = route, sv_authentication = authentication\<rparr>))))))"

definition error_policy :: "reconcile_error \<Rightarrow> action" where
  "error_policy e = Requeue 5"

end
