(* ===== verification/Reconcile_Properties.thy ===== *)
theory Reconcile_Properties
  imports Reconcile Web_Auth_Properties Deployment_Properties
begin

text \<open>
  Properties of the main pass. Most say that a call is only made under a condition: the run of the pass is
  the same when the call is replaced by an arbitrary one. All stages but the application of the plan make
  only the calls of \<open>same_core\<close>, so two servers that agree on these give the same run of the stages.
\<close>

section \<open>What the stages call\<close>

definition same_base :: "('r, 'w) controller_api \<Rightarrow> ('r, 'w) controller_api \<Rightarrow> bool" where
  "same_base a b \<longleftrightarrow>
     ca_backups a = ca_backups b \<and> ca_meter a = ca_meter b \<and> ca_oci a = ca_oci b \<and> ca_timeout a = ca_timeout b \<and>
     ca_now a = ca_now b \<and> ca_pods_list a = ca_pods_list b \<and> ca_job_deleting a = ca_job_deleting b \<and>
     ca_claim_get_opt a = ca_claim_get_opt b \<and> ca_patch_status a = ca_patch_status b \<and>
     ca_patch_activity a = ca_patch_activity b \<and>
     sc_deployment_get_opt (ca_scaling a) = sc_deployment_get_opt (ca_scaling b) \<and>
     api_gpu_job_delete (ca_jobs a) = api_gpu_job_delete (ca_jobs b)"

definition same_core :: "('r, 'w) controller_api \<Rightarrow> ('r, 'w) controller_api \<Rightarrow> bool" where
  "same_core a b \<longleftrightarrow> same_base a b \<and> suspend_deployment (ca_scaling a) = suspend_deployment (ca_scaling b)"

lemma same_base_eqs:
  assumes "same_base a b"
  shows "ca_backups a = ca_backups b" "ca_meter a = ca_meter b" "ca_oci a = ca_oci b" "ca_timeout a = ca_timeout b"
    "ca_now a = ca_now b" "ca_pods_list a = ca_pods_list b" "ca_job_deleting a = ca_job_deleting b"
    "ca_claim_get_opt a = ca_claim_get_opt b" "ca_patch_status a = ca_patch_status b"
    "ca_patch_activity a = ca_patch_activity b"
    "sc_deployment_get_opt (ca_scaling a) = sc_deployment_get_opt (ca_scaling b)"
    "api_gpu_job_delete (ca_jobs a) = api_gpu_job_delete (ca_jobs b)"
  using assms by (simp_all add: same_base_def)

lemma core_base: "same_core a b \<Longrightarrow> same_base a b"
  by (simp add: same_core_def)

lemma core_suspend: "same_core a b \<Longrightarrow> suspend_deployment (ca_scaling a) = suspend_deployment (ca_scaling b)"
  by (simp add: same_core_def)

lemmas same_core_eqs = same_base_eqs [OF core_base] core_suspend

lemma base_report:
  assumes "same_base a b"
  shows "report a = report b" "patch_observed_status a = patch_observed_status b" "mark_activity a = mark_activity b"
  by (intro ext, simp only: report_def patch_observed_status_def patch_status_if_changed_def mark_activity_def
      same_base_eqs [OF assms])+

lemma base_stages:
  assumes "same_base a b"
  shows "observe a = observe b" "await_restore a = await_restore b"
    "await_network a = await_network b" "inspect_workload a = inspect_workload b"
    "plan_storage a = plan_storage b" "plan_deployment a = plan_deployment b" "await_capacity a = await_capacity b"
    "finish_pass a = finish_pass b"
  by (intro ext, simp only: observe_def await_restore_def await_network_def
      inspect_workload_def use_inspection_def plan_storage_def plan_deployment_def await_capacity_def finish_pass_def
      same_base_eqs [OF assms] base_report [OF assms])+

lemma core_suspending:
  assumes "same_core a b"
  shows "stop_service a = stop_service b" "await_gpu a = await_gpu b"
  by (intro ext, simp only: stop_service_def release_gpu_def await_gpu_def same_core_eqs [OF assms] base_report [OF core_base [OF assms]])+

lemmas core_stages = base_stages [OF core_base] core_suspending

lemma core_reject: "same_core a b \<Longrightarrow> reject_invalid a lib ctx p = reject_invalid b lib ctx p"
  by (simp only: reject_invalid_def same_core_eqs base_report [OF core_base])

lemma core_meter:
  assumes "same_core a b" and "reconcile_gpu_job (ca_jobs a) = reconcile_gpu_job (ca_jobs b)"
  shows "meter_service a = meter_service b"
  by (intro ext) (simp only: meter_service_def same_core_eqs [OF assms(1)] assms(2))

section \<open>Stages in sequence\<close>

lemma estage_cong_at:
  assumes "m w = m' w" and "\<And>x w'. m' w = (Inr (Continue x), w') \<Longrightarrow> f x w' = f' x w'"
  shows "estage m f w = estage m' f' w"
  unfolding estage_def using assms by (intro ebind_cong_at) (auto split: stage.splits)

lemma estage_cong:
  assumes "m = m'" and "\<And>w x w'. m' w = (Inr (Continue x), w') \<Longrightarrow> f x w' = f' x w'"
  shows "estage m f = estage m' f'"
  using assms by (intro ext estage_cong_at) auto

lemma ebind_cong:
  assumes "m = m'" and "\<And>w x w'. m' w = (Inr x, w') \<Longrightarrow> f x w' = f' x w'"
  shows "ebind m f = ebind m' f'"
proof
  fix w
  show "ebind m f w = ebind m' f' w"
    unfolding assms(1) by (rule ebind_cong_at) (auto simp: assms(2))
qed

lemma meter_service_flash: "meter_service api p w = (Inr q, w') \<Longrightarrow> sv_flash q = sv_flash p \<and>
    sv_route q = sv_route p \<and> sv_authentication q = sv_authentication p"
  by (auto simp: meter_service_def Let_def service_pass.defs eret_def elim!: ebind_Inr)

text \<open>Two servers give the same pass when they agree on the core, on routes, on GPU jobs and on the applied plans.\<close>

lemma run_workload_cong:
  assumes "same_core a b"
    and "\<And>plan w inspection w'. inspect_workload b lib ctx p w = (Inr (Continue inspection), w') \<Longrightarrow>
      apply_plan a lib ctx p plan = apply_plan b lib ctx p plan"
  shows "run_workload a lib ctx p = run_workload b lib ctx p"
  unfolding run_workload_def core_stages [OF assms(1)]
  by (intro ext estage_cong_at ebind_cong_at refl) (simp add: assms(2))

lemma reconcile_service_cong:
  assumes "same_core a b"
    and "\<And>w q w'. \<not> fs_stopped (workload (sv_flash p)) \<Longrightarrow> check_service lib ctx (sv_flash p) = Inr () \<Longrightarrow>
      ebind (meter_service a p) (run_workload a lib ctx) = ebind (meter_service b p) (run_workload b lib ctx)"
  shows "reconcile_service a lib ctx p = reconcile_service b lib ctx p"
proof (cases "check_service lib ctx (sv_flash p)")
  case (Inl e)
  then have "reject_invalid b lib ctx p w \<noteq> (Inr (Continue x), w')" for w x w'
    by (auto simp: reject_invalid_def Let_def eret_def elim!: ebind_Inr)
  then show ?thesis
    unfolding reconcile_service_def core_stages [OF assms(1)] core_reject [OF assms(1)]
    by (auto intro!: estage_cong estage_cong_at)
next
  case (Inr u)
  then show ?thesis
    unfolding reconcile_service_def core_stages [OF assms(1)] core_reject [OF assms(1)]
    by (auto intro!: estage_cong estage_cong_at simp: assms(2))
qed

section \<open>An update that fails\<close>

text \<open>
  The calls that change the workload and the objects around it, taken from another server; of the deployment only the
  drain to zero is left. \<open>drain_writes\<close> replaces the drain too: every scaling of the deployment and the deletion of the autoscaler.
\<close>

definition workload_writes :: "('r, 'w) controller_api \<Rightarrow> ('r, 'w) controller_api \<Rightarrow> ('r, 'w) controller_api" where
  "workload_writes other api =
     api\<lparr>ca_scaling := (ca_scaling api)
           \<lparr>sc_deployment_apply := sc_deployment_apply (ca_scaling other),
            sc_replicas_apply := sc_replicas_apply (ca_scaling other),
            sc_deployment_scale := (\<lambda>n r. if r = 0 then sc_deployment_scale (ca_scaling api) n r
              else sc_deployment_scale (ca_scaling other) n r),
            sc_managed_fields := sc_managed_fields (ca_scaling other), sc_hpa_apply := sc_hpa_apply (ca_scaling other)\<rparr>,
         ca_claim_apply := ca_claim_apply other, ca_account_apply := ca_account_apply other,
         ca_account_delete := ca_account_delete other, ca_policy_apply := ca_policy_apply other,
         ca_service_apply := ca_service_apply other, ca_service_delete := ca_service_delete other,
         ca_route_apply := ca_route_apply other, ca_route_delete := ca_route_delete other\<rparr>"

definition drain_writes :: "('r, 'w) controller_api \<Rightarrow> ('r, 'w) controller_api \<Rightarrow> ('r, 'w) controller_api" where
  "drain_writes other api =
     api\<lparr>ca_scaling := (ca_scaling api)
           \<lparr>sc_deployment_scale := sc_deployment_scale (ca_scaling other), sc_hpa_delete := sc_hpa_delete (ca_scaling other)\<rparr>\<rparr>"

lemma workload_writes_core: "same_core (workload_writes other api) api"
  by (simp add: same_core_def same_base_def workload_writes_def fun_eq_iff suspend_deployment_def delete_autoscaler_def
    cong: if_cong option.case_cong)

lemma drain_writes_base: "same_base (drain_writes other (workload_writes other api)) api"
  by (simp add: same_base_def drain_writes_def workload_writes_def)

lemma workload_writes_reads:
  "ca_web (workload_writes other api) = ca_web api" "ca_jobs (workload_writes other api) = ca_jobs api"
  "ca_web (drain_writes other api) = ca_web api" "ca_jobs (drain_writes other api) = ca_jobs api"
  by (simp_all add: workload_writes_def drain_writes_def)

text \<open>The image is refused: there is no earlier inspection, and the registry gives an error that no verified
  inspection of a peer may replace.\<close>

definition image_refused ::
  "('r, 'w) controller_api \<Rightarrow> ('n, 'w) controller_context \<Rightarrow> flash_service \<Rightarrow> bool" where
  "image_refused api ctx flash \<longleftrightarrow>
     (\<exists>budget. disk_budget flash = Inr budget \<and> cached_image_inspection flash budget = None \<and>
       (\<forall>w. \<exists>e w'. ca_timeout api (inspect (ca_oci api) (ctx_image_inspector ctx) (fs_image (workload flash)) budget) w =
         (Some (Inl e), w') \<and> \<not> allows_verified_cache e))"

lemma use_inspection_refused:
  assumes "\<not> allows_verified_cache e"
  shows "use_inspection api lib p peer (Some (Inl e)) w \<noteq> (Inr (Continue inspection), w')"
  using assms by (auto simp: use_inspection_def Let_def eret_def elim!: ebind_Inr)

lemma image_refused_stays:
  assumes "image_refused api ctx (sv_flash p)"
  shows "inspect_workload api lib ctx p w \<noteq> (Inr (Continue inspection), w')"
proof -
  obtain budget where "disk_budget (sv_flash p) = Inr budget" "cached_image_inspection (sv_flash p) budget = None"
      "\<And>w. \<exists>e w'. ca_timeout api (inspect (ca_oci api) (ctx_image_inspector ctx) (fs_image (workload (sv_flash p))) budget) w =
        (Some (Inl e), w') \<and> \<not> allows_verified_cache e"
    using assms by (auto simp: image_refused_def)
  then show ?thesis
    by (auto simp: inspect_workload_def Let_def use_inspection_refused elim!: ebind_Inr split: prod.splits)
       (metis prod.inject use_inspection_refused)
qed

text \<open>
  A service that is neither stopped nor in need of a GPU, with a specification that is invalid, or with a refused image and quotas that are
  not used up, is not even drained.
\<close>

definition keeps_running ::
  "('r, 'w) controller_api \<Rightarrow> ('n::linorder) controller_lib \<Rightarrow> ('n, 'w) controller_context \<Rightarrow> flash_service \<Rightarrow> bool" where
  "keeps_running api lib ctx flash \<longleftrightarrow>
     \<not> fs_stopped (workload flash) \<and> effective_gpu_count (workload flash) = 0 \<and>
     ((\<exists>e. check_service lib ctx flash = Inl e) \<or>
      image_refused api ctx flash \<and>
      (\<forall>now w m w'. meter_weekly_usage (ca_meter api) flash now w = (Inr m, w') \<longrightarrow> exhausted_quota_message m = None))"

lemma undrained_meter:
  assumes "same_base a b" and "ca_jobs a = ca_jobs b"
    and "\<forall>now w m w'. meter_weekly_usage (ca_meter b) (sv_flash p) now w = (Inr m, w') \<longrightarrow> exhausted_quota_message m = None"
  shows "meter_service a p = meter_service b p"
  unfolding meter_service_def same_base_eqs [OF assms(1)] assms(2) Let_def using assms(3)
  by (intro ebind_cong refl ext ebind_cong_at) (auto, metis option.distinct(1))

lemma undrained_workload:
  assumes "same_base a b" and "effective_gpu_count (workload (sv_flash p)) = 0" and "image_refused b ctx (sv_flash p)"
  shows "run_workload a lib ctx p = run_workload b lib ctx p"
proof -
  have "await_gpu a p = await_gpu b p" using assms(2) by (simp add: await_gpu_def)
  then show ?thesis
    unfolding run_workload_def base_stages [OF assms(1)]
    by (intro ext estage_cong_at) (simp_all add: image_refused_stays [OF assms(3)])
qed

lemma undrained_service:
  assumes "same_base a b" and "ca_jobs a = ca_jobs b" and "keeps_running b lib ctx (sv_flash p)"
  shows "reconcile_service a lib ctx p = reconcile_service b lib ctx p"
proof -
  have gpu: "effective_gpu_count (workload (sv_flash p)) = 0" and runs: "\<not> fs_stopped (workload (sv_flash p))"
    using assms(3) by (simp_all add: keeps_running_def)
  have reject: "reject_invalid a lib ctx p = reject_invalid b lib ctx p"
    by (simp add: reject_invalid_def gpu base_report [OF assms(1)] cong: sum.case_cong)
  have rest: "ebind (meter_service a p) (run_workload a lib ctx) = ebind (meter_service b p) (run_workload b lib ctx)"
    if "check_service lib ctx (sv_flash p) = Inr ()"
  proof -
    have "image_refused b ctx (sv_flash p)" and
      "\<forall>now w m w'. meter_weekly_usage (ca_meter b) (sv_flash p) now w = (Inr m, w') \<longrightarrow> exhausted_quota_message m = None"
      using assms(3) that by (auto simp: keeps_running_def)
    then show ?thesis
      using gpu
      by (intro ebind_cong undrained_meter [OF assms(1,2)])
         (auto intro!: undrained_workload [OF assms(1), THEN fun_cong] dest!: meter_service_flash)
  qed
  have stays: "check_service lib ctx (sv_flash p) = Inr ()" if "reject_invalid b lib ctx p w = (Inr (Continue x), w')" for w x w'
    using that by (auto simp: reject_invalid_def Let_def eret_def elim!: ebind_Inr split: sum.splits)
  show ?thesis
    unfolding reconcile_service_def base_stages [OF assms(1)] reject using runs
    by (auto intro!: estage_cong estage_cong_at dest!: stays simp: rest)
qed

text \<open>
  C12. An update that is refused leaves the last revision that worked as it is. For a service that is stopped, whose
  specification is invalid, or whose image is refused, the pass sends no template and no count but zero to the deployment, applies no
  autoscaler, claim, account, network policy, \<open>Service\<close> or route of the plan, and deletes no account, \<open>Service\<close> or route, whatever these
  calls would do. It may drain the service: delete the autoscaler, scale to zero and give the GPU back. An invalid specification, or a refused
  image while the quotas are not used up, drains no service without a GPU that is not stopped: then the pass is also the same whatever the
  calls would do that scale the deployment or delete the autoscaler. The restoration of a disk and the routes of the authentication come
  before this decision and are not concerned.
\<close>

theorem refused_update_keeps_workload:
  assumes "fs_stopped (workload flash) \<or> (\<exists>e. check_service lib ctx flash = Inl e) \<or> image_refused api ctx flash"
  shows "reconcile (workload_writes other api) lib ctx flash = reconcile api lib ctx flash \<and>
    (keeps_running api lib ctx flash \<longrightarrow>
       reconcile (drain_writes other (workload_writes other api)) lib ctx flash = reconcile api lib ctx flash)"
proof (intro conjI impI)
  note core = workload_writes_core [of other api]
  have "reconcile_service (workload_writes other api) lib ctx p = reconcile_service api lib ctx p"
    if "sv_flash p = flash" for p
  proof (rule reconcile_service_cong [OF core])
    assume "\<not> fs_stopped (workload (sv_flash p))" and "check_service lib ctx (sv_flash p) = Inr ()"
    with assms that have refused: "image_refused api ctx flash" by auto
    have "run_workload (workload_writes other api) lib ctx q = run_workload api lib ctx q" if "sv_flash q = flash" for q
      using refused that by (intro run_workload_cong [OF core]) (simp add: image_refused_stays)
    then show "ebind (meter_service (workload_writes other api) p) (run_workload (workload_writes other api) lib ctx) =
        ebind (meter_service api p) (run_workload api lib ctx)"
      using that by (intro ebind_cong) (auto simp: core_meter [OF core] workload_writes_reads dest: meter_service_flash)
  qed
  then show "reconcile (workload_writes other api) lib ctx flash = reconcile api lib ctx flash"
    unfolding reconcile_def core_stages [OF core] workload_writes_reads by simp
next
  assume "keeps_running api lib ctx flash"
  then have "reconcile_service (drain_writes other (workload_writes other api)) lib ctx p = reconcile_service api lib ctx p"
    if "sv_flash p = flash" for p
    using that by (intro undrained_service [OF drain_writes_base]) (simp_all add: workload_writes_reads)
  then show "reconcile (drain_writes other (workload_writes other api)) lib ctx flash = reconcile api lib ctx flash"
    unfolding reconcile_def base_stages [OF drain_writes_base] workload_writes_reads by simp
qed

definition sample_stopped :: flash_service where
  "sample_stopped = sample_flash\<lparr>fsv_spec := (fsv_spec sample_flash)\<lparr>svc_workload := sample_flash_spec\<lparr>fs_stopped := True\<rparr>\<rparr>\<rparr>"

definition sample_invalid :: flash_service where
  "sample_invalid = sample_flash\<lparr>fsv_spec := (fsv_spec sample_flash)\<lparr>svc_workload := sample_flash_spec\<lparr>fs_region := [], fs_gpu_count := 0\<rparr>\<rparr>\<rparr>"

theorem refused_update_keeps_workload_witness:
  "\<forall>(other :: (string, nat) controller_api) api lib (ctx :: (cidr, nat) controller_context).
     reconcile (workload_writes other api) lib ctx sample_stopped = reconcile api lib ctx sample_stopped \<and>
     reconcile (drain_writes other (workload_writes other api)) lib ctx sample_invalid = reconcile api lib ctx sample_invalid"
proof (intro allI conjI)
  fix other api :: "(string, nat) controller_api" and lib and ctx :: "(cidr, nat) controller_context"
  show "reconcile (workload_writes other api) lib ctx sample_stopped = reconcile api lib ctx sample_stopped"
    by (rule refused_update_keeps_workload [THEN conjunct1]) (simp add: sample_stopped_def sample_flash_def sample_flash_spec_def)
  have invalid: "\<exists>e. check_service lib ctx sample_invalid = Inl e"
    by (simp add: check_service_def sample_invalid_def sample_flash_def sample_flash_spec_def validate_flash_spec_def validate_shape_def
        validate_text_def ensure_def)
  then have "keeps_running api lib ctx sample_invalid"
    by (simp add: keeps_running_def sample_invalid_def sample_flash_def sample_flash_spec_def effective_gpu_count_def)
  then show "reconcile (drain_writes other (workload_writes other api)) lib ctx sample_invalid = reconcile api lib ctx sample_invalid"
    using refused_update_keeps_workload [of sample_invalid lib ctx api other] invalid by blast
qed

section \<open>An exhausted quota\<close>

text \<open>
  The calls that start pods or ask for a device: a count that is not zero, a deployment with a count other than the first one, an
  autoscaler, a GPU job. A deployment may be applied with a count only right after the read that did not find it.
\<close>

definition start_writes :: "('r, 'w) controller_api \<Rightarrow> ('r, 'w) controller_api \<Rightarrow> ('r, 'w) controller_api" where
  "start_writes other api =
     api\<lparr>ca_scaling := (ca_scaling api)
           \<lparr>sc_replicas_apply := (\<lambda>n rv r. if r = 0 then sc_replicas_apply (ca_scaling api) n rv r
              else sc_replicas_apply (ca_scaling other) n rv r),
            sc_deployment_scale := (\<lambda>n r. if r = 0 then sc_deployment_scale (ca_scaling api) n r
              else sc_deployment_scale (ca_scaling other) n r),
            sc_deployment_apply := (\<lambda>n d w.
              if live_replicas d = None \<or> (\<exists>w0. sc_deployment_get_opt (ca_scaling api) n w0 = (Inr None, w))
              then sc_deployment_apply (ca_scaling api) n d w else sc_deployment_apply (ca_scaling other) n d w),
            sc_hpa_apply := sc_hpa_apply (ca_scaling other)\<rparr>,
         ca_jobs := (ca_jobs api)\<lparr>api_gpu_job_apply := api_gpu_job_apply (ca_jobs other)\<rparr>\<rparr>"

lemma start_writes_core: "same_core (start_writes other api) api"
  by (simp add: same_core_def same_base_def start_writes_def fun_eq_iff suspend_deployment_def delete_autoscaler_def
    cong: if_cong option.case_cong)

lemma start_writes_reads:
  "ca_web (start_writes other api) = ca_web api" "ca_nodes_list (start_writes other api) = ca_nodes_list api"
  "ca_claim_apply (start_writes other api) = ca_claim_apply api"
  "ca_account_apply (start_writes other api) = ca_account_apply api"
  "ca_account_delete (start_writes other api) = ca_account_delete api"
  "ca_policy_apply (start_writes other api) = ca_policy_apply api"
  "ca_service_annotations (start_writes other api) = ca_service_annotations api"
  "ca_service_apply (start_writes other api) = ca_service_apply api"
  "ca_service_delete (start_writes other api) = ca_service_delete api"
  "ca_route_get_opt (start_writes other api) = ca_route_get_opt api"
  "ca_route_delete (start_writes other api) = ca_route_delete api"
  "ca_route_apply (start_writes other api) = ca_route_apply api"
  by (simp_all add: start_writes_def)

lemma start_writes_scaling:
  "sc_hpa_get_opt (ca_scaling (start_writes other api)) = sc_hpa_get_opt (ca_scaling api)"
  "sc_hpa_delete (ca_scaling (start_writes other api)) = sc_hpa_delete (ca_scaling api)"
  "sc_deployment_get_opt (ca_scaling (start_writes other api)) = sc_deployment_get_opt (ca_scaling api)"
  "live_replicas d = None \<Longrightarrow> sc_deployment_apply (ca_scaling (start_writes other api)) n d = sc_deployment_apply (ca_scaling api) n d"
  "sc_deployment_get_opt (ca_scaling api) n w0 = (Inr None, w) \<Longrightarrow>
     sc_deployment_apply (ca_scaling (start_writes other api)) n d w = sc_deployment_apply (ca_scaling api) n d w"
  "sc_deployment_dry_run (ca_scaling (start_writes other api)) = sc_deployment_dry_run (ca_scaling api)"
  "sc_managed_fields (ca_scaling (start_writes other api)) = sc_managed_fields (ca_scaling api)"
  "sc_replicas_apply (ca_scaling (start_writes other api)) n rv 0 = sc_replicas_apply (ca_scaling api) n rv 0"
  by (auto simp: start_writes_def)

lemma preserve_keeps_replicas:
  assumes "preserve_unchanged_pod_generation api current desired w = (Inr d, w')"
  shows "live_replicas d = live_replicas desired"
proof -
  have "live_replicas (with_generation g d) = live_replicas d" "live_replicas (mark_observed r d) = live_replicas d" for g r d
    by (cases "ld_spec d"; simp add: live_replicas_def with_generation_def map_template_def mark_observed_def)+
  then show ?thesis
    using assms
    by (auto simp: preserve_unchanged_pod_generation_def Let_def eret_def elim!: ebind_Inr split: option.splits if_splits)
qed

lemma without_replicas_none: "live_replicas ((without_replicas d)\<lparr>ld_resource_version := v\<rparr>) = None"
  by (cases "ld_spec d") (simp_all add: live_replicas_def without_replicas_def)

lemma suspended_scaling:
  "reconcile_scaling (ca_scaling (start_writes other api)) uuids flash owner desired True =
   reconcile_scaling (ca_scaling api) uuids flash owner desired True"
proof -
  have d: "delete_autoscaler (ca_scaling (start_writes other api)) = delete_autoscaler (ca_scaling api)"
    "preserve_unchanged_pod_generation (ca_scaling (start_writes other api)) = preserve_unchanged_pod_generation (ca_scaling api)"
    "migrate_fields (ca_scaling (start_writes other api)) = migrate_fields (ca_scaling api)"
    by (intro ext, simp only: delete_autoscaler_def preserve_unchanged_pod_generation_def migrate_fields_def start_writes_scaling)+
  have s: "share_replicas (ca_scaling (start_writes other api)) flash has_hpa True =
      share_replicas (ca_scaling api) flash has_hpa True" for has_hpa
    by (intro ext) (simp add: share_replicas_def start_writes_scaling)
  have hpa: "desired_autoscaler uuids flash owner True = None" by (simp add: desired_autoscaler_def)
  have first: "ekube (sc_deployment_apply (ca_scaling (start_writes other api)) n d) w =
      ekube (sc_deployment_apply (ca_scaling api) n d) w"
    if "ekube (sc_deployment_get_opt (ca_scaling api) n) w0 = (Inr None, w)" for n d w0 w
    using that start_writes_scaling(5) [of api n w0 w]
    by (auto simp: ekube_def ematch_def eret_def efail_def split: prod.splits sum.splits)
  have later: "ekube (sc_deployment_apply (ca_scaling (start_writes other api)) n d) = ekube (sc_deployment_apply (ca_scaling api) n d)"
    if "preserve_unchanged_pod_generation api' current ((without_replicas desired)\<lparr>ld_resource_version := v\<rparr>) w = (Inr d, w')"
    for n d api' current v w w'
    using preserve_keeps_replicas [OF that] by (simp add: without_replicas_none start_writes_scaling(4))
  show ?thesis
    unfolding reconcile_scaling_def Let_def hpa d s start_writes_scaling
    by (intro ext) (auto intro!: ebind_cong_at first [where d = desired] simp: later split: option.splits)
qed

lemma suspended_plan:
  assumes "mt_suspended p"
  shows "apply_plan (start_writes other api) lib ctx p plan = apply_plan api lib ctx p plan"
proof -
  have "delete_http_route (start_writes other api) = delete_http_route api"
    "forwarded_networks (start_writes other api) lib = forwarded_networks api lib"
    "apply_claim (start_writes other api) plan = apply_claim api plan"
    "apply_account (start_writes other api) lib p = apply_account api lib p"
    "apply_service (start_writes other api) = apply_service api" "apply_route (start_writes other api) p = apply_route api p"
    by ((intro ext)?, simp only: delete_http_route_def forwarded_networks_def assigned_forwarder_networks_def apply_claim_def
        apply_account_def apply_service_def apply_route_def start_writes_reads)+
  then show ?thesis
    using assms by (simp only: apply_plan_def suspended_scaling start_writes_reads)
qed

lemma suspended_job:
  "suspended \<Longrightarrow> reconcile_gpu_job (ca_jobs (start_writes other api)) flash owner now quota suspended =
   reconcile_gpu_job (ca_jobs api) flash owner now quota suspended"
  by (simp add: reconcile_gpu_job_def start_writes_def)

lemma meter_service_exhausted:
  assumes "\<forall>now w m w'. meter_weekly_usage (ca_meter api) (sv_flash p) now w = (Inr m, w') \<longrightarrow> exhausted_quota_message m \<noteq> None"
  shows "meter_service (start_writes other api) p = meter_service api p"
    and "meter_service api p w = (Inr q, w') \<Longrightarrow> mt_suspended q \<and> mt_quota_message q \<noteq> None \<and>
      (\<exists>w1 w2. suspend_deployment (ca_scaling api) (flash_name (sv_flash p)) w1 = (Inr (), w2))"
proof -
  show "meter_service (start_writes other api) p = meter_service api p"
    unfolding meter_service_def same_core_eqs [OF start_writes_core] Let_def using assms
    by (intro ebind_cong refl ext ebind_cong_at) (auto intro!: suspended_job [THEN fun_cong])
  show "meter_service api p w = (Inr q, w') \<Longrightarrow> mt_suspended q \<and> mt_quota_message q \<noteq> None \<and>
      (\<exists>w1 w2. suspend_deployment (ca_scaling api) (flash_name (sv_flash p)) w1 = (Inr (), w2))"
    using assms by (auto simp: meter_service_def Let_def service_pass.defs eret_def elim!: ebind_Inr split: if_splits) (metis option.distinct(1) | blast)+
qed

text \<open>
  C9. An exhausted quota stops a service and keeps it stopped: while every measurement says that a quota is
  used up, the pass asks for no device, applies no autoscaler, scales to no count but zero, hands over no count but zero and applies the
  deployment without a count, whatever these calls would
  do otherwise; and it goes past the measurement only after the deployment has been suspended. One count escapes this: a deployment that
  the read just before does not find is created with the requested count, and scaled to zero by the next call only.
\<close>

theorem exhausted_quota_starts_nothing:
  assumes "\<forall>now w m w'. meter_weekly_usage (ca_meter api) flash now w = (Inr m, w') \<longrightarrow> exhausted_quota_message m \<noteq> None"
  shows "reconcile (start_writes other api) lib ctx flash = reconcile api lib ctx flash \<and>
    (\<forall>p w q w'. sv_flash p = flash \<and> meter_service api p w = (Inr q, w') \<longrightarrow>
      (\<exists>w1 w2. suspend_deployment (ca_scaling api) (flash_name flash) w1 = (Inr (), w2))) \<and>
    (\<forall>uuids owner img rootfs options d w w1 w2 e w3.
      desired_deployment uuids flash owner img rootfs options = Inr d \<and>
      delete_autoscaler (ca_scaling api) (flash_name flash) w = (Inr True, w1) \<and>
      sc_deployment_get_opt (ca_scaling api) (flash_name flash) w1 = (Inr None, w2) \<and>
      sc_deployment_apply (ca_scaling api) (flash_name flash) d w2 = (Inl e, w3) \<longrightarrow>
      live_replicas d = Some (int (fs_replicas (workload flash))) \<and>
      reconcile_scaling (ca_scaling api) uuids flash owner d True w = (Inl (Kubernetes e), w3))"
proof (intro conjI allI impI)
  note core = start_writes_core [of other api]
  have "reconcile_service (start_writes other api) lib ctx p = reconcile_service api lib ctx p"
    if "sv_flash p = flash" for p
  proof (rule reconcile_service_cong [OF core])
    have ex: "\<forall>now w m w'. meter_weekly_usage (ca_meter api) (sv_flash p) now w = (Inr m, w') \<longrightarrow> exhausted_quota_message m \<noteq> None"
      using assms that by simp
    have "run_workload (start_writes other api) lib ctx q = run_workload api lib ctx q" if "mt_suspended q" for q
      using that by (intro run_workload_cong [OF core]) (simp add: suspended_plan)
    then show "ebind (meter_service (start_writes other api) p) (run_workload (start_writes other api) lib ctx) =
        ebind (meter_service api p) (run_workload api lib ctx)"
      by (intro ebind_cong) (auto simp: meter_service_exhausted(1) [OF ex] dest: meter_service_exhausted(2) [OF ex])
  qed
  then show "reconcile (start_writes other api) lib ctx flash = reconcile api lib ctx flash"
    unfolding reconcile_def core_stages [OF core] start_writes_reads by simp
next
  fix p w q w'
  assume "sv_flash p = flash \<and> meter_service api p w = (Inr q, w')"
  then show "\<exists>w1 w2. suspend_deployment (ca_scaling api) (flash_name flash) w1 = (Inr (), w2)"
    using meter_service_exhausted(2) [of api p w q w'] assms by auto
next
  fix uuids owner img rootfs options d w w1 w2 e w3
  assume h: "desired_deployment uuids flash owner img rootfs options = Inr d \<and>
      delete_autoscaler (ca_scaling api) (flash_name flash) w = (Inr True, w1) \<and>
      sc_deployment_get_opt (ca_scaling api) (flash_name flash) w1 = (Inr None, w2) \<and>
      sc_deployment_apply (ca_scaling api) (flash_name flash) d w2 = (Inl e, w3)"
  then have "desired_deployment uuids flash owner img rootfs options = Inr d" by simp
  then show "live_replicas d = Some (int (fs_replicas (workload flash)))"
    by (rule desired_deployment_shape) (simp add: deployment_of_def live_replicas_def)
  from h show "reconcile_scaling (ca_scaling api) uuids flash owner d True w = (Inl (Kubernetes e), w3)"
    by (simp add: reconcile_scaling_def Let_def desired_autoscaler_def ebind_apply ekube_def ematch_def eret_def efail_def)
qed

definition sample_unpaid :: flash_service where
  "sample_unpaid = sample_flash\<lparr>fsv_spec := (fsv_spec sample_flash)
     \<lparr>svc_policy := default_flash_service_policy\<lparr>pol_cpu_millicore_seconds := 0\<rparr>\<rparr>\<rparr>"

theorem exhausted_quota_starts_nothing_witness:
  "\<forall>(other :: (string, usage_mem) controller_api) api lib (ctx :: (cidr, usage_mem) controller_context).
     reconcile (start_writes other (api\<lparr>ca_meter := usage_mem_api\<rparr>)) lib ctx sample_unpaid =
     reconcile (api\<lparr>ca_meter := usage_mem_api\<rparr>) lib ctx sample_unpaid"
proof (intro allI exhausted_quota_starts_nothing [THEN conjunct1] impI)
  fix api :: "(string, usage_mem) controller_api" and now w m w'
  assume "meter_weekly_usage (ca_meter (api\<lparr>ca_meter := usage_mem_api\<rparr>)) sample_unpaid now w = (Inr m, w')"
  then have "wm_cpu_exhausted m"
    by (auto simp: meter_weekly_usage_def Let_def weekly_meter_of_def sample_unpaid_def sample_flash_def eret_def elim!: ebind_Inr)
  then show "exhausted_quota_message m \<noteq> None" by (simp add: exhausted_quota_message_def Let_def)
qed

section \<open>Authentication\<close>

text \<open>The calls that let requests through: a route of a domain, and a route whose backend is not the blocking one.\<close>

definition open_routes :: "('r, 'w) controller_api \<Rightarrow> ('r, 'w) controller_api \<Rightarrow> ('r, 'w) controller_api" where
  "open_routes other api =
     api\<lparr>ca_web := only_blocked ((ca_web api)\<lparr>wa_domain_route_apply := wa_domain_route_apply (ca_web other)\<rparr>) (wa_route_apply (ca_web other)),
         ca_route_apply := (\<lambda>n r. if is_blocked r then ca_route_apply api n r else ca_route_apply other n r)\<rparr>"

lemma open_routes_core: "same_core (open_routes other api) api"
  by (simp add: same_core_def same_base_def open_routes_def)

lemma open_routes_reads:
  "ca_jobs (open_routes other api) = ca_jobs api" "ca_scaling (open_routes other api) = ca_scaling api"
  "ca_nodes_list (open_routes other api) = ca_nodes_list api"
  "ca_claim_apply (open_routes other api) = ca_claim_apply api"
  "ca_account_apply (open_routes other api) = ca_account_apply api"
  "ca_account_delete (open_routes other api) = ca_account_delete api"
  "ca_policy_apply (open_routes other api) = ca_policy_apply api"
  "ca_service_annotations (open_routes other api) = ca_service_annotations api"
  "ca_service_apply (open_routes other api) = ca_service_apply api"
  "ca_service_delete (open_routes other api) = ca_service_delete api"
  "ca_route_get_opt (open_routes other api) = ca_route_get_opt api"
  "ca_route_delete (open_routes other api) = ca_route_delete api"
  by (simp_all add: open_routes_def)

lemma unauthenticated_route:
  "\<not> pa_ready (sv_authentication p) \<Longrightarrow> apply_route (open_routes other api) p = apply_route api p"
  by (auto simp: apply_route_def open_routes_def is_blocked_def blocked_route_def split: option.splits)

lemma unauthenticated_plan:
  assumes "\<not> pa_ready (sv_authentication p)"
  shows "apply_plan (open_routes other api) lib ctx p plan = apply_plan api lib ctx p plan"
proof -
  have "delete_http_route (open_routes other api) = delete_http_route api"
    "forwarded_networks (open_routes other api) lib = forwarded_networks api lib"
    "apply_claim (open_routes other api) plan = apply_claim api plan"
    "apply_account (open_routes other api) lib p = apply_account api lib p"
    "apply_service (open_routes other api) = apply_service api"
    by ((intro ext)?, simp only: delete_http_route_def forwarded_networks_def assigned_forwarder_networks_def apply_claim_def
        apply_account_def apply_service_def open_routes_reads)+
  then show ?thesis
    by (simp only: apply_plan_def open_routes_reads unauthenticated_route [OF assms])
qed

lemma unauthenticated_service:
  assumes "\<not> pa_ready (sv_authentication p)"
  shows "reconcile_service (open_routes other api) lib ctx p = reconcile_service api lib ctx p"
proof (rule reconcile_service_cong [OF open_routes_core])
  have "run_workload (open_routes other api) lib ctx q = run_workload api lib ctx q"
    if "sv_authentication q = sv_authentication p" for q
    using that assms by (intro run_workload_cong [OF open_routes_core]) (simp add: unauthenticated_plan)
  then show "ebind (meter_service (open_routes other api) p) (run_workload (open_routes other api) lib ctx) =
      ebind (meter_service api p) (run_workload api lib ctx)"
    by (intro ebind_cong)
       (auto simp: core_meter [OF open_routes_core] open_routes_reads dest: meter_service_flash)
qed

lemma open_routes_web:
  assumes "ex_authentication (fs_exposure (workload flash)) \<noteq> None"
    and "\<forall>n desired w applied w'. wa_policy_apply (ca_web api) n desired w = (Inr applied, w') \<longrightarrow> \<not> policy_is_ready applied"
  shows "reconcile_routes (ca_web (open_routes other api)) lib flash owner base = reconcile_routes (ca_web api) lib flash owner base"
    and "prepare (ca_web (open_routes other api)) lib flash owner hostname base = prepare (ca_web api) lib flash owner hostname base"
proof -
  let ?closed = "(ca_web api)\<lparr>wa_domain_route_apply := wa_domain_route_apply (ca_web other)\<rparr>"
  have web: "ca_web (open_routes other api) = only_blocked ?closed (wa_route_apply (ca_web other))"
    by (simp add: open_routes_def)
  have "reconcile_routes (only_blocked ?closed g) lib flash owner base = reconcile_routes ?closed lib flash owner base" for g
    by (rule blocked_routes)
  moreover have "reconcile_routes ?closed lib flash owner base = reconcile_routes (ca_web api) lib flash owner base"
    by (rule reconcile_routes_cong) (rule publish_domain_refused [OF assms], simp_all only: web_calls)
  ultimately show "reconcile_routes (ca_web (open_routes other api)) lib flash owner base =
      reconcile_routes (ca_web api) lib flash owner base"
    unfolding web by simp
  show "prepare (ca_web (open_routes other api)) lib flash owner hostname base = prepare (ca_web api) lib flash owner hostname base"
    unfolding web prepare_blocked prepare_calls ..
qed

text \<open>
  C7. With authentication configured, a pass lets nobody through before the policy is in force: while the gateway
  has not accepted the policy, the whole pass is the same run whatever the calls would do that apply a route
  of a domain, or a route of the service that is not blocked; so it makes none of these calls.
\<close>

theorem unaccepted_policy_blocks_service:
  assumes "ex_authentication (fs_exposure (workload flash)) \<noteq> None"
    and "\<forall>n desired w applied w'. wa_policy_apply (ca_web api) n desired w = (Inr applied, w') \<longrightarrow> \<not> policy_is_ready applied"
  shows "reconcile (open_routes other api) lib ctx flash = reconcile api lib ctx flash"
proof -
  note web = open_routes_web [OF assms, of other]
  have pending: "\<not> pa_ready a" if "prepare (ca_web api) weblib flash owner hostname route w = (Inr a, w')"
    for weblib owner hostname route w a w'
    using prepare_ready [OF that _ assms(1)] assms(2) by blast
  have "ebind (emap_err err (prepare (ca_web api) weblib flash owner hostname route)) (\<lambda>authentication.
      reconcile_service (open_routes other api) lib ctx
        \<lparr>sv_flash = flash, sv_allocation = allocation, sv_owner = owner, sv_hostname = hostname,
         sv_route = route, sv_authentication = authentication\<rparr>) =
    ebind (emap_err err (prepare (ca_web api) weblib flash owner hostname route)) (\<lambda>authentication.
      reconcile_service api lib ctx
        \<lparr>sv_flash = flash, sv_allocation = allocation, sv_owner = owner, sv_hostname = hostname,
         sv_route = route, sv_authentication = authentication\<rparr>)" for err weblib owner hostname route allocation
    by (rule ebind_cong) (auto simp: unauthenticated_service dest: pending)
  then show ?thesis
    unfolding reconcile_def core_stages [OF open_routes_core] web by simp
qed

theorem unaccepted_policy_blocks_service_witness:
  "\<forall>(other :: (string, unit) controller_api) api lib (ctx :: (cidr, unit) controller_context).
     reconcile (open_routes other (api\<lparr>ca_web := sample_web_api\<lparr>wa_policy_apply := (\<lambda>_ _. eret sample_policy)\<rparr>\<rparr>)) lib ctx oidc_flash =
     reconcile (api\<lparr>ca_web := sample_web_api\<lparr>wa_policy_apply := (\<lambda>_ _. eret sample_policy)\<rparr>\<rparr>) lib ctx oidc_flash"
  by (intro allI unaccepted_policy_blocks_service)
     (auto simp: oidc_flash_def sample_policy_def desired_policy_def policy_is_ready_def)

end
