(* ===== verification/Provider_Api.thy ===== *)
theory Provider_Api
  imports Backups Web_Auth Status_Patch Gpu_Inventory
begin

text \<open>
  The provider API (\<open>bin/flash-api.rs\<close>): errors, scopes and the commands that create, change, remove and
  read a service. A handler takes the identifiers of its path, the typed query or body and the
  authorization header, as the web framework extracts them; its result is an \<open>ApiError\<close>, or a status code with the typed
  answer. The calls of the API server, the clock, the flag of a shutdown, the environment and the files are the fields of
  \<open>provider_api\<close>; the libraries, the reader of a specification and the texts of foreign errors are those of \<open>api_lib\<close>.
\<close>

definition PROVIDER_RECONCILE_ACTION :: string where "PROVIDER_RECONCILE_ACTION = ''service-instance.reconcile''"
definition PROVIDER_DELETE_ACTION :: string where "PROVIDER_DELETE_ACTION = ''service-instance.delete''"
definition PROVIDER_LIST_CONTAINERS_ACTION :: string where "PROVIDER_LIST_CONTAINERS_ACTION = ''flash.containers.list''"
definition PROVIDER_GET_LOGS_ACTION :: string where "PROVIDER_GET_LOGS_ACTION = ''flash.logs.get''"
definition PROVIDER_EXEC_ACTION :: string where "PROVIDER_EXEC_ACTION = ''flash.exec''"
definition PROVIDER_STATUS_GET_ACTION :: string where "PROVIDER_STATUS_GET_ACTION = ''flash.status.get''"
definition PROVIDER_USAGE_LIST_ACTION :: string where "PROVIDER_USAGE_LIST_ACTION = ''flash.usage.list''"
definition PROVIDER_GPU_TYPES_LIST_ACTION :: string where "PROVIDER_GPU_TYPES_LIST_ACTION = ''flash.gpu-types.list''"
definition PROVIDER_GPU_CATALOG_LIST_ACTION :: string where "PROVIDER_GPU_CATALOG_LIST_ACTION = ''flash.gpus.catalog.list''"
definition PROVIDER_GPU_ACCESS_UPDATE_ACTION :: string where
  "PROVIDER_GPU_ACCESS_UPDATE_ACTION = ''flash.gpus.access.update''"
definition SECRET_ACTION :: string where "SECRET_ACTION = ''flash.load-balancer.secret.write''"

section \<open>Errors\<close>

datatype api_error =
    Draining | NotFound | BadRequest string | NotReady | Conflict string | Forbidden | TooManyExecSessions | Internal
  | Auth auth_error | Kubernetes_Error kube_error

record error_answer =
  ea_status :: u16
  ea_code :: string
  ea_message :: string
  ea_retry_after :: "string option"

record ('k, 'n) api_lib =
  al_auth :: "'k auth_lib"
  al_nets :: "'n ipnet_ops"
  al_url_parse :: "string \<Rightarrow> parsed_url option"
  al_uuids :: uuid_ops
  al_new_v5_url :: "string \<Rightarrow> uuid"
  al_backups :: backup_env
  al_destinations :: "'n dest_lib"
  al_web :: web_lib
  al_spec_of_json :: "json \<Rightarrow> flash_spec option"
  al_validation_text :: "validation_error \<Rightarrow> string"
  al_auth_text :: "auth_error \<Rightarrow> string"
  al_kube_text :: "kube_error \<Rightarrow> string"

definition error_message :: "('k, 'n) api_lib \<Rightarrow> api_error \<Rightarrow> string" where
  "error_message lib e =
     (case e of
        Draining \<Rightarrow> ''server is draining existing sessions''
      | NotFound \<Rightarrow> ''service instance was not found''
      | BadRequest m \<Rightarrow> m
      | NotReady \<Rightarrow> ''provider is still reconciling the resource''
      | Conflict m \<Rightarrow> m
      | Forbidden \<Rightarrow> ''provider command is forbidden''
      | TooManyExecSessions \<Rightarrow> ''too many active exec sessions''
      | Internal \<Rightarrow> ''internal provider error''
      | Auth a \<Rightarrow> al_auth_text lib a
      | Kubernetes_Error k \<Rightarrow> al_kube_text lib k)"

definition error_status :: "api_error \<Rightarrow> u16 \<times> string" where
  "error_status e =
     (case e of
        Draining \<Rightarrow> (503, ''server_draining'')
      | NotFound \<Rightarrow> (404, ''not_found'')
      | BadRequest _ \<Rightarrow> (400, ''invalid_request'')
      | NotReady \<Rightarrow> (503, ''operation_in_progress'')
      | Conflict _ \<Rightarrow> (409, ''generation_conflict'')
      | Forbidden \<Rightarrow> (403, ''forbidden'')
      | TooManyExecSessions \<Rightarrow> (429, ''exec_limit_reached'')
      | Auth MissingCredentials \<Rightarrow> (401, ''missing_credentials'')
      | Auth _ \<Rightarrow> (401, ''invalid_credentials'')
      | Internal \<Rightarrow> (500, ''internal_error'')
      | Kubernetes_Error _ \<Rightarrow> (500, ''internal_error''))"

definition into_response :: "('k, 'n) api_lib \<Rightarrow> api_error \<Rightarrow> error_answer" where
  "into_response lib e =
     (case error_status e of
        (status, code) \<Rightarrow>
          \<lparr>ea_status = status, ea_code = code, ea_message = error_message lib e,
           ea_retry_after = (if status = 503 then Some ''2'' else None)\<rparr>)"

section \<open>State and calls\<close>

text \<open>
  The configuration of the process. \<open>fa_service_apply\<close> is the forced server-side apply, \<open>fa_service_merge\<close> a merge
  patch. A secret is applied with its name, labels, value and owner. \<open>fa_log_stream\<close> opens a log and reads it to its end within
  ten seconds: it gives nothing when the time is over, and no bytes when reading fails. The two calls
  after it take and give back a permit of the semaphore of sessions.
\<close>

record log_params =
  lp_container :: "string option"
  lp_limit_bytes :: "nat option"
  lp_tail_lines :: "nat option"
  lp_previous :: bool
  lp_timestamps :: bool

record 'k api_state =
  as_authenticator :: "'k provider_authenticator"
  as_public_domain :: "string option"
  as_backup_snapshot_class :: string

record 'w provider_api =
  fa_now :: "'w \<Rightarrow> i64"
  fa_draining :: "'w \<Rightarrow> bool"
  fa_env :: "string \<Rightarrow> 'w \<Rightarrow> string option"
  fa_file :: "string \<Rightarrow> 'w \<Rightarrow> string option"
  fa_service_get :: "string \<Rightarrow> ('w, kube_error, flash_service) effect"
  fa_service_get_opt :: "string \<Rightarrow> ('w, kube_error, flash_service option) effect"
  fa_service_apply :: "string \<Rightarrow> flash_service \<Rightarrow> ('w, kube_error, flash_service) effect"
  fa_service_merge :: "string \<Rightarrow> json \<Rightarrow> ('w, kube_error, flash_service) effect"
  fa_service_delete :: "string \<Rightarrow> ('w, kube_error, unit) effect"
  fa_services_list :: "('w, kube_error, flash_service list) effect"
  fa_services_probe :: "('w, kube_error, unit) effect"
  fa_records_list :: "('w, kube_error, flash_usage_record list) effect"
  fa_devices_list :: "('w, kube_error, flash_gpu_device list) effect"
  fa_device_get_opt :: "string \<Rightarrow> ('w, kube_error, flash_gpu_device option) effect"
  fa_device_apply :: "string \<Rightarrow> json \<Rightarrow> ('w, kube_error, flash_gpu_device) effect"
  fa_pod_get :: "string \<Rightarrow> ('w, kube_error, pod) effect"
  fa_pods_list :: "string \<Rightarrow> ('w, kube_error, pod list) effect"
  fa_log_stream :: "string \<Rightarrow> log_params \<Rightarrow> 'w \<Rightarrow> (kube_error + string option) option \<times> 'w"
  fa_try_acquire :: "'w \<Rightarrow> bool \<times> 'w"
  fa_release :: "'w \<Rightarrow> 'w"
  fa_secret_get_opt :: "string \<Rightarrow> ('w, kube_error, web_secret option) effect"
  fa_secret_apply ::
    "string \<Rightarrow> (string, string) btree_map \<Rightarrow> string \<Rightarrow> object_owner option \<Rightarrow> ('w, kube_error, unit) effect"
  fa_secret_delete :: "string \<Rightarrow> ('w, kube_error, unit) effect"
  fa_domain_get_opt :: "string \<Rightarrow> ('w, kube_error, flash_domain option) effect"
  fa_domain_create :: "flash_domain \<Rightarrow> (string, string) btree_map \<Rightarrow> ('w, kube_error, unit) effect"
  fa_domain_delete :: "string \<Rightarrow> ('w, kube_error, unit) effect"
  fa_backups :: "'w backup_api"
  fa_destinations :: "string \<Rightarrow> 'w dest_api"
  fa_web :: "'w web_api"

abbreviation eapi :: "('w, kube_error, 'a) effect \<Rightarrow> ('w, api_error, 'a) effect" where
  "eapi \<equiv> emap_err Kubernetes_Error"

definition reject_draining :: "'w provider_api \<Rightarrow> ('w, api_error, unit) effect" where
  "reject_draining api = ebind (eread (fa_draining api)) (\<lambda>draining. if draining then efail Draining else eret ())"

definition authorize ::
  "'w provider_api \<Rightarrow> ('k, 'n) api_lib \<Rightarrow> 'k api_state \<Rightarrow> string option \<Rightarrow> string \<Rightarrow>
   ('w, api_error, provider_claims) effect" where
  "authorize api lib st authorization action =
     ebind (eread (fa_now api)) (\<lambda>now.
     etry (map_err Auth (authenticate (al_auth lib) (as_authenticator st) now authorization action)))"

definition ready :: "'w provider_api \<Rightarrow> ('w, api_error, u16) effect" where
  "ready api = ebind (reject_draining api) (\<lambda>_. ebind (eapi (fa_services_probe api)) (\<lambda>_. eret 200))"

section \<open>Scopes\<close>

definition validate_command :: "provider_claims \<Rightarrow> uuid \<Rightarrow> i64 \<Rightarrow> api_error + unit" where
  "validate_command claims service_instance_id generation =
     ensure (\<not> (tk_service_instance_id claims \<noteq> service_instance_id \<or> tk_generation claims \<noteq> generation)) Forbidden"

definition validate_display_name :: "string \<Rightarrow> api_error + unit" where
  "validate_display_name v =
     ensure (\<not> (\<not> is_trimmed v \<or> v = [] \<or> 120 < length v))
       (BadRequest ''name must contain between 1 and 120 trimmed characters'')"

definition validate_resource_identity ::
  "uuid_ops \<Rightarrow> flash_service \<Rightarrow> provider_claims \<Rightarrow> uuid \<Rightarrow> api_error + unit" where
  "validate_resource_identity uuids resource claims service_instance_id =
     ensure (\<not> (svc_service_instance_id (fsv_spec resource) \<noteq> uuid_show uuids service_instance_id \<or>
                 svc_organization_id (fsv_spec resource) \<noteq> uuid_show uuids (tk_organization_id claims) \<or>
                 svc_project_id (fsv_spec resource) \<noteq> uuid_show uuids (tk_project_id claims) \<or>
                 meta_deletion_timestamp (fsv_meta resource) \<noteq> None)) Forbidden"

definition validate_resource_access ::
  "uuid_ops \<Rightarrow> flash_service \<Rightarrow> provider_claims \<Rightarrow> uuid \<Rightarrow> i64 \<Rightarrow> api_error + unit" where
  "validate_resource_access uuids resource claims service_instance_id generation =
     bindR (validate_resource_identity uuids resource claims service_instance_id) (\<lambda>_.
     ensure (svc_desired_generation (fsv_spec resource) = generation) Forbidden)"

definition service_resource_name :: "uuid_ops \<Rightarrow> uuid \<Rightarrow> string" where
  "service_resource_name uuids service_instance_id = ''flash-'' @ uuid_show uuids service_instance_id"

definition validate_resource_scope ::
  "'w provider_api \<Rightarrow> uuid_ops \<Rightarrow> provider_claims \<Rightarrow> uuid \<Rightarrow> i64 \<Rightarrow> ('w, api_error, unit) effect" where
  "validate_resource_scope api uuids claims service_instance_id generation =
     ebind (eapi (fa_service_get api (service_resource_name uuids service_instance_id))) (\<lambda>resource.
     etry (validate_resource_access uuids resource claims service_instance_id generation))"

definition validate_admin_claims :: "provider_claims \<Rightarrow> api_error + unit" where
  "validate_admin_claims claims =
     ensure (\<not> (tk_subject claims \<noteq> 0 \<or> tk_user_id claims \<noteq> None \<or> tk_organization_id claims \<noteq> 0 \<or>
                 tk_project_id claims \<noteq> 0 \<or> tk_service_instance_id claims \<noteq> 0 \<or> tk_generation claims \<noteq> 1)) Forbidden"

section \<open>The specification of a command\<close>

record reconcile_request =
  rr_generation :: i64
  rr_name :: string
  rr_spec :: json
  rr_policy :: flash_service_policy
  rr_quota_user_id :: "uuid option"
  rr_quota_only :: bool

definition add_account :: "uuid_ops \<Rightarrow> string \<Rightarrow> uuid list \<Rightarrow> api_error + uuid list" where
  "add_account uuids raw ids =
     bindR (ok_or (uuid_parse uuids raw) (BadRequest ''invalid cloud organization account'')) (\<lambda>account.
     bindR (ensure (\<not> (uuid_show uuids account \<noteq> raw \<or> account \<in> set ids))
              (BadRequest ''invalid cloud organization account'')) (\<lambda>_.
     Inr (account # ids)))"

definition validate_cloud_organization_policy ::
  "uuid_ops \<Rightarrow> flash_service_policy \<Rightarrow> uuid \<Rightarrow> api_error + unit" where
  "validate_cloud_organization_policy uuids policy account =
     (case pol_cloud_organization policy of
        None \<Rightarrow> Inr ()
      | Some cloud \<Rightarrow>
          bindR (ensure (\<not> (cl_account_ids cloud = [] \<or> 10000 < length (cl_account_ids cloud) \<or>
                             MAX_WEEKLY_CPU_MILLICORE_SECONDS < cl_cpu_millicore_seconds cloud \<or>
                             MAX_WEEKLY_MEMORY_MIB_SECONDS < cl_memory_mib_seconds cloud \<or>
                             MAX_WEEKLY_GPU_SECONDS < cl_gpu_seconds cloud))
                   (BadRequest ''invalid cloud organization weekly quota'')) (\<lambda>_.
          bindR (try_fold (add_account uuids) (cl_account_ids cloud) []) (\<lambda>ids.
          ensure (account \<in> set ids) (BadRequest ''cloud organization quota must include the service account''))))"

definition validate_limits :: "flash_service_policy \<Rightarrow> uuid option \<Rightarrow> api_error + unit" where
  "validate_limits policy quota_user_id =
     bindR (ensure (\<not> MAX_WEEKLY_GPU_SECONDS < pol_gpu_seconds policy)
              (BadRequest ''weekly GPU limit exceeds the provider safety maximum'')) (\<lambda>_.
     bindR (ensure (\<not> MAX_WEEKLY_CPU_MILLICORE_SECONDS < pol_cpu_millicore_seconds policy)
              (BadRequest ''weekly CPU limit exceeds the provider safety maximum'')) (\<lambda>_.
     bindR (ensure (\<not> MAX_WEEKLY_MEMORY_MIB_SECONDS < pol_memory_mib_seconds policy)
              (BadRequest ''weekly memory limit exceeds the provider safety maximum'')) (\<lambda>_.
     ensure (\<not> (case pol_member policy of
                   None \<Rightarrow> False
                 | Some member \<Rightarrow>
                     quota_user_id = None \<or> pol_cpu_millicore_seconds policy < ml_cpu_millicore_seconds member \<or>
                     pol_memory_mib_seconds policy < ml_memory_mib_seconds member \<or>
                     pol_gpu_seconds policy < ml_gpu_seconds member))
       (BadRequest ''invalid member weekly quota''))))"

definition check_request ::
  "('k, 'n::linorder) api_lib \<Rightarrow> provider_claims \<Rightarrow> uuid \<Rightarrow> reconcile_request \<Rightarrow> api_error + flash_spec" where
  "check_request lib claims service_instance_id request =
     bindR (validate_command claims service_instance_id (rr_generation request)) (\<lambda>_.
     bindR (validate_display_name (rr_name request)) (\<lambda>_.
     bindR (ok_or (al_spec_of_json lib (rr_spec request)) (BadRequest ''Flash spec is invalid'')) (\<lambda>spec.
     bindR (map_err (\<lambda>e. BadRequest (al_validation_text lib e))
              (validate_flash_spec (al_nets lib) (al_url_parse lib) spec)) (\<lambda>_.
     bindR (validate_cloud_organization_policy (al_uuids lib) (rr_policy request) (tk_organization_id claims)) (\<lambda>_.
     bindR (validate_limits (rr_policy request) (rr_quota_user_id request)) (\<lambda>_.
     Inr spec))))))"

section \<open>What an update keeps\<close>

definition requester_user_id :: "uuid_ops \<Rightarrow> provider_claims \<Rightarrow> string option" where
  "requester_user_id uuids claims = map_option (uuid_show uuids) (tk_user_id claims)"

definition preserve_existing_member_quota ::
  "string option \<Rightarrow> flash_member_weekly_limits option \<Rightarrow> string option \<Rightarrow> flash_service_policy \<Rightarrow>
   api_error + string option \<times> flash_service_policy" where
  "preserve_existing_member_quota existing_user existing_member quota_user_id policy =
     (case existing_user of
        None \<Rightarrow> Inr (quota_user_id, policy)
      | Some user \<Rightarrow>
          (case quota_user_id of
             None \<Rightarrow> Inr (Some user, policy\<lparr>pol_member := existing_member\<rparr>)
           | Some requested \<Rightarrow>
               if requested \<noteq> user then Inl (Conflict ''the allocation owner cannot change'')
               else Inr (quota_user_id, policy)))"

record service_update =
  su_subject_id :: "string option"
  su_quota_user_id :: "string option"
  su_policy :: flash_service_policy
  su_resumed :: bool

text \<open>The checks against the service that exists, and what is kept of it.\<close>

definition update_existing ::
  "uuid_ops \<Rightarrow> provider_claims \<Rightarrow> reconcile_request \<Rightarrow> flash_spec \<Rightarrow> flash_service \<Rightarrow> api_error + service_update" where
  "update_existing uuids claims request spec existing =
     (let current = fsv_spec existing
      in bindR (ensure (fs_restore_from_backup_id (svc_workload current) = fs_restore_from_backup_id spec)
                  (Conflict ''the source of a persistent disk is immutable'')) (\<lambda>_.
         bindR (ensure (svc_organization_id current = uuid_show uuids (tk_organization_id claims)) Forbidden) (\<lambda>_.
         bindR (preserve_existing_member_quota (svc_quota_user_id current) (pol_member (svc_policy current))
                  (map_option (uuid_show uuids) (rr_quota_user_id request)) (rr_policy request)) (\<lambda>(quota_user_id, policy).
         let policy = (if pol_cloud_organization policy = None
                       then policy\<lparr>pol_cloud_organization := pol_cloud_organization (svc_policy current)\<rparr> else policy)
         in bindR (ensure (\<not> rr_generation request < svc_desired_generation current) (Conflict ''generation is stale'')) (\<lambda>_.
            bindR (ensure (\<not> (svc_desired_generation current = rr_generation request \<and>
                               (svc_display_name current \<noteq> rr_name request \<or>
                                svc_project_id current \<noteq> uuid_show uuids (tk_project_id claims) \<or>
                                svc_workload current \<noteq> spec)))
                     (Conflict ''generation was already used for different desired state'')) (\<lambda>_.
            Inr \<lparr>su_subject_id = (if svc_desired_generation current = rr_generation request
                                 then svc_subject_id current else requester_user_id uuids claims),
                 su_quota_user_id = quota_user_id, su_policy = policy,
                 su_resumed = (fs_stopped (svc_workload current) \<and> \<not> fs_stopped spec)\<rparr>))))))"

text \<open>A new service from a backup of the same organization.\<close>

definition check_restore ::
  "'w provider_api \<Rightarrow> ('k, 'n) api_lib \<Rightarrow> provider_claims \<Rightarrow> flash_spec \<Rightarrow> ('w, api_error, unit) effect" where
  "check_restore api lib claims spec =
     (case fs_restore_from_backup_id spec of
        None \<Rightarrow> eret ()
      | Some uuid \<Rightarrow>
          ebind (eapi (ba_backup_get_opt (fa_backups api) (bname (al_backups lib) uuid))) (\<lambda>found.
          ebind (etry (ok_or found NotFound)) (\<lambda>backup.
          if fb_organization_id (bk_spec backup) \<noteq> tk_organization_id claims then efail Forbidden
          else if \<not> fs_stopped spec \<or> bk_deleting backup \<or> \<not> is_ready backup
          then efail (Conflict ''a restored service must be created stopped from a ready backup'')
          else eret ())))"

section \<open>The answers\<close>

record accepted_operation =
  op_operation_id :: uuid
  op_status :: json

definition for_resource :: "('k, 'n) api_lib \<Rightarrow> uuid \<Rightarrow> i64 \<Rightarrow> string \<Rightarrow> json \<Rightarrow> accepted_operation" where
  "for_resource lib service_instance_id generation action status =
     \<lparr>op_operation_id =
        al_new_v5_url lib (uuid_show (al_uuids lib) service_instance_id @ '':'' @ show_int generation @ '':'' @ action),
      op_status = status\<rparr>"

definition status_json :: "flash_service_status option \<Rightarrow> json" where
  "status_json status = jnull (\<lambda>s. jfields (status_fields s)) status"

definition member_json :: "flash_member_weekly_limits \<Rightarrow> json" where
  "member_json m =
     jobj [(''max_weekly_cpu_millicore_seconds'', jnat (ml_cpu_millicore_seconds m)),
           (''max_weekly_memory_mib_seconds'', jnat (ml_memory_mib_seconds m)),
           (''max_weekly_gpu_seconds'', jnat (ml_gpu_seconds m))]"

definition cloud_json :: "flash_cloud_organization_weekly_limits \<Rightarrow> json" where
  "cloud_json c =
     jobj [(''account_ids'', jstrs (cl_account_ids c)),
           (''max_weekly_cpu_millicore_seconds'', jnat (cl_cpu_millicore_seconds c)),
           (''max_weekly_memory_mib_seconds'', jnat (cl_memory_mib_seconds c)),
           (''max_weekly_gpu_seconds'', jnat (cl_gpu_seconds c))]"

definition quota_only_patch :: "string \<Rightarrow> string option \<Rightarrow> flash_service_policy \<Rightarrow> json" where
  "quota_only_patch resource_version quota_user_id policy =
     jobj [(''metadata'', jobj [(''resourceVersion'', JStr resource_version)]),
           (''spec'', jobj
             [(''quota_user_id'', jnull JStr quota_user_id),
              (''policy'', jobj
                [(''max_weekly_cpu_millicore_seconds'', jnat (pol_cpu_millicore_seconds policy)),
                 (''max_weekly_memory_mib_seconds'', jnat (pol_memory_mib_seconds policy)),
                 (''max_weekly_gpu_seconds'', jnat (pol_gpu_seconds policy)),
                 (''member'', jnull member_json (pol_member policy)),
                 (''cloud_organization'', jnull cloud_json (pol_cloud_organization policy))])])]"

section \<open>Commands on a service\<close>

definition refresh_quota ::
  "'w provider_api \<Rightarrow> ('k, 'n) api_lib \<Rightarrow> uuid \<Rightarrow> reconcile_request \<Rightarrow> flash_service \<Rightarrow> service_update \<Rightarrow>
   ('w, api_error, u16 \<times> accepted_operation) effect" where
  "refresh_quota api lib service_instance_id request existing update =
     (if svc_desired_generation (fsv_spec existing) \<noteq> rr_generation request
      then efail (Conflict ''quota update requires the current generation'')
      else ebind (etry (ok_or (meta_resource_version (fsv_meta existing)) Internal)) (\<lambda>version.
           ebind (eapi (fa_service_merge api (service_resource_name (al_uuids lib) service_instance_id)
                    (quota_only_patch version (su_quota_user_id update) (su_policy update)))) (\<lambda>resource.
           eret (202, for_resource lib service_instance_id (rr_generation request) PROVIDER_RECONCILE_ACTION
                        (status_json (fsv_status resource))))))"

definition new_meta :: "string \<Rightarrow> (string, string) btree_map \<Rightarrow> object_meta" where
  "new_meta name annotations =
     \<lparr>meta_name = name, meta_namespace = None, meta_resource_version = None, meta_deletion_timestamp = None,
      meta_finalizers = [], meta_annotations = annotations, meta_uid = None, meta_generation = None\<rparr>"

definition desired_flash_service ::
  "uuid_ops \<Rightarrow> provider_claims \<Rightarrow> uuid \<Rightarrow> reconcile_request \<Rightarrow> flash_spec \<Rightarrow> service_update \<Rightarrow> i64 \<Rightarrow> flash_service" where
  "desired_flash_service uuids claims service_instance_id request spec update now =
     \<lparr>fsv_meta = new_meta (service_resource_name uuids service_instance_id)
        (if su_resumed update then [(LAST_ACTIVITY_ANNOTATION, show_int now)] else []),
      fsv_spec =
        \<lparr>svc_desired_generation = rr_generation request, svc_display_name = rr_name request,
         svc_organization_id = uuid_show uuids (tk_organization_id claims),
         svc_project_id = uuid_show uuids (tk_project_id claims),
         svc_service_instance_id = uuid_show uuids service_instance_id, svc_subject_id = su_subject_id update,
         svc_quota_user_id = su_quota_user_id update, svc_policy = su_policy update, svc_workload = spec\<rparr>,
      fsv_status = None\<rparr>"

text \<open>A service that is not ready yet answers with an error, so that the caller tries again.\<close>

definition operation_answer ::
  "('k, 'n) api_lib \<Rightarrow> uuid \<Rightarrow> reconcile_request \<Rightarrow> flash_spec \<Rightarrow> flash_service \<Rightarrow> api_error + u16 \<times> accepted_operation" where
  "operation_answer lib service_instance_id request spec resource =
     (let current_status = filter_opt (\<lambda>s. st_observed_generation s = rr_generation request) (fsv_status resource);
          answer = (202, for_resource lib service_instance_id (rr_generation request) PROVIDER_RECONCILE_ACTION
                           (status_json (fsv_status resource)))
      in case current_status of
           None \<Rightarrow> Inl NotReady
         | Some s \<Rightarrow>
             if st_phase s = Error then Inr answer
             else if st_phase s = Ready \<and> st_runtime_class s = workload_runtime_class (effective_gpu_count spec) \<and>
                     st_stopped s = fs_stopped spec
             then Inr answer else Inl NotReady)"

definition apply_command ::
  "'w provider_api \<Rightarrow> ('k, 'n) api_lib \<Rightarrow> provider_claims \<Rightarrow> uuid \<Rightarrow> reconcile_request \<Rightarrow> flash_spec \<Rightarrow> service_update \<Rightarrow>
   ('w, api_error, u16 \<times> accepted_operation) effect" where
  "apply_command api lib claims service_instance_id request spec update =
     ebind (eread (fa_now api)) (\<lambda>now.
     ebind (eapi (fa_service_apply api (service_resource_name (al_uuids lib) service_instance_id)
              (desired_flash_service (al_uuids lib) claims service_instance_id request spec update now))) (\<lambda>resource.
     etry (operation_answer lib service_instance_id request spec resource)))"

definition new_service_update :: "uuid_ops \<Rightarrow> provider_claims \<Rightarrow> reconcile_request \<Rightarrow> service_update" where
  "new_service_update uuids claims request =
     \<lparr>su_subject_id = requester_user_id uuids claims,
      su_quota_user_id = map_option (uuid_show uuids) (rr_quota_user_id request),
      su_policy = rr_policy request, su_resumed = False\<rparr>"

definition reconcile_command ::
  "'w provider_api \<Rightarrow> ('k, 'n::linorder) api_lib \<Rightarrow> 'k api_state \<Rightarrow> uuid \<Rightarrow> string option \<Rightarrow> reconcile_request \<Rightarrow>
   ('w, api_error, u16 \<times> accepted_operation) effect" where
  "reconcile_command api lib st service_instance_id authorization request =
     ebind (reject_draining api) (\<lambda>_.
     ebind (authorize api lib st authorization PROVIDER_RECONCILE_ACTION) (\<lambda>claims.
     ebind (etry (check_request lib claims service_instance_id request)) (\<lambda>spec.
     ebind (eapi (fa_service_get_opt api (service_resource_name (al_uuids lib) service_instance_id))) (\<lambda>found.
     case found of
       Some existing \<Rightarrow>
         ebind (etry (update_existing (al_uuids lib) claims request spec existing)) (\<lambda>update.
         if rr_quota_only request then refresh_quota api lib service_instance_id request existing update
         else apply_command api lib claims service_instance_id request spec update)
     | None \<Rightarrow>
         if rr_quota_only request then efail (Conflict ''quota update requires an existing service'')
         else ebind (check_restore api lib claims spec) (\<lambda>_.
              apply_command api lib claims service_instance_id request spec
                (new_service_update (al_uuids lib) claims request))))))"

definition remove_command ::
  "'w provider_api \<Rightarrow> ('k, 'n) api_lib \<Rightarrow> 'k api_state \<Rightarrow> uuid \<Rightarrow> i64 \<Rightarrow> string option \<Rightarrow>
   ('w, api_error, u16 \<times> accepted_operation) effect" where
  "remove_command api lib st service_instance_id generation authorization =
     ebind (authorize api lib st authorization PROVIDER_DELETE_ACTION) (\<lambda>claims.
     ebind (etry (validate_command claims service_instance_id generation)) (\<lambda>_.
     let name = service_resource_name (al_uuids lib) service_instance_id
     in ebind (eapi (fa_service_get_opt api name)) (\<lambda>found.
        case found of
          None \<Rightarrow>
            eret (202, for_resource lib service_instance_id generation PROVIDER_DELETE_ACTION
                         (jobj [(''phase'', JStr ''deleted''), (''observed_generation'', JNum generation),
                                (''runtime_class'', JStr RUNTIME_CLASS_NAME)]))
        | Some existing \<Rightarrow>
            if generation < svc_desired_generation (fsv_spec existing) then efail (Conflict ''generation is stale'')
            else ebind (eapi (fa_service_delete api name)) (\<lambda>_. efail NotReady))))"

definition status_for_access ::
  "uuid_ops \<Rightarrow> flash_service \<Rightarrow> provider_claims \<Rightarrow> uuid \<Rightarrow> i64 \<Rightarrow> api_error + flash_service_status" where
  "status_for_access uuids resource claims service_instance_id generation =
     bindR (validate_resource_identity uuids resource claims service_instance_id) (\<lambda>_.
     bindR (ensure (svc_desired_generation (fsv_spec resource) = generation)
              (Conflict ''generation does not match current desired state'')) (\<lambda>_.
     ok_or (filter_opt (\<lambda>s. st_observed_generation s = generation) (fsv_status resource)) NotReady))"

definition get_status ::
  "'w provider_api \<Rightarrow> ('k, 'n) api_lib \<Rightarrow> 'k api_state \<Rightarrow> uuid \<Rightarrow> i64 \<Rightarrow> string option \<Rightarrow>
   ('w, api_error, flash_service_status) effect" where
  "get_status api lib st service_instance_id generation authorization =
     ebind (authorize api lib st authorization PROVIDER_STATUS_GET_ACTION) (\<lambda>claims.
     ebind (etry (validate_command claims service_instance_id generation)) (\<lambda>_.
     ebind (eapi (fa_service_get_opt api (service_resource_name (al_uuids lib) service_instance_id))) (\<lambda>found.
     ebind (etry (ok_or found NotFound)) (\<lambda>resource.
     etry (status_for_access (al_uuids lib) resource claims service_instance_id generation)))))"

end
