(* ===== verification/Provider_Admin.thy ===== *)
theory Provider_Admin
  imports Provider_Api
begin

text \<open>
  The commands of the provider API about GPUs and usage (\<open>bin/flash-api.rs\<close>). The owner of the cloud uses claims with nil
  identifiers; the catalog of GPU types is for every user. The two lists of \<open>list_usage\<close> are requested at once in the
  source and one after the other here: nothing depends on their order but which of two errors is reported.
\<close>

section \<open>GPUs\<close>

record gpu_management_item =
  gm_management_id :: string
  gm_gpu_type :: string
  gm_display_name :: string
  gm_visibility :: flash_gpu_visibility
  gm_assigned_user_ids :: "uuid list"
  gm_available :: bool

record gpu_access_update_request =
  gu_management_id :: string
  gu_gpu_type :: string
  gu_display_name :: string
  gu_visibility :: flash_gpu_visibility
  gu_assigned_user_ids :: "uuid list"

definition visibility_json :: "flash_gpu_visibility \<Rightarrow> json" where
  "visibility_json v = JStr (case v of Open \<Rightarrow> ''open'' | Private \<Rightarrow> ''private'')"

definition gpu_access_apply_patch :: "uuid_ops \<Rightarrow> gpu_access_update_request \<Rightarrow> json" where
  "gpu_access_apply_patch uuids request =
     jobj [(''apiVersion'', JStr ''flash.heterocloud.io/v1alpha1''), (''kind'', JStr ''FlashGpuDevice''),
           (''metadata'', jobj [(''name'', JStr (gu_management_id request))]),
           (''spec'', jobj [(''visibility'', visibility_json (gu_visibility request)),
                          (''private_assignments'', jstrs (map (uuid_show uuids) (gu_assigned_user_ids request)))])]"

definition management_item :: "uuid_ops \<Rightarrow> flash_gpu_device \<Rightarrow> i64 \<Rightarrow> gpu_management_item" where
  "management_item uuids device now =
     \<lparr>gm_management_id = dev_name device, gm_gpu_type = gd_gpu_type (dev_spec device),
      gm_display_name = gd_model (dev_spec device), gm_visibility = gd_visibility (dev_spec device),
      gm_assigned_user_ids = bt_set (List.map_filter (uuid_parse uuids) (gd_private_assignments (dev_spec device))),
      gm_available = gpu_device_available device now\<rparr>"

definition list_gpu_types ::
  "'w provider_api \<Rightarrow> ('k, 'n) api_lib \<Rightarrow> 'k api_state \<Rightarrow> string option \<Rightarrow>
   ('w, api_error, gpu_type_catalog_entry list) effect" where
  "list_gpu_types api lib st authorization =
     ebind (authorize api lib st authorization PROVIDER_GPU_TYPES_LIST_ACTION) (\<lambda>claims.
     ebind (eapi (fa_devices_list api)) (\<lambda>devices.
     ebind (eread (fa_now api)) (\<lambda>now.
     etry (map_err (\<lambda>_. Internal)
       (visible_gpu_catalog devices (unwrap_or (requester_user_id (al_uuids lib) claims) []) now)))))"

definition list_gpu_inventory ::
  "'w provider_api \<Rightarrow> ('k, 'n) api_lib \<Rightarrow> 'k api_state \<Rightarrow> string option \<Rightarrow>
   ('w, api_error, gpu_management_item list) effect" where
  "list_gpu_inventory api lib st authorization =
     ebind (authorize api lib st authorization PROVIDER_GPU_CATALOG_LIST_ACTION) (\<lambda>claims.
     ebind (etry (validate_admin_claims claims)) (\<lambda>_.
     ebind (eread (fa_now api)) (\<lambda>now.
     ebind (eapi (fa_devices_list api)) (\<lambda>devices.
     ebind (etry (map_err (\<lambda>_. Internal) (validate_gpu_inventory_models devices))) (\<lambda>_.
     eret (sort_key gm_management_id (map (\<lambda>d. management_item (al_uuids lib) d now) devices)))))))"

definition update_gpu_access ::
  "'w provider_api \<Rightarrow> ('k, 'n) api_lib \<Rightarrow> 'k api_state \<Rightarrow> string option \<Rightarrow> gpu_access_update_request \<Rightarrow>
   ('w, api_error, gpu_management_item) effect" where
  "update_gpu_access api lib st authorization request =
     ebind (authorize api lib st authorization PROVIDER_GPU_ACCESS_UPDATE_ACTION) (\<lambda>claims.
     ebind (etry (validate_admin_claims claims)) (\<lambda>_.
     let request = request\<lparr>gu_assigned_user_ids := bt_set (gu_assigned_user_ids request)\<rparr>
     in ebind (eapi (fa_device_get_opt api (gu_management_id request))) (\<lambda>found.
        ebind (etry (ok_or found NotFound)) (\<lambda>current.
        if gd_gpu_type (dev_spec current) \<noteq> gu_gpu_type request \<or> gd_model (dev_spec current) \<noteq> gu_display_name request
        then efail (Conflict ''GPU inventory changed; refresh the catalog and retry'')
        else ebind (eapi (fa_device_apply api (gu_management_id request)
                      (gpu_access_apply_patch (al_uuids lib) request))) (\<lambda>updated.
             ebind (eread (fa_now api)) (\<lambda>now.
             eret (management_item (al_uuids lib) updated now)))))))"

section \<open>Usage\<close>

record usage_item =
  ui_organization_id :: uuid
  ui_project_id :: uuid
  ui_service_instance_id :: uuid
  ui_display_name :: string
  ui_active :: bool
  ui_ready_replicas :: u32
  ui_cpu_millis :: u32
  ui_memory_mib :: u32
  ui_gpu_count :: u32
  ui_weekly_usage :: flash_weekly_usage

definition usage_id :: "uuid_ops \<Rightarrow> string \<Rightarrow> api_error + uuid" where
  "usage_id uuids v = ok_or (uuid_parse uuids v) Internal"

definition merge_usage :: "flash_weekly_usage \<Rightarrow> flash_weekly_usage \<Rightarrow> flash_weekly_usage" where
  "merge_usage current other =
     (if wu_week_started_at current \<noteq> wu_week_started_at other then current
      else current
        \<lparr>wu_cpu_millicore_seconds := max (wu_cpu_millicore_seconds current) (wu_cpu_millicore_seconds other),
         wu_memory_mib_seconds := max (wu_memory_mib_seconds current) (wu_memory_mib_seconds other),
         wu_gpu_seconds := max (wu_gpu_seconds current) (wu_gpu_seconds other),
         wu_last_metered_at := max (wu_last_metered_at current) (wu_last_metered_at other)\<rparr>)"

definition recorded_item ::
  "uuid_ops \<Rightarrow> i64 \<Rightarrow> flash_usage_record \<Rightarrow> (uuid, usage_item) btree_map \<Rightarrow> api_error + (uuid, usage_item) btree_map" where
  "recorded_item uuids week rec items =
     (let r = ur_spec rec
      in if wu_week_started_at (ur_usage r) \<noteq> week then Inr items
         else bindR (usage_id uuids (ur_service_instance_id r)) (\<lambda>service_instance_id.
              bindR (usage_id uuids (ur_organization_id r)) (\<lambda>organization_id.
              bindR (usage_id uuids (ur_project_id r)) (\<lambda>project_id.
              Inr (bt_insert service_instance_id
                \<lparr>ui_organization_id = organization_id, ui_project_id = project_id,
                 ui_service_instance_id = service_instance_id, ui_display_name = ur_display_name r, ui_active = False,
                 ui_ready_replicas = 0, ui_cpu_millis = ur_cpu_millis r, ui_memory_mib = ur_memory_mib r,
                 ui_gpu_count = ur_gpu_count r, ui_weekly_usage = ur_usage r\<rparr> items)))))"

text \<open>The counters of a service: its projection, raised to the record; the limits are those of its policy.\<close>

definition service_usage :: "flash_service \<Rightarrow> i64 \<Rightarrow> flash_weekly_usage option \<Rightarrow> flash_weekly_usage" where
  "service_usage service now recorded =
     (let usage = projected_weekly_usage service now;
          usage = (case recorded of None \<Rightarrow> usage | Some r \<Rightarrow> merge_usage usage r);
          policy = svc_policy (fsv_spec service)
      in usage\<lparr>wu_max_cpu_millicore_seconds := pol_cpu_millicore_seconds policy,
               wu_max_memory_mib_seconds := pol_memory_mib_seconds policy, wu_max_gpu_seconds := pol_gpu_seconds policy\<rparr>)"

definition service_item ::
  "uuid_ops \<Rightarrow> i64 \<Rightarrow> flash_service \<Rightarrow> (uuid, usage_item) btree_map \<Rightarrow> api_error + (uuid, usage_item) btree_map" where
  "service_item uuids now service items =
     (let spec = fsv_spec service
      in if meta_deletion_timestamp (fsv_meta service) \<noteq> None then Inr items
         else bindR (usage_id uuids (svc_service_instance_id spec)) (\<lambda>service_instance_id.
              bindR (case bt_get items service_instance_id of
                       None \<Rightarrow> Inr ()
                     | Some recorded \<Rightarrow>
                         bindR (usage_id uuids (svc_organization_id spec)) (\<lambda>organization_id.
                         ensure (ui_organization_id recorded = organization_id) Internal)) (\<lambda>_.
              bindR (usage_id uuids (svc_organization_id spec)) (\<lambda>organization_id.
              bindR (usage_id uuids (svc_project_id spec)) (\<lambda>project_id.
              Inr (bt_insert service_instance_id
                \<lparr>ui_organization_id = organization_id, ui_project_id = project_id,
                 ui_service_instance_id = service_instance_id, ui_display_name = svc_display_name spec, ui_active = True,
                 ui_ready_replicas = (case fsv_status service of None \<Rightarrow> 0 | Some s \<Rightarrow> nat (max (st_ready_replicas s) 0)),
                 ui_cpu_millis = fs_cpu_millis (svc_workload spec), ui_memory_mib = fs_memory_mib (svc_workload spec),
                 ui_gpu_count = effective_gpu_count (svc_workload spec),
                 ui_weekly_usage =
                   service_usage service now (map_option ui_weekly_usage (bt_get items service_instance_id))\<rparr> items))))))"

definition usage_items ::
  "uuid_ops \<Rightarrow> flash_service list \<Rightarrow> flash_usage_record list \<Rightarrow> i64 \<Rightarrow> api_error + usage_item list" where
  "usage_items uuids services records now =
     bindR (try_fold (recorded_item uuids (utc_week_start now)) records []) (\<lambda>items.
     bindR (try_fold (service_item uuids now) services items) (\<lambda>items.
     Inr (map snd items)))"

record usage_report =
  us_generated_at :: i64
  us_week_started_at :: i64
  us_items :: "usage_item list"

definition list_usage ::
  "'w provider_api \<Rightarrow> ('k, 'n) api_lib \<Rightarrow> 'k api_state \<Rightarrow> string option \<Rightarrow> ('w, api_error, usage_report) effect" where
  "list_usage api lib st authorization =
     ebind (authorize api lib st authorization PROVIDER_USAGE_LIST_ACTION) (\<lambda>claims.
     ebind (etry (validate_admin_claims claims)) (\<lambda>_.
     ebind (eread (fa_now api)) (\<lambda>now.
     ebind (eapi (fa_services_list api)) (\<lambda>services.
     ebind (eapi (fa_records_list api)) (\<lambda>records.
     ebind (etry (usage_items (al_uuids lib) services records now)) (\<lambda>items.
     eret \<lparr>us_generated_at = now, us_week_started_at = utc_week_start now, us_items = items\<rparr>))))))"

end
