(* ===== verification/Provider_Objects.thy ===== *)
theory Provider_Objects
  imports Provider_Api
begin

text \<open>
  The commands of the provider API (\<open>bin/flash-api.rs\<close>) about what belongs to a service: backups and their
  destinations, the secret of a load balancer, custom domains. The loop of \<open>create\<close> has fuel, so \<open>create_backup\<close> is \<open>None\<close> when it
  runs out; the properties of backups show that it ends.
\<close>

section \<open>Backups\<close>

definition backup_error :: "backup_error \<Rightarrow> api_error" where
  "backup_error e =
     (case e of
        BackupNotFound \<Rightarrow> NotFound
      | BackupForbidden \<Rightarrow> Forbidden
      | BackupConflict m \<Rightarrow> Conflict m
      | BackupInvalid m \<Rightarrow> BadRequest m
      | _ \<Rightarrow> NotReady)"

definition backup_destination_error :: "destination_error \<Rightarrow> api_error" where
  "backup_destination_error e =
     (case e of
        Invalid_Destination \<Rightarrow> BadRequest ''Invalid backup destination''
      | Destination_Conflict \<Rightarrow> Conflict ''Backup destination ownership or immutable settings conflict''
      | _ \<Rightarrow> NotReady)"

definition backup_destination_scope :: "provider_claims \<Rightarrow> uuid \<Rightarrow> uuid \<Rightarrow> api_error + unit" where
  "backup_destination_scope claims organization uuid =
     ensure (\<not> (is_nil organization \<or> is_nil uuid \<or> tk_organization_id claims \<noteq> organization \<or>
                 tk_service_instance_id claims \<noteq> uuid \<or> tk_generation claims \<noteq> 1)) Forbidden"

text \<open>A variable of the environment that has to be set.\<close>

definition env_var :: "'w provider_api \<Rightarrow> string \<Rightarrow> ('w, api_error, string) effect" where
  "env_var api name = ebind (eread (fa_env api name)) (\<lambda>v. etry (ok_or v NotReady))"

definition storage_namespace_var :: "'w provider_api \<Rightarrow> ('w, api_error, string) effect" where
  "storage_namespace_var api =
     ebind (eread (fa_env api ''FLASH_BACKUP_STORAGE_NAMESPACE'')) (\<lambda>v. eret (unwrap_or v ''longhorn-system''))"

definition put_backup_destination ::
  "'w provider_api \<Rightarrow> ('k, 'n) api_lib \<Rightarrow> 'k api_state \<Rightarrow> uuid \<Rightarrow> uuid \<Rightarrow> string option \<Rightarrow> s3_destination \<Rightarrow>
   ('w, api_error, u16 \<times> destination_view) effect" where
  "put_backup_destination api lib st organization uuid authorization input =
     ebind (authorize api lib st authorization ''flash.backups.destination.write'') (\<lambda>claims.
     ebind (etry (backup_destination_scope claims organization uuid)) (\<lambda>_.
     ebind (env_var api ''FLASH_BACKUP_S3_PROXY_KEY_FILE'') (\<lambda>key_file.
     ebind (eread (fa_file api key_file)) (\<lambda>content.
     ebind (etry (ok_or content NotReady)) (\<lambda>key.
     ebind (env_var api ''FLASH_BACKUP_S3_PROXY_URL'') (\<lambda>proxy.
     ebind (env_var api ''FLASH_BACKUP_RESTORE_STORAGE_CLASS'') (\<lambda>restore.
     ebind (env_var api ''FLASH_BACKUP_VERIFY_STORAGE_CLASS'') (\<lambda>verification.
     ebind (storage_namespace_var api) (\<lambda>namespace.
     ebind (emap_err backup_destination_error
              (put_destination (fa_destinations api namespace) (al_destinations lib) organization uuid input proxy key
                 namespace restore verification)) (\<lambda>result.
     eret (202, result)))))))))))"

definition get_backup_destination ::
  "'w provider_api \<Rightarrow> ('k, 'n) api_lib \<Rightarrow> 'k api_state \<Rightarrow> uuid \<Rightarrow> uuid \<Rightarrow> string option \<Rightarrow>
   ('w, api_error, destination_view) effect" where
  "get_backup_destination api lib st organization uuid authorization =
     ebind (authorize api lib st authorization ''flash.backups.destination.get'') (\<lambda>claims.
     ebind (etry (backup_destination_scope claims organization uuid)) (\<lambda>_.
     ebind (storage_namespace_var api) (\<lambda>namespace.
     emap_err backup_destination_error
       (get_destination (fa_destinations api namespace) (dl_uuids (al_destinations lib)) organization uuid))))"

definition verify_backup ::
  "'w provider_api \<Rightarrow> ('k, 'n) api_lib \<Rightarrow> 'k api_state \<Rightarrow> uuid \<Rightarrow> uuid \<Rightarrow> string option \<Rightarrow>
   ('w, api_error, u16 \<times> uuid) effect" where
  "verify_backup api lib st uuid backup_id authorization =
     ebind (authorize api lib st authorization ''flash.backups.verify'') (\<lambda>claims.
     ebind (etry (ensure (tk_service_instance_id claims = uuid) Forbidden)) (\<lambda>_.
     ebind (emap_err backup_error (request_verification (fa_backups api) (al_backups lib) backup_id claims)) (\<lambda>_.
     eret (202, backup_id))))"

definition get_backup_source ::
  "'w provider_api \<Rightarrow> ('k, 'n) api_lib \<Rightarrow> 'k api_state \<Rightarrow> uuid \<Rightarrow> string option \<Rightarrow> ('w, api_error, disk_source) effect" where
  "get_backup_source api lib st uuid authorization =
     ebind (authorize api lib st authorization ''flash.backups.source'') (\<lambda>claims.
     ebind (etry (validate_command claims uuid (tk_generation claims))) (\<lambda>_.
     if as_backup_snapshot_class st = [] then efail NotReady
     else emap_err backup_error (backup_source (fa_backups api) (al_backups lib) claims)))"

definition create_backup ::
  "nat \<Rightarrow> 'w provider_api \<Rightarrow> ('k, 'n) api_lib \<Rightarrow> 'k api_state \<Rightarrow> uuid \<Rightarrow> string option \<Rightarrow> backup_request \<Rightarrow> 'w \<Rightarrow>
   ((api_error + u16 \<times> backup_view) \<times> 'w) option" where
  "create_backup fuel api lib st uuid authorization request w =
     (case ebind (authorize api lib st authorization ''flash.backups.create'') (\<lambda>claims.
           ebind (etry (validate_command claims uuid (tk_generation claims))) (\<lambda>_. eret claims)) w of
        (Inl e, w') \<Rightarrow> Some (Inl e, w')
      | (Inr claims, w') \<Rightarrow>
          map_option (\<lambda>(r, w''). (bindR (map_err backup_error r) (\<lambda>backup. Inr (202, view_backup (al_backups lib) backup)), w''))
            (create fuel (fa_backups api) (al_backups lib) (as_backup_snapshot_class st) claims request w'))"

definition get_backup_view ::
  "'w provider_api \<Rightarrow> ('k, 'n) api_lib \<Rightarrow> 'k api_state \<Rightarrow> uuid \<Rightarrow> uuid \<Rightarrow> string option \<Rightarrow> ('w, api_error, backup_view) effect" where
  "get_backup_view api lib st uuid backup_id authorization =
     ebind (authorize api lib st authorization ''flash.backups.get'') (\<lambda>claims.
     ebind (etry (validate_command claims uuid (tk_generation claims))) (\<lambda>_.
     ebind (emap_err backup_error (get_backup (fa_backups api) (al_backups lib) backup_id claims)) (\<lambda>backup.
     eret (view_backup (al_backups lib) backup))))"

definition delete_backup_command ::
  "'w provider_api \<Rightarrow> ('k, 'n) api_lib \<Rightarrow> 'k api_state \<Rightarrow> uuid \<Rightarrow> uuid \<Rightarrow> string option \<Rightarrow> ('w, api_error, bool) effect" where
  "delete_backup_command api lib st uuid backup_id authorization =
     ebind (authorize api lib st authorization ''flash.backups.delete'') (\<lambda>claims.
     ebind (etry (validate_command claims uuid (tk_generation claims))) (\<lambda>_.
     emap_err backup_error (delete_backup (fa_backups api) (al_backups lib) backup_id claims)))"

section \<open>The secret of a load balancer\<close>

definition load_balancer_secret_context ::
  "'w provider_api \<Rightarrow> ('k, 'n) api_lib \<Rightarrow> 'k api_state \<Rightarrow> string option \<Rightarrow> uuid \<Rightarrow> string \<Rightarrow>
   ('w, api_error, provider_claims \<times> flash_service option) effect" where
  "load_balancer_secret_context api lib st authorization uuid name =
     ebind (authorize api lib st authorization SECRET_ACTION) (\<lambda>claims.
     ebind (etry (validate_command claims uuid (tk_generation claims))) (\<lambda>_.
     ebind (etry (map_err (\<lambda>_. BadRequest ''Invalid client secret reference'')
              (validate_oidc (al_url_parse lib)
                 \<lparr>oidc_issuer_url = ''https://issuer.example'', oidc_client_id = ''validation'', oidc_client_secret_ref = name,
                  oidc_scopes = []\<rparr>))) (\<lambda>_.
     ebind (eapi (fa_service_get_opt api (service_resource_name (al_uuids lib) uuid))) (\<lambda>found.
     case found of
       None \<Rightarrow> eret (claims, None)
     | Some resource \<Rightarrow>
         ebind (etry (validate_resource_identity (al_uuids lib) resource claims uuid)) (\<lambda>_.
         if tk_generation claims < svc_desired_generation (fsv_spec resource) \<or>
            meta_deletion_timestamp (fsv_meta resource) \<noteq> None
         then efail (Conflict ''generation is stale or service is deleting'')
         else eret (claims, Some resource))))))"

definition uses_secret :: "flash_service option \<Rightarrow> string \<Rightarrow> bool" where
  "uses_secret resource name =
     (case Option.bind resource (\<lambda>r. ex_authentication (fs_exposure (workload r))) of
        None \<Rightarrow> False | Some auth \<Rightarrow> oidc_client_secret_ref auth = name)"

definition secret_labels :: "uuid_ops \<Rightarrow> uuid \<Rightarrow> provider_claims \<Rightarrow> (string, string) btree_map" where
  "secret_labels uuids uuid claims =
     fold (\<lambda>(k, v). bt_insert k v)
       [(''flash.heterocloud.io/credential'', ''oidc''), (''flash.heterocloud.io/instance'', uuid_show uuids uuid),
        (''flash.heterocloud.io/organization'', uuid_show uuids (tk_organization_id claims)),
        (''flash.heterocloud.io/project'', uuid_show uuids (tk_project_id claims))] []"

abbreviation einternal :: "('w, 'e, 'a) effect \<Rightarrow> ('w, api_error, 'a) effect" where
  "einternal \<equiv> emap_err (\<lambda>_. Internal)"

definition put_load_balancer_secret ::
  "'w provider_api \<Rightarrow> ('k, 'n) api_lib \<Rightarrow> 'k api_state \<Rightarrow> uuid \<Rightarrow> string \<Rightarrow> string option \<Rightarrow> string \<Rightarrow>
   ('w, api_error, u16) effect" where
  "put_load_balancer_secret api lib st uuid name authorization secret =
     ebind (etry (ensure (\<not> (secret = [] \<or> 16384 < length secret \<or> CHR 0x00 \<in> set secret))
              (BadRequest ''Client secret must contain 1 to 16384 bytes without NUL''))) (\<lambda>_.
     ebind (load_balancer_secret_context api lib st authorization uuid name) (\<lambda>(claims, resource).
     ebind (if uses_secret resource name
            then einternal (block_existing_route (fa_web api) (service_resource_name (al_uuids lib) uuid)) else eret ()) (\<lambda>_.
     let credential = secret_name (al_web lib) uuid name; labels = secret_labels (al_uuids lib) uuid claims
     in ebind (einternal (fa_secret_get_opt api credential)) (\<lambda>existing.
        if (case existing of None \<Rightarrow> False | Some s \<Rightarrow> ws_labels s \<noteq> Some labels) then efail Forbidden
        else ebind (einternal (fa_secret_apply api credential labels secret (Option.bind resource controller_owner))) (\<lambda>_.
             eret 204)))))"

definition delete_load_balancer_secret ::
  "'w provider_api \<Rightarrow> ('k, 'n) api_lib \<Rightarrow> 'k api_state \<Rightarrow> uuid \<Rightarrow> string \<Rightarrow> string option \<Rightarrow> ('w, api_error, u16) effect" where
  "delete_load_balancer_secret api lib st uuid name authorization =
     ebind (load_balancer_secret_context api lib st authorization uuid name) (\<lambda>(_, resource).
     if uses_secret resource name
     then efail (Conflict ''Detach load balancer authentication before deleting its secret'')
     else ematch (fa_secret_delete api (secret_name (al_web lib) uuid name)) (\<lambda>r.
          case r of
            Inr _ \<Rightarrow> eret 204
          | Inl (Api_Error code) \<Rightarrow> if code = 404 then eret 204 else efail Internal
          | Inl _ \<Rightarrow> efail Internal))"

section \<open>Custom domains\<close>

record custom_domain_write =
  cw_hostname :: string
  cw_binding_id :: uuid
  cw_verification_value :: string

definition domain_service ::
  "'w provider_api \<Rightarrow> ('k, 'n) api_lib \<Rightarrow> 'k api_state \<Rightarrow> string option \<Rightarrow> uuid \<Rightarrow> string \<Rightarrow>
   ('w, api_error, flash_service) effect" where
  "domain_service api lib st authorization uuid action =
     ebind (authorize api lib st authorization action) (\<lambda>claims.
     ebind (etry (validate_command claims uuid (tk_generation claims))) (\<lambda>_.
     ebind (eapi (fa_service_get api (service_resource_name (al_uuids lib) uuid))) (\<lambda>service.
     ebind (etry (validate_resource_access (al_uuids lib) service claims uuid (tk_generation claims))) (\<lambda>_.
     if meta_deletion_timestamp (fsv_meta service) \<noteq> None then efail (Conflict ''Service is deleting'')
     else eret service))))"

definition list_custom_domains ::
  "'w provider_api \<Rightarrow> ('k, 'n) api_lib \<Rightarrow> 'k api_state \<Rightarrow> uuid \<Rightarrow> string option \<Rightarrow> ('w, api_error, domain_view list) effect" where
  "list_custom_domains api lib st uuid authorization =
     ebind (domain_service api lib st authorization uuid LIST_ACTION) (\<lambda>service.
     emap_err (\<lambda>_. NotReady) (status_view (fa_web api) service))"

definition check_domain_request ::
  "'k api_state \<Rightarrow> flash_service \<Rightarrow> custom_domain_write \<Rightarrow> api_error + string" where
  "check_domain_request st service request =
     (let exposure = fs_exposure (workload service)
      in bindR (map_err (\<lambda>_. BadRequest ''Invalid public domain hostname'') (validate_hostname (cw_hostname request))) (\<lambda>_.
         bindR (ensure (\<not> (ex_kind exposure \<noteq> Public \<or> ex_endpoint_mode exposure \<noteq> Web \<or> ex_traffic_mode exposure \<noteq> Forwarded))
                  (BadRequest ''Custom domains require public HTTP/HTTPS'')) (\<lambda>_.
         bindR (ok_or (as_public_domain st) (BadRequest ''Provider public domain is not configured'')) (\<lambda>public_name.
         bindR (ensure (\<not> (cw_hostname request = public_name \<or> suffix (''.'' @ public_name) (cw_hostname request)))
                  (BadRequest ''Managed Flash hostnames cannot be registered as custom domains'')) (\<lambda>_.
         bindR (ensure (\<not> (160 < length (cw_verification_value request) \<or>
                            \<not> prefix ''heterocloud-domain='' (cw_verification_value request) \<or>
                            any_control (cw_verification_value request)))
                  (BadRequest ''Invalid domain verification marker'')) (\<lambda>_.
         Inr public_name))))))"

definition new_domain ::
  "('k, 'n) api_lib \<Rightarrow> uuid \<Rightarrow> flash_service \<Rightarrow> string \<Rightarrow> custom_domain_write \<Rightarrow> object_owner \<Rightarrow> string \<Rightarrow> flash_domain" where
  "new_domain lib uuid service public_name request owner service_uid =
     \<lparr>dom_meta = new_meta (resource_name (al_web lib) (cw_hostname request)) [],
      dom_owners = Some [owner],
      dom_spec =
        \<lparr>fd_hostname = cw_hostname request, fd_cname_target = ''f-'' @ uuid_show (al_uuids lib) uuid @ ''.'' @ public_name,
         fd_binding_id = uuid_show (al_uuids lib) (cw_binding_id request),
         fd_verification_value = cw_verification_value request,
         fd_service_instance_id = uuid_show (al_uuids lib) uuid,
         fd_organization_id = svc_organization_id (fsv_spec service), fd_project_id = svc_project_id (fsv_spec service),
         fd_service_uid = service_uid\<rparr>,
      dom_status = None\<rparr>"

definition domain_labels :: "('k, 'n) api_lib \<Rightarrow> uuid \<Rightarrow> flash_service \<Rightarrow> (string, string) btree_map" where
  "domain_labels lib uuid service =
     fold (\<lambda>(k, v). bt_insert k v)
       [(''flash.heterocloud.io/instance'', uuid_show (al_uuids lib) uuid),
        (''flash.heterocloud.io/organization'', svc_organization_id (fsv_spec service)),
        (''flash.heterocloud.io/project'', svc_project_id (fsv_spec service))] []"

definition add_custom_domain ::
  "'w provider_api \<Rightarrow> ('k, 'n) api_lib \<Rightarrow> 'k api_state \<Rightarrow> uuid \<Rightarrow> string option \<Rightarrow> custom_domain_write \<Rightarrow>
   ('w, api_error, u16) effect" where
  "add_custom_domain api lib st uuid authorization request =
     ebind (domain_service api lib st authorization uuid WRITE_ACTION) (\<lambda>service.
     ebind (etry (check_domain_request st service request)) (\<lambda>public_name.
     ebind (eapi (fa_domain_get_opt api (resource_name (al_web lib) (cw_hostname request)))) (\<lambda>found.
     case found of
       Some existing \<Rightarrow>
         if \<not> owned_by existing service \<or> meta_deletion_timestamp (dom_meta existing) \<noteq> None \<or>
            fd_binding_id (dom_spec existing) \<noteq> uuid_show (al_uuids lib) (cw_binding_id request)
         then efail (Conflict ''Domain is assigned or still being removed'')
         else eret 202
     | None \<Rightarrow>
         ebind (etry (ok_or (controller_owner service) NotReady)) (\<lambda>owner.
         ebind (etry (ok_or (meta_uid (fsv_meta service)) NotReady)) (\<lambda>service_uid.
         ebind (eapi (fa_domain_create api (new_domain lib uuid service public_name request owner service_uid)
                  (domain_labels lib uuid service))) (\<lambda>_.
         eret 202))))))"

definition remove_custom_domain ::
  "'w provider_api \<Rightarrow> ('k, 'n) api_lib \<Rightarrow> 'k api_state \<Rightarrow> uuid \<Rightarrow> string \<Rightarrow> string option \<Rightarrow> ('w, api_error, u16) effect" where
  "remove_custom_domain api lib st uuid hostname authorization =
     ebind (domain_service api lib st authorization uuid WRITE_ACTION) (\<lambda>service.
     ebind (etry (map_err (\<lambda>_. BadRequest ''Invalid hostname'') (validate_hostname hostname))) (\<lambda>_.
     let name = resource_name (al_web lib) hostname
     in ebind (eapi (fa_domain_get_opt api name)) (\<lambda>found.
        case found of
          None \<Rightarrow> eret 204
        | Some fdomain \<Rightarrow>
            if \<not> owned_by fdomain service then efail Forbidden
            else if meta_deletion_timestamp (dom_meta fdomain) = None
            then ebind (eapi (fa_domain_delete api name)) (\<lambda>_. eret 202)
            else eret 202)))"

end
