(* ===== verification/Exec_Sessions.thy ===== *)
theory Exec_Sessions
  imports Provider_Api
begin

text \<open>
  The containers of a service in the provider API (\<open>bin/flash-api.rs\<close>): their list and logs, shells and SSH sessions. A session
  runs after the handler has upgraded the connection. Its loop is a \<open>select!\<close> over the output of the process and
  the messages of the client; here it consumes the sequence of events in the order in which \<open>select!\<close> yields them,
  and gives the sequence of its actions. Whether a write to the socket or to the process succeeds is part
  of the event. A sequence that ends is a session whose time is over.
\<close>

definition MAX_LOG_BYTES :: nat where "MAX_LOG_BYTES = 256 * 1024"
definition MAX_LOG_LINES :: nat where "MAX_LOG_LINES = 500"
definition MAX_EXEC_MESSAGE_BYTES :: nat where "MAX_EXEC_MESSAGE_BYTES = 64 * 1024"
definition MAX_SSH_COMMAND_BYTES :: nat where "MAX_SSH_COMMAND_BYTES = 16 * 1024"

definition EXEC_SHELL_SCRIPT :: string where
  "EXEC_SHELL_SCRIPT =
     ''export TERM=xterm-256color COLORTERM=truecolor LANG=C.UTF-8 LC_ALL=C.UTF-8 HOME=/root '' @
     ''NPM_CONFIG_PREFIX=/root/.local PATH=/root/.local/bin:$PATH; mkdir -p /root/.local/bin; cd /root || cd /; exec /bin/sh''"

section \<open>Containers\<close>

record container_summary =
  csm_name :: string
  csm_phase :: string
  csm_ready :: bool

definition service_pod_selector :: "uuid_ops \<Rightarrow> uuid \<Rightarrow> string" where
  "service_pod_selector uuids service_instance_id =
     ''flash.heterocloud.io/instance='' @ uuid_show uuids service_instance_id"

definition pod_belongs_to_service :: "uuid_ops \<Rightarrow> pod \<Rightarrow> uuid \<Rightarrow> bool" where
  "pod_belongs_to_service uuids p service_instance_id \<longleftrightarrow>
     Option.bind (pod_labels p) (\<lambda>m. bt_get m ''flash.heterocloud.io/instance'') = Some (uuid_show uuids service_instance_id)"

definition pod_can_exec :: "pod \<Rightarrow> bool" where
  "pod_can_exec p \<longleftrightarrow>
     pod_deletion_timestamp p = None \<and> Option.bind (pod_status_of p) ps_phase = Some ''Running'' \<and>
     (case Option.bind (pod_status_of p) ps_container_statuses of
        None \<Rightarrow> False
      | Some statuses \<Rightarrow>
          list_ex (\<lambda>c. cs_name c = ''workload'' \<and> (case cs_state c of None \<Rightarrow> False | Some s \<Rightarrow> cst_running s)) statuses)"

definition summarize_container :: "pod \<Rightarrow> container_summary option" where
  "summarize_container p =
     map_option (\<lambda>status. \<lparr>csm_name = pod_name p, csm_phase = unwrap_or (ps_phase status) ''Unknown'',
       csm_ready = pod_can_exec p\<rparr>) (pod_status_of p)"

definition list_containers ::
  "'w provider_api \<Rightarrow> ('k, 'n) api_lib \<Rightarrow> 'k api_state \<Rightarrow> uuid \<Rightarrow> i64 \<Rightarrow> string option \<Rightarrow>
   ('w, api_error, container_summary list) effect" where
  "list_containers api lib st service_instance_id generation authorization =
     ebind (authorize api lib st authorization PROVIDER_LIST_CONTAINERS_ACTION) (\<lambda>claims.
     ebind (etry (validate_command claims service_instance_id generation)) (\<lambda>_.
     ebind (validate_resource_scope api (al_uuids lib) claims service_instance_id generation) (\<lambda>_.
     ebind (eapi (fa_pods_list api (service_pod_selector (al_uuids lib) service_instance_id))) (\<lambda>pods.
     eret (sort_key csm_name (List.map_filter summarize_container pods))))))"

section \<open>Logs\<close>

text \<open>\<open>String::from_utf8_lossy\<close>: the longest invalid start of a character becomes one replacement character.\<close>

definition replacement :: string where "replacement = [char_of (239 :: nat), char_of (191 :: nat), char_of (189 :: nat)]"

definition continuation :: "nat \<Rightarrow> nat \<Rightarrow> string \<Rightarrow> bool" where
  "continuation low high s \<longleftrightarrow> (case s of [] \<Rightarrow> False | c # _ \<Rightarrow> low \<le> byte c \<and> byte c \<le> high)"

text \<open>The bytes of the next character, valid or not, and whether it is valid.\<close>

definition next_char :: "string \<Rightarrow> nat \<times> bool" where
  "next_char s =
     (let b = byte (hd s); s1 = drop 1 s; s2 = drop 2 s; s3 = drop 3 s; tail = continuation 128 191
      in if b < 128 then (1, True)
         else if 194 \<le> b \<and> b \<le> 223 then (if tail s1 then (2, True) else (1, False))
         else if 224 \<le> b \<and> b \<le> 239 then
           (if \<not> continuation (if b = 224 then 160 else 128) (if b = 237 then 159 else 191) s1 then (1, False)
            else if \<not> tail s2 then (2, False) else (3, True))
         else if 240 \<le> b \<and> b \<le> 244 then
           (if \<not> continuation (if b = 240 then 144 else 128) (if b = 244 then 143 else 191) s1 then (1, False)
            else if \<not> tail s2 then (2, False) else if \<not> tail s3 then (3, False) else (4, True))
         else (1, False))"

lemma next_char_pos: "0 < fst (next_char s)"
  by (simp add: next_char_def Let_def)

function from_utf8_lossy :: "string \<Rightarrow> string" where
  "from_utf8_lossy s =
     (if s = [] then []
      else (if snd (next_char s) then take (fst (next_char s)) s else replacement) @
           from_utf8_lossy (drop (fst (next_char s)) s))"
  by pat_completeness auto
termination by (relation "measure length") (auto simp: next_char_pos)

declare from_utf8_lossy.simps [simp del]

record logs_query =
  lq_generation :: i64
  lq_pod :: "string option"
  lq_previous :: bool

record log_view =
  lv_items :: "container_summary list"
  lv_pod :: "string option"
  lv_previous :: bool
  lv_text :: "string option"
  lv_truncated :: bool

definition log_params_of :: "bool \<Rightarrow> log_params" where
  "log_params_of previous =
     \<lparr>lp_container = Some ''workload'', lp_limit_bytes = Some MAX_LOG_BYTES, lp_tail_lines = Some MAX_LOG_LINES,
      lp_previous = previous, lp_timestamps = True\<rparr>"

definition read_log :: "'w provider_api \<Rightarrow> string \<Rightarrow> bool \<Rightarrow> ('w, api_error, string) effect" where
  "read_log api name previous =
     (\<lambda>w. case fa_log_stream api name (log_params_of previous) w of
            (None, w') \<Rightarrow> (Inl NotReady, w')
          | (Some (Inl e), w') \<Rightarrow> (Inl (Kubernetes_Error e), w')
          | (Some (Inr None), w') \<Rightarrow> (Inl Internal, w')
          | (Some (Inr (Some content)), w') \<Rightarrow> (Inr (take (MAX_LOG_BYTES + 1) content), w'))"

definition get_logs ::
  "'w provider_api \<Rightarrow> ('k, 'n) api_lib \<Rightarrow> 'k api_state \<Rightarrow> uuid \<Rightarrow> logs_query \<Rightarrow> string option \<Rightarrow> ('w, api_error, log_view) effect" where
  "get_logs api lib st service_instance_id query authorization =
     ebind (authorize api lib st authorization PROVIDER_GET_LOGS_ACTION) (\<lambda>claims.
     ebind (etry (validate_command claims service_instance_id (lq_generation query))) (\<lambda>_.
     ebind (validate_resource_scope api (al_uuids lib) claims service_instance_id (lq_generation query)) (\<lambda>_.
     ebind (eapi (fa_pods_list api (service_pod_selector (al_uuids lib) service_instance_id))) (\<lambda>pods.
     let containers = sort_key csm_name (List.map_filter summarize_container
           (filter (\<lambda>p. pod_belongs_to_service (al_uuids lib) p service_instance_id) pods));
         view = \<lparr>lv_items = containers, lv_pod = lq_pod query, lv_previous = lq_previous query, lv_text = None,
                 lv_truncated = False\<rparr>
     in case lq_pod query of
          None \<Rightarrow> eret view
        | Some name \<Rightarrow>
            if \<not> list_ex (\<lambda>c. csm_name c = name) containers then efail NotFound
            else ebind (read_log api name (lq_previous query)) (\<lambda>bytes.
                 eret (view\<lparr>lv_text := Some (from_utf8_lossy (take MAX_LOG_BYTES bytes)),
                            lv_truncated := MAX_LOG_BYTES \<le> length bytes\<rparr>))))))"

section \<open>Opening a session\<close>

datatype session = Shell_Session string | Ssh_Session string | Forward_Session string u16

text \<open>A permit that was taken is given back when the server has begun to drain.\<close>

definition take_permit :: "'w provider_api \<Rightarrow> ('w, api_error, unit) effect" where
  "take_permit api =
     (\<lambda>w. case fa_try_acquire api w of
            (False, w') \<Rightarrow> (Inl TooManyExecSessions, w')
          | (True, w') \<Rightarrow> if fa_draining api w' then (Inl Draining, fa_release api w') else (Inr (), w'))"

definition open_session ::
  "'w provider_api \<Rightarrow> ('k, 'n) api_lib \<Rightarrow> 'k api_state \<Rightarrow> uuid \<Rightarrow> i64 \<Rightarrow> string \<Rightarrow> string option \<Rightarrow>
   ('w, api_error, unit) effect" where
  "open_session api lib st service_instance_id generation pod authorization =
     ebind (authorize api lib st authorization PROVIDER_EXEC_ACTION) (\<lambda>claims.
     ebind (etry (validate_command claims service_instance_id generation)) (\<lambda>_.
     ebind (validate_resource_scope api (al_uuids lib) claims service_instance_id generation) (\<lambda>_.
     ebind (eapi (fa_pod_get api pod)) (\<lambda>p.
     if \<not> pod_belongs_to_service (al_uuids lib) p service_instance_id \<or> \<not> pod_can_exec p then efail Forbidden
     else take_permit api))))"

definition exec ::
  "'w provider_api \<Rightarrow> ('k, 'n) api_lib \<Rightarrow> 'k api_state \<Rightarrow> uuid \<Rightarrow> i64 \<Rightarrow> string \<Rightarrow> string option \<Rightarrow> ('w, api_error, session) effect" where
  "exec api lib st service_instance_id generation pod authorization =
     ebind (reject_draining api) (\<lambda>_.
     ebind (open_session api lib st service_instance_id generation pod authorization) (\<lambda>_.
     eret (Shell_Session pod)))"

definition ssh_exec ::
  "'w provider_api \<Rightarrow> ('k, 'n) api_lib \<Rightarrow> 'k api_state \<Rightarrow> uuid \<Rightarrow> i64 \<Rightarrow> string \<Rightarrow> string option \<Rightarrow> ('w, api_error, session) effect" where
  "ssh_exec api lib st service_instance_id generation pod authorization =
     ebind (reject_draining api) (\<lambda>_.
     ebind (open_session api lib st service_instance_id generation pod authorization) (\<lambda>_.
     eret (Ssh_Session pod)))"

definition ssh_forward ::
  "'w provider_api \<Rightarrow> ('k, 'n) api_lib \<Rightarrow> 'k api_state \<Rightarrow> uuid \<Rightarrow> i64 \<Rightarrow> string \<Rightarrow> u16 \<Rightarrow> string option \<Rightarrow>
   ('w, api_error, session) effect" where
  "ssh_forward api lib st service_instance_id generation pod port authorization =
     ebind (reject_draining api) (\<lambda>_.
     ebind (etry (ensure (port \<noteq> 0) (BadRequest ''Invalid port''))) (\<lambda>_.
     ebind (open_session api lib st service_instance_id generation pod authorization) (\<lambda>_.
     eret (Forward_Session pod port))))"

section \<open>Sessions\<close>

datatype ws_message = Ws_Binary string | Ws_Text string | Ws_Ping string | Ws_Pong string | Ws_Close

text \<open>What \<open>receiver.next()\<close> gives, and what a process or the socket is asked to do.\<close>

datatype received = Received ws_message | End_Of_Messages | Receive_Error

datatype session_action =
    Send_Text json | Send_Binary string | Send_Pong string | Send_Close
  | Write_Stdin string | Close_Stdin | Resize_Terminal u16 u16

text \<open>A read of the output (no bytes is its end or an error) and a message, each with the success of the write it causes.\<close>

datatype session_event = Output string bool | Incoming received bool

text \<open>\<open>exec_shell\<close>: the actions of an event, and whether the loop goes on.\<close>

definition shell_step :: "(string \<Rightarrow> (u16 \<times> u16) option) \<Rightarrow> session_event \<Rightarrow> session_action list \<times> bool" where
  "shell_step terminal_control e =
     (case e of
        Output bytes ok \<Rightarrow> if bytes = [] then ([], False) else ([Send_Binary bytes], ok)
      | Incoming (Received (Ws_Binary input)) ok \<Rightarrow> ([Write_Stdin input], ok)
      | Incoming (Received (Ws_Text control)) _ \<Rightarrow>
          ((case terminal_control control of
              Some (cols, rows) \<Rightarrow> if 0 < cols \<and> 0 < rows then [Resize_Terminal cols rows] else []
            | None \<Rightarrow> []), True)
      | Incoming (Received (Ws_Ping payload)) ok \<Rightarrow> ([Send_Pong payload], ok)
      | Incoming (Received (Ws_Pong _)) _ \<Rightarrow> ([], True)
      | Incoming _ _ \<Rightarrow> ([], False))"

text \<open>\<open>ssh_forward_stream\<close>\<close>

definition forward_step :: "session_event \<Rightarrow> session_action list \<times> bool" where
  "forward_step e =
     (case e of
        Output bytes ok \<Rightarrow> if bytes = [] then ([], False) else ([Send_Binary bytes], ok)
      | Incoming (Received (Ws_Binary input)) ok \<Rightarrow> ([Write_Stdin input], ok)
      | Incoming (Received (Ws_Text control)) _ \<Rightarrow> if control = ''eof'' then ([Close_Stdin], True) else ([], False)
      | Incoming (Received (Ws_Ping payload)) ok \<Rightarrow> ([Send_Pong payload], ok)
      | Incoming (Received (Ws_Pong _)) _ \<Rightarrow> ([], True)
      | Incoming _ _ \<Rightarrow> ([], False))"

fun session_loop :: "(session_event \<Rightarrow> session_action list \<times> bool) \<Rightarrow> session_event list \<Rightarrow> session_action list" where
  "session_loop step [] = []"
| "session_loop step (e # es) = (case step e of (actions, go_on) \<Rightarrow> actions @ (if go_on then session_loop step es else []))"

text \<open>How a process is started in the container of a pod.\<close>

record exec_call =
  xc_pod :: string
  xc_command :: "string list"
  xc_stderr :: bool
  xc_tty :: bool

text \<open>What a start gives: an error, a process without one of the streams that were asked for, or a process with them.\<close>

datatype process_start = Start_Failed | Missing_Stream | Process_Started

definition shell_call :: "string \<Rightarrow> exec_call" where
  "shell_call pod = \<lparr>xc_pod = pod, xc_command = [''/bin/sh'', ''-c'', EXEC_SHELL_SCRIPT], xc_stderr = False, xc_tty = True\<rparr>"

definition exec_shell ::
  "(string \<Rightarrow> (u16 \<times> u16) option) \<Rightarrow> (exec_call \<Rightarrow> process_start) \<Rightarrow> string \<Rightarrow> session_event list \<Rightarrow> session_action list" where
  "exec_shell terminal_control started pod events =
     (case started (shell_call pod) of
        Start_Failed \<Rightarrow>
          [Send_Text (jobj [(''type'', JStr ''error''), (''message'', JStr ''container shell could not be started'')]), Send_Close]
      | Missing_Stream \<Rightarrow> [Send_Close]
      | Process_Started \<Rightarrow> session_loop (shell_step terminal_control) events @ [Close_Stdin])"

definition forward_call :: "string \<Rightarrow> string \<Rightarrow> u16 \<Rightarrow> exec_call" where
  "forward_call script pod port =
     \<lparr>xc_pod = pod, xc_command = [''/bin/sh'', ''-c'', script, ''flash-ssh-forward'', show_nat port],
      xc_stderr = False, xc_tty = False\<rparr>"

text \<open>\<open>script\<close> is the relay that runs in the container; \<open>greeted\<close> is that the first message could be sent.\<close>

definition ssh_forward_stream ::
  "(exec_call \<Rightarrow> process_start) \<Rightarrow> string \<Rightarrow> string \<Rightarrow> u16 \<Rightarrow> bool \<Rightarrow> session_event list \<Rightarrow> session_action list" where
  "ssh_forward_stream started script pod port greeted events =
     (if started (forward_call script pod port) \<noteq> Process_Started then []
      else Send_Text (jobj [(''type'', JStr ''started'')]) #
           (if \<not> greeted then [] else session_loop forward_step events @ [Send_Close]))"

section \<open>SSH commands\<close>

datatype ssh_exec_message = Ssh_Start "string option" bool u16 u16 | Ssh_Resize u16 u16 | Ssh_Eof

definition ssh_command :: "string option \<Rightarrow> string list option" where
  "ssh_command command =
     (case command of
        None \<Rightarrow> Some [''/bin/sh'', ''-c'', EXEC_SHELL_SCRIPT]
      | Some v \<Rightarrow>
          if v \<noteq> [] \<and> length v \<le> MAX_SSH_COMMAND_BYTES \<and> CHR 0x00 \<notin> set v then Some [''/bin/sh'', ''-c'', v] else None)"

text \<open>The status of a process: its word, and the causes of its details.\<close>

record process_status =
  prs_status :: "string option"
  prs_causes :: "(string option \<times> string option) list option"

definition ssh_exit_code :: "process_status option \<Rightarrow> u32" where
  "ssh_exit_code status =
     (case status of
        None \<Rightarrow> 255
      | Some s \<Rightarrow>
          if prs_status s = Some ''Success'' then 0
          else case find (\<lambda>(cause, _). cause = Some ''ExitCode'') (unwrap_or (prs_causes s) []) of
                 None \<Rightarrow> 255
               | Some (_, message) \<Rightarrow> unwrap_or (Option.bind message (parse_uint 255)) 255)"

record ssh_state =
  ss_stdout_open :: bool
  ss_stderr_open :: bool
  ss_stdin_open :: bool

datatype ssh_event = Stdout string bool | Stderr string bool | Ssh_Incoming received bool

definition frame :: "nat \<Rightarrow> string \<Rightarrow> session_action" where
  "frame stream bytes = Send_Binary (char_of stream # bytes)"

text \<open>
  A step of the loop: the next state, the actions, and \<open>False\<close> when the session is given up. \<open>select!\<close> does not
  read a stream that has ended, so such an event changes nothing.
\<close>

definition ssh_step ::
  "(string \<Rightarrow> ssh_exec_message option) \<Rightarrow> bool \<Rightarrow> ssh_state \<Rightarrow> ssh_event \<Rightarrow> ssh_state \<times> session_action list \<times> bool" where
  "ssh_step control tty s e =
     (case e of
        Stdout bytes ok \<Rightarrow>
          if \<not> ss_stdout_open s then (s, [], True)
          else if bytes = [] then (s\<lparr>ss_stdout_open := False\<rparr>, [], True) else (s, [frame 1 bytes], ok)
      | Stderr bytes ok \<Rightarrow>
          if \<not> ss_stderr_open s then (s, [], True)
          else if bytes = [] then (s\<lparr>ss_stderr_open := False\<rparr>, [], True) else (s, [frame 2 bytes], ok)
      | Ssh_Incoming (Received (Ws_Binary input)) ok \<Rightarrow>
          if ss_stdin_open s then (s\<lparr>ss_stdin_open := ok\<rparr>, [Write_Stdin input], True) else (s, [], True)
      | Ssh_Incoming (Received (Ws_Text raw)) _ \<Rightarrow>
          (case control raw of
             Some (Ssh_Resize cols rows) \<Rightarrow>
               if 0 < cols \<and> 0 < rows then (s, if tty then [Resize_Terminal cols rows] else [], True) else (s, [], False)
           | Some Ssh_Eof \<Rightarrow> (s\<lparr>ss_stdin_open := False\<rparr>, [Close_Stdin], True)
           | _ \<Rightarrow> (s, [], False))
      | Ssh_Incoming (Received (Ws_Ping payload)) ok \<Rightarrow> (s, [Send_Pong payload], ok)
      | Ssh_Incoming (Received (Ws_Pong _)) _ \<Rightarrow> (s, [], True)
      | Ssh_Incoming _ _ \<Rightarrow> (s, [], False))"

text \<open>The loop: its actions, and \<open>True\<close> when both streams have ended.\<close>

fun ssh_loop ::
  "(string \<Rightarrow> ssh_exec_message option) \<Rightarrow> bool \<Rightarrow> ssh_state \<Rightarrow> ssh_event list \<Rightarrow> session_action list \<times> bool" where
  "ssh_loop control tty s [] = ([], \<not> (ss_stdout_open s \<or> ss_stderr_open s))"
| "ssh_loop control tty s (e # es) =
     (if \<not> (ss_stdout_open s \<or> ss_stderr_open s) then ([], True)
      else case ssh_step control tty s e of
             (s', actions, go_on) \<Rightarrow>
               if go_on then (case ssh_loop control tty s' es of (rest, finished) \<Rightarrow> (actions @ rest, finished))
               else (actions, False))"

definition ssh_call :: "string \<Rightarrow> string list \<Rightarrow> bool \<Rightarrow> exec_call" where
  "ssh_call pod command tty = \<lparr>xc_pod = pod, xc_command = command, xc_stderr = \<not> tty, xc_tty = tty\<rparr>"

text \<open>
  \<open>first\<close> is the message that comes within 15 seconds, \<open>status\<close> the one that the process gives in time after its
  end. Without a terminal the standard error is a stream of its own.
\<close>

definition ssh_exec_process ::
  "(string \<Rightarrow> ssh_exec_message option) \<Rightarrow> (exec_call \<Rightarrow> process_start) \<Rightarrow> string \<Rightarrow> received option \<Rightarrow> bool \<Rightarrow> ssh_event list \<Rightarrow>
   process_status option \<Rightarrow> session_action list" where
  "ssh_exec_process control started pod first greeted events status =
     (case first of
        Some (Received (Ws_Text raw)) \<Rightarrow>
          (case control raw of
             Some (Ssh_Start command tty cols rows) \<Rightarrow>
               (case ssh_command command of
                  None \<Rightarrow> []
                | Some argv \<Rightarrow>
                    if tty \<and> (cols = 0 \<or> rows = 0) then []
                    else if started (ssh_call pod argv tty) = Start_Failed then [Send_Text (jobj [(''type'', JStr ''error'')])]
                    else if started (ssh_call pod argv tty) = Missing_Stream then []
                    else (if tty then [Resize_Terminal cols rows] else []) @
                         Send_Text (jobj [(''type'', JStr ''started'')]) #
                         (if \<not> greeted then []
                          else case ssh_loop control tty
                                      \<lparr>ss_stdout_open = True, ss_stderr_open = \<not> tty, ss_stdin_open = True\<rparr> events of
                                 (actions, finished) \<Rightarrow>
                                   actions @
                                   (if finished
                                    then [Send_Text (jobj [(''type'', JStr ''exit''), (''code'', jnat (ssh_exit_code status))]),
                                          Send_Close]
                                    else [])))
           | _ \<Rightarrow> [])
      | _ \<Rightarrow> [])"

section \<open>Shutdown\<close>

text \<open>The number of sessions and the public domain, as \<open>run\<close> reads them from the environment.\<close>

definition max_exec_sessions :: "string option \<Rightarrow> nat" where
  "max_exec_sessions v = max 1 (min (unwrap_or (Option.bind v (parse_uint u64_max)) 32) 256)"

definition configured_public_domain :: "string option \<Rightarrow> string option" where
  "configured_public_domain v = filter_opt (\<lambda>s. s \<noteq> []) v"

text \<open>
  The sessions of a process and its end (\<open>run\<close>, \<open>exec\<close>, \<open>wait_for_exec_sessions\<close>): handlers that have passed the first check of the
  flag, handlers that hold a permit, sessions, free permits. The server stops after the signal and after its
  handlers; the process ends when it holds all permits.
\<close>

record exec_server =
  xs_checked :: nat
  xs_holding :: nat
  xs_active :: nat
  xs_permits :: nat
  xs_draining :: bool
  xs_stopped :: bool
  xs_exited :: bool

definition exec_server_start :: "nat \<Rightarrow> exec_server" where
  "exec_server_start maximum =
     \<lparr>xs_checked = 0, xs_holding = 0, xs_active = 0, xs_permits = maximum, xs_draining = False, xs_stopped = False,
      xs_exited = False\<rparr>"

inductive exec_server_step :: "nat \<Rightarrow> exec_server \<Rightarrow> exec_server \<Rightarrow> bool" for maximum where
  step_check: "\<not> xs_draining s \<Longrightarrow> \<not> xs_stopped s \<Longrightarrow> exec_server_step maximum s (s\<lparr>xs_checked := xs_checked s + 1\<rparr>)"
| step_refuse: "0 < xs_checked s \<Longrightarrow> exec_server_step maximum s (s\<lparr>xs_checked := xs_checked s - 1\<rparr>)"
| step_acquire: "0 < xs_checked s \<Longrightarrow> 0 < xs_permits s \<Longrightarrow>
    exec_server_step maximum s
      (s\<lparr>xs_checked := xs_checked s - 1, xs_permits := xs_permits s - 1, xs_holding := xs_holding s + 1\<rparr>)"
| step_upgrade: "0 < xs_holding s \<Longrightarrow> \<not> xs_draining s \<Longrightarrow>
    exec_server_step maximum s (s\<lparr>xs_holding := xs_holding s - 1, xs_active := xs_active s + 1\<rparr>)"
| step_drop: "0 < xs_holding s \<Longrightarrow> xs_draining s \<Longrightarrow>
    exec_server_step maximum s (s\<lparr>xs_holding := xs_holding s - 1, xs_permits := xs_permits s + 1\<rparr>)"
| step_finish: "0 < xs_active s \<Longrightarrow>
    exec_server_step maximum s (s\<lparr>xs_active := xs_active s - 1, xs_permits := xs_permits s + 1\<rparr>)"
| step_drain: "exec_server_step maximum s (s\<lparr>xs_draining := True\<rparr>)"
| step_stop: "xs_draining s \<Longrightarrow> xs_checked s = 0 \<Longrightarrow> xs_holding s = 0 \<Longrightarrow>
    exec_server_step maximum s (s\<lparr>xs_stopped := True\<rparr>)"
| step_exit: "xs_stopped s \<Longrightarrow> xs_permits s = maximum \<Longrightarrow> \<not> xs_exited s \<Longrightarrow>
    exec_server_step maximum s (s\<lparr>xs_permits := 0, xs_exited := True\<rparr>)"

inductive_cases exec_server_stepE: "exec_server_step maximum s s'"

inductive exec_server_reachable :: "nat \<Rightarrow> exec_server \<Rightarrow> bool" for maximum where
  reachable_start: "exec_server_reachable maximum (exec_server_start maximum)"
| reachable_step: "exec_server_reachable maximum s \<Longrightarrow> exec_server_step maximum s s' \<Longrightarrow> exec_server_reachable maximum s'"

end
