(* ===== verification/Provider_Router.thy ===== *)
theory Provider_Router
  imports Provider_Admin Provider_Objects Exec_Sessions
begin

text \<open>
  The routes of the provider API (\<open>app_router\<close> of \<open>bin/flash-api.rs\<close>): a command is a route with the identifiers of its path and its
  query or body, and \<open>dispatch\<close> is the handler of the route. It takes the fuel of the only loop, the creation of a
  backup. \<open>command_action\<close> is the action a token has to carry, and \<open>in_scope\<close> what the claims of a token have to say.
\<close>

datatype api_command =
    Live | Ready_Probe
  | Gpu_Types | Gpu_Inventory_List | Gpu_Access gpu_access_update_request | Usage_List
  | Put_Destination uuid uuid s3_destination | Get_Destination uuid uuid
  | Backup_Source uuid | Create_Backup uuid backup_request | Get_Backup uuid uuid | Delete_Backup uuid uuid
  | Verify_Backup uuid uuid
  | List_Domains uuid | Add_Domain uuid custom_domain_write | Remove_Domain uuid string
  | Reconcile_Service uuid reconcile_request | Remove_Service uuid i64 | Get_Status uuid i64
  | Put_Secret uuid string string | Delete_Secret uuid string
  | List_Containers uuid i64 | Get_Logs uuid logs_query
  | Exec uuid i64 string | Ssh_Exec uuid i64 string | Ssh_Forward uuid i64 string u16

datatype api_answer =
    Status_Code u16 | Operation u16 accepted_operation | Service_Status flash_service_status
  | Gpu_Catalog "gpu_type_catalog_entry list" | Gpu_Items "gpu_management_item list" | Gpu_Item gpu_management_item
  | Usage usage_report | Destination u16 destination_view | Source_Disk disk_source | Backup_Answer u16 backup_view
  | Backup_Deleted bool | Verification_Requested u16 uuid | Domains "domain_view list"
  | Containers "container_summary list" | Logs log_view | Session session

abbreviation emap :: "('a \<Rightarrow> 'b) \<Rightarrow> ('w, 'e, 'a) effect \<Rightarrow> ('w, 'e, 'b) effect" where
  "emap f m \<equiv> ebind m (\<lambda>x. eret (f x))"

definition dispatch_effect ::
  "'w provider_api \<Rightarrow> ('k, 'n::linorder) api_lib \<Rightarrow> 'k api_state \<Rightarrow> string option \<Rightarrow> api_command \<Rightarrow>
   ('w, api_error, api_answer) effect" where
  "dispatch_effect api lib st authorization c =
     (case c of
        Live \<Rightarrow> eret (Status_Code 200)
      | Ready_Probe \<Rightarrow> emap Status_Code (ready api)
      | Gpu_Types \<Rightarrow> emap Gpu_Catalog (list_gpu_types api lib st authorization)
      | Gpu_Inventory_List \<Rightarrow> emap Gpu_Items (list_gpu_inventory api lib st authorization)
      | Gpu_Access request \<Rightarrow> emap Gpu_Item (update_gpu_access api lib st authorization request)
      | Usage_List \<Rightarrow> emap Usage (list_usage api lib st authorization)
      | Put_Destination organization uuid input \<Rightarrow>
          emap (\<lambda>(code, v). Destination code v) (put_backup_destination api lib st organization uuid authorization input)
      | Get_Destination organization uuid \<Rightarrow>
          emap (Destination 200) (get_backup_destination api lib st organization uuid authorization)
      | Backup_Source uuid \<Rightarrow> emap Source_Disk (get_backup_source api lib st uuid authorization)
      | Get_Backup uuid backup_id \<Rightarrow> emap (Backup_Answer 200) (get_backup_view api lib st uuid backup_id authorization)
      | Delete_Backup uuid backup_id \<Rightarrow> emap Backup_Deleted (delete_backup_command api lib st uuid backup_id authorization)
      | Verify_Backup uuid backup_id \<Rightarrow>
          emap (\<lambda>(code, v). Verification_Requested code v) (verify_backup api lib st uuid backup_id authorization)
      | List_Domains uuid \<Rightarrow> emap Domains (list_custom_domains api lib st uuid authorization)
      | Add_Domain uuid request \<Rightarrow> emap Status_Code (add_custom_domain api lib st uuid authorization request)
      | Remove_Domain uuid hostname \<Rightarrow> emap Status_Code (remove_custom_domain api lib st uuid hostname authorization)
      | Reconcile_Service uuid request \<Rightarrow>
          emap (\<lambda>(code, v). Operation code v) (reconcile_command api lib st uuid authorization request)
      | Remove_Service uuid generation \<Rightarrow>
          emap (\<lambda>(code, v). Operation code v) (remove_command api lib st uuid generation authorization)
      | Get_Status uuid generation \<Rightarrow> emap Service_Status (get_status api lib st uuid generation authorization)
      | Put_Secret uuid name secret \<Rightarrow> emap Status_Code (put_load_balancer_secret api lib st uuid name authorization secret)
      | Delete_Secret uuid name \<Rightarrow> emap Status_Code (delete_load_balancer_secret api lib st uuid name authorization)
      | List_Containers uuid generation \<Rightarrow> emap Containers (list_containers api lib st uuid generation authorization)
      | Get_Logs uuid query \<Rightarrow> emap Logs (get_logs api lib st uuid query authorization)
      | Exec uuid generation pod \<Rightarrow> emap Session (exec api lib st uuid generation pod authorization)
      | Ssh_Exec uuid generation pod \<Rightarrow> emap Session (ssh_exec api lib st uuid generation pod authorization)
      | Ssh_Forward uuid generation pod port \<Rightarrow> emap Session (ssh_forward api lib st uuid generation pod port authorization)
      | Create_Backup uuid request \<Rightarrow> efail NotReady)"

definition dispatch ::
  "nat \<Rightarrow> 'w provider_api \<Rightarrow> ('k, 'n::linorder) api_lib \<Rightarrow> 'k api_state \<Rightarrow> string option \<Rightarrow> api_command \<Rightarrow> 'w \<Rightarrow>
   ((api_error + api_answer) \<times> 'w) option" where
  "dispatch fuel api lib st authorization c w =
     (case c of
        Create_Backup uuid request \<Rightarrow>
          map_option (\<lambda>(r, w'). (bindR r (\<lambda>(code, v). Inr (Backup_Answer code v)), w'))
            (create_backup fuel api lib st uuid authorization request w)
      | _ \<Rightarrow> Some (dispatch_effect api lib st authorization c w))"

text \<open>The action of a command; the two health checks need no token.\<close>

fun command_action :: "api_command \<Rightarrow> string option" where
  "command_action Live = None"
| "command_action Ready_Probe = None"
| "command_action Gpu_Types = Some PROVIDER_GPU_TYPES_LIST_ACTION"
| "command_action Gpu_Inventory_List = Some PROVIDER_GPU_CATALOG_LIST_ACTION"
| "command_action (Gpu_Access _) = Some PROVIDER_GPU_ACCESS_UPDATE_ACTION"
| "command_action Usage_List = Some PROVIDER_USAGE_LIST_ACTION"
| "command_action (Put_Destination _ _ _) = Some ''flash.backups.destination.write''"
| "command_action (Get_Destination _ _) = Some ''flash.backups.destination.get''"
| "command_action (Backup_Source _) = Some ''flash.backups.source''"
| "command_action (Create_Backup _ _) = Some ''flash.backups.create''"
| "command_action (Get_Backup _ _) = Some ''flash.backups.get''"
| "command_action (Delete_Backup _ _) = Some ''flash.backups.delete''"
| "command_action (Verify_Backup _ _) = Some ''flash.backups.verify''"
| "command_action (List_Domains _) = Some LIST_ACTION"
| "command_action (Add_Domain _ _) = Some WRITE_ACTION"
| "command_action (Remove_Domain _ _) = Some WRITE_ACTION"
| "command_action (Reconcile_Service _ _) = Some PROVIDER_RECONCILE_ACTION"
| "command_action (Remove_Service _ _) = Some PROVIDER_DELETE_ACTION"
| "command_action (Get_Status _ _) = Some PROVIDER_STATUS_GET_ACTION"
| "command_action (Put_Secret _ _ _) = Some SECRET_ACTION"
| "command_action (Delete_Secret _ _) = Some SECRET_ACTION"
| "command_action (List_Containers _ _) = Some PROVIDER_LIST_CONTAINERS_ACTION"
| "command_action (Get_Logs _ _) = Some PROVIDER_GET_LOGS_ACTION"
| "command_action (Exec _ _ _) = Some PROVIDER_EXEC_ACTION"
| "command_action (Ssh_Exec _ _ _) = Some PROVIDER_EXEC_ACTION"
| "command_action (Ssh_Forward _ _ _ _) = Some PROVIDER_EXEC_ACTION"

text \<open>The identity that the claims of a command have to name.\<close>

fun in_scope :: "api_command \<Rightarrow> provider_claims \<Rightarrow> bool" where
  "in_scope Live claims = True"
| "in_scope Ready_Probe claims = True"
| "in_scope Gpu_Types claims = True"
| "in_scope Gpu_Inventory_List claims = is_ok (validate_admin_claims claims)"
| "in_scope (Gpu_Access _) claims = is_ok (validate_admin_claims claims)"
| "in_scope Usage_List claims = is_ok (validate_admin_claims claims)"
| "in_scope (Put_Destination organization uuid _) claims =
     (tk_organization_id claims = organization \<and> tk_service_instance_id claims = uuid)"
| "in_scope (Get_Destination organization uuid) claims =
     (tk_organization_id claims = organization \<and> tk_service_instance_id claims = uuid)"
| "in_scope (Backup_Source uuid) claims = (tk_service_instance_id claims = uuid)"
| "in_scope (Create_Backup uuid _) claims = (tk_service_instance_id claims = uuid)"
| "in_scope (Get_Backup uuid _) claims = (tk_service_instance_id claims = uuid)"
| "in_scope (Delete_Backup uuid _) claims = (tk_service_instance_id claims = uuid)"
| "in_scope (Verify_Backup uuid _) claims = (tk_service_instance_id claims = uuid)"
| "in_scope (List_Domains uuid) claims = (tk_service_instance_id claims = uuid)"
| "in_scope (Add_Domain uuid _) claims = (tk_service_instance_id claims = uuid)"
| "in_scope (Remove_Domain uuid _) claims = (tk_service_instance_id claims = uuid)"
| "in_scope (Reconcile_Service uuid request) claims =
     (tk_service_instance_id claims = uuid \<and> tk_generation claims = rr_generation request)"
| "in_scope (Remove_Service uuid generation) claims =
     (tk_service_instance_id claims = uuid \<and> tk_generation claims = generation)"
| "in_scope (Get_Status uuid generation) claims =
     (tk_service_instance_id claims = uuid \<and> tk_generation claims = generation)"
| "in_scope (Put_Secret uuid _ _) claims = (tk_service_instance_id claims = uuid)"
| "in_scope (Delete_Secret uuid _) claims = (tk_service_instance_id claims = uuid)"
| "in_scope (List_Containers uuid generation) claims =
     (tk_service_instance_id claims = uuid \<and> tk_generation claims = generation)"
| "in_scope (Get_Logs uuid query) claims =
     (tk_service_instance_id claims = uuid \<and> tk_generation claims = lq_generation query)"
| "in_scope (Exec uuid generation _) claims = (tk_service_instance_id claims = uuid \<and> tk_generation claims = generation)"
| "in_scope (Ssh_Exec uuid generation _) claims = (tk_service_instance_id claims = uuid \<and> tk_generation claims = generation)"
| "in_scope (Ssh_Forward uuid generation _ _) claims =
     (tk_service_instance_id claims = uuid \<and> tk_generation claims = generation)"

end
