(* ===== verification/Api_Properties.thy ===== *)
theory Api_Properties
  imports Provider_Router Reconcile_Properties Backup_Properties Spec_Properties
begin

text \<open>
  Properties of the provider API: no command runs without a token of its action and scope, an update of a service never
  breaks what the organization was promised, and the secrets and domains of a service stay behind its route
  and its owner.
\<close>

section \<open>Runs of the guards\<close>

lemma reject_draining_run [simp]:
  "reject_draining api w = (if fa_draining api w then Inl Draining else Inr (), w)"
  by (simp add: reject_draining_def ebind_apply)

lemma authorize_run [simp]:
  "authorize api lib st authorization action w =
   (map_err Auth (authenticate (al_auth lib) (as_authenticator st) (fa_now api w) authorization action), w)"
  by (simp add: authorize_def ebind_apply)

lemma authenticate_action:
  "authenticate lib au now authorization action = Inr claims \<Longrightarrow> tk_action claims = action"
  by (auto simp: authenticate_def result_simps elim!: verify_Inr dest: check_claims_Inr)

lemma validate_command_iff:
  "validate_command claims uuid generation = Inr u \<longleftrightarrow>
   tk_service_instance_id claims = uuid \<and> tk_generation claims = generation"
  by (auto simp: validate_command_def ensure_def)

lemma is_ok_ensure [simp]: "is_ok (ensure b e) \<longleftrightarrow> b"
  by (simp add: ensure_def)

text \<open>A computation that fails and leaves the world as it is.\<close>

definition refuses :: "('w, 'e, 'a) effect \<Rightarrow> 'w \<Rightarrow> bool" where
  "refuses m w \<longleftrightarrow> snd (m w) = w \<and> \<not> is_ok (fst (m w))"

lemma refuses_authorize:
  "(\<And>claims. authenticate (al_auth lib) (as_authenticator st) (fa_now api w) authorization action = Inr claims \<Longrightarrow>
      refuses (f claims) w) \<Longrightarrow> refuses (ebind (authorize api lib st authorization action) f) w"
  by (cases "authenticate (al_auth lib) (as_authenticator st) (fa_now api w) authorization action")
     (simp_all add: refuses_def ebind_apply)

lemma refuses_draining: "refuses (f ()) w \<Longrightarrow> refuses (ebind (reject_draining api) f) w"
  by (simp add: refuses_def ebind_apply)

lemma refuses_try: "(\<And>x. r = Inr x \<Longrightarrow> refuses (f x) w) \<Longrightarrow> refuses (ebind (etry r) f) w"
  by (cases r) (simp_all add: refuses_def ebind_apply)

lemma ebind_efail [simp]: "ebind (efail e) f = efail e"
  by (rule ext) (simp add: ebind_apply)

lemma ebind_assoc: "ebind (ebind m f) g = ebind m (\<lambda>x. ebind (f x) g)"
  by (rule ext) (simp add: ebind_apply split: prod.splits sum.splits)

lemmas handler_defs =
  list_gpu_types_def list_gpu_inventory_def update_gpu_access_def list_usage_def put_backup_destination_def
  get_backup_destination_def get_backup_source_def get_backup_view_def delete_backup_command_def verify_backup_def
  list_custom_domains_def add_custom_domain_def remove_custom_domain_def domain_service_def reconcile_command_def
  remove_command_def get_status_def put_load_balancer_secret_def delete_load_balancer_secret_def
  load_balancer_secret_context_def list_containers_def get_logs_def exec_def ssh_exec_def ssh_forward_def open_session_def

lemma scope_checks:
  "backup_destination_scope claims organization uuid = Inr u \<Longrightarrow>
   tk_organization_id claims = organization \<and> tk_service_instance_id claims = uuid"
  "check_request lib claims uuid request = Inr spec \<Longrightarrow>
   tk_service_instance_id claims = uuid \<and> tk_generation claims = rr_generation request"
  by (auto simp: backup_destination_scope_def check_request_def validate_command_def result_simps)

lemma dispatch_effect_refuses:
  assumes "command_action c = Some a" and "\<And>uuid request. c \<noteq> Create_Backup uuid request"
    and "\<And>claims. authenticate (al_auth lib) (as_authenticator st) (fa_now api w) authorization a = Inr claims \<Longrightarrow>
      \<not> in_scope c claims"
  shows "refuses (dispatch_effect api lib st authorization c) w"
  using assms
  by (cases c)
     (auto simp: dispatch_effect_def handler_defs ebind_assoc validate_command_iff result_simps
       intro!: refuses_authorize refuses_draining refuses_try dest: scope_checks)

lemma create_backup_refuses:
  assumes "\<And>claims. authenticate (al_auth lib) (as_authenticator st) (fa_now api w) authorization ''flash.backups.create'' = Inr claims \<Longrightarrow>
      tk_service_instance_id claims \<noteq> uuid"
  shows "\<exists>e. create_backup fuel api lib st uuid authorization request w = Some (Inl e, w)"
  using assms
  by (cases "authenticate (al_auth lib) (as_authenticator st) (fa_now api w) authorization ''flash.backups.create''")
     (auto simp: create_backup_def ebind_apply validate_command_def ensure_def split: prod.splits sum.splits)

text \<open>
  C3. A command of the API other than the two health checks answers without an error, or changes anything at all, only when
  its request carries a token that the authenticator accepts at this moment for the action of the command,
  and whose claims name the resource of the command: the service and, where the command has one, its
  generation; the organization of a backup destination; the nil identity of the administrator.
\<close>

theorem commands_need_token:
  assumes "dispatch fuel api lib st authorization c w = Some (r, w')" and "w' \<noteq> w \<or> is_ok r"
    and "command_action c = Some a"
  shows "\<exists>claims. authenticate (al_auth lib) (as_authenticator st) (fa_now api w) authorization a = Inr claims \<and>
    tk_action claims = a \<and> in_scope c claims"
proof (rule ccontr)
  assume "\<not> ?thesis"
  then have none: "\<not> in_scope c claims"
    if "authenticate (al_auth lib) (as_authenticator st) (fa_now api w) authorization a = Inr claims" for claims
    using that authenticate_action by blast
  show False
  proof (cases "\<exists>uuid request. c = Create_Backup uuid request")
    case True
    then obtain uuid request where c: "c = Create_Backup uuid request" by blast
    then have "\<exists>e. create_backup fuel api lib st uuid authorization request w = Some (Inl e, w)"
      using none assms(3) by (intro create_backup_refuses) simp
    then show False using assms c by (auto simp: dispatch_def)
  next
    case False
    then have "dispatch_effect api lib st authorization c w = (r, w')"
      using assms(1) by (cases c) (auto simp: dispatch_def)
    moreover have "refuses (dispatch_effect api lib st authorization c) w"
      using False none by (intro dispatch_effect_refuses [OF assms(3)]) auto
    ultimately show False using assms(2) by (auto simp: refuses_def)
  qed
qed

section \<open>Samples\<close>

text \<open>A token that names an action for the service 3 of the project 2 of the organization 1.\<close>

definition command_claims :: "string \<Rightarrow> i64 \<Rightarrow> provider_claims" where
  "command_claims action generation = sample_claims\<lparr>tk_action := action, tk_generation := generation\<rparr>"

definition command_auth :: "string \<Rightarrow> i64 \<Rightarrow> unit auth_lib" where
  "command_auth action generation =
     sample_auth_lib\<lparr>lib_decode := (\<lambda>now token key v. if token = ''token'' then Some (command_claims action generation) else None)\<rparr>"

lemma command_authenticated:
  assumes "0 < generation"
  shows "authenticate (command_auth action generation) sample_authenticator 1010 (Some ''Bearer token'') action =
    Inr (command_claims action generation)"
  using assms
  by (simp add: authenticate_def ok_or_def strip_prefix_def filter_opt_def verify_def command_auth_def sample_auth_lib_def
      sample_authenticator_def check_claims_def command_claims_def sample_claims_def ensure_def i64_saturating_sub_def
      i64_saturating_add_def i64_checked_sub_def i64_max_def i64_min_def MAX_TOKEN_TTL_SECONDS_def NOT_BEFORE_OFFSET_SECONDS_def)

text \<open>A server whose world counts its writes.\<close>

definition counting :: "'a \<Rightarrow> (nat, kube_error, 'a) effect" where
  "counting x = (\<lambda>w. (Inr x, w + 1))"

definition delete_command_server :: "nat provider_api \<Rightarrow> nat provider_api" where
  "delete_command_server api =
     api\<lparr>fa_now := (\<lambda>_. 1010), fa_service_get_opt := (\<lambda>_. eret (Some sample_flash)), fa_service_delete := (\<lambda>_. counting ())\<rparr>"

lemma delete_command_run:
  "dispatch 0 (delete_command_server api) (lib\<lparr>al_auth := command_auth PROVIDER_DELETE_ACTION 1\<rparr>)
     (st\<lparr>as_authenticator := sample_authenticator\<rparr>) (Some ''Bearer token'') (Remove_Service 3 1) 0 = Some (Inl NotReady, 1)"
  by (simp add: dispatch_def dispatch_effect_def remove_command_def ebind_apply command_authenticated emap_err_def Let_def
      validate_command_def command_claims_def sample_claims_def ensure_def sample_flash_def counting_def delete_command_server_def)

theorem commands_need_token_witness:
  "\<forall>(api :: nat provider_api) (lib :: (unit, cidr) api_lib) st.
     dispatch 0 (delete_command_server api) (lib\<lparr>al_auth := command_auth PROVIDER_DELETE_ACTION 1\<rparr>)
       (st\<lparr>as_authenticator := sample_authenticator\<rparr>) (Some ''Bearer token'') (Remove_Service 3 1) 0 = Some (Inl NotReady, 1) \<and>
     (\<exists>claims. authenticate (command_auth PROVIDER_DELETE_ACTION 1) sample_authenticator 1010 (Some ''Bearer token'')
        PROVIDER_DELETE_ACTION = Inr claims \<and> tk_action claims = PROVIDER_DELETE_ACTION \<and> in_scope (Remove_Service 3 1) claims)"
  using commands_need_token [OF delete_command_run]
  by (simp add: delete_command_run) (simp add: delete_command_server_def)

section \<open>Updates of a service\<close>

text \<open>
  What an update may do to a service that exists: never another organization or another source of the disk, never
  an older generation; the same generation only with the same desired state; an allocation keeps its owner,
  and a ceiling of the whole organization is not dropped.
\<close>

definition legal_update :: "flash_service_spec \<Rightarrow> flash_service_spec \<Rightarrow> bool" where
  "legal_update old new \<longleftrightarrow>
     svc_organization_id new = svc_organization_id old \<and>
     fs_restore_from_backup_id (svc_workload new) = fs_restore_from_backup_id (svc_workload old) \<and>
     svc_desired_generation old \<le> svc_desired_generation new \<and>
     (svc_desired_generation new = svc_desired_generation old \<longrightarrow>
        svc_display_name new = svc_display_name old \<and> svc_project_id new = svc_project_id old \<and>
        svc_workload new = svc_workload old \<and> svc_subject_id new = svc_subject_id old) \<and>
     (svc_quota_user_id old \<noteq> None \<longrightarrow> svc_quota_user_id new = svc_quota_user_id old) \<and>
     (pol_cloud_organization (svc_policy old) \<noteq> None \<longrightarrow> pol_cloud_organization (svc_policy new) \<noteq> None)"

text \<open>A desired state that the controller accepts, with weekly limits below the safety maxima of the provider.\<close>

definition acceptable_service :: "('k, 'n::linorder) api_lib \<Rightarrow> flash_service_spec \<Rightarrow> bool" where
  "acceptable_service lib new \<longleftrightarrow>
     is_ok (validate_flash_spec (al_nets lib) (al_url_parse lib) (svc_workload new)) \<and>
     pol_cpu_millicore_seconds (svc_policy new) \<le> MAX_WEEKLY_CPU_MILLICORE_SECONDS \<and>
     pol_memory_mib_seconds (svc_policy new) \<le> MAX_WEEKLY_MEMORY_MIB_SECONDS \<and>
     pol_gpu_seconds (svc_policy new) \<le> MAX_WEEKLY_GPU_SECONDS"

text \<open>A server that does something else when a service is applied that does not meet a condition.\<close>

definition guarded_apply ::
  "(string \<Rightarrow> flash_service \<Rightarrow> bool) \<Rightarrow> (string \<Rightarrow> flash_service \<Rightarrow> ('w, kube_error, flash_service) effect) \<Rightarrow>
   'w provider_api \<Rightarrow> 'w provider_api" where
  "guarded_apply allowed other api =
     api\<lparr>fa_service_apply := (\<lambda>n s. if allowed n s then fa_service_apply api n s else other n s)\<rparr>"

lemma guarded_apply_reads:
  "fa_now (guarded_apply P other api) = fa_now api" "fa_draining (guarded_apply P other api) = fa_draining api"
  "fa_service_get_opt (guarded_apply P other api) = fa_service_get_opt api"
  "fa_service_merge (guarded_apply P other api) = fa_service_merge api"
  "fa_backups (guarded_apply P other api) = fa_backups api"
  by (simp_all add: guarded_apply_def)

lemma guarded_apply_same:
  "refresh_quota (guarded_apply P other api) = refresh_quota api"
  "check_restore (guarded_apply P other api) = check_restore api"
  by (intro ext, simp only: refresh_quota_def check_restore_def guarded_apply_reads)+

lemma apply_command_guarded:
  assumes "\<And>now. P (service_resource_name (al_uuids lib) uuid)
    (desired_flash_service (al_uuids lib) claims uuid request spec update now)"
  shows "apply_command (guarded_apply P other api) lib claims uuid request spec update =
    apply_command api lib claims uuid request spec update"
  using assms by (simp add: apply_command_def guarded_apply_def)

lemma update_existing_legal:
  assumes "update_existing uuids claims request spec existing = Inr update"
  shows "legal_update (fsv_spec existing) (fsv_spec (desired_flash_service uuids claims uuid request spec update now))"
  using assms
  by (auto simp: update_existing_def Let_def result_simps preserve_existing_member_quota_def desired_flash_service_def
      legal_update_def split: option.splits if_splits)

lemma desired_unfenced:
  "meta_resource_version (fsv_meta (desired_flash_service uuids claims uuid request spec update now)) = None"
  by (simp add: desired_flash_service_def new_meta_def)

lemma update_existing_policy:
  assumes "update_existing uuids claims request spec existing = Inr update"
  shows "pol_cpu_millicore_seconds (su_policy update) = pol_cpu_millicore_seconds (rr_policy request)"
    "pol_memory_mib_seconds (su_policy update) = pol_memory_mib_seconds (rr_policy request)"
    "pol_gpu_seconds (su_policy update) = pol_gpu_seconds (rr_policy request)"
  using assms
  by (auto simp: update_existing_def Let_def result_simps preserve_existing_member_quota_def split: option.splits if_splits)

lemma check_request_acceptable:
  assumes "check_request lib claims uuid request = Inr spec"
    and "pol_cpu_millicore_seconds (su_policy update) = pol_cpu_millicore_seconds (rr_policy request)"
    and "pol_memory_mib_seconds (su_policy update) = pol_memory_mib_seconds (rr_policy request)"
    and "pol_gpu_seconds (su_policy update) = pol_gpu_seconds (rr_policy request)"
  shows "acceptable_service lib (fsv_spec (desired_flash_service uuids claims uuid request spec update now))"
  using assms
  by (auto simp: check_request_def validate_limits_def result_simps acceptable_service_def desired_flash_service_def)

lemma reconcile_command_existing:
  assumes "fa_service_get_opt api (service_resource_name (al_uuids lib) uuid) w = (Inr (Some existing), w1)"
    and "\<And>claims spec update now. check_request lib claims uuid request = Inr spec \<Longrightarrow>
      update_existing (al_uuids lib) claims request spec existing = Inr update \<Longrightarrow>
      P (service_resource_name (al_uuids lib) uuid) (desired_flash_service (al_uuids lib) claims uuid request spec update now)"
  shows "reconcile_command (guarded_apply P other api) lib st uuid authorization request w =
    reconcile_command api lib st uuid authorization request w"
  unfolding reconcile_command_def
  using assms
  by (intro ebind_cong_at) (auto simp: guarded_apply_reads guarded_apply_same apply_command_guarded emap_err_def result_simps
      intro!: ebind_cong_at split: if_splits)

lemma reconcile_command_new:
  assumes "fa_service_get_opt api (service_resource_name (al_uuids lib) uuid) w = (Inr None, w1)"
    and "\<And>claims spec w2 now. check_request lib claims uuid request = Inr spec \<Longrightarrow>
      check_restore api lib claims spec w1 = (Inr (), w2) \<Longrightarrow>
      P (service_resource_name (al_uuids lib) uuid)
        (desired_flash_service (al_uuids lib) claims uuid request spec (new_service_update (al_uuids lib) claims request) now)"
  shows "reconcile_command (guarded_apply P other api) lib st uuid authorization request w =
    reconcile_command api lib st uuid authorization request w"
  unfolding reconcile_command_def
  using assms
  by (intro ebind_cong_at) (auto simp: guarded_apply_reads guarded_apply_same apply_command_guarded emap_err_def result_simps
      intro!: ebind_cong_at split: if_splits)

text \<open>
  C6. A command that reconciles a service that exists only ever applies a legal update of it: the same organization and
  the same source of its disk, not an older generation and the same generation only for the same desired state,
  the owner of the allocation and the presence of an organization ceiling kept; and the state that it applies is
  one that the validation accepts, with limits below the maxima. The run is the same on a server that does something else
  for any other apply. The update is legal with respect to the service that was read: the apply carries no resource
  version, so nothing makes the server refuse it when the service has changed since.
\<close>

theorem service_update_legal:
  assumes "fa_service_get_opt api (service_resource_name (al_uuids lib) uuid) w = (Inr (Some existing), w1)"
  shows "reconcile_command
      (guarded_apply (\<lambda>n s. n = service_resource_name (al_uuids lib) uuid \<and>
         legal_update (fsv_spec existing) (fsv_spec s) \<and> acceptable_service lib (fsv_spec s) \<and>
         meta_resource_version (fsv_meta s) = None) other api)
      lib st uuid authorization request w = reconcile_command api lib st uuid authorization request w"
  using assms
  by (rule reconcile_command_existing)
     (simp add: update_existing_legal check_request_acceptable update_existing_policy desired_unfenced)

lemma check_restore_Inr:
  assumes "check_restore api lib claims spec w1 = (Inr (), w2)" and "fs_restore_from_backup_id spec = Some b"
  shows "fs_stopped spec \<and> (\<exists>backup w2. ba_backup_get_opt (fa_backups api) (bname (al_backups lib) b) w1 = (Inr (Some backup), w2) \<and>
    fb_organization_id (bk_spec backup) = tk_organization_id claims \<and> is_ready backup \<and> \<not> bk_deleting backup)"
  using assms by (auto simp: check_restore_def result_simps elim!: ebind_Inr split: if_splits)

text \<open>
  C0. A service that is restored from a backup is only created stopped, and only when the backup exists, is ready, is not being
  deleted and belongs to the organization that the token names; and what a command creates is always a state that
  the validation accepts, with limits below the maxima.
\<close>

theorem restored_service_starts_stopped:
  assumes "fa_service_get_opt api (service_resource_name (al_uuids lib) uuid) w = (Inr None, w1)"
  shows "reconcile_command
      (guarded_apply (\<lambda>n s. n = service_resource_name (al_uuids lib) uuid \<and> acceptable_service lib (fsv_spec s) \<and>
         (\<forall>b. fs_restore_from_backup_id (workload s) = Some b \<longrightarrow> fs_stopped (workload s) \<and>
            (\<exists>backup w2. ba_backup_get_opt (fa_backups api) (bname (al_backups lib) b) w1 = (Inr (Some backup), w2) \<and>
               svc_organization_id (fsv_spec s) = uuid_show (al_uuids lib) (fb_organization_id (bk_spec backup)) \<and>
               is_ready backup \<and> \<not> bk_deleting backup))) other api)
      lib st uuid authorization request w = reconcile_command api lib st uuid authorization request w"
proof (rule reconcile_command_new [OF assms], intro conjI allI impI)
  fix claims spec w2 now
  let ?new = "desired_flash_service (al_uuids lib) claims uuid request spec (new_service_update (al_uuids lib) claims request) now"
  assume checked: "check_request lib claims uuid request = Inr spec" and restored: "check_restore api lib claims spec w1 = (Inr (), w2)"
  show "acceptable_service lib (fsv_spec ?new)"
    by (rule check_request_acceptable [OF checked]) (simp_all add: new_service_update_def)
  fix b
  assume "fs_restore_from_backup_id (workload ?new) = Some b"
  then have "fs_restore_from_backup_id spec = Some b" by (simp add: desired_flash_service_def)
  from check_restore_Inr [OF restored this] show "fs_stopped (workload ?new)"
    "\<exists>backup w2. ba_backup_get_opt (fa_backups api) (bname (al_backups lib) b) w1 = (Inr (Some backup), w2) \<and>
       svc_organization_id (fsv_spec ?new) = uuid_show (al_uuids lib) (fb_organization_id (bk_spec backup)) \<and>
       is_ready backup \<and> \<not> bk_deleting backup"
    by (auto simp: desired_flash_service_def)
qed simp

section \<open>Quota updates\<close>

text \<open>
  A merge patch that names the version it was made from and whose effect on a document, in the semantics of RFC 7386, is
  confined to the two quota fields of the specification.
\<close>

definition fenced_quota_patch :: "flash_service \<Rightarrow> json \<Rightarrow> bool" where
  "fenced_quota_patch existing patch \<longleftrightarrow>
     (\<exists>version. meta_resource_version (fsv_meta existing) = Some version \<and>
        jget (jget patch ''metadata'') ''resourceVersion'' = JStr version) \<and>
     (\<forall>user. svc_quota_user_id (fsv_spec existing) = Some user \<longrightarrow>
        jget (jget patch ''spec'') ''quota_user_id'' = JStr user) \<and>
     (\<forall>doc k. k \<noteq> ''spec'' \<and> k \<noteq> ''metadata'' \<longrightarrow> jget_opt (rfc7386 doc patch) k = jget_opt doc k) \<and>
     (\<forall>doc k. k \<noteq> ''quota_user_id'' \<and> k \<noteq> ''policy'' \<longrightarrow>
        jget_opt (jget (rfc7386 doc patch) ''spec'') k = jget_opt (jget doc ''spec'') k) \<and>
     (\<forall>doc k. k \<noteq> ''resourceVersion'' \<longrightarrow>
        jget_opt (jget (rfc7386 doc patch) ''metadata'') k = jget_opt (jget doc ''metadata'') k)"

lemma quota_only_patch_fenced:
  assumes "meta_resource_version (fsv_meta existing) = Some version"
    and "\<And>u. svc_quota_user_id (fsv_spec existing) = Some u \<Longrightarrow> user = Some u"
  shows "fenced_quota_patch existing (quota_only_patch version user policy)"
  using assms
  by (auto simp: fenced_quota_patch_def quota_only_patch_def jget_jobj merge_jobj_absent merge_jobj_object
      unwrap_or_def jnull_def simp del: rfc7386.simps)

text \<open>
  C10. A command that only refreshes the quota of a service never applies the service. It makes at most one merge patch, which names
  the version of the service that was read, keeps the owner of the allocation, and changes no field of the service
  but the owner and the policy, whatever the stored document is; and it does so only for the current generation.
\<close>

theorem quota_update_fenced:
  assumes "fa_service_get_opt api (service_resource_name (al_uuids lib) uuid) w = (Inr (Some existing), w1)"
    and "rr_quota_only request"
  shows "reconcile_command
      (api\<lparr>fa_service_apply := fa_service_apply other,
           fa_service_merge := (\<lambda>n p. if n = service_resource_name (al_uuids lib) uuid \<and> fenced_quota_patch existing p \<and>
               rr_generation request = svc_desired_generation (fsv_spec existing)
             then fa_service_merge api n p else fa_service_merge other n p)\<rparr>)
      lib st uuid authorization request w = reconcile_command api lib st uuid authorization request w"
    (is "reconcile_command ?api lib st uuid authorization request w = _")
proof -
  have same: "refresh_quota ?api lib uuid request existing update = refresh_quota api lib uuid request existing update"
    if "update_existing (al_uuids lib) claims request spec existing = Inr update" for claims spec update
  proof -
    have "fenced_quota_patch existing (quota_only_patch version (su_quota_user_id update) (su_policy update))"
      if "meta_resource_version (fsv_meta existing) = Some version" for version
      using that update_existing_legal [OF \<open>update_existing _ _ _ _ _ = Inr update\<close>]
      by (intro quota_only_patch_fenced) (auto simp: legal_update_def desired_flash_service_def)
    then show ?thesis
      by (cases "meta_resource_version (fsv_meta existing)") (simp_all add: refresh_quota_def ok_or_def etry_def)
  qed
  show ?thesis
    unfolding reconcile_command_def
    using assms
    by (intro ebind_cong_at) (auto simp: same emap_err_def intro!: ebind_cong_at)
qed

section \<open>Runs of the commands\<close>

definition command_lib :: "string \<Rightarrow> i64 \<Rightarrow> flash_spec \<Rightarrow> (unit, cidr) api_lib \<Rightarrow> (unit, cidr) api_lib" where
  "command_lib action generation spec lib =
     lib\<lparr>al_auth := command_auth action generation, al_nets := cidr_ops, al_url_parse := (\<lambda>_. None), al_uuids := hex_uuids,
         al_backups := sample_env, al_spec_of_json := (\<lambda>_. Some spec)\<rparr>"

definition sample_command :: "bool \<Rightarrow> i64 \<Rightarrow> reconcile_request" where
  "sample_command quota_only generation =
     \<lparr>rr_generation = generation, rr_name = ''web'', rr_spec = JNull, rr_policy = default_flash_service_policy,
      rr_quota_user_id = None, rr_quota_only = quota_only\<rparr>"

definition stored_service :: flash_service where
  "stored_service =
     sample_flash\<lparr>fsv_meta := (plain_meta ''flash-3'')\<lparr>meta_resource_version := Some ''41''\<rparr>,
       fsv_spec := (fsv_spec sample_flash)
         \<lparr>svc_organization_id := uuid_show hex_uuids 1, svc_project_id := uuid_show hex_uuids 2,
          svc_service_instance_id := uuid_show hex_uuids 3, svc_quota_user_id := Some ''owner'', svc_workload := sample_spec\<rparr>,
       fsv_status := None\<rparr>"

definition command_server :: "flash_service option \<Rightarrow> flash_backup option \<Rightarrow> nat provider_api \<Rightarrow> nat provider_api" where
  "command_server found backup api =
     api\<lparr>fa_now := (\<lambda>_. 1010), fa_draining := (\<lambda>_. False), fa_service_get_opt := (\<lambda>_. eret found),
         fa_service_apply := (\<lambda>_ s. counting s), fa_service_merge := (\<lambda>_ _. counting stored_service),
         fa_backups := (fa_backups api)\<lparr>ba_backup_get_opt := (\<lambda>_. eret backup)\<rparr>\<rparr>"

definition restored_spec :: flash_spec where
  "restored_spec = sample_spec\<lparr>fs_restore_from_backup_id := Some 9, fs_stopped := True\<rparr>"

lemma restored_spec_fields: "fs_restore_from_backup_id restored_spec = Some 9" "fs_stopped restored_spec"
  by (simp_all add: restored_spec_def)

lemma restored_accepted: "validate_flash_spec cidr_ops (\<lambda>_. None) restored_spec = Inr ()"
proof -
  have "validate_networks cidr_ops restored_spec = Inr ()"
    using sample_networks by (simp add: restored_spec_def validate_networks_def cong: option.case_cong)
  moreover have "validate_environment restored_spec = Inr ()"
    using sample_environment by (simp add: restored_spec_def validate_environment_def effective_secret_env_def)
  moreover have "validate_shape (\<lambda>_. None) restored_spec = Inr ()"
    by (simp add: restored_spec_def sample_spec_eval)
  ultimately show ?thesis
    by (simp add: validate_flash_spec_def) (simp add: restored_spec_def sample_spec_eval)
qed

lemma sample_name_accepted: "validate_display_name ''web'' = Inr ()"
  by (simp add: validate_display_name_def ensure_def is_trimmed_def) (simp add: sample_spec_eval)

lemmas command_run_defs =
  reconcile_command_def ebind_apply command_authenticated command_lib_def command_server_def sample_command_def
  check_request_def validate_command_def command_claims_def sample_claims_def ensure_def sample_name_accepted
  ok_or_def validate_cloud_organization_policy_def validate_limits_def default_flash_service_policy_def
  emap_err_def apply_command_def counting_def operation_answer_def Let_def filter_opt_def desired_flash_service_def
  stored_service_def sample_flash_def limit_defs

lemma command_server_found:
  "fa_service_get_opt (command_server found backup api) name w = (Inr found, w)"
  by (simp add: command_server_def)

text \<open>The parts of a sample run that are the same in all of them.\<close>

abbreviation run_lib :: "i64 \<Rightarrow> flash_spec \<Rightarrow> (unit, cidr) api_lib \<Rightarrow> (unit, cidr) api_lib" where
  "run_lib \<equiv> command_lib PROVIDER_RECONCILE_ACTION"

abbreviation run_command ::
  "nat provider_api \<Rightarrow> (unit, cidr) api_lib \<Rightarrow> unit api_state \<Rightarrow> reconcile_request \<Rightarrow>
   (api_error + u16 \<times> accepted_operation) \<times> nat" where
  "run_command api lib st request \<equiv>
     reconcile_command api lib (st\<lparr>as_authenticator := sample_authenticator\<rparr>) 3 (Some ''Bearer token'') request 0"

lemma update_run:
  "run_command (command_server (Some stored_service) None api) (run_lib 2 sample_spec lib) st (sample_command False 2) =
   (Inl NotReady, 1)"
  by (simp add: command_run_defs sample_accepted update_existing_def preserve_existing_member_quota_def)

theorem service_update_legal_witness:
  "\<forall>api lib st other.
     run_command
       (guarded_apply (\<lambda>n s. n = service_resource_name (al_uuids (run_lib 2 sample_spec lib)) 3 \<and>
          legal_update (fsv_spec stored_service) (fsv_spec s) \<and> acceptable_service (run_lib 2 sample_spec lib) (fsv_spec s) \<and>
          meta_resource_version (fsv_meta s) = None) other
          (command_server (Some stored_service) None api))
       (run_lib 2 sample_spec lib) st (sample_command False 2) = (Inl NotReady, 1)"
  by (intro allI trans [OF service_update_legal [OF command_server_found] update_run])

lemma restore_run:
  "run_command (command_server None (Some ready_backup) api) (run_lib 1 restored_spec lib) st (sample_command False 1) =
   (Inl NotReady, 1)"
  by (simp add: command_run_defs restored_accepted check_restore_def new_service_update_def ready_backup_def ready_status_def
      sample_backup_def is_ready_def plain_meta_def
      restored_spec_fields)

theorem restored_service_starts_stopped_witness:
  "\<forall>api lib st other.
     run_command
       (guarded_apply (\<lambda>n s. n = service_resource_name (al_uuids (run_lib 1 restored_spec lib)) 3 \<and>
          acceptable_service (run_lib 1 restored_spec lib) (fsv_spec s) \<and>
          (\<forall>b. fs_restore_from_backup_id (workload s) = Some b \<longrightarrow> fs_stopped (workload s) \<and>
             (\<exists>backup w2. ba_backup_get_opt (fa_backups (command_server None (Some ready_backup) api))
                  (bname (al_backups (run_lib 1 restored_spec lib)) b) 0 = (Inr (Some backup), w2) \<and>
                svc_organization_id (fsv_spec s) = uuid_show (al_uuids (run_lib 1 restored_spec lib)) (fb_organization_id (bk_spec backup)) \<and>
                is_ready backup \<and> \<not> bk_deleting backup))) other
          (command_server None (Some ready_backup) api))
       (run_lib 1 restored_spec lib) st (sample_command False 1) = (Inl NotReady, 1)"
  by (intro allI trans [OF restored_service_starts_stopped [OF command_server_found] restore_run])

lemma quota_run:
  "run_command (command_server (Some stored_service) None api) (run_lib 1 sample_spec lib) st (sample_command True 1) =
   (Inr (202, for_resource (run_lib 1 sample_spec lib) 3 1 PROVIDER_RECONCILE_ACTION JNull), 1)"
  by (simp add: command_run_defs sample_accepted update_existing_def preserve_existing_member_quota_def refresh_quota_def
      for_resource_def status_json_def jnull_def)

theorem quota_update_fenced_witness:
  "\<forall>api lib st other.
     run_command
       (command_server (Some stored_service) None api
          \<lparr>fa_service_apply := fa_service_apply other,
           fa_service_merge := (\<lambda>n p. if n = service_resource_name (al_uuids (run_lib 1 sample_spec lib)) 3 \<and>
               fenced_quota_patch stored_service p \<and>
               rr_generation (sample_command True 1) = svc_desired_generation (fsv_spec stored_service)
             then fa_service_merge (command_server (Some stored_service) None api) n p else fa_service_merge other n p)\<rparr>)
       (run_lib 1 sample_spec lib) st (sample_command True 1) =
     (Inr (202, for_resource (run_lib 1 sample_spec lib) 3 1 PROVIDER_RECONCILE_ACTION JNull), 1)"
  by (intro allI trans [OF quota_update_fenced [OF command_server_found] quota_run]) (simp add: sample_command_def)

end
