(* ===== verification/Session_Properties.thy ===== *)
theory Session_Properties
  imports Api_Properties
begin

text \<open>
  Properties of shells and SSH sessions: where a session may be opened and what happens to its permit, what a client sees of a
  process, and how the server ends its sessions.
\<close>

section \<open>Opening a session\<close>

lemma emap_err_cases:
  "emap_err f m w = (r, w') \<longleftrightarrow> (\<exists>d. m w = (d, w') \<and> r = map_err f d)"
  by (cases "m w"; cases "fst (m w)") (auto simp: emap_err_def)

text \<open>The pool of permits: the calls that a handler makes change it only where they say so.\<close>

locale session_permits =
  fixes permits :: "'w \<Rightarrow> nat" and api :: "'w provider_api"
  assumes acquire: "fa_try_acquire api w = (b, w') \<Longrightarrow>
      (if b then permits w' + 1 = permits w else permits w' = permits w)"
    and release: "permits (fa_release api w) = permits w + 1"
    and service_keeps: "fa_service_get api name w = (s, w') \<Longrightarrow> permits w' = permits w"
    and pod_keeps: "fa_pod_get api name w = (p, w') \<Longrightarrow> permits w' = permits w"
begin

lemma take_permit_balance:
  "take_permit api w = (r, w') \<Longrightarrow> (if is_ok r then permits w' + 1 = permits w else permits w' = permits w)"
  using release by (auto simp: take_permit_def split: prod.splits bool.splits if_splits dest!: acquire)

lemma ebind_balance:
  assumes "ebind m f w = (r, w')" and "\<And>x w'. m w = (x, w') \<Longrightarrow> permits w' = permits w"
    and "\<And>x w1. m w = (Inr x, w1) \<Longrightarrow> f x w1 = (r, w') \<Longrightarrow>
      (if is_ok r then permits w' + 1 = permits w1 else permits w' = permits w1)"
  shows "if is_ok r then permits w' + 1 = permits w else permits w' = permits w"
  using assms by (cases "m w"; cases "fst (m w)") (auto simp: ebind_apply)

lemma open_session_balance:
  assumes "open_session api lib st uuid generation pod authorization w = (r, w')"
  shows "if is_ok r then permits w' + 1 = permits w else permits w' = permits w"
  using assms unfolding open_session_def
  by (elim ebind_balance)
     (auto simp: authorize_def ebind_apply validate_resource_scope_def emap_err_cases split: if_splits prod.splits sum.splits
       dest: service_keeps pod_keeps take_permit_balance)

end

text \<open>The service, the generation and the pod of a command that opens a session.\<close>

fun session_target :: "api_command \<Rightarrow> (uuid \<times> i64 \<times> string) option" where
  "session_target (Exec uuid generation pod) = Some (uuid, generation, pod)"
| "session_target (Ssh_Exec uuid generation pod) = Some (uuid, generation, pod)"
| "session_target (Ssh_Forward uuid generation pod port) = Some (uuid, generation, pod)"
| "session_target _ = None"

lemma session_command:
  assumes "session_target c = Some (uuid, generation, pod)" and "dispatch_effect api lib st authorization c w = (r, w')"
  obtains "\<not> is_ok r" and "w' = w"
  | r0 where "\<not> fa_draining api w" and "open_session api lib st uuid generation pod authorization w = (r0, w')"
      and "is_ok r0 = is_ok r"
  using assms
  by (cases c) (auto simp: dispatch_effect_def exec_def ssh_exec_def ssh_forward_def reject_draining_def ebind_apply ensure_def
      split: prod.splits sum.splits if_splits)

lemma open_session_Inr:
  assumes "open_session api lib st uuid generation pod authorization w = (Inr u, w')"
  obtains claims resource w1 p w2 where
    "authenticate (al_auth lib) (as_authenticator st) (fa_now api w) authorization PROVIDER_EXEC_ACTION = Inr claims"
    and "fa_service_get api (service_resource_name (al_uuids lib) uuid) w = (Inr resource, w1)"
    and "validate_resource_access (al_uuids lib) resource claims uuid generation = Inr ()"
    and "fa_pod_get api pod w1 = (Inr p, w2)" and "pod_belongs_to_service (al_uuids lib) p uuid" and "pod_can_exec p"
    and "\<not> fa_draining api w'"
  using assms
  by (auto simp: open_session_def authorize_def validate_resource_scope_def take_permit_def result_simps
      elim!: ebind_Inr split: if_splits prod.splits bool.splits)

text \<open>
  C13. A command for a shell, an SSH session or a forwarded port that succeeds holds exactly one permit more than before, in a server
  that is not draining, for a pod that carries the instance label of the service, is running and has a running workload container;
  the service belongs to the organization and project of the token, is not being deleted and has the generation of
  the command. A command that fails leaves the number of free permits as it was, on every path. Hypothesis: reads of
  services and pods do not touch the pool, acquiring takes one permit or none, releasing gives one back.
\<close>

theorem session_permit_and_target:
  assumes "session_permits permits api" and "session_target c = Some (uuid, generation, pod)"
    and "dispatch_effect api lib st authorization c w = (r, w')"
  shows "if is_ok r
    then permits w' + 1 = permits w \<and> \<not> fa_draining api w \<and> \<not> fa_draining api w' \<and>
      (\<exists>claims resource p w1 w2. fa_service_get api (service_resource_name (al_uuids lib) uuid) w = (Inr resource, w1) \<and>
         fa_pod_get api pod w1 = (Inr p, w2) \<and>
         svc_organization_id (fsv_spec resource) = uuid_show (al_uuids lib) (tk_organization_id claims) \<and>
         svc_project_id (fsv_spec resource) = uuid_show (al_uuids lib) (tk_project_id claims) \<and>
         authenticate (al_auth lib) (as_authenticator st) (fa_now api w) authorization PROVIDER_EXEC_ACTION = Inr claims \<and>
         svc_desired_generation (fsv_spec resource) = generation \<and> meta_deletion_timestamp (fsv_meta resource) = None \<and>
         pod_belongs_to_service (al_uuids lib) p uuid \<and> pod_can_exec p)
    else permits w' = permits w"
proof (cases rule: session_command [OF assms(2,3)])
  case (2 r0)
  have "if is_ok r0 then permits w' + 1 = permits w else permits w' = permits w"
    using session_permits.open_session_balance [OF assms(1) 2(2)] .
  moreover have "\<exists>claims resource p w1 w2. fa_service_get api (service_resource_name (al_uuids lib) uuid) w = (Inr resource, w1) \<and>
      fa_pod_get api pod w1 = (Inr p, w2) \<and>
      svc_organization_id (fsv_spec resource) = uuid_show (al_uuids lib) (tk_organization_id claims) \<and>
      svc_project_id (fsv_spec resource) = uuid_show (al_uuids lib) (tk_project_id claims) \<and>
      authenticate (al_auth lib) (as_authenticator st) (fa_now api w) authorization PROVIDER_EXEC_ACTION = Inr claims \<and>
      svc_desired_generation (fsv_spec resource) = generation \<and> meta_deletion_timestamp (fsv_meta resource) = None \<and>
      pod_belongs_to_service (al_uuids lib) p uuid \<and> pod_can_exec p" and "\<not> fa_draining api w'" if "is_ok r0"
    using that 2(2)
    by (auto simp: is_ok_iff validate_resource_access_def validate_resource_identity_def result_simps elim!: open_session_Inr)
  ultimately show ?thesis using 2 by (auto simp del: split_paired_Ex)
qed simp

text \<open>A server whose world is the number of free permits.\<close>

definition running_pod :: "uuid \<Rightarrow> pod" where
  "running_pod uuid =
     \<lparr>pod_name = ''web-1'', pod_labels = Some [(''flash.heterocloud.io/instance'', uuid_show hex_uuids uuid)],
      pod_node_name = None, pod_deletion_timestamp = None, pod_containers = None,
      pod_status_of = Some
        \<lparr>ps_phase = Some ''Running'', ps_conditions = None,
         ps_container_statuses = Some
           [\<lparr>cs_name = ''workload'', cs_state = Some \<lparr>cst_waiting_reason = None, cst_waiting_message = None, cst_terminated = None,
              cst_running = True\<rparr>, cs_last_state = None, cs_restart_count = 0\<rparr>],
         ps_init_container_statuses = None\<rparr>\<rparr>"

definition pool_server :: "nat provider_api \<Rightarrow> nat provider_api" where
  "pool_server api =
     api\<lparr>fa_now := (\<lambda>_. 1010), fa_draining := (\<lambda>_. False), fa_service_get := (\<lambda>_. eret stored_service),
         fa_pod_get := (\<lambda>_. eret (running_pod 3)), fa_try_acquire := (\<lambda>n. (0 < n, n - 1)), fa_release := Suc\<rparr>"

interpretation counted: session_permits "\<lambda>n. n" "pool_server api" for api
  by unfold_locales (auto simp: pool_server_def)

lemma pool_run:
  "dispatch_effect (pool_server api) (command_lib PROVIDER_EXEC_ACTION 1 sample_spec lib)
     (st\<lparr>as_authenticator := sample_authenticator\<rparr>) (Some ''Bearer token'') (Exec 3 1 ''web-1'') 4 =
   (Inr (Session (Shell_Session ''web-1'')), 3)"
  by (simp add: dispatch_effect_def exec_def open_session_def ebind_apply command_authenticated command_lib_def pool_server_def
      validate_command_def command_claims_def sample_claims_def ensure_def validate_resource_scope_def emap_err_def
      validate_resource_access_def validate_resource_identity_def stored_service_def plain_meta_def pod_belongs_to_service_def
      running_pod_def sample_flash_def pod_can_exec_def take_permit_def)

theorem session_permit_and_target_witness:
  "\<forall>api lib st.
     fst (dispatch_effect (pool_server api) (command_lib PROVIDER_EXEC_ACTION 1 sample_spec lib)
       (st\<lparr>as_authenticator := sample_authenticator\<rparr>) (Some ''Bearer token'') (Exec 3 1 ''web-1'') 4) =
       Inr (Session (Shell_Session ''web-1'')) \<and>
     (\<exists>p w1 w2. fa_pod_get (pool_server api) ''web-1'' w1 = (Inr p, w2) \<and> pod_can_exec p)"
  using session_permit_and_target [OF counted.session_permits_axioms _ pool_run]
  by (simp add: pool_run) blast

section \<open>Shutdown\<close>

text \<open>Permits are never lost; a stopped server has no handler left, and an ended process holds all permits.\<close>

definition exec_server_inv :: "nat \<Rightarrow> exec_server \<Rightarrow> bool" where
  "exec_server_inv maximum s \<longleftrightarrow>
     xs_permits s + xs_holding s + xs_active s = (if xs_exited s then 0 else maximum) \<and>
     (xs_stopped s \<longrightarrow> xs_draining s \<and> xs_checked s = 0 \<and> xs_holding s = 0) \<and>
     (xs_exited s \<longrightarrow> xs_stopped s)"

lemma exec_server_inv_step: "exec_server_step maximum s s' \<Longrightarrow> exec_server_inv maximum s \<Longrightarrow> exec_server_inv maximum s'"
  by (auto elim!: exec_server_stepE simp: exec_server_inv_def split: if_splits)

lemma exec_server_reachable_inv: "exec_server_reachable maximum s \<Longrightarrow> exec_server_inv maximum s"
proof (induction rule: exec_server_reachable.induct)
  case reachable_start
  show ?case by (simp add: exec_server_start_def exec_server_inv_def)
qed (rule exec_server_inv_step)

lemma finish_all:
  "(exec_server_step maximum)\<^sup>*\<^sup>* s (s\<lparr>xs_active := 0, xs_permits := xs_permits s + xs_active s\<rparr>)"
proof (induction "xs_active s" arbitrary: s)
  case 0
  then have "s\<lparr>xs_active := 0, xs_permits := xs_permits s + xs_active s\<rparr> = s" by (cases s) simp
  then show ?case by simp
next
  case (Suc n)
  then show ?case
    using step_finish [of s maximum] Suc(1) [of "s\<lparr>xs_active := xs_active s - 1, xs_permits := xs_permits s + 1\<rparr>"]
    by (auto elim!: converse_rtranclp_into_rtranclp)
qed

lemma drop_all:
  "xs_draining s \<Longrightarrow> (exec_server_step maximum)\<^sup>*\<^sup>* s (s\<lparr>xs_holding := 0, xs_permits := xs_permits s + xs_holding s\<rparr>)"
proof (induction "xs_holding s" arbitrary: s)
  case 0
  then have "s\<lparr>xs_holding := 0, xs_permits := xs_permits s + xs_holding s\<rparr> = s" by (cases s) simp
  then show ?case by simp
next
  case (Suc n)
  then show ?case
    using step_drop [of s maximum] Suc(1) [of "s\<lparr>xs_holding := xs_holding s - 1, xs_permits := xs_permits s + 1\<rparr>"]
    by (auto elim!: converse_rtranclp_into_rtranclp)
qed

lemma refuse_all: "(exec_server_step maximum)\<^sup>*\<^sup>* s (s\<lparr>xs_checked := 0\<rparr>)"
proof (induction "xs_checked s" arbitrary: s)
  case 0
  then have "s\<lparr>xs_checked := 0\<rparr> = s" by (cases s) simp
  then show ?case by simp
next
  case (Suc n)
  then show ?case
    using step_refuse [of s maximum] Suc(1) [of "s\<lparr>xs_checked := xs_checked s - 1\<rparr>"]
    by (auto elim!: converse_rtranclp_into_rtranclp)
qed

lemma shutdown_possible:
  assumes "exec_server_inv maximum s" and "\<not> xs_exited s"
  shows "\<exists>s'. (exec_server_step maximum)\<^sup>*\<^sup>* s s' \<and> xs_exited s'"
proof -
  let ?d = "s\<lparr>xs_draining := True\<rparr>"
  let ?r = "?d\<lparr>xs_checked := 0\<rparr>"
  let ?h = "?r\<lparr>xs_holding := 0, xs_permits := xs_permits ?r + xs_holding ?r\<rparr>"
  let ?a = "?h\<lparr>xs_active := 0, xs_permits := xs_permits ?h + xs_active ?h\<rparr>"
  let ?p = "?a\<lparr>xs_stopped := True\<rparr>"
  have "(exec_server_step maximum)\<^sup>*\<^sup>* ?d ?a"
    using refuse_all [of maximum ?d] drop_all [of ?r maximum] finish_all [of maximum ?h] by simp
  moreover have "exec_server_step maximum s ?d" by (rule step_drain)
  moreover have "exec_server_step maximum ?a ?p" by (rule step_stop) simp_all
  moreover have "exec_server_step maximum ?p (?p\<lparr>xs_permits := 0, xs_exited := True\<rparr>)"
    using assms by (intro step_exit) (simp_all add: exec_server_inv_def)
  ultimately have "(exec_server_step maximum)\<^sup>*\<^sup>* s (?p\<lparr>xs_permits := 0, xs_exited := True\<rparr>)"
    by (meson converse_rtranclp_into_rtranclp rtranclp.rtrancl_into_rtrancl)
  moreover have "xs_exited (?p\<lparr>xs_permits := 0, xs_exited := True\<rparr>)" by simp
  ultimately show ?thesis by blast
qed

text \<open>
  C19. In every state that the process can reach, free permits, handlers that hold one and sessions add up to the maximum, so
  there are never more sessions than permits; the process ends only when no session and no handler is left; no
  step adds a session once the server drains; and from every such state the process can still end, by refusing the handlers and
  letting the sessions finish.
\<close>

theorem shutdown_waits_for_sessions:
  assumes "exec_server_reachable maximum s"
  shows "xs_active s \<le> maximum \<and>
    (xs_exited s \<longrightarrow> xs_active s = 0 \<and> xs_holding s = 0 \<and> xs_checked s = 0) \<and>
    (\<not> xs_exited s \<longrightarrow> xs_permits s + xs_holding s + xs_active s = maximum) \<and>
    (\<forall>s'. exec_server_step maximum s s' \<and> xs_draining s \<longrightarrow> xs_draining s' \<and> xs_active s' \<le> xs_active s) \<and>
    (\<not> xs_exited s \<longrightarrow> (\<exists>s'. (exec_server_step maximum)\<^sup>*\<^sup>* s s' \<and> xs_exited s'))"
proof -
  have inv: "exec_server_inv maximum s" using assms by (rule exec_server_reachable_inv)
  moreover have "\<forall>s'. exec_server_step maximum s s' \<and> xs_draining s \<longrightarrow> xs_draining s' \<and> xs_active s' \<le> xs_active s"
    by (auto elim!: exec_server_stepE)
  moreover have "\<not> xs_exited s \<longrightarrow> (\<exists>s'. (exec_server_step maximum)\<^sup>*\<^sup>* s s' \<and> xs_exited s')"
    using shutdown_possible [OF inv] by blast
  ultimately show ?thesis
    by (auto simp: exec_server_inv_def split: if_splits)
qed

definition sample_session_state :: exec_server where
  "sample_session_state =
     \<lparr>xs_checked = 0, xs_holding = 0, xs_active = 1, xs_permits = 1, xs_draining = True, xs_stopped = False, xs_exited = False\<rparr>"

lemma sample_session_reachable: "exec_server_reachable 2 sample_session_state"
proof -
  let ?s = "exec_server_start 2"
  have "exec_server_reachable 2 (?s\<lparr>xs_checked := 1\<rparr>)"
    using reachable_step [OF reachable_start step_check, of 2] by (simp add: exec_server_start_def)
  from reachable_step [OF this step_acquire] have "exec_server_reachable 2 (?s\<lparr>xs_permits := 1, xs_holding := 1\<rparr>)"
    by (simp add: exec_server_start_def)
  from reachable_step [OF this step_upgrade] have "exec_server_reachable 2 (?s\<lparr>xs_permits := 1, xs_active := 1\<rparr>)"
    by (simp add: exec_server_start_def)
  from reachable_step [OF this step_drain] show ?thesis
    by (simp add: exec_server_start_def sample_session_state_def)
qed

theorem shutdown_waits_for_sessions_witness:
  "exec_server_reachable 2 sample_session_state \<and> xs_active sample_session_state \<le> 2 \<and>
   (\<exists>s'. (exec_server_step 2)\<^sup>*\<^sup>* sample_session_state s' \<and> xs_exited s')"
  using shutdown_waits_for_sessions [OF sample_session_reachable] sample_session_reachable
  by (simp add: sample_session_state_def)

section \<open>Streams of a process\<close>

text \<open>What a process writes to a stream until it ends, and what a client has been sent of it.\<close>

fun stdout_of :: "ssh_event list \<Rightarrow> string" where
  "stdout_of [] = []"
| "stdout_of (Stdout bytes _ # es) = (if bytes = [] then [] else bytes @ stdout_of es)"
| "stdout_of (_ # es) = stdout_of es"

fun stderr_of :: "ssh_event list \<Rightarrow> string" where
  "stderr_of [] = []"
| "stderr_of (Stderr bytes _ # es) = (if bytes = [] then [] else bytes @ stderr_of es)"
| "stderr_of (_ # es) = stderr_of es"

fun delivered :: "nat \<Rightarrow> session_action list \<Rightarrow> string" where
  "delivered stream [] = []"
| "delivered stream (Send_Binary (c # bytes) # as) = (if c = char_of stream then bytes @ delivered stream as else delivered stream as)"
| "delivered stream (_ # as) = delivered stream as"

lemma delivered_append [simp]: "delivered stream (as @ bs) = delivered stream as @ delivered stream bs"
  by (induction stream as rule: delivered.induct) auto

text \<open>What a client has sent, and what was written to the process.\<close>

fun inputs_of :: "ssh_event list \<Rightarrow> string list" where
  "inputs_of [] = []"
| "inputs_of (Ssh_Incoming (Received (Ws_Binary input)) _ # es) = input # inputs_of es"
| "inputs_of (_ # es) = inputs_of es"

fun written :: "session_action list \<Rightarrow> string list" where
  "written [] = []"
| "written (Write_Stdin input # as) = input # written as"
| "written (_ # as) = written as"

fun closed_once :: "session_action list \<Rightarrow> bool" where
  "closed_once [] = True"
| "closed_once (Close_Stdin # as) = (written as = [])"
| "closed_once (_ # as) = closed_once as"

lemma written_append [simp]: "written (as @ bs) = written as @ written bs"
  by (induction as rule: written.induct) auto

lemma ssh_step_outputs:
  assumes "ssh_step control tty s e = (s', as, True)"
  shows "delivered 1 as @ (if ss_stdout_open s' then stdout_of es else []) = (if ss_stdout_open s then stdout_of (e # es) else [])"
    and "delivered 2 as @ (if ss_stderr_open s' then stderr_of es else []) = (if ss_stderr_open s then stderr_of (e # es) else [])"
  using assms
  by (auto simp: ssh_step_def frame_def split: if_splits option.splits ssh_exec_message.splits ssh_event.splits received.splits ws_message.splits)


lemma ssh_loop_outputs:
  "ssh_loop control tty s es = (as, True) \<Longrightarrow>
   delivered 1 as = (if ss_stdout_open s then stdout_of es else []) \<and>
   delivered 2 as = (if ss_stderr_open s then stderr_of es else [])"
proof (induction es arbitrary: s as)
  case (Cons e es)
  show ?case
  proof (cases "ss_stdout_open s \<or> ss_stderr_open s")
    case True
    obtain s' first go_on where step: "ssh_step control tty s e = (s', first, go_on)" by (cases "ssh_step control tty s e")
    obtain rest where "go_on" and rest: "ssh_loop control tty s' es = (rest, True)" and "as = first @ rest"
      using Cons.prems True step by (auto split: if_splits prod.splits)
    with step show ?thesis
      using Cons.IH [OF rest] ssh_step_outputs [of control tty s e s' first es] by simp
  qed (use Cons.prems in auto)
qed auto

lemma ssh_step_inputs:
  assumes "ssh_step control tty s e = (s', as, go_on)"
  shows "closed_once as \<and> (Close_Stdin \<in> set as \<longrightarrow> \<not> ss_stdin_open s') \<and> (ss_stdin_open s' \<longrightarrow> ss_stdin_open s) \<and>
    written as = (if ss_stdin_open s then inputs_of [e] else [])"
  using assms
  by (auto simp: ssh_step_def frame_def split: if_splits option.splits ssh_exec_message.splits ssh_event.splits
      received.splits ws_message.splits)

lemma inputs_of_Cons: "inputs_of (e # es) = inputs_of [e] @ inputs_of es"
  by (cases "[e]" rule: inputs_of.cases) auto

lemma closed_once_append:
  "closed_once as \<Longrightarrow> closed_once bs \<Longrightarrow> (Close_Stdin \<in> set as \<Longrightarrow> written bs = []) \<Longrightarrow> closed_once (as @ bs)"
  by (induction as rule: closed_once.induct) auto

lemma ssh_loop_inputs:
  "ssh_loop control tty s es = (as, finished) \<Longrightarrow>
   closed_once as \<and> prefix (written as) (inputs_of es) \<and> (ss_stdin_open s \<or> written as = [])"
proof (induction es arbitrary: s as finished)
  case (Cons e es)
  show ?case
  proof (cases "ss_stdout_open s \<or> ss_stderr_open s")
    case True
    obtain s' first go_on where step: "ssh_step control tty s e = (s', first, go_on)" by (cases "ssh_step control tty s e")
    obtain rest fin where rest: "ssh_loop control tty s' es = (rest, fin)" by (cases "ssh_loop control tty s' es")
    then have "as = first \<or> as = first @ rest"
      using Cons.prems True step by (auto split: if_splits)
    then show ?thesis
      unfolding inputs_of_Cons [of e es]
      using Cons.IH [OF rest] ssh_step_inputs [OF step]
      by (elim disjE; cases "ss_stdin_open s"; auto intro!: closed_once_append)
  qed (use Cons.prems in auto)
qed auto

lemma ssh_step_no_close: "ssh_step control tty s e = (s', as, go_on) \<Longrightarrow> Send_Close \<notin> set as"
  by (auto simp: ssh_step_def frame_def split: if_splits option.splits ssh_exec_message.splits ssh_event.splits
      received.splits ws_message.splits)

lemma ssh_loop_no_close: "ssh_loop control tty s es = (as, finished) \<Longrightarrow> Send_Close \<notin> set as"
proof (induction es arbitrary: s as finished)
  case (Cons e es)
  obtain s' first go_on where step: "ssh_step control tty s e = (s', first, go_on)" by (cases "ssh_step control tty s e")
  obtain rest fin where rest: "ssh_loop control tty s' es = (rest, fin)" by (cases "ssh_loop control tty s' es")
  have "as = [] \<or> as = first \<or> as = first @ rest"
    using Cons.prems step rest by (auto split: if_splits)
  then show ?case using Cons.IH [OF rest] ssh_step_no_close [OF step] by auto
qed auto

text \<open>
  C23. When an SSH session reports the end of its command, the client has received the whole output before: the frames of stream 1
  carry exactly what the process wrote to its standard output until it ended, those of stream 2 its standard error (nothing,
  with a terminal), and the report carries the exit code. In any session, what is written to the process is what the
  client has sent, in order and up to some point, and nothing is written after its input was closed.
\<close>

theorem ssh_session_delivers:
  assumes "control raw = Some (Ssh_Start command tty cols rows)"
    and "ssh_exec_process control started pod (Some (Received (Ws_Text raw))) greeted events status = actions"
  shows "prefix (written actions) (inputs_of events) \<and> closed_once actions \<and>
    (Send_Close \<in> set actions \<longrightarrow>
       delivered 1 actions = stdout_of events \<and> delivered 2 actions = (if tty then [] else stderr_of events) \<and>
       suffix [Send_Text (jobj [(''type'', JStr ''exit''), (''code'', jnat (ssh_exit_code status))]), Send_Close] actions)"
proof -
  let ?start = "\<lparr>ss_stdout_open = True, ss_stderr_open = \<not> tty, ss_stdin_open = True\<rparr>"
  obtain sent finished where loop: "ssh_loop control tty ?start events = (sent, finished)"
    by (cases "ssh_loop control tty ?start events")
  let ?exit = "[Send_Text (jobj [(''type'', JStr ''exit''), (''code'', jnat (ssh_exit_code status))]), Send_Close]"
  let ?pre = "(if tty then [Resize_Terminal cols rows] else []) @ [Send_Text (jobj [(''type'', JStr ''started'')])]"
  have pre: "written ?pre = []" "closed_once ?pre" "delivered n ?pre = []" "set ?pre \<inter> {Send_Close, Close_Stdin} = {}" for n
    by simp_all
  have close: "Send_Close \<notin> set sent" using loop ssh_loop_no_close by blast
  consider "actions = []" | m where "actions = [Send_Text m]" | "actions = ?pre"
    | "\<not> finished" "actions = ?pre @ sent" | "finished" "actions = ?pre @ sent @ ?exit"
    using assms loop by (auto simp: ssh_exec_process_def split: option.splits if_splits)
  then show ?thesis
  proof cases
    case 3
    show ?thesis unfolding 3 using pre by auto
  next
    case 4
    then show ?thesis using pre close ssh_loop_inputs [OF loop] by (auto intro: closed_once_append)
  next
    case 5
    have "closed_once (sent @ ?exit)" using ssh_loop_inputs [OF loop] by (intro closed_once_append) auto
    then have "closed_once actions" unfolding 5(2) using pre by (intro closed_once_append [OF pre(2)]) auto
    moreover have "suffix ?exit actions" unfolding 5(2) by (simp add: suffix_def)
    ultimately show ?thesis
      using 5 ssh_loop_inputs [OF loop] ssh_loop_outputs [of control tty ?start events sent] loop pre by simp
  qed simp_all
qed

definition sample_control :: "string \<Rightarrow> ssh_exec_message option" where
  "sample_control raw = (if raw = ''start'' then Some (Ssh_Start (Some ''ls'') False 0 0) else if raw = ''eof'' then Some Ssh_Eof else None)"

definition sample_events :: "ssh_event list" where
  "sample_events =
     [Stdout ''a'' True, Ssh_Incoming (Received (Ws_Binary ''in'')) True, Stderr ''x'' True, Ssh_Incoming (Received (Ws_Text ''eof'')) True,
      Ssh_Incoming (Received (Ws_Binary ''late'')) True, Stdout ''b'' True, Stdout [] True, Stderr [] True]"

definition sample_ssh_session :: "session_action list" where
  "sample_ssh_session =
     ssh_exec_process sample_control (\<lambda>_. Process_Started) ''web-1'' (Some (Received (Ws_Text ''start''))) True sample_events
       (Some \<lparr>prs_status = Some ''Success'', prs_causes = None\<rparr>)"

theorem ssh_session_delivers_witness:
  "Send_Close \<in> set sample_ssh_session \<and> delivered 1 sample_ssh_session = ''ab'' \<and> delivered 2 sample_ssh_session = ''x'' \<and>
   prefix (written sample_ssh_session) [''in'', ''late''] \<and> closed_once sample_ssh_session"
proof -
  have "Send_Close \<in> set sample_ssh_session"
    by (simp add: sample_ssh_session_def ssh_exec_process_def sample_control_def ssh_command_def MAX_SSH_COMMAND_BYTES_def
        sample_events_def ssh_step_def frame_def)
  moreover have control: "sample_control ''start'' = Some (Ssh_Start (Some ''ls'') False 0 0)" by (simp add: sample_control_def)
  ultimately show ?thesis
    using ssh_session_delivers [OF control sample_ssh_session_def [symmetric]]
    by (simp add: sample_events_def)
qed

end
