(* ===== verification/Admin_Properties.thy ===== *)
theory Admin_Properties
  imports Api_Properties
begin

text \<open>
  Properties of the commands of the administrator: the report of usage covers every record and every service of the week, and a change of
  the access to a GPU reads back as it was asked for.
\<close>

section \<open>The report of usage\<close>

text \<open>Counters of the same week, none of which is smaller.\<close>

definition covered_usage :: "flash_weekly_usage \<Rightarrow> flash_weekly_usage \<Rightarrow> bool" where
  "covered_usage a b \<longleftrightarrow> wu_week_started_at a = wu_week_started_at b \<and> usage_le a b"

lemma covered_usage_trans: "covered_usage a b \<Longrightarrow> covered_usage b c \<Longrightarrow> covered_usage a c"
  by (auto simp: covered_usage_def usage_le_def)

lemma projected_week [simp]: "wu_week_started_at (projected_weekly_usage service now) = utc_week_start now"
  by (simp add: projected_weekly_usage_def Let_def)

lemma service_usage_covers:
  "covered_usage (projected_weekly_usage service now) (service_usage service now recorded)"
  "recorded = Some r \<Longrightarrow> wu_week_started_at r = utc_week_start now \<Longrightarrow> covered_usage r (service_usage service now recorded)"
  by (auto simp: service_usage_def merge_usage_def covered_usage_def usage_le_def Let_def split: option.splits)

abbreviation record_id :: "uuid_ops \<Rightarrow> flash_usage_record \<Rightarrow> uuid option" where
  "record_id uuids r \<equiv> uuid_parse uuids (ur_service_instance_id (ur_spec r))"

abbreviation service_id :: "uuid_ops \<Rightarrow> flash_service \<Rightarrow> uuid option" where
  "service_id uuids s \<equiv> uuid_parse uuids (svc_service_instance_id (fsv_spec s))"

abbreviation recorded_in :: "i64 \<Rightarrow> flash_usage_record \<Rightarrow> bool" where
  "recorded_in week r \<equiv> wu_week_started_at (ur_usage (ur_spec r)) = week"

abbreviation live_service :: "flash_service \<Rightarrow> bool" where
  "live_service s \<equiv> meta_deletion_timestamp (fsv_meta s) = None"

text \<open>An item of a record, and one of a service over the items before it.\<close>

definition record_entry :: "uuid_ops \<Rightarrow> flash_usage_record \<Rightarrow> uuid \<Rightarrow> usage_item \<Rightarrow> bool" where
  "record_entry uuids r k i \<longleftrightarrow> record_id uuids r = Some k \<and> ui_service_instance_id i = k \<and> \<not> ui_active i \<and>
     uuid_parse uuids (ur_organization_id (ur_spec r)) = Some (ui_organization_id i) \<and> ui_weekly_usage i = ur_usage (ur_spec r)"

definition service_entry :: "uuid_ops \<Rightarrow> i64 \<Rightarrow> flash_service \<Rightarrow> uuid \<Rightarrow> usage_item \<Rightarrow> bool" where
  "service_entry uuids now s k i \<longleftrightarrow> service_id uuids s = Some k \<and> ui_service_instance_id i = k \<and> ui_active i \<and>
     uuid_parse uuids (svc_organization_id (fsv_spec s)) = Some (ui_organization_id i) \<and>
     covered_usage (projected_weekly_usage s now) (ui_weekly_usage i) \<and>
     wu_max_cpu_millicore_seconds (ui_weekly_usage i) = pol_cpu_millicore_seconds (svc_policy (fsv_spec s)) \<and>
     wu_max_memory_mib_seconds (ui_weekly_usage i) = pol_memory_mib_seconds (svc_policy (fsv_spec s)) \<and>
     wu_max_gpu_seconds (ui_weekly_usage i) = pol_gpu_seconds (svc_policy (fsv_spec s))"

lemma recorded_item_step:
  assumes "recorded_item uuids week r m = Inr m'"
  shows "if recorded_in week r then \<exists>k i. m' = bt_insert k i m \<and> record_entry uuids r k i else m' = m"
proof (cases "recorded_in week r")
  case True
  with assms have "\<exists>k i. m' = bt_insert k i m \<and> record_entry uuids r k i"
    by (clarsimp simp: recorded_item_def Let_def usage_id_def result_simps)
       (intro exI conjI, rule refl, simp add: record_entry_def)
  then show ?thesis using True by simp
qed (use assms in \<open>simp add: recorded_item_def Let_def\<close>)

lemma service_usage_limits [simp]:
  "wu_max_cpu_millicore_seconds (service_usage s now recorded) = pol_cpu_millicore_seconds (svc_policy (fsv_spec s))"
  "wu_max_memory_mib_seconds (service_usage s now recorded) = pol_memory_mib_seconds (svc_policy (fsv_spec s))"
  "wu_max_gpu_seconds (service_usage s now recorded) = pol_gpu_seconds (svc_policy (fsv_spec s))"
  by (simp_all add: service_usage_def Let_def)

lemma service_item_step:
  assumes "service_item uuids now s m = Inr m'"
  shows "if live_service s
    then \<exists>k i. m' = bt_insert k i m \<and> service_entry uuids now s k i \<and>
      (\<forall>j. map_of m k = Some j \<longrightarrow> ui_organization_id j = ui_organization_id i \<and>
        (wu_week_started_at (ui_weekly_usage j) = utc_week_start now \<longrightarrow> covered_usage (ui_weekly_usage j) (ui_weekly_usage i)))
    else m' = m"
proof (cases "live_service s")
  case True
  with assms have "\<exists>k i. m' = bt_insert k i m \<and> service_entry uuids now s k i \<and>
      (\<forall>j. map_of m k = Some j \<longrightarrow> ui_organization_id j = ui_organization_id i \<and>
        (wu_week_started_at (ui_weekly_usage j) = utc_week_start now \<longrightarrow> covered_usage (ui_weekly_usage j) (ui_weekly_usage i)))"
    by (clarsimp simp: service_item_def Let_def usage_id_def result_simps)
       (intro exI conjI, rule refl, auto simp: service_entry_def service_usage_covers usage_id_def result_simps split: option.splits)
  then show ?thesis using True by simp
qed (use assms in \<open>auto simp: service_item_def Let_def\<close>)

text \<open>Every item has its own key, belongs to the week and comes from a record or a live service.\<close>

definition items_ok ::
  "uuid_ops \<Rightarrow> i64 \<Rightarrow> flash_service list \<Rightarrow> flash_usage_record list \<Rightarrow> (uuid, usage_item) btree_map \<Rightarrow> bool" where
  "items_ok uuids now services records m \<longleftrightarrow>
     bt_wf m \<and>
     (\<forall>k i. map_of m k = Some i \<longrightarrow> ui_service_instance_id i = k \<and>
        wu_week_started_at (ui_weekly_usage i) = utc_week_start now \<and>
        (if ui_active i then \<exists>s\<in>set services. live_service s \<and> service_entry uuids now s k i
         else \<exists>r\<in>set records. recorded_in (utc_week_start now) r \<and> record_entry uuids r k i))"

lemma recorded_item_ok:
  assumes "recorded_item uuids (utc_week_start now) r m = Inr m'" and "r \<in> set records" and "items_ok uuids now services records m"
  shows "items_ok uuids now services records m'"
  using recorded_item_step [OF assms(1)] assms(2,3)
  by (auto simp: items_ok_def record_entry_def bt_insert_wf split: if_splits)

lemma service_item_ok:
  assumes "service_item uuids now s m = Inr m'" and "s \<in> set services" and "items_ok uuids now services records m"
  shows "items_ok uuids now services records m'"
  using service_item_step [OF assms(1)] assms(2,3)
  by (auto simp: items_ok_def bt_insert_wf service_entry_def covered_usage_def split: if_splits)

text \<open>A fold that inserts at most one entry for each element, under a key of its own.\<close>

lemma try_fold_entries:
  assumes step: "\<And>x m m'. f x m = Inr m' \<Longrightarrow> if live x then \<exists>k i. m' = bt_insert k i m \<and> entry x k i else m' = m"
    and key: "\<And>x k i. entry x k i \<Longrightarrow> key x = Some k"
    and "try_fold f xs m = Inr m'" and "distinct (map key xs)"
  shows "(\<forall>x\<in>set xs. live x \<longrightarrow> (\<exists>k i. map_of m' k = Some i \<and> entry x k i)) \<and>
    (\<forall>k. Some k \<notin> set (map key xs) \<longrightarrow> map_of m' k = map_of m k)"
  using assms(3,4)
proof (induction xs arbitrary: m)
  case (Cons x xs)
  then obtain m1 where first: "f x m = Inr m1" and rest: "try_fold f xs m1 = Inr m'"
    by (auto simp: result_simps)
  have IH: "\<forall>x\<in>set xs. live x \<longrightarrow> (\<exists>k i. map_of m' k = Some i \<and> entry x k i)"
      "\<And>k. Some k \<notin> set (map key xs) \<Longrightarrow> map_of m' k = map_of m1 k"
    using Cons.IH [OF rest] Cons.prems(2) by auto
  show ?case
  proof (cases "live x")
    case True
    then obtain k i where new: "m1 = bt_insert k i m" "entry x k i" using step [OF first] by auto
    then have "map_of m' k = Some i" using IH(2) [of k] key [OF new(2)] Cons.prems(2) by auto
    then show ?thesis using IH new key [OF new(2)] by auto
  qed (use IH step [OF first] in auto)
qed simp

lemma recorded_items:
  assumes "try_fold (recorded_item uuids week) rs m = Inr m'" and "distinct (map (record_id uuids) rs)"
  shows "\<forall>r\<in>set rs. recorded_in week r \<longrightarrow> (\<exists>k i. map_of m' k = Some i \<and> record_entry uuids r k i)"
  using try_fold_entries [of "recorded_item uuids week" "recorded_in week" "record_entry uuids", OF recorded_item_step _ assms]
  by (simp add: record_entry_def)

lemma service_items_cover:
  assumes "try_fold (service_item uuids now) ss m = Inr m'" and "map_of m k = Some i"
    and "wu_week_started_at (ui_weekly_usage i) = utc_week_start now"
  shows "\<exists>i'. map_of m' k = Some i' \<and> ui_organization_id i' = ui_organization_id i \<and>
    covered_usage (ui_weekly_usage i) (ui_weekly_usage i')"
proof -
  let ?P = "\<lambda>m. \<exists>i'. map_of m k = Some i' \<and> ui_organization_id i' = ui_organization_id i \<and>
    covered_usage (ui_weekly_usage i) (ui_weekly_usage i')"
  show ?thesis
  proof (rule try_fold_invariant [OF assms(1), of ?P])
    fix s a b
    assume "?P a" and step: "service_item uuids now s a = Inr b"
    then obtain i' where i': "map_of a k = Some i'" "ui_organization_id i' = ui_organization_id i"
        "covered_usage (ui_weekly_usage i) (ui_weekly_usage i')"
      by blast
    then have week: "wu_week_started_at (ui_weekly_usage i') = utc_week_start now" using assms(3) by (simp add: covered_usage_def)
    show "?P b"
    proof (cases "live_service s")
      case True
      then obtain k' new where b: "b = bt_insert k' new a" and over: "\<And>j. map_of a k' = Some j \<Longrightarrow>
          ui_organization_id j = ui_organization_id new \<and>
          (wu_week_started_at (ui_weekly_usage j) = utc_week_start now \<longrightarrow> covered_usage (ui_weekly_usage j) (ui_weekly_usage new))"
        using service_item_step [OF step] by auto
      show ?thesis
      proof (cases "k' = k")
        case True
        then show ?thesis using over [of i'] i' week covered_usage_trans [OF i'(3), of "ui_weekly_usage new"] by (simp add: b)
      qed (use i' in \<open>simp add: b\<close>)
    qed (use i' service_item_step [OF step] in auto)
  qed (use assms(2) in \<open>simp add: covered_usage_def\<close>)
qed

lemma service_items:
  assumes "try_fold (service_item uuids now) ss m = Inr m'" and "distinct (map (service_id uuids) ss)"
  shows "\<forall>s\<in>set ss. live_service s \<longrightarrow> (\<exists>k i. map_of m' k = Some i \<and> service_entry uuids now s k i)"
proof -
  have "if live_service s then \<exists>k i. m' = bt_insert k i m \<and> service_entry uuids now s k i else m' = m"
    if "service_item uuids now s m = Inr m'" for s m m'
    using service_item_step [OF that] by (cases "live_service s") auto
  from try_fold_entries [of "service_item uuids now" live_service "service_entry uuids now", OF this _ assms]
  show ?thesis by (simp add: service_entry_def)
qed

lemma record_covered:
  assumes "try_fold (recorded_item uuids (utc_week_start now)) records [] = Inr m1" and "distinct (map (record_id uuids) records)"
    and "try_fold (service_item uuids now) services m1 = Inr m2"
    and "r \<in> set records" and "recorded_in (utc_week_start now) r"
  shows "\<exists>k i. map_of m2 k = Some i \<and> record_id uuids r = Some k \<and>
    uuid_parse uuids (ur_organization_id (ur_spec r)) = Some (ui_organization_id i) \<and>
    covered_usage (ur_usage (ur_spec r)) (ui_weekly_usage i)"
proof -
  obtain k i where i: "map_of m1 k = Some i" "record_entry uuids r k i"
    using recorded_items [OF assms(1,2)] assms(4,5) by blast
  moreover from i have "wu_week_started_at (ui_weekly_usage i) = utc_week_start now"
    using assms(5) by (simp add: record_entry_def)
  ultimately obtain i' where "map_of m2 k = Some i'" and "ui_organization_id i' = ui_organization_id i"
      and "covered_usage (ui_weekly_usage i) (ui_weekly_usage i')"
    using service_items_cover [OF assms(3) i(1)] by blast
  with i show ?thesis by (intro exI [of _ k] exI [of _ i']) (simp add: record_entry_def)
qed

text \<open>
  C17. The report of usage is complete and invents nothing. Its items are in order of their services, one for each. Every record of the
  current week is covered by an item of its service and organization whose counters are not smaller; every service that is not being
  deleted has an active item whose counters are not smaller than its projection and whose limits are those of its policy;
  and every item is that of such a service, or else shows a record of the week as it is.
\<close>

theorem usage_report_complete:
  assumes "usage_items uuids services records now = Inr items"
    and "distinct (map (record_id uuids) records)" and "distinct (map (service_id uuids) services)"
  shows "sorted_wrt (<) (map ui_service_instance_id items) \<and>
    (\<forall>r\<in>set records. recorded_in (utc_week_start now) r \<longrightarrow>
       (\<exists>i\<in>set items. record_id uuids r = Some (ui_service_instance_id i) \<and>
          uuid_parse uuids (ur_organization_id (ur_spec r)) = Some (ui_organization_id i) \<and>
          covered_usage (ur_usage (ur_spec r)) (ui_weekly_usage i))) \<and>
    (\<forall>s\<in>set services. live_service s \<longrightarrow>
       (\<exists>i\<in>set items. service_entry uuids now s (ui_service_instance_id i) i)) \<and>
    (\<forall>i\<in>set items. if ui_active i
       then \<exists>s\<in>set services. live_service s \<and> service_entry uuids now s (ui_service_instance_id i) i
       else \<exists>r\<in>set records. recorded_in (utc_week_start now) r \<and> record_entry uuids r (ui_service_instance_id i) i)"
proof -
  obtain m1 m2 where one: "try_fold (recorded_item uuids (utc_week_start now)) records [] = Inr m1"
    and two: "try_fold (service_item uuids now) services m1 = Inr m2" and items: "items = map snd m2"
    using assms(1) by (auto simp: usage_items_def result_simps)
  have ok1: "items_ok uuids now services records m1"
  proof (rule try_fold_invariant [OF one])
    show "items_ok uuids now services records []" by (simp add: items_ok_def bt_wf_def)
  qed (rule recorded_item_ok)
  have ok2: "items_ok uuids now services records m2"
    by (rule try_fold_invariant [OF two, of "items_ok uuids now services records"]) (rule ok1, rule service_item_ok)
  have ids: "map ui_service_instance_id items = map fst m2"
    using ok2 unfolding items items_ok_def by (auto simp: bt_wf_unique)
  have lookup: "map_of m2 k = Some i \<longleftrightarrow> i \<in> set items \<and> ui_service_instance_id i = k" for k i
    using ok2 unfolding items items_ok_def by (force simp: bt_wf_unique [symmetric])
  have "\<exists>i\<in>set items. record_id uuids r = Some (ui_service_instance_id i) \<and>
      uuid_parse uuids (ur_organization_id (ur_spec r)) = Some (ui_organization_id i) \<and>
      covered_usage (ur_usage (ur_spec r)) (ui_weekly_usage i)"
    if "r \<in> set records" and "recorded_in (utc_week_start now) r" for r
    using record_covered [OF one assms(2) two that] unfolding lookup by blast
  moreover have "sorted_wrt (<) (map ui_service_instance_id items)" using ok2 by (simp add: ids items_ok_def bt_wf_def)
  moreover have "\<forall>s\<in>set services. live_service s \<longrightarrow> (\<exists>i\<in>set items. service_entry uuids now s (ui_service_instance_id i) i)"
    using service_items [OF two assms(3)] by (auto simp: lookup)
  ultimately show ?thesis
    using ok2 by (simp add: items_ok_def lookup)
qed

definition usage_service :: flash_service where
  "usage_service = stored_service\<lparr>fsv_status := fsv_status sample_flash\<rparr>"

definition usage_record :: flash_usage_record where
  "usage_record =
     \<lparr>ur_meta = plain_meta ''r'', ur_spec =
        \<lparr>ur_service_instance_id = uuid_show hex_uuids 3, ur_organization_id = uuid_show hex_uuids 1,
         ur_project_id = uuid_show hex_uuids 2, ur_quota_user_id = None, ur_display_name = ''web'', ur_cpu_millis = 250, ur_memory_mib = 128,
         ur_gpu_count = 0, ur_usage = sample_usage\<lparr>wu_gpu_seconds := 900\<rparr>\<rparr>\<rparr>"

lemma usage_sample_ok: "is_ok (usage_items hex_uuids [usage_service] [usage_record] 345760)"
  by (simp add: usage_items_def recorded_item_def service_item_def usage_id_def usage_service_def usage_record_def stored_service_def
      hex.parse_show ok_or_def Let_def ensure_def plain_meta_def sample_usage_def utc_week_start_def
      WEEK_SECONDS_def FIRST_MONDAY_AFTER_UNIX_EPOCH_def)

theorem usage_report_complete_witness:
  "\<exists>items. usage_items hex_uuids [usage_service] [usage_record] 345760 = Inr items \<and>
     sorted_wrt (<) (map ui_service_instance_id items) \<and>
     (\<exists>i\<in>set items. covered_usage (ur_usage (ur_spec usage_record)) (ui_weekly_usage i)) \<and>
     (\<exists>i\<in>set items. service_entry hex_uuids 345760 usage_service (ui_service_instance_id i) i)"
proof -
  obtain items where items: "usage_items hex_uuids [usage_service] [usage_record] 345760 = Inr items"
    using usage_sample_ok by (auto simp: is_ok_iff)
  have "recorded_in (utc_week_start 345760) usage_record" and "live_service usage_service"
    by (simp_all add: usage_record_def usage_service_def sample_usage_def utc_week_start_def stored_service_def plain_meta_def
        WEEK_SECONDS_def FIRST_MONDAY_AFTER_UNIX_EPOCH_def)
  then show ?thesis
    using usage_report_complete [OF items] items by auto
qed

section \<open>Access to a GPU\<close>

text \<open>
  What an apply of a device does, as the API server documents it: the answer is the object of that name, and the fields of the patch have
  the values of the patch.
\<close>

definition applies_access :: "'w provider_api \<Rightarrow> bool" where
  "applies_access api \<longleftrightarrow>
     (\<forall>name patch w new w'. fa_device_apply api name patch w = (Inr new, w') \<longrightarrow> dev_name new = name \<and>
        visibility_json (gd_visibility (dev_spec new)) = jget (jget patch ''spec'') ''visibility'' \<and>
        jstrs (gd_private_assignments (dev_spec new)) = jget (jget patch ''spec'') ''private_assignments'')"

lemma visibility_json_eq [simp]: "visibility_json a = visibility_json b \<longleftrightarrow> a = b"
  by (simp add: visibility_json_def split: flash_gpu_visibility.splits)

lemma jstrs_eq [simp]: "jstrs a = jstrs b \<longleftrightarrow> a = b"
  by (simp add: jstrs_def inj_map_eq_map inj_def)

lemma access_patch_fields:
  "jget (jget (gpu_access_apply_patch uuids request) ''spec'') ''visibility'' = visibility_json (gu_visibility request)"
  "jget (jget (gpu_access_apply_patch uuids request) ''spec'') ''private_assignments'' =
     jstrs (map (uuid_show uuids) (gu_assigned_user_ids request))"
  by (simp_all add: gpu_access_apply_patch_def jget_jobj unwrap_or_def)

lemma map_filter_parse: "uuid_text uuids \<Longrightarrow> List.map_filter (uuid_parse uuids) (map (uuid_show uuids) us) = us"
  by (simp add: List.map_filter_def comp_def uuid_text.parse_show)

text \<open>
  A change of the access to a GPU reads back as it was asked for: the answer names the device of the request, shows the requested
  visibility, and its users are exactly the requested ones, each once and in order, although the server stores them as texts.
  Hypotheses: identifiers are read back as they are written, and the server applies the fields of a patch.
\<close>

theorem gpu_access_round_trip:
  assumes "uuid_text (al_uuids lib)" and "applies_access api"
    and "update_gpu_access api lib st authorization request w = (Inr item, w')"
  shows "gm_management_id item = gu_management_id request \<and> gm_visibility item = gu_visibility request \<and>
    set (gm_assigned_user_ids item) = set (gu_assigned_user_ids request) \<and> sorted_wrt (<) (gm_assigned_user_ids item)"
proof -
  let ?request = "request\<lparr>gu_assigned_user_ids := bt_set (gu_assigned_user_ids request)\<rparr>"
  obtain new w1 w2 now where applied: "fa_device_apply api (gu_management_id request) (gpu_access_apply_patch (al_uuids lib) ?request) w1 = (Inr new, w2)"
    and item: "item = management_item (al_uuids lib) new now"
    using assms(3) by (auto simp: update_gpu_access_def Let_def elim!: ebind_Inr split: if_splits)
  have "dev_name new = gu_management_id request" and "gd_visibility (dev_spec new) = gu_visibility request"
    and "gd_private_assignments (dev_spec new) = map (uuid_show (al_uuids lib)) (bt_set (gu_assigned_user_ids request))"
    using assms(2) [unfolded applies_access_def, rule_format, OF applied] by (simp_all add: access_patch_fields)
  then show ?thesis
    by (simp add: item management_item_def map_filter_parse [OF assms(1)] bt_set_def strict_sorted_iff)
qed

text \<open>A server that stores one device.\<close>

definition read_access :: "json \<Rightarrow> (flash_gpu_visibility \<times> string list) option" where
  "read_access patch =
     Option.bind (find (\<lambda>v. visibility_json v = jget (jget patch ''spec'') ''visibility'') [Open, Private]) (\<lambda>v.
     case jget (jget patch ''spec'') ''private_assignments'' of
       JArr xs \<Rightarrow> if list_all (\<lambda>x. jstr x \<noteq> None) xs then Some (v, List.map_filter jstr xs) else None
     | _ \<Rightarrow> None)"

definition access_server :: "nat provider_api \<Rightarrow> nat provider_api" where
  "access_server api =
     api\<lparr>fa_now := (\<lambda>_. 1010), fa_device_get_opt := (\<lambda>n. eret (Some (sample_device n Open default_gpu_device_status))),
         fa_device_apply := (\<lambda>n p. case read_access p of
           None \<Rightarrow> efail (Api_Error 422)
         | Some (v, users) \<Rightarrow> counting ((sample_device n Open default_gpu_device_status)
             \<lparr>dev_spec := (dev_spec (sample_device n Open default_gpu_device_status))\<lparr>gd_visibility := v, gd_private_assignments := users\<rparr>\<rparr>))\<rparr>"

lemma jstrs_jstr: "list_all (\<lambda>x. jstr x \<noteq> None) xs \<Longrightarrow> jstrs (List.map_filter jstr xs) = JArr xs"
  by (induction xs) (auto simp: jstrs_def jstr_def split: json.splits)

lemma access_server_applies: "applies_access (access_server api)"
  by (auto simp: applies_access_def access_server_def read_access_def bind_eq_Some_conv find_Some_iff counting_def jstrs_jstr
      sample_device_def sample_meta_def split: option.splits json.splits if_splits)

definition admin_claims :: "string \<Rightarrow> provider_claims" where
  "admin_claims action =
     sample_claims\<lparr>tk_subject := 0, tk_organization_id := 0, tk_project_id := 0, tk_service_instance_id := 0, tk_action := action\<rparr>"

definition admin_lib :: "string \<Rightarrow> (unit, cidr) api_lib \<Rightarrow> (unit, cidr) api_lib" where
  "admin_lib action lib = lib\<lparr>al_auth := sample_auth_lib\<lparr>lib_decode := (\<lambda>now token key v. Some (admin_claims action))\<rparr>,
     al_uuids := hex_uuids\<rparr>"

lemma admin_authenticated:
  "authenticate (al_auth (admin_lib action lib)) sample_authenticator 1010 (Some ''Bearer token'') action = Inr (admin_claims action)"
  by (simp add: authenticate_def ok_or_def strip_prefix_def filter_opt_def verify_def admin_lib_def sample_auth_lib_def
      sample_authenticator_def check_claims_def admin_claims_def sample_claims_def ensure_def i64_saturating_sub_def
      i64_saturating_add_def i64_checked_sub_def i64_max_def i64_min_def MAX_TOKEN_TTL_SECONDS_def NOT_BEFORE_OFFSET_SECONDS_def)

definition sample_access :: gpu_access_update_request where
  "sample_access = \<lparr>gu_management_id = ''g1'', gu_gpu_type = ''a100'', gu_display_name = ''A100'', gu_visibility = Private,
     gu_assigned_user_ids = [7, 5, 7]\<rparr>"

lemma access_run:
  "is_ok (fst (update_gpu_access (access_server api) (admin_lib PROVIDER_GPU_ACCESS_UPDATE_ACTION lib)
     (st\<lparr>as_authenticator := sample_authenticator\<rparr>) (Some ''Bearer token'') sample_access w))"
proof -
  have "read_access (gpu_access_apply_patch hex_uuids (sample_access\<lparr>gu_assigned_user_ids := us\<rparr>)) =
      Some (Private, map (uuid_show hex_uuids) us)" for us
    by (simp add: read_access_def access_patch_fields jstrs_def list_all_iff jstr_def List.map_filter_def comp_def sample_access_def)
  then show ?thesis
    by (simp add: update_gpu_access_def ebind_apply admin_authenticated access_server_def Let_def validate_admin_claims_def
        admin_claims_def sample_claims_def ensure_def emap_err_def ok_or_def sample_access_def sample_device_def counting_def
        admin_lib_def [THEN arg_cong [of _ _ al_uuids]])
qed

theorem gpu_access_round_trip_witness:
  "\<forall>api lib st w. \<exists>item w'.
     update_gpu_access (access_server api) (admin_lib PROVIDER_GPU_ACCESS_UPDATE_ACTION lib)
       (st\<lparr>as_authenticator := sample_authenticator\<rparr>) (Some ''Bearer token'') sample_access w = (Inr item, w') \<and>
     gm_visibility item = Private \<and> set (gm_assigned_user_ids item) = {5, 7}"
proof (intro allI)
  fix api lib st w
  obtain item w' where run: "update_gpu_access (access_server api) (admin_lib PROVIDER_GPU_ACCESS_UPDATE_ACTION lib)
      (st\<lparr>as_authenticator := sample_authenticator\<rparr>) (Some ''Bearer token'') sample_access w = (Inr item, w')"
    using access_run [of api lib st w] by (metis is_ok_iff prod.collapse)
  have "uuid_text (al_uuids (admin_lib PROVIDER_GPU_ACCESS_UPDATE_ACTION lib))"
    using hex.uuid_text_axioms by (simp add: admin_lib_def)
  from gpu_access_round_trip [OF this access_server_applies run] run
  show "\<exists>item w'. update_gpu_access (access_server api) (admin_lib PROVIDER_GPU_ACCESS_UPDATE_ACTION lib)
       (st\<lparr>as_authenticator := sample_authenticator\<rparr>) (Some ''Bearer token'') sample_access w = (Inr item, w') \<and>
     gm_visibility item = Private \<and> set (gm_assigned_user_ids item) = {5, 7}"
    by (auto simp: sample_access_def)
qed

end
