(* ===== verification/Object_Properties.thy ===== *)
theory Object_Properties
  imports Api_Properties
begin

text \<open>
  Properties of the commands about the secrets and the custom domains of a service. As for the main pass, a call that is made
  only under a condition is replaced by an arbitrary one where the condition fails, and the run stays the same.
\<close>

section \<open>The secret of a load balancer\<close>

lemma emap_err_cong_at: "m w = m' w \<Longrightarrow> emap_err f m w = emap_err f m' w"
  by (simp add: emap_err_def)

lemma secret_context_Inr:
  assumes "load_balancer_secret_context api lib st authorization uuid name w = (Inr (claims, resource), w1)"
  shows "authenticate (al_auth lib) (as_authenticator st) (fa_now api w) authorization SECRET_ACTION = Inr claims \<and>
    fa_service_get_opt api (service_resource_name (al_uuids lib) uuid) w = (Inr resource, w1)"
  using assms
  by (auto simp: load_balancer_secret_context_def result_simps elim!: ebind_Inr split: option.splits if_splits)

text \<open>
  The calls that block the route of a service, from one world to the next: either no route is found, or the route that is found is applied
  with its name, parents and host names and, as its only backend, a service that does not exist.
\<close>

definition route_blocked :: "'w web_api \<Rightarrow> string \<Rightarrow> 'w \<Rightarrow> 'w \<Rightarrow> bool" where
  "route_blocked web name w1 w2 \<longleftrightarrow>
     wa_route_get_opt web name w1 = (Inr None, w2) \<or>
     (\<exists>live w' route. wa_route_get_opt web name w1 = (Inr (Some live), w') \<and> wa_route_apply web name route w' = (Inr (), w2) \<and>
        hr_name route = hr_name live \<and> hr_hostnames route = hr_hostnames live \<and> hr_parent_refs route = hr_parent_refs live \<and>
        hr_backend_refs route =
          [\<lparr>br_group = [], br_kind = ''Service'', br_name = hr_name live @ ''-oidc-pending'', br_namespace = None, br_port = Some 80\<rparr>])"

lemma block_existing_route_Inr:
  assumes "block_existing_route web name w1 = (Inr (), w2)"
  shows "route_blocked web name w1 w2"
proof -
  obtain found w' where read: "wa_route_get_opt web name w1 = (Inr found, w')"
    and rest: "(case found of None \<Rightarrow> eret () | Some route \<Rightarrow>
        eweb (wa_route_apply web name ((blocked_route (http_route.truncate route))\<lparr>hr_status := None\<rparr>))) w' = (Inr (), w2)"
    using assms by (auto simp: block_existing_route_def elim!: ebind_Inr)
  show ?thesis
  proof (cases found)
    case None
    then show ?thesis using read rest by (simp add: route_blocked_def)
  next
    case (Some live)
    let ?route = "(blocked_route (http_route.truncate live))\<lparr>hr_status := None\<rparr>"
    have "wa_route_apply web name ?route w' = (Inr (), w2)" using rest Some by simp
    moreover have "hr_backend_refs ?route =
        [\<lparr>br_group = [], br_kind = ''Service'', br_name = hr_name live @ ''-oidc-pending'', br_namespace = None, br_port = Some 80\<rparr>]"
      "hr_name ?route = hr_name live" "hr_hostnames ?route = hr_hostnames live" "hr_parent_refs ?route = hr_parent_refs live"
      by (simp_all add: blocked_route_def blocked_backend_def http_route.truncate_def)
    ultimately show ?thesis using read Some unfolding route_blocked_def by blast
  qed
qed

text \<open>A service of which the load balancer authenticates with the secret of a name.\<close>

definition authenticates_with :: "flash_service option \<Rightarrow> string \<Rightarrow> bool" where
  "authenticates_with resource name \<longleftrightarrow>
     (\<exists>service auth. resource = Some service \<and> ex_authentication (fs_exposure (workload service)) = Some auth \<and>
        oidc_client_secret_ref auth = name)"

lemma uses_secret_iff: "uses_secret resource name \<longleftrightarrow> authenticates_with resource name"
  by (cases resource) (auto simp: uses_secret_def authenticates_with_def split: option.splits)

text \<open>The name of the secret in the cluster, made of the service and of the reference, and its labels.\<close>

definition credential_name :: "web_lib \<Rightarrow> uuid \<Rightarrow> string \<Rightarrow> string" where
  "credential_name lib uuid name =
     ''flash-'' @ uuid_simple (wl_uuids lib) uuid @ ''-oidc-'' @ take 12 (uuid_simple (wl_uuids lib) (wl_new_v5 lib uuid name))"

definition credential_labels :: "uuid_ops \<Rightarrow> uuid \<Rightarrow> provider_claims \<Rightarrow> (string \<times> string) list" where
  "credential_labels uuids uuid claims =
     [(''flash.heterocloud.io/credential'', ''oidc''), (''flash.heterocloud.io/instance'', uuid_show uuids uuid),
      (''flash.heterocloud.io/organization'', uuid_show uuids (tk_organization_id claims)),
      (''flash.heterocloud.io/project'', uuid_show uuids (tk_project_id claims))]"

lemma secret_name_credential: "secret_name lib uuid name = credential_name lib uuid name"
  by (simp add: secret_name_def credential_name_def)

lemma secret_labels_credential: "secret_labels uuids uuid claims = credential_labels uuids uuid claims"
  by (simp add: secret_labels_def credential_labels_def)

text \<open>
  When the secret may be written, and in which world: after the route of the service is blocked when the service uses the secret, and
  after no secret of that name was found or one with the labels of the same service, organization and project.
\<close>

definition secret_write_allowed ::
  "'w provider_api \<Rightarrow> ('k, 'n) api_lib \<Rightarrow> uuid \<Rightarrow> string \<Rightarrow> provider_claims \<Rightarrow> flash_service option \<Rightarrow> 'w \<Rightarrow>
   string \<Rightarrow> (string, string) btree_map \<Rightarrow> 'w \<Rightarrow> bool" where
  "secret_write_allowed api lib uuid name claims resource w1 credential labels w \<longleftrightarrow>
     credential = credential_name (al_web lib) uuid name \<and> labels = credential_labels (al_uuids lib) uuid claims \<and>
     (\<exists>w2 existing.
        (if authenticates_with resource name
         then route_blocked (fa_web api) (''flash-'' @ uuid_show (al_uuids lib) uuid) w1 w2 else w2 = w1) \<and>
        fa_secret_get_opt api credential w2 = (Inr existing, w) \<and>
        (\<forall>s. existing = Some s \<longrightarrow> ws_labels s = Some labels))"

text \<open>
  C15. The client secret of a load balancer is only written for the service of the token: under the name of the service and the
  reference, with exactly the labels of an OIDC credential, of the service, its organization and its project, never over a secret with other
  labels, and, when the load balancer of the stored service authenticates with it, only
  after the route of the service has been read and, where there is one, applied with a backend that does not exist as its only one. A secret
  that the stored service authenticates with is never deleted, nor one of another name. The runs are the same on
  a server that does something else in the other cases.
\<close>

theorem secret_changes_behind_blocked_route:
  assumes "fa_service_get_opt api (service_resource_name (al_uuids lib) uuid) w = (Inr resource, w1)"
    and "authenticate (al_auth lib) (as_authenticator st) (fa_now api w) authorization SECRET_ACTION = Inr claims"
  shows "put_load_balancer_secret
      (api\<lparr>fa_secret_apply := (\<lambda>n labels v owner w. if secret_write_allowed api lib uuid name claims resource w1 n labels w
         then fa_secret_apply api n labels v owner w else fa_secret_apply other n labels v owner w)\<rparr>)
      lib st uuid name authorization secret w = put_load_balancer_secret api lib st uuid name authorization secret w \<and>
    delete_load_balancer_secret
      (api\<lparr>fa_secret_delete := (\<lambda>n. if \<not> authenticates_with resource name \<and> n = credential_name (al_web lib) uuid name
         then fa_secret_delete api n else fa_secret_delete other n)\<rparr>)
      lib st uuid name authorization w = delete_load_balancer_secret api lib st uuid name authorization w"
proof -
  have context_same: "load_balancer_secret_context (api\<lparr>fa_secret_apply := f\<rparr>) = load_balancer_secret_context api"
    "load_balancer_secret_context (api\<lparr>fa_secret_delete := g\<rparr>) = load_balancer_secret_context api" for f g
    by (intro ext; simp add: load_balancer_secret_context_def authorize_def)+
  have same: "c = claims \<and> r = resource \<and> w' = w1"
    if "load_balancer_secret_context api lib st authorization uuid name w = (Inr (c, r), w')" for c r w'
    using secret_context_Inr [OF that] assms by simp
  have blocked: "route_blocked (fa_web api) (''flash-'' @ uuid_show (al_uuids lib) uuid) w1 w2"
    if "block_existing_route (fa_web api) (service_resource_name (al_uuids lib) uuid) w1 = (Inr (), w2)" for w2
    using block_existing_route_Inr [OF that] by (simp add: service_resource_name_def)
  show ?thesis
    unfolding put_load_balancer_secret_def delete_load_balancer_secret_def context_same uses_secret_iff secret_name_credential
      secret_labels_credential
    by (intro conjI ebind_cong_at)
       (auto simp: Let_def secret_write_allowed_def intro!: ebind_cong_at emap_err_cong_at dest!: same blocked [simplified]
         split: if_splits option.splits, blast+)
qed

section \<open>Custom domains\<close>

lemma domain_service_Inr:
  assumes "domain_service api lib st authorization uuid action w = (Inr service, w1)"
  shows "fa_service_get api (service_resource_name (al_uuids lib) uuid) w = (Inr service, w1) \<and>
    svc_service_instance_id (fsv_spec service) = uuid_show (al_uuids lib) uuid"
  using assms
  by (auto simp: domain_service_def validate_resource_access_def validate_resource_identity_def result_simps elim!: ebind_Inr
      split: if_splits)

text \<open>
  A new domain that passes the checks of the controller, is not published before its DNS and certificate are verified, points to the host
  that the controller publishes for the service, and is not itself a host of the provider.
\<close>

definition registrable_domain :: "('k, 'n) api_lib \<Rightarrow> 'k api_state \<Rightarrow> flash_service \<Rightarrow> flash_domain \<Rightarrow> bool" where
  "registrable_domain lib st service d \<longleftrightarrow>
     owned_by d service \<and> is_ok (validate_hostname (fd_hostname (dom_spec d))) \<and>
     meta_name (dom_meta d) = resource_name (al_web lib) (fd_hostname (dom_spec d)) \<and> \<not> domain_ready d \<and>
     (\<forall>host. public_hostname (al_uuids lib) service (as_public_domain st) = Inr host \<longrightarrow>
        host = Some (fd_cname_target (dom_spec d))) \<and>
     (\<forall>public_name. as_public_domain st = Some public_name \<longrightarrow>
        fd_hostname (dom_spec d) \<noteq> public_name \<and> \<not> suffix (''.'' @ public_name) (fd_hostname (dom_spec d)))"

lemma new_domain_registrable:
  assumes "uuid_text (al_uuids lib)" and "check_domain_request st service request = Inr public_name"
    and "svc_service_instance_id (fsv_spec service) = uuid_show (al_uuids lib) uuid"
    and "controller_owner service = Some owner" and "meta_uid (fsv_meta service) = Some service_uid"
  shows "registrable_domain lib st service (new_domain lib uuid service public_name request owner service_uid)"
  using assms uuid_text.parse_show [OF assms(1), of uuid]
  by (auto simp: registrable_domain_def new_domain_def check_domain_request_def Let_def result_simps owned_by_def
      controller_owner_def new_meta_def domain_ready_def public_hostname_def is_ok_iff split: if_splits)

text \<open>
  C21. A custom domain that the API registers is one that the controller accepts: it is owned by the service that was read, its hostname is
  valid and gives its name, it is not published yet, its CNAME target is the host that the controller publishes for that service under the
  same public domain, and its hostname is not one of the provider. It is created only when no domain of that name was found. Hypothesis:
  identifiers are read back as they are written.
\<close>

theorem registered_domain_accepted:
  assumes "uuid_text (al_uuids lib)"
    and "fa_service_get api (service_resource_name (al_uuids lib) uuid) w = (Inr service, w1)"
  shows "add_custom_domain
      (api\<lparr>fa_domain_create := (\<lambda>d labels w2. if registrable_domain lib st service d \<and>
           fd_service_instance_id (dom_spec d) = uuid_show (al_uuids lib) uuid \<and>
           fa_domain_get_opt api (meta_name (dom_meta d)) w1 = (Inr None, w2)
         then fa_domain_create api d labels w2 else fa_domain_create other d labels w2)\<rparr>)
      lib st uuid authorization request w = add_custom_domain api lib st uuid authorization request w"
proof -
  have domain_service_same: "domain_service (api\<lparr>fa_domain_create := f\<rparr>) = domain_service api" for f
    by (intro ext) (simp add: domain_service_def authorize_def)
  have found: "s = service \<and> w' = w1 \<and> svc_service_instance_id (fsv_spec service) = uuid_show (al_uuids lib) uuid"
    if "domain_service api lib st authorization uuid WRITE_ACTION w = (Inr s, w')" for s w'
    using domain_service_Inr [OF that] assms(2) by auto
  have name: "meta_name (dom_meta (new_domain lib uuid service public_name request owner uid)) =
      resource_name (al_web lib) (cw_hostname request)"
    "fd_service_instance_id (dom_spec (new_domain lib uuid service public_name request owner uid)) = uuid_show (al_uuids lib) uuid"
    for public_name owner uid
    by (simp_all add: new_domain_def new_meta_def)
  show ?thesis
    unfolding add_custom_domain_def domain_service_same
    by (intro ebind_cong_at)
       (auto simp: name result_simps intro!: ebind_cong_at emap_err_cong_at dest!: found
         dest: new_domain_registrable [OF assms(1)] split: option.splits)
qed

section \<open>Witnesses\<close>

definition protected_service :: flash_service where
  "protected_service = stored_service\<lparr>fsv_spec := (fsv_spec stored_service)\<lparr>svc_workload := sample_spec
     \<lparr>fs_exposure := (fs_exposure sample_spec)\<lparr>ex_authentication := Some sample_oidc\<rparr>\<rparr>\<rparr>\<rparr>"

definition protected_route :: live_route where
  "protected_route = http_route.extend sample_route \<lparr>lr_owners = None\<rparr>"

text \<open>A server with the service, its route, and no secret yet. The world counts the writes.\<close>

definition object_server :: "flash_service \<Rightarrow> nat provider_api \<Rightarrow> nat provider_api" where
  "object_server service api =
     api\<lparr>fa_now := (\<lambda>_. 1010), fa_service_get_opt := (\<lambda>_. eret (Some service)),
         fa_web := (fa_web api)\<lparr>wa_route_get_opt := (\<lambda>_. eret (Some protected_route)), wa_route_apply := (\<lambda>_ _. counting ())\<rparr>,
         fa_secret_get_opt := (\<lambda>_. eret None), fa_secret_apply := (\<lambda>_ _ _ _. counting ()), fa_secret_delete := (\<lambda>_. counting ())\<rparr>"

definition object_lib :: "string \<Rightarrow> (unit, cidr) api_lib \<Rightarrow> (unit, cidr) api_lib" where
  "object_lib action lib =
     lib\<lparr>al_auth := command_auth action 1, al_uuids := hex_uuids, al_web := sample_web_lib,
         al_url_parse := (\<lambda>_. Some (parsed_url.make ''https'' (Some ''issuer.example'') [] None ''/'' None None))\<rparr>"

lemma object_lib_simps [simp]:
  "al_uuids (object_lib action lib) = hex_uuids" "al_auth (object_lib action lib) = command_auth action 1"
  "al_web (object_lib action lib) = sample_web_lib"
  by (simp_all add: object_lib_def)

lemma object_secret_accepted:
  "validate_oidc (al_url_parse (object_lib action lib))
     \<lparr>oidc_issuer_url = ''https://issuer.example'', oidc_client_id = ''validation'', oidc_client_secret_ref = ''credential'',
      oidc_scopes = []\<rparr> = Inr ()"
  by (simp add: object_lib_def validate_oidc_def ok_or_def ensure_def starts_ws_def ws_codes_def char_of_def char_defs
      bt_set_def parsed_url.make_def)

lemma secret_run:
  "put_load_balancer_secret (object_server protected_service api) (object_lib SECRET_ACTION lib)
     (st\<lparr>as_authenticator := sample_authenticator\<rparr>) 3 ''credential'' (Some ''Bearer token'') ''hidden'' 0 = (Inr 204, 2)"
  "delete_load_balancer_secret (object_server stored_service api) (object_lib SECRET_ACTION lib)
     (st\<lparr>as_authenticator := sample_authenticator\<rparr>) 3 ''credential'' (Some ''Bearer token'') 0 = (Inr 204, 1)"
  by (simp_all add: put_load_balancer_secret_def delete_load_balancer_secret_def load_balancer_secret_context_def ebind_apply
      object_server_def command_authenticated object_secret_accepted ensure_def validate_command_def command_claims_def sample_claims_def
      emap_err_def validate_resource_identity_def protected_service_def stored_service_def sample_flash_def plain_meta_def uses_secret_def
      sample_oidc_def block_existing_route_def Let_def counting_def ematch_def sample_spec_def)

lemma object_server_found: "fa_service_get_opt (object_server service api) name w = (Inr (Some service), w)"
  by (simp add: object_server_def)

lemma object_authenticated:
  "authenticate (al_auth (object_lib action lib)) (as_authenticator (st\<lparr>as_authenticator := sample_authenticator\<rparr>))
     (fa_now (object_server service api) w) (Some ''Bearer token'') action = Inr (command_claims action 1)"
  by (simp add: object_server_def command_authenticated)

theorem secret_changes_behind_blocked_route_witness:
  "\<forall>api lib st other.
     put_load_balancer_secret
       (object_server protected_service api\<lparr>fa_secret_apply := (\<lambda>n labels v owner w.
          if secret_write_allowed (object_server protected_service api) (object_lib SECRET_ACTION lib) 3 ''credential''
               (command_claims SECRET_ACTION 1) (Some protected_service) 0 n labels w
          then fa_secret_apply (object_server protected_service api) n labels v owner w else fa_secret_apply other n labels v owner w)\<rparr>)
       (object_lib SECRET_ACTION lib) (st\<lparr>as_authenticator := sample_authenticator\<rparr>) 3 ''credential'' (Some ''Bearer token'') ''hidden'' 0 =
     (Inr 204, 2) \<and>
     delete_load_balancer_secret
       (object_server stored_service api\<lparr>fa_secret_delete := (\<lambda>n.
          if \<not> authenticates_with (Some stored_service) ''credential'' \<and> n = credential_name (al_web (object_lib SECRET_ACTION lib)) 3 ''credential''
          then fa_secret_delete (object_server stored_service api) n else fa_secret_delete other n)\<rparr>)
       (object_lib SECRET_ACTION lib) (st\<lparr>as_authenticator := sample_authenticator\<rparr>) 3 ''credential'' (Some ''Bearer token'') 0 =
     (Inr 204, 1)"
  by (intro allI conjI
      trans [OF secret_changes_behind_blocked_route [OF object_server_found object_authenticated, THEN conjunct1] secret_run(1)]
      trans [OF secret_changes_behind_blocked_route [OF object_server_found object_authenticated, THEN conjunct2] secret_run(2)])

definition domain_request :: custom_domain_write where
  "domain_request = \<lparr>cw_hostname = ''www.example.org'', cw_binding_id = 8, cw_verification_value = ''heterocloud-domain=x''\<rparr>"

definition named_service :: flash_service where
  "named_service = stored_service\<lparr>fsv_meta := (fsv_meta stored_service)\<lparr>meta_uid := Some ''u''\<rparr>\<rparr>"

definition domain_server :: "nat provider_api \<Rightarrow> nat provider_api" where
  "domain_server api =
     api\<lparr>fa_now := (\<lambda>_. 1010), fa_service_get := (\<lambda>_. eret named_service), fa_domain_get_opt := (\<lambda>_. eret None),
         fa_domain_create := (\<lambda>_ _. counting ())\<rparr>"

definition domain_state :: "unit api_state \<Rightarrow> unit api_state" where
  "domain_state st = st\<lparr>as_authenticator := sample_authenticator, as_public_domain := Some ''flash.example.test''\<rparr>"

lemma sample_hostname: "validate_hostname ''www.example.org'' = Inr ()"
proof -
  have v4: "parse_ipv4 ''www.example.org'' = None" by code_simp
  then have "parse_run ''www.example.org'' = None" by (simp add: parse_run_def parse_group_def)
  then have "parse_ip_addr ''www.example.org'' = None" by (simp add: parse_ip_addr_def v4 parse_ipv6_def)
  moreover have "split_on CHR ''.'' ''www.example.org'' = [''www'', ''example'', ''org'']" by code_simp
  moreover have "valid_host_label ''www'' \<and> valid_host_label ''example'' \<and> valid_host_label ''org''" by code_simp
  ultimately show ?thesis by (simp add: validate_hostname_def ensure_def suffix_to_prefix)
qed

lemma domain_run:
  "add_custom_domain (domain_server api) (object_lib WRITE_ACTION lib) (domain_state st) 3 (Some ''Bearer token'') domain_request 0 =
   (Inr 202, 1)"
proof -
  have "\<not> suffix ''.flash.example.test'' ''www.example.org''" "\<not> any_control ''heterocloud-domain=x''" by code_simp+
  then show ?thesis
    by (simp add: add_custom_domain_def domain_service_def ebind_apply domain_server_def command_authenticated domain_state_def
        validate_command_def command_claims_def sample_claims_def ensure_def emap_err_def validate_resource_access_def
        validate_resource_identity_def named_service_def stored_service_def sample_flash_def plain_meta_def check_domain_request_def
        domain_request_def sample_hostname sample_spec_def ok_or_def controller_owner_def counting_def Let_def)
qed

theorem registered_domain_accepted_witness:
  "\<forall>api lib st other.
     add_custom_domain
       (domain_server api\<lparr>fa_domain_create := (\<lambda>d labels w2.
          if registrable_domain (object_lib WRITE_ACTION lib) (domain_state st) named_service d \<and>
             fd_service_instance_id (dom_spec d) = uuid_show (al_uuids (object_lib WRITE_ACTION lib)) 3 \<and>
             fa_domain_get_opt (domain_server api) (meta_name (dom_meta d)) 0 = (Inr None, w2)
          then fa_domain_create (domain_server api) d labels w2 else fa_domain_create other d labels w2)\<rparr>)
       (object_lib WRITE_ACTION lib) (domain_state st) 3 (Some ''Bearer token'') domain_request 0 = (Inr 202, 1)"
  by (intro allI trans [OF registered_domain_accepted domain_run])
     (simp_all add: hex.uuid_text_axioms domain_server_def)

end
