(* ===== verification/Spec_Json.thy ===== *)
theory Spec_Json
  imports Status_Patch Uuid_Text Spec_Properties
begin

text \<open>
  The JSON form of a specification: what the derived \<open>Serialize\<close> and \<open>Deserialize\<close> of \<open>domain.rs\<close>, \<open>deployment.rs\<close> and
  \<open>vpc.rs\<close> write and read, with their attributes (skipped, defaulted, renamed and unknown fields). A struct is read from an object or, as
  \<open>serde\<close> does, from an array of its fields in order; an enum from its name or from an object with one entry.
\<close>

section \<open>Reading values\<close>

type_synonym 'a reader = "json \<Rightarrow> 'a option"
type_synonym field_map = "string \<Rightarrow> json option"

definition read_bool :: "bool reader" where
  "read_bool v = (case v of JBool b \<Rightarrow> Some b | _ \<Rightarrow> None)"

definition read_uint :: "nat \<Rightarrow> nat reader" where
  "read_uint m v = (case v of JNum n \<Rightarrow> if 0 \<le> n \<and> n \<le> int m then Some (nat n) else None | _ \<Rightarrow> None)"

definition read_uuid :: "uuid_ops \<Rightarrow> uuid reader" where
  "read_uuid uuids v = Option.bind (jstr v) (uuid_parse uuids)"

definition read_option :: "'a reader \<Rightarrow> 'a option reader" where
  "read_option r v = (case v of JNull \<Rightarrow> Some None | _ \<Rightarrow> map_option Some (r v))"

fun read_each :: "'a reader \<Rightarrow> json list \<Rightarrow> 'a list option" where
  "read_each r [] = Some []"
| "read_each r (v # vs) = Option.bind (r v) (\<lambda>x. map_option (Cons x) (read_each r vs))"

definition read_list :: "'a reader \<Rightarrow> 'a list reader" where
  "read_list r v = (case v of JArr vs \<Rightarrow> read_each r vs | _ \<Rightarrow> None)"

fun read_entries :: "'a reader \<Rightarrow> (string \<times> json) list \<Rightarrow> (string, 'a) btree_map \<Rightarrow> (string, 'a) btree_map option" where
  "read_entries r [] m = Some m"
| "read_entries r ((k, v) # es) m = Option.bind (r v) (\<lambda>x. read_entries r es (bt_insert k x m))"

definition read_map :: "'a reader \<Rightarrow> (string, 'a) btree_map reader" where
  "read_map r v = (case v of JObj es \<Rightarrow> read_entries r es [] | _ \<Rightarrow> None)"

definition read_variant :: "(string \<times> 'a) list \<Rightarrow> 'a reader" where
  "read_variant names v =
     (case v of JStr s \<Rightarrow> map_of names s | JObj [(s, JNull)] \<Rightarrow> map_of names s | _ \<Rightarrow> None)"

text \<open>The fields of a struct with \<open>deny_unknown_fields\<close>.\<close>

definition struct_fields :: "string list \<Rightarrow> json \<Rightarrow> field_map option" where
  "struct_fields names v =
     (case v of
        JObj es \<Rightarrow> if list_all (\<lambda>(k, _). k \<in> set names) es then Some (map_of es) else None
      | JArr vs \<Rightarrow> if length vs \<le> length names then Some (map_of (zip names vs)) else None
      | _ \<Rightarrow> None)"

definition required_field :: "'a reader \<Rightarrow> string \<Rightarrow> field_map \<Rightarrow> 'a option" where
  "required_field r name fs = Option.bind (fs name) r"

definition default_field :: "'a reader \<Rightarrow> 'a \<Rightarrow> string \<Rightarrow> field_map \<Rightarrow> 'a option" where
  "default_field r d name fs = (case fs name of None \<Rightarrow> Some d | Some v \<Rightarrow> r v)"

abbreviation optional_field :: "'a reader \<Rightarrow> string \<Rightarrow> field_map \<Rightarrow> 'a option option" where
  "optional_field r \<equiv> default_field (read_option r) None"

text \<open>A struct is a chain of fields.\<close>

abbreviation bindO :: "'a option \<Rightarrow> ('a \<Rightarrow> 'b option) \<Rightarrow> 'b option" where
  "bindO \<equiv> Option.bind"

section \<open>deployment.rs and vpc.rs\<close>

definition HEALTH_CHECK_FIELDS :: "string list" where "HEALTH_CHECK_FIELDS = [''port'', ''path'']"

definition health_check_json :: "health_check \<Rightarrow> json" where
  "health_check_json c = jfields [(''port'', Some (jnat (hc_port c))), (''path'', map_option JStr (hc_path c))]"

definition health_check_of_json :: "health_check reader" where
  "health_check_of_json v =
     bindO (struct_fields HEALTH_CHECK_FIELDS v) (\<lambda>fs.
     bindO (required_field (read_uint 65535) ''port'' fs) (\<lambda>port.
     bindO (optional_field jstr ''path'' fs) (\<lambda>path.
     Some \<lparr>hc_port = port, hc_path = path\<rparr>)))"

definition POLICY_FIELDS :: "string list" where
  "POLICY_FIELDS = [''strategy'', ''stateless'', ''deadline_seconds'', ''auto_rollback'', ''health_check'']"

definition deployment_policy_json :: "deployment_policy \<Rightarrow> json" where
  "deployment_policy_json p =
     jfields [(''strategy'', Some (JStr (dp_strategy p))), (''stateless'', Some (JBool (dp_stateless p))),
              (''deadline_seconds'', Some (jnat (dp_deadline_seconds p))), (''auto_rollback'', Some (JBool (dp_auto_rollback p))),
              (''health_check'', map_option health_check_json (dp_health_check p))]"

definition deployment_policy_of_json :: "deployment_policy reader" where
  "deployment_policy_of_json v =
     bindO (struct_fields POLICY_FIELDS v) (\<lambda>fs.
     bindO (default_field jstr ''auto'' ''strategy'' fs) (\<lambda>strategy.
     bindO (default_field read_bool False ''stateless'' fs) (\<lambda>stateless.
     bindO (default_field (read_uint u32_max) 600 ''deadline_seconds'' fs) (\<lambda>deadline.
     bindO (default_field read_bool True ''auto_rollback'' fs) (\<lambda>rollback.
     bindO (optional_field health_check_of_json ''health_check'' fs) (\<lambda>check.
     Some \<lparr>dp_strategy = strategy, dp_stateless = stateless, dp_deadline_seconds = deadline, dp_auto_rollback = rollback,
           dp_health_check = check\<rparr>))))))"

definition ATTACHMENT_FIELDS :: "string list" where "ATTACHMENT_FIELDS = [''vpc_id'', ''security_groups'', ''private_name'']"

definition attachment_json :: "uuid_ops \<Rightarrow> flash_vpc_attachment \<Rightarrow> json" where
  "attachment_json uuids a =
     jfields [(''vpc_id'', Some (JStr (uuid_show uuids (att_vpc_id a)))), (''security_groups'', Some (jstrs (att_security_groups a))),
              (''private_name'', map_option JStr (att_private_name a))]"

definition attachment_of_json :: "uuid_ops \<Rightarrow> flash_vpc_attachment reader" where
  "attachment_of_json uuids v =
     bindO (struct_fields ATTACHMENT_FIELDS v) (\<lambda>fs.
     bindO (required_field (read_uuid uuids) ''vpc_id'' fs) (\<lambda>vpc.
     bindO (default_field (read_list jstr) default_security_groups ''security_groups'' fs) (\<lambda>groups.
     bindO (optional_field jstr ''private_name'' fs) (\<lambda>name.
     Some \<lparr>att_vpc_id = vpc, att_security_groups = groups, att_private_name = name\<rparr>))))"

section \<open>domain.rs\<close>

definition DEFAULT_EPHEMERAL_STORAGE_GIB :: u32 where "DEFAULT_EPHEMERAL_STORAGE_GIB = 10"
definition DEFAULT_IDLE_TIMEOUT_SECONDS :: u32 where "DEFAULT_IDLE_TIMEOUT_SECONDS = 900"

definition endpoint_mode_names :: "(string \<times> endpoint_mode) list" where
  "endpoint_mode_names = [(''ip'', Ip), (''load_balancer'', LoadBalancer), (''web'', Web)]"

definition egress_mode_names :: "(string \<times> flash_egress_mode) list" where
  "egress_mode_names = [(''disabled'', Disabled), (''restricted'', Restricted), (''internet'', Internet)]"

definition exposure_type_names :: "(string \<times> exposure_type) list" where
  "exposure_type_names = [(''internal'', Internal), (''public'', Public)]"

definition traffic_mode_names :: "(string \<times> traffic_mode) list" where
  "traffic_mode_names = [(''forwarded'', Forwarded), (''direct'', Direct)]"

definition protocol_names :: "(string \<times> transport_protocol) list" where
  "protocol_names = [(''tcp'', Tcp), (''udp'', Udp)]"

text \<open>The name of a variant.\<close>

definition variant_json :: "(string \<times> 'a) list \<Rightarrow> 'a \<Rightarrow> json" where
  "variant_json names x = JStr (case find (\<lambda>(_, y). y = x) names of None \<Rightarrow> [] | Some (s, _) \<Rightarrow> s)"

definition AUTOSCALING_FIELDS :: "string list" where
  "AUTOSCALING_FIELDS =
     [''min_replicas'', ''max_replicas'', ''target_cpu_utilization_percent'', ''target_memory_utilization_percent'',
      ''idle_timeout_seconds'']"

definition autoscaling_json :: "flash_autoscaling \<Rightarrow> json" where
  "autoscaling_json a =
     jfields [(''min_replicas'', Some (jnat (as_min_replicas a))), (''max_replicas'', Some (jnat (as_max_replicas a))),
              (''target_cpu_utilization_percent'', map_option jnat (as_target_cpu a)),
              (''target_memory_utilization_percent'', map_option jnat (as_target_memory a)),
              (''idle_timeout_seconds'', Some (jnat (as_idle_timeout_seconds a)))]"

definition autoscaling_of_json :: "flash_autoscaling reader" where
  "autoscaling_of_json v =
     bindO (struct_fields AUTOSCALING_FIELDS v) (\<lambda>fs.
     bindO (required_field (read_uint u32_max) ''min_replicas'' fs) (\<lambda>least.
     bindO (required_field (read_uint u32_max) ''max_replicas'' fs) (\<lambda>most.
     bindO (optional_field (read_uint u32_max) ''target_cpu_utilization_percent'' fs) (\<lambda>cpu.
     bindO (optional_field (read_uint u32_max) ''target_memory_utilization_percent'' fs) (\<lambda>memory.
     bindO (default_field (read_uint u32_max) DEFAULT_IDLE_TIMEOUT_SECONDS ''idle_timeout_seconds'' fs) (\<lambda>idle.
     Some \<lparr>as_min_replicas = least, as_max_replicas = most, as_target_cpu = cpu, as_target_memory = memory,
           as_idle_timeout_seconds = idle\<rparr>))))))"

definition EGRESS_FIELDS :: "string list" where
  "EGRESS_FIELDS = [''mode'', ''allow_same_organization'', ''allowed_destination_cidrs'', ''denied_destination_cidrs'']"

definition egress_json :: "flash_egress \<Rightarrow> json" where
  "egress_json e =
     jfields [(''mode'', Some (variant_json egress_mode_names (eg_mode e))),
              (''allow_same_organization'', Some (JBool (eg_allow_same_organization e))),
              (''allowed_destination_cidrs'', Some (jstrs (eg_allowed_destination_cidrs e))),
              (''denied_destination_cidrs'', Some (jstrs (eg_denied_destination_cidrs e)))]"

definition egress_of_json :: "flash_egress reader" where
  "egress_of_json v =
     bindO (struct_fields EGRESS_FIELDS v) (\<lambda>fs.
     bindO (default_field (read_variant egress_mode_names) Internet ''mode'' fs) (\<lambda>mode.
     bindO (default_field read_bool False ''allow_same_organization'' fs) (\<lambda>same.
     bindO (default_field (read_list jstr) [] ''allowed_destination_cidrs'' fs) (\<lambda>allowed.
     bindO (default_field (read_list jstr) [] ''denied_destination_cidrs'' fs) (\<lambda>denied.
     Some \<lparr>eg_mode = mode, eg_allow_same_organization = same, eg_allowed_destination_cidrs = allowed,
           eg_denied_destination_cidrs = denied\<rparr>)))))"

definition PORT_FIELDS :: "string list" where "PORT_FIELDS = [''name'', ''protocol'', ''container_port'', ''service_port'']"

definition port_json :: "flash_port \<Rightarrow> json" where
  "port_json p =
     jfields [(''name'', Some (JStr (port_name p))), (''protocol'', Some (variant_json protocol_names (port_protocol p))),
              (''container_port'', Some (jnat (port_container p))), (''service_port'', Some (jnat (port_service p)))]"

definition port_of_json :: "flash_port reader" where
  "port_of_json v =
     bindO (struct_fields PORT_FIELDS v) (\<lambda>fs.
     bindO (required_field jstr ''name'' fs) (\<lambda>name.
     bindO (required_field (read_variant protocol_names) ''protocol'' fs) (\<lambda>protocol.
     bindO (required_field (read_uint 65535) ''container_port'' fs) (\<lambda>container.
     bindO (required_field (read_uint 65535) ''service_port'' fs) (\<lambda>service.
     Some \<lparr>port_name = name, port_protocol = protocol, port_container = container, port_service = service\<rparr>)))))"

definition OIDC_FIELDS :: "string list" where
  "OIDC_FIELDS = [''issuer_url'', ''client_id'', ''client_secret_ref'', ''scopes'']"

definition oidc_json :: "flash_oidc_authentication \<Rightarrow> json" where
  "oidc_json a =
     jfields [(''issuer_url'', Some (JStr (oidc_issuer_url a))), (''client_id'', Some (JStr (oidc_client_id a))),
              (''client_secret_ref'', Some (JStr (oidc_client_secret_ref a))),
              (''scopes'', if oidc_scopes a = [] then None else Some (jstrs (oidc_scopes a)))]"

definition oidc_of_json :: "flash_oidc_authentication reader" where
  "oidc_of_json v =
     bindO (struct_fields OIDC_FIELDS v) (\<lambda>fs.
     bindO (required_field jstr ''issuer_url'' fs) (\<lambda>issuer.
     bindO (required_field jstr ''client_id'' fs) (\<lambda>client.
     bindO (required_field jstr ''client_secret_ref'' fs) (\<lambda>secret.
     bindO (default_field (read_list jstr) [] ''scopes'' fs) (\<lambda>scopes.
     Some \<lparr>oidc_issuer_url = issuer, oidc_client_id = client, oidc_client_secret_ref = secret, oidc_scopes = scopes\<rparr>)))))"

definition EXPOSURE_FIELDS :: "string list" where
  "EXPOSURE_FIELDS =
     [''endpoint_mode'', ''type'', ''traffic_mode'', ''allowed_source_cidrs'', ''denied_source_cidrs'', ''authentication'']"

definition exposure_json :: "flash_exposure \<Rightarrow> json" where
  "exposure_json e =
     jfields [(''endpoint_mode'', Some (variant_json endpoint_mode_names (ex_endpoint_mode e))),
              (''type'', Some (variant_json exposure_type_names (ex_kind e))),
              (''traffic_mode'', Some (variant_json traffic_mode_names (ex_traffic_mode e))),
              (''allowed_source_cidrs'', Some (jstrs (ex_allowed_source_cidrs e))),
              (''denied_source_cidrs'', Some (jstrs (ex_denied_source_cidrs e))),
              (''authentication'', map_option oidc_json (ex_authentication e))]"

definition exposure_of_json :: "flash_exposure reader" where
  "exposure_of_json v =
     bindO (struct_fields EXPOSURE_FIELDS v) (\<lambda>fs.
     bindO (default_field (read_variant endpoint_mode_names) Ip ''endpoint_mode'' fs) (\<lambda>mode.
     bindO (required_field (read_variant exposure_type_names) ''type'' fs) (\<lambda>kind.
     bindO (required_field (read_variant traffic_mode_names) ''traffic_mode'' fs) (\<lambda>traffic.
     bindO (default_field (read_list jstr) [] ''allowed_source_cidrs'' fs) (\<lambda>allowed.
     bindO (default_field (read_list jstr) [] ''denied_source_cidrs'' fs) (\<lambda>denied.
     bindO (optional_field oidc_of_json ''authentication'' fs) (\<lambda>authentication.
     Some \<lparr>ex_endpoint_mode = mode, ex_kind = kind, ex_traffic_mode = traffic, ex_allowed_source_cidrs = allowed,
           ex_denied_source_cidrs = denied, ex_authentication = authentication\<rparr>)))))))"

section \<open>FlashSpec\<close>

definition SPEC_FIELDS :: "string list" where
  "SPEC_FIELDS =
     [''region'', ''image'', ''deployment'', ''task_role'', ''replicas'', ''stopped'', ''autoscaling'', ''cpu_millis'', ''memory_mib'',
      ''gpu_type'', ''gpu_count'', ''ephemeral_storage_gib'', ''rootfs_storage_gib'', ''persistent_storage_gib'',
      ''restore_from_backup_id'', ''ports'', ''exposure'', ''egress'', ''network'', ''env'', ''secret_env'', ''secret_files'',
      ''command'', ''args'', ''metadata'']"

definition string_map_json :: "(string, string) btree_map \<Rightarrow> json" where
  "string_map_json m = JObj (map (\<lambda>(k, v). (k, JStr v)) m)"

definition spec_fields :: "uuid_ops \<Rightarrow> flash_spec \<Rightarrow> (string \<times> json option) list" where
  "spec_fields uuids s =
     [(''region'', Some (JStr (fs_region s))), (''image'', Some (JStr (fs_image s))),
      (''deployment'', map_option deployment_policy_json (fs_deployment s)),
      (''task_role'', map_option (\<lambda>u. JStr (uuid_show uuids u)) (fs_task_role s)),
      (''replicas'', Some (jnat (fs_replicas s))),
      (''stopped'', if fs_stopped s then Some (JBool True) else None),
      (''autoscaling'', map_option autoscaling_json (fs_autoscaling s)),
      (''cpu_millis'', Some (jnat (fs_cpu_millis s))), (''memory_mib'', Some (jnat (fs_memory_mib s))),
      (''gpu_type'', map_option JStr (fs_gpu_type s)),
      (''gpu_count'', if fs_gpu_count s = 0 then None else Some (jnat (fs_gpu_count s))),
      (''ephemeral_storage_gib'', Some (jnat (fs_ephemeral_storage_gib s))),
      (''rootfs_storage_gib'', map_option jnat (fs_rootfs_storage_gib s)),
      (''persistent_storage_gib'', map_option jnat (fs_persistent_storage_gib s)),
      (''restore_from_backup_id'', map_option (\<lambda>u. JStr (uuid_show uuids u)) (fs_restore_from_backup_id s)),
      (''ports'', Some (JArr (map port_json (fs_ports s)))), (''exposure'', Some (exposure_json (fs_exposure s))),
      (''egress'', Some (egress_json (fs_egress s))), (''network'', map_option (attachment_json uuids) (fs_network s)),
      (''env'', Some (string_map_json (fs_env s))),
      (''secret_env'', if fs_secret_env s = [] then None else Some (string_map_json (fs_secret_env s))),
      (''secret_files'', if fs_secret_files s = [] then None else Some (string_map_json (fs_secret_files s))),
      (''command'', Some (jstrs (fs_command s))), (''args'', Some (jstrs (fs_args s))),
      (''metadata'', Some (JObj (fs_metadata s)))]"

definition spec_json :: "uuid_ops \<Rightarrow> flash_spec \<Rightarrow> json" where
  "spec_json uuids s = jfields (spec_fields uuids s)"

definition spec_of_json :: "uuid_ops \<Rightarrow> flash_spec reader" where
  "spec_of_json uuids v =
     bindO (struct_fields SPEC_FIELDS v) (\<lambda>fs.
     bindO (required_field jstr ''region'' fs) (\<lambda>region.
     bindO (required_field jstr ''image'' fs) (\<lambda>img.
     bindO (optional_field deployment_policy_of_json ''deployment'' fs) (\<lambda>deployment.
     bindO (optional_field (read_uuid uuids) ''task_role'' fs) (\<lambda>task_role.
     bindO (required_field (read_uint u32_max) ''replicas'' fs) (\<lambda>replicas.
     bindO (default_field read_bool False ''stopped'' fs) (\<lambda>stopped.
     bindO (optional_field autoscaling_of_json ''autoscaling'' fs) (\<lambda>autoscaling.
     bindO (required_field (read_uint u32_max) ''cpu_millis'' fs) (\<lambda>cpu.
     bindO (required_field (read_uint u32_max) ''memory_mib'' fs) (\<lambda>memory.
     bindO (optional_field jstr ''gpu_type'' fs) (\<lambda>gpu_type.
     bindO (default_field (read_uint u32_max) 0 ''gpu_count'' fs) (\<lambda>gpu_count.
     bindO (default_field (read_uint u32_max) DEFAULT_EPHEMERAL_STORAGE_GIB ''ephemeral_storage_gib'' fs) (\<lambda>disk.
     bindO (optional_field (read_uint u32_max) ''rootfs_storage_gib'' fs) (\<lambda>rootfs.
     bindO (optional_field (read_uint u32_max) ''persistent_storage_gib'' fs) (\<lambda>persistent.
     bindO (optional_field (read_uuid uuids) ''restore_from_backup_id'' fs) (\<lambda>restore.
     bindO (required_field (read_list port_of_json) ''ports'' fs) (\<lambda>ports.
     bindO (required_field exposure_of_json ''exposure'' fs) (\<lambda>exposure.
     bindO (default_field egress_of_json default_flash_egress ''egress'' fs) (\<lambda>egress.
     bindO (optional_field (attachment_of_json uuids) ''network'' fs) (\<lambda>network.
     bindO (default_field (read_map jstr) [] ''env'' fs) (\<lambda>env.
     bindO (default_field (read_map jstr) [] ''secret_env'' fs) (\<lambda>secret_env.
     bindO (default_field (read_map jstr) [] ''secret_files'' fs) (\<lambda>secret_files.
     bindO (default_field (read_list jstr) [] ''command'' fs) (\<lambda>cmd.
     bindO (default_field (read_list jstr) [] ''args'' fs) (\<lambda>args.
     bindO (default_field (read_map Some) [] ''metadata'' fs) (\<lambda>metadata.
     Some \<lparr>fs_region = region, fs_image = img, fs_deployment = deployment, fs_task_role = task_role, fs_replicas = replicas,
           fs_stopped = stopped, fs_autoscaling = autoscaling, fs_cpu_millis = cpu, fs_memory_mib = memory, fs_gpu_type = gpu_type,
           fs_gpu_count = gpu_count, fs_ephemeral_storage_gib = disk, fs_rootfs_storage_gib = rootfs,
           fs_persistent_storage_gib = persistent, fs_restore_from_backup_id = restore, fs_ports = ports, fs_exposure = exposure,
           fs_egress = egress, fs_network = network, fs_env = env, fs_secret_env = secret_env, fs_secret_files = secret_files,
           fs_command = cmd, fs_args = args, fs_metadata = metadata\<rparr>))))))))))))))))))))))))))"

section \<open>Round trip\<close>

text \<open>What the types of the fields promise: the ranges of integers and the order of maps.\<close>

definition policy_typed :: "deployment_policy \<Rightarrow> bool" where
  "policy_typed p \<longleftrightarrow> dp_deadline_seconds p \<le> u32_max \<and> pred_option (\<lambda>c. hc_port c \<le> 65535) (dp_health_check p)"

definition autoscaling_typed :: "flash_autoscaling \<Rightarrow> bool" where
  "autoscaling_typed a \<longleftrightarrow>
     as_min_replicas a \<le> u32_max \<and> as_max_replicas a \<le> u32_max \<and> pred_option (\<lambda>n. n \<le> u32_max) (as_target_cpu a) \<and>
     pred_option (\<lambda>n. n \<le> u32_max) (as_target_memory a) \<and> as_idle_timeout_seconds a \<le> u32_max"

definition spec_typed :: "flash_spec \<Rightarrow> bool" where
  "spec_typed s \<longleftrightarrow>
     pred_option policy_typed (fs_deployment s) \<and> pred_option autoscaling_typed (fs_autoscaling s) \<and>
     list_all (\<lambda>n. n \<le> u32_max) [fs_replicas s, fs_cpu_millis s, fs_memory_mib s, fs_gpu_count s, fs_ephemeral_storage_gib s] \<and>
     pred_option (\<lambda>n. n \<le> u32_max) (fs_rootfs_storage_gib s) \<and> pred_option (\<lambda>n. n \<le> u32_max) (fs_persistent_storage_gib s) \<and>
     list_all (\<lambda>p. port_container p \<le> 65535 \<and> port_service p \<le> 65535) (fs_ports s) \<and>
     bt_wf (fs_env s) \<and> bt_wf (fs_secret_env s) \<and> bt_wf (fs_secret_files s) \<and> bt_wf (fs_metadata s)"

named_theorems read_simps \<open>reading what has been written\<close>

lemma read_bool_JBool [read_simps]: "read_bool (JBool b) = Some b"
  by (simp add: read_bool_def)

lemma jstr_JStr [read_simps]: "jstr (JStr s) = Some s"
  by (simp add: jstr_def)

lemma read_uint_jnat [read_simps]: "n \<le> m \<Longrightarrow> read_uint m (jnat n) = Some n"
  by (simp add: read_uint_def jnat_def)

lemma read_each_map: "(\<And>x. x \<in> set xs \<Longrightarrow> r (w x) = Some x) \<Longrightarrow> read_each r (map w xs) = Some xs"
  by (induction xs) auto

lemma read_list_map: "(\<And>x. x \<in> set xs \<Longrightarrow> r (w x) = Some x) \<Longrightarrow> read_list r (JArr (map w xs)) = Some xs"
  by (simp add: read_list_def read_each_map)

lemma read_list_jstrs [read_simps]: "read_list jstr (jstrs ss) = Some ss"
  by (simp add: jstrs_def read_list_map read_simps)

lemma bt_insert_end: "\<forall>k' \<in> fst ` set m. k' < k \<Longrightarrow> bt_insert k v m = m @ [(k, v)]"
  by (induction m) (auto dest: order.asym)

lemma read_entries_map:
  assumes "bt_wf (m @ es)" and "\<And>x. x \<in> snd ` set es \<Longrightarrow> r (w x) = Some x"
  shows "read_entries r (map (\<lambda>(k, x). (k, w x)) es) m = Some (m @ es)"
  using assms
proof (induction es arbitrary: m)
  case (Cons e es)
  obtain k x where e: "e = (k, x)" by (cases e)
  have "bt_insert k x m = m @ [(k, x)]"
    by (rule bt_insert_end) (use Cons.prems(1) in \<open>auto simp: e bt_wf_def sorted_wrt_append\<close>)
  then show ?case using Cons.IH [of "m @ [(k, x)]"] Cons.prems by (simp add: e)
qed simp

lemma read_map_strings [read_simps]: "bt_wf m \<Longrightarrow> read_map jstr (string_map_json m) = Some m"
  using read_entries_map [of "[]" m jstr JStr] by (simp add: read_map_def string_map_json_def read_simps)

lemma read_map_values [read_simps]: "bt_wf m \<Longrightarrow> read_map Some (JObj m) = Some m"
  using read_entries_map [of "[]" m Some "\<lambda>x. x"] by (simp add: read_map_def)

lemma keys_fold_bt_insert:
  "fst ` set (fold (\<lambda>(k, v). bt_insert k v) entries m) = fst ` set entries \<union> fst ` set m"
  by (induction entries arbitrary: m) (simp_all add: split_beta Un_commute)

lemma map_of_map_filter:
  "distinct (map fst entries) \<Longrightarrow>
   map_of (rev (List.map_filter (\<lambda>(k, v). map_option (Pair k) v) entries)) k = bindO (map_of entries k) (\<lambda>v. v)"
proof (induction entries)
  case (Cons e es)
  have "fst ` set (List.map_filter (\<lambda>(k, v). map_option (Pair k) v) es) \<subseteq> fst ` set es"
    by (force simp: List.map_filter_def)
  then have "map_of (rev (List.map_filter (\<lambda>(k, v). map_option (Pair k) v) es)) (fst e) = None"
    using Cons.prems by (auto simp: map_of_eq_None_iff)
  then show ?case using Cons by (cases e; cases "snd e") (auto simp: map_add_def map_filter_simps split: option.splits)
qed (simp add: map_filter_simps)

lemma struct_fields_jfields:
  assumes "distinct (map fst entries)" and "map fst entries = names"
  shows "struct_fields names (jfields entries) = Some (\<lambda>k. bindO (map_of entries k) (\<lambda>v. v))"
proof -
  let ?m = "fold (\<lambda>(k, v). bt_insert k v) (List.map_filter (\<lambda>(k, v). map_option (Pair k) v) entries) []"
  have "fst ` set (List.map_filter (\<lambda>(k, v). map_option (Pair k) v) entries) \<subseteq> set (map fst entries)"
    by (force simp: List.map_filter_def)
  then have "fst ` set ?m \<subseteq> set names" by (simp only: assms(2) keys_fold_bt_insert) simp
  then have "list_all (\<lambda>(k, _). k \<in> set names) ?m" by (auto simp: list_all_iff)
  then show ?thesis
    using map_of_map_filter [OF assms(1)]
    by (simp add: struct_fields_def jfields_def jobj_def map_of_fold_bt_insert fun_eq_iff split: option.splits)
qed

lemma jfields_not_null [simp]: "jfields entries \<noteq> JNull"
  by (simp add: jfields_def jobj_def)

lemma written_not_null [simp]:
  "jnat n \<noteq> JNull" "health_check_json c \<noteq> JNull" "deployment_policy_json p \<noteq> JNull" "attachment_json uuids a \<noteq> JNull"
  "autoscaling_json s \<noteq> JNull" "oidc_json l \<noteq> JNull"
  by (simp_all add: jnat_def health_check_json_def deployment_policy_json_def attachment_json_def autoscaling_json_def oidc_json_def)

lemma optional_field_map [read_simps]:
  "fs name = map_option w x \<Longrightarrow> (\<And>y. x = Some y \<Longrightarrow> w y \<noteq> JNull \<and> r (w y) = Some y) \<Longrightarrow> optional_field r name fs = Some x"
  by (cases x) (auto simp: default_field_def read_option_def split: json.splits)

lemma optional_field_jnat [read_simps]:
  "fs name = map_option jnat x \<Longrightarrow> pred_option (\<lambda>n. n \<le> m) x \<Longrightarrow> optional_field (read_uint m) name fs = Some x"
  by (rule optional_field_map) (auto simp: read_simps)

lemma variant_round_trip [read_simps]:
  "read_variant endpoint_mode_names (variant_json endpoint_mode_names m) = Some m"
  "read_variant egress_mode_names (variant_json egress_mode_names e) = Some e"
  "read_variant exposure_type_names (variant_json exposure_type_names t) = Some t"
  "read_variant traffic_mode_names (variant_json traffic_mode_names f) = Some f"
  "read_variant protocol_names (variant_json protocol_names p) = Some p"
  by (cases m; cases e; cases t; cases f; cases p; simp add: read_variant_def variant_json_def endpoint_mode_names_def
      egress_mode_names_def exposure_type_names_def traffic_mode_names_def protocol_names_def)+

lemma required_field_written [read_simps]: "fs name = Some v \<Longrightarrow> required_field r name fs = r v"
  by (simp add: required_field_def)

lemma default_field_written [read_simps]: "fs name = Some v \<Longrightarrow> default_field r d name fs = r v"
  by (simp add: default_field_def)

lemma default_field_skipped:
  "fs name = (if x = d then None else Some (w x)) \<Longrightarrow> r (w x) = Some x \<Longrightarrow> default_field r d name fs = Some x"
  by (simp add: default_field_def)

lemma health_check_round_trip [read_simps]:
  "hc_port c \<le> 65535 \<Longrightarrow> health_check_of_json (health_check_json c) = Some c"
  by (simp add: health_check_of_json_def health_check_json_def struct_fields_jfields HEALTH_CHECK_FIELDS_def read_simps)

lemma deployment_policy_round_trip [read_simps]:
  assumes "policy_typed p"
  shows "deployment_policy_of_json (deployment_policy_json p) = Some p"
proof -
  have "dp_deadline_seconds p \<le> u32_max" using assms by (simp add: policy_typed_def)
  moreover have "health_check_json c \<noteq> JNull \<and> health_check_of_json (health_check_json c) = Some c" if "dp_health_check p = Some c" for c
    using assms that by (simp add: policy_typed_def read_simps)
  ultimately show ?thesis
    by (simp add: deployment_policy_of_json_def deployment_policy_json_def struct_fields_jfields POLICY_FIELDS_def
        optional_field_map [where w = health_check_json] read_simps)
qed

lemma attachment_round_trip [read_simps]:
  assumes "\<And>u. uuid_parse uuids (uuid_show uuids u) = Some u"
  shows "attachment_of_json uuids (attachment_json uuids a) = Some a"
  by (simp add: attachment_of_json_def attachment_json_def struct_fields_jfields ATTACHMENT_FIELDS_def read_uuid_def assms read_simps)

lemma autoscaling_round_trip [read_simps]:
  "autoscaling_typed a \<Longrightarrow> autoscaling_of_json (autoscaling_json a) = Some a"
  by (simp add: autoscaling_of_json_def autoscaling_json_def struct_fields_jfields AUTOSCALING_FIELDS_def read_simps
      autoscaling_typed_def)

lemma egress_round_trip [read_simps]: "egress_of_json (egress_json e) = Some e"
  by (simp add: egress_of_json_def egress_json_def struct_fields_jfields EGRESS_FIELDS_def read_simps)

lemma port_round_trip [read_simps]:
  "port_container p \<le> 65535 \<Longrightarrow> port_service p \<le> 65535 \<Longrightarrow> port_of_json (port_json p) = Some p"
  by (simp add: port_of_json_def port_json_def struct_fields_jfields PORT_FIELDS_def read_simps)

lemma oidc_round_trip [read_simps]: "oidc_of_json (oidc_json a) = Some a"
  by (simp add: oidc_of_json_def oidc_json_def struct_fields_jfields OIDC_FIELDS_def read_simps
      default_field_skipped [where x = "oidc_scopes a" and w = jstrs])

lemma exposure_round_trip [read_simps]: "exposure_of_json (exposure_json e) = Some e"
  by (simp add: exposure_of_json_def exposure_json_def struct_fields_jfields EXPOSURE_FIELDS_def read_simps
      optional_field_map [where w = oidc_json]) 

lemma struct_fields_spec: "struct_fields SPEC_FIELDS (spec_json uuids s) = Some (\<lambda>k. bindO (map_of (spec_fields uuids s) k) (\<lambda>v. v))"
  unfolding spec_json_def by (rule struct_fields_jfields) (simp_all add: spec_fields_def SPEC_FIELDS_def)

lemma optional_uuid [read_simps]:
  assumes "\<And>u. uuid_parse uuids (uuid_show uuids u) = Some u" and "fs name = map_option (\<lambda>u. JStr (uuid_show uuids u)) x"
  shows "optional_field (read_uuid uuids) name fs = Some x"
  using assms(2) by (rule optional_field_map) (simp add: read_uuid_def assms(1) read_simps)

text \<open>
  C24. A specification survives its JSON form. What the provider API stores, or the command line tool sends, is read back as the same
  specification: every skipped field takes the value that was skipped, for every specification within the ranges of its types. A field
  that no version of the program knows is refused.
\<close>

theorem spec_round_trip:
  assumes uuids: "\<And>u. uuid_parse uuids (uuid_show uuids u) = Some u" and typed: "spec_typed s"
  shows "spec_of_json uuids (spec_json uuids s) = Some s \<and>
    (\<forall>es k v. (k, v) \<in> set es \<and> k \<notin> set SPEC_FIELDS \<longrightarrow> spec_of_json uuids (JObj es) = None)"
proof -
  let ?fs = "\<lambda>k. bindO (map_of (spec_fields uuids s) k) (\<lambda>v. v)"
  note typed = typed [unfolded spec_typed_def]
  have optional:
    "optional_field deployment_policy_of_json ''deployment'' ?fs = Some (fs_deployment s)"
    "optional_field autoscaling_of_json ''autoscaling'' ?fs = Some (fs_autoscaling s)"
    "optional_field (attachment_of_json uuids) ''network'' ?fs = Some (fs_network s)"
    using typed
    by (auto simp: spec_fields_def uuids read_simps intro!: optional_field_map [where w = deployment_policy_json]
        optional_field_map [where w = autoscaling_json] optional_field_map [where w = "attachment_json uuids"])
  have skipped:
    "default_field read_bool False ''stopped'' ?fs = Some (fs_stopped s)"
    "default_field (read_uint u32_max) 0 ''gpu_count'' ?fs = Some (fs_gpu_count s)"
    "default_field (read_map jstr) [] ''secret_env'' ?fs = Some (fs_secret_env s)"
    "default_field (read_map jstr) [] ''secret_files'' ?fs = Some (fs_secret_files s)"
    using typed by (simp_all add: spec_fields_def default_field_def read_simps)
  have ports: "required_field (read_list port_of_json) ''ports'' ?fs = Some (fs_ports s)"
    using typed by (simp add: spec_fields_def read_simps read_list_map list_all_iff)
  have plain:
    "required_field jstr ''region'' ?fs = Some (fs_region s)" "required_field jstr ''image'' ?fs = Some (fs_image s)"
    "optional_field (read_uuid uuids) ''task_role'' ?fs = Some (fs_task_role s)"
    "required_field (read_uint u32_max) ''replicas'' ?fs = Some (fs_replicas s)"
    "required_field (read_uint u32_max) ''cpu_millis'' ?fs = Some (fs_cpu_millis s)"
    "required_field (read_uint u32_max) ''memory_mib'' ?fs = Some (fs_memory_mib s)"
    "optional_field jstr ''gpu_type'' ?fs = Some (fs_gpu_type s)"
    "default_field (read_uint u32_max) DEFAULT_EPHEMERAL_STORAGE_GIB ''ephemeral_storage_gib'' ?fs = Some (fs_ephemeral_storage_gib s)"
    "optional_field (read_uint u32_max) ''rootfs_storage_gib'' ?fs = Some (fs_rootfs_storage_gib s)"
    "optional_field (read_uint u32_max) ''persistent_storage_gib'' ?fs = Some (fs_persistent_storage_gib s)"
    "optional_field (read_uuid uuids) ''restore_from_backup_id'' ?fs = Some (fs_restore_from_backup_id s)"
    "required_field exposure_of_json ''exposure'' ?fs = Some (fs_exposure s)"
    "default_field egress_of_json default_flash_egress ''egress'' ?fs = Some (fs_egress s)"
    "default_field (read_map jstr) [] ''env'' ?fs = Some (fs_env s)"
    "default_field (read_list jstr) [] ''command'' ?fs = Some (fs_command s)"
    "default_field (read_list jstr) [] ''args'' ?fs = Some (fs_args s)"
    "default_field (read_map Some) [] ''metadata'' ?fs = Some (fs_metadata s)"
    using typed by (simp_all add: spec_fields_def uuids read_simps)
  have "spec_of_json uuids (JObj es) = None" if "(k, v) \<in> set es" and "k \<notin> set SPEC_FIELDS" for es k v
    using that by (auto simp: spec_of_json_def struct_fields_def list_all_iff)
  moreover have "spec_of_json uuids (spec_json uuids s) = Some s"
    by (simp add: spec_of_json_def struct_fields_spec optional skipped ports plain)
  ultimately show ?thesis by blast
qed

theorem spec_round_trip_witness:
  "spec_of_json hex_uuids (spec_json hex_uuids sample_spec) = Some sample_spec \<and> spec_of_json hex_uuids (JObj [(''imag'', JNull)]) = None"
proof -
  have "spec_typed sample_spec"
    by (simp add: spec_typed_def autoscaling_typed_def sample_spec_def sample_port_def bt_wf_def u32_max_def)
  then show ?thesis
    using spec_round_trip [of hex_uuids sample_spec] hex.parse_show by (auto simp: SPEC_FIELDS_def)
qed

end
