(* ===== verification/Crd_Rules.thy ===== *)
theory Crd_Rules
  imports Spec_Json
begin

text \<open>
  The rules that the generated resource definitions carry (\<open>validated_crd\<close> and its siblings in \<open>crd.rs\<close> and \<open>backups.rs\<close>,
  \<open>bin/flash-crdgen.rs\<close>): the part of CEL and of regular expressions that they use, as syntax with its printed form and its evaluation by
  the API server, the rules themselves, and the update of the generated definition by them.
\<close>

section \<open>Regular expressions\<close>

datatype rx_item = One char | Range char char
datatype rx_repeat = Once | Exactly nat | UpTo nat | Plus
datatype rx_piece = Class "rx_item list" rx_repeat | Literal char | Maybe "rx_piece list"

fun item_matches :: "char \<Rightarrow> rx_item \<Rightarrow> bool" where
  "item_matches c (One d) \<longleftrightarrow> c = d"
| "item_matches c (Range a b) \<longleftrightarrow> byte a \<le> byte c \<and> byte c \<le> byte b"

fun repeat_allows :: "rx_repeat \<Rightarrow> nat \<Rightarrow> bool" where
  "repeat_allows Once k \<longleftrightarrow> k = 1"
| "repeat_allows (Exactly n) k \<longleftrightarrow> k = n"
| "repeat_allows (UpTo n) k \<longleftrightarrow> k \<le> n"
| "repeat_allows Plus k \<longleftrightarrow> 0 < k"

text \<open>What can be left of a text behind a match of its start.\<close>

fun rests :: "rx_piece \<Rightarrow> string \<Rightarrow> string list"
  and rests_all :: "rx_piece list \<Rightarrow> string \<Rightarrow> string list" where
  "rests (Class items rep) s =
     map (\<lambda>k. drop k s)
       (filter (\<lambda>k. repeat_allows rep k \<and> list_all (\<lambda>c. list_ex (item_matches c) items) (take k s)) [0..<Suc (length s)])"
| "rests (Literal c) s = (case s of [] \<Rightarrow> [] | d # t \<Rightarrow> if d = c then [t] else [])"
| "rests (Maybe ps) s = s # rests_all ps s"
| "rests_all [] s = [s]"
| "rests_all (p # ps) s = concat (map (rests_all ps) (rests p s))"

text \<open>The whole text, as the anchors of every pattern demand.\<close>

definition rx_matches :: "rx_piece list \<Rightarrow> string \<Rightarrow> bool" where
  "rx_matches ps s \<longleftrightarrow> [] \<in> set (rests_all ps s)"

fun show_item :: "rx_item \<Rightarrow> string" where
  "show_item (One c) = [c]"
| "show_item (Range a b) = [a, CHR ''-'', b]"

fun show_repeat :: "rx_repeat \<Rightarrow> string" where
  "show_repeat Once = []"
| "show_repeat (Exactly n) = ''{'' @ show_nat n @ ''}''"
| "show_repeat (UpTo n) = ''{0,'' @ show_nat n @ ''}''"
| "show_repeat Plus = ''+''"

fun show_piece :: "rx_piece \<Rightarrow> string" where
  "show_piece (Class items rep) = ''['' @ concat (map show_item items) @ '']'' @ show_repeat rep"
| "show_piece (Literal c) = [c]"
| "show_piece (Maybe ps) = ''('' @ concat (map show_piece ps) @ '')?''"

definition show_rx :: "rx_piece list \<Rightarrow> string" where
  "show_rx ps = ''^'' @ concat (map show_piece ps) @ ''$''"

section \<open>Rules\<close>

datatype cel_name = Self | OldSelf | Element
datatype cel =
    CVar cel_name | CGet cel string | CInt nat | CStr string | CStrs "string list" | CHas cel string | CSize cel
  | CMatches cel "rx_piece list" | CAll cel cel | CNot cel | CAnd cel cel | COr cel cel | CEq cel cel | CNe cel cel
  | CGe cel cel | CLe cel cel | CIn cel cel

record cel_scope =
  sc_self :: json
  sc_old :: "json option"
  sc_element :: "json option"

text \<open>Conjunction and disjunction absorb an error on one side when the other side decides.\<close>

definition cel_and :: "json option \<Rightarrow> json option \<Rightarrow> json option" where
  "cel_and a b =
     (if a = Some (JBool False) \<or> b = Some (JBool False) then Some (JBool False)
      else if a = Some (JBool True) \<and> b = Some (JBool True) then Some (JBool True) else None)"

definition cel_or :: "json option \<Rightarrow> json option \<Rightarrow> json option" where
  "cel_or a b =
     (if a = Some (JBool True) \<or> b = Some (JBool True) then Some (JBool True)
      else if a = Some (JBool False) \<and> b = Some (JBool False) then Some (JBool False) else None)"

definition cel_number :: "json option \<Rightarrow> int option" where
  "cel_number v = (case v of Some (JNum n) \<Rightarrow> Some n | _ \<Rightarrow> None)"

definition cel_compare :: "(int \<Rightarrow> int \<Rightarrow> bool) \<Rightarrow> json option \<Rightarrow> json option \<Rightarrow> json option" where
  "cel_compare r a b = bindO (cel_number a) (\<lambda>x. map_option (\<lambda>y. JBool (r x y)) (cel_number b))"

definition cel_has :: "json \<Rightarrow> string \<Rightarrow> json option" where
  "cel_has v f = map_option (\<lambda>m. JBool (map_of m f \<noteq> None)) (jobject v)"

fun cel_eval :: "cel_scope \<Rightarrow> cel \<Rightarrow> json option" where
  "cel_eval sc (CVar n) = (case n of Self \<Rightarrow> Some (sc_self sc) | OldSelf \<Rightarrow> sc_old sc | Element \<Rightarrow> sc_element sc)"
| "cel_eval sc (CGet e f) = bindO (cel_eval sc e) (\<lambda>v. jget_opt v f)"
| "cel_eval sc (CInt n) = Some (jnat n)"
| "cel_eval sc (CStr s) = Some (JStr s)"
| "cel_eval sc (CStrs ss) = Some (jstrs ss)"
| "cel_eval sc (CHas e f) = bindO (cel_eval sc e) (\<lambda>v. cel_has v f)"
| "cel_eval sc (CSize e) = (case cel_eval sc e of Some (JArr vs) \<Rightarrow> Some (jnat (length vs)) | _ \<Rightarrow> None)"
| "cel_eval sc (CMatches e r) = (case cel_eval sc e of Some (JStr s) \<Rightarrow> Some (JBool (rx_matches r s)) | _ \<Rightarrow> None)"
| "cel_eval sc (CAll e p) =
     (case cel_eval sc e of
        Some (JArr vs) \<Rightarrow> foldr (\<lambda>v. cel_and (cel_eval (sc\<lparr>sc_element := Some v\<rparr>) p)) vs (Some (JBool True))
      | _ \<Rightarrow> None)"
| "cel_eval sc (CNot e) = (case cel_eval sc e of Some (JBool b) \<Rightarrow> Some (JBool (\<not> b)) | _ \<Rightarrow> None)"
| "cel_eval sc (CAnd a b) = cel_and (cel_eval sc a) (cel_eval sc b)"
| "cel_eval sc (COr a b) = cel_or (cel_eval sc a) (cel_eval sc b)"
| "cel_eval sc (CEq a b) = bindO (cel_eval sc a) (\<lambda>x. map_option (\<lambda>y. JBool (x = y)) (cel_eval sc b))"
| "cel_eval sc (CNe a b) = bindO (cel_eval sc a) (\<lambda>x. map_option (\<lambda>y. JBool (x \<noteq> y)) (cel_eval sc b))"
| "cel_eval sc (CGe a b) = cel_compare (\<ge>) (cel_eval sc a) (cel_eval sc b)"
| "cel_eval sc (CLe a b) = cel_compare (\<le>) (cel_eval sc a) (cel_eval sc b)"
| "cel_eval sc (CIn a b) =
     (case cel_eval sc b of Some (JArr vs) \<Rightarrow> map_option (\<lambda>x. JBool (x \<in> set vs)) (cel_eval sc a) | _ \<Rightarrow> None)"

text \<open>The printed form; an operand of a connective is in parentheses when it is another connective.\<close>

fun is_and :: "cel \<Rightarrow> bool" where "is_and (CAnd _ _) = True" | "is_and _ = False"
fun is_or :: "cel \<Rightarrow> bool" where "is_or (COr _ _) = True" | "is_or _ = False"
fun is_has :: "cel \<Rightarrow> bool" where "is_has (CHas _ _) = True" | "is_has _ = False"

definition in_parens :: "bool \<Rightarrow> string \<Rightarrow> string" where
  "in_parens b s = (if b then ''('' @ s @ '')'' else s)"

definition quoted :: "string \<Rightarrow> string" where
  "quoted s = [char_of (39::nat)] @ s @ [char_of (39::nat)]"

fun show_cel :: "cel \<Rightarrow> string" where
  "show_cel (CVar n) = (case n of Self \<Rightarrow> ''self'' | OldSelf \<Rightarrow> ''oldSelf'' | Element \<Rightarrow> ''p'')"
| "show_cel (CGet e f) = show_cel e @ ''.'' @ f"
| "show_cel (CInt n) = show_nat n"
| "show_cel (CStr s) = quoted s"
| "show_cel (CStrs ss) = ''['' @ join '', '' (map quoted ss) @ '']''"
| "show_cel (CHas e f) = ''has('' @ show_cel e @ ''.'' @ f @ '')''"
| "show_cel (CSize e) = ''size('' @ show_cel e @ '')''"
| "show_cel (CMatches e r) = show_cel e @ ''.matches('' @ quoted (show_rx r) @ '')''"
| "show_cel (CAll e p) = show_cel e @ ''.all(p, '' @ show_cel p @ '')''"
| "show_cel (CNot e) = ''!'' @ in_parens (\<not> is_has e) (show_cel e)"
| "show_cel (CAnd a b) = in_parens (is_or a) (show_cel a) @ '' && '' @ in_parens (is_or b \<or> is_and b) (show_cel b)"
| "show_cel (COr a b) = in_parens (is_and a) (show_cel a) @ '' || '' @ in_parens (is_or b \<or> is_and b) (show_cel b)"
| "show_cel (CEq a b) = show_cel a @ '' == '' @ show_cel b"
| "show_cel (CNe a b) = show_cel a @ '' != '' @ show_cel b"
| "show_cel (CGe a b) = show_cel a @ '' >= '' @ show_cel b"
| "show_cel (CLe a b) = show_cel a @ '' <= '' @ show_cel b"
| "show_cel (CIn a b) = show_cel a @ '' in '' @ show_cel b"

text \<open>A rule that mentions the old value is evaluated on updates only. An error of the evaluation refuses the object.\<close>

fun mentions_old :: "cel \<Rightarrow> bool" where
  "mentions_old (CVar n) \<longleftrightarrow> n = OldSelf"
| "mentions_old (CGet e _) \<longleftrightarrow> mentions_old e"
| "mentions_old (CInt _) \<longleftrightarrow> False"
| "mentions_old (CStr _) \<longleftrightarrow> False"
| "mentions_old (CStrs _) \<longleftrightarrow> False"
| "mentions_old (CHas e _) \<longleftrightarrow> mentions_old e"
| "mentions_old (CSize e) \<longleftrightarrow> mentions_old e"
| "mentions_old (CMatches e _) \<longleftrightarrow> mentions_old e"
| "mentions_old (CAll e p) \<longleftrightarrow> mentions_old e \<or> mentions_old p"
| "mentions_old (CNot e) \<longleftrightarrow> mentions_old e"
| "mentions_old (CAnd a b) \<longleftrightarrow> mentions_old a \<or> mentions_old b"
| "mentions_old (COr a b) \<longleftrightarrow> mentions_old a \<or> mentions_old b"
| "mentions_old (CEq a b) \<longleftrightarrow> mentions_old a \<or> mentions_old b"
| "mentions_old (CNe a b) \<longleftrightarrow> mentions_old a \<or> mentions_old b"
| "mentions_old (CGe a b) \<longleftrightarrow> mentions_old a \<or> mentions_old b"
| "mentions_old (CLe a b) \<longleftrightarrow> mentions_old a \<or> mentions_old b"
| "mentions_old (CIn a b) \<longleftrightarrow> mentions_old a \<or> mentions_old b"

type_synonym cel_rule = "cel \<times> string"

definition rule_passes :: "json option \<Rightarrow> json \<Rightarrow> cel_rule \<Rightarrow> bool" where
  "rule_passes old v rule \<longleftrightarrow>
     (mentions_old (fst rule) \<and> old = None) \<or>
     cel_eval \<lparr>sc_self = v, sc_old = old, sc_element = None\<rparr> (fst rule) = Some (JBool True)"

definition rules_pass :: "cel_rule list \<Rightarrow> json option \<Rightarrow> json \<Rightarrow> bool" where
  "rules_pass rules old v \<longleftrightarrow> list_all (rule_passes old v) rules"

section \<open>The rules of crd.rs and backups.rs\<close>

abbreviation self :: cel where "self \<equiv> CVar Self"
abbreviation has_self :: "string \<Rightarrow> cel" where "has_self f \<equiv> CHas self f"
abbreviation self_at :: "string \<Rightarrow> cel" where "self_at f \<equiv> CGet self f"

definition lower_alnum :: "rx_item list" where
  "lower_alnum = [Range (CHR ''a'') (CHR ''z''), Range (CHR ''0'') (CHR ''9'')]"

definition DNS_LABEL_RX :: "rx_piece list" where
  "DNS_LABEL_RX = [Class lower_alnum Once, Maybe [Class (One (CHR ''-'') # lower_alnum) (UpTo 61), Class lower_alnum Once]]"

definition NODE_NAME_RX :: "rx_piece list" where
  "NODE_NAME_RX =
     [Class lower_alnum Once, Maybe [Class (lower_alnum @ [One (CHR ''.''), One (CHR ''-'')]) (UpTo 251), Class lower_alnum Once]]"

definition PHYSICAL_ID_RX :: "rx_piece list" where
  "PHYSICAL_ID_RX =
     [Class (Range (CHR ''A'') (CHR ''Z'') # lower_alnum @ [One (CHR ''.''), One (CHR ''_''), One (CHR '':''), One (CHR ''-'')]) Plus]"

definition hex_class :: "nat \<Rightarrow> rx_piece" where
  "hex_class n = Class [Range (CHR ''0'') (CHR ''9''), Range (CHR ''a'') (CHR ''f'')] (Exactly n)"

definition UUID_RX :: "rx_piece list" where
  "UUID_RX =
     [hex_class 8, Literal (CHR ''-''), hex_class 4, Literal (CHR ''-''), hex_class 4, Literal (CHR ''-''), hex_class 4,
      Literal (CHR ''-''), hex_class 12]"

definition WORKLOAD_RULES :: "cel_rule list" where
  "WORKLOAD_RULES =
     [(COr (CNot (CHas (CVar OldSelf) ''restore_from_backup_id''))
         (CAnd (has_self ''restore_from_backup_id'')
            (CEq (self_at ''restore_from_backup_id'') (CGet (CVar OldSelf) ''restore_from_backup_id''))),
       ''restore source cannot change once a disk has been restored''),
      (COr (CNot (has_self ''autoscaling''))
         (CAnd (CGe (self_at ''replicas'') (CGet (self_at ''autoscaling'') ''min_replicas''))
            (CLe (self_at ''replicas'') (CGet (self_at ''autoscaling'') ''max_replicas''))),
       ''replicas must be within autoscaling bounds''),
      (COr (COr (CNot (has_self ''autoscaling'')) (CNe (CGet (self_at ''autoscaling'') ''min_replicas'') (CInt 0)))
         (CAnd (CHas (self_at ''exposure'') ''endpoint_mode'') (CEq (CGet (self_at ''exposure'') ''endpoint_mode'') (CStr ''web''))),
       ''min_replicas=0 requires web endpoint mode''),
      (COr (CNot (has_self ''gpu_type'')) (CMatches (self_at ''gpu_type'') DNS_LABEL_RX),
       ''gpu_type must be a canonical lowercase DNS label''),
      (COr (CAnd (CNot (has_self ''gpu_type'')) (COr (CNot (has_self ''gpu_count'')) (CEq (self_at ''gpu_count'') (CInt 0))))
         (CAnd (CEq (self_at ''replicas'') (CInt 1))
            (COr (CNot (has_self ''autoscaling'')) (CEq (CGet (self_at ''autoscaling'') ''max_replicas'') (CInt 1)))),
       ''GPU Flash VMs require replicas=1 and autoscaling max_replicas=1''),
      (COr (COr (CNot (CHas (self_at ''exposure'') ''endpoint_mode'')) (CNe (CGet (self_at ''exposure'') ''endpoint_mode'') (CStr ''web'')))
         (CAnd (CEq (CSize (self_at ''ports'')) (CInt 1))
            (CAll (self_at ''ports'') (CEq (CGet (CVar Element) ''protocol'') (CStr ''tcp'')))),
       ''web requires exactly one TCP port'')]"

definition AUTOSCALING_RULES :: "cel_rule list" where
  "AUTOSCALING_RULES =
     [(CGe (self_at ''max_replicas'') (self_at ''min_replicas''), ''max_replicas must be at least min_replicas''),
      (COr (has_self ''target_cpu_utilization_percent'') (has_self ''target_memory_utilization_percent''),
       ''at least one CPU or memory target is required'')]"

definition EXPOSURE_RULES :: "cel_rule list" where
  "EXPOSURE_RULES =
     [(COr (COr (CNot (has_self ''endpoint_mode'')) (CNot (CIn (self_at ''endpoint_mode'') (CStrs [''load_balancer'', ''web'']))))
         (CAnd (CEq (self_at ''type'') (CStr ''public'')) (CEq (self_at ''traffic_mode'') (CStr ''forwarded''))),
       ''load_balancer and web require public forwarded exposure''),
      (COr (COr (CNot (has_self ''endpoint_mode'')) (CNe (self_at ''endpoint_mode'') (CStr ''web'')))
         (CAnd (COr (CNot (has_self ''allowed_source_cidrs'')) (CEq (CSize (self_at ''allowed_source_cidrs'')) (CInt 0)))
            (COr (CNot (has_self ''denied_source_cidrs'')) (CEq (CSize (self_at ''denied_source_cidrs'')) (CInt 0)))),
       ''web does not yet support source CIDR filters'')]"

definition GPU_DEVICE_RULES :: "cel_rule list" where
  "GPU_DEVICE_RULES =
     [(CMatches (self_at ''gpu_type'') DNS_LABEL_RX, ''gpu_type must be a canonical lowercase DNS label''),
      (CMatches (self_at ''node_name'') NODE_NAME_RX, ''node_name must be a lowercase Kubernetes node name''),
      (CMatches (self_at ''physical_id'') PHYSICAL_ID_RX, ''physical_id contains unsupported characters'')]"

definition GPU_JOB_RULES :: "cel_rule list" where
  "GPU_JOB_RULES =
     [(CEq (self_at ''count'') (CInt 1), ''a Flash VM may request exactly one GPU''),
      (COr (CNot (has_self ''gpu_type'')) (CMatches (self_at ''gpu_type'') DNS_LABEL_RX),
       ''gpu_type must be a canonical lowercase DNS label'')]"

definition USAGE_RECORD_RULES :: "cel_rule list" where
  "USAGE_RECORD_RULES =
     [(CMatches (self_at ''service_instance_id'') UUID_RX, ''service_instance_id must be a canonical UUID''),
      (CMatches (self_at ''organization_id'') UUID_RX, ''organization_id must be a canonical UUID''),
      (CMatches (self_at ''project_id'') UUID_RX, ''project_id must be a canonical UUID'')]"

definition BACKUP_RULES :: "cel_rule list" where
  "BACKUP_RULES = [(CEq self (CVar OldSelf), ''backup source and ownership are immutable'')]"

section \<open>Ranges of the schema\<close>

text \<open>The ranges and lengths that the attributes of the fields put into the generated schema of a service, its workload and its policy.\<close>

definition autoscaling_in_range :: "flash_autoscaling \<Rightarrow> bool" where
  "autoscaling_in_range a \<longleftrightarrow>
     as_min_replicas a \<le> 100000 \<and> 1 \<le> as_max_replicas a \<and> as_max_replicas a \<le> 100000 \<and>
     pred_option (\<lambda>n. 1 \<le> n \<and> n \<le> 100) (as_target_cpu a) \<and> pred_option (\<lambda>n. 1 \<le> n \<and> n \<le> 100) (as_target_memory a) \<and>
     60 \<le> as_idle_timeout_seconds a \<and> as_idle_timeout_seconds a \<le> 86400"

definition egress_in_range :: "flash_egress \<Rightarrow> bool" where
  "egress_in_range e \<longleftrightarrow> length (eg_allowed_destination_cidrs e) \<le> 64 \<and> length (eg_denied_destination_cidrs e) \<le> 64"

definition exposure_in_range :: "flash_exposure \<Rightarrow> bool" where
  "exposure_in_range e \<longleftrightarrow> length (ex_allowed_source_cidrs e) \<le> 64 \<and> length (ex_denied_source_cidrs e) \<le> 64"

definition spec_in_range :: "flash_spec \<Rightarrow> bool" where
  "spec_in_range s \<longleftrightarrow>
     pred_option autoscaling_in_range (fs_autoscaling s) \<and> fs_gpu_count s \<le> 1 \<and>
     1 \<le> fs_ephemeral_storage_gib s \<and> fs_ephemeral_storage_gib s \<le> 1000000 \<and>
     pred_option (\<lambda>n. 1 \<le> n \<and> n \<le> 1000000) (fs_rootfs_storage_gib s) \<and>
     pred_option (\<lambda>n. 1 \<le> n \<and> n \<le> 1000000) (fs_persistent_storage_gib s) \<and>
     egress_in_range (fs_egress s) \<and> exposure_in_range (fs_exposure s)"

definition limits_in_range :: "nat \<Rightarrow> nat \<Rightarrow> nat \<Rightarrow> bool" where
  "limits_in_range cpu memory gpu \<longleftrightarrow> cpu \<le> 3153600000000000 \<and> memory \<le> 33067892736000 \<and> gpu \<le> 31536000"

definition policy_in_range :: "flash_service_policy \<Rightarrow> bool" where
  "policy_in_range p \<longleftrightarrow>
     limits_in_range (pol_cpu_millicore_seconds p) (pol_memory_mib_seconds p) (pol_gpu_seconds p) \<and>
     pred_option (\<lambda>m. limits_in_range (ml_cpu_millicore_seconds m) (ml_memory_mib_seconds m) (ml_gpu_seconds m)) (pol_member p) \<and>
     pred_option (\<lambda>c. limits_in_range (cl_cpu_millicore_seconds c) (cl_memory_mib_seconds c) (cl_gpu_seconds c)) (pol_cloud_organization p)"

section \<open>The definitions of the resources\<close>

text \<open>\<open>value[..][..] = x\<close> on a mutable value: a missing key is inserted, null becomes an object, anything else panics.\<close>

datatype json_step = Key string | Index nat

fun jupdate :: "json_step list \<Rightarrow> (json \<Rightarrow> json) \<Rightarrow> json \<Rightarrow> json option" where
  "jupdate [] f v = Some (f v)"
| "jupdate (Key k # ps) f v =
     (case v of
        JObj m \<Rightarrow> map_option (\<lambda>x. JObj (bt_insert k x m)) (jupdate ps f (jget v k))
      | JNull \<Rightarrow> map_option (\<lambda>x. JObj [(k, x)]) (jupdate ps f JNull)
      | _ \<Rightarrow> None)"
| "jupdate (Index i # ps) f v =
     (case v of JArr xs \<Rightarrow> if i < length xs then map_option (\<lambda>x. JArr (xs[i := x])) (jupdate ps f (xs ! i)) else None | _ \<Rightarrow> None)"

definition SPEC_SCHEMA :: "json_step list" where
  "SPEC_SCHEMA =
     [Key ''spec'', Key ''versions'', Index 0, Key ''schema'', Key ''openAPIV3Schema'', Key ''properties'', Key ''spec'']"

definition rules_json :: "cel_rule list \<Rightarrow> json" where
  "rules_json rules = JArr (map (\<lambda>(e, m). jobj [(''rule'', JStr (show_cel e)), (''message'', JStr m)]) rules)"

definition set_rules :: "json_step list \<Rightarrow> cel_rule list \<Rightarrow> json \<Rightarrow> json option" where
  "set_rules path rules = jupdate (path @ [Key ''x-kubernetes-validations'']) (\<lambda>_. rules_json rules)"

definition WORKLOAD_SCHEMA :: "json_step list" where "WORKLOAD_SCHEMA = SPEC_SCHEMA @ [Key ''properties'', Key ''workload'']"

definition validated_crd :: "json \<Rightarrow> json option" where
  "validated_crd crd =
     bindO (set_rules WORKLOAD_SCHEMA WORKLOAD_RULES crd) (\<lambda>crd.
     bindO (set_rules (WORKLOAD_SCHEMA @ [Key ''properties'', Key ''autoscaling'']) AUTOSCALING_RULES crd) (\<lambda>crd.
     set_rules (WORKLOAD_SCHEMA @ [Key ''properties'', Key ''exposure'']) EXPOSURE_RULES crd))"

definition MAX_PRIVATE_GPU_ASSIGNMENTS :: u64 where "MAX_PRIVATE_GPU_ASSIGNMENTS = 256"

definition validated_gpu_device_crd :: "json \<Rightarrow> json option" where
  "validated_gpu_device_crd crd =
     (let assignments = SPEC_SCHEMA @ [Key ''properties'', Key ''private_assignments'']
      in bindO (jupdate (assignments @ [Key ''maxItems'']) (\<lambda>_. jnat MAX_PRIVATE_GPU_ASSIGNMENTS) crd) (\<lambda>crd.
         bindO (jupdate (assignments @ [Key ''items'', Key ''minLength'']) (\<lambda>_. jnat 36) crd) (\<lambda>crd.
         bindO (jupdate (assignments @ [Key ''items'', Key ''maxLength'']) (\<lambda>_. jnat 36) crd) (\<lambda>crd.
         bindO (jupdate (assignments @ [Key ''items'', Key ''pattern'']) (\<lambda>_. JStr (show_rx UUID_RX)) crd) (\<lambda>crd.
         set_rules SPEC_SCHEMA GPU_DEVICE_RULES crd)))))"

definition validated_gpu_job_crd :: "json \<Rightarrow> json option" where
  "validated_gpu_job_crd = set_rules SPEC_SCHEMA GPU_JOB_RULES"

definition validated_usage_record_crd :: "json \<Rightarrow> json option" where
  "validated_usage_record_crd = set_rules SPEC_SCHEMA USAGE_RECORD_RULES"

definition validated_backup_crd :: "json \<Rightarrow> json option" where
  "validated_backup_crd crd =
     bindO (jupdate [Key ''metadata'', Key ''annotations'']
        (\<lambda>_. jobj [(''argocd.argoproj.io/sync-options'', JStr ''Prune=false''), (''helm.sh/resource-policy'', JStr ''keep'')]) crd)
       (set_rules SPEC_SCHEMA BACKUP_RULES)"

text \<open>\<open>bin/flash-crdgen.rs\<close>: the definition that is printed. The generated definitions and the YAML printer are libraries.\<close>

datatype crdgen_error = Unexpected_Kind string | Panicked | Unprintable

definition crdgen :: "(string \<Rightarrow> json) \<Rightarrow> (json \<Rightarrow> string option) \<Rightarrow> string option \<Rightarrow> crdgen_error + string" where
  "crdgen generated yaml argument =
     (let kind = unwrap_or argument ''service'';
          document = (\<lambda>f. ok_or (f (generated kind)) Panicked)
      in bindR (if kind = ''service'' then document validated_crd
                else if kind = ''gpu-device'' then document validated_gpu_device_crd
                else if kind = ''gpu-job'' then document validated_gpu_job_crd
                else if kind = ''usage-record'' then document validated_usage_record_crd
                else if kind = ''backup'' then document validated_backup_crd
                else if kind = ''domain'' then Inr (generated kind)
                else Inl (Unexpected_Kind ''expected service, gpu-device, gpu-job, or usage-record'')) (\<lambda>crd.
         ok_or (yaml crd) Unprintable))"

section \<open>The rules are those of the source\<close>

lemmas show_rule_simps =
  show_rx_def lower_alnum_def DNS_LABEL_RX_def NODE_NAME_RX_def PHYSICAL_ID_RX_def UUID_RX_def hex_class_def in_parens_def quoted_def
  char_of_def bit_Suc_0_iff show_nat.simps digit_char_def

text \<open>What the program writes into the definitions, word for word.\<close>

lemma workload_rules_text:
  "map (show_cel \<circ> fst) WORKLOAD_RULES =
    [''!has(oldSelf.restore_from_backup_id) || (has(self.restore_from_backup_id) && self.restore_from_backup_id == oldSelf.restore_from_backup_id)'',
     ''!has(self.autoscaling) || (self.replicas >= self.autoscaling.min_replicas && self.replicas <= self.autoscaling.max_replicas)'',
     ''!has(self.autoscaling) || self.autoscaling.min_replicas != 0 || (has(self.exposure.endpoint_mode) && self.exposure.endpoint_mode == 'web')'',
     ''!has(self.gpu_type) || self.gpu_type.matches('^[a-z0-9]([-a-z0-9]{0,61}[a-z0-9])?$')'',
     ''(!has(self.gpu_type) && (!has(self.gpu_count) || self.gpu_count == 0)) || (self.replicas == 1 && (!has(self.autoscaling) || self.autoscaling.max_replicas == 1))'',
     ''!has(self.exposure.endpoint_mode) || self.exposure.endpoint_mode != 'web' || (size(self.ports) == 1 && self.ports.all(p, p.protocol == 'tcp'))'']"
  by (simp add: WORKLOAD_RULES_def show_rule_simps)

lemma autoscaling_rules_text:
  "map (show_cel \<circ> fst) AUTOSCALING_RULES =
    [''self.max_replicas >= self.min_replicas'',
     ''has(self.target_cpu_utilization_percent) || has(self.target_memory_utilization_percent)'']"
  by (simp add: AUTOSCALING_RULES_def show_rule_simps)

lemma exposure_rules_text:
  "map (show_cel \<circ> fst) EXPOSURE_RULES =
    [''!has(self.endpoint_mode) || !(self.endpoint_mode in ['load_balancer', 'web']) || (self.type == 'public' && self.traffic_mode == 'forwarded')'',
     ''!has(self.endpoint_mode) || self.endpoint_mode != 'web' || ((!has(self.allowed_source_cidrs) || size(self.allowed_source_cidrs) == 0) && (!has(self.denied_source_cidrs) || size(self.denied_source_cidrs) == 0))'']"
  by (simp add: EXPOSURE_RULES_def show_rule_simps)

lemma gpu_device_rules_text:
  "map (show_cel \<circ> fst) GPU_DEVICE_RULES =
    [''self.gpu_type.matches('^[a-z0-9]([-a-z0-9]{0,61}[a-z0-9])?$')'',
     ''self.node_name.matches('^[a-z0-9]([a-z0-9.-]{0,251}[a-z0-9])?$')'',
     ''self.physical_id.matches('^[A-Za-z0-9._:-]+$')'']"
  by (simp add: GPU_DEVICE_RULES_def show_rule_simps)

lemma gpu_job_rules_text:
  "map (show_cel \<circ> fst) GPU_JOB_RULES =
    [''self.count == 1'',
     ''!has(self.gpu_type) || self.gpu_type.matches('^[a-z0-9]([-a-z0-9]{0,61}[a-z0-9])?$')'']"
  by (simp add: GPU_JOB_RULES_def show_rule_simps)

lemma usage_record_rules_text:
  "map (show_cel \<circ> fst) USAGE_RECORD_RULES =
    [''self.service_instance_id.matches('^[0-9a-f]{8}-[0-9a-f]{4}-[0-9a-f]{4}-[0-9a-f]{4}-[0-9a-f]{12}$')'',
     ''self.organization_id.matches('^[0-9a-f]{8}-[0-9a-f]{4}-[0-9a-f]{4}-[0-9a-f]{4}-[0-9a-f]{12}$')'',
     ''self.project_id.matches('^[0-9a-f]{8}-[0-9a-f]{4}-[0-9a-f]{4}-[0-9a-f]{4}-[0-9a-f]{12}$')'']"
  by (simp add: USAGE_RECORD_RULES_def show_rule_simps)

section \<open>The rules are where the server reads them\<close>

fun jat :: "json_step list \<Rightarrow> json \<Rightarrow> json" where
  "jat [] v = v"
| "jat (Key k # ps) v = jat ps (jget v k)"
| "jat (Index i # ps) v = (case v of JArr xs \<Rightarrow> if i < length xs then jat ps (xs ! i) else JNull | _ \<Rightarrow> JNull)"

lemma jget_bt_insert: "jget (JObj (bt_insert k x m)) k' = (if k' = k then x else jget (JObj m) k')"
  by (simp add: jget_def)

lemma jat_jupdate: "jupdate p f v = Some v' \<Longrightarrow> jat p v' = f (jat p v)"
proof (induction p f v arbitrary: v' rule: jupdate.induct)
  case (2 k ps f v)
  then show ?case by (cases v) (auto simp: jget_bt_insert jget_def [of "JObj [(k, x)]" for x] jget_def [of JNull])
next
  case (3 i ps f v)
  then show ?case by (cases v) (auto split: if_splits)
qed simp

lemma jat_JNull: "jat (Key b # r) JNull = jat r JNull"
  by (simp add: jget_def)

lemma jat_jupdate_other:
  "jupdate (p @ Key a # q) f v = Some v' \<Longrightarrow> a \<noteq> b \<Longrightarrow> jat (p @ Key b # r) v' = jat (p @ Key b # r) v"
proof (induction p arbitrary: v v')
  case Nil
  then show ?case by (cases v) (auto simp: jget_bt_insert jget_def [of "JObj [(a, x)]" for x] jget_def [of JNull])
next
  case (Cons step p)
  show ?case
  proof (cases step)
    case (Key k)
    then show ?thesis using Cons
      by (cases v) (auto simp: jget_bt_insert jget_def [of "JObj [(k, x)]" for x] jget_def [of JNull])
  next
    case (Index i)
    then show ?thesis using Cons by (cases v) (auto split: if_splits)
  qed
qed

text \<open>The definition of a service carries the three groups of rules, each at the schema of the value it is about.\<close>

lemma validated_crd_rules:
  assumes "validated_crd crd = Some validated"
  shows "jat (WORKLOAD_SCHEMA @ [Key ''x-kubernetes-validations'']) validated = rules_json WORKLOAD_RULES"
    and "jat (WORKLOAD_SCHEMA @ [Key ''properties'', Key ''autoscaling'', Key ''x-kubernetes-validations'']) validated =
      rules_json AUTOSCALING_RULES"
    and "jat (WORKLOAD_SCHEMA @ [Key ''properties'', Key ''exposure'', Key ''x-kubernetes-validations'']) validated =
      rules_json EXPOSURE_RULES"
proof -
  let ?v = "Key ''x-kubernetes-validations''"
  obtain c1 c2 where
    1: "jupdate (WORKLOAD_SCHEMA @ [?v]) (\<lambda>_. rules_json WORKLOAD_RULES) crd = Some c1" and
    2: "jupdate (WORKLOAD_SCHEMA @ [Key ''properties'', Key ''autoscaling'', ?v]) (\<lambda>_. rules_json AUTOSCALING_RULES) c1 = Some c2" and
    3: "jupdate (WORKLOAD_SCHEMA @ [Key ''properties'', Key ''exposure'', ?v]) (\<lambda>_. rules_json EXPOSURE_RULES) c2 = Some validated"
    using assms by (auto simp: validated_crd_def set_rules_def bind_eq_Some_conv)
  have "jat (WORKLOAD_SCHEMA @ [?v]) validated = jat (WORKLOAD_SCHEMA @ [?v]) c2"
    and "jat (WORKLOAD_SCHEMA @ [?v]) c2 = jat (WORKLOAD_SCHEMA @ [?v]) c1"
    using 2 3 by (auto intro!: jat_jupdate_other)
  then show "jat (WORKLOAD_SCHEMA @ [?v]) validated = rules_json WORKLOAD_RULES" using jat_jupdate [OF 1] by simp
  have "jat ((WORKLOAD_SCHEMA @ [Key ''properties'']) @ [Key ''autoscaling'', ?v]) validated =
      jat ((WORKLOAD_SCHEMA @ [Key ''properties'']) @ [Key ''autoscaling'', ?v]) c2"
    using 3 jat_jupdate_other [of "WORKLOAD_SCHEMA @ [Key ''properties'']" "''exposure''" "[?v]" "\<lambda>_. rules_json EXPOSURE_RULES" c2
        validated "''autoscaling''" "[?v]"] by simp
  then show "jat (WORKLOAD_SCHEMA @ [Key ''properties'', Key ''autoscaling'', ?v]) validated = rules_json AUTOSCALING_RULES"
    using jat_jupdate [OF 2] by simp
  show "jat (WORKLOAD_SCHEMA @ [Key ''properties'', Key ''exposure'', ?v]) validated = rules_json EXPOSURE_RULES"
    by (rule jat_jupdate [OF 3])
qed

end
