(* ===== verification/Crd_Properties.thy ===== *)
theory Crd_Properties
  imports Crd_Rules Api_Properties Gpu_Request
begin

text \<open>
  The rules of the resource definitions agree with the program: what the validation accepts and the API applies, the server does not
  refuse.
\<close>

section \<open>Patterns\<close>

lemma rests_class:
  "t \<in> set (rests (Class items rep) s) \<longleftrightarrow>
   (\<exists>u. s = u @ t \<and> repeat_allows rep (length u) \<and> list_all (\<lambda>c. list_ex (item_matches c) items) u)"
  (is "?l \<longleftrightarrow> ?r")
proof
  assume ?l
  then obtain k where "k \<le> length s" "repeat_allows rep k" "list_all (\<lambda>c. list_ex (item_matches c) items) (take k s)" "t = drop k s"
    by (auto simp: less_Suc_eq_le simp del: upt_Suc)
  then show ?r by (intro exI [of _ "take k s"]) (simp add: min_absorb2)
next
  assume ?r
  then obtain u where "s = u @ t" "repeat_allows rep (length u)" "list_all (\<lambda>c. list_ex (item_matches c) items) u" by blast
  then show ?l by (auto simp del: upt_Suc intro!: image_eqI [of _ _ "length u"])
qed

declare rests.simps(1) [simp del]

lemma rx_matches_Nil: "rx_matches [] s \<longleftrightarrow> s = []"
  by (auto simp: rx_matches_def)

lemma rx_matches_Class:
  "rx_matches (Class items rep # ps) s \<longleftrightarrow>
   (\<exists>u t. s = u @ t \<and> repeat_allows rep (length u) \<and> list_all (\<lambda>c. list_ex (item_matches c) items) u \<and> rx_matches ps t)"
  by (auto simp: rx_matches_def rests_class) blast

lemma rx_matches_Once:
  "rx_matches (Class items Once # ps) s \<longleftrightarrow> (\<exists>c t. s = c # t \<and> list_ex (item_matches c) items \<and> rx_matches ps t)"
proof -
  have "length u = 1 \<longleftrightarrow> (\<exists>c. u = [c])" for u :: string by (cases u) auto
  then show ?thesis by (simp add: rx_matches_Class ex_simps(1) [symmetric] conj_ac del: ex_simps) (metis append_Cons append_Nil list.pred_inject)
qed

lemma rx_matches_Literal: "rx_matches (Literal c # ps) s \<longleftrightarrow> (\<exists>t. s = c # t \<and> rx_matches ps t)"
  by (auto simp: rx_matches_def split: list.splits)

lemma rx_matches_Maybe: "rx_matches [Maybe ps] s \<longleftrightarrow> s = [] \<or> rx_matches ps s"
  by (auto simp: rx_matches_def)

lemmas rx_simps = rx_matches_Nil rx_matches_Once rx_matches_Literal rx_matches_Maybe

lemma lower_alnum_iff: "list_ex (item_matches c) lower_alnum \<longleftrightarrow> is_ascii_lowercase c \<or> is_ascii_digit c"
  by (auto simp: lower_alnum_def char_defs byte_def)

lemma dns_byte_iff: "list_ex (item_matches c) (One (CHR ''-'') # lower_alnum) \<longleftrightarrow> dns_byte c"
  by (auto simp: lower_alnum_def dns_byte_def char_defs byte_def)

lemma gpu_type_accepted_iff:
  "validate_gpu_type s = Inr () \<longleftrightarrow>
   s \<noteq> [] \<and> length s \<le> 63 \<and> first_is (\<lambda>b. is_ascii_lowercase b \<or> is_ascii_digit b) s \<and>
   last_is (\<lambda>b. is_ascii_lowercase b \<or> is_ascii_digit b) s \<and> list_all dns_byte s"
  by (auto simp: validate_gpu_type_def ensure_def dns_bytes_trimmed)

text \<open>The pattern of a GPU type is exactly what the validation accepts.\<close>

lemma dns_label_rx: "rx_matches DNS_LABEL_RX s \<longleftrightarrow> validate_gpu_type s = Inr ()" (is "?l \<longleftrightarrow> ?r")
proof
  assume ?l
  then obtain c t where s: "s = c # t" and c: "is_ascii_lowercase c \<or> is_ascii_digit c" and
    t: "t = [] \<or> (\<exists>u d. t = u @ [d] \<and> length u \<le> 61 \<and> list_all dns_byte u \<and> (is_ascii_lowercase d \<or> is_ascii_digit d))"
    by (auto simp: DNS_LABEL_RX_def rx_simps rx_matches_Class [of _ "UpTo n" for n] lower_alnum_iff dns_byte_iff simp del: list_ex_Cons_iff)
  then show ?r by (auto simp: gpu_type_accepted_iff first_is_def last_is_def dns_byte_def)
next
  assume ?r
  then obtain c t where s: "s = c # t" and c: "is_ascii_lowercase c \<or> is_ascii_digit c" and dns: "list_all dns_byte t" "length t \<le> 62"
    and l: "t \<noteq> [] \<Longrightarrow> is_ascii_lowercase (last t) \<or> is_ascii_digit (last t)"
    by (cases s) (auto simp: gpu_type_accepted_iff first_is_def last_is_def split: if_splits)
  have "rx_matches [Class (One (CHR ''-'') # lower_alnum) (UpTo 61), Class lower_alnum Once] t" if "t \<noteq> []"
  proof -
    obtain u d where t: "t = u @ [d]" using \<open>t \<noteq> []\<close> by (cases t rule: rev_cases) auto
    then have "length u \<le> 61" "list_all dns_byte u" "is_ascii_lowercase d \<or> is_ascii_digit d" using dns l by auto
    moreover from this have "rx_matches [Class lower_alnum Once] [d]"
      by (simp add: rx_simps lower_alnum_iff)
    ultimately show ?thesis
      unfolding t by (subst rx_matches_Class) (intro exI [of _ u] exI [of _ "[d]"], simp add: dns_byte_iff del: list_ex_Cons_iff)
  qed
  then have "rx_matches [Maybe [Class (One (CHR ''-'') # lower_alnum) (UpTo 61), Class lower_alnum Once]] t"
    by (auto simp: rx_matches_Maybe)
  then show ?l using s c
    by (simp add: DNS_LABEL_RX_def rx_matches_Once lower_alnum_iff)
qed

section \<open>Access to written values\<close>

named_theorems cel_simps \<open>evaluation of rules\<close>

lemma jget_opt_jfields:
  "distinct (map fst es) \<Longrightarrow> jget_opt (jfields es) k = bindO (map_of es k) (\<lambda>v. v)"
  using map_of_map_filter [of es k]
  by (simp add: jget_opt_def jfields_def jobj_def map_of_fold_bt_insert split: option.splits)

lemma cel_has_jfields: "cel_has (jfields es) k = Some (JBool (jget_opt (jfields es) k \<noteq> None))"
  by (simp add: cel_has_def jobject_def jget_opt_def jfields_def jobj_def)

lemma cel_has_written [cel_simps]:
  "cel_has (spec_json uuids s) k = Some (JBool (jget_opt (spec_json uuids s) k \<noteq> None))"
  "cel_has (exposure_json e) k = Some (JBool (jget_opt (exposure_json e) k \<noteq> None))"
  "cel_has (autoscaling_json a) k = Some (JBool (jget_opt (autoscaling_json a) k \<noteq> None))"
  by (simp_all only: spec_json_def exposure_json_def autoscaling_json_def cel_has_jfields)

lemma spec_json_at [cel_simps]:
  "jget_opt (spec_json uuids s) ''replicas'' = Some (jnat (fs_replicas s))"
  "jget_opt (spec_json uuids s) ''autoscaling'' = map_option autoscaling_json (fs_autoscaling s)"
  "jget_opt (spec_json uuids s) ''gpu_type'' = map_option JStr (fs_gpu_type s)"
  "jget_opt (spec_json uuids s) ''gpu_count'' = (if fs_gpu_count s = 0 then None else Some (jnat (fs_gpu_count s)))"
  "jget_opt (spec_json uuids s) ''restore_from_backup_id'' = map_option (\<lambda>u. JStr (uuid_show uuids u)) (fs_restore_from_backup_id s)"
  "jget_opt (spec_json uuids s) ''ports'' = Some (JArr (map port_json (fs_ports s)))"
  "jget_opt (spec_json uuids s) ''exposure'' = Some (exposure_json (fs_exposure s))"
proof -
  have "distinct (map fst (spec_fields uuids s))" by (simp add: spec_fields_def)
  then have at: "jget_opt (spec_json uuids s) k = bindO (map_of (spec_fields uuids s) k) (\<lambda>v. v)" for k
    by (simp only: spec_json_def jget_opt_jfields)
  show "jget_opt (spec_json uuids s) ''replicas'' = Some (jnat (fs_replicas s))"
    and "jget_opt (spec_json uuids s) ''autoscaling'' = map_option autoscaling_json (fs_autoscaling s)"
    and "jget_opt (spec_json uuids s) ''gpu_type'' = map_option JStr (fs_gpu_type s)"
    and "jget_opt (spec_json uuids s) ''gpu_count'' = (if fs_gpu_count s = 0 then None else Some (jnat (fs_gpu_count s)))"
    and "jget_opt (spec_json uuids s) ''restore_from_backup_id'' = map_option (\<lambda>u. JStr (uuid_show uuids u)) (fs_restore_from_backup_id s)"
    and "jget_opt (spec_json uuids s) ''ports'' = Some (JArr (map port_json (fs_ports s)))"
    and "jget_opt (spec_json uuids s) ''exposure'' = Some (exposure_json (fs_exposure s))"
    unfolding at by (simp_all add: spec_fields_def)
qed

lemma exposure_json_at [cel_simps]:
  "jget_opt (exposure_json e) ''endpoint_mode'' = Some (variant_json endpoint_mode_names (ex_endpoint_mode e))"
  "jget_opt (exposure_json e) ''type'' = Some (variant_json exposure_type_names (ex_kind e))"
  "jget_opt (exposure_json e) ''traffic_mode'' = Some (variant_json traffic_mode_names (ex_traffic_mode e))"
  "jget_opt (exposure_json e) ''allowed_source_cidrs'' = Some (jstrs (ex_allowed_source_cidrs e))"
  "jget_opt (exposure_json e) ''denied_source_cidrs'' = Some (jstrs (ex_denied_source_cidrs e))"
  by (simp_all add: exposure_json_def jget_opt_jfields)

lemma autoscaling_json_at [cel_simps]:
  "jget_opt (autoscaling_json a) ''min_replicas'' = Some (jnat (as_min_replicas a))"
  "jget_opt (autoscaling_json a) ''max_replicas'' = Some (jnat (as_max_replicas a))"
  "jget_opt (autoscaling_json a) ''target_cpu_utilization_percent'' = map_option jnat (as_target_cpu a)"
  "jget_opt (autoscaling_json a) ''target_memory_utilization_percent'' = map_option jnat (as_target_memory a)"
  by (simp_all add: autoscaling_json_def jget_opt_jfields)

lemma port_json_at [cel_simps]: "jget_opt (port_json p) ''protocol'' = Some (variant_json protocol_names (port_protocol p))"
  by (simp add: port_json_def jget_opt_jfields)

lemma variant_names [cel_simps]:
  "variant_json endpoint_mode_names m = JStr (case m of Ip \<Rightarrow> ''ip'' | LoadBalancer \<Rightarrow> ''load_balancer'' | Web \<Rightarrow> ''web'')"
  "variant_json exposure_type_names k = JStr (case k of exposure_type.Internal \<Rightarrow> ''internal'' | Public \<Rightarrow> ''public'')"
  "variant_json traffic_mode_names t = JStr (case t of Forwarded \<Rightarrow> ''forwarded'' | Direct \<Rightarrow> ''direct'')"
  "variant_json protocol_names p = JStr (case p of Tcp \<Rightarrow> ''tcp'' | Udp \<Rightarrow> ''udp'')"
  by (cases m; cases k; cases t; cases p; simp add: variant_json_def endpoint_mode_names_def exposure_type_names_def
      traffic_mode_names_def protocol_names_def)+

lemma jnat_eq_iff [cel_simps]: "jnat m = jnat n \<longleftrightarrow> m = n"
  by (simp add: jnat_def)

lemma cel_number_jnat [cel_simps]: "cel_number (Some (jnat n)) = Some (int n)"
  by (simp add: cel_number_def jnat_def)

lemma cel_or_true [cel_simps]: "cel_or a b = Some (JBool True) \<longleftrightarrow> a = Some (JBool True) \<or> b = Some (JBool True)"
  by (auto simp: cel_or_def)

lemma cel_and_true [cel_simps]: "cel_and a b = Some (JBool True) \<longleftrightarrow> a = Some (JBool True) \<and> b = Some (JBool True)"
  by (auto simp: cel_and_def)

lemma foldr_cel_and [cel_simps]:
  "foldr (\<lambda>v. cel_and (f v)) vs (Some (JBool True)) = Some (JBool True) \<longleftrightarrow> (\<forall>v \<in> set vs. f v = Some (JBool True))"
  by (induction vs) (auto simp: cel_simps)

section \<open>Services\<close>

text \<open>What the rules of a workload say of a specification.\<close>

lemma workload_rules_iff:
  assumes inj: "\<And>u v. uuid_show uuids u = uuid_show uuids v \<Longrightarrow> u = v"
  shows "rules_pass WORKLOAD_RULES (map_option (spec_json uuids) old) (spec_json uuids s) \<longleftrightarrow>
    (\<forall>before b. old = Some before \<and> fs_restore_from_backup_id before = Some b \<longrightarrow> fs_restore_from_backup_id s = Some b) \<and>
    (\<forall>a. fs_autoscaling s = Some a \<longrightarrow> as_min_replicas a \<le> fs_replicas s \<and> fs_replicas s \<le> as_max_replicas a \<and>
       (as_min_replicas a = 0 \<longrightarrow> ex_endpoint_mode (fs_exposure s) = Web)) \<and>
    (\<forall>t. fs_gpu_type s = Some t \<longrightarrow> validate_gpu_type t = Inr ()) \<and>
    (0 < effective_gpu_count s \<longrightarrow> fs_replicas s = 1 \<and> (\<forall>a. fs_autoscaling s = Some a \<longrightarrow> as_max_replicas a = 1)) \<and>
    (ex_endpoint_mode (fs_exposure s) = Web \<longrightarrow> length (fs_ports s) = 1 \<and> (\<forall>p \<in> set (fs_ports s). port_protocol p = Tcp))"
proof -
  have shown: "uuid_show uuids u = uuid_show uuids v \<longleftrightarrow> u = v" for u v using inj by auto
  have restore: "rule_passes (map_option (spec_json uuids) old) (spec_json uuids s) (WORKLOAD_RULES ! 0) \<longleftrightarrow>
      (\<forall>before b. old = Some before \<and> fs_restore_from_backup_id before = Some b \<longrightarrow> fs_restore_from_backup_id s = Some b)"
    by (cases old; cases "fs_restore_from_backup_id (the old)"; cases "fs_restore_from_backup_id s")
       (auto simp: WORKLOAD_RULES_def rule_passes_def cel_simps shown)
  note rule_defs = WORKLOAD_RULES_def rule_passes_def cel_simps cel_compare_def
  have scaling: "rule_passes (map_option (spec_json uuids) old) (spec_json uuids s) (WORKLOAD_RULES ! 1) \<and>
      rule_passes (map_option (spec_json uuids) old) (spec_json uuids s) (WORKLOAD_RULES ! 2) \<longleftrightarrow>
      (\<forall>a. fs_autoscaling s = Some a \<longrightarrow> as_min_replicas a \<le> fs_replicas s \<and> fs_replicas s \<le> as_max_replicas a \<and>
         (as_min_replicas a = 0 \<longrightarrow> ex_endpoint_mode (fs_exposure s) = Web))"
    by (cases "fs_autoscaling s"; cases "ex_endpoint_mode (fs_exposure s)") (auto simp: rule_defs)
  have gpu: "rule_passes (map_option (spec_json uuids) old) (spec_json uuids s) (WORKLOAD_RULES ! 3) \<and>
      rule_passes (map_option (spec_json uuids) old) (spec_json uuids s) (WORKLOAD_RULES ! 4) \<longleftrightarrow>
      (\<forall>t. fs_gpu_type s = Some t \<longrightarrow> validate_gpu_type t = Inr ()) \<and>
      (0 < effective_gpu_count s \<longrightarrow> fs_replicas s = 1 \<and> (\<forall>a. fs_autoscaling s = Some a \<longrightarrow> as_max_replicas a = 1))"
    by (cases "fs_gpu_type s"; cases "fs_autoscaling s"; cases "fs_gpu_count s = 0")
       (auto simp: rule_defs dns_label_rx effective_gpu_count_def)
  have web: "rule_passes (map_option (spec_json uuids) old) (spec_json uuids s) (WORKLOAD_RULES ! 5) \<longleftrightarrow>
      (ex_endpoint_mode (fs_exposure s) = Web \<longrightarrow> length (fs_ports s) = 1 \<and> (\<forall>p \<in> set (fs_ports s). port_protocol p = Tcp))"
    by (cases "ex_endpoint_mode (fs_exposure s)") (auto simp: rule_defs split: transport_protocol.splits intro: transport_protocol.exhaust)
  have rules: "rules_pass WORKLOAD_RULES v w \<longleftrightarrow> rule_passes v w (WORKLOAD_RULES ! 0) \<and>
      (rule_passes v w (WORKLOAD_RULES ! 1) \<and> rule_passes v w (WORKLOAD_RULES ! 2)) \<and>
      (rule_passes v w (WORKLOAD_RULES ! 3) \<and> rule_passes v w (WORKLOAD_RULES ! 4)) \<and> rule_passes v w (WORKLOAD_RULES ! 5)" for v w
    by (simp add: rules_pass_def WORKLOAD_RULES_def)
  show ?thesis unfolding rules restore scaling gpu web by (simp only: conj_assoc)
qed

lemma autoscaling_rules_iff:
  "rules_pass AUTOSCALING_RULES old (autoscaling_json a) \<longleftrightarrow>
   as_min_replicas a \<le> as_max_replicas a \<and> (as_target_cpu a \<noteq> None \<or> as_target_memory a \<noteq> None)"
  by (simp add: AUTOSCALING_RULES_def rules_pass_def rule_passes_def cel_simps cel_compare_def)

lemma exposure_rules_iff:
  "rules_pass EXPOSURE_RULES old (exposure_json e) \<longleftrightarrow>
   (ex_endpoint_mode e \<noteq> Ip \<longrightarrow> ex_kind e = Public \<and> ex_traffic_mode e = Forwarded) \<and>
   (ex_endpoint_mode e = Web \<longrightarrow> \<not> has_source_policy e)"
  by (cases "ex_endpoint_mode e"; cases "ex_kind e"; cases "ex_traffic_mode e")
     (auto simp: EXPOSURE_RULES_def rules_pass_def rule_passes_def cel_simps has_source_policy_def jstrs_def)

lemma accepted_in_range:
  assumes "validate_flash_spec nets url_parse s = Inr ()"
  shows "spec_in_range s"
proof -
  note parts = validate_flash_spec_parts [OF assms]
  have "autoscaling_in_range a" if "fs_autoscaling s = Some a" for a
    using validate_shape_accepts(3) [OF parts(1) that]
    by (cases "as_target_cpu a"; cases "as_target_memory a")
       (auto simp: validate_autoscaling_def result_simps limit_defs autoscaling_in_range_def)
  moreover have "fs_gpu_count s \<le> 1"
    using parts(1) by (simp add: validate_shape_def result_simps MAX_GPUS_PER_VM_def)
  moreover have "1 \<le> fs_ephemeral_storage_gib s" "fs_ephemeral_storage_gib s \<le> 1000000"
    "pred_option (\<lambda>n. 1 \<le> n \<and> n \<le> 1000000) (fs_rootfs_storage_gib s)"
    "pred_option (\<lambda>n. 1 \<le> n \<and> n \<le> 1000000) (fs_persistent_storage_gib s)"
    using parts(2) by (cases "fs_rootfs_storage_gib s"; cases "fs_persistent_storage_gib s";
      auto simp: validate_disk_def result_simps limit_defs)+
  moreover have "egress_in_range (fs_egress s) \<and> exposure_in_range (fs_exposure s)"
    using parts(4) by (auto simp: validate_networks_def effective_source_networks_def source_networks_def validate_egress_def
      parse_source_networks_def result_simps MAX_SOURCE_CIDRS_def egress_in_range_def exposure_in_range_def)
  ultimately show ?thesis by (cases "fs_autoscaling s") (simp_all add: spec_in_range_def)
qed

text \<open>A policy that a command brings is in range, and what it keeps of the stored policy stays so.\<close>

lemma checked_policy_in_range:
  assumes "check_request lib claims uuid request = Inr spec"
  shows "policy_in_range (rr_policy request)"
  using assms
  by (cases "pol_member (rr_policy request)"; cases "pol_cloud_organization (rr_policy request)")
     (auto simp: check_request_def validate_limits_def validate_cloud_organization_policy_def result_simps policy_in_range_def
       limits_in_range_def MAX_WEEKLY_CPU_MILLICORE_SECONDS_def MAX_WEEKLY_MEMORY_MIB_SECONDS_def MAX_WEEKLY_GPU_SECONDS_def)

lemma kept_policy_in_range:
  assumes "update_existing uuids claims request spec existing = Inr update"
    and "policy_in_range (rr_policy request)" and "policy_in_range (svc_policy (fsv_spec existing))"
  shows "policy_in_range (su_policy update)"
  using assms
  by (auto simp: update_existing_def Let_def result_simps preserve_existing_member_quota_def policy_in_range_def
      split: option.splits if_splits)

text \<open>The server checks the ranges of a workload and evaluates its rules and those of its autoscaling and exposure.\<close>

definition workload_admitted :: "uuid_ops \<Rightarrow> flash_spec option \<Rightarrow> flash_spec \<Rightarrow> bool" where
  "workload_admitted uuids old s \<longleftrightarrow>
     spec_in_range s \<and> rules_pass WORKLOAD_RULES (map_option (spec_json uuids) old) (spec_json uuids s) \<and>
     pred_option (\<lambda>a. rules_pass AUTOSCALING_RULES (bindO old (map_option autoscaling_json \<circ> fs_autoscaling)) (autoscaling_json a))
       (fs_autoscaling s) \<and>
     rules_pass EXPOSURE_RULES (map_option (exposure_json \<circ> fs_exposure) old) (exposure_json (fs_exposure s))"

lemma accepted_workload_admitted:
  assumes inj: "\<And>u v. uuid_show uuids u = uuid_show uuids v \<Longrightarrow> u = v"
    and accepted: "validate_flash_spec nets url_parse s = Inr ()"
    and restore: "\<And>before. old = Some before \<Longrightarrow> fs_restore_from_backup_id s = fs_restore_from_backup_id before"
  shows "workload_admitted uuids old s"
proof -
  note shape = validate_flash_spec_parts(1) [OF accepted]
  note facts = validate_shape_accepts [OF shape]
  have gpu: "validate_gpu_type t = Inr ()" if "fs_gpu_type s = Some t" for t
    using shape that by (auto simp: validate_shape_def result_simps)
  have scaling: "as_min_replicas a \<le> fs_replicas s \<and> fs_replicas s \<le> as_max_replicas a \<and> as_min_replicas a \<le> as_max_replicas a \<and>
      (as_target_cpu a \<noteq> None \<or> as_target_memory a \<noteq> None)" if "fs_autoscaling s = Some a" for a
    using facts(3) [OF that] by (auto simp: validate_autoscaling_def result_simps)
  have "rules_pass WORKLOAD_RULES (map_option (spec_json uuids) old) (spec_json uuids s)"
    using restore facts(3,5,7) gpu scaling by (subst workload_rules_iff [OF inj]) fastforce+
  moreover have "rules_pass EXPOSURE_RULES v (exposure_json (fs_exposure s))" for v
    unfolding exposure_rules_iff using facts(4,5) by blast
  ultimately show ?thesis
    using scaling by (cases "fs_autoscaling s") (simp_all add: workload_admitted_def autoscaling_rules_iff accepted_in_range [OF accepted])
qed

section \<open>Usage records and jobs\<close>

definition usage_record_json :: "flash_usage_record_spec \<Rightarrow> json" where
  "usage_record_json r =
     jfields [(''service_instance_id'', Some (JStr (ur_service_instance_id r))), (''organization_id'', Some (JStr (ur_organization_id r))),
              (''project_id'', Some (JStr (ur_project_id r))), (''quota_user_id'', map_option JStr (ur_quota_user_id r)),
              (''display_name'', Some (JStr (ur_display_name r))), (''cpu_millis'', Some (jnat (ur_cpu_millis r))),
              (''memory_mib'', Some (jnat (ur_memory_mib r))), (''gpu_count'', Some (jnat (ur_gpu_count r))),
              (''usage'', Some (weekly_usage_json (ur_usage r)))]"

definition gpu_job_json :: "flash_gpu_job_spec \<Rightarrow> json" where
  "gpu_job_json j =
     jfields [(''service_instance_id'', Some (JStr (gj_service_instance_id j))),
              (''service_generation'', Some (JNum (gj_service_generation j))), (''subject_id'', Some (JStr (gj_subject_id j))),
              (''organization_id'', Some (JStr (gj_organization_id j))), (''project_id'', Some (JStr (gj_project_id j))),
              (''gpu_type'', map_option JStr (gj_gpu_type j)), (''count'', Some (jnat (gj_count j))),
              (''quota_remaining_seconds'', Some (jnat (gj_quota_remaining_seconds j))), (''queued_at'', Some (JNum (gj_queued_at j)))]"

lemma usage_rules_iff:
  "rules_pass USAGE_RECORD_RULES old (usage_record_json r) \<longleftrightarrow>
   rx_matches UUID_RX (ur_service_instance_id r) \<and> rx_matches UUID_RX (ur_organization_id r) \<and> rx_matches UUID_RX (ur_project_id r)"
  by (simp add: USAGE_RECORD_RULES_def rules_pass_def rule_passes_def usage_record_json_def jget_opt_jfields)

lemma gpu_job_rules_iff:
  "rules_pass GPU_JOB_RULES old (gpu_job_json j) \<longleftrightarrow>
   gj_count j = 1 \<and> (\<forall>t. gj_gpu_type j = Some t \<longrightarrow> validate_gpu_type t = Inr ())"
  by (cases "gj_gpu_type j")
     (simp_all add: GPU_JOB_RULES_def rules_pass_def rule_passes_def gpu_job_json_def jget_opt_jfields cel_has_jfields cel_simps dns_label_rx)

text \<open>A service that the server admits, and with it every usage record and every GPU job that the controller derives from it.\<close>

definition service_admitted :: "uuid_ops \<Rightarrow> flash_service option \<Rightarrow> flash_service \<Rightarrow> bool" where
  "service_admitted uuids old s \<longleftrightarrow>
     policy_in_range (svc_policy (fsv_spec s)) \<and> workload_admitted uuids (map_option workload old) (workload s) \<and>
     (\<forall>usage before. rules_pass USAGE_RECORD_RULES before (usage_record_json (usage_record_of s usage))) \<and>
     (\<forall>quota queued before. rules_pass GPU_JOB_RULES before (gpu_job_json (gpu_job_request s quota queued)))"

text \<open>Identifiers whose text is the canonical one.\<close>

locale canonical_uuid_text = uuid_text +
  assumes canonical: "rx_matches UUID_RX (uuid_show uuids u)"
begin

lemma desired_admitted:
  assumes accepted: "validate_flash_spec nets url_parse spec = Inr ()"
    and restore: "\<And>before. old = Some before \<Longrightarrow>
      fs_restore_from_backup_id spec = fs_restore_from_backup_id (workload before)"
    and policy: "policy_in_range (su_policy update)"
  shows "service_admitted uuids old (desired_flash_service uuids claims uuid request spec update now)"
proof -
  have "workload_admitted uuids (map_option workload old) spec"
    by (rule accepted_workload_admitted [OF _ accepted])
       (use restore in \<open>auto\<close>)
  moreover have "validate_gpu_type t = Inr ()" if "fs_gpu_type spec = Some t" for t
    using validate_flash_spec_parts(1) [OF accepted] that by (auto simp: validate_shape_def result_simps)
  ultimately show ?thesis
    by (simp add: service_admitted_def usage_rules_iff gpu_job_rules_iff usage_record_of_def gpu_job_request_def
        desired_flash_service_def Let_def canonical policy)
qed

end

lemma rx_matches_Exactly:
  "rx_matches (Class items (Exactly n) # ps) s \<longleftrightarrow>
   n \<le> length s \<and> list_all (\<lambda>c. list_ex (item_matches c) items) (take n s) \<and> rx_matches ps (drop n s)"
  by (auto simp: rx_matches_Class) (metis append_take_drop_id length_take min_absorb2)

lemma hex_digit_class:
  "list_all (\<lambda>c. list_ex (item_matches c) [Range (CHR ''0'') (CHR ''9''), Range (CHR ''a'') (CHR ''f'')]) (hex_digits k n)"
proof -
  have "i < 16 \<Longrightarrow> list_ex (item_matches (hex_char i)) [Range (CHR ''0'') (CHR ''9''), Range (CHR ''a'') (CHR ''f'')]" for i
    by (auto simp: hex_char_def byte_def)
  then show ?thesis by (auto simp: hex_digits_def list_all_iff)
qed

lemma list_all_slice: "list_all P s \<Longrightarrow> list_all P (take i (drop j s))"
  by (auto simp: list_all_iff dest!: in_set_takeD in_set_dropD)

interpretation canonical_hex: canonical_uuid_text hex_uuids
proof unfold_locales
  fix u :: uuid
  let ?s = "hex_digits 32 (unat u)"
  have parts: "uuid_show hex_uuids u =
      take 8 ?s @ ''-'' @ take 4 (drop 8 ?s) @ ''-'' @ take 4 (drop 12 ?s) @ ''-'' @ take 4 (drop 16 ?s) @ ''-'' @ drop 20 ?s"
    by (simp add: hex_uuids_def Let_def)
  have "drop 20 ?s = take 12 (drop 20 ?s)" and "take 8 ?s = take 8 (drop 0 ?s)" by simp_all
  note digits = list_all_slice [OF hex_digit_class [of 32 "unat u"]] this [symmetric]
  then have "list_all (\<lambda>c. list_ex (item_matches c) [Range (CHR ''0'') (CHR ''9''), Range (CHR ''a'') (CHR ''f'')]) t"
    if "t \<in> {take 8 ?s, take 4 (drop 8 ?s), take 4 (drop 12 ?s), take 4 (drop 16 ?s), drop 20 ?s}" for t
    using that by (auto simp del: list_ex_Cons_iff) (metis digits)+
  then show "rx_matches UUID_RX (uuid_show hex_uuids u)"
    unfolding parts UUID_RX_def hex_class_def
    by (simp add: rx_matches_Exactly rx_simps del: list_ex_Cons_iff)
qed

text \<open>
  C11. The API and the rules of the resource definitions agree. A command never applies a service that the server would refuse because of
  the ranges and rules that the program generates for its workload and its policy, with the weekly limits of the account, the member and the
  cloud organization, nor one whose usage records or GPU jobs it would refuse later: the command runs the same
  on a server that does something else for such a service. The rules are evaluated on the JSON form of the service and, for an
  update, of the one that was read. Hypotheses: identifiers are read back as they are written, in their canonical form, and
  the limits of the service that was read, which the server has admitted before, are in their ranges.
\<close>

theorem applied_services_pass_rules:
  assumes "canonical_uuid_text (al_uuids lib)"
    and "fa_service_get_opt api (service_resource_name (al_uuids lib) uuid) w = (Inr found, w1)"
    and "\<And>existing. found = Some existing \<Longrightarrow> policy_in_range (svc_policy (fsv_spec existing))"
  shows "reconcile_command (guarded_apply (\<lambda>_ s. service_admitted (al_uuids lib) found s) other api) lib st uuid authorization request w =
    reconcile_command api lib st uuid authorization request w"
proof (cases found)
  case None
  have "service_admitted (al_uuids lib) found
      (desired_flash_service (al_uuids lib) claims uuid request spec (new_service_update (al_uuids lib) claims request) now)"
    if "check_request lib claims uuid request = Inr spec" for claims spec now
    using checked_policy_in_range [OF that] that None
    by (intro canonical_uuid_text.desired_admitted [OF assms(1)]) (auto simp: check_request_def result_simps new_service_update_def)
  then show ?thesis using assms(2) unfolding None by (intro reconcile_command_new) simp_all
next
  case (Some existing)
  have "service_admitted (al_uuids lib) found (desired_flash_service (al_uuids lib) claims uuid request spec update now)"
    if "check_request lib claims uuid request = Inr spec" and "update_existing (al_uuids lib) claims request spec existing = Inr update"
    for claims spec update now
    using update_existing_legal [OF that(2)] that(1)
      kept_policy_in_range [OF that(2) checked_policy_in_range [OF that(1)] assms(3) [OF Some]]
    by (intro canonical_uuid_text.desired_admitted [OF assms(1)])
       (auto simp: Some check_request_def result_simps legal_update_def desired_flash_service_def)
  then show ?thesis using assms(2) unfolding Some by (intro reconcile_command_existing) simp_all
qed

theorem applied_services_pass_rules_witness:
  "\<forall>api lib st other.
     run_command
       (guarded_apply (\<lambda>_ s. service_admitted (al_uuids (run_lib 2 sample_spec lib)) (Some stored_service) s) other
          (command_server (Some stored_service) None api))
       (run_lib 2 sample_spec lib) st (sample_command False 2) = (Inl NotReady, 1)"
proof (intro allI)
  fix api lib st other
  have "canonical_uuid_text (al_uuids (run_lib 2 sample_spec lib))"
    using canonical_hex.canonical_uuid_text_axioms by (simp add: command_run_defs)
  moreover have "policy_in_range (svc_policy (fsv_spec existing))" if "Some stored_service = Some existing" for existing
    using that by (auto simp: stored_service_def sample_flash_def policy_in_range_def limits_in_range_def default_flash_service_policy_def
        MAX_WEEKLY_CPU_MILLICORE_SECONDS_def MAX_WEEKLY_MEMORY_MIB_SECONDS_def MAX_WEEKLY_GPU_SECONDS_def)
  ultimately have "canonical_uuid_text (al_uuids (run_lib 2 sample_spec lib))" and
    "\<And>existing. Some stored_service = Some existing \<Longrightarrow> policy_in_range (svc_policy (fsv_spec existing))" by blast+
  from trans [OF applied_services_pass_rules [OF this(1) command_server_found this(2)] update_run]
  show "run_command
       (guarded_apply (\<lambda>_ s. service_admitted (al_uuids (run_lib 2 sample_spec lib)) (Some stored_service) s) other
          (command_server (Some stored_service) None api))
       (run_lib 2 sample_spec lib) st (sample_command False 2) = (Inl NotReady, 1)" .
qed

end
