(* ===== verification/Controller_Config.thy ===== *)
theory Controller_Config
  imports Reconcile Network_Sets
begin

text \<open>
  The start of the controller (\<open>bin/flash-controller.rs\<close>, \<open>ControllerContext::new\<close> of \<open>reconcile.rs\<close>, \<open>CapacityClient::from_env\<close> of
  \<open>capacity.rs\<close>): the environment is read and checked, and gives the context of every pass or an error. The environment, the files, the
  JSON reader, the URL parser and the builder of the HTTP client are the fields of \<open>config_env\<close>.
\<close>

datatype startup_error = Startup_Error string | Startup_Panic string

record ('n, 'w) config_env =
  cf_var :: "string \<Rightarrow> string option"
  cf_file :: "string \<Rightarrow> string option"
  cf_nets :: "'n ipnet_ops"
  cf_uuids :: uuid_ops
  cf_url_parse :: "string \<Rightarrow> parsed_url option"
  cf_json_strings :: "string \<Rightarrow> string list option"
  cf_json_mounts :: "string \<Rightarrow> (string, admin_volume_mount list) btree_map option"
  cf_build_client :: "parsed_url \<Rightarrow> string \<Rightarrow> 'w capacity_client option"
  cf_client :: bool

section \<open>Variables\<close>

text \<open>\<open>str::trim\<close>\<close>

definition ws_prefix :: "string \<Rightarrow> string option" where
  "ws_prefix s = find (\<lambda>w. prefix w s) ws_codes"

definition ws_suffix :: "string \<Rightarrow> string option" where
  "ws_suffix s = find (\<lambda>w. suffix w s) ws_codes"

lemma ws_codes_nonempty_all: "w \<in> set ws_codes \<Longrightarrow> w \<noteq> []"
  by (auto simp: ws_codes_def)

lemma ws_prefix_shorter: "ws_prefix s = Some w \<Longrightarrow> length s - length w < length s"
  by (auto simp: ws_prefix_def find_Some_iff dest!: ws_codes_nonempty_all [OF nth_mem] intro!: diff_less dest: prefix_length_le)

lemma ws_suffix_shorter: "ws_suffix s = Some w \<Longrightarrow> length s - length w < length s"
  by (auto simp: ws_suffix_def find_Some_iff dest!: ws_codes_nonempty_all [OF nth_mem] intro!: diff_less dest: suffix_length_le)

function trim_start :: "string \<Rightarrow> string" where
  "trim_start s = (case ws_prefix s of None \<Rightarrow> s | Some w \<Rightarrow> trim_start (drop (length w) s))"
  by pat_completeness auto
termination by (relation "measure length") (auto dest: ws_prefix_shorter)

declare trim_start.simps [simp del]

function trim_end :: "string \<Rightarrow> string" where
  "trim_end s = (case ws_suffix s of None \<Rightarrow> s | Some w \<Rightarrow> trim_end (take (length s - length w) s))"
  by pat_completeness auto
termination by (relation "measure length") (auto dest: ws_suffix_shorter)

declare trim_end.simps [simp del]

definition trim :: "string \<Rightarrow> string" where
  "trim s = trim_end (trim_start s)"

definition optional :: "('n, 'w) config_env \<Rightarrow> string \<Rightarrow> string option" where
  "optional env name = filter_opt (\<lambda>v. v \<noteq> []) (map_option trim (cf_var env name))"

definition required_var :: "('n, 'w) config_env \<Rightarrow> string \<Rightarrow> startup_error + string" where
  "required_var env name = ok_or (cf_var env name) (Startup_Error (name @ '' is required''))"

definition add_network ::
  "('n::linorder, 'w) config_env \<Rightarrow> string \<Rightarrow> string \<Rightarrow> 'n list \<Rightarrow> startup_error + 'n list" where
  "add_network env name v networks =
     bindR (ok_or (net_parse (cf_nets env) v) (Startup_Error (name @ '' contains invalid CIDR '' @ v))) (\<lambda>n.
     let network = net_trunc (cf_nets env) n
     in bindR (ensure (network \<notin> set networks)
                 (Startup_Error (name @ '' contains duplicate CIDR '' @ net_show (cf_nets env) network))) (\<lambda>_.
        Inr (network # networks)))"

definition network_cidrs :: "('n::linorder, 'w) config_env \<Rightarrow> string \<Rightarrow> startup_error + 'n list" where
  "network_cidrs env name =
     bindR (case optional env name of
              None \<Rightarrow> Inr []
            | Some v \<Rightarrow> ok_or (cf_json_strings env v) (Startup_Error (name @ '' must be a JSON string array''))) (\<lambda>vs.
     bindR (try_fold (add_network env name) vs []) (\<lambda>networks.
     Inr (sort networks)))"

section \<open>Parts\<close>

definition check_public_domain :: "string option \<Rightarrow> startup_error + unit" where
  "check_public_domain public_name =
     (case public_name of
        None \<Rightarrow> Inr ()
      | Some d \<Rightarrow> map_err (\<lambda>e. Startup_Error (case e of Resource m \<Rightarrow> m | _ \<Rightarrow> [])) (validate_public_domain d))"

definition check_identity_endpoint :: "('n, 'w) config_env \<Rightarrow> string option \<Rightarrow> startup_error + unit" where
  "check_identity_endpoint env address =
     (case address of
        None \<Rightarrow> Inr ()
      | Some e \<Rightarrow>
          bindR (ok_or (cf_url_parse env e) (Startup_Error ''invalid workload identity endpoint'')) (\<lambda>u.
          ensure (parsed_url.url_scheme u = ''https'' \<and> parsed_url.url_host_str u \<noteq> None \<and> parsed_url.url_username u = [] \<and>
                  parsed_url.url_password u = None \<and> parsed_url.url_query u = None \<and> parsed_url.url_fragment u = None)
            (Startup_Error ''workload identity endpoint must be HTTPS without credentials/query/fragment'')))"

definition admin_mounts :: "('n, 'w) config_env \<Rightarrow> startup_error + (string, admin_volume_mount list) btree_map" where
  "admin_mounts env =
     bindR (case optional env ''FLASH_ADMIN_VOLUME_MOUNTS_JSON'' of
              None \<Rightarrow> Inr []
            | Some v \<Rightarrow> ok_or (cf_json_mounts env v) (Startup_Error ''FLASH_ADMIN_VOLUME_MOUNTS_JSON is invalid'')) (\<lambda>mounts.
     bindR (map_err Startup_Error (validate_admin_volume_mounts (cf_uuids env) mounts)) (\<lambda>_.
     Inr mounts))"

definition trim_newlines :: "string \<Rightarrow> string" where
  "trim_newlines s = rev (dropWhile (\<lambda>c. byte c = 13 \<or> byte c = 10) (rev s))"

text \<open>The four registry settings come together; the password is the content of a file.\<close>

definition registry_inspector :: "('n, 'w) config_env \<Rightarrow> startup_error + image_inspector" where
  "registry_inspector env =
     (let host = optional env ''FLASH_REGISTRY_HOST''; username = optional env ''FLASH_REGISTRY_USERNAME'';
          password_file = optional env ''FLASH_REGISTRY_PASSWORD_FILE'';
          configured = [host \<noteq> None, username \<noteq> None, password_file \<noteq> None, optional env ''FLASH_REGISTRY_PULL_SECRET'' \<noteq> None]
      in bindR (ensure (\<not> (list_ex (\<lambda>v. v) configured \<and> \<not> list_all (\<lambda>v. v) configured))
                  (Startup_Error (''FLASH_REGISTRY_HOST, FLASH_REGISTRY_USERNAME, FLASH_REGISTRY_PASSWORD_FILE and '' @
                     ''FLASH_REGISTRY_PULL_SECRET must be configured together''))) (\<lambda>_.
         case (host, username, password_file) of
           (Some h, Some u, Some f) \<Rightarrow>
             bindR (ensure (\<not> (CHR ''/'' \<in> set h \<or> any_whitespace h))
                      (Startup_Error ''FLASH_REGISTRY_HOST must be a registry host without a URL scheme'')) (\<lambda>_.
             bindR (ok_or (cf_file env f) (Startup_Error (''read registry password from '' @ f))) (\<lambda>content.
             let password = trim_newlines content
             in bindR (ensure (\<not> (u = [] \<or> password = []))
                         (Startup_Error ''registry username and password must not be empty'')) (\<lambda>_.
                Inr (with_basic_auth h u password))))
         | (None, None, None) \<Rightarrow> Inr new_inspector
         | _ \<Rightarrow> Inl (Startup_Panic ''registry configuration completeness was checked'')))"

text \<open>\<open>CapacityClient::from_env\<close>\<close>

definition capacity_from_env :: "('n, 'w) config_env \<Rightarrow> startup_error + 'w capacity_client option" where
  "capacity_from_env env =
     (case filter_opt (\<lambda>v. v \<noteq> []) (cf_var env ''FLASH_CAPACITY_ENDPOINT'') of
        None \<Rightarrow> Inr None
      | Some v \<Rightarrow>
          bindR (ok_or (cf_url_parse env v) (Startup_Error ''invalid URL'')) (\<lambda>origin.
          bindR (ensure (parsed_url.url_scheme origin = ''https'' \<and> parsed_url.url_username origin = [] \<and>
                         parsed_url.url_password origin = None \<and> parsed_url.url_query origin = None \<and>
                         parsed_url.url_fragment origin = None)
                   (Startup_Error ''capacity endpoint requires HTTPS'')) (\<lambda>_.
          bindR (ok_or (cf_var env ''FLASH_CAPACITY_CA_FILE'') (Startup_Error ''capacity CA file is required'')) (\<lambda>file.
          bindR (ok_or (cf_file env file) (Startup_Error ''read'')) (\<lambda>ca.
          bindR (ok_or (cf_build_client env origin ca) (Startup_Error ''client'')) (\<lambda>client.
          Inr (Some client)))))))"

section \<open>The context\<close>

definition configure :: "('n::linorder, 'w) config_env \<Rightarrow> startup_error + ('n, 'w) controller_context" where
  "configure env =
     bindR (required_var env ''FLASH_WORKLOAD_NAMESPACE'') (\<lambda>namespace.
     bindR (required_var env ''FLASH_HELPER_IMAGE'') (\<lambda>helper_image.
     bindR (check_public_domain (optional env ''FLASH_PUBLIC_DOMAIN'')) (\<lambda>_.
     bindR (check_identity_endpoint env (optional env ''FLASH_WORKLOAD_IDENTITY_ENDPOINT'')) (\<lambda>_.
     bindR (admin_mounts env) (\<lambda>mounts.
     bindR (network_cidrs env ''FLASH_ADDITIONAL_PROTECTED_CIDRS_JSON'') (\<lambda>protected.
     bindR (network_cidrs env ''FLASH_DNS_CIDRS_JSON'') (\<lambda>dns.
     bindR (network_cidrs env ''FLASH_SECRET_MANAGER_CIDRS_JSON'') (\<lambda>secret_manager.
     bindR (ensure (dns \<noteq> []) (Startup_Error ''FLASH_DNS_CIDRS_JSON must contain at least one DNS service address'')) (\<lambda>_.
     bindR (registry_inspector env) (\<lambda>inspector.
     bindR (ensure (cf_client env) (Startup_Error ''create Kubernetes client'')) (\<lambda>_.
     bindR (required_var env ''FLASH_ACTIVATOR_NAMESPACE'') (\<lambda>activator_namespace.
     bindR (required_var env ''FLASH_ACTIVATOR_SERVICE'') (\<lambda>activator_service.
     bindR (required_var env ''FLASH_ACTIVATOR_PORT'') (\<lambda>raw_port.
     bindR (ok_or (parse_uint 65535 raw_port) (Startup_Error ''FLASH_ACTIVATOR_PORT must be a TCP port'')) (\<lambda>activator_port.
     bindR (capacity_from_env env) (\<lambda>capacity.
     bindR (network_cidrs env ''FLASH_VPC_GUARD_CIDRS_JSON'') (\<lambda>vpc_guard.
     Inr \<lparr>ctx_capacity = capacity, ctx_namespace = namespace, ctx_image_inspector = inspector, ctx_helper_image = helper_image,
          ctx_registry_pull_secret = optional env ''FLASH_REGISTRY_PULL_SECRET'',
          ctx_persistent_storage_class = optional env ''FLASH_PERSISTENT_STORAGE_CLASS'', ctx_admin_volume_mounts = mounts,
          ctx_additional_protected_networks = protected, ctx_dns_networks = dns, ctx_secret_manager_networks = secret_manager,
          ctx_vpc_guard_networks = vpc_guard, ctx_public_domain = optional env ''FLASH_PUBLIC_DOMAIN'',
          ctx_workload_identity_endpoint = optional env ''FLASH_WORKLOAD_IDENTITY_ENDPOINT'',
          ctx_activator_namespace = activator_namespace, ctx_activator_service = activator_service,
          ctx_activator_port = activator_port\<rparr>)))))))))))))))))"

text \<open>The backup controller runs beside it when a snapshot class is set.\<close>

definition runs_backups :: "('n, 'w) config_env \<Rightarrow> bool" where
  "runs_backups env \<longleftrightarrow> optional env ''FLASH_BACKUP_SNAPSHOT_CLASS'' \<noteq> None"

section \<open>What a controller that starts relies on\<close>

lemma add_networks:
  assumes "try_fold (add_network env name) vs [] = Inr networks"
  shows "distinct networks \<and> set networks \<subseteq> range (net_trunc (cf_nets env))"
  using assms by (rule try_fold_invariant) (auto simp: add_network_def Let_def result_simps)

lemma network_cidrs_canonical:
  assumes "network_cidrs env name = Inr networks"
  shows "sorted_wrt (<) networks \<and> set networks \<subseteq> range (net_trunc (cf_nets env))"
proof -
  obtain vs acc where "try_fold (add_network env name) vs [] = Inr acc" and "networks = sort acc"
    using assms by (auto simp: network_cidrs_def result_simps)
  then show ?thesis using add_networks [of env name vs acc] by (simp add: strict_sorted_iff)
qed

lemma registry_inspector_complete:
  "registry_inspector env = Inr inspector \<Longrightarrow>
   (inspector \<noteq> None) = (optional env ''FLASH_REGISTRY_PULL_SECRET'' \<noteq> None) \<and>
   (\<forall>c. inspector = Some c \<longrightarrow> CHR ''/'' \<notin> set (sra_registry c) \<and> \<not> any_whitespace (sra_registry c) \<and>
      (\<exists>u p. sra_auth c = Basic u p \<and> u \<noteq> [] \<and> p \<noteq> []))"
  by (cases "optional env ''FLASH_REGISTRY_HOST''"; cases "optional env ''FLASH_REGISTRY_USERNAME''";
      cases "optional env ''FLASH_REGISTRY_PASSWORD_FILE''"; cases "optional env ''FLASH_REGISTRY_PULL_SECRET''";
      simp add: registry_inspector_def Let_def)
     (auto simp: result_simps new_inspector_def with_basic_auth_def Let_def)

lemma configure_Inr:
  assumes "configure env = Inr ctx"
  shows "check_public_domain (ctx_public_domain ctx) = Inr () \<and>
    check_identity_endpoint env (ctx_workload_identity_endpoint ctx) = Inr () \<and>
    admin_mounts env = Inr (ctx_admin_volume_mounts ctx) \<and> ctx_dns_networks ctx \<noteq> [] \<and>
    network_cidrs env ''FLASH_ADDITIONAL_PROTECTED_CIDRS_JSON'' = Inr (ctx_additional_protected_networks ctx) \<and>
    network_cidrs env ''FLASH_DNS_CIDRS_JSON'' = Inr (ctx_dns_networks ctx) \<and>
    network_cidrs env ''FLASH_SECRET_MANAGER_CIDRS_JSON'' = Inr (ctx_secret_manager_networks ctx) \<and>
    network_cidrs env ''FLASH_VPC_GUARD_CIDRS_JSON'' = Inr (ctx_vpc_guard_networks ctx) \<and>
    registry_inspector env = Inr (ctx_image_inspector ctx) \<and>
    ctx_registry_pull_secret ctx = optional env ''FLASH_REGISTRY_PULL_SECRET''"
  using assms unfolding configure_def by (clarsimp simp: result_simps)

text \<open>
  C26. A controller starts only with a sound configuration. Its network lists are canonical: truncated networks in strict order, with at
  least one address of a DNS service. Credentials of a registry and the pull secret are there together or not at all, for a host
  without a path, with a name and a password. The mounts of the operator pass their validation, the endpoint of workload identity is
  HTTPS without credentials, and with a public domain every web service with a valid identifier has a host name, so no pass fails on
  the domain.
\<close>

theorem controller_config_sound:
  assumes "configure env = Inr ctx"
  shows "ctx_dns_networks ctx \<noteq> [] \<and>
    (\<forall>networks \<in> {ctx_additional_protected_networks ctx, ctx_dns_networks ctx, ctx_secret_manager_networks ctx,
       ctx_vpc_guard_networks ctx}. sorted_wrt (<) networks \<and> set networks \<subseteq> range (net_trunc (cf_nets env))) \<and>
    (ctx_image_inspector ctx \<noteq> None) = (ctx_registry_pull_secret ctx \<noteq> None) \<and>
    (\<forall>c. ctx_image_inspector ctx = Some c \<longrightarrow> CHR ''/'' \<notin> set (sra_registry c) \<and>
       (\<exists>u p. sra_auth c = Basic u p \<and> u \<noteq> [] \<and> p \<noteq> [])) \<and>
    validate_admin_volume_mounts (cf_uuids env) (ctx_admin_volume_mounts ctx) = Inr () \<and>
    (\<forall>address. ctx_workload_identity_endpoint ctx = Some address \<longrightarrow>
       (\<exists>u. cf_url_parse env address = Some u \<and> parsed_url.url_scheme u = ''https'' \<and> parsed_url.url_username u = [] \<and>
          parsed_url.url_password u = None)) \<and>
    (\<forall>flash. ctx_public_domain ctx \<noteq> None \<and> uuid_parse (cf_uuids env) (svc_service_instance_id (fsv_spec flash)) \<noteq> None \<longrightarrow>
       is_ok (public_hostname (cf_uuids env) flash (ctx_public_domain ctx)))"
proof -
  note parts = configure_Inr [OF assms]
  have "validate_admin_volume_mounts (cf_uuids env) (ctx_admin_volume_mounts ctx) = Inr ()"
    using parts by (auto simp: admin_mounts_def result_simps)
  moreover have "is_ok (public_hostname (cf_uuids env) flash (ctx_public_domain ctx))"
    if "ctx_public_domain ctx \<noteq> None" and "uuid_parse (cf_uuids env) (svc_service_instance_id (fsv_spec flash)) \<noteq> None" for flash
    using that parts by (auto simp: check_public_domain_def public_hostname_def result_simps ok_or_def)
  moreover have "\<exists>u. cf_url_parse env address = Some u \<and> parsed_url.url_scheme u = ''https'' \<and> parsed_url.url_username u = [] \<and>
      parsed_url.url_password u = None" if "ctx_workload_identity_endpoint ctx = Some address" for address
    using that parts by (auto simp: check_identity_endpoint_def result_simps)
  moreover have "sorted_wrt (<) networks \<and> set networks \<subseteq> range (net_trunc (cf_nets env))"
    if "networks \<in> {ctx_additional_protected_networks ctx, ctx_dns_networks ctx, ctx_secret_manager_networks ctx,
      ctx_vpc_guard_networks ctx}" for networks
    using that parts network_cidrs_canonical by blast
  ultimately show ?thesis
    using parts registry_inspector_complete [of env "ctx_image_inspector ctx"] by simp
qed

section \<open>A configuration\<close>

definition sample_vars :: "(string \<times> string) list" where
  "sample_vars =
     [(''FLASH_WORKLOAD_NAMESPACE'', ''flash''), (''FLASH_HELPER_IMAGE'', ''helper''), (''FLASH_DNS_CIDRS_JSON'', ''dns ''),
      (''FLASH_ACTIVATOR_NAMESPACE'', ''flash-system''), (''FLASH_ACTIVATOR_SERVICE'', ''activator''), (''FLASH_ACTIVATOR_PORT'', show_nat 8080)]"

definition config_sample :: "uuid_ops \<Rightarrow> (cidr, nat) config_env" where
  "config_sample uuids =
     \<lparr>cf_var = map_of sample_vars, cf_file = (\<lambda>_. None), cf_nets = cidr_ops, cf_uuids = uuids, cf_url_parse = (\<lambda>_. None),
      cf_json_strings = (\<lambda>v. if v = ''dns'' then Some [''10.0.0.0/8''] else None), cf_json_mounts = (\<lambda>_. None),
      cf_build_client = (\<lambda>_ _. None), cf_client = True\<rparr>"

lemma sample_dns: "trim ''dns '' = ''dns''"
proof -
  have "ws_prefix ''dns '' = None" "ws_suffix ''dns '' = Some '' ''" "ws_suffix ''dns'' = None"
    by (simp_all add: ws_prefix_def ws_suffix_def ws_codes_def char_of_def suffix_to_prefix bit_Suc_0_iff)
  then show ?thesis by (simp add: trim_def trim_start.simps [of "''dns ''"] trim_end.simps [of "''dns ''"] trim_end.simps [of "''dns''"])
qed

lemma sample_dns_network: "\<exists>n. net_parse cidr_ops ''10.0.0.0/8'' = Some n"
  using cidr_text.parse_literal [of "''10.0.0.0/8''"] by (auto simp: PROTECTED_EGRESS_CIDRS_def)

lemma config_sample_optional:
  "name \<notin> fst ` set sample_vars \<Longrightarrow> optional (config_sample uuids) name = None"
  "optional (config_sample uuids) ''FLASH_DNS_CIDRS_JSON'' = Some ''dns''"
  by (simp_all add: optional_def config_sample_def filter_opt_def map_of_eq_None_iff sample_vars_def sample_dns)

lemma network_cidrs_single:
  assumes "optional env name = Some v" and "cf_json_strings env v = Some [cidr]" and "cf_nets env = nets" and "net_parse nets cidr = Some n"
  shows "network_cidrs env name = Inr [net_trunc nets n]"
  using assms by (simp add: network_cidrs_def add_network_def ok_or_def ensure_def)

lemma config_sample_accepted: "is_ok (configure (config_sample uuids))"
proof -
  obtain n where n: "net_parse cidr_ops ''10.0.0.0/8'' = Some n" using sample_dns_network by blast
  have none: "network_cidrs (config_sample uuids) name = Inr []" if "name \<notin> fst ` set sample_vars" for name
    by (simp add: network_cidrs_def config_sample_optional(1) [OF that])
  have env: "cf_json_strings (config_sample uuids) ''dns'' = Some [''10.0.0.0/8'']" "cf_nets (config_sample uuids) = cidr_ops"
    by (simp_all add: config_sample_def)
  have dns: "network_cidrs (config_sample uuids) ''FLASH_DNS_CIDRS_JSON'' = Inr [net_trunc cidr_ops n]"
    by (rule network_cidrs_single [OF config_sample_optional(2) env n])
  have port: "parse_uint 65535 (show_nat 8080) = Some 8080" by (simp add: parse_uint_show_nat)
  have vars: "cf_var (config_sample uuids) = map_of sample_vars" "cf_client (config_sample uuids)"
    by (simp_all add: config_sample_def)
  have mounts: "admin_mounts (config_sample uuids) = Inr []"
    by (simp add: admin_mounts_def config_sample_optional sample_vars_def validate_admin_volume_mounts_def ensure_def)
  have registry: "registry_inspector (config_sample uuids) = Inr new_inspector"
    by (simp add: registry_inspector_def config_sample_optional sample_vars_def ensure_def)
  have capacity: "capacity_from_env (config_sample uuids) = Inr None"
    by (simp add: capacity_from_env_def vars sample_vars_def filter_opt_def)
  show ?thesis
    by (simp add: configure_def required_var_def vars dns mounts registry capacity none check_public_domain_def
        check_identity_endpoint_def config_sample_optional sample_vars_def ok_or_def ensure_def port)
qed

theorem controller_config_sound_witness:
  "\<forall>uuids. \<exists>ctx. configure (config_sample uuids) = Inr ctx \<and> ctx_dns_networks ctx \<noteq> [] \<and>
     sorted_wrt (<) (ctx_dns_networks ctx) \<and> (ctx_image_inspector ctx \<noteq> None) = (ctx_registry_pull_secret ctx \<noteq> None)"
proof
  fix uuids
  obtain ctx where ctx: "configure (config_sample uuids) = Inr ctx" using config_sample_accepted by (auto simp: is_ok_iff)
  from controller_config_sound [OF ctx] ctx
  show "\<exists>ctx. configure (config_sample uuids) = Inr ctx \<and> ctx_dns_networks ctx \<noteq> [] \<and>
     sorted_wrt (<) (ctx_dns_networks ctx) \<and> (ctx_image_inspector ctx \<noteq> None) = (ctx_registry_pull_secret ctx \<noteq> None)"
    by auto
qed

end
