(* ===== verification/Flashctl.thy ===== *)
theory Flashctl
  imports Controller_Config Crd_Properties
begin

text \<open>
  The command line tool (\<open>bin/flashctl.rs\<close>): the token and the specification that it reads, the address of a request, the request of each
  command and the reading of the answer. The files, the JSON reader and printer and the HTTP client are the fields of \<open>cli_env\<close>, the
  functions of the \<open>url\<close> crate those of \<open>url_lib\<close>, with what is relied on of them as the locale \<open>url_paths\<close>.
\<close>

section \<open>Addresses\<close>

record 'u url_lib =
  ul_base :: "'u \<Rightarrow> string"
  ul_path :: "'u \<Rightarrow> string"
  ul_pairs :: "'u \<Rightarrow> (string \<times> string) list"
  ul_set_path :: "string \<Rightarrow> 'u \<Rightarrow> 'u"
  ul_join :: "'u \<Rightarrow> string \<Rightarrow> 'u option"
  ul_append_pair :: "string \<Rightarrow> string \<Rightarrow> 'u \<Rightarrow> 'u"

datatype cli_error = Cli_Error string

definition flash_collection_url :: "'u url_lib \<Rightarrow> uuid_ops \<Rightarrow> 'u \<Rightarrow> uuid \<Rightarrow> cli_error + 'u" where
  "flash_collection_url urls uuids api_url organization_id =
     (let base = (if suffix ''/'' (ul_path urls api_url) then api_url
                  else ul_set_path urls (ul_path urls api_url @ ''/'') api_url)
      in ok_or (ul_join urls base (''organizations/'' @ uuid_show uuids organization_id @ ''/flash/services''))
           (Cli_Error ''construct Flash management URL''))"

definition resource_url :: "'u url_lib \<Rightarrow> uuid_ops \<Rightarrow> 'u \<Rightarrow> uuid \<Rightarrow> cli_error + 'u" where
  "resource_url urls uuids collection service_id =
     ok_or (ul_join urls (ul_set_path urls (trim_end_matches (CHR ''/'') (ul_path urls collection) @ ''/'') collection) (uuid_show uuids service_id))
       (Cli_Error ''construct Flash service URL'')"

section \<open>Files\<close>

record file_metadata =
  fm_is_file :: bool
  fm_mode :: "32 word"

record 'u http_request =
  rq_method :: string
  rq_url :: 'u
  rq_token :: string
  rq_body :: "json option"

record http_answer =
  an_status :: u16
  an_bytes :: string

record ('w, 'n, 'u) cli_env =
  ce_metadata :: "string \<Rightarrow> file_metadata option"
  ce_read :: "string \<Rightarrow> string option"
  ce_read_to_string :: "string \<Rightarrow> string option"
  ce_json :: "string \<Rightarrow> json option"
  ce_json_pretty :: "json \<Rightarrow> string"
  ce_status_text :: "u16 \<Rightarrow> string"
  ce_utf8_lossy :: "string \<Rightarrow> string"
  ce_nets :: "'n ipnet_ops"
  ce_url_parse :: "string \<Rightarrow> parsed_url option"
  ce_uuids :: uuid_ops
  ce_urls :: "'u url_lib"
  ce_client :: bool
  ce_send :: "'u http_request \<Rightarrow> ('w, unit, http_answer) effect"

unbundle bit_operations_syntax

definition read_token :: "('w, 'n, 'u) cli_env \<Rightarrow> string \<Rightarrow> cli_error + string" where
  "read_token env path =
     bindR (ok_or (ce_metadata env path) (Cli_Error (''inspect '' @ path))) (\<lambda>metadata.
     bindR (ensure (fm_is_file metadata) (Cli_Error (path @ '' is not a regular file''))) (\<lambda>_.
     bindR (ensure (fm_mode metadata AND 0x3F = 0) (Cli_Error (path @ '' must not be accessible by group or others''))) (\<lambda>_.
     bindR (ok_or (ce_read_to_string env path) (Cli_Error (''read '' @ path))) (\<lambda>content.
     let token = trim_newlines content
     in bindR (ensure (\<not> (token = [] \<or> list_ex (\<lambda>c. byte c = 13 \<or> byte c = 10) token))
                 (Cli_Error (path @ '' does not contain one valid token''))) (\<lambda>_.
        Inr token)))))"

definition read_spec :: "('w, 'n::linorder, 'u) cli_env \<Rightarrow> string \<Rightarrow> cli_error + flash_spec" where
  "read_spec env path =
     bindR (ok_or (ce_read env path) (Cli_Error (''read '' @ path))) (\<lambda>content.
     bindR (ok_or (bindO (ce_json env content) (spec_of_json (ce_uuids env))) (Cli_Error (''parse '' @ path))) (\<lambda>spec.
     bindR (map_err (\<lambda>_. Cli_Error ''validate Flash spec'') (validate_flash_spec (ce_nets env) (ce_url_parse env) spec)) (\<lambda>_.
     Inr spec)))"

section \<open>Commands\<close>

datatype cli_command =
    List_Services "uuid option"
  | Get_Service uuid
  | Create_Service uuid string string
  | Update_Service uuid "string option" "string option"
  | Delete_Service uuid

record 'u cli =
  cli_api_url :: 'u
  cli_organization_id :: uuid
  cli_token_file :: string
  cli_command :: cli_command

definition update_body :: "('w, 'n::linorder, 'u) cli_env \<Rightarrow> string option \<Rightarrow> string option \<Rightarrow> cli_error + json" where
  "update_body env name spec =
     bindR (ensure (\<not> (name = None \<and> spec = None)) (Cli_Error ''update requires --name or --spec'')) (\<lambda>_.
     let body = (case name of None \<Rightarrow> [] | Some n \<Rightarrow> [(''name'', JStr n)])
     in case spec of
          None \<Rightarrow> Inr (jobj body)
        | Some path \<Rightarrow> bindR (read_spec env path) (\<lambda>s. Inr (jobj (body @ [(''spec'', spec_json (ce_uuids env) s)]))))"

definition command_request ::
  "('w, 'n::linorder, 'u) cli_env \<Rightarrow> 'u \<Rightarrow> cli_command \<Rightarrow> cli_error + (string \<times> 'u \<times> json option)" where
  "command_request env base command =
     (case command of
        List_Services project \<Rightarrow>
          Inr (''GET'',
               case project of
                 None \<Rightarrow> base
               | Some p \<Rightarrow> ul_append_pair (ce_urls env) ''project_id'' (uuid_show (ce_uuids env) p) base,
               None)
      | Get_Service service \<Rightarrow>
          bindR (resource_url (ce_urls env) (ce_uuids env) base service) (\<lambda>u. Inr (''GET'', u, None))
      | Create_Service project name spec \<Rightarrow>
          bindR (read_spec env spec) (\<lambda>s.
          Inr (''POST'', base,
               Some (jobj [(''project_id'', JStr (uuid_show (ce_uuids env) project)), (''name'', JStr name),
                           (''spec'', spec_json (ce_uuids env) s)])))
      | Update_Service service name spec \<Rightarrow>
          bindR (update_body env name spec) (\<lambda>body.
          bindR (resource_url (ce_urls env) (ce_uuids env) base service) (\<lambda>u.
          Inr (''PUT'', u, Some body)))
      | Delete_Service service \<Rightarrow>
          bindR (resource_url (ce_urls env) (ce_uuids env) base service) (\<lambda>u. Inr (''DELETE'', u, None)))"

definition prepare_request :: "('w, 'n::linorder, 'u) cli_env \<Rightarrow> 'u cli \<Rightarrow> cli_error + 'u http_request" where
  "prepare_request env args =
     bindR (read_token env (cli_token_file args)) (\<lambda>token.
     bindR (flash_collection_url (ce_urls env) (ce_uuids env) (cli_api_url args) (cli_organization_id args)) (\<lambda>base.
     bindR (ensure (ce_client env) (Cli_Error ''build HTTP client'')) (\<lambda>_.
     bindR (command_request env base (cli_command args)) (\<lambda>(method, u, body).
     Inr \<lparr>rq_method = method, rq_url = u, rq_token = token, rq_body = body\<rparr>))))"

text \<open>The text that is printed, if any.\<close>

definition read_answer :: "('w, 'n, 'u) cli_env \<Rightarrow> http_answer \<Rightarrow> cli_error + string option" where
  "read_answer env answer =
     bindR (ensure (200 \<le> an_status answer \<and> an_status answer < 300)
              (Cli_Error (''HeteroCloud returned HTTP '' @ ce_status_text env (an_status answer) @ '': '' @ ce_utf8_lossy env (an_bytes answer)))) (\<lambda>_.
     if an_bytes answer = [] then Inr None
     else bindR (ok_or (ce_json env (an_bytes answer)) (Cli_Error ''decode management response'')) (\<lambda>v.
          Inr (Some (ce_json_pretty env v))))"

definition run_flashctl :: "('w, 'n::linorder, 'u) cli_env \<Rightarrow> 'u cli \<Rightarrow> ('w, cli_error, string option) effect" where
  "run_flashctl env args =
     ebind (etry (prepare_request env args)) (\<lambda>request.
     ebind (emap_err (\<lambda>_. Cli_Error ''send management request'') (ce_send env request)) (\<lambda>answer.
     etry (read_answer env answer)))"

section \<open>The interface of addresses\<close>

text \<open>A relative address of plain segments.\<close>

definition plain_path :: "string \<Rightarrow> bool" where
  "plain_path s \<longleftrightarrow> s \<noteq> [] \<and> hd s \<noteq> CHR ''/'' \<and> list_all (\<lambda>c. is_ascii_alphanumeric c \<or> c = CHR ''-'' \<or> c = CHR ''/'') s"

locale url_paths =
  fixes urls :: "'u url_lib"
  assumes join_plain: "prefix ''/'' (ul_path urls u) \<Longrightarrow> suffix ''/'' (ul_path urls u) \<Longrightarrow> plain_path rel \<Longrightarrow>
      \<exists>v. ul_join urls u rel = Some v \<and> ul_base urls v = ul_base urls u \<and> ul_path urls v = ul_path urls u @ rel"
    and set_path: "prefix ''/'' (ul_path urls u) \<Longrightarrow> p \<in> {ul_path urls u @ ''/'', trim_end_matches (CHR ''/'') (ul_path urls u) @ ''/''} \<Longrightarrow>
      ul_base urls (ul_set_path urls p u) = ul_base urls u \<and> ul_path urls (ul_set_path urls p u) = p"
    and append_pair: "ul_base urls (ul_append_pair urls k v u) = ul_base urls u \<and> ul_path urls (ul_append_pair urls k v u) = ul_path urls u"
begin

lemma collection_url:
  assumes "prefix ''/'' (ul_path urls u)" and "plain_path (uuid_show uuids organization)"
  shows "\<exists>v. flash_collection_url urls uuids u organization = Inr v \<and> ul_base urls v = ul_base urls u \<and>
    ul_path urls v = (if suffix ''/'' (ul_path urls u) then ul_path urls u else ul_path urls u @ ''/'') @
      ''organizations/'' @ uuid_show uuids organization @ ''/flash/services''"
proof -
  let ?base = "if suffix ''/'' (ul_path urls u) then u else ul_set_path urls (ul_path urls u @ ''/'') u"
  let ?rel = "''organizations/'' @ uuid_show uuids organization @ ''/flash/services''"
  have base: "ul_base urls ?base = ul_base urls u"
    "ul_path urls ?base = (if suffix ''/'' (ul_path urls u) then ul_path urls u else ul_path urls u @ ''/'')"
    using set_path [OF assms(1)] by auto
  moreover have "plain_path ?rel" using assms(2) by (simp add: plain_path_def char_defs byte_def)
  moreover have "prefix ''/'' (ul_path urls ?base)" "suffix ''/'' (ul_path urls ?base)"
    unfolding base using assms(1) by (auto intro: prefix_prefix)
  ultimately show ?thesis
    using join_plain [of ?base ?rel] unfolding flash_collection_url_def Let_def by (fastforce simp: ok_or_def)
qed

lemma resource_url_at:
  assumes "prefix ''/'' (ul_path urls u)" and "suffix ''/flash/services'' (ul_path urls u)" and "plain_path (uuid_show uuids service)"
  shows "\<exists>v. resource_url urls uuids u service = Inr v \<and> ul_base urls v = ul_base urls u \<and>
    ul_path urls v = ul_path urls u @ ''/'' @ uuid_show uuids service"
proof -
  let ?p = "ul_path urls u"
  have trimmed: "trim_end_matches (CHR ''/'') ?p = ?p" using assms(2) by (auto simp: trim_end_matches_def suffix_def)
  let ?base = "ul_set_path urls (?p @ ''/'') u"
  have "ul_base urls ?base = ul_base urls u" "ul_path urls ?base = ?p @ ''/''" using set_path [OF assms(1)] by auto
  moreover from this have "prefix ''/'' (ul_path urls ?base)" "suffix ''/'' (ul_path urls ?base)"
    using assms(1) by (auto intro: prefix_prefix)
  ultimately show ?thesis
    using join_plain [of ?base, OF _ _ assms(3)] unfolding resource_url_def trimmed by (fastforce simp: ok_or_def)
qed

end

text \<open>An implementation: an address with its path and its query.\<close>

record simple_url =
  su_base :: string
  su_path :: string
  su_pairs :: "(string \<times> string) list"

definition simple_urls :: "simple_url url_lib" where
  "simple_urls =
     \<lparr>ul_base = su_base, ul_path = su_path, ul_pairs = su_pairs, ul_set_path = (\<lambda>p u. u\<lparr>su_path := p\<rparr>),
      ul_join = (\<lambda>u rel. Some (u\<lparr>su_path := rev (dropWhile (\<lambda>c. c \<noteq> CHR ''/'') (rev (su_path u))) @ rel, su_pairs := []\<rparr>)),
      ul_append_pair = (\<lambda>k v u. u\<lparr>su_pairs := su_pairs u @ [(k, v)]\<rparr>)\<rparr>"

interpretation simple: url_paths simple_urls
  by unfold_locales (auto simp: simple_urls_def suffix_def)

section \<open>Requests\<close>

definition resource_suffix :: "uuid_ops \<Rightarrow> cli_command \<Rightarrow> string" where
  "resource_suffix uuids command =
     (case command of
        Get_Service s \<Rightarrow> ''/'' @ uuid_show uuids s | Update_Service s _ _ \<Rightarrow> ''/'' @ uuid_show uuids s
      | Delete_Service s \<Rightarrow> ''/'' @ uuid_show uuids s | _ \<Rightarrow> [])"

definition with_slash :: "string \<Rightarrow> string" where
  "with_slash p = (if suffix ''/'' p then p else p @ ''/'')"

text \<open>The token is the only line of a regular file that nobody else can read.\<close>

definition token_protected :: "('w, 'n, 'u) cli_env \<Rightarrow> string \<Rightarrow> string \<Rightarrow> bool" where
  "token_protected env path token \<longleftrightarrow>
     (\<exists>m ending. ce_metadata env path = Some m \<and> fm_is_file m \<and> fm_mode m AND 0x3F = 0 \<and>
        ce_read_to_string env path = Some (token @ ending) \<and> list_all (\<lambda>c. byte c = 13 \<or> byte c = 10) ending \<and> token \<noteq> [] \<and>
        list_all (\<lambda>c. byte c \<noteq> 13 \<and> byte c \<noteq> 10) token)"

text \<open>A specification in a body has been validated, and the server reads it as it was validated.\<close>

definition body_sound :: "('w, 'n::linorder, 'u) cli_env \<Rightarrow> cli_command \<Rightarrow> json option \<Rightarrow> bool" where
  "body_sound env command body \<longleftrightarrow>
     (\<forall>v. bindO body (\<lambda>b. jget_opt b ''spec'') = Some v \<longrightarrow>
        (\<exists>s. v = spec_json (ce_uuids env) s \<and> validate_flash_spec (ce_nets env) (ce_url_parse env) s = Inr ())) \<and>
     (case command of
        Create_Service _ _ _ \<Rightarrow> bindO body (\<lambda>b. jget_opt b ''spec'') \<noteq> None
      | Update_Service _ _ _ \<Rightarrow> \<exists>b. body = Some b \<and> (jget_opt b ''name'' \<noteq> None \<or> jget_opt b ''spec'' \<noteq> None)
      | _ \<Rightarrow> body = None)"

definition request_sound :: "('w, 'n::linorder, 'u) cli_env \<Rightarrow> 'u cli \<Rightarrow> 'u http_request \<Rightarrow> bool" where
  "request_sound env args request \<longleftrightarrow>
     token_protected env (cli_token_file args) (rq_token request) \<and>
     ul_base (ce_urls env) (rq_url request) = ul_base (ce_urls env) (cli_api_url args) \<and>
     ul_path (ce_urls env) (rq_url request) =
       with_slash (ul_path (ce_urls env) (cli_api_url args)) @ ''organizations/'' @ uuid_show (ce_uuids env) (cli_organization_id args) @
       ''/flash/services'' @ resource_suffix (ce_uuids env) (cli_command args) \<and>
     body_sound env (cli_command args) (rq_body request)"

lemma trim_newlines_split:
  obtains ending where "s = trim_newlines s @ ending" and "list_all (\<lambda>c. byte c = 13 \<or> byte c = 10) ending"
proof -
  let ?newline = "\<lambda>c. byte c = 13 \<or> byte c = 10"
  have "s = trim_newlines s @ rev (takeWhile ?newline (rev s))"
    unfolding trim_newlines_def rev_append [symmetric] takeWhile_dropWhile_id by simp
  moreover have "list_all ?newline (rev (takeWhile ?newline (rev s)))"
    by (simp add: list_all_iff) (blast dest: set_takeWhileD)
  ultimately show ?thesis using that by blast
qed

lemma read_token_protected:
  assumes "read_token env path = Inr token"
  shows "token_protected env path token"
proof -
  obtain m content where "ce_metadata env path = Some m" "fm_is_file m" "fm_mode m AND 0x3F = 0"
    "ce_read_to_string env path = Some content" "token = trim_newlines content" "token \<noteq> []"
    "\<not> list_ex (\<lambda>c. byte c = 13 \<or> byte c = 10) token"
    using assms by (auto simp: read_token_def Let_def result_simps)
  then show ?thesis
    using trim_newlines_split [of content] by (auto simp: token_protected_def list_all_iff list_ex_iff) metis
qed

lemma read_spec_validated:
  "read_spec env path = Inr s \<Longrightarrow> validate_flash_spec (ce_nets env) (ce_url_parse env) s = Inr ()"
  by (auto simp: read_spec_def result_simps)

lemma jget_opt_jobj: "jget_opt (jobj entries) k = map_of (rev entries) k"
  by (simp add: jget_opt_def jobj_def map_of_fold_bt_insert split: option.splits)

lemma command_body_sound:
  "command_request env base command = Inr (method, u, body) \<Longrightarrow> body_sound env command body"
  by (cases command)
     (auto simp: command_request_def update_body_def Let_def result_simps body_sound_def jget_opt_jobj
       dest!: read_spec_validated split: option.splits)

lemma command_url:
  assumes "url_paths (ce_urls env)" and "\<And>service. plain_path (uuid_show (ce_uuids env) service)"
    and "prefix ''/'' (ul_path (ce_urls env) base)" and "suffix ''/flash/services'' (ul_path (ce_urls env) base)"
    and "command_request env base command = Inr (method, u, body)"
  shows "ul_base (ce_urls env) u = ul_base (ce_urls env) base \<and>
    ul_path (ce_urls env) u = ul_path (ce_urls env) base @ resource_suffix (ce_uuids env) command"
proof -
  note at = url_paths.resource_url_at [OF assms(1,3,4,2)]
  show ?thesis
  proof (cases command)
    case (List_Services p)
    then show ?thesis using assms(5) url_paths.append_pair [OF assms(1)]
      by (auto simp: command_request_def resource_suffix_def split: option.splits)
  next
    case (Get_Service s)
    then show ?thesis using assms(5) at [of s] by (auto simp: command_request_def result_simps resource_suffix_def)
  next
    case (Create_Service p n s)
    then show ?thesis using assms(5) by (auto simp: command_request_def result_simps resource_suffix_def)
  next
    case (Update_Service s n p)
    then show ?thesis using assms(5) at [of s] by (auto simp: command_request_def result_simps resource_suffix_def)
  next
    case (Delete_Service s)
    then show ?thesis using assms(5) at [of s] by (auto simp: command_request_def result_simps resource_suffix_def)
  qed
qed

text \<open>The text of an identifier is one plain segment.\<close>

abbreviation plain_char :: "char \<Rightarrow> bool" where
  "plain_char c \<equiv> is_ascii_alphanumeric c \<or> c = CHR ''-'' \<or> c = CHR ''/''"

lemma hex_class_chars:
  assumes "rx_matches (hex_class n # ps) s" and "\<And>t. rx_matches ps t \<Longrightarrow> list_all plain_char t"
  shows "list_all plain_char s"
proof -
  obtain u t where s: "s = u @ t" and "rx_matches ps t"
    and u: "list_all (\<lambda>c. list_ex (item_matches c) [Range (CHR ''0'') (CHR ''9''), Range (CHR ''a'') (CHR ''f'')]) u"
    using assms(1) by (auto simp: hex_class_def rx_matches_Class)
  from u have "list_all plain_char u" by (rule list.pred_mono_strong) (auto simp: char_defs byte_def)
  then show ?thesis using s assms(2) [OF \<open>rx_matches ps t\<close>] by simp
qed

lemma literal_chars:
  assumes "rx_matches (Literal (CHR ''-'') # ps) s" and "\<And>t. rx_matches ps t \<Longrightarrow> list_all plain_char t"
  shows "list_all plain_char s"
  using assms by (auto simp: rx_matches_Literal)

lemma canonical_plain: "rx_matches UUID_RX s \<Longrightarrow> plain_path s"
proof -
  assume canonical: "rx_matches UUID_RX s"
  then have "list_all plain_char s"
    unfolding UUID_RX_def by (elim hex_class_chars literal_chars) (simp add: rx_matches_Nil)
  moreover have "s \<noteq> [] \<and> hd s \<noteq> CHR ''/''"
    using canonical by (cases s) (auto simp: UUID_RX_def hex_class_def rx_matches_Exactly byte_def)
  ultimately show ?thesis by (simp add: plain_path_def)
qed

text \<open>What is prepared does not depend on the client.\<close>

lemma send_fields:
  "ce_metadata (env\<lparr>ce_send := f\<rparr>) = ce_metadata env" "ce_read (env\<lparr>ce_send := f\<rparr>) = ce_read env"
  "ce_read_to_string (env\<lparr>ce_send := f\<rparr>) = ce_read_to_string env" "ce_json (env\<lparr>ce_send := f\<rparr>) = ce_json env"
  "ce_json_pretty (env\<lparr>ce_send := f\<rparr>) = ce_json_pretty env" "ce_status_text (env\<lparr>ce_send := f\<rparr>) = ce_status_text env"
  "ce_utf8_lossy (env\<lparr>ce_send := f\<rparr>) = ce_utf8_lossy env" "ce_nets (env\<lparr>ce_send := f\<rparr>) = ce_nets env"
  "ce_url_parse (env\<lparr>ce_send := f\<rparr>) = ce_url_parse env" "ce_uuids (env\<lparr>ce_send := f\<rparr>) = ce_uuids env"
  "ce_urls (env\<lparr>ce_send := f\<rparr>) = ce_urls env" "ce_client (env\<lparr>ce_send := f\<rparr>) = ce_client env"
  by simp_all

lemma send_unused:
  "read_token (env\<lparr>ce_send := f\<rparr>) = read_token env" "read_spec (env\<lparr>ce_send := f\<rparr>) = read_spec env"
  "read_answer (env\<lparr>ce_send := f\<rparr>) = read_answer env"
  by (simp_all only: read_token_def read_spec_def read_answer_def fun_eq_iff send_fields simp_thms)

lemma prepare_send_unused: "prepare_request (env\<lparr>ce_send := f\<rparr>) args = prepare_request env args"
proof -
  have "update_body (env\<lparr>ce_send := f\<rparr>) = update_body env"
    by (simp only: update_body_def fun_eq_iff send_unused send_fields simp_thms)
  then have "command_request (env\<lparr>ce_send := f\<rparr>) = command_request env"
    by (simp only: command_request_def fun_eq_iff send_unused send_fields simp_thms)
  then show ?thesis by (simp only: prepare_request_def send_unused send_fields)
qed

text \<open>
  C25. Every request of the command line tool is sound: it carries the whole token of a regular file that only its owner can access and
  that holds the token, without a line break in it, and after it nothing but line breaks; it goes to the host of the configured address, to the collection of the services of the organization below its path or
  to the resource of the named service; and a specification in its body has passed the same validation as in the provider, while an
  update without a change is not sent. The tool runs the same with a client that does something else for any other request.
  Hypotheses: the documented behaviour of joining addresses, canonical texts of identifiers, and an address with a path.
\<close>

theorem flashctl_requests_sound:
  assumes "url_paths (ce_urls env)" and "canonical_uuid_text (ce_uuids env)"
    and "prefix ''/'' (ul_path (ce_urls env) (cli_api_url args))"
  shows "run_flashctl (env\<lparr>ce_send := (\<lambda>rq. if request_sound env args rq then ce_send env rq else other rq)\<rparr>) args =
    run_flashctl env args"
proof -
  have plain: "plain_path (uuid_show (ce_uuids env) u)" for u
    by (rule canonical_plain) (rule canonical_uuid_text.canonical [OF assms(2)])
  have sound: "request_sound env args request" if prepared: "prepare_request env args = Inr request" for request
  proof -
    obtain token base verb u body where
      token: "read_token env (cli_token_file args) = Inr token" and
      base: "flash_collection_url (ce_urls env) (ce_uuids env) (cli_api_url args) (cli_organization_id args) = Inr base" and
      cmd: "command_request env base (cli_command args) = Inr (verb, u, body)" and
      request: "request = \<lparr>rq_method = verb, rq_url = u, rq_token = token, rq_body = body\<rparr>"
      using prepared by (auto simp: prepare_request_def result_simps)
    have at: "ul_base (ce_urls env) base = ul_base (ce_urls env) (cli_api_url args)" and
      path: "ul_path (ce_urls env) base = with_slash (ul_path (ce_urls env) (cli_api_url args)) @ ''organizations/'' @
        uuid_show (ce_uuids env) (cli_organization_id args) @ ''/flash/services''"
      using url_paths.collection_url [OF assms(1,3) plain, of "cli_organization_id args"] base by (auto simp: with_slash_def)
    have "prefix ''/'' (ul_path (ce_urls env) base)" and "suffix ''/flash/services'' (ul_path (ce_urls env) base)"
      using assms(3) unfolding path by (auto simp: with_slash_def suffix_def intro: prefix_prefix)
    from command_url [OF assms(1) plain this cmd] show ?thesis
      using read_token_protected [OF token] command_body_sound [OF cmd] by (simp add: request_sound_def request at path)
  qed
  note same = send_unused prepare_send_unused
  show ?thesis
    by (rule ext) (auto simp: run_flashctl_def same sound ebind_apply emap_err_def split: sum.splits)
qed

definition cli_sample :: "(simple_url http_request \<Rightarrow> (nat, unit, http_answer) effect) \<Rightarrow> (nat, cidr, simple_url) cli_env" where
  "cli_sample send =
     \<lparr>ce_metadata = (\<lambda>_. Some \<lparr>fm_is_file = True, fm_mode = 0x180\<rparr>), ce_read = (\<lambda>_. None),
      ce_read_to_string = (\<lambda>_. Some (''secret'' @ [char_of (10::nat)])), ce_json = (\<lambda>_. None), ce_json_pretty = (\<lambda>_. []),
      ce_status_text = show_nat, ce_utf8_lossy = (\<lambda>s. s), ce_nets = cidr_ops, ce_url_parse = (\<lambda>_. None), ce_uuids = hex_uuids,
      ce_urls = simple_urls, ce_client = True, ce_send = send\<rparr>"

definition cli_delete :: "simple_url cli" where
  "cli_delete =
     \<lparr>cli_api_url = \<lparr>su_base = ''https://cloud.example'', su_path = ''/api/v1'', su_pairs = []\<rparr>, cli_organization_id = 1,
      cli_token_file = ''token'', cli_command = Delete_Service 3\<rparr>"

lemma cli_delete_run:
  "run_flashctl (cli_sample (\<lambda>rq w. (Inr \<lparr>an_status = 204, an_bytes = []\<rparr>, Suc w))) cli_delete 0 = (Inr None, 1)"
proof -
  have "read_token (cli_sample send) path = Inr ''secret''" for send path
    by (simp add: read_token_def cli_sample_def ok_or_def ensure_def trim_newlines_def byte_def)
  then show ?thesis
    by (simp add: run_flashctl_def prepare_request_def flash_collection_url_def command_request_def resource_url_def simple_urls_def
        read_answer_def ok_or_def ensure_def ebind_apply emap_err_def cli_delete_def cli_sample_def Let_def)
qed

theorem flashctl_requests_sound_witness:
  "let env = cli_sample (\<lambda>rq w. (Inr \<lparr>an_status = 204, an_bytes = []\<rparr>, Suc w))
   in \<forall>other. run_flashctl (env\<lparr>ce_send := (\<lambda>rq. if request_sound env cli_delete rq then ce_send env rq else other rq)\<rparr>) cli_delete 0 =
      (Inr None, 1)"
proof -
  let ?env = "cli_sample (\<lambda>rq w. (Inr \<lparr>an_status = 204, an_bytes = []\<rparr>, Suc w))"
  have "url_paths (ce_urls ?env)" and "canonical_uuid_text (ce_uuids ?env)"
    and "prefix ''/'' (ul_path (ce_urls ?env) (cli_api_url cli_delete))"
    using simple.url_paths_axioms canonical_hex.canonical_uuid_text_axioms by (simp_all add: cli_sample_def cli_delete_def simple_urls_def)
  note same = flashctl_requests_sound [OF this]
  show ?thesis unfolding Let_def using same cli_delete_run by auto
qed

end
