(* ===== verification/Node_Tools.thy ===== *)
theory Node_Tools
  imports Activator Controller_Config Exec_Sessions
begin

text \<open>
  The start of the API and of the activator (\<open>run\<close> of \<open>bin/flash-api.rs\<close> and \<open>bin/flash-activator.rs\<close>), and two small programs that run on the
  nodes: the guard of a VPC (\<open>bin/flash-vpc-ready.rs\<close>), which keeps a workload from starting before its node is protected, and the UDP
  echo (\<open>bin/flash-udp-echo.rs\<close>).
\<close>

section \<open>Starts\<close>

record 'k api_config =
  ac_bind_addr :: string
  ac_namespace :: string
  ac_state :: "'k api_state"
  ac_exec_sessions :: nat

definition configure_api :: "('n, 'w) config_env \<Rightarrow> 'k auth_lib \<Rightarrow> startup_error + 'k api_config" where
  "configure_api env lib =
     bindR (required_var env ''FLASH_WORKLOAD_NAMESPACE'') (\<lambda>namespace.
     bindR (required_var env ''HETEROCLOUD_PROVIDER_ISSUER'') (\<lambda>issuer.
     bindR (required_var env ''HETEROCLOUD_PROVIDER_AUDIENCE'') (\<lambda>audience.
     bindR (required_var env ''HETEROCLOUD_PROVIDER_PUBLIC_KEYS_JSON'') (\<lambda>public_keys.
     bindR (map_err (\<lambda>_. Startup_Error ''configure provider authentication'') (from_public_keys_json lib issuer audience public_keys))
       (\<lambda>authenticator.
     bindR (ensure (cf_client env) (Startup_Error ''create Kubernetes client'')) (\<lambda>_.
     Inr \<lparr>ac_bind_addr = unwrap_or (cf_var env ''FLASH_API_BIND_ADDR'') ''0.0.0.0:8080'', ac_namespace = namespace,
          ac_state = \<lparr>as_authenticator = authenticator, as_public_domain = configured_public_domain (cf_var env ''FLASH_PUBLIC_DOMAIN''),
            as_backup_snapshot_class = unwrap_or (cf_var env ''FLASH_BACKUP_SNAPSHOT_CLASS'') []\<rparr>,
          ac_exec_sessions = max_exec_sessions (cf_var env ''FLASH_MAX_EXEC_SESSIONS'')\<rparr>))))))"

text \<open>The activator refuses blank variables too.\<close>

definition required_text :: "('n, 'w) config_env \<Rightarrow> string \<Rightarrow> startup_error + string" where
  "required_text env name =
     bindR (required_var env name) (\<lambda>v.
     let v = trim v
     in bindR (ensure (v \<noteq> []) (Startup_Error (name @ '' must not be empty''))) (\<lambda>_. Inr v))"

definition configure_activator :: "('n, 'w) config_env \<Rightarrow> bool \<Rightarrow> startup_error + string \<times> app_state" where
  "configure_activator env http_client =
     bindR (required_text env ''FLASH_WORKLOAD_NAMESPACE'') (\<lambda>workload_namespace.
     bindR (required_text env ''FLASH_PUBLIC_DOMAIN'') (\<lambda>public_name.
     bindR (ensure (cf_client env) (Startup_Error ''create Kubernetes client'')) (\<lambda>_.
     bindR (ensure http_client (Startup_Error ''create upstream HTTP client'')) (\<lambda>_.
     Inr (unwrap_or (cf_var env ''FLASH_ACTIVATOR_BIND_ADDR'') ''0.0.0.0:8081'',
          \<lparr>app_workload_namespace = workload_namespace, app_public_domain = public_name,
           app_cold_start_timeout = 1000 * cold_start_timeout_seconds (cf_var env ''FLASH_COLD_START_TIMEOUT_SECONDS'')\<rparr>)))))"

section \<open>The guard of a VPC\<close>

record ('w, 'u) ready_env =
  re_var :: "string \<Rightarrow> string option"
  re_url_parse :: "string \<Rightarrow> 'u option"
  re_append_pair :: "string \<Rightarrow> string \<Rightarrow> 'u \<Rightarrow> 'u"
  re_client :: bool
  re_get :: "'u \<Rightarrow> 'w \<Rightarrow> (unit + u16) \<times> 'w"
  re_sleep :: "nat \<Rightarrow> 'w \<Rightarrow> 'w"

definition show_ip_addr :: "ip_addr \<Rightarrow> string" where
  "show_ip_addr a = (case a of V4 n \<Rightarrow> show_ipv4 n | V6 n \<Rightarrow> show_ipv6 n)"

definition ready_address :: "ip_addr \<Rightarrow> string" where
  "ready_address host = ''http://'' @ show_ip_addr host @ '':18083/ready''"

text \<open>The loop ends with the first answer 204; a loop that never ends is \<open>None\<close>.\<close>

partial_function (option) await_ready :: "('w \<Rightarrow> (unit + u16) \<times> 'w) \<Rightarrow> ('w \<Rightarrow> 'w) \<Rightarrow> 'w \<Rightarrow> 'w option" where
  "await_ready get sleep w = (case get w of (answer, w') \<Rightarrow> if answer = Inr 204 then Some w' else await_ready get sleep (sleep w'))"

definition vpc_ready :: "('w, 'u) ready_env \<Rightarrow> 'w \<Rightarrow> startup_error + 'w option" where
  "vpc_ready env w =
     bindR (ok_or (re_var env ''NODE_IP'') (Startup_Error ''NODE_IP'')) (\<lambda>node_ip.
     bindR (ok_or (parse_ip_addr node_ip) (Startup_Error ''invalid IP address syntax'')) (\<lambda>host.
     bindR (ok_or (re_var env ''POD_UID'') (Startup_Error ''POD_UID'')) (\<lambda>uid.
     bindR (ok_or (re_url_parse env (ready_address host)) (Startup_Error ''invalid URL'')) (\<lambda>u.
     bindR (ensure (re_client env) (Startup_Error ''client'')) (\<lambda>_.
     Inr (await_ready (re_get env (re_append_pair env ''pod_uid'' uid u)) (re_sleep env 2) w))))))"

section \<open>The UDP echo\<close>

datatype 's recv_event = Datagram string 's | Interrupted | Receive_Failed string

datatype echo_error = Echo_Error string

definition MAX_DATAGRAM_SIZE :: nat where "MAX_DATAGRAM_SIZE = 65535"

definition configured_listen_addr :: "(string \<Rightarrow> 's option) \<Rightarrow> string option option \<Rightarrow> echo_error + 's" where
  "configured_listen_addr parse var =
     bindR (case var of
              None \<Rightarrow> Inr ''0.0.0.0:7777''
            | Some None \<Rightarrow> Inl (Echo_Error ''FLASH_ECHO_LISTEN must be valid UTF-8'')
            | Some (Some v) \<Rightarrow> Inr v) (\<lambda>v.
     bindR (ensure (v \<noteq> []) (Echo_Error ''FLASH_ECHO_LISTEN must not be empty'')) (\<lambda>_.
     ok_or (parse v) (Echo_Error (''invalid FLASH_ECHO_LISTEN '' @ v))))"

text \<open>The datagrams that are sent for a sequence of events, and the error that ends the loop, if any.\<close>

fun echo_loop ::
  "(string \<Rightarrow> 's \<Rightarrow> nat option) \<Rightarrow> 's recv_event list \<Rightarrow> (string \<times> 's) list \<times> echo_error option" where
  "echo_loop send [] = ([], None)"
| "echo_loop send (Interrupted # es) = echo_loop send es"
| "echo_loop send (Receive_Failed e # es) = ([], Some (Echo_Error (''failed to receive UDP datagram: '' @ e)))"
| "echo_loop send (Datagram d s # es) =
     (let received = take MAX_DATAGRAM_SIZE d
      in case send received s of
           None \<Rightarrow> ([], Some (Echo_Error ''failed to echo UDP datagram''))
         | Some n \<Rightarrow>
             if n \<noteq> length received then ([(received, s)], Some (Echo_Error ''incomplete UDP echo''))
             else (case echo_loop send es of (sent, e) \<Rightarrow> ((received, s) # sent, e)))"

section \<open>What the programs do\<close>

lemma required_text_nonempty: "required_text env name = Inr v \<Longrightarrow> v \<noteq> []"
  by (auto simp: required_text_def Let_def result_simps)

text \<open>An activator that starts waits between ten seconds and ten minutes, for a domain that is not empty.\<close>

lemma configured_activator:
  "configure_activator env http_client = Inr (addr, state) \<Longrightarrow>
   app_public_domain state \<noteq> [] \<and> app_workload_namespace state \<noteq> [] \<and>
   10000 \<le> app_cold_start_timeout state \<and> app_cold_start_timeout state \<le> 600000"
  by (auto simp: configure_activator_def result_simps cold_start_timeout_seconds_def clamp_def dest!: required_text_nonempty)

text \<open>An API that starts has a key and between 1 and 256 sessions.\<close>

lemma configured_api:
  assumes "configure_api env lib = Inr config"
  shows "au_keys (as_authenticator (ac_state config)) \<noteq> [] \<and> 1 \<le> ac_exec_sessions config \<and> ac_exec_sessions config \<le> 256"
proof -
  obtain encoded keys where "encoded \<noteq> []" "try_fold (add_key lib) encoded [] = Inr keys"
    "au_keys (as_authenticator (ac_state config)) = keys" "ac_exec_sessions config = max_exec_sessions (cf_var env ''FLASH_MAX_EXEC_SESSIONS'')"
    using assms by (auto simp: configure_api_def from_public_keys_json_def result_simps)
  moreover have "keys \<noteq> []" if "try_fold (add_key lib) encoded m = Inr keys" "encoded \<noteq> [] \<or> m \<noteq> []" for m encoded
    using that
  proof (induction encoded arbitrary: m)
    case (Cons e es)
    obtain m' where "add_key lib e m = Inr m'" "try_fold (add_key lib) es m' = Inr keys" using Cons.prems(1) by (auto simp: result_simps)
    moreover have "bt_insert k x m \<noteq> []" for k and x by (cases m) (auto split: if_splits)
    then have "m' \<noteq> []" if "add_key lib e m = Inr m'" using that by (cases e) (auto simp: add_key_def result_simps)
    ultimately show ?case using Cons.IH by blast
  qed simp
  ultimately show ?thesis by (auto simp: max_exec_sessions_def)
qed

text \<open>The world at the start of each attempt of the guard.\<close>

fun attempt :: "('w \<Rightarrow> (unit + u16) \<times> 'w) \<Rightarrow> ('w \<Rightarrow> 'w) \<Rightarrow> 'w \<Rightarrow> nat \<Rightarrow> 'w" where
  "attempt get sleep w 0 = w"
| "attempt get sleep w (Suc n) = attempt get sleep (sleep (snd (get w))) n"

lemma await_ready_returns:
  "fst (get (attempt get sleep w n)) = Inr 204 \<Longrightarrow> (\<And>i. i < n \<Longrightarrow> fst (get (attempt get sleep w i)) \<noteq> Inr 204) \<Longrightarrow>
   await_ready get sleep w = Some (snd (get (attempt get sleep w n)))"
proof (induction n arbitrary: w)
  case 0
  then show ?case by (subst await_ready.simps) (simp add: split_beta)
next
  case (Suc n)
  have "fst (get w) \<noteq> Inr 204" using Suc.prems(2) [of 0] by simp
  moreover have "await_ready get sleep (sleep (snd (get w))) = Some (snd (get (attempt get sleep (sleep (snd (get w))) n)))"
    using Suc.prems by (intro Suc.IH) (auto dest: Suc.prems(2) [OF Suc_mono])
  ultimately show ?case by (subst await_ready.simps) (simp add: split_beta)
qed

lemma await_ready_answered:
  assumes "await_ready get sleep w = Some w'"
  shows "\<exists>n. fst (get (attempt get sleep w n)) = Inr 204"
proof (rule await_ready.raw_induct [OF _ assms])
  fix await :: "('w \<Rightarrow> (unit + u16) \<times> 'w) \<Rightarrow> ('w \<Rightarrow> 'w) \<Rightarrow> 'w \<Rightarrow> 'w option" and get sleep w w'
  assume IH: "\<And>get sleep w w'. await get sleep w = Some w' \<Longrightarrow> \<exists>n. fst (get (attempt get sleep w n)) = Inr 204"
    and body: "(case get w of (answer, w') \<Rightarrow> if answer = Inr 204 then Some w' else await get sleep (sleep w')) = Some w'"
  show "\<exists>n. fst (get (attempt get sleep w n)) = Inr 204"
  proof (cases "fst (get w) = Inr 204")
    case True
    then show ?thesis by (intro exI [of _ 0]) simp
  next
    case False
    then have "await get sleep (sleep (snd (get w))) = Some w'" using body by (simp add: split_beta)
    from IH [OF this] obtain n where "fst (get (attempt get sleep (sleep (snd (get w))) n)) = Inr 204" by blast
    then show ?thesis by (intro exI [of _ "Suc n"]) simp
  qed
qed

text \<open>
  C27. A workload in a VPC starts only after its node is guarded. Once the guard runs, it asks the node of its pod about its pod until
  the first answer 204, and ends right after that answer, with no other answer or error ending it; it ends if there ever is such
  an answer and waits for ever otherwise.
\<close>

theorem vpc_ready_waits_for_guard:
  assumes "vpc_ready env w = Inr result"
  shows "\<exists>node_ip host uid u. re_var env ''NODE_IP'' = Some node_ip \<and> parse_ip_addr node_ip = Some host \<and> re_var env ''POD_UID'' = Some uid \<and>
    re_url_parse env (ready_address host) = Some u \<and>
    (let get = re_get env (re_append_pair env ''pod_uid'' uid u); at = attempt get (re_sleep env 2) w
     in (result = None \<longleftrightarrow> (\<forall>n. fst (get (at n)) \<noteq> Inr 204)) \<and>
        (\<forall>n. fst (get (at n)) = Inr 204 \<and> (\<forall>i < n. fst (get (at i)) \<noteq> Inr 204) \<longrightarrow> result = Some (snd (get (at n)))))"
proof -
  obtain node_ip host uid u where parts: "re_var env ''NODE_IP'' = Some node_ip" "parse_ip_addr node_ip = Some host"
    "re_var env ''POD_UID'' = Some uid" "re_url_parse env (ready_address host) = Some u"
    and result: "result = await_ready (re_get env (re_append_pair env ''pod_uid'' uid u)) (re_sleep env 2) w"
    using assms by (auto simp: vpc_ready_def result_simps)
  let ?get = "re_get env (re_append_pair env ''pod_uid'' uid u)" and ?sleep = "re_sleep env 2"
  have "result \<noteq> None" if "fst (?get (attempt ?get ?sleep w n)) = Inr 204" for n
  proof -
    from that have "fst (?get (attempt ?get ?sleep w (LEAST n. fst (?get (attempt ?get ?sleep w n)) = Inr 204))) = Inr 204"
      by (rule LeastI)
    then have "await_ready ?get ?sleep w \<noteq> None"
      using await_ready_returns [of ?get ?sleep w "LEAST n. fst (?get (attempt ?get ?sleep w n)) = Inr 204"] not_less_Least by blast
    then show ?thesis by (simp add: result)
  qed
  then have "result = None \<longleftrightarrow> (\<forall>n. fst (?get (attempt ?get ?sleep w n)) \<noteq> Inr 204)"
    using await_ready_answered [of ?get ?sleep w] result by (metis not_None_eq)
  with parts show ?thesis
    unfolding Let_def using await_ready_returns [of ?get ?sleep w] result by (intro exI) auto
qed

section \<open>Nodes with an IPv6 address\<close>

text \<open>
  The standard of URLs: a host that is not in brackets ends at its first colon, and what follows up to the path is a decimal port.
\<close>

definition splits_authority :: "(string \<Rightarrow> 'u option) \<Rightarrow> bool" where
  "splits_authority parse \<longleftrightarrow>
     (\<forall>host port path. list_all (\<lambda>c. is_ascii_hexdigit c \<or> c = CHR '':'' \<or> c = CHR ''.'') (host @ port) \<and> CHR '':'' \<notin> set host \<and>
        \<not> list_all is_ascii_digit port \<longrightarrow> parse (''http://'' @ host @ '':'' @ port @ ''/'' @ path) = None)"

lemma show_hex_hexdigits: "list_all is_ascii_hexdigit (show_hex n)"
proof (induction n rule: show_hex.induct)
  case (1 n)
  then show ?case
    using hex_char_hexdigit [of n] hex_char_hexdigit [of "n mod 16"]
    by (subst show_hex.simps) (auto simp: list_all_iff)
qed

abbreviation address_char :: "char \<Rightarrow> bool" where
  "address_char c \<equiv> is_ascii_hexdigit c \<or> c = CHR '':'' \<or> c = CHR ''.''"

lemma join_chars: "list_all P d \<Longrightarrow> (\<And>s. s \<in> set ss \<Longrightarrow> list_all P s) \<Longrightarrow> list_all P (join d ss)"
  by (induction d ss rule: join.induct) auto

lemma join_separator: "2 \<le> length ss \<Longrightarrow> c \<in> set d \<Longrightarrow> c \<in> set (join d ss)"
  by (cases "(d, ss)" rule: join.cases) auto

lemma show_nat_hexdigits: "list_all is_ascii_hexdigit (show_nat n)"
  by (rule list.pred_mono_strong [OF show_nat_digits]) (simp add: is_ascii_hexdigit_def)

lemma show_ipv4_chars: "list_all address_char (show_ipv4 a)"
  unfolding show_ipv4_def Let_def
  by (intro join_chars) (auto intro: list.pred_mono_strong [OF show_nat_hexdigits])

lemma shown_chars: "list_all address_char (join '':'' (map show_hex ss))"
  by (intro join_chars) (auto intro: list.pred_mono_strong [OF show_hex_hexdigits])

lemma show_ipv6_chars: "list_all address_char (show_ipv6 a) \<and> CHR '':'' \<in> set (show_ipv6 a)"
proof -
  have "CHR '':'' \<in> set (join '':'' (map show_hex (segments a)))" by (rule join_separator) (simp_all add: segments_def)
  then show ?thesis
    using show_ipv4_chars [of "of_nat (unat a mod 2 ^ 32)"] shown_chars
    by (simp add: show_ipv6_def Let_def split_beta is_ascii_hexdigit_def char_defs byte_def del: list_all_append)
       (simp add: shown_chars)
qed

text \<open>
  C40. On a node whose address is an IPv6 address the guard always ends with an error: it writes the address without brackets in front of
  the port, which no parser that follows the standard accepts. It never asks the node, so no workload in a VPC starts there, guarded or not.
  Hypothesis: the parser follows the standard.
\<close>

theorem ipv6_node_never_ready:
  assumes "splits_authority (re_url_parse env)"
    and "re_var env ''NODE_IP'' = Some node_ip" and "parse_ip_addr node_ip = Some (V6 a)"
  shows "\<exists>e. vpc_ready env w = Inl e"
proof -
  obtain host port where shown: "show_ipv6 a = host @ CHR '':'' # port" and "CHR '':'' \<notin> set host"
    using show_ipv6_chars [of a] by (metis split_list_first)
  moreover have "list_all address_char (host @ port @ '':18083'')"
    using show_ipv6_chars [of a] by (simp add: shown is_ascii_hexdigit_def char_defs byte_def)
  moreover have "\<not> list_all is_ascii_digit (port @ '':18083'')" by (simp add: char_defs byte_def)
  ultimately have "re_url_parse env (''http://'' @ host @ '':'' @ (port @ '':18083'') @ ''/'' @ ''ready'') = None"
    using assms(1) unfolding splits_authority_def by blast
  then have "re_url_parse env (ready_address (V6 a)) = None" by (simp add: ready_address_def show_ip_addr_def shown)
  then show ?thesis using assms(2,3) by (cases "re_var env ''POD_UID''") (simp_all add: vpc_ready_def ok_or_def)
qed

text \<open>A parser that reads the host and the port.\<close>

definition parse_authority :: "string \<Rightarrow> string option" where
  "parse_authority s =
     Option.bind (strip_prefix ''http://'' s) (\<lambda>t.
     case split_once (CHR '':'') (takeWhile (\<lambda>c. c \<noteq> CHR ''/'') t) of
       None \<Rightarrow> Some s
     | Some (_, port) \<Rightarrow> if list_all is_ascii_digit port then Some s else None)"

lemma split_once_at: "d \<notin> set a \<Longrightarrow> split_once d (a @ d # b) = Some (a, b)"
  by (induction a) auto

lemma parse_authority_splits: "splits_authority parse_authority"
proof -
  have "parse_authority (''http://'' @ host @ '':'' @ port @ ''/'' @ path) = None"
    if chars: "list_all address_char (host @ port)" and "CHR '':'' \<notin> set host" "\<not> list_all is_ascii_digit port" for host port path
  proof -
    have "strip_prefix ''http://'' (''http://'' @ host @ '':'' @ port @ ''/'' @ path) = Some (host @ '':'' @ port @ ''/'' @ path)"
      by (simp only: strip_prefix_Some)
    moreover have "\<not> address_char (CHR ''/'')" by (simp add: is_ascii_hexdigit_def char_defs byte_def)
    then have "\<forall>c \<in> set (host @ '':'' @ port). c \<noteq> CHR ''/''" using chars by (auto simp: list_all_iff)
    then have "takeWhile (\<lambda>c. c \<noteq> CHR ''/'') ((host @ '':'' @ port) @ ''/'' @ path) = host @ '':'' @ port"
      by (subst takeWhile_append2) auto
    ultimately show ?thesis using that(2,3) by (simp add: parse_authority_def split_once_at)
  qed
  then show ?thesis unfolding splits_authority_def by blast
qed

definition ready_sample :: "(string \<Rightarrow> string option) \<Rightarrow> string \<Rightarrow> (nat, string) ready_env" where
  "ready_sample parse node_ip =
     \<lparr>re_var = map_of [(''NODE_IP'', node_ip), (''POD_UID'', ''pod'')], re_url_parse = parse,
      re_append_pair = (\<lambda>k v u. u @ ''?'' @ k @ ''='' @ v), re_client = True,
      re_get = (\<lambda>u w. (if w < 4 then Inr 503 else Inr 204, w)), re_sleep = (\<lambda>s w. w + s)\<rparr>"

lemma zero_groups: "foldl (\<lambda>a g. 65536 * a + g) (0::nat) (replicate n 0) = 0"
  by (induction n) simp_all

lemma sample_addresses: "parse_ip_addr ''::1'' = Some (V6 1)" "parse_ip_addr ''10.0.0.1'' = Some (V4 167772161)"
  by (simp_all add: parse_ip_addr_def parse_ipv4_def parse_octet_def parse_digits_def digits_value_def parse_ipv6_def parse_run_def
      parse_group_def hex_value_def groups_value_def zero_groups char_defs byte_def)

theorem ipv6_node_never_ready_witness: "\<exists>e. vpc_ready (ready_sample parse_authority ''::1'') 0 = Inl e"
  by (rule ipv6_node_never_ready [of _ "''::1''" 1]) (simp_all add: ready_sample_def parse_authority_splits sample_addresses)

theorem vpc_ready_waits_for_guard_witness: "vpc_ready (ready_sample Some ''10.0.0.1'') 0 = Inr (Some 4)"
proof -
  let ?env = "ready_sample Some ''10.0.0.1''"
  obtain result where result: "vpc_ready ?env 0 = Inr result"
    by (simp add: vpc_ready_def ready_sample_def sample_addresses ok_or_def ensure_def)
  from vpc_ready_waits_for_guard [OF result] obtain u where
    first: "\<forall>n. fst (re_get ?env u (attempt (re_get ?env u) (re_sleep ?env 2) 0 n)) = Inr 204 \<and>
      (\<forall>i < n. fst (re_get ?env u (attempt (re_get ?env u) (re_sleep ?env 2) 0 i)) \<noteq> Inr 204) \<longrightarrow>
      result = Some (snd (re_get ?env u (attempt (re_get ?env u) (re_sleep ?env 2) 0 n)))"
    unfolding Let_def by blast
  have "attempt (re_get ?env u) (re_sleep ?env 2) 0 i = 2 * i" for i
  proof -
    have "attempt (re_get ?env u) (re_sleep ?env 2) w i = w + 2 * i" for w
      by (induction i arbitrary: w) (simp_all add: ready_sample_def)
    then show ?thesis by simp
  qed
  then have "result = Some 4" using first [rule_format, of 2] by (simp add: ready_sample_def)
  then show ?thesis using result by simp
qed

text \<open>Every datagram goes back to where it came from, whole and in order; the loop ends only with an error.\<close>

lemma echo_faithful:
  "echo_loop send es = (sent, None) \<Longrightarrow> list_all (\<lambda>e. case e of Datagram d _ \<Rightarrow> length d \<le> MAX_DATAGRAM_SIZE | _ \<Rightarrow> True) es \<Longrightarrow>
   sent = List.map_filter (\<lambda>e. case e of Datagram d s \<Rightarrow> Some (d, s) | _ \<Rightarrow> None) es"
  by (induction send es arbitrary: sent rule: echo_loop.induct)
     (auto simp: Let_def map_filter_simps split: option.splits prod.splits if_splits)

end
