(* ===== verification/Spec2Isabelle.thy ===== *)
theory Spec2Isabelle
  imports Spec_Properties Gpu_Leases Meter_Properties Storage_Properties Image_Properties Policy_Properties
    Workload_Properties Destination_Properties Backup_Properties Activator Web_Auth_Properties Status_Patch
    Deployment_Properties Reconcile_Properties Api_Properties Session_Properties Admin_Properties Object_Properties
    Crd_Properties Flashctl Node_Tools
begin

text \<open>
  Verification of HeteroCloud Flash, a container service on Kubernetes (Rust, under \<open>src/src\<close>).

  \<^bold>\<open>The program.\<close> A customer's service is a \<open>FlashService\<close> resource (\<open>crd.rs\<close>) whose workload is described by a \<open>FlashSpec\<close>
  (\<open>domain.rs\<close>, with \<open>deployment.rs\<close> and \<open>vpc.rs\<close>). The provider API (\<open>bin/flash-api.rs\<close>) accepts commands with a signed token
  (\<open>auth.rs\<close>): it writes services, their secrets, domains and backups, reports usage, and opens shells in their pods. The
  controller (\<open>reconcile.rs\<close>) validates a service, measures what it uses, decides about quotas, inspects its image (\<open>image.rs\<close>),
  splits its disk, derives the Kubernetes objects from it (deployment, \<open>Service\<close>, network policy, route, claim, autoscaler;
  \<open>web.rs\<close>), puts authentication in front of it (\<open>lb_auth.rs\<close>) and publishes its domains (\<open>custom_domains.rs\<close>), asks a capacity
  service whether it fits (\<open>capacity.rs\<close>), queues a job for its GPU and reports its state (\<open>diagnostics.rs\<close>). The GPU scheduler
  (\<open>gpu_scheduler.rs\<close>) leases devices of an inventory to these jobs. A backup controller (\<open>backups.rs\<close>) takes snapshots of
  disks into destinations (\<open>backup_destinations.rs\<close>) under a lock on the volume. The activator (\<open>bin/flash-activator.rs\<close>)
  wakes a service that was scaled to zero. The definitions of the resources, with rules that the server enforces, are generated by
  \<open>bin/flash-crdgen.rs\<close>; \<open>bin/flashctl.rs\<close> is the command line of a customer, and \<open>bin/flash-vpc-ready.rs\<close> keeps a workload in a VPC from
  starting before its node is guarded. The components share no memory: they interact through resources of the API server,
  read and replaced under resource versions.

  \<^bold>\<open>How code becomes definitions.\<close> A struct is a record, an enum a datatype, \<open>Result\<close> a sum with the error on the left, \<open>?\<close> is
  \<open>bindR\<close>, an early return with an error is \<open>ensure\<close>, a loop with \<open>?\<close> is \<open>try_fold\<close> or \<open>for_each\<close> or a recursive function. Unsigned
  integers are naturals and signed ones integers, with every saturating, checked or wrapping operation written out
  (\<open>Flash_Prelude\<close>); IP addresses and UUIDs are words. Strings are lists of bytes (\<open>Rust_Strings\<close>), a \<open>BTreeMap\<close> is a sorted
  association list, JSON a datatype. An asynchronous function that calls the API server is an \<open>effect\<close> (\<open>Kube_Objects\<close>): a function
  from the state of the world to a result and the next state, where the calls are fields of a record that is an argument, so the
  world is arbitrary and may be changed by others between two calls. Hoare triples \<open>gives\<close> state what a computation leaves. That a call
  is made only under a condition is stated by replacing the call, where the condition fails, by an arbitrary one: the run is the
  same. Libraries that are not in the repository are arguments too: the \<open>ipnet\<close> crate (\<open>ipnet_ops\<close>), the OCI client (\<open>oci_client\<close>),
  the \<open>uuid\<close> crate (\<open>uuid_ops\<close>), the JWT library (\<open>auth_lib\<close>), the URL parser, and the texts of foreign errors. What is relied on is a
  locale: \<open>ip_network\<close> and \<open>ip_network_text\<close> (networks as sets of addresses), \<open>policy_text\<close> (the printed form of a network),
  \<open>gpu_store\<close> (replacement of a device under its resource version, with other clients that write before every call), \<open>usage_store\<close> (usage records), \<open>image_registry\<close> (a registry and
  the credentials shown to it), \<open>volume_store\<close> (volumes under resource versions), \<open>uuid_text\<close> and \<open>uuid_hostname\<close> (the texts of
  identifiers) with \<open>canonical_uuid_text\<close> as its extension, \<open>merge_patch\<close> (JSON merge patches), \<open>session_permits\<close> (the semaphore of
  sessions), \<open>url_paths\<close> (joining addresses). Each is interpreted on a
  complete implementation, on which the witnesses of the properties run.

  \<^bold>\<open>Theories.\<close>
    \<^item> \<open>Flash_Prelude\<close>, \<open>Rust_Strings\<close>, \<open>Version_Codes\<close>, \<open>Uuid_Text\<close>, \<open>Json_Objects\<close>: integers, results, sorting, searching; bytes, splitting, printing and
      parsing of numbers, ordered maps; injective texts, from which the stores of the witnesses make their resource versions; identifiers; JSON values and
      their access.
    \<^item> \<open>Ip_Net\<close>: addresses, the parser of \<open>std::net\<close>, the interface of networks and a CIDR implementation of it.
    \<^item> \<open>Validation\<close>, \<open>Domain\<close>: \<open>deployment.rs\<close>, \<open>vpc.rs\<close> and \<open>domain.rs\<close>: every data type, limit and validation, and the arithmetic of
      source and destination networks. \<open>Network_Sets\<close>: the networks that are computed contain exactly the addresses the policy means.
      The recursion of \<open>subtract_network\<close> has fuel 129: a step lengthens the prefix by one and no prefix is longer than 128 bits, so it
      never runs out, which is proved. \<open>Spec_Properties\<close>: what an accepted specification satisfies.
    \<^item> \<open>Diagnostics\<close>, \<open>Crd\<close>, \<open>Kube_Objects\<close>: \<open>diagnostics.rs\<close>, \<open>crd.rs\<close>, and the objects of the cluster as far as they are read.
    \<^item> \<open>Gpu_Inventory\<close>, \<open>Gpu_Scheduler\<close>, \<open>Gpu_Leases\<close>: \<open>gpu_scheduler.rs\<close>: candidates, fair order of the queue and catalog; leases and the
      reconciliation of a job; that every write of a pass, with other clients between its calls, is a legal step of the lease or the renewal of the own
      assignment, that a finished job gives its device back, and that the renewal is not such a step when another job has the lease by then.
    \<^item> \<open>Metering\<close>, \<open>Meter_Properties\<close>: the weekly meter of \<open>reconcile.rs\<close>: projections add up, totals are exact, recorded usage is never
      lost, quota and scheduler agree.
    \<^item> \<open>Storage\<close>, \<open>Storage_Properties\<close>: image sizes, the split of the disk and quantities: the split fits, never shrinks a home, is stable
      and succeeds when there is room; quantities round trip.
    \<^item> \<open>Image_Inspection\<close>, \<open>Image_Properties\<close>: \<open>ImageInspector\<close> and the reuse of an inspection: what is pinned has been measured, credentials
      stay with their registry, reuse stays within an organization and an immutable digest.
    \<^item> \<open>Service_Objects\<close>, \<open>Network_Policy\<close>, \<open>Policy_Properties\<close>: the objects derived from a service; the network policy admits exactly what
      the specification says, for addresses and for pods.
    \<^item> \<open>Deployments\<close>, \<open>Scaling\<close>, \<open>Deployment_Properties\<close>: the deployment with its pod, its update and scaling: isolation of the pod, ownership
      of fields, the generation that marks a change.
    \<^item> \<open>Workload_Status\<close>, \<open>Status_Patch\<close>, \<open>Gpu_Request\<close>, \<open>Workload_Properties\<close>: the observed state of a workload and its serialization as a merge
      patch, with what the server has stored of every field afterwards, the GPU job of a service, the source ranges of a load balancer, the persistent claim.
    \<^item> \<open>Web_Auth\<close>, \<open>Web_Auth_Properties\<close>: \<open>lb_auth.rs\<close> and \<open>custom_domains.rs\<close>: a policy changes only behind a blocked route.
    \<^item> \<open>Reconcile\<close>, \<open>Reconcile_Properties\<close>: \<open>capacity.rs\<close> and the main pass of \<open>reconcile.rs\<close>, stage by stage: what is not written when the
      specification is refused, the quota is exhausted or authentication is not accepted, and which of the refusals may drain a service.
    \<^item> \<open>Backup_Destinations\<close>, \<open>Destination_Properties\<close>: destinations: tenants stay apart, credentials stay out of what is stored openly,
      a refused request writes nothing.
    \<^item> \<open>Backups\<close>, \<open>Backup_Calls\<close>, \<open>Volume_Lock\<close>, \<open>Backup_Properties\<close>: backups and their controller as a state machine; the lock on a volume refines
      a lock that one holder has at a time; the statuses are merge patches that clear nothing; the sizes of disks that the two readers of the
      program accept and how they read them. \<open>create\<close> retries after a conflict and has fuel; it is shown to return.
    \<^item> \<open>Provider_Auth\<close>: tokens and their window of validity.
    \<^item> \<open>Provider_Api\<close>, \<open>Provider_Admin\<close>, \<open>Provider_Objects\<close>, \<open>Exec_Sessions\<close>, \<open>Provider_Router\<close>: the handlers of the API, its routes, and the sessions of
      shells and SSH, which consume the sequence of events that \<open>select!\<close> yields; the shutdown is a step relation. \<open>Api_Properties\<close>: no command
      runs without its token, updates of a service are legal, quota refreshes are fenced. \<open>Object_Properties\<close>: secrets and domains.
      \<open>Admin_Properties\<close>: usage report and GPU access. \<open>Session_Properties\<close>: permits, shutdown, and what a client sees of a process.
    \<^item> \<open>Activator\<close>: host names, the decision to wake, the wait for readiness (with fuel: it polls every 250 milliseconds, so the deadline bounds the
      number of polls, and with calls of bounded duration also the time of the return, which is proved), and the forwarding of requests.
    \<^item> \<open>Spec_Json\<close>: what is written and read as the JSON form of a specification; it round trips and unknown fields are refused.
      \<open>Crd_Rules\<close>: the rules of the resource definitions as syntax of CEL and of regular expressions. Their printed form is proved to be the text
      of the source, word for word, and their evaluation follows the semantics of the server. \<open>Crd_Properties\<close>: each group of rules means exactly
      what its message says, and the API never applies what they refuse.
    \<^item> \<open>Controller_Config\<close>: the start of the controller and what a controller that starts relies on. \<open>Flashctl\<close>: the command line tool and the requests it
      sends. \<open>Node_Tools\<close>: the starts of API and activator, the UDP echo, and the guard of a VPC, whose loop is a partial function: it returns exactly
      when the node ever answers 204, and it never gets that far on a node with an IPv6 address.

  \<^bold>\<open>Not modelled.\<close> The watch loops of the controller runtime: a pass is one call. The reading of requests by the web framework, the parsing of
  command line arguments, and the byte streams of proxied connections and WebSockets are I/O or derived code. The schemas of the resources
  are generated by a library from the types; only the ranges and rules that the sources add to them are modelled, for services, their workload
  and their policy. Clock readings are
  arguments. Error messages of validations keep their format text and arguments; those of foreign libraries are parameters. Numbers in JSON values are integers: the fractions that the free metadata of
  a specification may hold are left out; the program only stores and returns that metadata.
\<close>

end
